(* ===== verification/Rtc_Prelude.thy ===== *)
theory Rtc_Prelude
  imports Main "HOL-Library.AList"
begin

text \<open>
  What the components share: Python's exceptions as values, dictionaries as association
  lists, the string operations the sources call, decoded JSON values, and the lemma
  collections \<open>dict_simps\<close> and \<open>str_simps\<close>.

  A Python method that may raise and that changes state is a function from the state to a
  pair of a result and the new state: \<open>Inl e\<close> is a raised exception, and the state next to
  it is the state at the raise, because an assignment made before a raise stays made.
\<close>

named_theorems dict_simps "look-up, keys and distinctness of updated dictionaries"
named_theorems str_simps "split, join, startswith and replace"

section \<open>Exceptions and results\<close>

datatype py_exc =
    KeyError string
  | ValueError string
  | IndexError string
  | TypeError string
  | AttributeError string
  | IOError string
  | NameError string
  | AssertionError string
  | FaultyAction string
  | InvalidTcpMessage string
  | ExecutionStartError string
  | ExecutionRunError string
  | ExecutionConfigurationError string
  | ExitRtc string
  | StopTestCaseOnFail string
  | BatError string
  | SkipPhase string
  | ExecutionNotAllowed string
  | KeyboardInterrupt
  | Disconnected
  | CannotConnect
  | PyException string

type_synonym 'a res = "py_exc + 'a"

text \<open>\<open>str(e)\<close>. The text of a \<open>KeyError\<close> is the \<open>repr\<close> of the missing key.\<close>

fun exc_str :: "py_exc \<Rightarrow> string" where
  "exc_str (KeyError k) = [CHR 0x27] @ k @ [CHR 0x27]"
| "exc_str (ValueError m) = m"
| "exc_str (IndexError m) = m"
| "exc_str (TypeError m) = m"
| "exc_str (AttributeError m) = m"
| "exc_str (IOError m) = m"
| "exc_str (NameError m) = m"
| "exc_str (AssertionError m) = m"
| "exc_str (FaultyAction m) = ''FAILED. '' @ m"
| "exc_str (InvalidTcpMessage m) = ''FAILED. '' @ m"
| "exc_str (ExecutionStartError m) = ''Execution Start Error: '' @ m"
| "exc_str (ExecutionRunError m) = ''Execution Run Error: '' @ m"
| "exc_str (ExecutionConfigurationError m) = ''Execution Configuration Error: '' @ m"
| "exc_str (ExitRtc m) = ''Exit RTC: '' @ m"
| "exc_str (StopTestCaseOnFail m) = ''Stop TestCase on fail: '' @ m"
| "exc_str (BatError m) = ''BAT Error: '' @ m"
| "exc_str (SkipPhase m) = ''Skip phase on fail: '' @ m @ '' ''"
| "exc_str (ExecutionNotAllowed m) = m"
| "exc_str KeyboardInterrupt = []"
| "exc_str Disconnected = ''Remote service is down''"
| "exc_str CannotConnect = ''Cannot connect to service via DBus''"
| "exc_str (PyException m) = m"

text \<open>Sequencing: an exception skips what follows and keeps the state it was raised in.\<close>

definition andthen :: "('e + 'a) \<times> 's \<Rightarrow> ('a \<Rightarrow> 's \<Rightarrow> ('e + 'b) \<times> 's) \<Rightarrow> ('e + 'b) \<times> 's" where
  "andthen p f = (case p of (Inl e, s) \<Rightarrow> (Inl e, s) | (Inr v, s) \<Rightarrow> f v s)"

definition done_with :: "'s \<Rightarrow> ('e + unit) \<times> 's" where
  "done_with s = (Inr (), s)"

definition bind_res :: "'e + 'a \<Rightarrow> ('a \<Rightarrow> 'e + 'b) \<Rightarrow> 'e + 'b" where
  "bind_res r f = (case r of Inl e \<Rightarrow> Inl e | Inr v \<Rightarrow> f v)"

text \<open>\<open>for x in xs: f(x)\<close>\<close>

fun for_each :: "('x \<Rightarrow> 's \<Rightarrow> ('e + 'a) \<times> 's) \<Rightarrow> 'x list \<Rightarrow> 's \<Rightarrow> ('e + unit) \<times> 's" where
  "for_each f [] s = (Inr (), s)"
| "for_each f (x # xs) s = andthen (f x s) (\<lambda>_. for_each f xs)"

lemma andthen_simps [simp]:
  "andthen (Inl e, s) f = (Inl e, s)" "andthen (Inr v, s) f = f v s"
  by (simp_all add: andthen_def)

lemma andthen_assoc: "andthen (andthen p f) g = andthen p (\<lambda>v s. andthen (f v s) g)"
  by (simp add: andthen_def split: prod.split sum.split)

lemma andthen_Inr:
  "andthen p f = (Inr w, t) \<longleftrightarrow> (\<exists>v s. p = (Inr v, s) \<and> f v s = (Inr w, t))"
  by (auto simp: andthen_def split: prod.splits sum.splits)

lemma andthen_Inl:
  "andthen p f = (Inl e, t) \<longleftrightarrow> p = (Inl e, t) \<or> (\<exists>v s. p = (Inr v, s) \<and> f v s = (Inl e, t))"
  by (auto simp: andthen_def split: prod.splits sum.splits)

lemma for_each_append:
  "for_each f (xs @ ys) s = andthen (for_each f xs s) (\<lambda>_. for_each f ys)"
  by (induction xs arbitrary: s) (auto simp: andthen_def split: prod.split sum.split)

text \<open>
  What a method leaves alone is a preorder on its states. If every statement keeps to it, so do
  sequences, branches and loops: components instantiate \<open>state_frame\<close> with their own relation.
\<close>

locale state_frame =
  fixes frame :: "'s \<Rightarrow> 's \<Rightarrow> bool"
  assumes refl: "frame s s"
    and trans: "frame s t \<Longrightarrow> frame t u \<Longrightarrow> frame s u"
begin

lemma pair: "frame s t \<Longrightarrow> frame s (snd (v, t))"
  by simp

lemma branch: "(b \<Longrightarrow> frame s (snd p)) \<Longrightarrow> (\<not> b \<Longrightarrow> frame s (snd q)) \<Longrightarrow> frame s (snd (if b then p else q))"
  by simp

lemma seq: "frame s (snd p) \<Longrightarrow> (\<And>v t. frame t (snd (f v t))) \<Longrightarrow> frame s (snd (andthen p f))"
  by (cases p; cases "fst p") (auto intro: trans)

lemma iterate: "(\<And>x s. frame s (snd (f x s))) \<Longrightarrow> frame s (snd (for_each f xs s))"
  by (induction xs arbitrary: s) (auto intro: refl seq)

lemma fold_steps: "(\<And>x s. frame s (f x s)) \<Longrightarrow> frame s (fold f xs s)"
  by (induction xs arbitrary: s) (auto intro: refl trans)

end

section \<open>Lists\<close>

text \<open>\<open>xs[i]\<close> of Python: a negative index counts from the end.\<close>

definition py_nth :: "'a list \<Rightarrow> int \<Rightarrow> 'a res" where
  "py_nth xs i =
     (let j = (if i < 0 then i + int (length xs) else i)
      in if 0 \<le> j \<and> j < int (length xs) then Inr (xs ! nat j)
         else Inl (IndexError ''list index out of range''))"

text \<open>\<open>xs[:i]\<close>\<close>

definition py_take :: "int \<Rightarrow> 'a list \<Rightarrow> 'a list" where
  "py_take i xs = take (nat (if i < 0 then i + int (length xs) else i)) xs"

text \<open>\<open>s.splitlines()\<close>, with the newline as the only line end.\<close>

fun splitlines :: "string \<Rightarrow> string list" where
  "splitlines [] = []"
| "splitlines (c # cs) =
     (if c = CHR 0x0A then [] # splitlines cs
      else case splitlines cs of
        [] \<Rightarrow> [[c]]
      | l # ls \<Rightarrow> (c # l) # ls)"

section \<open>Dictionaries\<close>

text \<open>
  A dictionary is an association list with distinct keys: assignment replaces the value in
  place or appends a new key. Python 2 leaves the iteration order open; the model iterates
  in the order of the list.
\<close>

type_synonym ('k, 'v) dict = "('k \<times> 'v) list"

abbreviation dict_set :: "'k \<Rightarrow> 'v \<Rightarrow> ('k, 'v) dict \<Rightarrow> ('k, 'v) dict" where
  "dict_set \<equiv> AList.update"

abbreviation dict_del :: "'k \<Rightarrow> ('k, 'v) dict \<Rightarrow> ('k, 'v) dict" where
  "dict_del \<equiv> AList.delete"

abbreviation dict_keys :: "('k, 'v) dict \<Rightarrow> 'k list" where
  "dict_keys d \<equiv> map fst d"

abbreviation dict_values :: "('k, 'v) dict \<Rightarrow> 'v list" where
  "dict_values d \<equiv> map snd d"

definition dict_modify :: "'k \<Rightarrow> ('v \<Rightarrow> 'v) \<Rightarrow> ('k, 'v) dict \<Rightarrow> ('k, 'v) dict" where
  "dict_modify k f d = (case map_of d k of None \<Rightarrow> d | Some v \<Rightarrow> dict_set k (f v) d)"

definition dict_map :: "('k \<Rightarrow> 'v \<Rightarrow> 'v) \<Rightarrow> ('k, 'v) dict \<Rightarrow> ('k, 'v) dict" where
  "dict_map f d = map (\<lambda>(k, v). (k, f k v)) d"

declare update_conv' [dict_simps] delete_conv' [dict_simps]

lemma keys_set_present [dict_simps]:
  "k \<in> set (dict_keys d) \<Longrightarrow> dict_keys (dict_set k v d) = dict_keys d"
  by (induction d) auto

lemma keys_set_absent [dict_simps]:
  "k \<notin> set (dict_keys d) \<Longrightarrow> dict_keys (dict_set k v d) = dict_keys d @ [k]"
  by (induction d) auto

lemma set_keys_set [dict_simps]:
  "set (dict_keys (dict_set k v d)) = insert k (set (dict_keys d))"
  by (induction d) auto

lemma distinct_keys_set [dict_simps]:
  "distinct (dict_keys d) \<Longrightarrow> distinct (dict_keys (dict_set k v d))"
  by (rule distinct_update)

lemma set_keys_del [dict_simps]: "set (dict_keys (dict_del k d)) = set (dict_keys d) - {k}"
  by (simp add: delete_keys)

lemma fst_dict_set [dict_simps]: "fst ` set (dict_set k v d) = insert k (fst ` set d)"
  using set_keys_set [of k v d] by simp

lemma fst_dict_del [dict_simps]: "fst ` set (dict_del k d) = fst ` set d - {k}"
  using set_keys_del [of k d] by simp

lemma distinct_keys_del [dict_simps]:
  "distinct (dict_keys d) \<Longrightarrow> distinct (dict_keys (dict_del k d))"
  by (rule distinct_delete)

lemma map_of_in_keys: "map_of d k = Some v \<Longrightarrow> k \<in> set (dict_keys d)"
  by (force dest: map_of_SomeD)

lemma map_of_none_keys: "map_of d k = None \<longleftrightarrow> k \<notin> set (dict_keys d)"
  by (simp add: map_of_eq_None_iff)

lemma keys_modify [dict_simps]: "dict_keys (dict_modify k f d) = dict_keys d"
  by (auto simp: dict_modify_def keys_set_present dest: map_of_in_keys split: option.splits)

lemma map_of_modify [dict_simps]:
  "map_of (dict_modify k f d) = (map_of d)(k := map_option f (map_of d k))"
  by (auto simp: dict_modify_def dict_simps fun_eq_iff split: option.splits)

lemma map_of_filter [dict_simps]:
  "distinct (dict_keys d) \<Longrightarrow> map_of (filter (\<lambda>(k, v). P k v) d) k =
     (case map_of d k of None \<Rightarrow> None | Some v \<Rightarrow> if P k v then Some v else None)"
proof (induction d)
  case (Cons x d)
  have "map_of (filter (\<lambda>(k, v). P k v) d) k = None" if "k \<notin> set (dict_keys d)"
    using that by (force simp: map_of_eq_None_iff)
  with Cons show ?case by (cases x) (auto split: option.splits)
qed simp

lemma distinct_keys_filter [dict_simps]:
  "distinct (dict_keys d) \<Longrightarrow> distinct (dict_keys (filter P d))"
  by (rule distinct_map_filter)

lemma map_of_dict_map [dict_simps]: "map_of (dict_map f d) k = map_option (f k) (map_of d k)"
  by (induction d) (auto simp: dict_map_def)

lemma keys_dict_map [dict_simps]: "dict_keys (dict_map f d) = dict_keys d"
  by (induction d) (auto simp: dict_map_def)

lemma fst_dict_map [dict_simps]: "fst ` set (dict_map f d) = fst ` set d"
  by (force simp: dict_map_def)

lemma fst_dict_modify [dict_simps]: "fst ` set (dict_modify k f d) = fst ` set d"
  by (metis keys_modify list.set_map)

lemma set_dict_set: "set (dict_set k v d) \<subseteq> insert (k, v) (set d)"
  by (induction d) auto

lemma set_dict_del: "set (dict_del k d) \<subseteq> set d"
  by (induction d) auto

lemma in_dict_set_distinct:
  "distinct (dict_keys d) \<Longrightarrow> (k', v') \<in> set (dict_set k v d) \<Longrightarrow>
     (k' = k \<and> v' = v) \<or> (k' \<noteq> k \<and> (k', v') \<in> set d)"
  by (metis distinct_keys_set fun_upd_other fun_upd_same map_of_is_SomeI
      map_of_SomeD option.inject update_conv')

text \<open>A property of all entries is kept by a good assignment and by a deletion.\<close>

lemma entries_set:
  "(\<And>k v. (k, v) \<in> set d \<Longrightarrow> P k v) \<Longrightarrow> P k0 v0 \<Longrightarrow> (k, v) \<in> set (dict_set k0 v0 d) \<Longrightarrow> P k v"
  using set_dict_set [of k0 v0 d] by blast

lemma entries_del:
  "(\<And>k v. (k, v) \<in> set d \<Longrightarrow> P k v) \<Longrightarrow> (k, v) \<in> set (dict_del k0 d) \<Longrightarrow> P k v"
  using set_dict_del [of k0 d] by blast

section \<open>Strings\<close>

text \<open>\<open>s.split(c)\<close> for a one-character separator: always at least one piece.\<close>

fun split_on :: "char \<Rightarrow> string \<Rightarrow> string list" where
  "split_on c [] = [[]]"
| "split_on c (x # xs) =
     (if x = c then [] # split_on c xs
      else case split_on c xs of [] \<Rightarrow> [[x]] | p # ps \<Rightarrow> (x # p) # ps)"

text \<open>\<open>sep.join(parts)\<close>\<close>

fun join :: "string \<Rightarrow> string list \<Rightarrow> string" where
  "join sep [] = []"
| "join sep [p] = p"
| "join sep (p # q # ps) = p @ sep @ join sep (q # ps)"

text \<open>\<open>s.startswith(p)\<close>\<close>

definition startswith :: "string \<Rightarrow> string \<Rightarrow> bool" where
  "startswith s p \<longleftrightarrow> take (length p) s = p"

text \<open>\<open>s.replace(old, new)\<close>: left to right, no overlap; an empty \<open>old\<close> matches everywhere.\<close>

fun replace_from :: "nat \<Rightarrow> string \<Rightarrow> string \<Rightarrow> string \<Rightarrow> string" where
  "replace_from skip old new [] = []"
| "replace_from (Suc k) old new (x # xs) = replace_from k old new xs"
| "replace_from 0 old new (x # xs) =
     (if startswith (x # xs) old then new @ replace_from (length old - 1) old new xs
      else x # replace_from 0 old new xs)"

definition str_replace :: "string \<Rightarrow> string \<Rightarrow> string \<Rightarrow> string" where
  "str_replace s old new =
     (if old = [] then new @ concat (map (\<lambda>c. c # new) s) else replace_from 0 old new s)"

text \<open>\<open>str(n)\<close> for a non-negative and for any integer.\<close>

fun str_of_nat :: "nat \<Rightarrow> string" where
  "str_of_nat n =
     (if n < 10 then [char_of (48 + n)] else str_of_nat (n div 10) @ [char_of (48 + n mod 10)])"

declare str_of_nat.simps [simp del]

definition str_of_int :: "int \<Rightarrow> string" where
  "str_of_int n = (if n < 0 then ''-'' @ str_of_nat (nat (- n)) else str_of_nat (nat n))"

definition quote :: "string \<Rightarrow> string" where
  "quote s = [CHR 0x22] @ s @ [CHR 0x22]"

text \<open>\<open>p in s\<close>, \<open>os.path.join\<close>, \<open>os.path.basename\<close>, \<open>s.split()\<close> and \<open>s.strip()\<close>\<close>

fun contains :: "string \<Rightarrow> string \<Rightarrow> bool" where
  "contains p [] = (p = [])"
| "contains p (c # cs) = (startswith (c # cs) p \<or> contains p cs)"

definition path_join :: "string \<Rightarrow> string \<Rightarrow> string" where
  "path_join a b =
     (if startswith b ''/'' then b
      else if a = [] \<or> last a = CHR ''/'' then a @ b
      else a @ ''/'' @ b)"

definition basename :: "string \<Rightarrow> string" where
  "basename p = last (split_on (CHR ''/'') p)"

definition blank :: "char \<Rightarrow> bool" where
  "blank c \<longleftrightarrow> c \<in> {CHR '' '', CHR 0x09, CHR 0x0A, CHR 0x0B, CHR 0x0C, CHR 0x0D}"

definition words :: "string \<Rightarrow> string list" where
  "words s = filter (\<lambda>w. w \<noteq> []) (split_on (CHR '' '')
     (map (\<lambda>c. if blank c then CHR '' '' else c) s))"

definition strip :: "string \<Rightarrow> string" where
  "strip s = rev (dropWhile blank (rev (dropWhile blank s)))"

text \<open>The number that a text of digits denotes.\<close>

definition digits_value :: "string \<Rightarrow> nat" where
  "digits_value w = foldl (\<lambda>n c. 10 * n + (of_char c - 48)) 0 w"

definition digit :: "char \<Rightarrow> bool" where
  "digit c \<longleftrightarrow> 48 \<le> (of_char c :: nat) \<and> (of_char c :: nat) \<le> 57"

text \<open>\<open>int(s)\<close>\<close>

definition py_int :: "string \<Rightarrow> int res" where
  "py_int w =
     (let s = strip w;
          (neg, ds) = (case s of c # cs \<Rightarrow> if c = CHR ''-'' then (True, cs) else if c = CHR ''+'' then (False, cs) else (False, s)
                        | [] \<Rightarrow> (False, []))
      in if ds \<noteq> [] \<and> (\<forall>c \<in> set ds. digit c) then Inr (if neg then - int (digits_value ds) else int (digits_value ds))
         else Inl (ValueError ''invalid literal for int() with base 10''))"

lemma split_on_not_nil [simp]: "split_on c s \<noteq> []"
  by (induction s) (auto split: list.splits)

lemma join_cons [str_simps]: "ps \<noteq> [] \<Longrightarrow> join sep (p # ps) = p @ sep @ join sep ps"
  by (cases ps) auto

lemma join_split [str_simps]: "join [c] (split_on c s) = s"
proof (induction s)
  case (Cons x xs)
  obtain p ps where ps: "split_on c xs = p # ps" by (cases "split_on c xs") auto
  with Cons show ?case by (cases ps) auto
qed simp

lemma split_on_free: "p \<in> set (split_on c s) \<Longrightarrow> c \<notin> set p"
proof (induction s arbitrary: p)
  case (Cons x xs)
  obtain q qs where "split_on c xs = q # qs" by (cases "split_on c xs") auto
  with Cons show ?case by (auto split: if_splits)
qed simp

lemma split_on_join:
  "ps \<noteq> [] \<Longrightarrow> (\<And>p. p \<in> set ps \<Longrightarrow> c \<notin> set p) \<Longrightarrow> split_on c (join [c] ps) = ps"
proof (induction ps)
  case (Cons p ps)
  have one: "split_on c q = [q]" if "c \<notin> set q" for q
    using that by (induction q) auto
  have step: "split_on c (q @ c # s) = q # split_on c s" if "c \<notin> set q" for q s
    using that by (induction q) auto
  show ?case
  proof (cases ps)
    case Nil
    with Cons.prems one show ?thesis by simp
  next
    case (Cons q qs)
    with Cons.IH Cons.prems step show ?thesis by simp
  qed
qed simp

lemma startswith_append [str_simps]: "startswith (p @ s) p"
  by (simp add: startswith_def)

lemma startswith_iff: "startswith s p \<longleftrightarrow> (\<exists>t. s = p @ t)"
  by (metis append_take_drop_id startswith_def append_eq_conv_conj)

lemma startswith_nil [str_simps]: "startswith s []"
  by (simp add: startswith_def)

text \<open>A text that does not contain the first character of the pattern is unchanged.\<close>

lemma replace_from_absent: "c \<notin> set s \<Longrightarrow> replace_from 0 (c # cs) new s = s"
  by (induction s) (auto simp: startswith_def)

lemma str_replace_absent [str_simps]:
  "c \<notin> set s \<Longrightarrow> str_replace s (c # cs) new = s"
  by (simp add: str_replace_def replace_from_absent)

section \<open>Decoded JSON\<close>

text \<open>
  The values \<open>json.loads\<close> returns. Numbers are integers: no source modelled here inspects a
  fractional JSON number.
\<close>

datatype json =
    JNull
  | JBool bool
  | JInt int
  | JStr string
  | JList "json list"
  | JObj "(string \<times> json) list"

text \<open>Python's truth value of a decoded value.\<close>

fun truthy :: "json \<Rightarrow> bool" where
  "truthy JNull = False"
| "truthy (JBool b) = b"
| "truthy (JInt i) = (i \<noteq> 0)"
| "truthy (JStr s) = (s \<noteq> [])"
| "truthy (JList xs) = (xs \<noteq> [])"
| "truthy (JObj d) = (d \<noteq> [])"

text \<open>\<open>v[key]\<close> with a string key.\<close>

fun json_get :: "json \<Rightarrow> string \<Rightarrow> json res" where
  "json_get (JObj d) k = (case map_of d k of Some v \<Rightarrow> Inr v | None \<Rightarrow> Inl (KeyError k))"
| "json_get (JList xs) k = Inl (TypeError ''list indices must be integers, not str'')"
| "json_get (JStr s) k = Inl (TypeError ''string indices must be integers, not str'')"
| "json_get v k = Inl (TypeError ''object has no attribute __getitem__'')"

text \<open>\<open>v[key] = w\<close>\<close>

fun json_put :: "json \<Rightarrow> string \<Rightarrow> json \<Rightarrow> json res" where
  "json_put (JObj d) k w = Inr (JObj (dict_set k w d))"
| "json_put v k w = Inl (TypeError ''object does not support item assignment'')"

lemma json_put_get: "json_put v k w = Inr v' \<Longrightarrow> json_get v' k = Inr w"
  by (cases v) (auto simp: dict_simps)

lemma json_put_get_other: "json_put v k w = Inr v' \<Longrightarrow> k' \<noteq> k \<Longrightarrow> json_get v' k' = json_get v k'"
  by (cases v) (auto simp: dict_simps)

text \<open>A list of builds as the JSON list of their names, and back.\<close>

fun json_str :: "json \<Rightarrow> string option" where
  "json_str (JStr s) = Some s"
| "json_str _ = None"

end
