(* ===== verification/Loose_Version.thy ===== *)
theory Loose_Version
  imports Rtc_Prelude "HOL-Library.List_Lexorder" "HOL-Library.Char_ord" "HOL-Library.Multiset"
begin

text \<open>
  \<open>distutils.version.LooseVersion\<close>, the sort key of every project and build list. A version
  text is cut by the pattern \<open>(\d+ | [a-z]+ | \.)\<close>: maximal digit runs become numbers, runs of
  lower-case letters and the text between matches stay strings, dots disappear. Python 2
  compares the resulting lists lexicographically, a number before any string.
\<close>

datatype char_class = Digit | Lower | Dot | Other

definition class_of :: "char \<Rightarrow> char_class" where
  "class_of c =
     (let n = (of_char c :: nat)
      in if 48 \<le> n \<and> n \<le> 57 then Digit
         else if 97 \<le> n \<and> n \<le> 122 then Lower
         else if n = 46 then Dot else Other)"

fun chunks :: "string \<Rightarrow> string list" where
  "chunks [] = []"
| "chunks (c # cs) =
     (case chunks cs of
        [] \<Rightarrow> [[c]]
      | w # ws \<Rightarrow>
          if class_of c \<noteq> Dot \<and> w \<noteq> [] \<and> class_of (hd w) = class_of c then (c # w) # ws
          else [c] # w # ws)"

datatype vcomp = VNum nat | VStr string

instantiation vcomp :: linorder
begin

fun less_eq_vcomp :: "vcomp \<Rightarrow> vcomp \<Rightarrow> bool" where
  "less_eq_vcomp (VNum m) (VNum n) = (m \<le> n)"
| "less_eq_vcomp (VNum m) (VStr t) = True"
| "less_eq_vcomp (VStr s) (VNum n) = False"
| "less_eq_vcomp (VStr s) (VStr t) = (s \<le> t)"

definition less_vcomp :: "vcomp \<Rightarrow> vcomp \<Rightarrow> bool" where
  "less_vcomp a b = (a \<le> b \<and> \<not> b \<le> a)"

instance
proof
  fix x y z :: vcomp
  show "(x < y) = (x \<le> y \<and> \<not> y \<le> x)" by (simp add: less_vcomp_def)
  show "x \<le> x" by (cases x) auto
  show "x \<le> y \<Longrightarrow> y \<le> z \<Longrightarrow> x \<le> z" by (cases x; cases y; cases z) auto
  show "x \<le> y \<Longrightarrow> y \<le> x \<Longrightarrow> x = y" by (cases x; cases y) auto
  show "x \<le> y \<or> y \<le> x" by (cases x; cases y) auto
qed

end

definition vcomp_of :: "string \<Rightarrow> vcomp" where
  "vcomp_of w = (if w \<noteq> [] \<and> class_of (hd w) = Digit then VNum (digits_value w) else VStr w)"

definition loose_version :: "string \<Rightarrow> vcomp list" where
  "loose_version s = map vcomp_of (filter (\<lambda>w. w \<noteq> ''.'') (chunks s))"

text \<open>\<open>sorted(names, key=LooseVersion)\<close>: Python's sort and the library's are both stable.\<close>

definition version_sort :: "string list \<Rightarrow> string list" where
  "version_sort names = sort_key loose_version names"

lemma vcomp_less_simps [simp]:
  "VNum m < VNum n \<longleftrightarrow> m < n" "VNum m < VStr t" "\<not> VStr s < VNum n"
  "VStr s < VStr t \<longleftrightarrow> s < t"
  by (auto simp: less_vcomp_def)

lemma set_version_sort [simp]: "set (version_sort ns) = set ns"
  by (simp add: version_sort_def)

lemma distinct_version_sort [simp]: "distinct (version_sort ns) = distinct ns"
  by (simp add: version_sort_def)

lemma mset_version_sort: "mset (version_sort ns) = mset ns"
  by (simp add: version_sort_def)

lemma sorted_version_sort: "sorted (map loose_version (version_sort ns))"
  by (simp add: version_sort_def)

lemma version_sort_nil [simp]: "version_sort [] = []"
  by (simp add: version_sort_def)

text \<open>The chunks only cut the text: joined again they give it back.\<close>

lemma concat_chunks: "concat (chunks s) = s"
  by (induction s) (auto split: list.splits)

lemma chunks_nonempty: "w \<in> set (chunks s) \<Longrightarrow> w \<noteq> []"
  by (induction s arbitrary: w) (auto split: list.splits if_splits)

text \<open>Numbers compare as numbers, not as texts, once the parts before them agree.\<close>

lemma version_number_order:
  "a = vs @ VNum m # us \<Longrightarrow> b = vs @ VNum n # ws \<Longrightarrow> m < n \<Longrightarrow> a < b"
  by (induction vs arbitrary: a b) auto

end
