(* ===== verification/Build_Handler.thy ===== *)
theory Build_Handler
  imports Loose_Version
begin

text \<open>
  \<open>dbus/rtc_build_handler/build_handler/service.py\<close>: the data base of builds, their status
  and results, the two-level priority queue and the baselines. The state is the dictionary
  in memory and the JSON file it is dumped to; each method is one definition of the same
  name. Logging is left out.
\<close>

section \<open>The state\<close>

record prio =
  pending :: "string list"
  high_priority :: "string option"

record build_rec =
  test_info :: json
  test_result :: "json list"
  status :: string

text \<open>\<open>db_build_info\<close> is the key \<open>build_info\<close>. \<open>baselines\<close> is optional: a data base file written by an older release may lack the key.\<close>

record db =
  priority :: "(string, prio) dict"
  db_build_info :: "(string, build_rec) dict"
  baselines :: "(string, string) dict option"

datatype disk = NoFile | BadFile | DbFile db

record bh =
  mem :: db
  db_file :: disk

definition empty_db :: db where
  "empty_db = \<lparr>priority = [], db_build_info = [], baselines = Some []\<rparr>"

definition update_db :: "bh \<Rightarrow> bh" where
  "update_db s = s\<lparr>db_file := DbFile (mem s)\<rparr>"

definition with_mem :: "(db \<Rightarrow> db) \<Rightarrow> bh \<Rightarrow> bh" where
  "with_mem f s = s\<lparr>mem := f (mem s)\<rparr>"

fun load_db :: "disk \<Rightarrow> db res" where
  "load_db NoFile = Inl (IOError ''db.json'')"
| "load_db BadFile = Inl (ValueError ''No JSON object could be decoded'')"
| "load_db (DbFile d) = Inr d"

text \<open>\<open>Handler.__init__\<close>: a missing file is created empty, a malformed one is an error.\<close>

fun bh_init :: "disk \<Rightarrow> bh res" where
  "bh_init NoFile = Inr (update_db \<lparr>mem = empty_db, db_file = NoFile\<rparr>)"
| "bh_init BadFile = Inl (ValueError ''No JSON object could be decoded'')"
| "bh_init (DbFile d) = Inr \<lparr>mem = d, db_file = DbFile d\<rparr>"

definition refresh_DBM_from_file :: "bh \<Rightarrow> unit res \<times> bh" where
  "refresh_DBM_from_file s =
     (case load_db (db_file s) of Inl e \<Rightarrow> (Inl e, s) | Inr d \<Rightarrow> (Inr (), s\<lparr>mem := d\<rparr>))"

section \<open>Projects and releases\<close>

definition get_project :: "string \<Rightarrow> string" where
  "get_project build = join ''.'' (take 3 (split_on (CHR ''.'') build))"

definition get_release :: "string \<Rightarrow> string" where
  "get_release build = join ''.'' (take 2 (split_on (CHR ''.'') build))"

section \<open>Build information\<close>

definition idle :: "prio \<Rightarrow> bool" where
  "idle e \<longleftrightarrow> pending e = [] \<and> high_priority e = None"

definition clean_priority :: "bh \<Rightarrow> bh" where
  "clean_priority = with_mem (\<lambda>d. d\<lparr>priority := filter (\<lambda>(k, e). \<not> idle e) (priority d)\<rparr>)"

definition build_info_add :: "string \<Rightarrow> json \<Rightarrow> bh \<Rightarrow> bool res \<times> bh" where
  "build_info_add build info s =
     (if build \<in> set (dict_keys (db_build_info (mem s))) then
        (Inl (FaultyAction (build @ '' already exists in DB.'')), s)
      else
        (Inr True,
         update_db (with_mem (\<lambda>d. d\<lparr>db_build_info :=
           dict_set build \<lparr>test_info = info, test_result = [], status = ''NOT_TESTED''\<rparr>
             (db_build_info d)\<rparr>) s)))"

text \<open>
  One of the two guarded copies of \<open>build_info_update\<close>: \<open>info[key]\<close> missing or falsy copies
  nothing; any other failure of the look-up, or a \<open>test_info\<close> that is no dictionary, raises.
\<close>

definition copy_info :: "string \<Rightarrow> json \<Rightarrow> json \<Rightarrow> json res" where
  "copy_info key info old =
     (case json_get info key of
        Inl (KeyError k) \<Rightarrow> Inr old
      | Inl e \<Rightarrow> Inl e
      | Inr v \<Rightarrow>
          if truthy v then
            (case old of JObj d \<Rightarrow> Inr (JObj (dict_set key v d))
             | _ \<Rightarrow> Inl (AttributeError ''update''))
          else Inr old)"

definition set_test_info :: "string \<Rightarrow> json \<Rightarrow> bh \<Rightarrow> bh" where
  "set_test_info build v =
     with_mem (\<lambda>d. d\<lparr>db_build_info := dict_modify build (test_info_update (\<lambda>_. v)) (db_build_info d)\<rparr>)"

definition build_info_update :: "string \<Rightarrow> json \<Rightarrow> bh \<Rightarrow> bool res \<times> bh" where
  "build_info_update build info s =
     (case map_of (db_build_info (mem s)) build of
        None \<Rightarrow> (Inl (FaultyAction (build @ '' does not exists in DB. No actions'')), s)
      | Some r \<Rightarrow>
          if \<not> truthy (test_info r) then
            (Inl (FaultyAction (''Test info for '' @ build @
               '' build does not exists in DB. No actions'')), s)
          else
            (case copy_info ''packages'' info (test_info r) of
               Inl e \<Rightarrow> (Inl e, s)
             | Inr v \<Rightarrow>
                 (case copy_info ''GIT_repos'' info v of
                    Inl e \<Rightarrow> (Inl e, set_test_info build v s)
                  | Inr w \<Rightarrow> (Inr True, update_db (set_test_info build w s)))))"

section \<open>The priority queue\<close>

definition set_prio :: "string \<Rightarrow> prio \<Rightarrow> bh \<Rightarrow> bh" where
  "set_prio project e = with_mem (\<lambda>d. d\<lparr>priority := dict_set project e (priority d)\<rparr>)"

definition set_status :: "string \<Rightarrow> string \<Rightarrow> bh \<Rightarrow> bh" where
  "set_status build st =
     with_mem (\<lambda>d. d\<lparr>db_build_info := dict_modify build (status_update (\<lambda>_. st)) (db_build_info d)\<rparr>)"

definition priority_add :: "string \<Rightarrow> bh \<Rightarrow> bool res \<times> bh" where
  "priority_add build s =
     (if build \<notin> set (dict_keys (db_build_info (mem s))) then
        (Inl (FaultyAction (build @ '' does not exists in DB. No actions'')), s)
      else
        let project = get_project build;
            s1 = (case map_of (priority (mem s)) project of
                    None \<Rightarrow> set_prio project \<lparr>pending = [build], high_priority = None\<rparr> s
                  | Some e \<Rightarrow>
                      if build \<notin> set (pending e)
                      then set_prio project (e\<lparr>pending := pending e @ [build]\<rparr>) s
                      else s)
        in (Inr True, update_db (clean_priority s1)))"

definition dequeue :: "string \<Rightarrow> prio \<Rightarrow> prio" where
  "dequeue build e =
     (if build \<in> set (pending e) then e\<lparr>pending := remove1 build (pending e)\<rparr>
      else if high_priority e = Some build then e\<lparr>high_priority := None\<rparr>
      else e)"

definition priority_del :: "string \<Rightarrow> bool \<Rightarrow> bh \<Rightarrow> unit res \<times> bh" where
  "priority_del build update_status s =
     (case map_of (priority (mem s)) (get_project build) of
        None \<Rightarrow> (Inr (), s)
      | Some e \<Rightarrow>
          let s1 = set_prio (get_project build) (dequeue build e) s
          in if update_status then
               (case map_of (db_build_info (mem s1)) build of
                  None \<Rightarrow> (Inr (), s1)
                | Some r \<Rightarrow>
                    let s2 = (if status r = ''NOT_TESTED'' then set_status build ''SKIPPED'' s1
                              else s1)
                    in (Inr (), update_db (clean_priority s2)))
             else (Inr (), update_db (clean_priority s1)))"

text \<open>\<open>pending[index+1:]\<close>: what was queued before the build is dropped with it.\<close>

definition promote :: "string \<Rightarrow> prio \<Rightarrow> prio" where
  "promote build e =
     e\<lparr>pending := tl (dropWhile (\<lambda>b. b \<noteq> build) (pending e)), high_priority := Some build\<rparr>"

definition priority_increase :: "string \<Rightarrow> bh \<Rightarrow> bool res \<times> bh" where
  "priority_increase build s =
     (case map_of (priority (mem s)) (get_project build) of
        None \<Rightarrow>
          (Inl (FaultyAction (build @ '' build not found. '' @
             exc_str (KeyError (get_project build)))), s)
      | Some e \<Rightarrow>
          let was_pending = (build \<in> set (pending e));
              s1 = (if was_pending then set_prio (get_project build) (promote build e) s else s)
          in (Inr was_pending, update_db (clean_priority s1)))"

section \<open>Baselines\<close>

definition fetch_baseline_test_info :: "string \<Rightarrow> bh \<Rightarrow> (string \<times> json) res" where
  "fetch_baseline_test_info baseline s =
     (case Option.bind (baselines (mem s)) (\<lambda>bs. map_of bs baseline) of
        None \<Rightarrow> Inl (FaultyAction (''Not build found for '' @ baseline @ '' baseline''))
      | Some build \<Rightarrow>
          (case map_of (db_build_info (mem s)) build of
             None \<Rightarrow> Inl (FaultyAction (''Not test info for '' @ build))
           | Some r \<Rightarrow> Inr (build, test_info r)))"

definition baseline_of :: "string \<Rightarrow> string" where
  "baseline_of build = last (split_on (CHR ''-'') (get_release build))"

definition baseline_add :: "string \<Rightarrow> bh \<Rightarrow> string res \<times> bh" where
  "baseline_add build s =
     (if build \<notin> set (dict_keys (db_build_info (mem s))) then
        (Inl (FaultyAction (build @ '' does not exists in DB. No actions'')), s)
      else
        (Inr (build @ '' build is set as baseline for '' @ baseline_of build),
         update_db (with_mem (\<lambda>d. d\<lparr>baselines := Some
           (case baselines d of None \<Rightarrow> [(baseline_of build, build)]
            | Some bs \<Rightarrow> dict_set (baseline_of build) build bs)\<rparr>) s)))"

definition baseline_del :: "string \<Rightarrow> bh \<Rightarrow> unit res \<times> bh" where
  "baseline_del baseline s =
     (Inr (), update_db (with_mem (\<lambda>d. d\<lparr>baselines := map_option (dict_del baseline) (baselines d)\<rparr>) s))"

definition baseline_list :: "bh \<Rightarrow> string list res" where
  "baseline_list s =
     (case baselines (mem s) of None \<Rightarrow> Inl (KeyError ''baselines'') | Some bs \<Rightarrow> Inr (dict_keys bs))"

section \<open>Results\<close>

definition add_result :: "json \<Rightarrow> build_rec \<Rightarrow> build_rec" where
  "add_result r b =
     b\<lparr>status := (if status b = ''TEST_ONGOING'' then ''TESTED'' else status b),
       test_result := test_result b @ [r]\<rparr>"

definition add_build_test_result :: "string \<Rightarrow> json \<Rightarrow> bh \<Rightarrow> unit res \<times> bh" where
  "add_build_test_result build r s =
     (case map_of (db_build_info (mem s)) build of
        None \<Rightarrow> (Inr (), s)
      | Some _ \<Rightarrow>
          (Inr (), update_db (with_mem (\<lambda>d. d\<lparr>db_build_info :=
             dict_modify build (add_result r) (db_build_info d)\<rparr>) s)))"

definition get_build_test_result :: "string \<Rightarrow> bh \<Rightarrow> json list" where
  "get_build_test_result build s =
     (case map_of (db_build_info (mem s)) build of None \<Rightarrow> [] | Some r \<Rightarrow> test_result r)"

section \<open>Choosing the next build\<close>

definition project_list :: "db \<Rightarrow> string list" where
  "project_list d = version_sort (dict_keys (priority d))"

text \<open>The first loop: the first project of the list that has a high-priority build.\<close>

fun find_high :: "db \<Rightarrow> string list \<Rightarrow> (string \<times> string) option" where
  "find_high d [] = None"
| "find_high d (p # ps) =
     (case Option.bind (map_of (priority d) p) high_priority of
        None \<Rightarrow> find_high d ps
      | Some rc \<Rightarrow> Some (p, rc))"

text \<open>The second loop: the first project of the list with a non-empty \<open>pending\<close>.\<close>

definition pending_of :: "db \<Rightarrow> string \<Rightarrow> string list" where
  "pending_of d p = (case map_of (priority d) p of None \<Rightarrow> [] | Some e \<Rightarrow> pending e)"

fun find_pending :: "db \<Rightarrow> string list \<Rightarrow> (string \<times> string) option" where
  "find_pending d [] = None"
| "find_pending d (p # ps) =
     (if pending_of d p \<noteq> [] then Some (p, last (pending_of d p)) else find_pending d ps)"

definition prio_modify :: "string \<Rightarrow> (prio \<Rightarrow> prio) \<Rightarrow> bh \<Rightarrow> bh" where
  "prio_modify p f = with_mem (\<lambda>d. d\<lparr>priority := dict_modify p f (priority d)\<rparr>)"

definition find_next_build :: "bool \<Rightarrow> bh \<Rightarrow> (string option \<times> bool) \<times> bh" where
  "find_next_build extract s =
     (case find_high (mem s) (project_list (mem s)) of
        Some (p, rc) \<Rightarrow>
          ((Some rc, True),
           if extract then prio_modify p (high_priority_update (\<lambda>_. None)) s else s)
      | None \<Rightarrow>
          (case find_pending (mem s) (rev (project_list (mem s))) of
             Some (p, b) \<Rightarrow>
               ((Some b, False), if extract then prio_modify p (pending_update butlast) s else s)
           | None \<Rightarrow> ((None, False), s)))"

definition is_there_build_to_test :: "bh \<Rightarrow> bool" where
  "is_there_build_to_test s = (fst (fst (find_next_build False s)) \<noteq> None)"

text \<open>\<open>(None, None, False)\<close> is the answer when nothing is queued.\<close>

definition get_build :: "bh \<Rightarrow> (string option \<times> json \<times> bool) res \<times> bh" where
  "get_build s =
     (case find_next_build True s of
        ((None, rc), s1) \<Rightarrow> (Inr (None, JNull, False), s1)
      | ((Some b, rc), s1) \<Rightarrow>
          let s2 = update_db s1
          in (case map_of (db_build_info (mem s2)) b of
                None \<Rightarrow> (Inl (KeyError b), s2)
              | Some r \<Rightarrow> (Inr (Some b, test_info r, rc), s2)))"

section \<open>Status\<close>

definition update_build_status :: "string \<Rightarrow> string \<Rightarrow> bh \<Rightarrow> unit res \<times> bh" where
  "update_build_status build st s =
     (if st \<notin> set [''TEST_ONGOING'', ''CANCELLED'', ''SKIPPED'', ''TESTED'', ''NOT_TESTED'',
                    ''TEST_FAULTY''] then (Inr (), s)
      else case map_of (db_build_info (mem s)) build of
             None \<Rightarrow> (Inr (), s)
           | Some _ \<Rightarrow> (Inr (), update_db (set_status build st s)))"

definition forced_values :: "string list" where
  "forced_values = [''CANCELLED'', ''SKIPPED'', ''TESTED'', ''TEST_FAULTY'']"

definition force_build_status :: "string \<Rightarrow> string \<Rightarrow> bh \<Rightarrow> string res \<times> bh" where
  "force_build_status build st s =
     (if st \<notin> set forced_values then
        (Inr (st @ '' build status not valid. Allowed values are: '' @ join '' '' forced_values), s)
      else case map_of (db_build_info (mem s)) build of
             None \<Rightarrow> (Inr (''Build to update '' @ build @ '' not found''), s)
           | Some _ \<Rightarrow>
               (Inr (build @ '' build status updated to '' @ st), update_db (set_status build st s)))"

definition get_build_status :: "string \<Rightarrow> bh \<Rightarrow> string" where
  "get_build_status build s =
     (case map_of (db_build_info (mem s)) build of None \<Rightarrow> ''NOT FOUND'' | Some r \<Rightarrow> status r)"

section \<open>Cleaning and purging\<close>

definition set_results :: "string \<Rightarrow> json list \<Rightarrow> bh \<Rightarrow> bh" where
  "set_results build rs =
     with_mem (\<lambda>d. d\<lparr>db_build_info := dict_modify build (test_result_update (\<lambda>_. rs)) (db_build_info d)\<rparr>)"

definition del_build :: "string \<Rightarrow> bh \<Rightarrow> bh" where
  "del_build build = with_mem (\<lambda>d. d\<lparr>db_build_info := dict_del build (db_build_info d)\<rparr>)"

text \<open>The loop of \<open>clean_build\<close> over a snapshot of the keys; the result counts cleaned builds.\<close>

fun clean_keys :: "string \<Rightarrow> string \<Rightarrow> string list \<Rightarrow> nat \<Rightarrow> bh \<Rightarrow> nat res \<times> bh" where
  "clean_keys wildcard exclude [] n s = (Inr n, s)"
| "clean_keys wildcard exclude (key # ks) n s =
     (if startswith key wildcard \<and> key \<noteq> exclude then
        (case map_of (db_build_info (mem s)) key of
           None \<Rightarrow> (Inl (KeyError key), s)
         | Some r \<Rightarrow>
             if status r = ''TEST_ONGOING'' then clean_keys wildcard exclude ks n s
             else
               let s1 = snd (priority_del key False s)
               in (case baselines (mem s1) of
                     None \<Rightarrow> (Inl (KeyError ''baselines''), s1)
                   | Some bs \<Rightarrow>
                       clean_keys wildcard exclude ks (Suc n)
                         (if key \<in> set (dict_values bs) then set_results key [] s1
                          else del_build key s1)))
      else clean_keys wildcard exclude ks n s)"

definition clean_build :: "string \<Rightarrow> string \<Rightarrow> bh \<Rightarrow> string res \<times> bh" where
  "clean_build wildcard exclude s =
     (case clean_keys wildcard exclude (dict_keys (db_build_info (mem s))) 0 s of
        (Inl e, s1) \<Rightarrow> (Inl e, s1)
      | (Inr n, s1) \<Rightarrow>
          (Inr ('' '' @ str_of_nat n @ '' builds cleaned from db''), update_db (clean_priority s1)))"

definition purge_rec :: "build_rec \<Rightarrow> build_rec" where
  "purge_rec r = (if length (test_result r) > 1 then r\<lparr>test_result := [last (test_result r)]\<rparr> else r)"

definition purge_build :: "string \<Rightarrow> bh \<Rightarrow> string res \<times> bh" where
  "purge_build wildcard s =
     (let n = length (filter (\<lambda>(k, r). startswith k wildcard \<and> length (test_result r) > 1)
                (db_build_info (mem s)));
          s1 = with_mem (\<lambda>d. d\<lparr>db_build_info :=
                 dict_map (\<lambda>k r. if startswith k wildcard then purge_rec r else r) (db_build_info d)\<rparr>) s
      in (Inr ('' '' @ str_of_nat n @ '' builds purged from db''), update_db (clean_priority s1)))"

section \<open>Look-ups and listings\<close>

definition fetch_build :: "string \<Rightarrow> bh \<Rightarrow> json res" where
  "fetch_build build s =
     (case map_of (db_build_info (mem s)) build of
        None \<Rightarrow> Inl (KeyError build) | Some r \<Rightarrow> Inr (test_info r))"

text \<open>
  The answer of the \<open>except\<close> branch (build not found) is overwritten by the assignment after
  it, so the answer is always \<open>EXECUTED\<close>.
\<close>

definition update_build_test_info :: "string \<Rightarrow> json \<Rightarrow> bool \<Rightarrow> bh \<Rightarrow> string res \<times> bh" where
  "update_build_test_info build info persist s =
     (let s1 = set_test_info build info s
      in (Inr ''EXECUTED'', if persist then update_db s1 else s1))"

definition fetch_pending_build_list :: "bh \<Rightarrow> (string \<times> bool) list" where
  "fetch_pending_build_list s =
     (let ps = project_list (mem s)
      in concat (map (\<lambda>p. case Option.bind (map_of (priority (mem s)) p) high_priority of
                            None \<Rightarrow> [] | Some rc \<Rightarrow> [(rc, True)]) ps) @
         concat (map (\<lambda>p. map (\<lambda>b. (b, False)) (rev (pending_of (mem s) p))) (rev ps)))"

definition fetch_available_builds :: "bh \<Rightarrow> string" where
  "fetch_available_builds s =
     concat (map (\<lambda>b. ''  '' @ b @ [CHR 0x09] @ get_build_status b s @ [CHR 0x0A])
       (version_sort (dict_keys (db_build_info (mem s)))))"

end
