(* ===== verification/Build_Queue.thy ===== *)
theory Build_Queue
  imports Build_Handler
begin

text \<open>
  The extraction order of the build handler. \<open>work_queue\<close> is the contract of a queue whose
  contents can be listed: taking an element removes the head of the listing. The model of
  \<open>find_next_build\<close> and \<open>fetch_pending_build_list\<close> is an instance of it.
\<close>

section \<open>Queues that can be listed\<close>

fun drain :: "('s \<Rightarrow> 'a option \<times> 's) \<Rightarrow> nat \<Rightarrow> 's \<Rightarrow> 'a list \<times> 's" where
  "drain take_one 0 s = ([], s)"
| "drain take_one (Suc n) s =
     (case take_one s of
        (None, s') \<Rightarrow> ([], s')
      | (Some x, s') \<Rightarrow> (let (xs, s'') = drain take_one n s' in (x # xs, s'')))"

locale work_queue =
  fixes inv :: "'s \<Rightarrow> bool"
    and take_one :: "'s \<Rightarrow> 'a option \<times> 's"
    and contents :: "'s \<Rightarrow> 'a list"
  assumes take_none: "inv s \<Longrightarrow> take_one s = (None, s') \<Longrightarrow> contents s = [] \<and> contents s' = []"
    and take_some: "inv s \<Longrightarrow> take_one s = (Some x, s') \<Longrightarrow> contents s = x # contents s'"
    and take_inv: "inv s \<Longrightarrow> take_one s = (y, s') \<Longrightarrow> inv s'"
begin

lemma drain_contents:
  "inv s \<Longrightarrow> drain take_one n s = (xs, s') \<Longrightarrow>
     xs = take n (contents s) \<and> contents s' = drop n (contents s) \<and> inv s'"
proof (induction n arbitrary: s xs s')
  case (Suc n)
  obtain y t where t: "take_one s = (y, t)" by (cases "take_one s")
  show ?case
  proof (cases y)
    case None
    with Suc.prems t show ?thesis using take_none [of s t] take_inv [of s y t] by auto
  next
    case (Some x)
    obtain zs u where u: "drain take_one n t = (zs, u)" by (cases "drain take_one n t")
    from t Some Suc.prems(1) have "inv t" "contents s = x # contents t"
      using take_inv take_some by blast+
    with Suc.IH [OF \<open>inv t\<close> u] Suc.prems t Some u show ?thesis by auto
  qed
qed auto

lemma drain_all:
  "inv s \<Longrightarrow> fst (drain take_one (length (contents s)) s) = contents s"
  by (metis drain_contents prod.collapse take_all_iff order_refl)

end

section \<open>The two searches\<close>

definition high_of :: "db \<Rightarrow> string \<Rightarrow> string option" where
  "high_of d p = Option.bind (map_of (priority d) p) high_priority"

definition listed_high :: "db \<Rightarrow> string \<Rightarrow> (string \<times> bool) list" where
  "listed_high d p = (case high_of d p of None \<Rightarrow> [] | Some rc \<Rightarrow> [(rc, True)])"

definition listed_pending :: "db \<Rightarrow> string \<Rightarrow> (string \<times> bool) list" where
  "listed_pending d p = map (\<lambda>b. (b, False)) (rev (pending_of d p))"

lemma pending_list_eq:
  "fetch_pending_build_list s =
     concat (map (listed_high (mem s)) (project_list (mem s))) @
     concat (map (listed_pending (mem s)) (rev (project_list (mem s))))"
  by (simp add: fetch_pending_build_list_def listed_high_def listed_pending_def high_of_def
      Let_def cong: map_cong)

lemma find_high_None: "find_high d ps = None \<longleftrightarrow> (\<forall>p \<in> set ps. high_of d p = None)"
  by (induction ps) (auto simp: high_of_def split: option.splits)

lemma find_high_Some:
  "find_high d ps = Some (p, rc) \<Longrightarrow>
     \<exists>xs ys. ps = xs @ p # ys \<and> high_of d p = Some rc \<and> (\<forall>x \<in> set xs. high_of d x = None)"
proof (induction ps)
  case (Cons q qs)
  show ?case
  proof (cases "high_of d q")
    case None
    with Cons obtain xs ys where "qs = xs @ p # ys" "high_of d p = Some rc"
      "\<forall>x \<in> set xs. high_of d x = None"
      by (auto simp: high_of_def)
    with None have "q # qs = (q # xs) @ p # ys" "\<forall>x \<in> set (q # xs). high_of d x = None" by auto
    with \<open>high_of d p = Some rc\<close> show ?thesis by blast
  next
    case (Some r)
    with Cons.prems have "q = p" "r = rc" by (auto simp: high_of_def)
    with Some show ?thesis by (metis append_Nil empty_iff empty_set)
  qed
qed simp

lemma find_pending_None: "find_pending d ps = None \<longleftrightarrow> (\<forall>p \<in> set ps. pending_of d p = [])"
  by (induction ps) auto

lemma find_pending_Some:
  "find_pending d ps = Some (p, b) \<Longrightarrow>
     \<exists>xs ys. ps = xs @ p # ys \<and> pending_of d p \<noteq> [] \<and> b = last (pending_of d p) \<and>
       (\<forall>x \<in> set xs. pending_of d x = [])"
proof (induction ps)
  case (Cons q qs)
  show ?case
  proof (cases "pending_of d q = []")
    case True
    with Cons obtain xs ys where "qs = xs @ p # ys" "pending_of d p \<noteq> []"
      "b = last (pending_of d p)" "\<forall>x \<in> set xs. pending_of d x = []"
      by auto
    with True have "q # qs = (q # xs) @ p # ys" "\<forall>x \<in> set (q # xs). pending_of d x = []" by auto
    with \<open>pending_of d p \<noteq> []\<close> \<open>b = last (pending_of d p)\<close> show ?thesis by blast
  next
    case False
    with Cons.prems show ?thesis by (metis append_Nil empty_iff empty_set find_pending.simps(2)
        option.inject prod.inject)
  qed
qed simp

lemma project_list_modify [simp]:
  "project_list (mem (prio_modify p f s)) = project_list (mem s)"
  by (simp add: project_list_def prio_modify_def with_mem_def dict_simps)

lemma map_of_prio_modify [dict_simps]:
  "map_of (priority (mem (prio_modify p f s))) =
     (map_of (priority (mem s)))(p := map_option f (map_of (priority (mem s)) p))"
  by (simp add: prio_modify_def with_mem_def dict_simps)

lemma listed_high_cleared:
  "listed_high (mem (prio_modify p (high_priority_update (\<lambda>_. None)) s)) q =
     (if q = p then [] else listed_high (mem s) q)"
  by (cases "map_of (priority (mem s)) p") (auto simp: listed_high_def high_of_def dict_simps)

lemma listed_pending_cleared:
  "listed_pending (mem (prio_modify p (high_priority_update (\<lambda>_. None)) s)) q =
     listed_pending (mem s) q"
  by (cases "map_of (priority (mem s)) p") (auto simp: listed_pending_def pending_of_def dict_simps)

lemma listed_high_popped:
  "listed_high (mem (prio_modify p (pending_update butlast) s)) q = listed_high (mem s) q"
  by (cases "map_of (priority (mem s)) p") (auto simp: listed_high_def high_of_def dict_simps)

lemma listed_pending_popped:
  "listed_pending (mem (prio_modify p (pending_update butlast) s)) q =
     (if q = p then tl (listed_pending (mem s) q) else listed_pending (mem s) q)"
proof -
  have "rev (butlast xs) = tl (rev xs)" for xs :: "string list"
    by (cases xs rule: rev_cases) auto
  then show ?thesis
    by (cases "map_of (priority (mem s)) p")
      (auto simp: listed_pending_def pending_of_def dict_simps map_tl)
qed

section \<open>Taking a build takes the head of the listing\<close>

definition prio_distinct :: "bh \<Rightarrow> bool" where
  "prio_distinct s \<longleftrightarrow> distinct (dict_keys (priority (mem s)))"

definition next_build :: "bh \<Rightarrow> (string \<times> bool) option \<times> bh" where
  "next_build s =
     (case find_next_build True s of
        ((None, rc), s') \<Rightarrow> (None, s')
      | ((Some b, rc), s') \<Rightarrow> (Some (b, rc), s'))"

lemma concat_map_one:
  "(\<forall>x \<in> set xs. f x = []) \<Longrightarrow> concat (map f (xs @ p # ys)) = f p @ concat (map f ys)"
  by simp

lemma listed_high_nil: "listed_high d p = [] \<longleftrightarrow> high_of d p = None"
  by (simp add: listed_high_def split: option.splits)

lemma take_high:
  assumes "prio_distinct s" and f: "find_high (mem s) (project_list (mem s)) = Some (p, rc)"
  shows "fetch_pending_build_list s =
    (rc, True) # fetch_pending_build_list (prio_modify p (high_priority_update (\<lambda>_. None)) s)"
proof -
  let ?s' = "prio_modify p (high_priority_update (\<lambda>_. None)) s"
  from find_high_Some [OF f] obtain xs ys where ps: "project_list (mem s) = xs @ p # ys"
    and p: "high_of (mem s) p = Some rc" and xs: "\<forall>x \<in> set xs. high_of (mem s) x = None"
    by blast
  have "distinct (project_list (mem s))"
    using assms(1) by (simp add: project_list_def prio_distinct_def)
  with ps have "p \<notin> set ys" by simp
  then have ys: "map (listed_high (mem ?s')) ys = map (listed_high (mem s)) ys"
    by (auto simp: listed_high_cleared)
  from xs have nil: "\<forall>x \<in> set xs. listed_high (mem s) x = []" by (simp add: listed_high_nil)
  then have nil': "\<forall>x \<in> set xs. listed_high (mem ?s') x = []" by (simp add: listed_high_cleared)
  have "concat (map (listed_high (mem s)) (project_list (mem s))) =
      (rc, True) # concat (map (listed_high (mem s)) ys)"
    unfolding ps concat_map_one [OF nil] using p by (simp add: listed_high_def)
  moreover have "concat (map (listed_high (mem ?s')) (project_list (mem s))) =
      concat (map (listed_high (mem s)) ys)"
    unfolding ps concat_map_one [OF nil'] ys by (simp add: listed_high_cleared)
  moreover have "listed_pending (mem ?s') = listed_pending (mem s)"
    by (rule ext) (rule listed_pending_cleared)
  ultimately show ?thesis by (simp add: pending_list_eq)
qed

lemma take_pending:
  assumes "prio_distinct s" and h: "find_high (mem s) (project_list (mem s)) = None"
    and f: "find_pending (mem s) (rev (project_list (mem s))) = Some (p, b)"
  shows "fetch_pending_build_list s =
    (b, False) # fetch_pending_build_list (prio_modify p (pending_update butlast) s)"
proof -
  let ?s' = "prio_modify p (pending_update butlast) s"
  let ?ps = "project_list (mem s)"
  from find_pending_Some [OF f] obtain xs ys where ps: "rev ?ps = xs @ p # ys"
    and p: "pending_of (mem s) p \<noteq> []" "b = last (pending_of (mem s) p)"
    and xs: "\<forall>x \<in> set xs. pending_of (mem s) x = []"
    by blast
  have "distinct (rev ?ps)"
    using assms(1) by (simp add: project_list_def prio_distinct_def)
  with ps have out: "p \<notin> set ys" "p \<notin> set xs" by auto
  have highs: "concat (map (listed_high (mem t)) ?ps) = []" if "t \<in> {s, ?s'}" for t
    using h that by (auto simp: find_high_None listed_high_popped simp flip: listed_high_nil)
  have hd: "listed_pending (mem s) p = (b, False) # tl (listed_pending (mem s) p)"
    using p by (cases "pending_of (mem s) p" rule: rev_cases) (auto simp: listed_pending_def)
  have ys: "map (listed_pending (mem ?s')) ys = map (listed_pending (mem s)) ys"
    using out by (auto simp: listed_pending_popped)
  from xs have nil: "\<forall>x \<in> set xs. listed_pending (mem s) x = []"
    by (simp add: listed_pending_def)
  with out have nil': "\<forall>x \<in> set xs. listed_pending (mem ?s') x = []"
    by (simp add: listed_pending_popped)
  have p': "listed_pending (mem ?s') p = tl (listed_pending (mem s) p)"
    by (simp add: listed_pending_popped)
  have "concat (map (listed_pending (mem s)) (rev ?ps)) =
      (b, False) # concat (map (listed_pending (mem ?s')) (rev ?ps))"
    unfolding ps concat_map_one [OF nil] concat_map_one [OF nil'] ys p' using hd by simp
  moreover have "concat (map (listed_high (mem s)) ?ps) = []"
    "concat (map (listed_high (mem ?s')) ?ps) = []"
    by (rule highs, simp)+
  ultimately show ?thesis by (simp only: pending_list_eq project_list_modify append_Nil)
qed

lemma prio_distinct_modify: "prio_distinct (prio_modify p f s) = prio_distinct s"
  by (simp add: prio_distinct_def prio_modify_def with_mem_def dict_simps)

lemma next_build_cases:
  "next_build s =
     (case find_high (mem s) (project_list (mem s)) of
        Some (p, rc) \<Rightarrow>
          (Some (rc, True), prio_modify p (high_priority_update (\<lambda>_. None)) s)
      | None \<Rightarrow>
          (case find_pending (mem s) (rev (project_list (mem s))) of
             Some (p, b) \<Rightarrow> (Some (b, False), prio_modify p (pending_update butlast) s)
           | None \<Rightarrow> (None, s)))"
  by (auto simp: next_build_def find_next_build_def split: option.splits prod.splits)

interpretation bq: work_queue prio_distinct next_build fetch_pending_build_list
proof unfold_locales
  fix s s' x y
  assume d: "prio_distinct s"
  show "fetch_pending_build_list s = [] \<and> fetch_pending_build_list s' = []"
    if "next_build s = (None, s')"
    using that
    by (auto simp: next_build_cases pending_list_eq find_high_None find_pending_None
        listed_high_nil listed_pending_def split: option.splits prod.splits)
  show "fetch_pending_build_list s = x # fetch_pending_build_list s'"
    if "next_build s = (Some x, s')"
    using that d take_high [OF d] take_pending [OF d]
    by (auto simp: next_build_cases split: option.splits prod.splits)
  show "prio_distinct s'" if "next_build s = (y, s')"
    using that d by (auto simp: next_build_cases prio_distinct_modify split: option.splits prod.splits)
qed

end
