(* ===== verification/Build_Inv.thy ===== *)
theory Build_Inv
  imports Build_Queue
begin

text \<open>
  The remote interface of the build handler as one datatype of requests with their JSON
  answers, and the invariants of the data base over all requests: \<open>wf\<close> (always), \<open>known\<close>
  (every queued build has a record, as long as a high-priority build is not queued a second
  time), and \<open>synced\<close> (memory and file agree).
\<close>

section \<open>The requests\<close>

datatype bh_op =
    RefreshDbm
  | BuildInfoAdd string json
  | BuildInfoUpdate string json
  | PriorityAdd string
  | PriorityDel string bool
  | PriorityIncrease string
  | BaselineAdd string
  | BaselineDel string
  | GetRelease string
  | GetProject string
  | CleanBuild string string
  | PurgeBuild string
  | BaselineList
  | GetBuild
  | FetchBuild string
  | UpdateBuildTestInfo string json bool
  | IsThereBuildToTest
  | FetchPendingBuildList
  | FetchAvailableBuilds
  | FetchBaselineTestInfo string
  | AddBuildTestResult string json
  | GetBuildTestResult string
  | UpdateBuildStatus string string
  | ForceBuildStatus string string
  | GetBuildStatus string

definition enc :: "('a \<Rightarrow> json) \<Rightarrow> 'a res \<times> 's \<Rightarrow> json res \<times> 's" where
  "enc f p = (case fst p of Inl e \<Rightarrow> Inl e | Inr v \<Rightarrow> Inr (f v), snd p)"

abbreviation enc_unit :: "unit res \<times> 's \<Rightarrow> json res \<times> 's" where
  "enc_unit \<equiv> enc (\<lambda>_. JNull)"

fun enc_opt :: "string option \<Rightarrow> json" where
  "enc_opt None = JNull"
| "enc_opt (Some x) = JStr x"

text \<open>The method of the name, its answer encoded the way \<open>json.dumps\<close> does.\<close>

fun bh_run :: "bh_op \<Rightarrow> bh \<Rightarrow> json res \<times> bh" where
  "bh_run RefreshDbm s = enc_unit (refresh_DBM_from_file s)"
| "bh_run (BuildInfoAdd b i) s = enc JBool (build_info_add b i s)"
| "bh_run (BuildInfoUpdate b i) s = enc JBool (build_info_update b i s)"
| "bh_run (PriorityAdd b) s = enc JBool (priority_add b s)"
| "bh_run (PriorityDel b u) s = enc_unit (priority_del b u s)"
| "bh_run (PriorityIncrease b) s = enc JBool (priority_increase b s)"
| "bh_run (BaselineAdd b) s = enc JStr (baseline_add b s)"
| "bh_run (BaselineDel b) s = enc_unit (baseline_del b s)"
| "bh_run (GetRelease b) s = (Inr (JStr (get_release b)), s)"
| "bh_run (GetProject b) s = (Inr (JStr (get_project b)), s)"
| "bh_run (CleanBuild w x) s = enc JStr (clean_build w x s)"
| "bh_run (PurgeBuild w) s = enc JStr (purge_build w s)"
| "bh_run BaselineList s = enc (\<lambda>bs. JList (map JStr bs)) (baseline_list s, s)"
| "bh_run GetBuild s =
     enc (\<lambda>(b, i, rc). JList [enc_opt b, i, JBool rc]) (get_build s)"
| "bh_run (FetchBuild b) s = (fetch_build b s, s)"
| "bh_run (UpdateBuildTestInfo b i p) s = enc JStr (update_build_test_info b i p s)"
| "bh_run IsThereBuildToTest s = (Inr (JBool (is_there_build_to_test s)), s)"
| "bh_run FetchPendingBuildList s =
     (Inr (JList (map (\<lambda>(b, rc). JList [JStr b, JBool rc]) (fetch_pending_build_list s))), s)"
| "bh_run FetchAvailableBuilds s = (Inr (JStr (fetch_available_builds s)), s)"
| "bh_run (FetchBaselineTestInfo bl) s =
     enc (\<lambda>(b, i). JList [JStr b, i]) (fetch_baseline_test_info bl s, s)"
| "bh_run (AddBuildTestResult b r) s = enc_unit (add_build_test_result b r s)"
| "bh_run (GetBuildTestResult b) s = (Inr (JList (get_build_test_result b s)), s)"
| "bh_run (UpdateBuildStatus b st) s = enc_unit (update_build_status b st s)"
| "bh_run (ForceBuildStatus b st) s = enc JStr (force_build_status b st s)"
| "bh_run (GetBuildStatus b) s = (Inr (JStr (get_build_status b s)), s)"

lemma snd_enc [simp]: "snd (enc f p) = snd p"
  by (simp add: enc_def)

lemma enc_Inr [simp]: "fst (enc f p) = Inr j \<longleftrightarrow> (\<exists>v. fst p = Inr v \<and> j = f v)"
  by (auto simp: enc_def split: sum.splits)

lemma enc_Inl [simp]: "fst (enc f p) = Inl e \<longleftrightarrow> fst p = Inl e"
  by (auto simp: enc_def split: sum.splits)

section \<open>Well-formed data bases\<close>

definition statuses :: "string list" where
  "statuses = [''TEST_ONGOING'', ''CANCELLED'', ''SKIPPED'', ''TESTED'', ''NOT_TESTED'', ''TEST_FAULTY'']"

definition prio_ok :: "string \<Rightarrow> prio \<Rightarrow> bool" where
  "prio_ok p e \<longleftrightarrow>
     distinct (pending e) \<and> (\<forall>b \<in> set (pending e). get_project b = p) \<and>
     (\<forall>rc. high_priority e = Some rc \<longrightarrow> get_project rc = p)"

definition wf_db :: "db \<Rightarrow> bool" where
  "wf_db d \<longleftrightarrow>
     distinct (dict_keys (priority d)) \<and> distinct (dict_keys (db_build_info d)) \<and>
     (\<forall>p e. map_of (priority d) p = Some e \<longrightarrow> prio_ok p e) \<and>
     (\<forall>b r. map_of (db_build_info d) b = Some r \<longrightarrow> status r \<in> set statuses)"

definition known_db :: "db \<Rightarrow> bool" where
  "known_db d \<longleftrightarrow>
     (\<forall>p e. map_of (priority d) p = Some e \<longrightarrow>
        set (pending e) \<subseteq> set (dict_keys (db_build_info d)) \<and>
        (\<forall>rc. high_priority e = Some rc \<longrightarrow>
           rc \<in> set (dict_keys (db_build_info d)) \<and> rc \<notin> set (pending e)))"

text \<open>A predicate on the data base, of the one in memory and the one on file.\<close>

definition both :: "(db \<Rightarrow> bool) \<Rightarrow> bh \<Rightarrow> bool" where
  "both P s \<longleftrightarrow> P (mem s) \<and> (\<forall>d. db_file s = DbFile d \<longrightarrow> P d)"

abbreviation wf :: "bh \<Rightarrow> bool" where
  "wf \<equiv> both wf_db"

lemma both_update_db [intro]: "both P s \<Longrightarrow> both P (update_db s)"
  by (simp add: both_def update_db_def)

lemma both_with_mem: "both P s \<Longrightarrow> P (f (mem s)) \<Longrightarrow> both P (with_mem f s)"
  by (simp add: both_def with_mem_def)

lemma both_mem: "both P s \<Longrightarrow> P (mem s)"
  by (simp add: both_def)

lemma wf_prio_ok: "wf s \<Longrightarrow> map_of (priority (mem s)) p = Some e \<Longrightarrow> prio_ok p e"
  by (simp add: both_def wf_db_def)

subsection \<open>The primitive updates\<close>

lemma wf_set_prio: "wf s \<Longrightarrow> prio_ok p e \<Longrightarrow> wf (set_prio p e s)"
  unfolding set_prio_def
  by (rule both_with_mem) (auto simp: both_def wf_db_def dict_simps)

lemma wf_prio_modify:
  "wf s \<Longrightarrow> (\<And>e. prio_ok p e \<Longrightarrow> prio_ok p (f e)) \<Longrightarrow> wf (prio_modify p f s)"
  unfolding prio_modify_def
  by (rule both_with_mem) (auto simp: both_def wf_db_def dict_simps)

lemma wf_modify_build:
  "wf s \<Longrightarrow> (\<And>r. status r \<in> set statuses \<Longrightarrow> status (f r) \<in> set statuses) \<Longrightarrow>
     wf (with_mem (\<lambda>d. d\<lparr>db_build_info := dict_modify b f (db_build_info d)\<rparr>) s)"
  by (rule both_with_mem) (auto simp: both_def wf_db_def dict_simps)

lemma wf_add_build:
  "wf s \<Longrightarrow> status r \<in> set statuses \<Longrightarrow>
     wf (with_mem (\<lambda>d. d\<lparr>db_build_info := dict_set b r (db_build_info d)\<rparr>) s)"
  by (rule both_with_mem) (auto simp: both_def wf_db_def dict_simps)

lemma wf_del_build: "wf s \<Longrightarrow> wf (del_build b s)"
  unfolding del_build_def
  by (rule both_with_mem) (auto simp: both_def wf_db_def dict_simps)

lemma wf_baselines: "wf s \<Longrightarrow> wf (with_mem (\<lambda>d. d\<lparr>baselines := f d\<rparr>) s)"
  by (rule both_with_mem) (auto simp: both_def wf_db_def)

lemma wf_clean_priority: "wf s \<Longrightarrow> wf (clean_priority s)"
  unfolding clean_priority_def
  by (rule both_with_mem)
    (auto simp: both_def wf_db_def map_of_filter [where P = "\<lambda>k e. \<not> idle e"] dict_simps
      split: option.splits if_splits)

lemma wf_purge:
  "wf s \<Longrightarrow> wf (with_mem (\<lambda>d. d\<lparr>db_build_info :=
     dict_map (\<lambda>k r. if startswith k w then purge_rec r else r) (db_build_info d)\<rparr>) s)"
  by (rule both_with_mem) (auto simp: both_def wf_db_def dict_simps purge_rec_def)

lemmas wf_intros = both_update_db wf_set_prio wf_prio_modify wf_add_build wf_del_build
  wf_baselines wf_clean_priority wf_purge

subsection \<open>Every request keeps the data base well-formed\<close>

lemma prio_ok_dequeue: "prio_ok p e \<Longrightarrow> prio_ok p (dequeue b e)"
  by (auto simp: prio_ok_def dequeue_def dest: notin_set_remove1 set_mp [OF set_remove1_subset])

lemma prio_ok_promote: "prio_ok p e \<Longrightarrow> get_project b = p \<Longrightarrow> prio_ok p (promote b e)"
proof -
  have "set (tl xs) \<subseteq> set xs" "distinct xs \<Longrightarrow> distinct (tl xs)" for xs :: "string list"
    by (cases xs; auto)+
  then show "prio_ok p e \<Longrightarrow> get_project b = p \<Longrightarrow> prio_ok p (promote b e)"
    unfolding prio_ok_def promote_def by (simp add: distinct_dropWhile) (meson set_dropWhileD subsetD)
qed

lemma wf_set_status: "wf s \<Longrightarrow> st \<in> set statuses \<Longrightarrow> wf (set_status b st s)"
  unfolding set_status_def by (rule wf_modify_build) auto

lemma wf_set_test_info: "wf s \<Longrightarrow> wf (set_test_info b v s)"
  unfolding set_test_info_def by (rule wf_modify_build) auto

lemma wf_set_results: "wf s \<Longrightarrow> wf (set_results b v s)"
  unfolding set_results_def by (rule wf_modify_build) auto

lemma prio_ok_append:
  "prio_ok p e \<Longrightarrow> get_project b = p \<Longrightarrow> b \<notin> set (pending e) \<Longrightarrow>
     prio_ok p (e\<lparr>pending := pending e @ [b]\<rparr>)"
  by (auto simp: prio_ok_def)

lemma wf_priority_add: "wf s \<Longrightarrow> wf (snd (priority_add b s))"
  by (auto simp: priority_add_def Let_def prio_ok_def [of _ "\<lparr>pending = _, high_priority = _\<rparr>"]
      dest: wf_prio_ok intro!: wf_intros prio_ok_append split: option.splits)

lemma wf_priority_del: "wf s \<Longrightarrow> wf (snd (priority_del b u s))"
  by (auto simp: priority_del_def Let_def statuses_def dest: wf_prio_ok
      intro!: wf_intros wf_set_status prio_ok_dequeue split: option.splits)

lemma wf_priority_increase: "wf s \<Longrightarrow> wf (snd (priority_increase b s))"
  by (auto simp: priority_increase_def Let_def dest: wf_prio_ok
      intro!: wf_intros prio_ok_promote split: option.splits)

lemma prio_ok_take: "prio_ok p e \<Longrightarrow> prio_ok p (e\<lparr>high_priority := None\<rparr>)"
  "prio_ok p e \<Longrightarrow> prio_ok p (pending_update butlast e)"
  by (auto simp: prio_ok_def distinct_butlast dest: in_set_butlastD)

lemma wf_find_next_build: "wf s \<Longrightarrow> wf (snd (find_next_build x s))"
  by (auto simp: find_next_build_def intro!: wf_prio_modify prio_ok_take split: option.splits)

lemma wf_get_build: "wf s \<Longrightarrow> wf (snd (get_build s))"
  using wf_find_next_build [of s True]
  by (auto simp: get_build_def Let_def split: prod.splits option.splits)

lemma wf_clean_keys: "wf s \<Longrightarrow> wf (snd (clean_keys w x ks n s))"
  by (induction w x ks n s rule: clean_keys.induct)
    (auto simp: Let_def wf_priority_del wf_set_results wf_del_build split: option.splits)

lemma wf_clean_build: "wf s \<Longrightarrow> wf (snd (clean_build w x s))"
  using wf_clean_keys [of s w x "dict_keys (db_build_info (mem s))" 0]
  by (auto simp: clean_build_def intro!: wf_intros split: prod.splits sum.splits)

lemma wf_build_info: "wf s \<Longrightarrow> wf (snd (build_info_add b i s))"
  "wf s \<Longrightarrow> wf (snd (build_info_update b i s))"
  by (auto simp: build_info_add_def build_info_update_def statuses_def
      intro!: wf_intros wf_set_test_info split: option.splits sum.splits)

lemma wf_results: "wf s \<Longrightarrow> wf (snd (add_build_test_result b r s))"
  by (auto simp: add_build_test_result_def add_result_def statuses_def
      intro!: both_update_db wf_modify_build split: option.splits)

lemma wf_status: "wf s \<Longrightarrow> wf (snd (update_build_status b st s))"
  "wf s \<Longrightarrow> wf (snd (force_build_status b st s))"
  by (auto simp: update_build_status_def force_build_status_def forced_values_def statuses_def
      intro!: both_update_db wf_set_status split: option.splits)

lemma wf_refresh: "wf s \<Longrightarrow> wf (snd (refresh_DBM_from_file s))"
  by (cases "db_file s") (auto simp: refresh_DBM_from_file_def both_def)

lemma wf_rest: "wf s \<Longrightarrow> wf (snd (baseline_add b s))" "wf s \<Longrightarrow> wf (snd (baseline_del b s))"
  "wf s \<Longrightarrow> wf (snd (purge_build w s))" "wf s \<Longrightarrow> wf (snd (update_build_test_info b i p s))"
  by (auto simp: baseline_add_def baseline_del_def purge_build_def Let_def
        update_build_test_info_def intro!: wf_intros wf_set_test_info)

lemma wf_run: "wf s \<Longrightarrow> wf (snd (bh_run op s))"
  by (cases op) (simp_all add: wf_priority_add wf_priority_del wf_priority_increase wf_get_build
      wf_clean_build wf_build_info wf_results wf_status wf_refresh wf_rest)

end
