(* ===== verification/Dbus_Services.thy ===== *)
theory Dbus_Services
  imports Build_Inv
begin

text \<open>
  \<open>hss_utils/src/dbus\<close>: synchronous calls (\<open>services.py\<close>), their stubs for the build handler
  (\<open>clients.py\<close>) and signals (\<open>signals.py\<close>). A message is the JSON value its text decodes to,
  or a text that does not decode. The D-Bus library is a parameter: whether a publisher can be
  created and whether a send goes through.
\<close>

section \<open>Messages and exceptions on the wire\<close>

datatype wire = Wire json | Garbage string

text \<open>\<open>e.__class__.__name__\<close> and \<open>e.args\<close>\<close>

fun exc_class :: "py_exc \<Rightarrow> string" where
  "exc_class (KeyError _) = ''KeyError''"
| "exc_class (ValueError _) = ''ValueError''"
| "exc_class (IndexError _) = ''IndexError''"
| "exc_class (TypeError _) = ''TypeError''"
| "exc_class (AttributeError _) = ''AttributeError''"
| "exc_class (IOError _) = ''IOError''"
| "exc_class (NameError _) = ''NameError''"
| "exc_class (AssertionError _) = ''AssertionError''"
| "exc_class (FaultyAction _) = ''FaultyAction''"
| "exc_class (InvalidTcpMessage _) = ''InvalidTcpMessage''"
| "exc_class (ExecutionStartError _) = ''ExecutionStartError''"
| "exc_class (ExecutionRunError _) = ''ExecutionRunError''"
| "exc_class (ExecutionConfigurationError _) = ''ExecutionConfigurationError''"
| "exc_class (ExitRtc _) = ''ExitRtc''"
| "exc_class (StopTestCaseOnFail _) = ''StopTestCaseOnFail''"
| "exc_class (BatError _) = ''BatError''"
| "exc_class (SkipPhase _) = ''SkipPhase''"
| "exc_class (ExecutionNotAllowed _) = ''ExecutionNotAllowed''"
| "exc_class KeyboardInterrupt = ''KeyboardInterrupt''"
| "exc_class Disconnected = ''Disconnected''"
| "exc_class CannotConnect = ''CannotConnect''"
| "exc_class (PyException _) = ''Exception''"

fun exc_args :: "py_exc \<Rightarrow> json list" where
  "exc_args (KeyError m) = [JStr m]"
| "exc_args (ValueError m) = [JStr m]"
| "exc_args (IndexError m) = [JStr m]"
| "exc_args (TypeError m) = [JStr m]"
| "exc_args (AttributeError m) = [JStr m]"
| "exc_args (IOError m) = [JStr m]"
| "exc_args (NameError m) = [JStr m]"
| "exc_args (AssertionError m) = [JStr m]"
| "exc_args (FaultyAction m) = [JStr m]"
| "exc_args (InvalidTcpMessage m) = [JStr m]"
| "exc_args (ExecutionStartError m) = [JStr m]"
| "exc_args (ExecutionRunError m) = [JStr m]"
| "exc_args (ExecutionConfigurationError m) = [JStr m]"
| "exc_args (ExitRtc m) = [JStr m]"
| "exc_args (StopTestCaseOnFail m) = [JStr m]"
| "exc_args (BatError m) = [JStr m]"
| "exc_args (SkipPhase m) = [JStr m]"
| "exc_args (ExecutionNotAllowed m) = [JStr m]"
| "exc_args KeyboardInterrupt = []"
| "exc_args Disconnected = []"
| "exc_args CannotConnect = []"
| "exc_args (PyException m) = [JStr m]"

definition request_raise_exception :: "py_exc \<Rightarrow> wire" where
  "request_raise_exception e =
     Wire (JObj [(''error'', JStr (exc_str e)), (''type'', JStr (exc_class e)),
                 (''args'', JList (exc_args e))])"

definition request_done :: "json \<Rightarrow> wire" where
  "request_done v = Wire (JObj [(''result'', v)])"

definition bad_request_format :: wire where
  "bad_request_format = Wire (JObj [(''error'', JStr ''Bad request format'')])"

definition invalid_request_operation :: "string \<Rightarrow> wire" where
  "invalid_request_operation op =
     Wire (JObj [(''error'', JStr (''Invalid request operation: '' @ op))])"

section \<open>The service side\<close>

text \<open>
  What \<open>getattr(self, op)\<close> finds: a bound method, or a property, whose value is computed by
  the look-up itself.
\<close>

datatype 's member =
    Method "json list \<Rightarrow> (string \<times> json) list \<Rightarrow> 's \<Rightarrow> json res \<times> 's"
  | Property "'s \<Rightarrow> json res \<times> 's"

definition protected_ops :: "string list" where
  "protected_ops = [''start'', ''stop'', ''run'', ''running'']"

fun answer_of :: "json res \<times> 's \<Rightarrow> wire \<times> 's" where
  "answer_of (Inl e, s) = (request_raise_exception e, s)"
| "answer_of (Inr v, s) = (request_done v, s)"

fun json_list :: "json \<Rightarrow> json list" where
  "json_list (JList xs) = xs"
| "json_list _ = []"

fun json_dict :: "json \<Rightarrow> (string \<times> json) list" where
  "json_dict (JObj d) = d"
| "json_dict _ = []"

definition dict_get :: "string \<Rightarrow> json \<Rightarrow> (string \<times> json) list \<Rightarrow> json" where
  "dict_get k dflt d = (case map_of d k of None \<Rightarrow> dflt | Some v \<Rightarrow> v)"

definition process_request :: "(string \<Rightarrow> 's member option) \<Rightarrow> wire \<Rightarrow> 's \<Rightarrow> wire \<times> 's" where
  "process_request attrs request s =
     (case request of
        Wire (JObj d) \<Rightarrow>
          (case map_of d ''op'' of
             None \<Rightarrow> (bad_request_format, s)
           | Some (JStr op) \<Rightarrow>
               let args = json_list (dict_get ''args'' (JList []) d);
                   kwargs = json_dict (dict_get ''kwargs'' (JObj []) d)
               in if op \<in> set protected_ops then (invalid_request_operation op, s)
                  else if op = ''ping'' then (request_done (JStr ''pong''), s)
                  else (case attrs op of
                          None \<Rightarrow> (request_raise_exception (AttributeError op), s)
                        | Some (Method f) \<Rightarrow> answer_of (f args kwargs s)
                        | Some (Property f) \<Rightarrow> answer_of (f s))
           | Some _ \<Rightarrow>
               (request_raise_exception (TypeError ''getattr(): attribute name must be string''), s))
      | _ \<Rightarrow> (bad_request_format, s))"

section \<open>The client side\<close>

text \<open>\<open>__make_dbus_connection__\<close>: the list holds the outcomes of the next publisher creations.\<close>

fun make_dbus_connection :: "nat \<Rightarrow> bool list \<Rightarrow> unit res \<times> bool list" where
  "make_dbus_connection n (True # ts) = (Inr (), ts)"
| "make_dbus_connection n (False # ts) =
     (if n - 1 = 0 then (Inl CannotConnect, ts) else make_dbus_connection (n - 1) ts)"
| "make_dbus_connection n [] = (Inl CannotConnect, [])"

record 's link =
  sender :: bool
  tries :: "bool list"
  sends :: "bool list"
  svc :: 's

text \<open>
  \<open>Client.send_request\<close>: a lost connection is made again, a failed send drops it. \<open>sends\<close>
  are the outcomes of the next sends; the service runs when the request gets through.
\<close>

definition send_request ::
  "(wire \<Rightarrow> 's \<Rightarrow> wire \<times> 's) \<Rightarrow> wire \<Rightarrow> 's link \<Rightarrow> wire res \<times> 's link" where
  "send_request serve request c =
     (case (if sender c then (Inr (), c)
            else let (r, ts) = make_dbus_connection 3 (tries c)
                 in (r, c\<lparr>tries := ts, sender := (case r of Inl _ \<Rightarrow> False | Inr _ \<Rightarrow> True)\<rparr>)) of
        (Inl e, c1) \<Rightarrow> (Inl e, c1)
      | (Inr _, c1) \<Rightarrow>
          (case sends c1 of
             True # ok \<Rightarrow>
               let (w, s') = serve request (svc c1) in (Inr w, c1\<lparr>sends := ok, svc := s'\<rparr>)
           | ok \<Rightarrow> (Inl Disconnected, c1\<lparr>sends := tl ok, sender := False\<rparr>)))"

text \<open>
  \<open>eval('%s(*%s)' % (type, args))\<close> in the name space of \<open>services.py\<close>: the built-in
  exceptions and the two classes defined there; any other name is a \<open>NameError\<close>.
\<close>

definition arg_text :: "json list \<Rightarrow> string" where
  "arg_text args = (case args of [JStr m] \<Rightarrow> m | _ \<Rightarrow> [])"

definition eval_exception :: "string \<Rightarrow> json list \<Rightarrow> py_exc option" where
  "eval_exception cls args =
     map_of [(''KeyError'', KeyError (arg_text args)), (''ValueError'', ValueError (arg_text args)),
             (''IndexError'', IndexError (arg_text args)), (''TypeError'', TypeError (arg_text args)),
             (''AttributeError'', AttributeError (arg_text args)), (''IOError'', IOError (arg_text args)),
             (''NameError'', NameError (arg_text args)),
             (''AssertionError'', AssertionError (arg_text args)), (''Disconnected'', Disconnected),
             (''CannotConnect'', CannotConnect), (''Exception'', PyException (arg_text args))] cls"

fun json_text :: "json \<Rightarrow> string" where
  "json_text (JStr s) = s"
| "json_text _ = []"

text \<open>The second half of the \<open>remote\<close> wrapper: from the decoded answer to a value or a raise.\<close>

definition remote_result :: "wire \<Rightarrow> json res" where
  "remote_result w =
     (case w of
        Garbage t \<Rightarrow> Inl (ValueError t)
      | Wire (JObj d) \<Rightarrow>
          (case map_of d ''error'' of
             Some e \<Rightarrow>
               (case (map_of d ''type'', map_of d ''args'') of
                  (Some (JStr cls), Some (JList args)) \<Rightarrow>
                    (case eval_exception cls args of
                       Some x \<Rightarrow> Inl x
                     | None \<Rightarrow> Inl (PyException (json_text e)))
                | _ \<Rightarrow> Inl (PyException (json_text e)))
           | None \<Rightarrow> Inr (dict_get ''result'' JNull d))
      | Wire v \<Rightarrow> Inl (ValueError (json_text v)))"

definition request_of :: "string \<Rightarrow> json list \<Rightarrow> (string \<times> json) list \<Rightarrow> wire" where
  "request_of op args kwargs =
     Wire (JObj [(''op'', JStr op), (''args'', JList args), (''kwargs'', JObj kwargs)])"

definition remote ::
  "(string \<Rightarrow> 's member option) \<Rightarrow> string \<Rightarrow> json list \<Rightarrow> (string \<times> json) list \<Rightarrow> 's link \<Rightarrow>
     json res \<times> 's link" where
  "remote attrs op args kwargs c =
     (case send_request (process_request attrs) (request_of op args kwargs) c of
        (Inl e, c') \<Rightarrow> (Inl e, c')
      | (Inr w, c') \<Rightarrow> (remote_result w, c'))"

text \<open>What the caller sees of an exception raised in the service.\<close>

definition relay :: "py_exc \<Rightarrow> py_exc" where
  "relay e = (case eval_exception (exc_class e) (exc_args e) of
                Some x \<Rightarrow> x | None \<Rightarrow> PyException (exc_str e))"

definition relay_res :: "'a res \<Rightarrow> 'a res" where
  "relay_res r = (case r of Inl e \<Rightarrow> Inl (relay e) | Inr v \<Rightarrow> Inr v)"

lemma relay_simps [simp]:
  "relay (KeyError k) = KeyError k"
  "relay (FaultyAction m) = PyException (''FAILED. '' @ m)"
  "relay Disconnected = Disconnected"
  "relay (PyException m) = PyException m"
  by (simp_all add: relay_def eval_exception_def arg_text_def)

lemma remote_result_raise: "remote_result (request_raise_exception e) = Inl (relay e)"
  by (simp add: remote_result_def request_raise_exception_def relay_def split: option.splits)

lemma remote_result_done: "remote_result (request_done v) = Inr v"
  by (simp add: remote_result_def request_done_def dict_get_def)

lemma remote_answer: "answer_of p = (w, s) \<Longrightarrow> remote_result w = relay_res (fst p) \<and> s = snd p"
  by (cases p rule: answer_of.cases)
    (auto simp: remote_result_raise remote_result_done relay_res_def)

definition up :: "'s link \<Rightarrow> bool" where
  "up c \<longleftrightarrow> sender c \<and> sends c \<noteq> [] \<and> hd (sends c)"

lemma process_method:
  assumes "attrs op = Some (Method f)" and "op \<notin> set protected_ops" and "op \<noteq> ''ping''"
  shows "process_request attrs (request_of op args kwargs) s = answer_of (f args kwargs s)"
  using assms by (simp add: process_request_def request_of_def dict_get_def)

lemma process_property:
  assumes "attrs op = Some (Property f)" and "op \<notin> set protected_ops" and "op \<noteq> ''ping''"
  shows "process_request attrs (request_of op args kwargs) s = answer_of (f s)"
  using assms by (simp add: process_request_def request_of_def dict_get_def)

lemma send_up:
  "up c \<Longrightarrow> send_request serve w c =
     (let (a, s') = serve w (svc c) in (Inr a, c\<lparr>sends := tl (sends c), svc := s'\<rparr>))"
  by (cases "sends c") (auto simp: up_def send_request_def Let_def split: prod.splits)

lemma remote_up:
  assumes "up c" and "process_request attrs (request_of op args kwargs) (svc c) = answer_of p"
  shows "remote attrs op args kwargs c =
    (relay_res (fst p), c\<lparr>sends := tl (sends c), svc := snd p\<rparr>)"
  using assms remote_answer [of p]
  by (cases "answer_of p") (simp add: remote_def send_up Let_def)

section \<open>The contract of a service\<close>

text \<open>
  What a client class and the service behind it promise each other: the request that a stub builds
  for an operation makes the dispatcher run this operation. Then the call over the link is the
  local call, as long as the link is up, and a link that is down leaves the service alone.
\<close>

locale remote_object =
  fixes attrs :: "string \<Rightarrow> 's member option"
    and run :: "'op \<Rightarrow> 's \<Rightarrow> json res \<times> 's"
    and message :: "'op \<Rightarrow> string \<times> json list \<times> (string \<times> json) list"
  assumes served: "message op = (name, args, kwargs) \<Longrightarrow>
    process_request attrs (request_of name args kwargs) s = answer_of (run op s)"
begin

lemma call_delivered:
  "up c \<Longrightarrow> (case message op of (name, args, kwargs) \<Rightarrow> remote attrs name args kwargs c) =
     (relay_res (fst (run op (svc c))), c\<lparr>sends := tl (sends c), svc := snd (run op (svc c))\<rparr>)"
  by (cases "message op") (simp add: remote_up served)

lemma call_broken:
  "sender c \<Longrightarrow> sends c = False # ok \<Longrightarrow>
     (case message op of (name, args, kwargs) \<Rightarrow> remote attrs name args kwargs c) =
       (Inl Disconnected, c\<lparr>sends := ok, sender := False\<rparr>)"
  by (cases "message op") (simp add: remote_def send_request_def)

lemma call_unreachable:
  "\<not> sender c \<Longrightarrow> tries c = False # False # False # ts \<Longrightarrow>
     (case message op of (name, args, kwargs) \<Rightarrow> remote attrs name args kwargs c) =
       (Inl CannotConnect, c\<lparr>tries := ts, sender := False\<rparr>)"
  by (cases "message op") (simp add: remote_def send_request_def numeral_eq_Suc)

lemma call_reconnected:
  assumes "\<not> sender c" and "tries c = replicate n False @ True # ts" and "n < 3" and "sends c = True # ok"
  shows "(case message op of (name, args, kwargs) \<Rightarrow> remote attrs name args kwargs c) =
    (relay_res (fst (run op (svc c))),
     c\<lparr>tries := ts, sender := True, sends := ok, svc := snd (run op (svc c))\<rparr>)"
proof -
  have conn: "make_dbus_connection 3 (tries c) = (Inr (), ts)"
    using assms(2,3) by (auto simp: less_Suc_eq numeral_eq_Suc)
  obtain nm args kw where st: "message op = (nm, args, kw)" by (cases "message op")
  obtain w s' where w: "process_request attrs (request_of nm args kw) (svc c) = (w, s')"
    by (cases "process_request attrs (request_of nm args kw) (svc c)")
  then have "remote_result w = relay_res (fst (run op (svc c))) \<and> s' = snd (run op (svc c))"
    using remote_answer [of "run op (svc c)" w s'] served [OF st, of "svc c"] by simp
  with st w conn assms(1,4) show ?thesis
    by (simp add: remote_def send_request_def)
qed

end

section \<open>The build handler as a service\<close>

text \<open>
  Python's binding of positional and keyword arguments to parameters with defaults; \<open>None\<close>
  is the \<open>TypeError\<close> of a wrong call.
\<close>

fun bind_args ::
  "(string \<times> json option) list \<Rightarrow> json list \<Rightarrow> (string \<times> json) list \<Rightarrow> json list option" where
  "bind_args [] [] kw = (if kw = [] then Some [] else None)"
| "bind_args [] (a # as) kw = None"
| "bind_args ((n, d) # ps) (a # as) kw =
     (if n \<in> set (dict_keys kw) then None else map_option (Cons a) (bind_args ps as kw))"
| "bind_args ((n, d) # ps) [] kw =
     (case map_of kw n of
        Some v \<Rightarrow> map_option (Cons v) (bind_args ps [] (dict_del n kw))
      | None \<Rightarrow> (case d of Some v \<Rightarrow> map_option (Cons v) (bind_args ps [] kw) | None \<Rightarrow> None))"

definition bh_methods :: "(string \<times> (string \<times> json option) list) list" where
  "bh_methods =
     [(''refresh_DBM_from_file'', []),
      (''build_info_add'', [(''build'', None), (''info'', None)]),
      (''build_info_update'', [(''build'', None), (''info'', None)]),
      (''priority_add'', [(''build'', None)]),
      (''priority_del'', [(''build'', None), (''update_status'', None)]),
      (''priority_increase'', [(''build'', None)]),
      (''baseline_add'', [(''build'', None)]),
      (''baseline_del'', [(''baseline'', None)]),
      (''get_release'', [(''build'', None)]),
      (''get_project'', [(''build'', None)]),
      (''clean_build'', [(''wildcard'', None), (''exclude'', Some (JStr []))]),
      (''purge_build'', [(''wildcard'', None)]),
      (''fetch_build'', [(''build'', None)]),
      (''update_build_test_info'', [(''build'', None), (''test_info'', None), (''persist'', None)]),
      (''fetch_baseline_test_info'', [(''baseline'', None)]),
      (''add_build_test_result'', [(''build'', None), (''test_result'', None)]),
      (''get_build_test_result'', [(''build'', None)]),
      (''update_build_status'', [(''build'', None), (''status'', None)]),
      (''force_build_status'', [(''build'', None), (''status'', None)]),
      (''get_build_status'', [(''build'', None)])]"

definition bh_properties :: "(string \<times> bh_op) list" where
  "bh_properties =
     [(''baseline_list'', BaselineList), (''get_build'', GetBuild),
      (''is_there_build_to_test'', IsThereBuildToTest),
      (''fetch_pending_build_list'', FetchPendingBuildList),
      (''fetch_available_builds'', FetchAvailableBuilds)]"

text \<open>The call with bound arguments; names are strings and flags are booleans.\<close>

definition op_of :: "string \<Rightarrow> json list \<Rightarrow> bh_op option" where
  "op_of op args =
     (if op = ''refresh_DBM_from_file'' then Some RefreshDbm
      else case args of
        [JStr b] \<Rightarrow>
          map_of [(''priority_add'', PriorityAdd b), (''priority_increase'', PriorityIncrease b),
                  (''baseline_add'', BaselineAdd b), (''baseline_del'', BaselineDel b),
                  (''get_release'', GetRelease b), (''get_project'', GetProject b),
                  (''purge_build'', PurgeBuild b), (''fetch_build'', FetchBuild b),
                  (''fetch_baseline_test_info'', FetchBaselineTestInfo b),
                  (''get_build_test_result'', GetBuildTestResult b),
                  (''get_build_status'', GetBuildStatus b)] op
      | [JStr b, v] \<Rightarrow>
          if op = ''build_info_add'' then Some (BuildInfoAdd b v)
          else if op = ''build_info_update'' then Some (BuildInfoUpdate b v)
          else if op = ''add_build_test_result'' then Some (AddBuildTestResult b v)
          else (case v of
                  JStr t \<Rightarrow>
                    map_of [(''clean_build'', CleanBuild b t),
                            (''update_build_status'', UpdateBuildStatus b t),
                            (''force_build_status'', ForceBuildStatus b t)] op
                | JBool u \<Rightarrow> if op = ''priority_del'' then Some (PriorityDel b u) else None
                | _ \<Rightarrow> None)
      | [JStr b, v, JBool p] \<Rightarrow>
          if op = ''update_build_test_info'' then Some (UpdateBuildTestInfo b v p) else None
      | _ \<Rightarrow> None)"

definition bh_attrs :: "string \<Rightarrow> bh member option" where
  "bh_attrs op =
     (case map_of bh_properties op of
        Some q \<Rightarrow> Some (Property (bh_run q))
      | None \<Rightarrow>
          (case map_of bh_methods op of
             None \<Rightarrow> None
           | Some params \<Rightarrow>
               Some (Method (\<lambda>args kwargs s.
                 case Option.bind (bind_args params args kwargs) (op_of op) of
                   None \<Rightarrow> (Inl (TypeError op), s)
                 | Some q \<Rightarrow> bh_run q s))))"

text \<open>
  \<open>Build_handler_Client\<close>: the name, positional and keyword arguments of each stub, as the
  controller and the gateway call them.
\<close>

fun stub :: "bh_op \<Rightarrow> string \<times> json list \<times> (string \<times> json) list" where
  "stub RefreshDbm = (''refresh_DBM_from_file'', [], [])"
| "stub (BuildInfoAdd b i) = (''build_info_add'', [JStr b, i], [])"
| "stub (BuildInfoUpdate b i) = (''build_info_update'', [JStr b, i], [])"
| "stub (PriorityAdd b) = (''priority_add'', [JStr b], [])"
| "stub (PriorityDel b u) = (''priority_del'', [JStr b], [(''update_status'', JBool u)])"
| "stub (PriorityIncrease b) = (''priority_increase'', [JStr b], [])"
| "stub (BaselineAdd b) = (''baseline_add'', [JStr b], [])"
| "stub (BaselineDel b) = (''baseline_del'', [JStr b], [])"
| "stub (GetRelease b) = (''get_release'', [JStr b], [])"
| "stub (GetProject b) = (''get_project'', [JStr b], [])"
| "stub (CleanBuild w x) =
     (''clean_build'', [JStr w], if x = [] then [] else [(''exclude'', JStr x)])"
| "stub (PurgeBuild w) = (''purge_build'', [JStr w], [])"
| "stub BaselineList = (''baseline_list'', [], [])"
| "stub GetBuild = (''get_build'', [], [])"
| "stub (FetchBuild b) = (''fetch_build'', [JStr b], [])"
| "stub (UpdateBuildTestInfo b i p) = (''update_build_test_info'', [JStr b, i, JBool p], [])"
| "stub IsThereBuildToTest = (''is_there_build_to_test'', [], [])"
| "stub FetchPendingBuildList = (''fetch_pending_build_list'', [], [])"
| "stub FetchAvailableBuilds = (''fetch_available_builds'', [], [])"
| "stub (FetchBaselineTestInfo bl) = (''fetch_baseline_test_info'', [JStr bl], [])"
| "stub (AddBuildTestResult b r) = (''add_build_test_result'', [JStr b, r], [])"
| "stub (GetBuildTestResult b) = (''get_build_test_result'', [JStr b], [])"
| "stub (UpdateBuildStatus b st) = (''update_build_status'', [JStr b, JStr st], [])"
| "stub (ForceBuildStatus b st) = (''force_build_status'', [JStr b, JStr st], [])"
| "stub (GetBuildStatus b) = (''get_build_status'', [JStr b], [])"

definition bh_call :: "bh_op \<Rightarrow> bh link \<Rightarrow> json res \<times> bh link" where
  "bh_call op c = (case stub op of (name, args, kwargs) \<Rightarrow> remote bh_attrs name args kwargs c)"

lemma stub_service:
  "stub op = (name, args, kwargs) \<Longrightarrow> name \<notin> set protected_ops \<and> name \<noteq> ''ping''"
  by (cases op) (simp_all add: protected_ops_def, auto)

lemma methods_lookup:
  "map_of bh_methods ''refresh_DBM_from_file'' = Some []"
  "map_of bh_methods ''build_info_add'' = Some [(''build'', None), (''info'', None)]"
  "map_of bh_methods ''build_info_update'' = Some [(''build'', None), (''info'', None)]"
  "map_of bh_methods ''priority_add'' = Some [(''build'', None)]"
  "map_of bh_methods ''priority_del'' = Some [(''build'', None), (''update_status'', None)]"
  "map_of bh_methods ''priority_increase'' = Some [(''build'', None)]"
  "map_of bh_methods ''baseline_add'' = Some [(''build'', None)]"
  "map_of bh_methods ''baseline_del'' = Some [(''baseline'', None)]"
  "map_of bh_methods ''get_release'' = Some [(''build'', None)]"
  "map_of bh_methods ''get_project'' = Some [(''build'', None)]"
  "map_of bh_methods ''clean_build'' = Some [(''wildcard'', None), (''exclude'', Some (JStr []))]"
  "map_of bh_methods ''purge_build'' = Some [(''wildcard'', None)]"
  "map_of bh_methods ''fetch_build'' = Some [(''build'', None)]"
  "map_of bh_methods ''update_build_test_info'' = Some [(''build'', None), (''test_info'', None), (''persist'', None)]"
  "map_of bh_methods ''fetch_baseline_test_info'' = Some [(''baseline'', None)]"
  "map_of bh_methods ''add_build_test_result'' = Some [(''build'', None), (''test_result'', None)]"
  "map_of bh_methods ''get_build_test_result'' = Some [(''build'', None)]"
  "map_of bh_methods ''update_build_status'' = Some [(''build'', None), (''status'', None)]"
  "map_of bh_methods ''force_build_status'' = Some [(''build'', None), (''status'', None)]"
  "map_of bh_methods ''get_build_status'' = Some [(''build'', None)]"
  by code_simp+

lemma methods_no_properties:
  "map_of bh_properties ''refresh_DBM_from_file'' = None"
  "map_of bh_properties ''build_info_add'' = None"
  "map_of bh_properties ''build_info_update'' = None"
  "map_of bh_properties ''priority_add'' = None"
  "map_of bh_properties ''priority_del'' = None"
  "map_of bh_properties ''priority_increase'' = None"
  "map_of bh_properties ''baseline_add'' = None"
  "map_of bh_properties ''baseline_del'' = None"
  "map_of bh_properties ''get_release'' = None"
  "map_of bh_properties ''get_project'' = None"
  "map_of bh_properties ''clean_build'' = None"
  "map_of bh_properties ''purge_build'' = None"
  "map_of bh_properties ''fetch_build'' = None"
  "map_of bh_properties ''update_build_test_info'' = None"
  "map_of bh_properties ''fetch_baseline_test_info'' = None"
  "map_of bh_properties ''add_build_test_result'' = None"
  "map_of bh_properties ''get_build_test_result'' = None"
  "map_of bh_properties ''update_build_status'' = None"
  "map_of bh_properties ''force_build_status'' = None"
  "map_of bh_properties ''get_build_status'' = None"
  by code_simp+

lemma properties_lookup:
  "map_of bh_properties ''baseline_list'' = Some BaselineList"
  "map_of bh_properties ''get_build'' = Some GetBuild"
  "map_of bh_properties ''is_there_build_to_test'' = Some IsThereBuildToTest"
  "map_of bh_properties ''fetch_pending_build_list'' = Some FetchPendingBuildList"
  "map_of bh_properties ''fetch_available_builds'' = Some FetchAvailableBuilds"
  by code_simp+

lemma stub_lookup:
  "stub op = (name, args, kwargs) \<Longrightarrow>
     map_of bh_properties name = Some op \<or>
     (map_of bh_properties name = None \<and>
      (\<exists>ps. map_of bh_methods name = Some ps \<and>
         Option.bind (bind_args ps args kwargs) (op_of name) = Some op))"
  by (cases op)
    (auto simp only: stub.simps prod.inject methods_lookup methods_no_properties properties_lookup,
      simp_all add: op_of_def)

lemma stub_dispatch:
  assumes "stub op = (name, args, kwargs)"
  shows "process_request bh_attrs (request_of name args kwargs) s = answer_of (bh_run op s)"
proof (cases "map_of bh_properties name = Some op")
  case True
  then have "bh_attrs name = Some (Property (bh_run op))" by (simp add: bh_attrs_def)
  with stub_service [OF assms] show ?thesis by (simp add: process_property)
next
  case False
  then obtain ps where "map_of bh_properties name = None" "map_of bh_methods name = Some ps"
    "Option.bind (bind_args ps args kwargs) (op_of name) = Some op"
    using stub_lookup [OF assms] by blast
  with stub_service [OF assms] show ?thesis
    by (simp add: bh_attrs_def process_method)
qed

interpretation build_handler: remote_object bh_attrs bh_run stub
  by unfold_locales (rule stub_dispatch)

lemma bh_call_up:
  "up c \<Longrightarrow> bh_call op c =
     (relay_res (fst (bh_run op (svc c))), c\<lparr>sends := tl (sends c), svc := snd (bh_run op (svc c))\<rparr>)"
  unfolding bh_call_def by (rule build_handler.call_delivered)

section \<open>Signals\<close>

definition create_signal :: "string \<Rightarrow> json list \<Rightarrow> wire" where
  "create_signal signal_id args = Wire (JObj [(''signal'', JStr signal_id), (''args'', JList args)])"

text \<open>
  A text that does not decode stays a string, and indexing it with a string key raises
  \<open>TypeError\<close>, which the handler for \<open>KeyError\<close> does not catch.
\<close>

definition read_signal :: "wire \<Rightarrow> (string \<times> json) option res" where
  "read_signal w =
     (let v = (case w of Wire j \<Rightarrow> j | Garbage t \<Rightarrow> JStr t)
      in case json_get v ''signal'' of
           Inl (KeyError k) \<Rightarrow> Inr None
         | Inl e \<Rightarrow> Inl e
         | Inr i \<Rightarrow>
             (case json_get v ''args'' of
                Inl (KeyError k) \<Rightarrow> Inr None
              | Inl e \<Rightarrow> Inl e
              | Inr args \<Rightarrow> Inr (Some (json_text i, args))))"

type_synonym 's handler = "json list \<Rightarrow> 's \<Rightarrow> unit res \<times> 's"

type_synonym 's watcher = "(string, 's handler) dict"

definition install_handler :: "string \<Rightarrow> 's handler \<Rightarrow> 's watcher \<Rightarrow> 's watcher" where
  "install_handler signal_id h w = dict_set signal_id h w"

definition remove_handler :: "string \<Rightarrow> 's watcher \<Rightarrow> unit res \<times> 's watcher" where
  "remove_handler signal_id w =
     (if signal_id \<notin> set (dict_keys w)
      then (Inl (ValueError (''Signal \"'' @ signal_id @ ''\" is not connected'')), w)
      else (Inr (), dict_del signal_id w))"

definition is_excited_with :: "string \<Rightarrow> 's watcher \<Rightarrow> bool" where
  "is_excited_with signal_id w = (signal_id \<in> set (dict_keys w))"

text \<open>\<open>_dispatcher_\<close>: a handler's exception is logged and dropped, its state changes stay.\<close>

definition dispatch :: "'s watcher \<Rightarrow> wire \<Rightarrow> 's \<Rightarrow> unit res \<times> 's" where
  "dispatch w signal s =
     (case read_signal signal of
        Inl e \<Rightarrow> (Inl e, s)
      | Inr None \<Rightarrow> (Inr (), s)
      | Inr (Some (signal_id, args)) \<Rightarrow>
          (case map_of w signal_id of
             None \<Rightarrow> (Inr (), s)
           | Some h \<Rightarrow> (Inr (), snd (h (json_list args) s))))"

text \<open>\<open>Emitter\<close>: emitting after a shutdown is an error. The state is the list of signals sent.\<close>

record emitter =
  active :: bool
  sent :: "wire list"

definition emitter_shutdown :: "emitter \<Rightarrow> emitter" where
  "emitter_shutdown e = e\<lparr>active := False\<rparr>"

definition emitter_emit :: "string \<Rightarrow> json list \<Rightarrow> emitter \<Rightarrow> unit res \<times> emitter" where
  "emitter_emit signal_id args e =
     (if \<not> active e then (Inl (ValueError ''Emitter() is down''), e)
      else (Inr (), e\<lparr>sent := sent e @ [create_signal signal_id args]\<rparr>))"

lemma read_create [simp]: "read_signal (create_signal i args) = Inr (Some (i, JList args))"
  by (simp add: read_signal_def create_signal_def)

lemma dispatch_create:
  "dispatch w (create_signal i args) s =
     (Inr (), case map_of w i of None \<Rightarrow> s | Some h \<Rightarrow> snd (h args s))"
  by (simp add: dispatch_def split: option.splits)

section \<open>Properties\<close>

text \<open>C3: a call through stub, wire and dispatcher is the local call: it runs the method the
  stub names with the arguments it was given, changes the service's state in the same way,
  returns the method's value, and raises the method's exception if it is a built-in one.
  Exceptions of the service's own classes arrive as plain \<open>Exception\<close> with their text.\<close>

theorem remote_call_is_local_call:
  assumes "up c"
  shows "bh_call op c =
    (case bh_run op (svc c) of
       (Inr v, s) \<Rightarrow> (Inr v, c\<lparr>sends := tl (sends c), svc := s\<rparr>)
     | (Inl (FaultyAction m), s) \<Rightarrow>
         (Inl (PyException (''FAILED. '' @ m)), c\<lparr>sends := tl (sends c), svc := s\<rparr>)
     | (Inl e, s) \<Rightarrow> (Inl (relay e), c\<lparr>sends := tl (sends c), svc := s\<rparr>))"
  using bh_call_up [OF assms]
  by (auto simp: relay_res_def split: prod.splits sum.splits py_exc.splits)

theorem remote_call_is_local_call_witness:
  "fst (bh_call (PriorityAdd ''HSS-1.2.3.4'')
     \<lparr>sender = True, tries = [], sends = [True], svc = \<lparr>mem = empty_db, db_file = NoFile\<rparr>\<rparr>) =
   Inl (PyException ''FAILED. HSS-1.2.3.4 does not exists in DB. No actions'')"
proof -
  let ?c = "\<lparr>sender = True, tries = [], sends = [True], svc = \<lparr>mem = empty_db, db_file = NoFile\<rparr>\<rparr>"
  have "up ?c" by (simp add: up_def)
  from remote_call_is_local_call [OF this, of "PriorityAdd ''HSS-1.2.3.4''"] show ?thesis
    by (simp add: priority_add_def empty_db_def enc_def)
qed

text \<open>A client whose send fails raises \<open>Disconnected\<close>, leaves the service untouched and
  connects again on its next call, which raises \<open>CannotConnect\<close> when three attempts fail.\<close>

theorem disconnected_then_reconnect:
  assumes "sender c" and "sends c = False # ok"
  obtains c1 where "bh_call op c = (Inl Disconnected, c1)" and "svc c1 = svc c" and "\<not> sender c1"
    and "tries c = False # False # False # ts \<Longrightarrow>
      fst (bh_call op' c1) = Inl CannotConnect \<and> svc (snd (bh_call op' c1)) = svc c"
    and "tries c = replicate n False @ True # ts \<Longrightarrow> n < 3 \<Longrightarrow> ok = True # ok' \<Longrightarrow>
      fst (bh_call op' c1) = relay_res (fst (bh_run op' (svc c)))"
proof -
  let ?c1 = "c\<lparr>sends := ok, sender := False\<rparr>"
  have "bh_call op c = (Inl Disconnected, ?c1)"
    unfolding bh_call_def by (rule build_handler.call_broken [OF assms])
  moreover have "fst (bh_call op' ?c1) = Inl CannotConnect \<and> svc (snd (bh_call op' ?c1)) = svc c"
    if "tries c = False # False # False # ts"
    unfolding bh_call_def using build_handler.call_unreachable [of ?c1 ts op'] that by simp
  moreover have "fst (bh_call op' ?c1) = relay_res (fst (bh_run op' (svc c)))"
    if "tries c = replicate n False @ True # ts" "n < 3" "ok = True # ok'"
    unfolding bh_call_def using build_handler.call_reconnected [of ?c1 n ts ok' op'] that by simp
  ultimately show thesis using that [of ?c1] by simp
qed

theorem disconnected_then_reconnect_witness:
  "\<exists>c1. bh_call GetBuild \<lparr>sender = True, tries = [], sends = [False], svc = \<lparr>mem = empty_db, db_file = NoFile\<rparr>\<rparr>
     = (Inl Disconnected, c1)"
  by (rule disconnected_then_reconnect
      [of "\<lparr>sender = True, tries = [], sends = [False], svc = \<lparr>mem = empty_db, db_file = NoFile\<rparr>\<rparr>" "[]"])
    auto

text \<open>A signal reaches the handler installed last for its name, with its arguments; a signal
  nobody handles changes nothing, and no handler's exception leaves the dispatcher.\<close>

theorem dispatch_installed:
  "dispatch (install_handler i h w) (create_signal i args) s = (Inr (), snd (h args s)) \<and>
   (is_excited_with j w \<or> dispatch w (create_signal j args) s = (Inr (), s)) \<and>
   dispatch (snd (remove_handler i (install_handler i h w))) (create_signal i args) s = (Inr (), s)"
  by (auto simp: dispatch_create install_handler_def remove_handler_def is_excited_with_def dict_simps
      split: option.splits dest: map_of_in_keys)

end
