(* ===== verification/Controller.thy ===== *)
theory Controller
  imports Dbus_Services
begin

text \<open>
  \<open>dbus/rtc_controller/controller/service.py\<close>: the service that decides which build is tested.
  Every signal handler of \<open>Handler\<close> is one definition over the state; the build handler is
  reached through its client (\<open>Dbus_Services.bh_call\<close>). What the environment decides is the
  record \<open>env\<close>: the outcome of creating, preparing and starting an \<open>RTC_Handler\<close>, the files
  the command line names, \<open>packaging.version\<close> and Python's \<open>repr\<close>.
\<close>

section \<open>State\<close>

record rtc_thread =
  ongoing :: bool
  node_up :: bool
  execution_info_error :: "string option"

datatype service_file = NoConfig | BadConfig | Config json

record ctl =
  service_paused :: bool
  can_be_stopped :: bool
  have_to_exit :: bool
  service_config :: json
  config_file :: service_file
  build :: "string option"
  build_info :: json
  high :: bool
  rtc_handler :: "rtc_thread option"
  created :: nat
  rtc_commands :: "string list"
  signals :: "wire list"
  bus :: "bh link"

record env =
  is_newer :: "string \<Rightarrow> bool"
  py_repr :: "json \<Rightarrow> string"
  json_file :: "string \<Rightarrow> json res"
  create_error :: "string option"
  prepare_error :: "string option"
  start_error :: "string option"

definition bcall :: "bh_op \<Rightarrow> ctl \<Rightarrow> json res \<times> ctl" where
  "bcall op s = (case bh_call op (bus s) of (r, c) \<Rightarrow> (r, s\<lparr>bus := c\<rparr>))"

definition emits :: "string \<Rightarrow> json list \<Rightarrow> ctl \<Rightarrow> ctl" where
  "emits signal args s = s\<lparr>signals := signals s @ [create_signal signal args]\<rparr>"

definition reply :: "string \<Rightarrow> string \<Rightarrow> ctl \<Rightarrow> unit res \<times> ctl" where
  "reply signal_answer text s = (Inr (), emits signal_answer [JStr text] s)"

text \<open>\<open>Handler.__init__\<close>: a missing or malformed configuration file leaves \<open>{}\<close>.\<close>

definition ctl_init :: "service_file \<Rightarrow> bh link \<Rightarrow> ctl" where
  "ctl_init file c =
     \<lparr>service_paused = True, can_be_stopped = False, have_to_exit = False,
      service_config = (case file of Config j \<Rightarrow> j | _ \<Rightarrow> JObj []), config_file = file,
      build = None, build_info = JNull, high = False, rtc_handler = None, created = 0,
      rtc_commands = [], signals = [], bus = c\<rparr>"

definition save_service_config :: "ctl \<Rightarrow> ctl" where
  "save_service_config s = s\<lparr>config_file := Config (service_config s)\<rparr>"

definition ongoing_test :: "ctl \<Rightarrow> bool" where
  "ongoing_test s = (case rtc_handler s of None \<Rightarrow> False | Some h \<Rightarrow> ongoing h)"

definition clean :: "ctl \<Rightarrow> ctl" where
  "clean s = s\<lparr>rtc_handler := None, can_be_stopped := False, build := None, build_info := JNull,
              high := False\<rparr>"

section \<open>Commands to the running test tool\<close>

text \<open>\<open>RTC_Handler.send_rtc_command\<close>: nothing is sent once the node is released.\<close>

definition send_rtc_command :: "string \<Rightarrow> ctl \<Rightarrow> ctl" where
  "send_rtc_command cmd s =
     (case rtc_handler s of
        Some h \<Rightarrow> if node_up h then s\<lparr>rtc_commands := rtc_commands s @ [cmd]\<rparr> else s
      | None \<Rightarrow> s)"

definition rtc_call :: "string \<Rightarrow> ctl \<Rightarrow> unit res \<times> ctl" where
  "rtc_call cmd s =
     (if rtc_handler s = None then (Inl (AttributeError ''NoneType''), s)
      else (Inr (), send_rtc_command cmd s))"

definition stop :: "ctl \<Rightarrow> ctl" where
  "stop s =
     (let s1 = s\<lparr>have_to_exit := True\<rparr>
      in if ongoing_test s1 then send_rtc_command ''quit'' s1 else s1)"

text \<open>\<open>stop_test\<close>, which no handler calls.\<close>

definition stop_test :: "ctl \<Rightarrow> unit res \<times> ctl" where
  "stop_test s = andthen (rtc_call ''quit'' s) (\<lambda>_ s. done_with (clean s))"

section \<open>Baselines\<close>

text \<open>\<open>self.__service_config['service_parameters']['base_release']\<close>\<close>

definition base_release :: "json \<Rightarrow> json res" where
  "base_release cfg =
     (case json_get cfg ''service_parameters'' of
        Inl e \<Rightarrow> Inl e | Inr p \<Rightarrow> json_get p ''base_release'')"

definition baseline :: "ctl \<Rightarrow> json res" where
  "baseline s =
     (case base_release (service_config s) of Inl (KeyError k) \<Rightarrow> Inr JNull | r \<Rightarrow> r)"

definition set_base_release :: "json \<Rightarrow> json \<Rightarrow> json res" where
  "set_base_release v cfg =
     (case json_get cfg ''service_parameters'' of
        Inl e \<Rightarrow> Inl e
      | Inr p \<Rightarrow>
          (case json_put p ''base_release'' v of
             Inl e \<Rightarrow> Inl e
           | Inr p' \<Rightarrow> json_put cfg ''service_parameters'' p'))"

text \<open>\<open>hss_release\<close>: any failure gives \<open>None\<close>.\<close>

definition hss_release :: "env \<Rightarrow> string \<Rightarrow> json \<Rightarrow> string option" where
  "hss_release v bld info =
     (case json_get info ''packages'' of
        Inl _ \<Rightarrow> None
      | Inr p \<Rightarrow>
          (case json_get p ''ESM_UP_link'' of
             Inr (JStr link) \<Rightarrow>
               let name = last (split_on (CHR 0x2F) link);
                   rel = hd (split_on (CHR ''_'') (join [CHR 0x2F] (drop 2 (split_on (CHR ''-'') name))));
                   rel' = (if is_newer v bld then str_replace rel [CHR 0x2F] ''_'' else rel)
               in Some (rel' @ ''_'' @ last (split_on (CHR ''-'') bld))
           | _ \<Rightarrow> None))"

definition opt_json :: "string option \<Rightarrow> json" where
  "opt_json x = (case x of None \<Rightarrow> JNull | Some t \<Rightarrow> JStr t)"

text \<open>\<open>build, build_info = ...\<close> on the answer of \<open>fetch_baseline_test_info\<close>: \<open>None\<close> stands for any exception.\<close>

fun two_values :: "json res \<Rightarrow> (string \<times> json) option" where
  "two_values (Inr (JList [JStr b, i])) = Some (b, i)"
| "two_values _ = None"

definition base_info :: "env \<Rightarrow> json res \<Rightarrow> json" where
  "base_info v r = JObj (case two_values r of
     None \<Rightarrow> []
   | Some (b, i) \<Rightarrow>
       [(''build'', JStr b), (''build_info'', i), (''hss_release'', opt_json (hss_release v b i))])"

definition baseline_test_info :: "env \<Rightarrow> ctl \<Rightarrow> json res \<times> ctl" where
  "baseline_test_info v s =
     (case baseline s of
        Inl e \<Rightarrow> (Inl e, s)
      | Inr bl \<Rightarrow>
          if bl = JNull then (Inr (JObj []), s)
          else (case bcall (FetchBaselineTestInfo (json_text bl)) s of
             (r, s1) \<Rightarrow> (Inr (base_info v r), s1)))"

section \<open>Starting an execution\<close>

definition set_test :: "string option \<Rightarrow> json \<Rightarrow> bool \<Rightarrow> ctl \<Rightarrow> ctl" where
  "set_test b i h s = s\<lparr>build := b, build_info := i, high := h\<rparr>"

definition name_of :: "string option \<Rightarrow> string" where
  "name_of b = (case b of None \<Rightarrow> [] | Some x \<Rightarrow> x)"

text \<open>\<open>if not self.__service_paused: update_build_status(self.build, st)\<close>\<close>

definition report_status :: "string \<Rightarrow> ctl \<Rightarrow> unit res \<times> ctl" where
  "report_status st s =
     (if service_paused s then done_with s
      else andthen (bcall (UpdateBuildStatus (name_of (build s)) st) s) (\<lambda>_. done_with))"

definition faulty :: "ctl \<Rightarrow> unit res \<times> ctl" where
  "faulty s = andthen (report_status ''TEST_FAULTY'' s) (\<lambda>_ s. done_with (clean s))"

text \<open>
  From the creation of the \<open>RTC_Handler\<close> on. The constructor fails on an empty service
  configuration or as the environment says; the started thread sets the start event when the
  test runs, or with \<open>execution_info_error\<close>. A thread that never sets it leaves \<open>wait()\<close> and the
  service blocked for good; \<open>launch\<close> is the step of a wait that ends, and
  \<open>Rtc_Handler_Props\<close> says when it does.
\<close>

definition new_handler :: "ctl \<Rightarrow> ctl" where
  "new_handler s = s\<lparr>rtc_handler := Some \<lparr>ongoing = False, node_up = True, execution_info_error = None\<rparr>,
                    created := Suc (created s), can_be_stopped := False\<rparr>"

definition started :: "env \<Rightarrow> ctl \<Rightarrow> ctl" where
  "started v s = s\<lparr>rtc_handler := Some \<lparr>ongoing = (start_error v = None), node_up = True,
                                     execution_info_error = start_error v\<rparr>\<rparr>"

definition launch :: "env \<Rightarrow> ctl \<Rightarrow> unit res \<times> ctl" where
  "launch v s =
     (case baseline_test_info v s of
        (Inl e, s1) \<Rightarrow> faulty s1
      | (Inr _, s1) \<Rightarrow>
          if \<not> truthy (service_config s1) \<or> create_error v \<noteq> None then faulty s1
          else if prepare_error v \<noteq> None then faulty (new_handler s1)
          else if start_error v \<noteq> None then faulty (started v (new_handler s1))
          else report_status ''TEST_ONGOING'' (started v (new_handler s1)))"

text \<open>\<open>self.build, self.build_info, self.high_priority = ...\<close>\<close>

fun three_values :: "json res \<Rightarrow> (json \<times> json \<times> json) option" where
  "three_values (Inr (JList [a, b, c])) = Some (a, b, c)"
| "three_values _ = None"

definition start_hss_rtc_execution ::
  "env \<Rightarrow> string option \<Rightarrow> json option \<Rightarrow> bool \<Rightarrow> ctl \<Rightarrow> unit res \<times> ctl" where
  "start_hss_rtc_execution v b i hp s =
     (case b of
        None \<Rightarrow>
          (case bcall GetBuild s of
             (r, s1) \<Rightarrow>
               (case three_values r of
                  None \<Rightarrow> done_with s1
                | Some (jb, ji, jh) \<Rightarrow>
                    let s2 = set_test (json_str jb) ji (truthy jh) s1
                    in if jb = JNull \<or> ji = JNull then done_with s2 else launch v s2))
      | Some name \<Rightarrow>
          (case i of
             Some info \<Rightarrow> launch v (set_test (Some name) info hp s)
           | None \<Rightarrow>
               (case bcall (FetchBuild name) s of
                  (Inl e, s1) \<Rightarrow> done_with s1
                | (Inr info, s1) \<Rightarrow>
                    let s2 = s1\<lparr>build_info := info\<rparr>
                    in if info = JNull then done_with s2
                       else launch v (set_test (Some name) info hp s2))))"

section \<open>Signals from the services\<close>

definition check_priority_list :: "env \<Rightarrow> ctl \<Rightarrow> unit res \<times> ctl" where
  "check_priority_list v s =
     (if service_paused s then done_with s
      else if high s \<and> \<not> can_be_stopped s then done_with s
      else andthen (bcall IsThereBuildToTest s) (\<lambda>there s.
        if truthy there then
          if ongoing_test s then
            if \<not> can_be_stopped s then done_with s
            else rtc_call ''quit'' s
          else start_hss_rtc_execution v None None False s
        else done_with s))"

definition set_test_to_faulty :: "string \<Rightarrow> ctl \<Rightarrow> unit res \<times> ctl" where
  "set_test_to_faulty b s =
     (if service_paused s then done_with s
      else if build s \<noteq> Some b then done_with s
      else if rtc_handler s = None then done_with s
      else andthen (rtc_call ''set test_execution_status DISCARDED'' s) (\<lambda>_ s.
           andthen (bcall (UpdateBuildStatus (name_of (build s)) ''CANCELLED'') s) (\<lambda>_ s.
             done_with (emits ''rtc_check_priority_list'' [] (s\<lparr>can_be_stopped := True\<rparr>)))))"

definition ctl_priority_increase :: "string \<Rightarrow> bool \<Rightarrow> ctl \<Rightarrow> unit res \<times> ctl" where
  "ctl_priority_increase b was_pending s =
     (if service_paused s then done_with s
      else if ongoing_test s \<and> build s = Some b then
        andthen (rtc_call ''set high_priority True'' s) (\<lambda>_ s. done_with (s\<lparr>high := True\<rparr>))
      else if \<not> high s \<and> was_pending then
        done_with (emits ''rtc_check_priority_list'' [] (s\<lparr>can_be_stopped := True\<rparr>))
      else done_with s)"

section \<open>Signals from the test tool\<close>

definition test_tool_ready_for_new_build :: "json \<Rightarrow> ctl \<Rightarrow> unit res \<times> ctl" where
  "test_tool_ready_for_new_build b s =
     (if service_paused s then
        (if rtc_handler s \<noteq> None then rtc_call ''resume'' s else done_with s)
      else if b \<noteq> opt_json (build s) then done_with s
      else
        let s1 = s\<lparr>can_be_stopped := True\<rparr>
        in andthen (bcall IsThereBuildToTest s1) (\<lambda>there s.
             if truthy there then done_with (emits ''rtc_check_priority_list'' [] s)
             else rtc_call ''resume'' s))"

definition test_tool_shutdown :: "json \<Rightarrow> json \<Rightarrow> ctl \<Rightarrow> unit res \<times> ctl" where
  "test_tool_shutdown b result s =
     andthen (bcall (AddBuildTestResult (json_text b) result) s) (\<lambda>_ s.
       if b \<noteq> opt_json (build s) then done_with s
       else done_with (emits ''rtc_check_priority_list'' [] (clean s)))"

section \<open>Signals from the command line\<close>

definition ctl_status :: "env \<Rightarrow> string \<Rightarrow> ctl \<Rightarrow> unit res \<times> ctl" where
  "ctl_status v signal_answer s =
     reply signal_answer
       (''Service is '' @ (if service_paused s then ''in paused state'' else ''running'') @ [CHR 0x0A] @
        (if ongoing_test s then
           [CHR 0x09] @ ''Testing '' @ name_of (build s) @ '' '' @
           (if high s then ''(High Priority) '' else []) @ ''using '' @ py_repr v (build_info s)
         else [])) s"

definition fetch_config :: "string \<Rightarrow> ctl \<Rightarrow> unit res \<times> ctl" where
  "fetch_config signal_answer s =
     (Inr (), emits signal_answer
        [if truthy (service_config s) then service_config s else JStr ''Not configured yet''] s)"

definition check_baseline :: "json \<Rightarrow> ctl \<Rightarrow> bool \<times> ctl" where
  "check_baseline bl s =
     (case bcall (FetchBaselineTestInfo (json_text bl)) s of
        (r, s1) \<Rightarrow> (two_values r \<noteq> None, s1))"

definition set_config :: "json \<Rightarrow> bool \<Rightarrow> ctl \<Rightarrow> ctl" where
  "set_config cfg persist s =
     (let s1 = s\<lparr>service_config := cfg\<rparr> in if persist then save_service_config s1 else s1)"

definition update_config :: "string \<Rightarrow> json \<Rightarrow> bool \<Rightarrow> ctl \<Rightarrow> unit res \<times> ctl" where
  "update_config signal_answer cfg persist s =
     (if \<not> service_paused s then
        reply signal_answer ''Service shall be in paused state. No actions'' s
      else
        let unset = reply signal_answer
              ''EXECUTED. Warning: base_release not set in rtc_service config file''
              (set_config cfg persist s)
        in case base_release cfg of
             Inl (KeyError k) \<Rightarrow> unset
           | Inl e \<Rightarrow> (Inl e, s)
           | Inr bl \<Rightarrow>
               if \<not> truthy bl then unset
               else (case check_baseline bl s of
                       (True, s1) \<Rightarrow> reply signal_answer ''EXECUTED'' (set_config cfg persist s1)
                     | (False, s1) \<Rightarrow> reply signal_answer
                         ''ERROR: Baseline not allowed. Be sure that there is a build with valid test info for this baseline'' s1))"

definition baseline_data :: "env \<Rightarrow> string \<Rightarrow> ctl \<Rightarrow> string \<times> ctl" where
  "baseline_data v bl s =
     (case bcall (FetchBaselineTestInfo bl) s of
        (r, s1) \<Rightarrow>
          ((case two_values r of
              Some (b, i) \<Rightarrow>
                [CHR 0x0A] @ '' Build      : '' @ b @ [CHR 0x0A] @ '' HSS version: '' @
                (case hss_release v b i of None \<Rightarrow> ''None'' | Some rel \<Rightarrow> rel) @ [CHR 0x0A]
            | None \<Rightarrow>
                ''Info for '' @ (case baseline s of Inr (JStr x) \<Rightarrow> x | _ \<Rightarrow> ''None'') @
                '' baseline not available''), s1))"

fun baseline_lines :: "env \<Rightarrow> json list \<Rightarrow> ctl \<Rightarrow> string \<times> ctl" where
  "baseline_lines v [] s = ([], s)"
| "baseline_lines v (bl # bls) s =
     (case baseline_data v (json_text bl) s of
        (data, s1) \<Rightarrow>
          (case baseline_lines v bls s1 of
             (rest, s2) \<Rightarrow>
               ([CHR 0x0A] @ '' Baseline   : '' @ json_text bl @ ''  '' @
                (if baseline s = Inr bl then ''(Active)'' else []) @ data @ rest, s2)))"

definition fetch_baseline :: "env \<Rightarrow> string \<Rightarrow> ctl \<Rightarrow> unit res \<times> ctl" where
  "fetch_baseline v signal_answer s =
     andthen (bcall BaselineList s) (\<lambda>bls s.
       case baseline_lines v (json_list bls) s of
         (answer, s1) \<Rightarrow> reply signal_answer (if answer = [] then ''No baselines'' else answer) s1)"

definition activate_baseline :: "string \<Rightarrow> string \<Rightarrow> ctl \<Rightarrow> unit res \<times> ctl" where
  "activate_baseline signal_answer bl s =
     (case bcall (FetchBaselineTestInfo bl) s of
        (Inl e, s1) \<Rightarrow> reply signal_answer (''ERROR: '' @ exc_str e) s1
      | (Inr _, s1) \<Rightarrow>
          (case set_base_release (JStr bl) (service_config s1) of
             Inl e \<Rightarrow> reply signal_answer (''ERROR: '' @ exc_str e) s1
           | Inr cfg \<Rightarrow> reply signal_answer ''EXECUTED'' (set_config cfg True s1)))"

definition add_baseline :: "string \<Rightarrow> string \<Rightarrow> ctl \<Rightarrow> unit res \<times> ctl" where
  "add_baseline signal_answer b s =
     (case bcall (BaselineAdd b) s of
        (Inl e, s1) \<Rightarrow> reply signal_answer (''ERROR: '' @ exc_str e) s1
      | (Inr _, s1) \<Rightarrow> reply signal_answer ''EXECUTED'' s1)"

definition drop_baseline :: "string \<Rightarrow> bool \<Rightarrow> ctl \<Rightarrow> json res \<times> ctl" where
  "drop_baseline bl cleaning s =
     andthen (bcall (BaselineDel bl) s) (\<lambda>r s.
       if cleaning then bcall (CleanBuild (''HSS-'' @ bl) []) s else (Inr r, s))"

definition del_baseline :: "string \<Rightarrow> string \<Rightarrow> bool \<Rightarrow> bool \<Rightarrow> ctl \<Rightarrow> unit res \<times> ctl" where
  "del_baseline signal_answer bl cleaning force s =
     (let finish = (\<lambda>answer s. case drop_baseline bl cleaning s of
            (Inl e, s1) \<Rightarrow> reply signal_answer (''ERROR: '' @ exc_str e) s1
          | (Inr _, s1) \<Rightarrow> reply signal_answer answer s1)
      in case baseline s of
           Inl e \<Rightarrow> (Inl e, s)
         | Inr cur \<Rightarrow>
             if cur = JStr bl then
               if force then
                 (case set_base_release JNull (service_config s) of
                    Inl e \<Rightarrow> (Inl e, s)
                  | Inr cfg \<Rightarrow>
                      finish ''EXECUTED. WARNING: From now on there is not an active baseline''
                        (set_config cfg True s))
               else reply signal_answer (''NOT EXECUTED: '' @ bl @ '' is the active baseline'') s
             else finish ''EXECUTED'' s)"

definition fetch_build_test_info :: "string \<Rightarrow> string \<Rightarrow> ctl \<Rightarrow> unit res \<times> ctl" where
  "fetch_build_test_info signal_answer b s =
     (case bcall (FetchBuild b) s of
        (Inl e, s1) \<Rightarrow> reply signal_answer (b @ '' build test_info not found'') s1
      | (Inr i, s1) \<Rightarrow> (Inr (), emits signal_answer [i] s1))"

definition ctl_update_build_test_info :: "string \<Rightarrow> string \<Rightarrow> json \<Rightarrow> bool \<Rightarrow> ctl \<Rightarrow> unit res \<times> ctl" where
  "ctl_update_build_test_info signal_answer b i persist s =
     (if \<not> service_paused s then
        reply signal_answer ''Service shall be in paused state. No actions'' s
      else andthen (bcall (UpdateBuildTestInfo b i persist) s) (\<lambda>answer s.
             (Inr (), emits signal_answer [answer] s)))"

text \<open>
  The listings share one shape: the answer of the build handler, or a text when it is empty
  or the call fails.
\<close>

definition listing :: "string \<Rightarrow> bh_op \<Rightarrow> string \<Rightarrow> ctl \<Rightarrow> unit res \<times> ctl" where
  "listing signal_answer op nothing s =
     (case bcall op s of
        (Inl e, s1) \<Rightarrow> reply signal_answer nothing s1
      | (Inr answer, s1) \<Rightarrow>
          if truthy answer then (Inr (), emits signal_answer [answer] s1)
          else reply signal_answer nothing s1)"

definition ctl_fetch_pending_build_list :: "string \<Rightarrow> ctl \<Rightarrow> unit res \<times> ctl" where
  "ctl_fetch_pending_build_list signal_answer =
     listing signal_answer FetchPendingBuildList ''There is not pending builds''"

definition ctl_clean_build :: "string \<Rightarrow> string \<Rightarrow> ctl \<Rightarrow> unit res \<times> ctl" where
  "ctl_clean_build signal_answer wildcard =
     listing signal_answer (CleanBuild wildcard []) ''There is not build to clean''"

definition ctl_purge_build :: "string \<Rightarrow> string \<Rightarrow> ctl \<Rightarrow> unit res \<times> ctl" where
  "ctl_purge_build signal_answer wildcard =
     listing signal_answer (PurgeBuild wildcard) ''There is not build to purge''"

definition fetch_build_test_result :: "string \<Rightarrow> string \<Rightarrow> ctl \<Rightarrow> unit res \<times> ctl" where
  "fetch_build_test_result signal_answer b =
     listing signal_answer (GetBuildTestResult b) (''There is not test result for '' @ b)"

definition ctl_fetch_available_builds :: "string \<Rightarrow> ctl \<Rightarrow> unit res \<times> ctl" where
  "ctl_fetch_available_builds signal_answer =
     listing signal_answer FetchAvailableBuilds ''There is not available builds for testing''"

definition set_build_status :: "string \<Rightarrow> string \<Rightarrow> string \<Rightarrow> ctl \<Rightarrow> unit res \<times> ctl" where
  "set_build_status signal_answer b st s =
     andthen (bcall (ForceBuildStatus b st) s) (\<lambda>answer s.
       (Inr (), emits signal_answer [answer] s))"

text \<open>
  \<open>force_build\<close>. \<open>build_info\<close> names a file; the branch for a file that cannot be read formats its
  message with the undefined name \<open>cfg\<close> and so raises \<open>NameError\<close>. A file that holds \<open>null\<close>
  leaves \<open>build_info\<close> at \<open>None\<close>, so that it is fetched again.
\<close>

definition force_build ::
  "env \<Rightarrow> string option \<Rightarrow> string \<Rightarrow> string option \<Rightarrow> bool \<Rightarrow> ctl \<Rightarrow> unit res \<times> ctl" where
  "force_build v signal_answer b info_file hp s =
     (let answer = (\<lambda>text s. reply (name_of signal_answer) text s);
          go = (\<lambda>info s.
            let s1 = (case signal_answer of None \<Rightarrow> s | Some a \<Rightarrow> emits a [JStr ''ORDERED''] s)
            in andthen (bcall (PriorityDel b False) s1) (\<lambda>_.
                 start_hss_rtc_execution v (Some b) (if info = JNull then None else Some info) hp))
      in if \<not> service_paused s then
           answer ''Service shall be in paused state to force a build test. No actions'' s
         else if \<not> truthy (service_config s) then answer ''Service not configured yet'' s
         else if ongoing_test s then answer ''There is an ongoing test. No actions'' s
         else case info_file of
           None \<Rightarrow>
             (case bcall (FetchBuild b) s of
                (Inl e, s1) \<Rightarrow> answer (b @ '' build not available'') s1
              | (Inr info, s1) \<Rightarrow>
                  if info = JNull then answer (b @ '' build_info not available'') s1 else go info s1)
         | Some path \<Rightarrow>
             (case json_file v path of
                Inl e \<Rightarrow> (Inl (NameError ''global name 'cfg' is not defined''), s)
              | Inr info \<Rightarrow> go info s))"

definition pause :: "string \<Rightarrow> ctl \<Rightarrow> unit res \<times> ctl" where
  "pause signal_answer s = reply signal_answer ''EXECUTED'' (s\<lparr>service_paused := True\<rparr>)"

definition reload_config :: "ctl \<Rightarrow> string \<times> ctl" where
  "reload_config s =
     (case config_file s of
        Config j \<Rightarrow>
          (''EXECUTED'', emits ''rtc_check_priority_list'' []
             (s\<lparr>service_config := j, service_paused := False\<rparr>))
      | _ \<Rightarrow> (''Error reading configuration file'', s))"

definition resume :: "string \<Rightarrow> ctl \<Rightarrow> unit res \<times> ctl" where
  "resume signal_answer s =
     (if truthy (service_config s) then
        (case reload_config s of
           (answer, s1) \<Rightarrow>
             (case bcall RefreshDbm s1 of
                (Inl e, s2) \<Rightarrow> reply signal_answer (exc_str e) s2
              | (Inr _, s2) \<Rightarrow> reply signal_answer answer s2))
      else reply signal_answer ''Service not configured yet'' s)"

section \<open>The signals it listens to\<close>

text \<open>
  \<open>handler(*args)\<close>: a wrong number of arguments is a \<open>TypeError\<close>. Names are strings and flags
  have a truth value, as the command line and the services send them.
\<close>

definition bound ::
  "(string \<times> json option) list \<Rightarrow> (json list \<Rightarrow> ctl \<Rightarrow> unit res \<times> ctl) \<Rightarrow> json list \<Rightarrow> ctl \<Rightarrow>
     unit res \<times> ctl" where
  "bound ps f args s =
     (case bind_args ps args [] of None \<Rightarrow> (Inl (TypeError ''arguments''), s) | Some as \<Rightarrow> f as s)"

definition answer_only :: "(string \<Rightarrow> ctl \<Rightarrow> unit res \<times> ctl) \<Rightarrow> json list \<Rightarrow> ctl \<Rightarrow> unit res \<times> ctl" where
  "answer_only f = bound [(''signal_answer'', None)] (\<lambda>as. f (json_text (as ! 0)))"

definition answer_and ::
  "string \<Rightarrow> (string \<Rightarrow> string \<Rightarrow> ctl \<Rightarrow> unit res \<times> ctl) \<Rightarrow> json list \<Rightarrow> ctl \<Rightarrow> unit res \<times> ctl" where
  "answer_and p f =
     bound [(''signal_answer'', None), (p, None)] (\<lambda>as. f (json_text (as ! 0)) (json_text (as ! 1)))"

definition ctl_watcher :: "env \<Rightarrow> ctl watcher" where
  "ctl_watcher v =
     [(''rtc_check_priority_list'', bound [] (\<lambda>_. check_priority_list v)),
      (''rtc_set_test_to_faulty'',
        bound [(''build'', None)] (\<lambda>as. set_test_to_faulty (json_text (as ! 0)))),
      (''rtc_priority_increase'',
        bound [(''build'', None), (''was_pending'', None)]
          (\<lambda>as. ctl_priority_increase (json_text (as ! 0)) (truthy (as ! 1)))),
      (''test_tool_ready_for_new_build'',
        bound [(''build'', None)] (\<lambda>as. test_tool_ready_for_new_build (as ! 0))),
      (''test_tool_shutdown'',
        bound [(''build'', None), (''test_result'', None)] (\<lambda>as. test_tool_shutdown (as ! 0) (as ! 1))),
      (''cli_fetch_pending_build_list'', answer_only ctl_fetch_pending_build_list),
      (''cli_fetch_available_builds'', answer_only ctl_fetch_available_builds),
      (''cli_fetch_build_test_result'', answer_and ''build_id'' fetch_build_test_result),
      (''cli_force_build'',
        bound [(''signal_answer'', None), (''build'', None), (''build_info'', Some JNull),
               (''test_suite'', Some JNull), (''high_priority'', Some (JBool False))]
          (\<lambda>as. force_build v (json_str (as ! 0)) (json_text (as ! 1)) (json_str (as ! 2)) (truthy (as ! 4)))),
      (''cli_clean_build'', answer_and ''wildcard'' ctl_clean_build),
      (''cli_purge_build'', answer_and ''wildcard'' ctl_purge_build),
      (''cli_set_build_status'',
        bound [(''signal_answer'', None), (''build'', None), (''status'', None)]
          (\<lambda>as. set_build_status (json_text (as ! 0)) (json_text (as ! 1)) (json_text (as ! 2)))),
      (''cli_status'', answer_only (ctl_status v)),
      (''cli_pause'', answer_only pause),
      (''cli_resume'', answer_only resume),
      (''cli_fetch_config'', answer_only fetch_config),
      (''cli_update_config'',
        bound [(''signal_answer'', None), (''cfg'', None), (''persist'', Some (JBool False))]
          (\<lambda>as. update_config (json_text (as ! 0)) (as ! 1) (truthy (as ! 2)))),
      (''cli_activate_baseline'', answer_and ''baseline'' activate_baseline),
      (''cli_fetch_baseline'', answer_only (fetch_baseline v)),
      (''cli_add_baseline'', answer_and ''build'' add_baseline),
      (''cli_del_baseline'',
        bound [(''signal_answer'', None), (''baseline'', None), (''clean'', Some (JBool False)),
               (''force'', Some (JBool False))]
          (\<lambda>as. del_baseline (json_text (as ! 0)) (json_text (as ! 1)) (truthy (as ! 2)) (truthy (as ! 3)))),
      (''cli_fetch_build_test_info'', answer_and ''build_id'' fetch_build_test_info),
      (''cli_update_build_test_info'',
        bound [(''signal_answer'', None), (''build_id'', None), (''test_info'', None),
               (''persist'', Some (JBool False))]
          (\<lambda>as. ctl_update_build_test_info (json_text (as ! 0)) (json_text (as ! 1)) (as ! 2)
                   (truthy (as ! 3))))]"

end
