(* ===== verification/Build_Known.thy ===== *)
theory Build_Known
  imports Build_Inv
begin

text \<open>
  Queued builds and their records: \<open>queue_ok\<close> (every queued build has a record and is queued
  once), which requests keep it, and what \<open>clean_build\<close> does to every record.
\<close>

section \<open>Every queued build has a record\<close>

definition entry_known :: "string set \<Rightarrow> prio \<Rightarrow> bool" where
  "entry_known ks e \<longleftrightarrow>
     set (pending e) \<subseteq> ks \<and>
     (\<forall>rc. high_priority e = Some rc \<longrightarrow> rc \<in> ks \<and> rc \<notin> set (pending e))"

definition known_keys :: "db \<Rightarrow> string set" where
  "known_keys d = set (dict_keys (db_build_info d))"

lemma known_db_entry:
  "known_db d \<longleftrightarrow> (\<forall>p e. map_of (priority d) p = Some e \<longrightarrow> entry_known (known_keys d) e)"
  by (simp add: known_db_def entry_known_def known_keys_def)

definition queue_ok :: "bh \<Rightarrow> bool" where
  "queue_ok s \<longleftrightarrow> wf s \<and> both known_db s"

abbreviation known :: "bh \<Rightarrow> bool" where
  "known \<equiv> both known_db"

lemma known_set_prio:
  "known s \<Longrightarrow> entry_known (known_keys (mem s)) e \<Longrightarrow> known (set_prio p e s)"
  unfolding set_prio_def
  by (rule both_with_mem) (auto simp: both_def known_db_entry known_keys_def dict_simps)

lemma known_prio_modify:
  "known s \<Longrightarrow> (\<And>ks e. entry_known ks e \<Longrightarrow> entry_known ks (f e)) \<Longrightarrow> known (prio_modify p f s)"
  unfolding prio_modify_def
  by (rule both_with_mem) (auto simp: both_def known_db_entry known_keys_def dict_simps)

lemma known_modify_build:
  "known s \<Longrightarrow> known (with_mem (\<lambda>d. d\<lparr>db_build_info := dict_modify b f (db_build_info d)\<rparr>) s)"
  by (rule both_with_mem) (auto simp: both_def known_db_def dict_simps)

lemma known_add_build:
  "known s \<Longrightarrow> known (with_mem (\<lambda>d. d\<lparr>db_build_info := dict_set b r (db_build_info d)\<rparr>) s)"
  by (rule both_with_mem) (auto simp: both_def known_db_def dict_simps)

lemma known_dict_map:
  "known s \<Longrightarrow> known (with_mem (\<lambda>d. d\<lparr>db_build_info := dict_map f (db_build_info d)\<rparr>) s)"
  by (rule both_with_mem) (auto simp: both_def known_db_def dict_simps)

lemma known_baselines: "known s \<Longrightarrow> known (with_mem (\<lambda>d. d\<lparr>baselines := f d\<rparr>) s)"
  by (rule both_with_mem) (auto simp: both_def known_db_def)

lemma map_of_clean_priority:
  "wf s \<Longrightarrow> map_of (priority (mem (clean_priority s))) p =
     (case map_of (priority (mem s)) p of None \<Rightarrow> None | Some e \<Rightarrow> if idle e then None else Some e)"
  unfolding clean_priority_def with_mem_def
  by (auto simp: both_def wf_db_def map_of_filter [where P = "\<lambda>k e. \<not> idle e"] split: option.splits)

lemma known_entry: "known s \<Longrightarrow> map_of (priority (mem s)) p = Some e \<Longrightarrow> entry_known (known_keys (mem s)) e"
  by (simp add: both_def known_db_entry)

lemma known_clean_priority: "wf s \<Longrightarrow> known s \<Longrightarrow> known (clean_priority s)"
proof -
  assume s: "wf s" "known s"
  have keys: "known_keys (mem (clean_priority s)) = known_keys (mem s)"
    by (simp add: known_keys_def clean_priority_def with_mem_def)
  have "entry_known (known_keys (mem s)) e"
    if "map_of (priority (mem (clean_priority s))) p = Some e" for p e
    using that known_entry [OF s(2)] unfolding map_of_clean_priority [OF s(1)]
    by (simp split: option.splits if_splits)
  then show ?thesis using s(2)
    by (simp add: both_def known_db_entry keys) (simp add: clean_priority_def with_mem_def)
qed

definition unqueued :: "string \<Rightarrow> bh \<Rightarrow> bool" where
  "unqueued b s \<longleftrightarrow> (\<forall>p e. map_of (priority (mem s)) p = Some e \<longrightarrow>
     b \<notin> set (pending e) \<and> high_priority e \<noteq> Some b)"

lemma known_del_build: "known s \<Longrightarrow> unqueued b s \<Longrightarrow> known (del_build b s)"
  unfolding del_build_def
proof (rule both_with_mem)
  assume k: "known s" and u: "unqueued b s"
  let ?d = "(mem s)\<lparr>db_build_info := dict_del b (db_build_info (mem s))\<rparr>"
  have "known_keys ?d = known_keys (mem s) - {b}" by (simp add: known_keys_def dict_simps)
  moreover have "entry_known (known_keys (mem s) - {b}) e"
    if "map_of (priority (mem s)) p = Some e" for p e
    using known_entry [OF k that] u that unfolding entry_known_def unqueued_def by blast
  ultimately show "known_db ?d" by (simp add: known_db_entry)
qed

lemma entry_known_dequeue: "entry_known ks e \<Longrightarrow> entry_known ks (dequeue b e)"
  using set_remove1_subset [of b "pending e"] by (auto simp: entry_known_def dequeue_def)

lemma entry_known_take: "entry_known ks e \<Longrightarrow> entry_known ks (e\<lparr>high_priority := None\<rparr>)"
  "entry_known ks e \<Longrightarrow> entry_known ks (pending_update butlast e)"
  by (auto simp: entry_known_def dest: in_set_butlastD)

lemma not_in_tl_dropWhile: "distinct xs \<Longrightarrow> b \<notin> set (tl (dropWhile (\<lambda>x. x \<noteq> b) xs))"
  by (induction xs) auto

lemma set_tl_dropWhile: "set (tl (dropWhile P xs)) \<subseteq> set xs"
  by (induction xs) auto

lemma entry_known_promote:
  "entry_known ks e \<Longrightarrow> distinct (pending e) \<Longrightarrow> b \<in> set (pending e) \<Longrightarrow> entry_known ks (promote b e)"
  using set_tl_dropWhile [of "\<lambda>x. x \<noteq> b" "pending e"]
  by (auto simp: entry_known_def promote_def not_in_tl_dropWhile)

lemma known_update_db: "known s \<Longrightarrow> known (update_db s)"
  by (rule both_update_db)

subsection \<open>The requests\<close>

lemma dequeue_step_infos:
  "db_build_info (mem (snd (priority_del b False s))) = db_build_info (mem s)"
  "baselines (mem (snd (priority_del b False s))) = baselines (mem s)"
  by (auto simp: priority_del_def Let_def update_db_def clean_priority_def set_prio_def with_mem_def
      split: option.splits)

lemma unqueued_priority_del:
  assumes w: "wf s" and k: "known s"
  shows "unqueued b (snd (priority_del b False s))"
proof -
  have proj: "p = get_project b" if "map_of (priority (mem s)) p = Some e"
    "b \<in> set (pending e) \<or> high_priority e = Some b" for p e
    using wf_prio_ok [OF w that(1)] that(2) by (auto simp: prio_ok_def)
  show ?thesis
  proof (cases "map_of (priority (mem s)) (get_project b)")
    case None
    then show ?thesis using proj by (auto simp: priority_del_def unqueued_def)
  next
    case (Some e)
    let ?t = "set_prio (get_project b) (dequeue b e) s"
    note e0 = wf_prio_ok [OF w Some] known_entry [OF k Some]
    then have e: "b \<notin> set (pending (dequeue b e)) \<and> high_priority (dequeue b e) \<noteq> Some b"
      by (auto simp: dequeue_def prio_ok_def entry_known_def)
    have t: "wf ?t" using w e0 by (blast intro: wf_set_prio prio_ok_dequeue)
    have "map_of (priority (mem ?t)) = (map_of (priority (mem s)))(get_project b \<mapsto> dequeue b e)"
      by (simp add: set_prio_def with_mem_def dict_simps)
    then have "unqueued b ?t" using e proj by (auto simp: unqueued_def)
    then have "unqueued b (clean_priority ?t)"
      unfolding unqueued_def map_of_clean_priority [OF t] by (auto split: option.splits if_splits)
    with Some show ?thesis by (simp add: priority_del_def unqueued_def update_db_def Let_def)
  qed
qed

lemma known_priority_del: "wf s \<Longrightarrow> known s \<Longrightarrow> known (snd (priority_del b u s))"
proof -
  assume s: "wf s" "known s"
  show ?thesis
  proof (cases "map_of (priority (mem s)) (get_project b)")
    case None
    with s show ?thesis by (simp add: priority_del_def)
  next
    case (Some e)
    let ?t = "set_prio (get_project b) (dequeue b e) s"
    have t: "wf ?t" "known ?t"
      using s wf_prio_ok [OF s(1) Some] known_entry [OF s(2) Some]
      by (blast intro: wf_set_prio prio_ok_dequeue known_set_prio entry_known_dequeue)+
    have "known (set_status b st ?t)" for st
      unfolding set_status_def by (rule known_modify_build) (rule t)
    moreover have "wf (set_status b ''SKIPPED'' ?t)"
      using t by (auto intro: wf_set_status simp: statuses_def)
    ultimately show ?thesis using Some t
      by (auto simp: priority_del_def Let_def intro!: known_update_db known_clean_priority
          split: option.splits)
  qed
qed

lemma queue_ok_clean_keys: "wf s \<Longrightarrow> known s \<Longrightarrow> known (snd (clean_keys w x ks n s))"
proof (induction w x ks n s rule: clean_keys.induct)
  case (2 w x key ks n s)
  let ?s1 = "snd (priority_del key False s)"
  have s1: "wf ?s1" "known ?s1" "unqueued key ?s1"
    using "2.prems" by (auto intro: wf_priority_del known_priority_del unqueued_priority_del)
  have r: "known (set_results key [] ?s1)" "wf (set_results key [] ?s1)"
    and d: "known (del_build key ?s1)" "wf (del_build key ?s1)"
    using s1 unfolding set_results_def
    by (auto intro: known_modify_build known_del_build wf_del_build wf_set_results [unfolded set_results_def])
  show ?case
    using "2.prems" "2.IH" s1 r d
    by (auto simp: Let_def split: option.splits)
qed auto

text \<open>Queuing a build that is a high-priority build already is the one request to avoid.\<close>

fun sound_request :: "bh_op \<Rightarrow> bh \<Rightarrow> bool" where
  "sound_request (PriorityAdd b) s = (high_of (mem s) (get_project b) \<noteq> Some b)"
| "sound_request _ s = True"

lemma known_changed_entry:
  assumes s: "wf s" "known s" and e: "prio_ok p e" "entry_known (known_keys (mem s)) e"
  shows "known (update_db (clean_priority (set_prio p e s)))"
  by (intro known_update_db known_clean_priority wf_set_prio known_set_prio s e)

lemma known_cleaned: "wf s \<Longrightarrow> known s \<Longrightarrow> known (update_db (clean_priority s))"
  by (intro known_update_db known_clean_priority)

lemma known_priority_add:
  assumes s: "wf s" "known s" and h: "high_of (mem s) (get_project b) \<noteq> Some b"
  shows "known (snd (priority_add b s))"
proof (cases "b \<in> known_keys (mem s)")
  case b: True
  let ?p = "get_project b"
  show ?thesis
  proof (cases "map_of (priority (mem s)) ?p")
    case None
    have "prio_ok ?p \<lparr>pending = [b], high_priority = None\<rparr>"
      and "entry_known (known_keys (mem s)) \<lparr>pending = [b], high_priority = None\<rparr>"
      using b by (simp_all add: prio_ok_def entry_known_def)
    from known_changed_entry [OF s this] None b show ?thesis
      by (simp add: priority_add_def Let_def known_keys_def)
  next
    case (Some e)
    note e = wf_prio_ok [OF s(1) Some] known_entry [OF s(2) Some]
    show ?thesis
    proof (cases "b \<in> set (pending e)")
      case True
      with Some known_cleaned [OF s] b show ?thesis
        by (simp add: priority_add_def Let_def known_keys_def)
    next
      case False
      have "entry_known (known_keys (mem s)) (e\<lparr>pending := pending e @ [b]\<rparr>)"
        using e(2) h b Some by (auto simp: entry_known_def high_of_def)
      from known_changed_entry [OF s prio_ok_append [OF e(1) refl False] this] Some b False
      show ?thesis by (simp add: priority_add_def Let_def known_keys_def)
    qed
  qed
qed (use s in \<open>simp add: priority_add_def known_keys_def\<close>)

lemma known_priority_increase:
  assumes s: "wf s" "known s"
  shows "known (snd (priority_increase b s))"
proof (cases "map_of (priority (mem s)) (get_project b)")
  case (Some e)
  note e = wf_prio_ok [OF s(1) Some] known_entry [OF s(2) Some]
  show ?thesis
  proof (cases "b \<in> set (pending e)")
    case True
    have "distinct (pending e)" using e(1) by (simp add: prio_ok_def)
    from known_changed_entry [OF s prio_ok_promote [OF e(1) refl] entry_known_promote [OF e(2) this True]]
    show ?thesis using Some True by (simp add: priority_increase_def Let_def)
  next
    case False
    with Some known_cleaned [OF s] show ?thesis by (simp add: priority_increase_def Let_def)
  qed
qed (use s in \<open>simp add: priority_increase_def\<close>)

lemma known_find_next_build: "known s \<Longrightarrow> known (snd (find_next_build x s))"
  by (auto simp: find_next_build_def intro!: known_prio_modify entry_known_take split: option.splits)

lemma known_get_build: "known s \<Longrightarrow> known (snd (get_build s))"
  using known_find_next_build [of s True]
  by (auto simp: get_build_def Let_def intro: known_update_db split: prod.splits option.splits)

lemma known_rest: "known s \<Longrightarrow> known (snd (build_info_add b i s))"
  "known s \<Longrightarrow> known (snd (build_info_update b i s))"
  "known s \<Longrightarrow> known (snd (add_build_test_result b r s))"
  "known s \<Longrightarrow> known (snd (update_build_status b st s))"
  "known s \<Longrightarrow> known (snd (force_build_status b st s))"
  "known s \<Longrightarrow> known (snd (baseline_add b s))" "known s \<Longrightarrow> known (snd (baseline_del b s))"
  "known s \<Longrightarrow> known (snd (update_build_test_info b i p s))"
  by (auto simp: build_info_add_def build_info_update_def add_build_test_result_def Let_def
      update_build_status_def force_build_status_def baseline_add_def baseline_del_def
      update_build_test_info_def set_test_info_def set_status_def
      intro!: known_update_db known_modify_build known_add_build known_baselines
      split: option.splits sum.splits)

lemma known_refresh: "known s \<Longrightarrow> known (snd (refresh_DBM_from_file s))"
  by (cases "db_file s") (auto simp: refresh_DBM_from_file_def both_def)

lemma known_clean_build: "wf s \<Longrightarrow> known s \<Longrightarrow> known (snd (clean_build w x s))"
  using queue_ok_clean_keys [of s w x "dict_keys (db_build_info (mem s))" 0]
    wf_clean_keys [of s w x "dict_keys (db_build_info (mem s))" 0]
  by (auto simp: clean_build_def intro!: known_update_db known_clean_priority
      split: prod.splits sum.splits)

lemma known_purge_build: "wf s \<Longrightarrow> known s \<Longrightarrow> known (snd (purge_build w s))"
  by (auto simp: purge_build_def Let_def intro!: known_update_db known_clean_priority wf_purge
      known_dict_map)

lemma queue_ok_run: "queue_ok s \<Longrightarrow> sound_request op s \<Longrightarrow> queue_ok (snd (bh_run op s))"
  unfolding queue_ok_def
  by (rule conjI, blast intro: wf_run)
    (cases op; simp add: known_priority_add known_priority_del known_priority_increase
      known_get_build known_rest known_refresh known_clean_build known_purge_build)

lemma queue_ok_get_build:
  assumes "queue_ok s" shows "\<exists>v. fst (get_build s) = Inr v"
proof -
  have k: "known_db (mem s)" using assms by (simp add: queue_ok_def both_def)
  have info: "db_build_info (mem (snd (find_next_build True s))) = db_build_info (mem s)"
    by (auto simp: find_next_build_def prio_modify_def with_mem_def split: option.splits)
  have high: "rc \<in> set (dict_keys (db_build_info (mem s)))"
    if "find_high (mem s) ps = Some (p, rc)" for p rc ps
    using find_high_Some [OF that] k
    by (auto simp: high_of_def known_db_def bind_eq_Some_conv)
  have pend: "b \<in> set (dict_keys (db_build_info (mem s)))"
    if f: "find_pending (mem s) ps = Some (p, b)" for p b ps
  proof -
    from find_pending_Some [OF f] have "pending_of (mem s) p \<noteq> []" "b \<in> set (pending_of (mem s) p)"
      by auto
    then show ?thesis using k by (auto simp: pending_of_def known_db_def split: option.splits)
  qed
  have "b \<in> set (dict_keys (db_build_info (mem s)))" if "fst (find_next_build True s) = (Some b, rc)" for b rc
    using that high pend by (auto simp: find_next_build_def split: option.splits)
  with info show ?thesis
    by (auto simp: get_build_def Let_def update_db_def map_of_eq_None_iff
        split: prod.splits option.splits)
qed

end
