(* ===== verification/Build_Props.thy ===== *)
theory Build_Props
  imports Build_Known
begin

text \<open>
  What the build handler guarantees: the order in which builds are handed out, the
  invariants over every sequence of requests, what cleaning removes, and when the JSON file
  agrees with the dictionary in memory.
\<close>

section \<open>Order of extraction\<close>

text \<open>A data base with two projects, used by the witnesses.\<close>

definition sample :: bh where
  "sample = \<lparr>mem = \<lparr>priority =
       [(''HSS-1.10.2'', \<lparr>pending = [''HSS-1.10.2.1'', ''HSS-1.10.2.2''], high_priority = None\<rparr>),
        (''HSS-1.9.3'', \<lparr>pending = [''HSS-1.9.3.7''], high_priority = Some ''HSS-1.9.3.6''\<rparr>)],
     db_build_info =
       [(''HSS-1.10.2.1'', \<lparr>test_info = JObj [], test_result = [], status = ''NOT_TESTED''\<rparr>),
        (''HSS-1.10.2.2'', \<lparr>test_info = JObj [], test_result = [], status = ''NOT_TESTED''\<rparr>),
        (''HSS-1.9.3.6'', \<lparr>test_info = JObj [], test_result = [], status = ''NOT_TESTED''\<rparr>),
        (''HSS-1.9.3.7'', \<lparr>test_info = JObj [], test_result = [JNull], status = ''TESTED''\<rparr>)],
     baselines = Some [(''1.9'', ''HSS-1.9.3.7'')]\<rparr>, db_file = NoFile\<rparr>"

lemma sample_order: "version_sort [''HSS-1.10.2'', ''HSS-1.9.3''] = [''HSS-1.9.3'', ''HSS-1.10.2'']"
  by code_simp

lemma sample_pending:
  "fetch_pending_build_list sample =
     [(''HSS-1.9.3.6'', True), (''HSS-1.10.2.2'', False), (''HSS-1.10.2.1'', False),
      (''HSS-1.9.3.7'', False)]"
  by code_simp

text \<open>C2: \<open>fetch_pending_build_list\<close> lists the builds in the order in which repeated
  \<open>get_build\<close> extractions hand them out: taking \<open>n\<close> builds gives the first \<open>n\<close> entries and
  leaves a queue that lists the others.\<close>

theorem pending_list_is_extraction_order:
  assumes "prio_distinct s"
  shows "fst (drain next_build n s) = take n (fetch_pending_build_list s) \<and>
    fetch_pending_build_list (snd (drain next_build n s)) = drop n (fetch_pending_build_list s)"
  using bq.drain_contents [OF assms, of n] by (metis prod.collapse)

theorem pending_list_is_extraction_order_witness:
  "fst (drain next_build 2 sample) = [(''HSS-1.9.3.6'', True), (''HSS-1.10.2.2'', False)]"
proof -
  have "prio_distinct sample" by (simp add: prio_distinct_def sample_def)
  from pending_list_is_extraction_order [OF this, of 2] show ?thesis
    by (simp add: sample_pending)
qed

lemma high_of_in_list: "high_of d q \<noteq> None \<Longrightarrow> q \<in> set (project_list d)"
  by (force simp: high_of_def project_list_def bind_eq_Some_conv dest: map_of_SomeD)

lemma pending_of_in_list: "pending_of d q \<noteq> [] \<Longrightarrow> q \<in> set (project_list d)"
  by (force simp: pending_of_def project_list_def dest: map_of_SomeD split: option.splits)

lemma sorted_first:
  "sorted (map f (xs @ p # ys)) \<Longrightarrow> q \<in> set (p # ys) \<Longrightarrow> f p \<le> f q"
  by (auto simp: sorted_append)

lemma sorted_last:
  "sorted (map f ps) \<Longrightarrow> rev ps = xs @ p # ys \<Longrightarrow> q \<in> set (p # ys) \<Longrightarrow> f q \<le> f p"
proof -
  assume s: "sorted (map f ps)" and r: "rev ps = xs @ p # ys" and q: "q \<in> set (p # ys)"
  from r have "ps = rev ys @ p # rev xs" by (metis rev.simps(2) rev_append rev_rev_ident append.assoc
      append_Cons append_Nil)
  with s q show "f q \<le> f p" by (auto simp: sorted_append)
qed

text \<open>A high-priority build is chosen from the oldest project (by loose version) that has
  one; only when no project has one, the newest pending build of the newest project is chosen.\<close>

theorem next_build_choice:
  assumes "fst (find_next_build x s) = (Some b, rc)"
  shows "if rc
    then \<exists>p. high_of (mem s) p = Some b \<and>
      (\<forall>q. high_of (mem s) q \<noteq> None \<longrightarrow> loose_version p \<le> loose_version q)
    else (\<forall>q. high_of (mem s) q = None) \<and>
      (\<exists>p. pending_of (mem s) p \<noteq> [] \<and> b = last (pending_of (mem s) p) \<and>
        (\<forall>q. pending_of (mem s) q \<noteq> [] \<longrightarrow> loose_version q \<le> loose_version p))"
proof (cases "find_high (mem s) (project_list (mem s))")
  case (Some pr)
  then obtain p where f: "find_high (mem s) (project_list (mem s)) = Some (p, b)" and rc
    using assms by (cases pr) (auto simp: find_next_build_def)
  from find_high_Some [OF f] obtain xs ys where ps: "project_list (mem s) = xs @ p # ys"
    and p: "high_of (mem s) p = Some b" and xs: "\<forall>y \<in> set xs. high_of (mem s) y = None" by blast
  have "loose_version p \<le> loose_version q" if "high_of (mem s) q \<noteq> None" for q
  proof (rule sorted_first [where f = loose_version and xs = xs and ys = ys])
    show "sorted (map loose_version (xs @ p # ys))"
      using sorted_version_sort [of "dict_keys (priority (mem s))"] ps
      by (simp add: project_list_def)
    show "q \<in> set (p # ys)" using high_of_in_list [OF that] xs that ps by auto
  qed
  with p \<open>rc\<close> show ?thesis by auto
next
  case None
  then obtain p where f: "find_pending (mem s) (rev (project_list (mem s))) = Some (p, b)" and "\<not> rc"
    using assms by (auto simp: find_next_build_def split: option.splits)
  from find_pending_Some [OF f] obtain xs ys where ps: "rev (project_list (mem s)) = xs @ p # ys"
    and p: "pending_of (mem s) p \<noteq> []" "b = last (pending_of (mem s) p)"
    and xs: "\<forall>y \<in> set xs. pending_of (mem s) y = []" by blast
  have "loose_version q \<le> loose_version p" if "pending_of (mem s) q \<noteq> []" for q
  proof (rule sorted_last [OF _ ps, where f = loose_version])
    show "sorted (map loose_version (project_list (mem s)))"
      by (simp add: project_list_def sorted_version_sort)
    have "q \<in> set (rev (project_list (mem s)))" using pending_of_in_list [OF that] by simp
    with xs that show "q \<in> set (p # ys)" unfolding ps by auto
  qed
  moreover have "high_of (mem s) q = None" for q
    using None high_of_in_list unfolding find_high_None by blast
  ultimately show ?thesis using p \<open>\<not> rc\<close> by auto
qed

theorem next_build_choice_witness:
  "\<exists>p. high_of (mem sample) p = Some ''HSS-1.9.3.6''"
proof -
  have "fst (find_next_build True sample) = (Some ''HSS-1.9.3.6'', True)" by code_simp
  from next_build_choice [OF this] show ?thesis by auto
qed

section \<open>Invariants over all requests\<close>

inductive bh_reachable :: "(bh_op \<Rightarrow> bh \<Rightarrow> bool) \<Rightarrow> bh \<Rightarrow> bool" for ok where
  start: "bh_init dk = Inr s \<Longrightarrow> (\<forall>d. dk = DbFile d \<longrightarrow> wf_db d \<and> known_db d) \<Longrightarrow> bh_reachable ok s"
| request: "bh_reachable ok s \<Longrightarrow> ok op s \<Longrightarrow> bh_reachable ok (snd (bh_run op s))"

lemma empty_db_ok: "wf_db empty_db" "known_db empty_db"
  by (simp_all add: wf_db_def known_db_def empty_db_def)

lemma init_queue_ok:
  "bh_init dk = Inr s \<Longrightarrow> (\<forall>d. dk = DbFile d \<longrightarrow> wf_db d \<and> known_db d) \<Longrightarrow> queue_ok s"
  by (cases dk) (auto simp: queue_ok_def both_def update_db_def empty_db_ok)

text \<open>C36: whatever requests arrive, starting from a well-formed data base file or none, the
  dictionaries keep distinct keys, every queued build sits in the entry of its own project and
  at most once in its pending list, and every status is one of the six allowed ones.\<close>

theorem reachable_wf:
  assumes "bh_reachable (\<lambda>_ _. True) s"
  shows "wf_db (mem s) \<and> (\<forall>d. db_file s = DbFile d \<longrightarrow> wf_db d)"
proof -
  from assms have "wf s"
  proof (induction rule: bh_reachable.induct)
    case (start dk s)
    then show ?case using init_queue_ok by (simp add: queue_ok_def)
  next
    case (request s op)
    then show ?case by (blast intro: wf_run)
  qed
  then show ?thesis by (simp add: both_def)
qed

definition fresh :: bh where
  "fresh = \<lparr>mem = empty_db, db_file = DbFile empty_db\<rparr>"

lemma fresh_reachable: "bh_reachable ok fresh"
  by (rule bh_reachable.start [of NoFile]) (simp_all add: update_db_def fresh_def)

theorem reachable_wf_witness:
  "wf_db (mem (snd (bh_run (BuildInfoAdd ''HSS-1.2.3.4'' (JObj [])) fresh)))"
proof -
  have "bh_reachable (\<lambda>_ _. True) (snd (bh_run (BuildInfoAdd ''HSS-1.2.3.4'' (JObj [])) fresh))"
    by (rule bh_reachable.request [OF fresh_reachable]) simp
  from reachable_wf [OF this] show ?thesis by blast
qed

text \<open>C5: as long as no request queues a build that is its project's high-priority build
  already, every queued build has a record, and \<open>get_build\<close> never fails.\<close>

theorem sound_requests_get_build:
  assumes "bh_reachable sound_request s"
  shows "\<exists>v. fst (get_build s) = Inr v"
proof -
  from assms have "queue_ok s"
    by (induction rule: bh_reachable.induct) (auto intro: init_queue_ok queue_ok_run)
  then show ?thesis by (rule queue_ok_get_build)
qed

theorem sound_requests_get_build_witness:
  "\<exists>v. fst (get_build (snd (bh_run (BuildInfoAdd ''HSS-1.2.3.4'' (JObj [])) fresh))) = Inr v"
  by (rule sound_requests_get_build, rule bh_reachable.request [OF fresh_reachable]) simp

definition double_queue :: "bh_op list" where
  "double_queue =
     [BuildInfoAdd ''HSS-1.2.3.4'' (JObj []), PriorityAdd ''HSS-1.2.3.4'',
      PriorityIncrease ''HSS-1.2.3.4'', PriorityAdd ''HSS-1.2.3.4'', CleanBuild ''HSS-1.2'' []]"

fun bh_runs :: "bh_op list \<Rightarrow> bh \<Rightarrow> bh" where
  "bh_runs [] s = s"
| "bh_runs (op # ops) s = bh_runs ops (snd (bh_run op s))"

text \<open>The guard is needed. A build that is promoted, queued again and then cleaned stays
  behind as a high-priority build without a record: the next \<open>get_build\<close> removes it from the
  queue and fails with \<open>KeyError\<close>.\<close>

theorem double_queue_breaks_get_build:
  "fst (get_build (bh_runs double_queue fresh)) = Inl (KeyError ''HSS-1.2.3.4'') \<and>
   is_there_build_to_test (bh_runs double_queue fresh) \<and>
   \<not> is_there_build_to_test (snd (get_build (bh_runs double_queue fresh)))"
proof -
  have "bh_runs double_queue fresh =
    \<lparr>mem = \<lparr>priority = [(''HSS-1.2.3'', \<lparr>pending = [], high_priority = Some ''HSS-1.2.3.4''\<rparr>)],
       db_build_info = [], baselines = Some []\<rparr>,
     db_file = DbFile \<lparr>priority = [(''HSS-1.2.3'', \<lparr>pending = [], high_priority = Some ''HSS-1.2.3.4''\<rparr>)],
       db_build_info = [], baselines = Some []\<rparr>\<rparr>"
    by code_simp
  then show ?thesis
    by (simp add: is_there_build_to_test_def get_build_def find_next_build_def project_list_def
        version_sort_def prio_modify_def with_mem_def dict_modify_def update_db_def pending_of_def Let_def)
qed

section \<open>Cleaning\<close>

definition cleaned :: "string \<Rightarrow> string \<Rightarrow> string list \<Rightarrow> string \<Rightarrow> build_rec \<Rightarrow> build_rec option" where
  "cleaned w x baseline_builds b r =
     (if startswith b w \<and> b \<noteq> x \<and> status r \<noteq> ''TEST_ONGOING''
      then if b \<in> set baseline_builds then Some (r\<lparr>test_result := []\<rparr>) else None
      else Some r)"

lemma cleaned_keep: "\<not> (startswith b w \<and> b \<noteq> x) \<Longrightarrow> cleaned w x bs b r = Some r"
  "status r = ''TEST_ONGOING'' \<Longrightarrow> cleaned w x bs b r = Some r"
  by (auto simp: cleaned_def)

lemma clean_step_infos:
  "map_of (db_build_info (mem (set_results b rs s))) =
     (map_of (db_build_info (mem s)))(b := map_option (test_result_update (\<lambda>_. rs)) (map_of (db_build_info (mem s)) b))"
  "map_of (db_build_info (mem (del_build b s))) = (map_of (db_build_info (mem s)))(b := None)"
  "baselines (mem (set_results b rs s)) = baselines (mem s)"
  "baselines (mem (del_build b s)) = baselines (mem s)"
  by (simp_all add: set_results_def del_build_def with_mem_def dict_simps)

lemma clean_keys_spec:
  "baselines (mem s) = Some bs \<Longrightarrow> distinct ks \<Longrightarrow> set ks \<subseteq> dom (map_of (db_build_info (mem s))) \<Longrightarrow>
     \<exists>m t. clean_keys w x ks n s = (Inr m, t) \<and>
       map_of (db_build_info (mem t)) =
         (\<lambda>b. if b \<in> set ks then Option.bind (map_of (db_build_info (mem s)) b) (cleaned w x (dict_values bs) b)
              else map_of (db_build_info (mem s)) b)"
proof (induction ks arbitrary: n s)
  case Nil
  then show ?case by simp
next
  case (Cons k ks)
  from Cons.prems obtain r where r: "map_of (db_build_info (mem s)) k = Some r" by auto
  have ks: "k \<notin> set ks" "distinct ks" using Cons.prems by auto
  let ?c = "cleaned w x (dict_values bs)"
  let ?s1 = "snd (priority_del k False s)"
  let ?s2 = "if k \<in> set (dict_values bs) then set_results k [] ?s1 else del_build k ?s1"
  show ?case
  proof (cases "startswith k w \<and> k \<noteq> x \<and> status r \<noteq> ''TEST_ONGOING''")
    case False
    then have "clean_keys w x (k # ks) n s = clean_keys w x ks n s" using r by auto
    moreover have "?c k r = Some r" using False by (auto simp: cleaned_def)
    ultimately show ?thesis
      using Cons.IH [of s n] Cons.prems ks r by (fastforce simp: fun_eq_iff)
  next
    case True
    have step: "clean_keys w x (k # ks) n s = clean_keys w x ks (Suc n) ?s2"
      using True r Cons.prems(1) by (simp add: Let_def dequeue_step_infos)
    have maps: "map_of (db_build_info (mem ?s2)) = (map_of (db_build_info (mem s)))(k := ?c k r)"
      using True r by (auto simp: clean_step_infos dequeue_step_infos cleaned_def fun_eq_iff)
    have "baselines (mem ?s2) = Some bs"
      using Cons.prems(1) by (simp add: clean_step_infos dequeue_step_infos)
    moreover have "set ks \<subseteq> dom (map_of (db_build_info (mem ?s2)))"
      using Cons.prems(3) ks maps by auto
    ultimately obtain m t where t: "clean_keys w x ks (Suc n) ?s2 = (Inr m, t)"
      "map_of (db_build_info (mem t)) =
         (\<lambda>b. if b \<in> set ks then Option.bind (map_of (db_build_info (mem ?s2)) b) (?c b)
              else map_of (db_build_info (mem ?s2)) b)"
      using Cons.IH [of ?s2 "Suc n"] ks by blast
    have "map_of (db_build_info (mem t)) b =
        (if b \<in> set (k # ks) then Option.bind (map_of (db_build_info (mem s)) b) (?c b)
         else map_of (db_build_info (mem s)) b)" for b
      unfolding t(2) maps using ks r by auto
    then show ?thesis unfolding step t(1) by auto
  qed
qed

lemma clean_build_effect:
  assumes "wf_db (mem s)" and "baselines (mem s) = Some bs"
  obtains m t where "clean_build w x s = (Inr m, t)"
    and "map_of (db_build_info (mem t)) =
           (\<lambda>b. Option.bind (map_of (db_build_info (mem s)) b) (cleaned w x (dict_values bs) b))"
    and "db_file t = DbFile (mem t)"
proof -
  let ?ks = "dict_keys (db_build_info (mem s))"
  have "distinct ?ks" "set ?ks \<subseteq> dom (map_of (db_build_info (mem s)))"
    using assms(1) by (simp_all add: wf_db_def dom_map_of_conv_image_fst)
  from clean_keys_spec [OF assms(2) this] obtain m t where
    t: "clean_keys w x ?ks 0 s = (Inr m, t)" and
    b: "map_of (db_build_info (mem t)) =
         (\<lambda>b. if b \<in> set ?ks then Option.bind (map_of (db_build_info (mem s)) b) (cleaned w x (dict_values bs) b)
              else map_of (db_build_info (mem s)) b)"
    by blast
  let ?u = "update_db (clean_priority t)"
  have "map_of (db_build_info (mem ?u)) b =
      Option.bind (map_of (db_build_info (mem s)) b) (cleaned w x (dict_values bs) b)" for b
    using b by (simp add: update_db_def clean_priority_def with_mem_def map_of_eq_None_iff)
      (metis (no_types, lifting) bind.bind_lzero list.set_map map_of_eq_None_iff)
  moreover have "clean_build w x s =
      (Inr ('' '' @ str_of_nat m @ '' builds cleaned from db''), ?u)"
    by (simp add: clean_build_def t)
  ultimately show thesis using that by (auto simp: update_db_def fun_eq_iff)
qed

text \<open>\<open>clean_build\<close> removes exactly the records whose name starts with the wildcard, except
  the excluded build and builds under test; a baseline's record stays, without its results.
  The outcome is on file.\<close>

theorem clean_build_spec:
  assumes "wf_db (mem s)" and "baselines (mem s) = Some bs"
  obtains m t where "clean_build w x s = (Inr m, t)"
    and "map_of (db_build_info (mem t)) =
           (\<lambda>b. Option.bind (map_of (db_build_info (mem s)) b) (cleaned w x (dict_values bs) b))"
    and "db_file t = DbFile (mem t)"
  using clean_build_effect [OF assms] .

theorem clean_build_spec_witness:
  "\<exists>t. snd (clean_build ''HSS-1.9.3'' [] sample) = t \<and>
     map_of (db_build_info (mem t)) ''HSS-1.9.3.6'' = None \<and>
     map_of (db_build_info (mem t)) ''HSS-1.9.3.7'' =
       Some \<lparr>test_info = JObj [], test_result = [], status = ''TESTED''\<rparr>"
proof (rule clean_build_spec [of sample "[(''1.9'', ''HSS-1.9.3.7'')]" "''HSS-1.9.3''" "[]"])
  show "wf_db (mem sample)"
    by (simp add: wf_db_def sample_def prio_ok_def get_project_def statuses_def)
  show "baselines (mem sample) = Some [(''1.9'', ''HSS-1.9.3.7'')]" by (simp add: sample_def)
  fix m t
  assume "clean_build ''HSS-1.9.3'' [] sample = (Inr m, t)"
    and b: "map_of (db_build_info (mem t)) = (\<lambda>b. Option.bind (map_of (db_build_info (mem sample)) b)
        (cleaned ''HSS-1.9.3'' [] (dict_values [(''1.9'', ''HSS-1.9.3.7'')]) b))"
  then show "\<exists>t. snd (clean_build ''HSS-1.9.3'' [] sample) = t \<and>
     map_of (db_build_info (mem t)) ''HSS-1.9.3.6'' = None \<and>
     map_of (db_build_info (mem t)) ''HSS-1.9.3.7'' =
       Some \<lparr>test_info = JObj [], test_result = [], status = ''TESTED''\<rparr>"
    by (simp add: b) (simp add: sample_def cleaned_def startswith_def)
qed

section \<open>Memory and file\<close>

definition synced :: "bh \<Rightarrow> bool" where
  "synced s \<longleftrightarrow> db_file s = DbFile (mem s)"

lemma synced_update_db [simp]: "synced (update_db s)"
  by (simp add: synced_def update_db_def)

lemma unchanged_next: "find_next_build True s = ((None, rc), s') \<Longrightarrow> s' = s"
  by (auto simp: find_next_build_def split: option.splits prod.splits)

text \<open>
  The requests that change memory alone: taking a build without a record out of the queue while
  updating its status, and changing test information without \<open>persist\<close>, the default of the
  service and of the command line.
\<close>

definition silent :: "bh_op \<Rightarrow> bh \<Rightarrow> bool" where
  "silent op s \<longleftrightarrow>
     (\<exists>b. op = PriorityDel b True \<and> map_of (db_build_info (mem s)) b = None) \<or>
     (\<exists>b i. op = UpdateBuildTestInfo b i False)"

definition saves :: "bh_op \<Rightarrow> bh \<Rightarrow> bool" where
  "saves op s \<longleftrightarrow> synced (snd (bh_run op s)) \<or> snd (bh_run op s) = s"

lemma saves_priority_del:
  "\<not> silent (PriorityDel b u) s \<Longrightarrow> saves (PriorityDel b u) s"
  by (cases u) (auto simp: saves_def silent_def priority_del_def Let_def set_prio_def with_mem_def
      split: option.splits)

lemma silent_file: "silent op s \<Longrightarrow> db_file (snd (bh_run op s)) = db_file s"
  by (auto simp: silent_def priority_del_def Let_def set_prio_def with_mem_def
      update_build_test_info_def set_test_info_def split: option.splits)

lemma saves_request:
  assumes "fst (bh_run op s) = Inr j" and "\<not> silent op s"
  shows "saves op s"
proof (cases op)
  case (PriorityDel b u)
  with saves_priority_del assms(2) show ?thesis by simp
next
  case RefreshDbm
  then show ?thesis using assms
    by (cases "db_file s") (auto simp: refresh_DBM_from_file_def saves_def synced_def)
next
  case GetBuild
  then show ?thesis using assms
    by (auto simp: saves_def get_build_def Let_def dest: unchanged_next split: prod.splits option.splits)
next
  case (UpdateBuildTestInfo b i p)
  then show ?thesis using assms by (cases p) (auto simp: saves_def silent_def update_build_test_info_def Let_def)
qed (use assms in \<open>auto simp: saves_def build_info_add_def build_info_update_def priority_add_def Let_def
    priority_increase_def baseline_add_def baseline_del_def clean_build_def purge_build_def
    add_build_test_result_def update_build_status_def force_build_status_def
    split: if_splits option.splits prod.splits sum.splits\<close>)

text \<open>C39: from whatever state, agreement of memory and file not assumed: a request that returns
  normally leaves the file equal to memory, or changes nothing at all, unless it is one of two
  kinds. These, removing a build that has no record from the queue with
  \<open>update_status\<close>, and updating test information without \<open>persist\<close>, leave the file as it
  was, whatever they change in memory.\<close>

theorem requests_are_persisted:
  assumes "bh_run op s = (Inr j, t)"
  shows "if (\<exists>b. op = PriorityDel b True \<and> map_of (db_build_info (mem s)) b = None) \<or>
      (\<exists>b i. op = UpdateBuildTestInfo b i False)
    then db_file t = db_file s
    else db_file t = DbFile (mem t) \<or> t = s"
  using silent_file [of op s] saves_request [of op s j] assms
  unfolding silent_def saves_def synced_def by auto

theorem requests_are_persisted_witness:
  "\<exists>j t u. bh_run (UpdateBuildTestInfo ''HSS-1.2.3.4'' (JObj []) False) fresh = (Inr j, t) \<and>
     db_file t = db_file fresh \<and>
     bh_run (BuildInfoAdd ''HSS-1.2.3.4'' (JObj [])) t = (Inr (JBool True), u) \<and>
     db_file u = DbFile (mem u)"
proof -
  let ?op = "UpdateBuildTestInfo ''HSS-1.2.3.4'' (JObj []) False"
  let ?add = "BuildInfoAdd ''HSS-1.2.3.4'' (JObj [])"
  obtain j t where 1: "bh_run ?op fresh = (Inr j, t)"
    by (auto simp: update_build_test_info_def enc_def)
  have k: "''HSS-1.2.3.4'' \<notin> set (dict_keys (db_build_info (mem t)))"
    using 1 by (auto simp: update_build_test_info_def Let_def set_test_info_def with_mem_def enc_def
        fresh_def empty_db_def dict_modify_def)
  obtain u where u: "bh_run ?add t = (Inr (JBool True), u)"
    "''HSS-1.2.3.4'' \<in> set (dict_keys (db_build_info (mem u)))"
    using k by (simp add: build_info_add_def enc_def with_mem_def update_db_def dict_simps)
  then have 2: "bh_run ?add t = (Inr (JBool True), u)" "u \<noteq> t" using k by auto
  from requests_are_persisted [OF 1] requests_are_persisted [OF 2(1)] 1 2 show ?thesis by auto
qed

section \<open>Single requests\<close>

text \<open>An added build can be fetched with the information it was added with, starts as
  \<open>NOT_TESTED\<close> without results, and is refused, with nothing changed, when added again.\<close>

theorem build_info_add_fetch:
  assumes "build_info_add b i s = (Inr r, t)"
  shows "fetch_build b t = Inr i \<and> get_build_status b t = ''NOT_TESTED'' \<and>
    get_build_test_result b t = [] \<and>
    (\<forall>c. c \<noteq> b \<longrightarrow> map_of (db_build_info (mem t)) c = map_of (db_build_info (mem s)) c) \<and>
    build_info_add b j t = (Inl (FaultyAction (b @ '' already exists in DB.'')), t)"
  using assms
  by (auto simp: build_info_add_def fetch_build_def get_build_status_def get_build_test_result_def
      with_mem_def update_db_def dict_simps split: if_splits)

theorem build_info_add_fetch_witness:
  "fetch_build ''HSS-1.2.3.4'' (snd (build_info_add ''HSS-1.2.3.4'' (JBool True) fresh)) = Inr (JBool True)"
proof -
  have "build_info_add ''HSS-1.2.3.4'' (JBool True) fresh =
      (Inr True, snd (build_info_add ''HSS-1.2.3.4'' (JBool True) fresh))"
    by (simp add: build_info_add_def fresh_def empty_db_def)
  from build_info_add_fetch [OF this] show ?thesis by blast
qed

lemma dropWhile_split: "b \<notin> set xs \<Longrightarrow> tl (dropWhile (\<lambda>x. x \<noteq> b) (xs @ b # ys)) = ys"
  by (induction xs) auto

text \<open>Promoting a pending build makes it its project's high-priority build and drops every
  build queued before it, and the high-priority build it replaces, from the queue; the builds
  queued after it stay pending, and no other project changes.\<close>

theorem priority_increase_promotes:
  assumes "map_of (priority (mem s)) (get_project b) = Some e"
    and "pending e = before @ b # after" and "b \<notin> set before"
  obtains t where "priority_increase b s = (Inr True, t)"
    and "high_of (mem t) (get_project b) = Some b"
    and "pending_of (mem t) (get_project b) = after"
    and "wf_db (mem s) \<Longrightarrow> p \<noteq> get_project b \<Longrightarrow>
           high_of (mem t) p = high_of (mem s) p \<and> pending_of (mem t) p = pending_of (mem s) p"
proof -
  let ?s1 = "set_prio (get_project b) (promote b e) s"
  let ?t = "update_db (clean_priority ?s1)"
  have promoted: "promote b e = e\<lparr>pending := after, high_priority := Some b\<rparr>"
    using assms(2,3) by (simp add: promote_def dropWhile_split)
  have look: "map_of (filter (\<lambda>(k, e). \<not> idle e) (dict_set q e' d)) q = Some e'"
    if "\<not> idle e'" for q e' and d :: "(string, prio) dict"
    using that by (induction d) auto
  have other: "map_of (filter (\<lambda>(k, e). \<not> idle e) (dict_set q e' d)) p =
      map_of (filter (\<lambda>(k, e). \<not> idle e) d) p"
    if "p \<noteq> q" for q e' and d :: "(string, prio) dict"
    using that by (induction d) auto
  have "map_of (priority (mem ?t)) (get_project b) = Some (promote b e)"
    using look [of "promote b e"]
    by (simp add: update_db_def clean_priority_def set_prio_def with_mem_def idle_def [of "promote b e"]
        promoted [symmetric]) (simp add: promoted)
  moreover have "high_of (mem ?t) p = high_of (mem s) p \<and> pending_of (mem ?t) p = pending_of (mem s) p"
    if "wf_db (mem s)" "p \<noteq> get_project b"
  proof -
    have "map_of (priority (mem ?t)) p = map_of (filter (\<lambda>(k, e). \<not> idle e) (priority (mem s))) p"
      using that(2) by (simp add: update_db_def clean_priority_def set_prio_def with_mem_def other)
    also have "\<dots> = (case map_of (priority (mem s)) p of None \<Rightarrow> None
        | Some e \<Rightarrow> if \<not> idle e then Some e else None)"
      using that(1) by (subst map_of_filter) (auto simp: wf_db_def)
    finally show ?thesis by (auto simp: high_of_def pending_of_def idle_def split: option.splits)
  qed
  moreover have "priority_increase b s = (Inr True, ?t)"
    using assms by (simp add: priority_increase_def Let_def)
  ultimately show thesis using that [of ?t] by (simp add: high_of_def pending_of_def promoted)
qed

theorem priority_increase_promotes_witness:
  "fst (priority_increase ''HSS-1.10.2.2'' sample) = Inr True \<and>
   pending_of (mem (snd (priority_increase ''HSS-1.10.2.2'' sample))) ''HSS-1.10.2'' = []"
proof (rule priority_increase_promotes [of sample "''HSS-1.10.2.2''" _ "[''HSS-1.10.2.1'']" "[]"])
  show "map_of (priority (mem sample)) (get_project ''HSS-1.10.2.2'') =
      Some \<lparr>pending = [''HSS-1.10.2.1'', ''HSS-1.10.2.2''], high_priority = None\<rparr>"
    by (simp add: sample_def get_project_def)
qed (simp_all add: get_project_def)

text \<open>The project of a build is its first three dotted components: taking it again changes
  nothing, it has the build's release, and every build extends its project's name.\<close>

theorem project_of_project:
  "get_project (get_project b) = get_project b \<and> get_release (get_project b) = get_release b \<and>
   startswith b (get_project b) \<and> startswith (get_project b) (get_release b)"
proof -
  let ?ps = "split_on (CHR ''.'') b"
  have again: "split_on (CHR ''.'') (join ''.'' (take n ?ps)) = take n ?ps" if "0 < n" for n
    using that by (intro split_on_join) (auto dest!: in_set_takeD split_on_free)
  have pre: "startswith (join ''.'' ps) (join ''.'' (take n ps))"
    for ps :: "string list" and n
  proof (induction n arbitrary: ps)
    case (Suc n)
    show ?case
    proof (cases ps)
      case (Cons p qs)
      show ?thesis
      proof (cases "n = 0 \<or> qs = []")
        case True
        with Cons show ?thesis by (cases qs) (auto simp: startswith_iff)
      next
        case False
        then have "take n qs \<noteq> []" "qs \<noteq> []" by auto
        with Cons Suc.IH [of qs] show ?thesis by (auto simp: join_cons startswith_iff)
      qed
    qed (simp add: startswith_def)
  qed (simp add: startswith_def)
  have "startswith b (join ''.'' (take 3 ?ps))" using pre [of ?ps 3] by (simp add: join_split)
  moreover have "startswith (join ''.'' (take 3 ?ps)) (join ''.'' (take 2 ?ps))"
    using pre [of "take 3 ?ps" 2] by (simp add: min_def)
  ultimately show ?thesis by (simp add: get_project_def get_release_def again min_def)
qed

end
