(* ===== verification/Controller_Props.thy ===== *)
theory Controller_Props
  imports Controller Build_Props
begin

text \<open>
  What the controller guarantees: which signals can start a test, which can stop one, what a
  test leaves behind in the build handler, and what a lost connection to the test tool does.
\<close>

section \<open>What the handlers leave alone\<close>

text \<open>The fields that describe the running test.\<close>

definition core ::
  "ctl \<Rightarrow> bool \<times> bool \<times> string option \<times> json \<times> bool \<times> rtc_thread option \<times> nat \<times> string list" where
  "core s = (service_paused s, can_be_stopped s, build s, build_info s, high s, rtc_handler s,
             created s, rtc_commands s)"

lemma core_bcall [simp]: "bcall op s = (r, s') \<Longrightarrow> core s' = core s"
  by (auto simp: bcall_def core_def split: prod.splits)

lemma core_snd_bcall [simp]: "core (snd (bcall op s)) = core s"
  by (metis core_bcall prod.collapse)

lemma core_emits [simp]: "core (emits i a s) = core s"
  by (simp add: emits_def core_def)

lemma core_reply [simp]: "core (snd (reply i t s)) = core s"
  by (simp add: reply_def)

lemma core_set_config [simp]: "core (set_config c p s) = core s"
  by (cases p) (simp_all add: set_config_def save_service_config_def core_def)

lemma core_andthen:
  "core (snd p) = core s \<Longrightarrow> (\<And>r s'. core s' = core s \<Longrightarrow> core (snd (f r s')) = core s) \<Longrightarrow>
     core (snd (andthen p f)) = core s"
  by (auto simp: andthen_def split: prod.splits sum.splits)

lemma core_listing: "core (snd (listing a op t s)) = core s"
  by (auto simp: listing_def split: prod.splits sum.splits)

lemma core_baseline_data: "core (snd (baseline_data v bl s)) = core s"
  by (simp add: baseline_data_def split: prod.splits)

lemma core_baseline_lines: "core (snd (baseline_lines v bls s)) = core s"
proof (induction bls arbitrary: s)
  case (Cons bl bls)
  obtain d s1 where d: "baseline_data v (json_text bl) s = (d, s1)" by fastforce
  obtain d2 s2 where d2: "baseline_lines v bls s1 = (d2, s2)" by fastforce
  from core_baseline_data [of v "json_text bl" s] Cons.IH [of s1] d d2 show ?case by simp
qed simp


lemma core_fetch_baseline: "core (snd (fetch_baseline v a s)) = core s"
  unfolding fetch_baseline_def
proof (rule core_andthen)
  fix r s' assume "core s' = core s"
  then show "core (snd (case baseline_lines v (json_list r) s' of
      (answer, s1) \<Rightarrow> reply a (if answer = [] then ''No baselines'' else answer) s1)) = core s"
    using core_baseline_lines [of v "json_list r" s'] by (auto split: prod.splits)
qed simp

lemma core_activate: "core (snd (activate_baseline a bl s)) = core s"
  by (auto simp: activate_baseline_def split: prod.splits sum.splits)

lemma core_add_baseline: "core (snd (add_baseline a b s)) = core s"
  by (auto simp: add_baseline_def split: prod.splits sum.splits)

lemma core_drop: "core (snd (drop_baseline bl c s)) = core s"
  unfolding drop_baseline_def by (rule core_andthen) auto

lemma core_del_baseline: "core (snd (del_baseline a bl c f s)) = core s"
proof -
  have "core (snd (case drop_baseline bl c s of
            (Inl e, s1) \<Rightarrow> reply a (''ERROR: '' @ exc_str e) s1
          | (Inr _, s1) \<Rightarrow> reply a t s1)) = core s" for t s
    using core_drop [of bl c s] by (auto split: prod.splits sum.splits)
  then show ?thesis by (simp add: del_baseline_def Let_def split: sum.splits)
qed

lemma core_fetch_info: "core (snd (fetch_build_test_info a b s)) = core s"
  by (auto simp: fetch_build_test_info_def split: prod.splits sum.splits)

lemma core_update_info: "core (snd (ctl_update_build_test_info a b i p s)) = core s"
  unfolding ctl_update_build_test_info_def by (auto intro: core_andthen)

lemma core_set_build_status: "core (snd (set_build_status a b st s)) = core s"
  unfolding set_build_status_def by (auto intro: core_andthen)

lemma core_check_baseline: "core (snd (check_baseline bl s)) = core s"
  by (simp add: check_baseline_def split: prod.splits)

lemma core_update_config: "core (snd (update_config a cfg p s)) = core s"
proof -
  have "core s1 = core s" if "check_baseline bl s = (ok, s1)" for bl ok s1
    using core_check_baseline [of bl s] that by simp
  then show ?thesis
    by (auto simp: update_config_def Let_def split: sum.splits py_exc.splits prod.splits bool.splits)
qed

lemma core_status: "core (snd (ctl_status v a s)) = core s"
  by (simp add: ctl_status_def)

lemma core_fetch_config: "core (snd (fetch_config a s)) = core s"
  by (simp add: fetch_config_def)

lemmas core_quiet = core_listing core_fetch_baseline core_activate core_add_baseline core_del_baseline
  core_fetch_info core_update_info core_set_build_status core_update_config core_status
  core_fetch_config

text \<open>The state after a signal, apart from the decoding.\<close>

definition after_signal :: "env \<Rightarrow> string \<Rightarrow> json list \<Rightarrow> ctl \<Rightarrow> ctl" where
  "after_signal v i args s =
     (case map_of (ctl_watcher v) i of None \<Rightarrow> s | Some h \<Rightarrow> snd (h args s))"

lemma dispatch_after:
  "snd (dispatch (ctl_watcher v) w s) = s \<or>
   (\<exists>i j. read_signal w = Inr (Some (i, j)) \<and>
      snd (dispatch (ctl_watcher v) w s) = after_signal v i (json_list j) s)"
  by (auto simp: dispatch_def after_signal_def split: sum.splits option.splits)

lemma bound_core: "(\<And>as. core (snd (f as s)) = core s) \<Longrightarrow> core (snd (bound ps f args s)) = core s"
  by (auto simp: bound_def split: option.splits)

lemma core_answers:
  "(\<And>a. core (snd (f a s)) = core s) \<Longrightarrow> core (snd (answer_only f args s)) = core s"
  "(\<And>a b. core (snd (g a b s)) = core s) \<Longrightarrow> core (snd (answer_and p g args s)) = core s"
  by (simp_all add: answer_only_def answer_and_def bound_core)

definition acting :: "string list" where
  "acting = [''rtc_check_priority_list'', ''rtc_set_test_to_faulty'', ''rtc_priority_increase'',
     ''test_tool_ready_for_new_build'', ''test_tool_shutdown'', ''cli_force_build'', ''cli_pause'',
     ''cli_resume'']"

lemma quiet_signal:
  assumes "i \<notin> set acting"
  shows "core (after_signal v i args s) = core s"
proof -
  have "\<forall>(i, h) \<in> set (ctl_watcher v). i \<in> set acting \<or> core (snd (h args s)) = core s"
    by (simp add: ctl_watcher_def acting_def core_answers bound_core core_quiet
        ctl_fetch_pending_build_list_def ctl_fetch_available_builds_def fetch_build_test_result_def
        ctl_clean_build_def ctl_purge_build_def)
  with assms show ?thesis by (auto simp: after_signal_def dest!: map_of_SomeD split: option.splits)
qed

section \<open>What the acting handlers change\<close>

lemma core_fields:
  "core s' = core s \<Longrightarrow> service_paused s' = service_paused s \<and> can_be_stopped s' = can_be_stopped s \<and>
     build s' = build s \<and> build_info s' = build_info s \<and> high s' = high s \<and>
     rtc_handler s' = rtc_handler s \<and> created s' = created s \<and> rtc_commands s' = rtc_commands s"
  by (simp add: core_def)

lemma config_bcall [simp]: "bcall op s = (r, s') \<Longrightarrow> service_config s' = service_config s"
  by (auto simp: bcall_def split: prod.splits)

lemma config_baseline_info: "service_config (snd (baseline_test_info v s)) = service_config s"
  by (auto simp: baseline_test_info_def split: sum.splits json.splits prod.splits)

lemma core_baseline_info: "core (snd (baseline_test_info v s)) = core s"
  by (auto simp: baseline_test_info_def split: sum.splits json.splits prod.splits)

lemma core_report: "core (snd (report_status st s)) = core s"
  unfolding report_status_def by (auto simp: done_with_def intro: core_andthen)

text \<open>What every way of starting a test leaves alone.\<close>

definition commands :: "ctl \<Rightarrow> string list \<times> bool" where
  "commands s = (rtc_commands s, service_paused s)"

lemma commands_core: "core s' = core s \<Longrightarrow> commands s' = commands s"
  by (simp add: core_def commands_def)

lemma faulty_keeps: "commands (snd (faulty s)) = commands s \<and> created (snd (faulty s)) = created s"
  using core_report [of "''TEST_FAULTY''" s]
  by (auto simp: faulty_def andthen_def done_with_def clean_def commands_def core_def
      split: prod.splits sum.splits)

lemma report_keeps:
  "commands (snd (report_status st s)) = commands s \<and> created (snd (report_status st s)) = created s"
  using core_report [of st s] by (simp add: core_def commands_def)

definition starts :: "ctl \<Rightarrow> ctl \<Rightarrow> bool" where
  "starts s s' \<longleftrightarrow> commands s' = commands s \<and>
     (created s' = created s \<or> truthy (service_config s) \<and> created s' = Suc (created s))"

lemma startsI:
  "commands s' = commands s \<Longrightarrow> created s' = created s \<Longrightarrow> starts s s'"
  "commands s' = commands s \<Longrightarrow> truthy (service_config s) \<Longrightarrow> created s' = Suc (created s) \<Longrightarrow> starts s s'"
  by (simp_all add: starts_def)

lemma starts_trans:
  "starts s1 s' \<Longrightarrow> commands s1 = commands s \<Longrightarrow> created s1 = created s \<Longrightarrow>
     service_config s1 = service_config s \<Longrightarrow> starts s s'"
  by (simp add: starts_def)

lemma starts_launch: "starts s (snd (launch v s))"
proof -
  obtain r s1 where b: "baseline_test_info v s = (r, s1)" by fastforce
  with core_baseline_info [of v s] config_baseline_info [of v s]
  have s1: "commands s1 = commands s" "created s1 = created s" "service_config s1 = service_config s"
    by (simp_all add: core_def commands_def)
  have s2: "commands (new_handler s1) = commands s" "created (new_handler s1) = Suc (created s)"
    "commands (started v (new_handler s1)) = commands s" "created (started v (new_handler s1)) = Suc (created s)"
    using s1 by (simp_all add: commands_def new_handler_def started_def)
  show ?thesis
    using s1 s2
    by (simp add: launch_def b startsI faulty_keeps report_keeps split: sum.split)
qed

lemma starts_set_test: "starts (set_test jb ji jh s) s' \<Longrightarrow> starts s s'"
  by (simp add: starts_def set_test_def commands_def)

lemma starts_bcall: "bcall op s = (r, s1) \<Longrightarrow> starts s1 s' \<Longrightarrow> starts s s'"
  using core_bcall [of op s r s1] config_bcall [of op s r s1]
  by (simp add: starts_def core_def commands_def)

lemma starts_refl: "starts s s" "starts s (set_test jb ji jh s)" "starts s (s\<lparr>build_info := i\<rparr>)"
  by (simp_all add: starts_def set_test_def commands_def)

lemma starts_info: "starts (s\<lparr>build_info := i\<rparr>) s' \<Longrightarrow> starts s s'"
  by (simp add: starts_def commands_def)

lemma starts_launch_test:
  "starts s (snd (launch v (set_test jb ji jh s)))"
  "starts s (snd (launch v (set_test jb ji jh (s\<lparr>build_info := i\<rparr>))))"
  by (rule starts_set_test starts_info, rule starts_launch)
    (rule starts_info, rule starts_set_test, rule starts_launch)

lemma starts_start: "starts s (snd (start_hss_rtc_execution v b i hp s))"
proof (cases b)
  case None
  then show ?thesis
    by (auto simp: start_hss_rtc_execution_def done_with_def Let_def
        intro: starts_bcall starts_refl starts_launch_test split: option.split prod.split)
next
  case (Some n)
  then show ?thesis
    by (cases i) (auto simp: start_hss_rtc_execution_def done_with_def Let_def
        intro: starts_bcall starts_refl starts_launch_test split: prod.split sum.split)
qed

section \<open>What a signal does\<close>

lemma acting_signals:
  "after_signal v ''rtc_check_priority_list'' args s = snd (bound [] (\<lambda>_. check_priority_list v) args s)"
  "after_signal v ''rtc_set_test_to_faulty'' args s =
     snd (bound [(''build'', None)] (\<lambda>as. set_test_to_faulty (json_text (as ! 0))) args s)"
  "after_signal v ''rtc_priority_increase'' args s =
     snd (bound [(''build'', None), (''was_pending'', None)]
       (\<lambda>as. ctl_priority_increase (json_text (as ! 0)) (truthy (as ! 1))) args s)"
  "after_signal v ''test_tool_ready_for_new_build'' args s =
     snd (bound [(''build'', None)] (\<lambda>as. test_tool_ready_for_new_build (as ! 0)) args s)"
  "after_signal v ''test_tool_shutdown'' args s =
     snd (bound [(''build'', None), (''test_result'', None)] (\<lambda>as. test_tool_shutdown (as ! 0) (as ! 1)) args s)"
  "after_signal v ''cli_force_build'' args s =
     snd (bound [(''signal_answer'', None), (''build'', None), (''build_info'', Some JNull),
               (''test_suite'', Some JNull), (''high_priority'', Some (JBool False))]
          (\<lambda>as. force_build v (json_str (as ! 0)) (json_text (as ! 1)) (json_str (as ! 2)) (truthy (as ! 4))) args s)"
  "after_signal v ''cli_pause'' args s = snd (answer_only pause args s)"
  "after_signal v ''cli_resume'' args s = snd (answer_only resume args s)"
  by (simp_all add: after_signal_def ctl_watcher_def)

lemma boundI:
  "Q s \<Longrightarrow> (\<And>as. bind_args ps args [] = Some as \<Longrightarrow> Q (snd (f as s))) \<Longrightarrow> Q (snd (bound ps f args s))"
  by (simp add: bound_def split: option.split)

lemma two_args:
  assumes "bind_args [(p, None), (q, None)] args [] = Some as"
  shows "args = [as ! 0, as ! 1]"
proof (cases args)
  case 1: (Cons a rest)
  show ?thesis
  proof (cases rest)
    case 2: (Cons b rest')
    from assms show ?thesis by (cases rest') (auto simp: 1 2)
  qed (use assms 1 in auto)
qed (use assms in auto)

text \<open>A relation that holds of every handler's effect holds of every signal's.\<close>

lemma signal_induct [consumes 0, case_names refl quiet check faulty increase ready shutdown force pause resume]:
  assumes refl: "Q s"
    and quiet: "i \<notin> set acting \<Longrightarrow> Q (after_signal v i args s)"
    and check: "i = ''rtc_check_priority_list'' \<Longrightarrow> Q (snd (check_priority_list v s))"
    and faulty: "\<And>b. i = ''rtc_set_test_to_faulty'' \<Longrightarrow> Q (snd (set_test_to_faulty b s))"
    and increase: "\<And>b w. i = ''rtc_priority_increase'' \<Longrightarrow> Q (snd (ctl_priority_increase b w s))"
    and ready: "\<And>b. i = ''test_tool_ready_for_new_build'' \<Longrightarrow> Q (snd (test_tool_ready_for_new_build b s))"
    and shutdown: "\<And>b r. i = ''test_tool_shutdown'' \<Longrightarrow> args = [b, r] \<Longrightarrow> Q (snd (test_tool_shutdown b r s))"
    and force: "\<And>a b f hp. i = ''cli_force_build'' \<Longrightarrow> Q (snd (force_build v a b f hp s))"
    and pause: "\<And>a. i = ''cli_pause'' \<Longrightarrow> Q (snd (pause a s))"
    and resume: "\<And>a. i = ''cli_resume'' \<Longrightarrow> Q (snd (resume a s))"
  shows "Q (after_signal v i args s)"
proof -
  consider "i \<notin> set acting" | "i \<in> set acting" by blast
  then show ?thesis
  proof cases
    case 2
    then have "i = ''rtc_check_priority_list'' \<or> i = ''rtc_set_test_to_faulty'' \<or> i = ''rtc_priority_increase'' \<or> 
        i = ''test_tool_ready_for_new_build'' \<or> i = ''test_tool_shutdown'' \<or> i = ''cli_force_build'' \<or> i = ''cli_pause'' \<or> i = ''cli_resume''"
      by (simp only: acting_def list.set insert_iff empty_iff simp_thms)
    then show ?thesis
    proof (elim disjE)
      assume i: "i = ''rtc_check_priority_list''"
      show ?thesis unfolding i acting_signals by (rule boundI [of Q], rule refl, rule check [OF i])
    next
      assume i: "i = ''rtc_set_test_to_faulty''"
      show ?thesis unfolding i acting_signals by (rule boundI [of Q], rule refl, rule faulty [OF i])
    next
      assume i: "i = ''rtc_priority_increase''"
      show ?thesis unfolding i acting_signals by (rule boundI [of Q], rule refl, rule increase [OF i])
    next
      assume i: "i = ''test_tool_ready_for_new_build''"
      show ?thesis unfolding i acting_signals by (rule boundI [of Q], rule refl, rule ready [OF i])
    next
      assume i: "i = ''test_tool_shutdown''"
      show ?thesis unfolding i acting_signals by (rule boundI [of Q], rule refl, rule shutdown [OF i], erule two_args)
    next
      assume i: "i = ''cli_force_build''"
      show ?thesis unfolding i acting_signals by (rule boundI [of Q], rule refl, rule force [OF i])
    next
      assume i: "i = ''cli_pause''"
      show ?thesis unfolding i acting_signals answer_only_def by (rule boundI [of Q], rule refl, rule pause [OF i])
    next
      assume i: "i = ''cli_resume''"
      show ?thesis unfolding i acting_signals answer_only_def by (rule boundI [of Q], rule refl, rule resume [OF i])
    qed
  qed (rule quiet)
qed

text \<open>The effect of the acting handlers on the running test, field by field.\<close>

definition same_test :: "ctl \<Rightarrow> ctl \<Rightarrow> bool" where
  "same_test s s' \<longleftrightarrow> rtc_handler s' = rtc_handler s \<and> build s' = build s \<and> created s' = created s"

lemma same_test_core: "core s' = core s \<Longrightarrow> same_test s s'"
  by (simp add: core_def same_test_def)

lemma same_test_simps [simp]:
  "same_test s s" "same_test s (emits i a s') = same_test s s'"
  "same_test s (s'\<lparr>can_be_stopped := x\<rparr>) = same_test s s'" "same_test s (s'\<lparr>high := y\<rparr>) = same_test s s'"
  "same_test s (s'\<lparr>service_paused := z\<rparr>) = same_test s s'"
  "same_test s (s'\<lparr>service_config := c\<rparr>) = same_test s s'"
  "same_test s (send_rtc_command cmd s') = same_test s s'"
  by (auto simp: same_test_def emits_def send_rtc_command_def split: option.splits)

lemma same_test_bcall: "bcall op s1 = (r, s2) \<Longrightarrow> same_test s s2 = same_test s s1"
  using core_bcall [of op s1 r s2] by (simp add: core_def same_test_def)

lemma same_test_rtc_call: "rtc_call cmd s1 = (r, s2) \<Longrightarrow> same_test s s2 = same_test s s1"
  by (auto simp: rtc_call_def split: if_splits)

lemma same_test_andthen:
  "same_test s (snd p) \<Longrightarrow> (\<And>r s'. same_test s s' \<Longrightarrow> same_test s (snd (f r s'))) \<Longrightarrow>
     same_test s (snd (andthen p f))"
  by (auto simp: andthen_def split: prod.splits sum.splits)

lemma same_test_calls [simp]:
  "same_test s (snd (bcall op s')) = same_test s s'" "same_test s (snd (rtc_call cmd s')) = same_test s s'"
  by (metis prod.collapse same_test_bcall) (metis prod.collapse same_test_rtc_call)

lemma same_test_faulty: "same_test s (snd (set_test_to_faulty b s))"
  by (auto simp: set_test_to_faulty_def done_with_def intro!: same_test_andthen)

lemma same_test_increase: "same_test s (snd (ctl_priority_increase b w s))"
  by (auto simp: ctl_priority_increase_def done_with_def intro!: same_test_andthen)

lemma same_test_ready: "same_test s (snd (test_tool_ready_for_new_build b s))"
  by (auto simp: test_tool_ready_for_new_build_def done_with_def Let_def intro!: same_test_andthen)

lemma same_test_pause: "same_test s (snd (pause a s))"
  by (simp add: pause_def reply_def)

lemma same_test_reload: "same_test s (snd (reload_config s))"
  by (simp add: reload_config_def split: service_file.split)

lemma same_test_resume: "same_test s (snd (resume a s))"
proof -
  obtain t s1 where r: "reload_config s = (t, s1)" by fastforce
  obtain r s2 where "bcall RefreshDbm s1 = (r, s2)" by fastforce
  with same_test_reload [of s] r show ?thesis
    by (auto simp: resume_def reply_def same_test_bcall split: sum.split)
qed

text \<open>A shutdown of another build's test, and a check while a test runs, change nothing either.\<close>

lemma same_test_shutdown: "b \<noteq> opt_json (build s) \<Longrightarrow> same_test s (snd (test_tool_shutdown b r s))"
  using core_snd_bcall [of "AddBuildTestResult (json_text b) r" s]
  by (auto simp: test_tool_shutdown_def andthen_def done_with_def core_def same_test_def
      split: prod.splits sum.splits)

lemma shutdown_created: "created (snd (test_tool_shutdown b r s)) = created s"
  using core_snd_bcall [of "AddBuildTestResult (json_text b) r" s]
  by (auto simp: test_tool_shutdown_def andthen_def done_with_def core_def clean_def emits_def
      split: prod.splits sum.splits)

lemma ongoing_core: "core s' = core s \<Longrightarrow> ongoing_test s' = ongoing_test s"
  by (simp add: core_def ongoing_test_def)

lemma same_test_check:
  assumes "ongoing_test s"
  shows "same_test s (snd (check_priority_list v s))"
proof -
  obtain r s1 where b: "bcall IsThereBuildToTest s = (r, s1)" by fastforce
  with assms have "ongoing_test s1" "same_test s s1" using ongoing_core [OF core_bcall] same_test_bcall
    by auto
  with b show ?thesis
    by (simp add: check_priority_list_def done_with_def andthen_def split: sum.split)
qed

lemma same_test_force: "ongoing_test s \<Longrightarrow> same_test s (snd (force_build v a b f hp s))"
  by (simp add: force_build_def Let_def reply_def)

text \<open>While a test is ongoing, only the shutdown signal of its build takes it away.\<close>

lemma same_test_signal:
  assumes "ongoing_test s"
    and "\<And>r. i = ''test_tool_shutdown'' \<Longrightarrow> args = [opt_json (build s), r] \<Longrightarrow> False"
  shows "same_test s (after_signal v i args s)"
proof (rule signal_induct)
  show "same_test s (snd (test_tool_shutdown b r s))"
    if "i = ''test_tool_shutdown''" "args = [b, r]" for b r
    using that assms(2) same_test_shutdown by blast
qed (rule same_test_simps same_test_core [OF quiet_signal] same_test_faulty same_test_increase
  same_test_ready same_test_pause same_test_resume same_test_check [OF assms(1)]
  same_test_force [OF assms(1)], assumption?)+

text \<open>What a handler sends to the test tool: nothing without a connected test, and \<open>quit\<close> only under \<open>q\<close>.\<close>

definition tells :: "bool \<Rightarrow> ctl \<Rightarrow> ctl \<Rightarrow> bool" where
  "tells q s s' \<longleftrightarrow> (\<exists>cs. rtc_commands s' = rtc_commands s @ cs \<and>
     (cs \<noteq> [] \<longrightarrow> (\<exists>h. rtc_handler s = Some h \<and> node_up h)) \<and> (''quit'' \<in> set cs \<longrightarrow> q))"

lemma tells_same: "rtc_commands s' = rtc_commands s \<Longrightarrow> tells q s s'"
  by (simp add: tells_def)

lemma tells_core: "core s' = core s \<Longrightarrow> tells q s s'"
  by (simp add: core_def tells_same)

lemma tells_simps [simp]:
  "tells q s s" "tells q s (emits i a s') = tells q s s'"
  "tells q s (s'\<lparr>can_be_stopped := x\<rparr>) = tells q s s'" "tells q s (s'\<lparr>high := y\<rparr>) = tells q s s'"
  "tells q s (s'\<lparr>service_paused := z\<rparr>) = tells q s s'" "tells q s (clean s') = tells q s s'"
  "tells q s (s'\<lparr>service_config := c\<rparr>) = tells q s s'"
  by (auto simp: tells_def emits_def clean_def)

lemma tells_bcall [simp]: "tells q s (snd (bcall op s')) = tells q s s'"
  using core_snd_bcall [of op s'] by (simp add: core_def tells_def)

lemma tells_rtc:
  "rtc_commands s1 = rtc_commands s \<Longrightarrow> rtc_handler s1 = rtc_handler s \<Longrightarrow> (cmd = ''quit'' \<Longrightarrow> q) \<Longrightarrow>
     tells q s (snd (rtc_call cmd s1))"
  by (auto simp: rtc_call_def send_rtc_command_def tells_def split: option.splits)

lemma tells_andthen:
  "tells q s (snd p) \<Longrightarrow> (\<And>r s'. p = (Inr r, s') \<Longrightarrow> tells q s (snd (f r s'))) \<Longrightarrow>
     tells q s (snd (andthen p f))"
  by (auto simp: andthen_def split: prod.splits sum.splits)

lemma tells_rtc_then:
  "rtc_call cmd s = (r, s') \<Longrightarrow> cmd \<noteq> ''quit'' \<Longrightarrow> tells q s s'"
  using tells_rtc [of s s cmd q] by simp

lemma tells_check:
  "tells (ongoing_test s \<and> can_be_stopped s \<and> \<not> service_paused s) s (snd (check_priority_list v s))"
proof -
  obtain r s1 where b: "bcall IsThereBuildToTest s = (r, s1)" by fastforce
  from b have c: "core s1 = core s" by simp
  note f = core_fields [OF c] ongoing_core [OF c]
  have start: "tells q s (snd (start_hss_rtc_execution v None None False s1))" for q
    using starts_start [of s1 v None None False] f by (simp add: starts_def commands_def tells_same)
  show ?thesis
    using b f start
    by (auto simp: check_priority_list_def done_with_def andthen_def tells_core c
        intro!: tells_rtc split: sum.split)
qed

lemma tells_faulty: "tells False s (snd (set_test_to_faulty b s))"
proof -
  obtain r s1 where r: "rtc_call ''set test_execution_status DISCARDED'' s = (r, s1)" by fastforce
  then have 1: "tells False s s1" by (rule tells_rtc_then) simp
  obtain r2 s2 where u: "bcall (UpdateBuildStatus (name_of (build s1)) ''CANCELLED'') s1 = (r2, s2)" by fastforce
  with 1 tells_bcall [of False s "UpdateBuildStatus (name_of (build s1)) ''CANCELLED''" s1]
  have "tells False s s2" by simp
  with 1 r u show ?thesis
    by (simp add: set_test_to_faulty_def done_with_def andthen_def split: sum.split)
qed

lemma tells_increase: "tells False s (snd (ctl_priority_increase b w s))"
proof -
  obtain r s1 where r: "rtc_call ''set high_priority True'' s = (r, s1)" by fastforce
  then have "tells False s s1" by (rule tells_rtc_then) simp
  with r show ?thesis
    by (simp add: ctl_priority_increase_def done_with_def andthen_def split: sum.split)
qed

lemma tells_ready: "tells False s (snd (test_tool_ready_for_new_build b s))"
proof -
  obtain r s1 where b: "bcall IsThereBuildToTest (s\<lparr>can_be_stopped := True\<rparr>) = (r, s1)" by fastforce
  then have c: "core s1 = core (s\<lparr>can_be_stopped := True\<rparr>)" by simp
  show ?thesis
    using b core_fields [OF c]
    by (auto simp: test_tool_ready_for_new_build_def done_with_def andthen_def tells_same
        intro!: tells_rtc split: sum.split)
qed

lemma tells_shutdown: "tells False s (snd (test_tool_shutdown b r s))"
  using core_snd_bcall [of "AddBuildTestResult (json_text b) r" s]
  by (auto simp: test_tool_shutdown_def andthen_def done_with_def core_def
      intro!: tells_same split: prod.splits sum.splits)

lemma starts_told: "starts s1 s' \<Longrightarrow> core s1 = core s \<Longrightarrow> tells q s s'"
  by (simp add: starts_def commands_def core_def tells_same)

lemma starts_force: "starts s (snd (force_build v a b f hp s))"
proof -
  have start: "starts s (snd (andthen (bcall (PriorityDel b False) t)
      (\<lambda>_. start_hss_rtc_execution v (Some b) info hp)))" if "starts t' s'" "core t = core s"
      "service_config t = service_config s" for t t' s' info
  proof -
    obtain r t1 where t1: "bcall (PriorityDel b False) t = (r, t1)" by fastforce
    then have "core t1 = core s" "service_config t1 = service_config s" using that by simp_all
    with t1 starts_start [of t1 v "Some b" info hp] show ?thesis
      by (auto simp: andthen_def starts_def commands_def core_def split: sum.split)
  qed
  have emits_config: "service_config (emits i x t) = service_config t" for i x t by (simp add: emits_def)
  have refl: "starts s (emits i x t)" if "core t = core s" for i x t
    using that by (simp add: starts_def commands_def core_def emits_def)
  obtain r s1 where f: "bcall (FetchBuild b) s = (r, s1)" by fastforce
  then have s1: "core s1 = core s" "service_config s1 = service_config s" by simp_all
  show ?thesis
    using f s1 start [OF starts_refl(1)] refl refl [OF HOL.refl]
    by (simp add: force_build_def Let_def reply_def emits_config starts_refl
        split: option.split sum.split)
qed

lemma tells_force: "tells False s (snd (force_build v a b f hp s))"
  using starts_force by (rule starts_told) simp

lemma tells_pause: "tells False s (snd (pause a s))"
  by (simp add: pause_def reply_def)

lemma tells_resume: "tells False s (snd (resume a s))"
proof -
  obtain t s1 where r: "reload_config s = (t, s1)" by fastforce
  then have 1: "tells False s s1" by (auto simp: reload_config_def split: service_file.splits)
  obtain r2 s2 where b: "bcall RefreshDbm s1 = (r2, s2)" by fastforce
  then have "tells False s s2" using 1 tells_bcall [of False s RefreshDbm s1] by simp
  with r b show ?thesis by (simp add: resume_def reply_def split: sum.split)
qed

text \<open>Which signals create a test.\<close>

definition may_start :: "string \<Rightarrow> ctl \<Rightarrow> bool" where
  "may_start i s \<longleftrightarrow> \<not> ongoing_test s \<and> truthy (service_config s) \<and>
     (i = ''rtc_check_priority_list'' \<and> \<not> service_paused s \<and> (high s \<longrightarrow> can_be_stopped s) \<and>
        (\<exists>t. fst (bcall IsThereBuildToTest s) = Inr t \<and> truthy t)
      \<or> i = ''cli_force_build'' \<and> service_paused s)"

definition creates :: "string \<Rightarrow> ctl \<Rightarrow> ctl \<Rightarrow> bool" where
  "creates i s s' \<longleftrightarrow> created s' = created s \<or> (created s' = Suc (created s) \<and> may_start i s)"

lemma creates_same: "same_test s s' \<Longrightarrow> creates i s s'"
  by (simp add: creates_def same_test_def)

lemma creates_check: "creates ''rtc_check_priority_list'' s (snd (check_priority_list v s))"
proof -
  obtain r s1 where b: "bcall IsThereBuildToTest s = (r, s1)" by fastforce
  then have c: "core s1 = core s" "service_config s1 = service_config s" by simp_all
  note f = core_fields [OF c(1)] ongoing_core [OF c(1)] c(2)
  show ?thesis
  proof (cases "ongoing_test s")
    case True
    then show ?thesis by (intro creates_same same_test_check)
  next
    case False
    with b f starts_start [of s1 v None None False] show ?thesis
      by (auto simp: check_priority_list_def done_with_def andthen_def creates_def starts_def
          may_start_def split: sum.split)
  qed
qed

lemma creates_force: "creates ''cli_force_build'' s (snd (force_build v a b f hp s))"
proof -
  have "created (snd (force_build v a b f hp s)) = created s" if "\<not> (service_paused s \<and> \<not> ongoing_test s)"
    using that by (auto simp: force_build_def Let_def reply_def emits_def)
  with starts_force [of s v a b f hp] show ?thesis
    by (auto simp: creates_def starts_def may_start_def)
qed

lemma creates_signal: "creates i s (after_signal v i args s)"
proof (rule signal_induct)
  show "creates i s (snd (test_tool_shutdown b r s))" for b r
    by (simp add: creates_def shutdown_created)
  show "creates i s (snd (check_priority_list v s))" if "i = ''rtc_check_priority_list''"
    unfolding that by (rule creates_check)
  show "creates i s (snd (force_build v a b f hp s))" if "i = ''cli_force_build''" for a b f hp
    unfolding that by (rule creates_force)
qed (rule creates_same, rule same_test_simps same_test_core [OF quiet_signal] same_test_faulty
  same_test_increase same_test_ready same_test_pause same_test_resume, assumption?)+

lemma tells_weaken: "tells False s s' \<Longrightarrow> tells q s s'"
  by (auto simp: tells_def)

lemma tells_signal:
  "tells (i = ''rtc_check_priority_list'' \<and> ongoing_test s \<and> can_be_stopped s \<and> \<not> service_paused s)
     s (after_signal v i args s)"
proof (rule signal_induct)
  show "tells (i = ''rtc_check_priority_list'' \<and> ongoing_test s \<and> can_be_stopped s \<and> \<not> service_paused s)
    s (snd (check_priority_list v s))" if "i = ''rtc_check_priority_list''"
    using tells_check [of s v] that by simp
qed (rule tells_simps(1) tells_core [OF quiet_signal] tells_weaken [OF tells_faulty]
  tells_weaken [OF tells_increase] tells_weaken [OF tells_ready] tells_weaken [OF tells_shutdown]
  tells_weaken [OF tells_force] tells_weaken [OF tells_pause] tells_weaken [OF tells_resume], assumption?)+

section \<open>A test from start to end\<close>

text \<open>The next \<open>n\<close> sends to the build handler go through.\<close>

definition answers :: "nat \<Rightarrow> 's link \<Rightarrow> bool" where
  "answers n c \<longleftrightarrow> sender c \<and> (\<exists>ok. sends c = replicate n True @ ok)"

lemma answers_Suc: "answers (Suc n) c \<Longrightarrow> up c \<and> answers n (c\<lparr>sends := tl (sends c), svc := x\<rparr>)"
  by (auto simp: answers_def up_def)

lemma answers_less: "answers (Suc n) c \<Longrightarrow> answers n c"
  by (force simp: answers_def replicate_append_same [symmetric])

text \<open>A call over a working link: the answer of the build handler and its new state.\<close>

lemma bcall_answers:
  assumes "answers (Suc n) (bus s)"
  obtains c where "bcall op s = (relay_res (fst (bh_run op (svc (bus s)))), s\<lparr>bus := c\<rparr>)"
    and "svc c = snd (bh_run op (svc (bus s)))" and "answers n c"
  using answers_Suc [OF assms] by (auto simp: bcall_def bh_call_up)

lemma report_running:
  assumes "answers 1 (bus s)" and "\<not> service_paused s" and "build s = Some b"
  obtains c where "report_status st s = (Inr (), s\<lparr>bus := c\<rparr>)"
    and "svc c = snd (update_build_status b st (svc (bus s)))"
proof -
  from assms(1) have "answers (Suc 0) (bus s)" by simp
  then obtain c where c: "bcall (UpdateBuildStatus b st) s =
      (relay_res (fst (bh_run (UpdateBuildStatus b st) (svc (bus s)))), s\<lparr>bus := c\<rparr>)"
    "svc c = snd (bh_run (UpdateBuildStatus b st) (svc (bus s)))" by (rule bcall_answers)
  have "fst (update_build_status b st d) = Inr ()" for d
    by (simp add: update_build_status_def split: option.split)
  then have r: "fst (bh_run (UpdateBuildStatus b st) (svc (bus s))) = Inr JNull"
    by (auto simp: enc_def split: prod.splits)
  show ?thesis
    by (rule that [of c]) (use assms c r in \<open>simp_all add: report_status_def andthen_def done_with_def
      name_of_def relay_res_def enc_def split: prod.splits\<close>)
qed

text \<open>A running, idle controller whose next three or four calls get through.\<close>

definition idle_running :: "ctl \<Rightarrow> bool" where
  "idle_running s \<longleftrightarrow> \<not> service_paused s \<and> \<not> high s \<and> \<not> ongoing_test s \<and>
     truthy (service_config s) \<and> (\<exists>bl. baseline s = Inr bl) \<and> answers 4 (bus s)"

definition no_errors :: "env \<Rightarrow> bool" where
  "no_errors v \<longleftrightarrow> create_error v = None \<and> prepare_error v = None \<and> start_error v = None"

lemma baseline_info_answers:
  assumes "answers 2 (bus s)" and "baseline s = Inr bl"
  obtains i c where "baseline_test_info v s = (Inr i, s\<lparr>bus := c\<rparr>)" and "svc c = svc (bus s)"
    and "answers 1 c"
proof (cases "bl = JNull")
  case True
  with assms answers_less [of 1 "bus s"] that [of "JObj []" "bus s"] show ?thesis
    by (simp add: baseline_test_info_def numeral_2_eq_2)
next
  case False
  from assms(1) have "answers (Suc 1) (bus s)" by (simp add: numeral_2_eq_2)
  then obtain c where c: "bcall (FetchBaselineTestInfo (json_text bl)) s =
      (relay_res (fst (bh_run (FetchBaselineTestInfo (json_text bl)) (svc (bus s)))), s\<lparr>bus := c\<rparr>)"
    "svc c = snd (bh_run (FetchBaselineTestInfo (json_text bl)) (svc (bus s)))" "answers 1 c"
    by (rule bcall_answers)
  with False assms(2) that [of _ c] show ?thesis
    by (simp add: baseline_test_info_def)
qed

lemma launch_answers:
  assumes "answers 2 (bus s)" and "baseline s = Inr bl" and "truthy (service_config s)"
    and "\<not> service_paused s" and "build s = Some b"
  obtains t where "launch v s = (Inr (), t)"
    and "svc (bus t) = snd (update_build_status b
        (if no_errors v then ''TEST_ONGOING'' else ''TEST_FAULTY'') (svc (bus s)))"
    and "no_errors v \<longrightarrow> ongoing_test t \<and> build t = Some b \<and> build_info t = build_info s \<and>
        high t = high s \<and> \<not> can_be_stopped t"
    and "\<not> no_errors v \<longrightarrow> rtc_handler t = None \<and> build t = None \<and> \<not> high t"
proof -
  obtain i c1 where b: "baseline_test_info v s = (Inr i, s\<lparr>bus := c1\<rparr>)" "svc c1 = svc (bus s)" "answers 1 c1"
    using baseline_info_answers [OF assms(1,2)] .
  let ?s1 = "s\<lparr>bus := c1\<rparr>"
  let ?st = "if no_errors v then ''TEST_ONGOING'' else ''TEST_FAULTY''"
  define s2 where "s2 = (if create_error v \<noteq> None then ?s1
    else if prepare_error v \<noteq> None then new_handler ?s1 else started v (new_handler ?s1))"
  have s2: "bus s2 = c1" "\<not> service_paused s2" "build s2 = Some b"
    using assms by (simp_all add: s2_def new_handler_def started_def)
  have l: "launch v s = (if no_errors v then report_status ''TEST_ONGOING'' s2 else faulty s2)"
    using b(1) assms(3) by (simp add: launch_def s2_def no_errors_def)
  obtain c where c: "report_status ?st s2 = (Inr (), s2\<lparr>bus := c\<rparr>)"
    "svc c = snd (update_build_status b ?st (svc c1))"
    using report_running [OF _ s2(2,3)] b(3) s2(1) by metis
  show ?thesis
  proof (cases "no_errors v")
    case True
    then have e: "create_error v = None" "prepare_error v = None" "start_error v = None"
      by (simp_all add: no_errors_def)
    show ?thesis
      by (rule that [of "s2\<lparr>bus := c\<rparr>"])
        (use True l c b(2) s2 in \<open>simp_all add: s2_def e ongoing_test_def started_def new_handler_def\<close>)
  next
    case False
    show ?thesis
      by (rule that [of "clean (s2\<lparr>bus := c\<rparr>)"])
        (use False l c b(2) in \<open>simp_all add: faulty_def andthen_def done_with_def clean_def\<close>)
  qed
qed

lemma get_build_found:
  assumes "get_build d = (Inr (Some b, info, hp), d1)"
  shows "is_there_build_to_test d \<and> bh_run GetBuild d = (Inr (JList [JStr b, info, JBool hp]), d1)"
proof -
  have "fst (fst (find_next_build True d)) = fst (fst (find_next_build False d))"
    by (simp add: find_next_build_def split: option.split)
  with assms show ?thesis
    by (auto simp: get_build_def is_there_build_to_test_def enc_def Let_def
        split: prod.splits option.splits)
qed

lemma start_next_build:
  assumes "idle_running s" and "get_build (svc (bus s)) = (Inr (Some b, info, hp), d)" and "info \<noteq> JNull"
  obtains t where "check_priority_list v s = (Inr (), t)"
    and "svc (bus t) = snd (update_build_status b
        (if no_errors v then ''TEST_ONGOING'' else ''TEST_FAULTY'') d)"
    and "no_errors v \<longrightarrow> ongoing_test t \<and> build t = Some b \<and> build_info t = info \<and>
        high t = hp \<and> \<not> can_be_stopped t"
    and "\<not> no_errors v \<longrightarrow> rtc_handler t = None \<and> build t = None \<and> \<not> high t"
proof -
  obtain bl where i: "\<not> service_paused s" "\<not> high s" "\<not> ongoing_test s"
    "truthy (service_config s)" "baseline s = Inr bl" "answers (Suc 3) (bus s)"
    using assms(1) by (auto simp: idle_running_def numeral_eq_Suc)
  note g = get_build_found [OF assms(2)]
  obtain c1 where c1: "bcall IsThereBuildToTest s =
      (relay_res (fst (bh_run IsThereBuildToTest (svc (bus s)))), s\<lparr>bus := c1\<rparr>)"
    "svc c1 = svc (bus s)" "answers (Suc 2) c1"
    using bcall_answers [OF i(6), of IsThereBuildToTest] by (auto simp: numeral_eq_Suc)
  let ?s1 = "s\<lparr>bus := c1\<rparr>"
  from c1(3) have "answers (Suc 2) (bus ?s1)" by simp
  then obtain c2 where c2': "bcall GetBuild ?s1 =
      (relay_res (fst (bh_run GetBuild (svc (bus ?s1)))), ?s1\<lparr>bus := c2\<rparr>)"
    "svc c2 = snd (bh_run GetBuild (svc (bus ?s1)))" "answers 2 c2" by (rule bcall_answers)
  have "bh_run GetBuild (svc (bus ?s1)) = (Inr (JList [JStr b, info, JBool hp]), d)"
    using g c1(2) by (simp del: bh_run.simps)
  with c2' have c2: "bcall GetBuild ?s1 = (Inr (JList [JStr b, info, JBool hp]), ?s1\<lparr>bus := c2\<rparr>)"
    "svc c2 = d" "answers 2 c2" by (simp_all add: relay_res_def del: bh_run.simps)
  let ?s2 = "set_test (Some b) info hp (s\<lparr>bus := c2\<rparr>)"
  have check: "check_priority_list v s = launch v ?s2"
    using i(1-3) c1(1) c2(1) g assms(3)
    by (simp add: check_priority_list_def andthen_def relay_res_def ongoing_test_def
        start_hss_rtc_execution_def Let_def)
  have "answers 2 (bus ?s2)" "baseline ?s2 = Inr bl" "truthy (service_config ?s2)"
    "\<not> service_paused ?s2" "build ?s2 = Some b"
    using i c2(3) by (simp_all add: set_test_def baseline_def)
  note this' = this
  obtain t where t: "launch v ?s2 = (Inr (), t)"
    "svc (bus t) = snd (update_build_status b
        (if no_errors v then ''TEST_ONGOING'' else ''TEST_FAULTY'') (svc (bus ?s2)))"
    "no_errors v \<longrightarrow> ongoing_test t \<and> build t = Some b \<and> build_info t = build_info ?s2 \<and>
        high t = high ?s2 \<and> \<not> can_be_stopped t"
    "\<not> no_errors v \<longrightarrow> rtc_handler t = None \<and> build t = None \<and> \<not> high t"
    using launch_answers [OF this', of v] .
  have s2: "svc (bus ?s2) = d" "build_info ?s2 = info" "high ?s2 = hp"
    using c2(2) by (simp_all add: set_test_def)
  show ?thesis
    by (rule that [OF check [unfolded t(1)] t(2,3,4) [unfolded s2]])
qed

lemma get_build_record:
  "get_build d = (Inr (Some b, info, hp), d1) \<Longrightarrow>
     \<exists>r. map_of (db_build_info (mem d1)) b = Some r \<and> test_info r = info"
  by (auto simp: get_build_def Let_def split: prod.splits option.splits)

lemma shutdown_answers:
  assumes "answers 1 (bus s)" and "build s = Some b"
  obtains t where "test_tool_shutdown (JStr b) result s = (Inr (), t)"
    and "svc (bus t) = snd (add_build_test_result b result (svc (bus s)))"
    and "rtc_handler t = None \<and> build t = None \<and> \<not> high t"
    and "signals t = signals s @ [create_signal ''rtc_check_priority_list'' []]"
proof -
  from assms(1) have "answers (Suc 0) (bus s)" by simp
  then obtain c where c: "bcall (AddBuildTestResult b result) s =
      (relay_res (fst (bh_run (AddBuildTestResult b result) (svc (bus s)))), s\<lparr>bus := c\<rparr>)"
    "svc c = snd (bh_run (AddBuildTestResult b result) (svc (bus s)))" by (rule bcall_answers)
  have r: "enc_unit (add_build_test_result b result (svc (bus s))) =
      (Inr JNull, snd (add_build_test_result b result (svc (bus s))))"
    by (simp add: enc_def add_build_test_result_def split: option.split)
  show ?thesis
    by (rule that [of "emits ''rtc_check_priority_list'' [] (clean (s\<lparr>bus := c\<rparr>))"])
      (use c r assms(2) in \<open>simp_all add: test_tool_shutdown_def andthen_def relay_res_def done_with_def
        opt_json_def clean_def emits_def\<close>)
qed

section \<open>Properties\<close>

text \<open>C1: when a running, idle controller looks at the queue, it takes the next build of the
  build handler, starts its test and records it as \<open>TEST_ONGOING\<close>; when the test cannot be
  created, prepared or started it records \<open>TEST_FAULTY\<close> and is idle again. The shutdown of the
  test stores its result, turns \<open>TEST_ONGOING\<close> into \<open>TESTED\<close>, and has the queue looked at again.\<close>

theorem test_lifecycle:
  assumes "idle_running s" and "get_build (svc (bus s)) = (Inr (Some b, info, hp), d)" and "info \<noteq> JNull"
  obtains t r where "check_priority_list v s = (Inr (), t)"
    and "map_of (db_build_info (mem d)) b = Some r" and "priority (mem (svc (bus t))) = priority (mem d)"
    and "map_of (db_build_info (mem (svc (bus t)))) b =
      Some (r\<lparr>status := if no_errors v then ''TEST_ONGOING'' else ''TEST_FAULTY''\<rparr>)"
    and "ongoing_test t \<longleftrightarrow> no_errors v" and "build t = (if no_errors v then Some b else None)"
    and "\<And>u t'. no_errors v \<Longrightarrow> answers 1 (bus t) \<Longrightarrow> test_tool_shutdown (JStr b) result t = (u, t') \<Longrightarrow>
      \<not> ongoing_test t' \<and> build t' = None \<and>
      map_of (db_build_info (mem (svc (bus t')))) b =
        Some (r\<lparr>status := ''TESTED'', test_result := test_result r @ [result]\<rparr>) \<and>
      last (signals t') = create_signal ''rtc_check_priority_list'' []"
proof -
  let ?st = "if no_errors v then ''TEST_ONGOING'' else ''TEST_FAULTY''"
  obtain t where t: "check_priority_list v s = (Inr (), t)"
    "svc (bus t) = snd (update_build_status b ?st d)"
    "no_errors v \<longrightarrow> ongoing_test t \<and> build t = Some b \<and> build_info t = info \<and>
        high t = hp \<and> \<not> can_be_stopped t"
    "\<not> no_errors v \<longrightarrow> rtc_handler t = None \<and> build t = None \<and> \<not> high t"
    using start_next_build [OF assms] .
  obtain r where r: "map_of (db_build_info (mem d)) b = Some r"
    using get_build_record [OF assms(2)] by blast
  have svc: "svc (bus t) = update_db (set_status b ?st d)"
    using t(2) r by (simp add: update_build_status_def)
  then have rec: "map_of (db_build_info (mem (svc (bus t)))) b = Some (r\<lparr>status := ?st\<rparr>)"
    "priority (mem (svc (bus t))) = priority (mem d)"
    using r by (simp_all add: update_db_def set_status_def with_mem_def dict_simps)
  have fin: "\<not> ongoing_test t' \<and> build t' = None \<and>
      map_of (db_build_info (mem (svc (bus t')))) b =
        Some (r\<lparr>status := ''TESTED'', test_result := test_result r @ [result]\<rparr>) \<and>
      last (signals t') = create_signal ''rtc_check_priority_list'' []"
    if "no_errors v" "answers 1 (bus t)" "test_tool_shutdown (JStr b) result t = (u, t')" for u t'
  proof -
    from t(3) that(1) have "build t = Some b" by simp
    from shutdown_answers [OF that(2) this, of result] that(3)
    have t': "svc (bus t') = snd (add_build_test_result b result (svc (bus t)))"
      "rtc_handler t' = None" "build t' = None"
      "signals t' = signals t @ [create_signal ''rtc_check_priority_list'' []]"
      by auto
    with rec(1) that(1) show ?thesis
      by (simp add: ongoing_test_def add_build_test_result_def update_db_def with_mem_def dict_simps
          add_result_def)
  qed
  show thesis
    by (rule that [OF t(1) r rec(2,1) _ _ fin])
      (use t(3,4) in \<open>auto simp: ongoing_test_def\<close>)
qed

text \<open>A controller in front of \<open>sample\<close>, used by the witnesses.\<close>

definition demo_env :: env where
  "demo_env = \<lparr>is_newer = (\<lambda>_. False), py_repr = (\<lambda>_. []), json_file = (\<lambda>p. Inl (IOError p)),
     create_error = None, prepare_error = None, start_error = None\<rparr>"

definition demo :: ctl where
  "demo = (ctl_init (Config (JObj [(''service_parameters'', JObj [])]))
     \<lparr>sender = True, tries = [], sends = [True, True, True, True, True], svc = sample\<rparr>)
     \<lparr>service_paused := False\<rparr>"

lemma demo_idle: "idle_running demo"
  by (simp add: idle_running_def demo_def ctl_init_def ongoing_test_def baseline_def base_release_def
      answers_def numeral_eq_Suc)

lemma sample_get_build:
  "get_build sample = (Inr (Some ''HSS-1.9.3.6'', JObj [], True), snd (get_build sample))"
proof -
  have "fst (get_build sample) = Inr (Some ''HSS-1.9.3.6'', JObj [], True)" by code_simp
  then show ?thesis by (metis prod.collapse)
qed

theorem test_lifecycle_witness:
  "\<exists>t. check_priority_list demo_env demo = (Inr (), t) \<and> ongoing_test t \<and>
     build t = Some ''HSS-1.9.3.6''"
proof -
  have g: "get_build (svc (bus demo)) = (Inr (Some ''HSS-1.9.3.6'', JObj [], True), snd (get_build sample))"
    using sample_get_build by (simp add: demo_def ctl_init_def)
  have n: "no_errors demo_env" by (simp add: no_errors_def demo_env_def)
  show ?thesis
    by (rule test_lifecycle [OF demo_idle g, of demo_env]) (simp_all only: n if_True json.distinct simp_thms, blast)
qed

text \<open>C28: a signal starts at most one test, never while one is ongoing or without a
  configuration: the running service starts one when it checks the priority list and the
  build handler has a build, the paused one only when it is forced to.\<close>

theorem tests_start_when:
  assumes "created (snd (dispatch (ctl_watcher v) w s)) \<noteq> created s"
  shows "created (snd (dispatch (ctl_watcher v) w s)) = Suc (created s) \<and> \<not> ongoing_test s \<and>
    truthy (service_config s) \<and>
    (\<exists>i j. read_signal w = Inr (Some (i, j)) \<and>
      (i = ''rtc_check_priority_list'' \<and> \<not> service_paused s \<and> (high s \<longrightarrow> can_be_stopped s) \<and>
         (\<exists>t. fst (bcall IsThereBuildToTest s) = Inr t \<and> truthy t)
       \<or> i = ''cli_force_build'' \<and> service_paused s))"
proof -
  from dispatch_after [of v w s] assms obtain i j where "read_signal w = Inr (Some (i, j))"
    "snd (dispatch (ctl_watcher v) w s) = after_signal v i (json_list j) s" by auto
  with assms creates_signal [of i s v "json_list j"] show ?thesis
    unfolding creates_def may_start_def by auto
qed

theorem tests_start_when_witness:
  "created (snd (dispatch (ctl_watcher demo_env) (create_signal ''rtc_check_priority_list'' []) demo)) = 1 \<and>
    \<not> ongoing_test demo \<and> truthy (service_config demo)"
proof -
  have c: "created (snd (dispatch (ctl_watcher demo_env) (create_signal ''rtc_check_priority_list'' []) demo)) = 1"
    "created demo = 0" by code_simp+
  then have "created (snd (dispatch (ctl_watcher demo_env) (create_signal ''rtc_check_priority_list'' []) demo))
      \<noteq> created demo" by simp
  from tests_start_when [OF this] c(1) show ?thesis by blast
qed

text \<open>The test tool is told nothing when no test is connected, and it is told to quit only
  by the check of the priority list, in a running service whose ongoing test may be stopped.\<close>

theorem quit_only_when_stoppable:
  "\<exists>cs. rtc_commands (snd (dispatch (ctl_watcher v) w s)) = rtc_commands s @ cs \<and>
    (cs \<noteq> [] \<longrightarrow> (\<exists>h. rtc_handler s = Some h \<and> node_up h)) \<and>
    (''quit'' \<in> set cs \<longrightarrow> ongoing_test s \<and> can_be_stopped s \<and> \<not> service_paused s \<and>
      (\<exists>j. read_signal w = Inr (Some (''rtc_check_priority_list'', j))))"
proof -
  from dispatch_after [of v w s] consider "snd (dispatch (ctl_watcher v) w s) = s"
    | i j where "read_signal w = Inr (Some (i, j))"
      "snd (dispatch (ctl_watcher v) w s) = after_signal v i (json_list j) s" by auto
  then show ?thesis
  proof cases
    case 1
    then show ?thesis by (intro exI [of _ "[]"]) auto
  next
    case 2
    from tells_signal [of i s v "json_list j"] obtain cs where
      "rtc_commands (snd (dispatch (ctl_watcher v) w s)) = rtc_commands s @ cs"
      "cs \<noteq> [] \<longrightarrow> (\<exists>h. rtc_handler s = Some h \<and> node_up h)"
      "''quit'' \<in> set cs \<longrightarrow> i = ''rtc_check_priority_list'' \<and> ongoing_test s \<and> can_be_stopped s \<and>
        \<not> service_paused s"
      unfolding 2(2) tells_def by blast
    with 2(1) show ?thesis by (intro exI [of _ cs]) auto
  qed
qed

definition demo_stoppable :: ctl where
  "demo_stoppable = demo\<lparr>rtc_handler := Some \<lparr>ongoing = True, node_up = True, execution_info_error = None\<rparr>,
     build := Some ''HSS-1.9.3.5'', can_be_stopped := True\<rparr>"

theorem quit_only_when_stoppable_witness:
  "''quit'' \<in> set (rtc_commands (snd (dispatch (ctl_watcher demo_env)
      (create_signal ''rtc_check_priority_list'' []) demo_stoppable))) \<and>
    ongoing_test demo_stoppable \<and> can_be_stopped demo_stoppable"
proof -
  have "rtc_commands (snd (dispatch (ctl_watcher demo_env)
      (create_signal ''rtc_check_priority_list'' []) demo_stoppable)) = [''quit'']" by code_simp
  moreover have "rtc_commands demo_stoppable = []" by code_simp
  ultimately show ?thesis
    using quit_only_when_stoppable [of demo_env "create_signal ''rtc_check_priority_list'' []" demo_stoppable]
    by auto
qed

definition run_signals :: "env \<Rightarrow> wire list \<Rightarrow> ctl \<Rightarrow> ctl" where
  "run_signals v ws s = foldl (\<lambda>s w. snd (dispatch (ctl_watcher v) w s)) s ws"

text \<open>A test whose connection breaks stays \<open>ongoing\<close> for the controller although its node
  is released: until a shutdown signal for its build arrives, no signal at all starts
  another test or reaches the test tool, whatever the queue holds.\<close>

theorem lost_connection_blocks_tests:
  assumes "rtc_handler s = Some h" and "ongoing h" and "\<not> node_up h"
    and "\<forall>w \<in> set ws. \<forall>r. read_signal w \<noteq>
      Inr (Some (''test_tool_shutdown'', JList [opt_json (build s), r]))"
  shows "rtc_handler (run_signals v ws s) = Some h \<and> created (run_signals v ws s) = created s \<and>
    rtc_commands (run_signals v ws s) = rtc_commands s"
  using assms
proof (induction ws arbitrary: s)
  case (Cons w ws)
  let ?t = "snd (dispatch (ctl_watcher v) w s)"
  have og: "ongoing_test s" using Cons.prems(1,2) by (simp add: ongoing_test_def)
  have same: "same_test s ?t \<and> tells False s ?t"
  proof -
    from dispatch_after [of v w s] consider "?t = s"
      | i j where "read_signal w = Inr (Some (i, j))" "?t = after_signal v i (json_list j) s" by auto
    then show ?thesis
    proof cases
      case 2
      have "same_test s ?t" unfolding 2(2)
      proof (rule same_test_signal [OF og])
        fix r assume "i = ''test_tool_shutdown''" "json_list j = [opt_json (build s), r]"
        moreover from this(2) have "j = JList [opt_json (build s), r]" by (cases j) auto
        ultimately show False using Cons.prems(4) 2(1) by simp
      qed
      moreover have "tells False s ?t"
        using tells_signal [of i s v "json_list j"] Cons.prems(1,3) unfolding 2(2) tells_def by auto
      ultimately show ?thesis ..
    qed simp
  qed
  then have t: "rtc_handler ?t = Some h" "build ?t = build s" "created ?t = created s"
    "rtc_commands ?t = rtc_commands s"
    using Cons.prems(1,3) by (auto simp: same_test_def tells_def)
  have "rtc_handler (run_signals v ws ?t) = Some h \<and> created (run_signals v ws ?t) = created ?t \<and>
    rtc_commands (run_signals v ws ?t) = rtc_commands ?t"
    by (rule Cons.IH [OF t(1) Cons.prems(2,3)]) (use Cons.prems(4) t(2) in simp)
  with t show ?case by (simp add: run_signals_def)
qed (simp add: run_signals_def)


theorem lost_connection_blocks_tests_witness:
  "created (run_signals demo_env (replicate 9 (create_signal ''rtc_check_priority_list'' []))
     (demo\<lparr>rtc_handler := Some \<lparr>ongoing = True, node_up = False, execution_info_error = None\<rparr>,
        build := Some ''HSS-1.9.3.6''\<rparr>)) = 0"
proof -
  let ?s = "demo\<lparr>rtc_handler := Some \<lparr>ongoing = True, node_up = False, execution_info_error = None\<rparr>,
        build := Some ''HSS-1.9.3.6''\<rparr>"
  have "rtc_handler ?s = Some \<lparr>ongoing = True, node_up = False, execution_info_error = None\<rparr>" by simp
  from lost_connection_blocks_tests [OF this, of "replicate 9 (create_signal ''rtc_check_priority_list'' [])" demo_env]
  show ?thesis by (simp add: demo_def ctl_init_def)
qed

section \<open>Reachable states\<close>

text \<open>
  Between the signals, the thread of the test ends (it clears \<open>ongoing_test\<close> when the tool exits,
  leaves it when the connection breaks, and releases its node), and everything behind the link
  may change: other clients of the build handler, and the link itself.
\<close>

inductive ctl_reachable :: "ctl \<Rightarrow> bool" where
  init: "ctl_reachable (ctl_init f c)"
| signal: "ctl_reachable s \<Longrightarrow> ctl_reachable (snd (dispatch (ctl_watcher v) w s))"
| tool_exits: "ctl_reachable s \<Longrightarrow> rtc_handler s = Some h \<Longrightarrow>
    ctl_reachable (s\<lparr>rtc_handler := Some (h\<lparr>ongoing := False\<rparr>)\<rparr>)"
| node_released: "ctl_reachable s \<Longrightarrow> rtc_handler s = Some h \<Longrightarrow>
    ctl_reachable (s\<lparr>rtc_handler := Some (h\<lparr>node_up := False\<rparr>)\<rparr>)"
| elsewhere: "ctl_reachable s \<Longrightarrow> ctl_reachable (s\<lparr>bus := c\<rparr>)"
| shutdown: "ctl_reachable s \<Longrightarrow> ctl_reachable (stop s)"

definition test_named :: "ctl \<Rightarrow> bool" where
  "test_named s \<longleftrightarrow> (rtc_handler s \<noteq> None \<longrightarrow> build s \<noteq> None) \<and> (high s \<longrightarrow> build s \<noteq> None)"

lemma test_named_core: "core s' = core s \<Longrightarrow> test_named s' = test_named s"
  by (simp add: core_def test_named_def)

lemma test_named_simps [simp]:
  "test_named (emits i a s) = test_named s" "test_named (s\<lparr>can_be_stopped := x\<rparr>) = test_named s"
  "test_named (clean s)" "build s \<noteq> None \<Longrightarrow> test_named s"
  by (simp_all add: test_named_def emits_def clean_def)

text \<open>An answer of the build handler is the one it gives in the state it is in.\<close>

lemma bcall_answered:
  assumes "bcall op s = (Inr j, s')"
  shows "fst (bh_run op (svc (bus s))) = Inr j \<and> svc (bus s') = snd (bh_run op (svc (bus s)))"
proof -
  obtain name args kwargs where st: "stub op = (name, args, kwargs)" by (cases "stub op")
  obtain w x where p: "process_request bh_attrs (request_of name args kwargs) (svc (bus s)) = (w, x)"
    by fastforce
  then have a: "remote_result w = relay_res (fst (bh_run op (svc (bus s))))"
    "x = snd (bh_run op (svc (bus s)))"
    using stub_dispatch [OF st] remote_answer [of "bh_run op (svc (bus s))" w x] by auto
  obtain c where c: "remote bh_attrs name args kwargs (bus s) = (Inr j, c)" "s' = s\<lparr>bus := c\<rparr>"
    using assms by (auto simp: bcall_def bh_call_def st split: prod.splits)
  then have "remote_result w = Inr j \<and> svc c = x"
    using p by (auto simp: remote_def send_request_def Let_def split: prod.splits sum.splits if_splits
        list.splits bool.splits)
  with a c(2) show ?thesis by (auto simp: relay_res_def split: sum.splits)
qed

lemma faulty_named: "build s \<noteq> None \<Longrightarrow> test_named (snd (faulty s))"
  using core_report [of "''TEST_FAULTY''" s]
  by (auto simp: faulty_def andthen_def done_with_def core_def split: prod.splits sum.splits)

lemma report_named: "build s \<noteq> None \<Longrightarrow> test_named (snd (report_status st s))"
  using core_fields [OF core_report [of st s]] by simp

lemma launch_named:
  assumes "build s \<noteq> None"
  shows "test_named (snd (launch v s))"
proof -
  obtain r s1 where b: "baseline_test_info v s = (r, s1)" by fastforce
  with core_baseline_info [of v s] assms have "build s1 \<noteq> None" by (simp add: core_def)
  then have "build (new_handler s1) \<noteq> None" "build (started v (new_handler s1)) \<noteq> None" "build s1 \<noteq> None"
    by (simp_all add: new_handler_def started_def)
  then show ?thesis
    by (simp add: launch_def b faulty_named report_named split: sum.split)
qed

lemma is_there_found:
  assumes "is_there_build_to_test d" and "fst (get_build d) = Inr (b, i, hp)"
  shows "b \<noteq> None"
proof -
  have "fst (fst (find_next_build True d)) = fst (fst (find_next_build False d))"
    by (simp add: find_next_build_def split: option.split)
  with assms(1) obtain x where "fst (fst (find_next_build True d)) = Some x"
    by (auto simp: is_there_build_to_test_def)
  then obtain rc d1 where "find_next_build True d = ((Some x, rc), d1)" by (metis prod.collapse)
  with assms(2) show ?thesis by (auto simp: get_build_def Let_def split: option.splits)
qed

lemma start_named:
  assumes "test_named s" and "b = None \<Longrightarrow> is_there_build_to_test (svc (bus s))"
  shows "test_named (snd (start_hss_rtc_execution v b i hp s))"
proof (cases b)
  case (Some n)
  obtain r s1 where f: "bcall (FetchBuild n) s = (r, s1)" by fastforce
  with assms(1) have s1: "test_named s1" using test_named_core [OF core_bcall] by blast
  then have "test_named (s1\<lparr>build_info := j\<rparr>)" for j by (simp add: test_named_def)
  with Some f s1 show ?thesis
    by (auto simp: start_hss_rtc_execution_def set_test_def done_with_def Let_def intro!: launch_named
        split: option.split sum.split)
next
  case None
  obtain r s1 where g: "bcall GetBuild s = (r, s1)" by fastforce
  with assms(1) have s1: "test_named s1" using test_named_core [OF core_bcall] by blast
  have "\<exists>b'. json_str jb = Some b'" if "three_values r = Some (jb, ji, jh)" for jb ji jh
  proof -
    from that have r: "r = Inr (JList [jb, ji, jh])" by (cases r rule: three_values.cases) auto
    with g bcall_answered have "fst (bh_run GetBuild (svc (bus s))) = Inr (JList [jb, ji, jh])" by blast
    then obtain bb where "fst (get_build (svc (bus s))) = Inr (bb, ji, truthy jh)" "jb = enc_opt bb"
      by (auto simp: enc_def split: sum.splits)
    with is_there_found [OF assms(2) [OF None]] show ?thesis by (cases bb) auto
  qed
  with g None s1 show ?thesis
    by (auto simp: start_hss_rtc_execution_def Let_def done_with_def set_test_def
        intro!: launch_named split: option.split)
qed

lemma check_named: "test_named s \<Longrightarrow> test_named (snd (check_priority_list v s))"
proof -
  assume s: "test_named s"
  obtain r s1 where b: "bcall IsThereBuildToTest s = (r, s1)" by fastforce
  then have c: "core s1 = core s" by simp
  have s1: "test_named s1" using s test_named_core [OF c] by simp
  have rtc: "test_named (snd (rtc_call ''quit'' s1))"
    using s1 by (simp add: rtc_call_def send_rtc_command_def test_named_def split: option.split)
  have "test_named (snd (start_hss_rtc_execution v None None False s1))" if "r = Inr j" "truthy j" for j
    by (rule start_named [OF s1]) (use b that bcall_answered [of IsThereBuildToTest s j s1] in auto)
  with b s s1 rtc show ?thesis
    by (auto simp: check_priority_list_def done_with_def andthen_def split: sum.split)
qed

lemma force_named:
  assumes "test_named s"
  shows "test_named (snd (force_build v a b f hp s))"
proof -
  have go: "test_named (snd (andthen (bcall (PriorityDel b False) t)
      (\<lambda>_. start_hss_rtc_execution v (Some b) info hp)))" if "core t = core s" for t info
  proof -
    obtain r t1 where t1: "bcall (PriorityDel b False) t = (r, t1)" by fastforce
    then have "test_named t1" using assms that test_named_core core_bcall by metis
    with t1 show ?thesis by (auto simp: andthen_def intro: start_named split: sum.split)
  qed
  obtain r s1 where fetch: "bcall (FetchBuild b) s = (r, s1)" by fastforce
  then have s1: "core s1 = core s" by simp
  then have n: "test_named s1" using assms test_named_core by blast
  show ?thesis
  proof (cases "service_paused s \<and> truthy (service_config s) \<and> \<not> ongoing_test s")
    case False
    then show ?thesis using assms by (auto simp: force_build_def Let_def reply_def)
  next
    case True
    then have on: "service_paused s" "truthy (service_config s)" "\<not> ongoing_test s" by auto
    show ?thesis
    proof (cases f)
      case None
      show ?thesis
        by (cases a; cases r) (simp_all add: force_build_def Let_def reply_def on None fetch n go s1)
    next
      case (Some path)
      show ?thesis
        by (cases a; cases "json_file v path")
          (simp_all add: force_build_def Let_def reply_def on Some assms go)
    qed
  qed
qed

lemma test_named_calls [simp]:
  "test_named (snd (bcall op s)) = test_named s" "test_named (snd (rtc_call cmd s)) = test_named s"
  by (rule test_named_core, simp)
    (simp add: rtc_call_def send_rtc_command_def test_named_def split: option.split)

lemma named_andthen:
  "test_named (snd p) \<Longrightarrow> (\<And>r s'. test_named s' \<Longrightarrow> test_named (snd (f r s'))) \<Longrightarrow>
     test_named (snd (andthen p f))"
  by (auto simp: andthen_def split: prod.splits sum.splits)

lemma set_faulty_named: "test_named s \<Longrightarrow> test_named (snd (set_test_to_faulty b s))"
  by (simp add: set_test_to_faulty_def done_with_def named_andthen)

lemma increase_named: "test_named s \<Longrightarrow> test_named (snd (ctl_priority_increase b w s))"
proof -
  assume s: "test_named s"
  obtain r s1 where r: "rtc_call ''set high_priority True'' s = (r, s1)" by fastforce
  then have "build s1 = build s" "test_named s1" using s test_named_calls(2) [of _ s]
    by (auto simp: rtc_call_def send_rtc_command_def test_named_def split: if_splits option.splits)
  with r s show ?thesis
    by (auto simp: ctl_priority_increase_def done_with_def andthen_def split: sum.split)
qed

lemma ready_named: "test_named s \<Longrightarrow> test_named (snd (test_tool_ready_for_new_build b s))"
  by (simp add: test_tool_ready_for_new_build_def done_with_def Let_def named_andthen)

lemma shutdown_named: "test_named s \<Longrightarrow> test_named (snd (test_tool_shutdown b r s))"
  by (simp add: test_tool_shutdown_def done_with_def named_andthen)

lemma pause_named: "test_named s \<Longrightarrow> test_named (snd (pause a s))"
  by (simp add: pause_def reply_def test_named_def emits_def)

lemma resume_named: "test_named s \<Longrightarrow> test_named (snd (resume a s))"
proof -
  assume s: "test_named s"
  obtain t s1 where r: "reload_config s = (t, s1)" by fastforce
  then have 1: "test_named s1"
    using s by (auto simp: reload_config_def test_named_def emits_def split: service_file.splits)
  obtain r2 s2 where b: "bcall RefreshDbm s1 = (r2, s2)" by fastforce
  then have "test_named s2" using 1 test_named_calls(1) [of RefreshDbm s1] by simp
  with r b s show ?thesis by (simp add: resume_def reply_def split: sum.split)
qed

lemma signal_named:
  assumes "test_named s"
  shows "test_named (after_signal v i args s)"
  by (rule signal_induct) (rule assms test_named_core [OF quiet_signal, THEN iffD2]
    check_named [OF assms] set_faulty_named [OF assms] increase_named [OF assms]
    ready_named [OF assms] shutdown_named [OF assms] force_named [OF assms] pause_named [OF assms]
    resume_named [OF assms] | assumption)+

text \<open>In every reachable state a test has a build: a test handler or the high-priority mark
  never outlives the name of the build it belongs to.\<close>

theorem reachable_test_named:
  assumes "ctl_reachable s"
  shows "(rtc_handler s \<noteq> None \<longrightarrow> build s \<noteq> None) \<and> (high s \<longrightarrow> build s \<noteq> None)"
proof -
  from assms have "test_named s"
  proof induction
    case (signal s v w)
    with dispatch_after [of v w s] signal_named show ?case by metis
  next
    case (shutdown s)
    then show ?case
      by (simp add: stop_def Let_def send_rtc_command_def test_named_def split: option.split)
  qed (simp_all add: test_named_def ctl_init_def)
  then show ?thesis by (simp add: test_named_def)
qed

definition demo_tested :: ctl where
  "demo_tested =
     snd (dispatch (ctl_watcher demo_env) (create_signal ''rtc_check_priority_list'' [])
       (snd (dispatch (ctl_watcher demo_env) (create_signal ''cli_resume'' [JStr ''x''])
         (ctl_init (Config (JObj [(''service_parameters'', JObj [])])) (bus demo)))))"

theorem reachable_test_named_witness:
  "high demo_tested \<and> rtc_handler demo_tested \<noteq> None \<and> build demo_tested \<noteq> None"
proof -
  have "ctl_reachable demo_tested"
    unfolding demo_tested_def by (intro ctl_reachable.signal ctl_reachable.init)
  from reachable_test_named [OF this] have "high demo_tested \<longrightarrow> build demo_tested \<noteq> None" by blast
  moreover have "high demo_tested \<and> rtc_handler demo_tested \<noteq> None" by code_simp
  ultimately show ?thesis by blast
qed

end
