(* ===== verification/Gateway.thy ===== *)
theory Gateway
  imports Dbus_Services
begin

text \<open>
  \<open>dbus/rtc_gateway/gateway/service.py\<close>: the TCP front end. A line received is decoded, its
  trigger is translated into actions, and the actions run against the build handler or emit
  D-Bus signals. The module globals are fields of the state; sockets are a parameter. The
  trigger name and the build of a message are strings, as every sender in the repository
  writes them.
\<close>

section \<open>State and configuration\<close>

datatype cfg_file = CfgMissing | CfgBad | Cfg json

record gw =
  tcp_port :: nat
  trigger_translator :: "(string, string list) dict"
  forward_to :: "string list"
  cfg :: cfg_file
  emitted :: "wire list"
  forwarded :: "(string \<times> wire) list"
  client :: "bh link"

definition emit :: "string \<Rightarrow> json list \<Rightarrow> gw \<Rightarrow> gw" where
  "emit signal args g = g\<lparr>emitted := emitted g @ [create_signal signal args]\<rparr>"

definition call :: "bh_op \<Rightarrow> gw \<Rightarrow> json res \<times> gw" where
  "call op g = (case bh_call op (client g) of (r, c) \<Rightarrow> (r, g\<lparr>client := c\<rparr>))"

definition string_list :: "json \<Rightarrow> string list" where
  "string_list v = map json_text (json_list v)"

definition triggers_of :: "json \<Rightarrow> (string, string list) dict" where
  "triggers_of v = map (\<lambda>(k, a). (k, string_list a)) (json_dict v)"

definition triggers_json :: "(string, string list) dict \<Rightarrow> json" where
  "triggers_json t = JObj (map (\<lambda>(k, a). (k, JList (map JStr a))) t)"

definition save_config :: "gw \<Rightarrow> gw" where
  "save_config g = g\<lparr>cfg := Cfg (JObj [(''trigger_translator'', triggers_json (trigger_translator g)),
                                      (''tcp_port'', JInt (int (tcp_port g)))])\<rparr>"

text \<open>
  \<open>Handler.__init__\<close>. \<open>TCP_PORT\<close> is not declared \<open>global\<close> there, so the configured port is read
  into a local variable and the module's 10000 stays in force.
\<close>

definition gw_init :: "cfg_file \<Rightarrow> bh link \<Rightarrow> gw res" where
  "gw_init file c =
     (let g = \<lparr>tcp_port = 10000, trigger_translator = [], forward_to = [], cfg = file,
               emitted = [], forwarded = [], client = c\<rparr>
      in case file of
           CfgMissing \<Rightarrow> Inr (save_config g)
         | CfgBad \<Rightarrow> Inl (ValueError ''No JSON object could be decoded'')
         | Cfg data \<Rightarrow>
             (case json_get data ''tcp_port'' of
                Inl e \<Rightarrow> Inl e
              | Inr _ \<Rightarrow>
                  (case json_get data ''trigger_translator'' of
                     Inl e \<Rightarrow> Inl e
                   | Inr t \<Rightarrow>
                       Inr (g\<lparr>trigger_translator := triggers_of t,
                              forward_to := string_list (dict_get ''forward_to'' (JList []) (json_dict data))\<rparr>))))"

section \<open>Actions\<close>

text \<open>\<open>info[0]\<close>\<close>

fun first_arg :: "json \<Rightarrow> json res" where
  "first_arg (JList []) = Inl (IndexError ''list index out of range'')"
| "first_arg (JList (x # xs)) = Inr x"
| "first_arg (JStr []) = Inl (IndexError ''string index out of range'')"
| "first_arg (JStr (c # cs)) = Inr (JStr [c])"
| "first_arg (JObj d) = Inl (KeyError ''0'')"
| "first_arg v = Inl (TypeError ''object has no attribute __getitem__'')"

fun is_dict :: "json \<Rightarrow> bool" where
  "is_dict (JObj d) = True"
| "is_dict _ = False"

text \<open>The common part of \<open>build_info_add\<close> and \<open>build_info_update\<close>.\<close>

definition with_test_info :: "json \<Rightarrow> (json \<Rightarrow> gw \<Rightarrow> json res \<times> gw) \<Rightarrow> gw \<Rightarrow> json res \<times> gw" where
  "with_test_info info f g =
     (case first_arg info of
        Inl e \<Rightarrow> (Inl e, g)
      | Inr i \<Rightarrow> if is_dict i then f i g else (Inl (AssertionError []), g))"

definition gw_build_info_add :: "string \<Rightarrow> json \<Rightarrow> gw \<Rightarrow> json res \<times> gw" where
  "gw_build_info_add build info = with_test_info info (\<lambda>i. call (BuildInfoAdd build i))"

definition gw_build_info_update :: "string \<Rightarrow> json \<Rightarrow> gw \<Rightarrow> json res \<times> gw" where
  "gw_build_info_update build info = with_test_info info (\<lambda>i. call (BuildInfoUpdate build i))"

definition release_info_purge :: "string \<Rightarrow> json \<Rightarrow> gw \<Rightarrow> json res \<times> gw" where
  "release_info_purge build info g =
     (case call (GetRelease build) g of
        (Inl e, g1) \<Rightarrow> (Inl e, g1)
      | (Inr r, g1) \<Rightarrow> call (CleanBuild (json_text r) []) g1)"

definition project_info_purge :: "string \<Rightarrow> json \<Rightarrow> gw \<Rightarrow> json res \<times> gw" where
  "project_info_purge build info g =
     (case call (GetProject build) g of
        (Inl e, g1) \<Rightarrow> (Inl e, g1)
      | (Inr p, g1) \<Rightarrow> call (CleanBuild (json_text p) build) g1)"

definition gw_check_priority_list :: "string \<Rightarrow> json \<Rightarrow> gw \<Rightarrow> json res \<times> gw" where
  "gw_check_priority_list build info g = (Inr JNull, emit ''rtc_check_priority_list'' [] g)"

definition gw_set_test_to_faulty :: "string \<Rightarrow> json \<Rightarrow> gw \<Rightarrow> json res \<times> gw" where
  "gw_set_test_to_faulty build info g = (Inr JNull, emit ''rtc_set_test_to_faulty'' [JStr build] g)"

definition gw_priority_add :: "string \<Rightarrow> json \<Rightarrow> gw \<Rightarrow> json res \<times> gw" where
  "gw_priority_add build info g = call (PriorityAdd build) g"

definition gw_priority_del :: "string \<Rightarrow> json \<Rightarrow> gw \<Rightarrow> json res \<times> gw" where
  "gw_priority_del build info g = call (PriorityDel build True) g"

definition gw_priority_increase :: "string \<Rightarrow> json \<Rightarrow> gw \<Rightarrow> json res \<times> gw" where
  "gw_priority_increase build info g =
     (case call (PriorityIncrease build) g of
        (Inl e, g1) \<Rightarrow> (Inl e, g1)
      | (Inr was_pending, g1) \<Rightarrow>
          (Inr JNull, emit ''rtc_priority_increase'' [JStr build, was_pending] g1))"

definition gw_baseline_add :: "string \<Rightarrow> json \<Rightarrow> gw \<Rightarrow> json res \<times> gw" where
  "gw_baseline_add build info g = call (BaselineAdd build) g"

text \<open>The dispatcher as \<open>__init__\<close> fills it.\<close>

definition actions :: "(string, string \<Rightarrow> json \<Rightarrow> gw \<Rightarrow> json res \<times> gw) dict" where
  "actions =
     [(''build_info_add'', gw_build_info_add), (''build_info_update'', gw_build_info_update),
      (''release_info_purge'', release_info_purge), (''project_info_purge'', project_info_purge),
      (''check_priority_list'', gw_check_priority_list),
      (''set_test_to_faulty'', gw_set_test_to_faulty), (''priority_add'', gw_priority_add),
      (''priority_del'', gw_priority_del), (''priority_increase'', gw_priority_increase),
      (''baseline_add'', gw_baseline_add)]"

definition action_names :: string where
  "action_names = join '' '' (dict_keys actions)"

section \<open>Handling a connection\<close>

datatype request = Request
  (trigger: string) (req_build: string) (req_args: json) (request_answer: bool)

text \<open>
  \<open>decode\<close>: a text that does not decode and a missing key are \<open>InvalidTcpMessage\<close>; indexing a
  decoded value that is no dictionary raises \<open>TypeError\<close>, which nothing catches.
\<close>

definition decode :: "wire \<Rightarrow> request res" where
  "decode w =
     (case w of
        Garbage t \<Rightarrow> Inl (InvalidTcpMessage (''Cannot decode message '' @ t))
      | Wire v \<Rightarrow>
          (case json_get v ''op'' of
             Inl (KeyError k) \<Rightarrow> Inl (InvalidTcpMessage (''Error extracting '' @ k))
           | Inl e \<Rightarrow> Inl e
           | Inr op \<Rightarrow>
               (case json_get v ''build'' of
                  Inl (KeyError k) \<Rightarrow> Inl (InvalidTcpMessage (''Error extracting '' @ k))
                | Inl e \<Rightarrow> Inl e
                | Inr b \<Rightarrow>
                    Inr (Request (json_text op) (json_text b)
                      (dict_get ''args'' (JList []) (json_dict v))
                      (truthy (dict_get ''request_answer'' (JBool False) (json_dict v)))))))"

datatype socket_outcome = CreateFails | ConnectFails | SendFails | Delivered

definition gw_forward :: "(string \<Rightarrow> socket_outcome) \<Rightarrow> wire \<Rightarrow> gw \<Rightarrow> gw" where
  "gw_forward net message g =
     g\<lparr>forwarded := forwarded g @
        map (\<lambda>h. (h, message)) (filter (\<lambda>h. net h = Delivered) (forward_to g))\<rparr>"

definition failure :: "string \<Rightarrow> py_exc \<Rightarrow> string" where
  "failure action e = ''FAILED. Error handling action '' @ action @ '': '' @ exc_str e"

text \<open>The loop over the actions: the first failure ends it and becomes the answer.\<close>

fun run_actions :: "string list \<Rightarrow> string \<Rightarrow> json \<Rightarrow> gw \<Rightarrow> string option \<times> gw" where
  "run_actions [] build args g = (None, g)"
| "run_actions (a # as) build args g =
     (case map_of actions a of
        None \<Rightarrow> (Some (failure a (KeyError a)), g)
      | Some f \<Rightarrow>
          (case f build args g of
             (Inl e, g') \<Rightarrow> (Some (failure a e), g')
           | (Inr _, g') \<Rightarrow> run_actions as build args g'))"

definition actions_for :: "string \<Rightarrow> gw \<Rightarrow> string list" where
  "actions_for trig g = (case map_of (trigger_translator g) trig of None \<Rightarrow> [] | Some as \<Rightarrow> as)"

text \<open>One turn of the loop for a decoded message: the answer text and the new state.\<close>

definition serve_request :: "request \<Rightarrow> gw \<Rightarrow> string \<times> gw" where
  "serve_request r g =
     (let as = actions_for (trigger r) g
      in if as = [] then
           (''WARNING. No actions for the received trigger \"'' @ trigger r @ ''\"'', g)
         else case find (\<lambda>a. a \<notin> set (dict_keys actions)) as of
           Some a \<Rightarrow>
             (''FAILED. Configured action '' @ a @ '' not in allowed values: '' @ action_names, g)
         | None \<Rightarrow>
             (case run_actions as (req_build r) (req_args r) g of
                (None, g') \<Rightarrow>
                  (''OK. The following actions have been executed '' @ join '' '' as, g')
              | (Some problem, g') \<Rightarrow> (problem, g')))"

text \<open>
  \<open>handle\<close> over the lines of a connection, up to its end or an empty line; the result holds the answers written and whether
  an uncaught exception ended the connection early.
\<close>

fun handle :: "(string \<Rightarrow> socket_outcome) \<Rightarrow> wire list \<Rightarrow> gw \<Rightarrow> (string list \<times> bool) \<times> gw" where
  "handle net [] g = (([], False), g)"
| "handle net (w # ws) g =
     (if w = Garbage [] then (([], False), g)
      else case decode w of
        Inl (InvalidTcpMessage m) \<Rightarrow> handle net ws g
      | Inl e \<Rightarrow> (([], True), g)
      | Inr r \<Rightarrow>
          (case serve_request r (if forward_to g = [] then g else gw_forward net w g) of
             (answer, g') \<Rightarrow>
               (case handle net ws g' of
                  ((as, aborted), g'') \<Rightarrow>
                    ((if request_answer r then answer # as else as, aborted), g''))))"

section \<open>The command line's signals\<close>

text \<open>
  \<open>update_trigger\<close>: an action that is not allowed is answered with a warning, but the loop goes
  on and the actions are stored all the same.
\<close>

definition update_trigger :: "string \<Rightarrow> string \<Rightarrow> string \<Rightarrow> string list \<Rightarrow> gw \<Rightarrow> gw" where
  "update_trigger signal_answer operation trig as g =
     (if operation = ''update'' then
        let g1 = foldl (\<lambda>g a. if a \<in> set (dict_keys actions) then g
               else emit signal_answer
                 [JStr (a @ '' is not in allowed actions: '' @ action_names)] g) g as;
            g2 = save_config (g1\<lparr>trigger_translator := dict_set trig as (trigger_translator g1)\<rparr>)
        in emit signal_answer [JStr ''EXECUTED''] g2
      else if operation = ''delete'' then
        (if trig \<in> set (dict_keys (trigger_translator g)) then
           emit signal_answer [JStr ''EXECUTED'']
             (save_config (g\<lparr>trigger_translator := dict_del trig (trigger_translator g)\<rparr>))
         else emit signal_answer [JStr (''Trigger not valid. Allowed values are: '' @
                join '' | '' (dict_keys (trigger_translator g)))] g)
      else emit signal_answer [JStr ''Operation not valid. Allowd values are: update | delete''] g)"

definition fetch_trigger :: "string \<Rightarrow> gw \<Rightarrow> gw" where
  "fetch_trigger signal_answer g =
     emit signal_answer
       [JStr (''Available actions: '' @
          concat (map (\<lambda>a. [CHR 0x0A, CHR 0x09] @ a) (sort (dict_keys actions))) @
          [CHR 0x0A] @ ''Available triggers: '' @
          concat (map (\<lambda>(k, as). [CHR 0x0A, CHR 0x09] @ k @ '':   '' @ [CHR 0x0A, CHR 0x09, CHR 0x09] @
            join [CHR 0x0A, CHR 0x09, CHR 0x09] as) (trigger_translator g)) @ [CHR 0x0A])] g"

definition fetch_tcp_port :: "string \<Rightarrow> gw \<Rightarrow> gw" where
  "fetch_tcp_port signal_answer g = emit signal_answer [JStr (str_of_nat (tcp_port g))] g"

section \<open>Lemmas\<close>

lemma call_up:
  "up (client g) \<Longrightarrow> call op g =
     (relay_res (fst (bh_run op (svc (client g)))),
      g\<lparr>client := (client g)\<lparr>sends := tl (sends (client g)), svc := snd (bh_run op (svc (client g)))\<rparr>\<rparr>)"
  by (simp add: call_def bh_call_up)

lemma emit_client [simp]: "client (emit s a g) = client g" "trigger_translator (emit s a g) = trigger_translator g"
  "forward_to (emit s a g) = forward_to g" "tcp_port (emit s a g) = tcp_port g"
  "emitted (emit s a g) = emitted g @ [create_signal s a]" "cfg (emit s a g) = cfg g"
  by (simp_all add: emit_def)

lemma find_none: "find P xs = None \<longleftrightarrow> (\<forall>x \<in> set xs. \<not> P x)"
  by (induction xs) auto

lemma run_actions_append:
  "run_actions (as @ bs) build args g =
     (case run_actions as build args g of
        (Some m, g') \<Rightarrow> (Some m, g')
      | (None, g') \<Rightarrow> run_actions bs build args g')"
  by (induction as arbitrary: g) (auto split: option.splits prod.splits sum.splits)

lemma foldl_warn:
  "trigger_translator (foldl (\<lambda>g a. if P a then g else emit s (f a) g) g as) = trigger_translator g"
  "forward_to (foldl (\<lambda>g a. if P a then g else emit s (f a) g) g as) = forward_to g"
  "tcp_port (foldl (\<lambda>g a. if P a then g else emit s (f a) g) g as) = tcp_port g"
  "client (foldl (\<lambda>g a. if P a then g else emit s (f a) g) g as) = client g"
  by (induction as arbitrary: g) auto

lemma handle_skip:
  "w \<noteq> Garbage [] \<Longrightarrow> decode w = Inl (InvalidTcpMessage m) \<Longrightarrow> handle net (w # ws) g = handle net ws g"
  by simp

end
