(* ===== verification/Gateway_Props.thy ===== *)
theory Gateway_Props
  imports Gateway Build_Props
begin

text \<open>
  What the gateway guarantees: how a trigger is turned into actions and an answer, what a new
  build leaves in the build handler, which builds a purge takes, and what of the configuration
  survives a restart.
\<close>

section \<open>Actions of a trigger\<close>

definition perform :: "string \<Rightarrow> string \<Rightarrow> json \<Rightarrow> gw \<Rightarrow> json res \<times> gw" where
  "perform a build args g =
     (case map_of actions a of None \<Rightarrow> (Inl (KeyError a), g) | Some f \<Rightarrow> f build args g)"

definition performed :: "string list \<Rightarrow> string \<Rightarrow> json \<Rightarrow> gw \<Rightarrow> gw" where
  "performed as build args g = foldl (\<lambda>g a. snd (perform a build args g)) g as"

definition succeeds :: "string list \<Rightarrow> string \<Rightarrow> json \<Rightarrow> gw \<Rightarrow> bool" where
  "succeeds as build args g \<longleftrightarrow>
     (\<forall>n < length as. \<exists>v. fst (perform (as ! n) build args (performed (take n as) build args g)) = Inr v)"

lemma succeeds_Cons:
  "succeeds (a # as) build args g \<longleftrightarrow>
     (\<exists>v. fst (perform a build args g) = Inr v) \<and> succeeds as build args (snd (perform a build args g))"
  by (auto simp: succeeds_def performed_def less_Suc_eq_0_disj)

lemma run_actions_Cons:
  "run_actions (a # as) build args g =
     (case perform a build args g of
        (Inl e, g') \<Rightarrow> (Some (failure a e), g')
      | (Inr _, g') \<Rightarrow> run_actions as build args g')"
  by (simp add: perform_def split: option.split)

declare run_actions.simps(2) [simp del]

lemma run_actions_spec:
  "(run_actions as build args g = (None, performed as build args g) \<and> succeeds as build args g) \<or>
   (\<exists>n e. n < length as \<and> succeeds (take n as) build args g \<and>
      fst (perform (as ! n) build args (performed (take n as) build args g)) = Inl e \<and>
      run_actions as build args g =
        (Some (failure (as ! n) e),
         performed (take (Suc n) as) build args g))"
proof (induction as arbitrary: g)
  case (Cons a as)
  obtain r g1 where p: "perform a build args g = (r, g1)" by fastforce
  show ?case
  proof (cases r)
    case (Inl e)
    have "run_actions (a # as) build args g =
        (Some (failure a e), g1)"
      unfolding run_actions_Cons by (simp add: p Inl)
    then show ?thesis
      using p Inl by (intro disjI2 exI [of _ 0] exI [of _ e]) (simp add: succeeds_def performed_def)
  next
    case (Inr v)
    have r: "run_actions (a # as) build args g = run_actions as build args g1"
      unfolding run_actions_Cons by (simp add: p Inr)
    have s: "performed (a # bs) build args g = performed bs build args g1"
      "succeeds (a # bs) build args g = succeeds bs build args g1" for bs
      using p Inr by (simp_all add: performed_def succeeds_Cons)
    from Cons.IH [of g1] show ?thesis
    proof (elim disjE exE conjE)
      fix n e assume "n < length as" "succeeds (take n as) build args g1"
        "fst (perform (as ! n) build args (performed (take n as) build args g1)) = Inl e"
        "run_actions as build args g1 =
          (Some (failure (as ! n) e),
           performed (take (Suc n) as) build args g1)"
      then show ?thesis by (intro disjI2 exI [of _ "Suc n"] exI [of _ e]) (simp add: r s)
    qed (simp add: r s)
  qed
qed (simp add: performed_def succeeds_def)

text \<open>A trigger without actions, or with one that is not in the dispatcher, changes nothing.
  Otherwise its actions run in the configured order up to the first that fails, whose exception
  is the answer; the answer \<open>OK\<close> means that all of them succeeded.\<close>

theorem actions_in_order:
  assumes "serve_request r g = (answer, g')" and "actions_for (trigger r) g = as"
  shows "if as = [] \<or> \<not> set as \<subseteq> set (dict_keys actions) then g' = g
    else (answer = ''OK. The following actions have been executed '' @ join '' '' as \<and>
          succeeds as (req_build r) (req_args r) g \<and> g' = performed as (req_build r) (req_args r) g)
      \<or> (\<exists>n e. n < length as \<and> succeeds (take n as) (req_build r) (req_args r) g \<and>
          fst (perform (as ! n) (req_build r) (req_args r)
            (performed (take n as) (req_build r) (req_args r) g)) = Inl e \<and>
          answer = failure (as ! n) e \<and>
          g' = performed (take (Suc n) as) (req_build r) (req_args r) g)"
proof (cases "as = [] \<or> \<not> set as \<subseteq> set (dict_keys actions)")
  case True
  have "g' = g"
  proof (cases "as = []")
    case True
    then show ?thesis using assms by (simp add: serve_request_def)
  next
    case False
    with True have "find (\<lambda>a. a \<notin> set (dict_keys actions)) as \<noteq> None" by (auto simp: find_none)
    then obtain a where "find (\<lambda>a. a \<notin> set (dict_keys actions)) as = Some a" by blast
    with False assms show ?thesis by (simp add: serve_request_def)
  qed
  with True show ?thesis by simp
next
  case False
  then have "find (\<lambda>a. a \<notin> set (dict_keys actions)) as = None" by (auto simp: find_none)
  with False assms have "serve_request r g = (case run_actions as (req_build r) (req_args r) g of
      (None, g') \<Rightarrow> (''OK. The following actions have been executed '' @ join '' '' as, g')
    | (Some problem, g') \<Rightarrow> (problem, g'))"
    by (simp add: serve_request_def Let_def)
  with run_actions_spec [of as "req_build r" "req_args r" g] assms(1) False show ?thesis by auto
qed

text \<open>A gateway with the triggers of the comment in the source, used by the witnesses.\<close>

definition demo_gw :: "bool list \<Rightarrow> gw" where
  "demo_gw ok = \<lparr>tcp_port = 10000,
     trigger_translator =
       [(''new_build'', [''build_info_add'', ''priority_add'', ''check_priority_list'']),
        (''faulty_build'', [''priority_del'', ''set_test_to_faulty'']),
        (''promote_release'', [''priority_increase''])],
     forward_to = [], cfg = CfgMissing, emitted = [], forwarded = [],
     client = \<lparr>sender = True, tries = [], sends = ok, svc = sample\<rparr>\<rparr>"

theorem actions_in_order_witness:
  "serve_request (Request ''other'' ''HSS-1.2.3.4'' (JList []) True) (demo_gw []) =
     (''WARNING. No actions for the received trigger \"other\"'', demo_gw [])"
proof -
  let ?r = "Request ''other'' ''HSS-1.2.3.4'' (JList []) True"
  have none: "actions_for (trigger ?r) (demo_gw []) = []" by (simp add: actions_for_def demo_gw_def)
  obtain answer g' where p: "serve_request ?r (demo_gw []) = (answer, g')" by fastforce
  from actions_in_order [OF p none] have "g' = demo_gw []" by simp
  with p none show ?thesis by (simp add: serve_request_def)
qed

section \<open>Connections\<close>

fun stops :: "wire \<Rightarrow> bool" where
  "stops w = (w = Garbage [] \<or> (\<exists>e. decode w = Inl e \<and> (\<forall>m. e \<noteq> InvalidTcpMessage m)))"

fun wants_answer :: "wire \<Rightarrow> bool" where
  "wants_answer w = (case decode w of Inl _ \<Rightarrow> False | Inr r \<Rightarrow> request_answer r)"

text \<open>A connection is served line by line up to its end, an empty line or a line that makes
  \<open>decode\<close> raise what it does not declare: each line before that which asks for an answer gets
  exactly one, in order, and lines that do not decode are skipped.\<close>

theorem one_answer_per_request:
  "length (fst (fst (handle net ws g))) = length (filter wants_answer (takeWhile (\<lambda>w. \<not> stops w) ws)) \<and>
   (snd (fst (handle net ws g)) \<longleftrightarrow>
     (\<exists>w rest. dropWhile (\<lambda>w. \<not> stops w) ws = w # rest \<and> w \<noteq> Garbage []))"
proof (induction ws arbitrary: g)
  case (Cons w ws)
  show ?case
  proof (cases "stops w")
    case True
    then show ?thesis by (auto split: py_exc.splits)
  next
    case False
    then have w: "w \<noteq> Garbage []" by simp
    show ?thesis
    proof (cases "decode w")
      case (Inl e)
      with False obtain m where m: "decode w = Inl (InvalidTcpMessage m)" by auto
      with Cons.IH [of g] False show ?thesis
        by (simp only: handle_skip [OF w m]) (simp add: m)
    next
      case (Inr r)
      obtain answer g' where g': "serve_request r (if forward_to g = [] then g else gw_forward net w g) = (answer, g')"
        by fastforce
      obtain as ab g'' where h: "handle net ws g' = ((as, ab), g'')" by (metis prod.collapse)
      have "handle net (w # ws) g = ((if request_answer r then answer # as else as, ab), g'')"
        using w Inr g' h by simp
      with Cons.IH [of g'] False Inr h show ?thesis by (simp del: stops.simps)
    qed
  qed
qed simp

section \<open>A new build\<close>

lemma add_new_build:
  assumes "map_of (db_build_info (mem s)) b = None"
  shows "fst (build_info_add b info s) = Inr True"
    and "map_of (db_build_info (mem (snd (build_info_add b info s)))) b =
      Some \<lparr>test_info = info, test_result = [], status = ''NOT_TESTED''\<rparr>"
    and "priority (mem (snd (build_info_add b info s))) = priority (mem s)"
  using assms by (auto simp: build_info_add_def map_of_none_keys update_db_def with_mem_def dict_simps)

lemma queue_new_build:
  assumes "map_of (db_build_info (mem s)) b = Some r" and "distinct (dict_keys (priority (mem s)))"
    and "b \<notin> set (pending_of (mem s) (get_project b))"
  shows "fst (priority_add b s) = Inr True"
    and "db_build_info (mem (snd (priority_add b s))) = db_build_info (mem s)"
    and "pending_of (mem (snd (priority_add b s))) (get_project b) =
      pending_of (mem s) (get_project b) @ [b]"
    and "db_file (snd (priority_add b s)) = DbFile (mem (snd (priority_add b s)))"
proof -
  have in_db: "b \<in> set (dict_keys (db_build_info (mem s)))" using assms(1) by (rule map_of_in_keys)
  then show "fst (priority_add b s) = Inr True"
    "db_build_info (mem (snd (priority_add b s))) = db_build_info (mem s)"
    "db_file (snd (priority_add b s)) = DbFile (mem (snd (priority_add b s)))"
    by (auto simp: priority_add_def Let_def update_db_def clean_priority_def set_prio_def with_mem_def
        split: option.split)
  define e where "e = (case map_of (priority (mem s)) (get_project b) of
      None \<Rightarrow> \<lparr>pending = [b], high_priority = None\<rparr> | Some e \<Rightarrow> e\<lparr>pending := pending e @ [b]\<rparr>)"
  have e: "pending e = pending_of (mem s) (get_project b) @ [b]"
    by (simp add: e_def pending_of_def split: option.split)
  have "snd (priority_add b s) = update_db (clean_priority (set_prio (get_project b) e s))"
    using in_db assms(3) by (simp add: priority_add_def Let_def e_def pending_of_def split: option.split)
  moreover have "map_of (filter (\<lambda>(k, e). \<not> idle e) (dict_set (get_project b) e (priority (mem s)))) (get_project b) = Some e"
    using assms(2) e by (subst map_of_filter) (simp_all add: distinct_keys_set update_conv' idle_def)
  ultimately show "pending_of (mem (snd (priority_add b s))) (get_project b) =
      pending_of (mem s) (get_project b) @ [b]"
    using e by (simp add: update_db_def clean_priority_def set_prio_def with_mem_def pending_of_def)
qed

text \<open>C6: the trigger of a new build, with the actions the source names for it, records the build
  as \<open>NOT_TESTED\<close> with its test information, queues it last in its project, and asks the
  controller to check the priority list; the answer says so.\<close>

theorem new_build_is_queued:
  assumes "trigger_translator g = triggers"
    and "map_of triggers t = Some [''build_info_add'', ''priority_add'', ''check_priority_list'']"
    and "sender (client g)" and "sends (client g) = True # True # ok"
    and "map_of (db_build_info (mem (svc (client g)))) b = None"
    and "pending_of (mem (svc (client g))) (get_project b) = ps" and "b \<notin> set ps"
    and "wf_db (mem (svc (client g)))"
  obtains g' where "serve_request (Request t b (JList (JObj info # xs)) ans) g =
      (''OK. The following actions have been executed build_info_add priority_add check_priority_list'', g')"
    and "map_of (db_build_info (mem (svc (client g')))) b =
      Some \<lparr>test_info = JObj info, test_result = [], status = ''NOT_TESTED''\<rparr>"
    and "pending_of (mem (svc (client g'))) (get_project b) = ps @ [b]"
    and "emitted g' = emitted g @ [create_signal ''rtc_check_priority_list'' []]"
    and "db_file (svc (client g')) = DbFile (mem (svc (client g')))"
proof -
  let ?s0 = "svc (client g)"
  let ?s1 = "snd (build_info_add b (JObj info) ?s0)"
  let ?s2 = "snd (priority_add b ?s1)"
  let ?g1 = "g\<lparr>client := (client g)\<lparr>sends := True # ok, svc := ?s1\<rparr>\<rparr>"
  let ?g2 = "g\<lparr>client := (client g)\<lparr>sends := ok, svc := ?s2\<rparr>\<rparr>"
  let ?g' = "emit ''rtc_check_priority_list'' [] ?g2"
  note s1 = add_new_build [OF assms(5), of "JObj info"]
  have pend: "pending_of (mem ?s1) (get_project b) = ps"
    using s1(3) assms(6) by (simp add: pending_of_def)
  have "distinct (dict_keys (priority (mem ?s1)))" using assms(8) s1(3) by (simp add: wf_db_def)
  note s2 = queue_new_build [OF s1(2) this, unfolded pend, OF assms(7)]
  have up0: "up (client g)" using assms(3,4) by (simp add: up_def)
  have up1: "up (client ?g1)" using assms(3) by (simp add: up_def)
  have r1: "gw_build_info_add b (JList (JObj info # xs)) g = (Inr (JBool True), ?g1)"
    using s1(1) assms(4) call_up [OF up0, of "BuildInfoAdd b (JObj info)"]
    by (simp add: gw_build_info_add_def with_test_info_def enc_def relay_res_def del: enc_Inr)
  have r2: "gw_priority_add b (JList (JObj info # xs)) ?g1 = (Inr (JBool True), ?g2)"
    using s2(1) call_up [OF up1, of "PriorityAdd b"]
    by (simp add: gw_priority_add_def enc_def relay_res_def del: enc_Inr)
  have acts: "actions_for t g = [''build_info_add'', ''priority_add'', ''check_priority_list'']"
    using assms(1,2) by (simp add: actions_for_def)
  have run: "run_actions [''build_info_add'', ''priority_add'', ''check_priority_list''] b
      (JList (JObj info # xs)) g = (None, ?g')"
    using r1 r2
    by (simp add: run_actions_Cons perform_def actions_def gw_check_priority_list_def)
  have "serve_request (Request t b (JList (JObj info # xs)) ans) g =
      (''OK. The following actions have been executed build_info_add priority_add check_priority_list'', ?g')"
    by (simp add: serve_request_def acts run) (simp add: actions_def)
  then show thesis
    by (rule that) (use s1 s2 in simp_all)
qed

theorem new_build_is_queued_witness:
  "\<exists>g'. fst (serve_request (Request ''new_build'' ''HSS-1.10.2.3'' (JList [JObj []]) True) (demo_gw [True, True])) =
     ''OK. The following actions have been executed build_info_add priority_add check_priority_list'' \<and>
     snd (serve_request (Request ''new_build'' ''HSS-1.10.2.3'' (JList [JObj []]) True) (demo_gw [True, True])) = g' \<and>
     pending_of (mem (svc (client g'))) ''HSS-1.10.2'' = [''HSS-1.10.2.1'', ''HSS-1.10.2.2'', ''HSS-1.10.2.3'']"
proof -
  have p: "get_project ''HSS-1.10.2.3'' = ''HSS-1.10.2''" by (simp add: get_project_def)
  have w: "wf_db (mem (svc (client (demo_gw [True, True]))))"
    by (simp add: demo_gw_def wf_db_def sample_def prio_ok_def get_project_def statuses_def)
  show ?thesis
  proof (rule new_build_is_queued [of "demo_gw [True, True]" "trigger_translator (demo_gw [True, True])"
        "''new_build''" "[]" "''HSS-1.10.2.3''" "[''HSS-1.10.2.1'', ''HSS-1.10.2.2'']" "[]" "[]" True])
    fix g' assume "serve_request (Request ''new_build'' ''HSS-1.10.2.3'' (JList [JObj []]) True) (demo_gw [True, True]) =
       (''OK. The following actions have been executed build_info_add priority_add check_priority_list'', g')"
      "pending_of (mem (svc (client g'))) (get_project ''HSS-1.10.2.3'') =
        [''HSS-1.10.2.1'', ''HSS-1.10.2.2''] @ [''HSS-1.10.2.3'']"
    then show ?thesis by (simp add: p)
  qed (simp_all add: w, simp_all add: demo_gw_def sample_def pending_of_def p)
qed

section \<open>Purging a release\<close>

text \<open>The purge of a build's release removes every record whose name starts with the name of
  the release and that is neither under test nor a baseline. The build that triggered it is
  such a record too, and so are the builds of a release whose name merely extends it, as
  \<open>HSS-1.20\<close> extends \<open>HSS-1.2\<close>.\<close>

theorem release_purge_takes:
  assumes "sender (client g)" and "sends (client g) = True # True # ok"
    and "wf_db (mem (svc (client g)))" and "baselines (mem (svc (client g))) = Some bs"
  obtains v g' where "release_info_purge build args g = (Inr v, g')"
    and "map_of (db_build_info (mem (svc (client g')))) =
      (\<lambda>b. Option.bind (map_of (db_build_info (mem (svc (client g)))) b)
             (cleaned (get_release build) [] (dict_values bs) b))"
    and "\<forall>r. map_of (db_build_info (mem (svc (client g)))) build = Some r \<and> build \<noteq> [] \<and>
        status r \<noteq> ''TEST_ONGOING'' \<and> build \<notin> set (dict_values bs) \<longrightarrow>
      map_of (db_build_info (mem (svc (client g')))) build = None"
proof -
  let ?s = "svc (client g)"
  let ?g1 = "g\<lparr>client := (client g)\<lparr>sends := True # ok\<rparr>\<rparr>"
  obtain m t where t: "clean_build (get_release build) [] ?s = (Inr m, t)"
    "map_of (db_build_info (mem t)) =
       (\<lambda>b. Option.bind (map_of (db_build_info (mem ?s)) b) (cleaned (get_release build) [] (dict_values bs) b))"
    using clean_build_effect [OF assms(3,4)] .
  have up0: "up (client g)" and up1: "up (client ?g1)" using assms(1,2) by (simp_all add: up_def)
  let ?g' = "g\<lparr>client := (client g)\<lparr>sends := ok, svc := t\<rparr>\<rparr>"
  have c1: "call (GetRelease build) g = (Inr (JStr (get_release build)), ?g1)"
    using call_up [OF up0] assms(2) by (simp add: relay_res_def)
  have "bh_run (CleanBuild (get_release build) []) (svc (client ?g1)) = (Inr (JStr m), t)"
    using t(1) by (simp add: enc_def)
  with call_up [OF up1, of "CleanBuild (get_release build) []"]
  have c2: "call (CleanBuild (get_release build) []) ?g1 = (Inr (JStr m), ?g')"
    by (simp add: relay_res_def del: bh_run.simps)
  have pre: "startswith build (get_release build)"
  proof -
    have "join ''.'' (take n ps) = take (length (join ''.'' (take n ps))) (join ''.'' ps)" for n and ps :: "string list"
    proof (induction ps arbitrary: n)
      case (Cons p ps)
      show ?case
      proof (cases n)
        case (Suc k)
        with Cons.IH [of k] show ?thesis
          by (cases ps; cases k) (auto simp: str_simps)
      qed simp
    qed simp
    from this [of 2 "split_on (CHR ''.'') build"] show ?thesis
      by (simp add: startswith_def get_release_def str_simps)
  qed
  show thesis
    by (rule that [of "JStr m" ?g'])
      (use t(2) pre c1 c2 in \<open>auto simp: release_info_purge_def cleaned_def\<close>)
qed

theorem release_purge_takes_witness:
  "map_of (db_build_info (mem (svc (client (snd (release_info_purge ''HSS-1.1.9.9'' JNull (demo_gw [True, True]))))))) ''HSS-1.10.2.1'' = None \<and>
   get_release ''HSS-1.10.2.1'' = ''HSS-1.10'' \<and>
   map_of (db_build_info (mem (svc (client (demo_gw [True, True]))))) ''HSS-1.10.2.1'' \<noteq> None"
proof -
  have w: "wf_db (mem (svc (client (demo_gw [True, True]))))"
    by (simp add: demo_gw_def wf_db_def sample_def prio_ok_def get_project_def statuses_def)
  have "map_of (db_build_info (mem (svc (client (snd (release_info_purge ''HSS-1.1.9.9'' JNull (demo_gw [True, True]))))))) ''HSS-1.10.2.1'' = None"
  proof (rule release_purge_takes [of "demo_gw [True, True]" "[]" "[(''1.9'', ''HSS-1.9.3.7'')]" "''HSS-1.1.9.9''" JNull])
    fix v g' assume "release_info_purge ''HSS-1.1.9.9'' JNull (demo_gw [True, True]) = (Inr v, g')"
      and m: "map_of (db_build_info (mem (svc (client g')))) =
        (\<lambda>b. Option.bind (map_of (db_build_info (mem (svc (client (demo_gw [True, True]))))) b)
          (cleaned (get_release ''HSS-1.1.9.9'') [] (dict_values [(''1.9'', ''HSS-1.9.3.7'')]) b))"
    then show ?thesis
      by (simp only: snd_conv m) (simp add: demo_gw_def sample_def get_release_def cleaned_def startswith_def)
  qed (simp_all add: w, simp_all add: demo_gw_def sample_def)
  then show ?thesis by (simp add: get_release_def demo_gw_def sample_def)
qed

section \<open>Configuration\<close>

lemma triggers_round_trip: "triggers_of (triggers_json t) = t"
proof -
  have "string_list (JList (map JStr xs)) = xs" for xs
    by (induction xs) (simp_all add: string_list_def)
  then show ?thesis by (induction t) (auto simp: triggers_of_def triggers_json_def)
qed

lemma init_saved:
  "gw_init (cfg (save_config g)) c =
     Inr \<lparr>tcp_port = 10000, trigger_translator = trigger_translator g, forward_to = [],
          cfg = cfg (save_config g), emitted = [], forwarded = [], client = c\<rparr>"
  using triggers_round_trip [of "trigger_translator g"]
  by (simp add: gw_init_def save_config_def dict_get_def string_list_def Let_def)

text \<open>An update of a trigger is saved and is in force after a restart, allowed or not: every
  later message with a trigger whose actions are not all in the dispatcher is refused. The
  hosts to forward to and a configured port do not survive the save.\<close>

theorem updated_trigger_after_restart:
  assumes "gw_init (cfg (update_trigger a ''update'' t as g)) c = Inr h"
  shows "actions_for t h = as \<and>
    (\<forall>t'. t' \<noteq> t \<longrightarrow> actions_for t' h = actions_for t' g) \<and>
    forward_to h = [] \<and> tcp_port h = 10000 \<and>
    (\<not> set as \<subseteq> set (dict_keys actions) \<longrightarrow> (\<forall>b args r. snd (serve_request (Request t b args r) h) = h))"
proof -
  let ?g1 = "foldl (\<lambda>g x. if x \<in> set (dict_keys actions) then g
      else emit a [JStr (x @ '' is not in allowed actions: '' @ action_names)] g) g as"
  have "cfg (update_trigger a ''update'' t as g) =
      cfg (save_config (?g1\<lparr>trigger_translator := dict_set t as (trigger_translator ?g1)\<rparr>))"
    by (simp add: update_trigger_def Let_def)
  with assms have h: "trigger_translator h = dict_set t as (trigger_translator g)" "forward_to h = []"
    "tcp_port h = 10000"
    by (auto simp: init_saved foldl_warn)
  then have acts: "actions_for t h = as" "t' \<noteq> t \<Longrightarrow> actions_for t' h = actions_for t' g" for t'
    by (simp_all add: actions_for_def dict_simps)
  have "snd (serve_request (Request t b args r) h) = h" if n: "\<not> set as \<subseteq> set (dict_keys actions)" for b args r
  proof -
    from n have "find (\<lambda>a. a \<notin> set (dict_keys actions)) as \<noteq> None" by (auto simp: find_none)
    then obtain x where x: "find (\<lambda>a. a \<notin> set (dict_keys actions)) as = Some x" by blast
    show ?thesis by (cases "as = []") (simp_all add: serve_request_def acts x [simplified])
  qed
  with acts h show ?thesis by blast
qed

theorem updated_trigger_after_restart_witness:
  "\<exists>h. gw_init (cfg (update_trigger ''x'' ''update'' ''new_build'' [''reboot''] (demo_gw []))) (client (demo_gw [])) = Inr h \<and>
     snd (serve_request (Request ''new_build'' ''HSS-1.2.3.4'' JNull True) h) = h"
proof -
  have "\<exists>h. gw_init (cfg (update_trigger ''x'' ''update'' ''new_build'' [''reboot''] (demo_gw []))) (client (demo_gw [])) = Inr h"
    by (simp add: update_trigger_def Let_def init_saved)
  then obtain h where h: "gw_init (cfg (update_trigger ''x'' ''update'' ''new_build'' [''reboot''] (demo_gw []))) (client (demo_gw [])) = Inr h" ..
  have "\<not> set [''reboot''] \<subseteq> set (dict_keys actions)" by (simp add: actions_def)
  with updated_trigger_after_restart [OF h] h show ?thesis by blast
qed

end
