(* ===== verification/Rtc_Handler.thy ===== *)
theory Rtc_Handler
  imports Controller
begin

text \<open>
  \<open>dbus/rtc_controller/controller/rtc_handler.py\<close>: one execution of the test tool. The handler
  reads the service configuration, collects macros, prepares the node with a sequence of shell
  commands and runs the tool. The node is a parameter: the answer to a command is a function of
  the commands run before it, and so is the stream of what \<open>expect\<close> matches.
\<close>

section \<open>State\<close>

type_synonym answer = "string list"

record host =
  node :: "string list \<Rightarrow> string \<Rightarrow> (answer \<times> nat) res"
  env_info :: "answer res"
  now :: string
  pid :: string

record rtc =
  test_build :: string
  build_data :: json
  urgent :: bool
  service :: json
  base_data :: json
  working_dir :: string
  macro :: "(string, string option) dict"
  suite :: string
  git_path :: string
  folder_to_create :: "string list"
  result_dir :: string
  output_dir :: "string option"
  to_pack :: "string list"
  history :: "string list"

definition res_bind :: "'a res \<Rightarrow> ('a \<Rightarrow> 'b res) \<Rightarrow> 'b res" where
  "res_bind r f = (case r of Inl e \<Rightarrow> Inl e | Inr v \<Rightarrow> f v)"

text \<open>A macro value that is no string is kept, and fails when it is substituted.\<close>

definition add_to_macro :: "string \<Rightarrow> string option \<Rightarrow> rtc \<Rightarrow> rtc" where
  "add_to_macro key v s = s\<lparr>macro := dict_set key v (macro s)\<rparr>"

definition substitute :: "string res \<Rightarrow> string \<times> string option \<Rightarrow> string res" where
  "substitute r kv = res_bind r (\<lambda>text.
     case snd kv of
       None \<Rightarrow> Inl (TypeError ''expected a character buffer object'')
     | Some v \<Rightarrow> Inr (str_replace text (fst kv) v))"

definition macro_translator :: "string \<Rightarrow> rtc \<Rightarrow> string res" where
  "macro_translator text s = foldl substitute (Inr text) (macro s)"

section \<open>Reading the configuration\<close>

definition service_parameter :: "string \<Rightarrow> json \<Rightarrow> json res" where
  "service_parameter key cfg = res_bind (json_get cfg ''service_parameters'') (\<lambda>p. json_get p key)"

text \<open>A parameter whose absence (\<open>KeyError\<close>) means a default.\<close>

definition parameter_or :: "'a \<Rightarrow> (json \<Rightarrow> 'a) \<Rightarrow> string \<Rightarrow> json \<Rightarrow> 'a res" where
  "parameter_or dflt f key cfg =
     (case service_parameter key cfg of
        Inl (KeyError k) \<Rightarrow> Inr dflt
      | Inl e \<Rightarrow> Inl e
      | Inr v \<Rightarrow> Inr (f v))"

text \<open>\<open>service_config['service_parameters'].get(key, default)\<close>\<close>

definition user_parameter :: "string \<Rightarrow> string \<Rightarrow> rtc \<Rightarrow> string res" where
  "user_parameter key dflt s =
     res_bind (json_get (service s) ''service_parameters'')
       (\<lambda>p. Inr (json_text (dict_get key (JStr dflt) (json_dict p))))"

definition rtc_cmd_user_parameters :: "rtc \<Rightarrow> string res" where
  "rtc_cmd_user_parameters = user_parameter ''rtc_cmd_user_parameters'' []"

definition CBA_user :: "rtc \<Rightarrow> string res" where
  "CBA_user = user_parameter ''CBA_user'' ''root''"

definition string_items :: "json \<Rightarrow> string list" where
  "string_items v = map json_text (json_list v)"

text \<open>The macros of \<open>info['packages']\<close>: one per key whose value is not \<open>None\<close>.\<close>

definition add_packages :: "string \<Rightarrow> json \<Rightarrow> rtc \<Rightarrow> rtc res" where
  "add_packages suffix info s =
     res_bind (json_get info ''packages'') (\<lambda>p.
       Inr (foldl (\<lambda>s (k, v). if v = JNull then s
              else add_to_macro (''#'' @ k @ suffix @ ''#'') (json_str v) s) s (json_dict p)))"

definition add_base_release :: "rtc \<Rightarrow> rtc res" where
  "add_base_release s =
     (case service_parameter ''base_release'' (service s) of
        Inl (KeyError k) \<Rightarrow> Inr s
      | Inl e \<Rightarrow> Inl e
      | Inr bl \<Rightarrow>
          Inr (if truthy bl
               then add_to_macro ''#BASE_RELEASE#'' (Some (str_replace (json_text bl) ''.'' ''_'')) s
               else s))"

definition add_baseline_macros :: "rtc \<Rightarrow> rtc res" where
  "add_baseline_macros s =
     (if \<not> truthy (base_data s) then Inr s
      else res_bind (json_get (base_data s) ''build'') (\<lambda>b.
           res_bind (json_get (base_data s) ''hss_release'') (\<lambda>r.
           res_bind (json_get (base_data s) ''build_info'') (\<lambda>i.
             add_packages ''_BASE'' i
               (add_to_macro ''#HSS_VERSION_BASE#'' (json_str r)
                 (add_to_macro ''#BUILD_BASE#'' (json_str b) s))))))"

definition read_parameters :: "string option \<Rightarrow> rtc \<Rightarrow> rtc res" where
  "read_parameters specific s =
     res_bind (case specific of
                 None \<Rightarrow> service_parameter ''test_suite'' (service s)
               | Some ts \<Rightarrow> Inr (JStr ts)) (\<lambda>ts.
     res_bind (parameter_or (path_join (working_dir s) ''GIT_repos'') json_text ''git_path'' (service s)) (\<lambda>git.
     res_bind (parameter_or [] string_items ''folder_to_create'' (service s)) (\<lambda>folders.
     res_bind (parameter_or (path_join (working_dir s) ''test_result'') json_text ''test_result'' (service s)) (\<lambda>results.
     res_bind (parameter_or None json_str ''output_dir'' (service s)) (\<lambda>out.
     res_bind (parameter_or [] string_items ''to_pack_and_store'' (service s)) (\<lambda>pack.
       Inr (s\<lparr>suite := json_text ts, git_path := git, folder_to_create := folders,
              result_dir := results, output_dir := out, to_pack := pack\<rparr>)))))))"

section \<open>Commands\<close>

text \<open>The text of the error ends with the answer in the source; it is left out here.\<close>

definition run_error :: "string \<Rightarrow> py_exc" where
  "run_error cmd = ExecutionRunError (''rtc_handler problem executing \"'' @ cmd @ ''\"'')"

definition execute_raw :: "host \<Rightarrow> string \<Rightarrow> rtc \<Rightarrow> answer res \<times> rtc" where
  "execute_raw h cmd s =
     (let s' = s\<lparr>history := history s @ [cmd]\<rparr>
      in case node h (history s) cmd of
           Inl e \<Rightarrow> (Inl e, s')
         | Inr (answer, code) \<Rightarrow> (if code \<noteq> 0 then Inl (run_error cmd) else Inr answer, s'))"

definition execute_cmd :: "host \<Rightarrow> string \<Rightarrow> rtc \<Rightarrow> answer res \<times> rtc" where
  "execute_cmd h cmd s =
     (case macro_translator cmd s of Inl e \<Rightarrow> (Inl e, s) | Inr c \<Rightarrow> execute_raw h c s)"

definition execute_all :: "host \<Rightarrow> string list \<Rightarrow> rtc \<Rightarrow> unit res \<times> rtc" where
  "execute_all h = for_each (execute_cmd h)"

text \<open>
  \<open>set_auth_vector\<close>: the lines \<open>key=value\<close> of the answer; any failure is an
  \<open>ExecutionStartError\<close>.
\<close>

definition key_values :: "answer \<Rightarrow> (string \<times> string) list" where
  "key_values lines =
     foldl (\<lambda>d l. dict_set (split_on (CHR ''='') l ! 0) (split_on (CHR ''='') l ! 1) d) []
       (filter (\<lambda>l. CHR ''='' \<in> set l) lines)"

definition start_error_of :: "string \<Rightarrow> py_exc" where
  "start_error_of why = ExecutionStartError (''rtc_handler '' @ why)"

definition set_auth_vector :: "host \<Rightarrow> rtc \<Rightarrow> unit res \<times> rtc" where
  "set_auth_vector h s =
     (case CBA_user s of
        Inl e \<Rightarrow> (Inl (NameError ''local variable 'cmd' referenced before assignment''), s)
      | Inr user \<Rightarrow>
          (case execute_cmd h (''CBA_get_traffic_info --user '' @ user) s of
             (Inl e, s1) \<Rightarrow> (Inl (start_error_of (exc_str e)), s1)
           | (Inr answer, s1) \<Rightarrow>
               (case map_of (key_values answer) ''vector_supplier'' of
                  None \<Rightarrow> (Inl (start_error_of (exc_str (KeyError ''vector_supplier''))), s1)
                | Some v \<Rightarrow> (Inr (), add_to_macro ''#AUTH_VECTOR#'' (Some v) s1))))"

section \<open>The constructor\<close>

definition env_type :: "answer \<Rightarrow> string option" where
  "env_type lines =
     map_option (\<lambda>l. if last (words l) = ''CBA'' then ''native'' else ''virtual'')
       (find (contains ''Type'') lines)"

text \<open>\<open>element['name'] == 'AUTH_VECTOR' and element['value'] in ['AVG','HLR']\<close>\<close>

fun fixed_vector :: "json list \<Rightarrow> bool res" where
  "fixed_vector [] = Inr False"
| "fixed_vector (el # els) =
     res_bind (json_get el ''name'') (\<lambda>n.
       if n = JStr ''AUTH_VECTOR'' then
         res_bind (json_get el ''value'') (\<lambda>v.
           if v \<in> {JStr ''AVG'', JStr ''HLR''} then Inr True else fixed_vector els)
       else fixed_vector els)"

definition blank_rtc ::
  "string \<Rightarrow> json \<Rightarrow> bool \<Rightarrow> json \<Rightarrow> json \<Rightarrow> rtc" where
  "blank_rtc b i hp cfg base =
     \<lparr>test_build = b, build_data = i, urgent = hp, service = cfg, base_data = base, working_dir = [],
      macro = [], suite = [], git_path = [], folder_to_create = [], result_dir = [],
      output_dir = None, to_pack = [], history = []\<rparr>"

definition read_node :: "host \<Rightarrow> rtc \<Rightarrow> rtc res" where
  "read_node h s =
     (case env_info h of
        Inl e \<Rightarrow> Inl (start_error_of (''creation problem: '' @ exc_str e))
      | Inr lines \<Rightarrow>
          (case env_type lines of
             None \<Rightarrow> Inl (start_error_of ''creation problem: no env type'')
           | Some t \<Rightarrow>
               let wd = ''/opt/hss/hss_st/'' @ test_build s @ ''_'' @ now h @ ''_'' @ t
               in Inr (add_to_macro ''#BUILD#'' (Some (test_build s))
                    (add_to_macro ''#WD#'' (Some wd)
                      (add_to_macro ''#ENV_TYPE#'' (Some t) (s\<lparr>working_dir := wd\<rparr>))))))"

text \<open>
  \<open>RTC_Handler.__init__\<close>. With an empty service configuration the message is built from
  \<open>self.id\<close>, which is not set yet.
\<close>

definition rtc_init ::
  "host \<Rightarrow> string \<Rightarrow> json \<Rightarrow> bool \<Rightarrow> json \<Rightarrow> json \<Rightarrow> string option \<Rightarrow> rtc res" where
  "rtc_init h b i hp cfg base specific =
     (if \<not> truthy cfg then Inl (AttributeError ''id'')
      else
        res_bind (read_node h (blank_rtc b i hp cfg base)) (\<lambda>s.
        res_bind (add_base_release s) (\<lambda>s.
        res_bind (add_packages [] i s) (\<lambda>s.
        res_bind (add_baseline_macros s) (\<lambda>s.
        res_bind (read_parameters specific s) (\<lambda>s.
        res_bind (json_get cfg ''common.mkr'') (\<lambda>els.
        res_bind (fixed_vector (json_list els)) (\<lambda>fixed.
          if fixed then Inr s
          else (case set_auth_vector h s of (Inl e, _) \<Rightarrow> Inl e | (Inr _, s1) \<Rightarrow> Inr s1)))))))))"

definition command_line :: "rtc \<Rightarrow> string res" where
  "command_line s =
     res_bind (rtc_cmd_user_parameters s) (\<lambda>extra.
     res_bind (CBA_user s) (\<lambda>user.
       Inr (''HSS_rtc -o '' @ result_dir s @ '' --dbus --cfg '' @ suite s @
            '' --macro_file common.mkr'' @ (if urgent s then '' --high_priority'' else []) @
            '' --hss_build '' @ test_build s @ '' '' @ extra @
            '' --owner rtc_controller --disable_graph -v --user '' @ user)))"

section \<open>Preparing the node\<close>

definition name_value :: "json \<Rightarrow> (string \<times> string) res" where
  "name_value el =
     res_bind (json_get el ''name'') (\<lambda>n. res_bind (json_get el ''value'') (\<lambda>v.
       Inr (json_text n, json_text v)))"

text \<open>A value read from the configuration, or its exception, inside a sequence of commands.\<close>

definition from_config :: "'a res \<Rightarrow> rtc \<Rightarrow> 'a res \<times> rtc" where
  "from_config r s = (r, s)"

definition export_var :: "host \<Rightarrow> json \<Rightarrow> rtc \<Rightarrow> answer res \<times> rtc" where
  "export_var h el s =
     andthen (from_config (name_value el) s) (\<lambda>(n, v). execute_cmd h (''export '' @ n @ ''='' @ v))"

definition export_env :: "host \<Rightarrow> rtc \<Rightarrow> unit res \<times> rtc" where
  "export_env h s =
     andthen (from_config (json_get (service s) ''env_var'') s) (\<lambda>vars.
       for_each (export_var h) (json_list vars))"

text \<open>
  The test information is dumped to a temporary file and uploaded to the directory \<open>pwd\<close>
  reports; the upload itself is not a command.
\<close>

definition place_test_info :: "host \<Rightarrow> rtc \<Rightarrow> unit res \<times> rtc" where
  "place_test_info h s =
     andthen (execute_all h [''mkdir -p '' @ result_dir s, ''cd '' @ result_dir s] s) (\<lambda>_ s.
     andthen (execute_cmd h ''pwd'' s) (\<lambda>answer s.
     andthen (from_config (case answer of [] \<Rightarrow> Inl (IndexError ''list index out of range'')
                | d # _ \<Rightarrow> Inr d) s) (\<lambda>d.
       execute_all h [''cd -'', ''chmod 666 '' @ path_join d ''test_info.json''])))"

text \<open>
  One repository: the branch is optional for the clone, but \<open>len(repo['branch'])\<close> after it is
  not guarded. Without a branch the commit of the configuration, or else the one of the build,
  is checked out.
\<close>

definition branch_option :: "json \<Rightarrow> string" where
  "branch_option repo =
     (case json_get repo ''branch'' of
        Inr (JStr b) \<Rightarrow> if b = [] then [] else '' -b '' @ b
      | _ \<Rightarrow> [])"

definition commit_of :: "json \<Rightarrow> json \<Rightarrow> string \<Rightarrow> string res" where
  "commit_of info repo name =
     res_bind (json_get repo ''commit'') (\<lambda>c.
       if truthy c then Inr (json_text c)
       else res_bind (json_get info ''GIT_repos'') (\<lambda>g.
            res_bind (json_get g name) (\<lambda>c. Inr (json_text c))))"

definition clone_repo :: "host \<Rightarrow> json \<Rightarrow> rtc \<Rightarrow> unit res \<times> rtc" where
  "clone_repo h repo s =
     andthen (from_config (json_get repo ''repo'') s) (\<lambda>name s.
       let r = json_text name; dir = git_path s @ ''/'' @ basename r
       in andthen (execute_cmd h
            (''git clone'' @ branch_option repo @ '' ssh://git-hss_st:29418/HSS/'' @ r @ '' '' @ dir) s) (\<lambda>_ s.
          andthen (from_config (json_get repo ''branch'') s) (\<lambda>branch s.
            if truthy branch then done_with s
            else andthen (from_config (commit_of (build_data s) repo r) s) (\<lambda>commit.
                 execute_all h [''cd '' @ dir, ''git checkout '' @ commit, ''cd -'']))))"

definition has_netconf :: "json list \<Rightarrow> bool" where
  "has_netconf repos =
     (\<exists>repo \<in> set repos. json_get repo ''repo'' = Inr (JStr ''ST_Population_Netconf''))"

definition read_info_line :: "string \<Rightarrow> string \<Rightarrow> rtc \<Rightarrow> rtc res" where
  "read_info_line suffix l s =
     (let value = (case split_on (CHR '':'') l of
                     a # b # _ \<Rightarrow> Inr b | _ \<Rightarrow> Inl (IndexError ''list index out of range''))
      in if contains ''HSS_LICENSE:'' l then
           res_bind value (\<lambda>v. Inr (add_to_macro (''#HSS_LICENSE'' @ suffix @ ''#'') (Some v) s))
         else if contains ''HSS_LICENSE_CRC'' l then
           res_bind value (\<lambda>v. Inr (add_to_macro (''#HSS_LICENSE_CRC'' @ suffix @ ''#'') (Some v) s))
         else if contains ''EXTDB_BACKUP'' l then
           res_bind value (\<lambda>v. Inr (add_to_macro (''#EXTDB_BACKUP'' @ suffix @ ''#'') (Some v) s))
         else Inr s)"

definition read_info_lines :: "string \<Rightarrow> answer \<Rightarrow> rtc \<Rightarrow> unit res \<times> rtc" where
  "read_info_lines suffix =
     for_each (\<lambda>l s. case read_info_line suffix l s of Inl e \<Rightarrow> (Inl e, s) | Inr s' \<Rightarrow> (Inr (), s'))"

definition netconf_info :: "host \<Rightarrow> rtc \<Rightarrow> unit res \<times> rtc" where
  "netconf_info h s =
     andthen (execute_all h [''cd '' @ git_path s @ ''/ST_Population_Netconf''] s) (\<lambda>_ s.
     andthen (execute_cmd h ''cat test_info.data'' s) (\<lambda>answer s.
     andthen (read_info_lines [] answer s) (\<lambda>_ s.
     andthen (execute_cmd h ''git rev-parse --short HEAD'' s) (\<lambda>answer s.
     andthen (from_config (case answer of [] \<Rightarrow> Inl (IndexError ''list index out of range'')
                | c # _ \<Rightarrow> Inr c) s) (\<lambda>c s.
       execute_all h [''cd -''] (add_to_macro ''#NETCONF_COMMIT#'' (Some c) s))))))"

text \<open>The baseline's commit: every exception is logged and dropped, what was done stays done.\<close>

definition baseline_netconf :: "host \<Rightarrow> rtc \<Rightarrow> unit res \<times> rtc" where
  "baseline_netconf h s =
     (case andthen (from_config (res_bind (json_get (base_data s) ''build_info'') (\<lambda>i.
               res_bind (json_get i ''GIT_repos'') (\<lambda>g. json_get g ''ST_Population_Netconf''))) s) (\<lambda>c s.
           andthen (execute_all h [''cd '' @ git_path s @ ''/ST_Population_Netconf'',
               ''git checkout '' @ json_text c]
               (add_to_macro ''#NETCONF_COMMIT_BASE#'' (json_str c) s)) (\<lambda>_ s.
           andthen (execute_cmd h ''cat test_info.data'' s) (\<lambda>answer s.
           andthen (read_info_lines ''_BASE'' answer s) (\<lambda>_.
             execute_all h [''cd -''])))) of
        (_, s1) \<Rightarrow> (Inr (), s1))"

definition echo_line :: "string \<Rightarrow> string \<Rightarrow> string" where
  "echo_line name v = ''echo \"'' @ name @ '':'' @ v @ ''\" >> common.mkr''"

text \<open>\<open>self.macro_translator(element['value'])\<close>, and the whole line is translated once more.\<close>

definition echo_element :: "host \<Rightarrow> json \<Rightarrow> rtc \<Rightarrow> answer res \<times> rtc" where
  "echo_element h el s =
     andthen (from_config (name_value el) s) (\<lambda>(n, v) s.
     andthen (from_config (macro_translator v s) s) (\<lambda>v.
       execute_cmd h (echo_line n v)))"

definition echo_macro :: "host \<Rightarrow> string \<times> string option \<Rightarrow> rtc \<Rightarrow> answer res \<times> rtc" where
  "echo_macro h kv =
     execute_raw h (echo_line (str_replace (fst kv) ''#'' [])
       (case snd kv of None \<Rightarrow> ''None'' | Some v \<Rightarrow> v))"

definition write_common :: "host \<Rightarrow> rtc \<Rightarrow> unit res \<times> rtc" where
  "write_common h s =
     andthen (from_config (CBA_user s) s) (\<lambda>user s.
     andthen (execute_cmd h (echo_line ''CBA_PREPARE_UPGRADE''
         (git_path s @ ''/ST_HssUpgradeTool/CBA_prepare_upgrade --node_user '' @ user)) s) (\<lambda>_ s.
     andthen (from_config (json_get (service s) ''common.mkr'') s) (\<lambda>els s.
     andthen (for_each (echo_element h) (json_list els) s) (\<lambda>_ s.
       for_each (echo_macro h) (macro s) s))))"

definition prepare_test_scenario :: "host \<Rightarrow> rtc \<Rightarrow> unit res \<times> rtc" where
  "prepare_test_scenario h s =
     andthen (export_env h s) (\<lambda>_ s.
     andthen (execute_all h (map (\<lambda>p. ''mkdir -p '' @ p) (folder_to_create s)) s) (\<lambda>_ s.
     andthen (place_test_info h s) (\<lambda>_ s.
     andthen (execute_all h [''mkdir -p '' @ git_path s] s) (\<lambda>_ s.
     andthen (from_config (json_get (service s) ''git_repos'') s) (\<lambda>repos s.
     andthen (for_each (clone_repo h) (json_list repos) s) (\<lambda>_ s.
     andthen (if has_netconf (json_list repos) then netconf_info h s else done_with s) (\<lambda>_ s.
     andthen (if truthy (base_data s) \<and> has_netconf (json_list repos) then baseline_netconf h s
              else done_with s) (\<lambda>_. write_common h))))))))"

section \<open>Running the tool\<close>

text \<open>
  One turn of the loop sees the prompt (the tool ended), the start message, any other line, a
  timeout or the end of the connection, or finds \<open>force_exit\<close> set at its head. The list holds the
  turns so far: at its end the loop still goes on. The result is \<open>ongoing_test\<close>, whether the start
  event is set, and how the loop was left, if it was.
\<close>

datatype expect = Prompt | Started | Line | Timeout | Eof | Forced

datatype exit_by = Still_in | By_prompt | By_eof | By_force

fun traffic :: "expect list \<Rightarrow> bool \<Rightarrow> bool \<Rightarrow> bool \<times> bool \<times> exit_by" where
  "traffic [] og set_ev = (og, set_ev, Still_in)"
| "traffic (Prompt # es) og set_ev = (False, set_ev, By_prompt)"
| "traffic (Started # es) og set_ev =
     (if set_ev then traffic es og set_ev else traffic es True True)"
| "traffic (Line # es) og set_ev = traffic es og set_ev"
| "traffic (Timeout # es) og set_ev = traffic es og set_ev"
| "traffic (Eof # es) og set_ev = (og, set_ev, By_eof)"
| "traffic (Forced # es) og set_ev = (og, set_ev, By_force)"

definition store_results :: "host \<Rightarrow> rtc \<Rightarrow> rtc" where
  "store_results h s =
     (let dir = basename (working_dir s); tar = dir @ ''.tar.gz'';
          pack = (if to_pack s = [] then []
                  else [''tar -czvf '' @ tar @ '' '' @ join '' '' (to_pack s) @ '' > /dev/null'']);
          move = (case output_dir s of
                    Some out \<Rightarrow>
                      if to_pack s = [] then []
                      else let d = path_join out (test_build s)
                           in [''mkdir -p '' @ d, ''chmod 777 '' @ d, ''mv '' @ tar @ '' '' @ d,
                               ''cd ..'', ''rm -rf '' @ dir]
                  | None \<Rightarrow> [])
      in snd (execute_all h (pack @ move) s))"

record outcome =
  thread_error :: "py_exc option"
  start_event :: bool
  still_ongoing :: bool
  info_error :: "string option"
  released :: bool

definition thread_died :: "py_exc \<Rightarrow> outcome" where
  "thread_died e =
     \<lparr>thread_error = Some e, start_event = False, still_ongoing = False, info_error = None,
      released = False\<rparr>"

text \<open>
  After the loop the start event is set, whatever happened. Inside it, it is set by the start
  message alone, and the node is not released.
\<close>

definition finished_with :: "bool \<times> bool \<times> exit_by \<Rightarrow> outcome" where
  "finished_with p =
     (case p of (og, set_ev, how) \<Rightarrow>
        if how = Still_in then
          \<lparr>thread_error = None, start_event = set_ev, still_ongoing = og, info_error = None,
           released = False\<rparr>
        else
          \<lparr>thread_error = None, start_event = True, still_ongoing = og,
           info_error =
             (if \<not> set_ev then Some ''rtc_handler HSS_rtc failed to start''
              else if how = By_eof then Some ''rtc_handler EOF received during HSS_rtc execution''
              else None),
           released = True\<rparr>)"

text \<open>From the command line of the tool on.\<close>

definition run_tool :: "host \<Rightarrow> expect list \<Rightarrow> rtc \<Rightarrow> outcome \<times> rtc" where
  "run_tool h es s =
     (case res_bind (command_line s) (\<lambda>c. macro_translator c s) of
        Inl e \<Rightarrow> (thread_died e, s)
      | Inr cmd \<Rightarrow>
          let s1 = s\<lparr>history := history s @ [cmd]\<rparr>
          in case traffic es False False of
               (og, set_ev, how) \<Rightarrow>
                 (finished_with (og, set_ev, how),
                  if set_ev \<and> how \<noteq> Still_in then store_results h s1 else s1))"

fun is_run_error :: "py_exc \<Rightarrow> bool" where
  "is_run_error (ExecutionRunError m) = True"
| "is_run_error _ = False"

text \<open>
  \<open>run_traffic\<close>, the body of the thread. Only an \<open>ExecutionRunError\<close> of the clean-up command
  is caught; any other exception ends the thread with the start event unset. The constructor has
  connected the node, so it is not \<open>None\<close>.
\<close>

definition clean_up :: "host \<Rightarrow> rtc \<Rightarrow> answer res \<times> rtc" where
  "clean_up h = execute_cmd h (''run_clean_test_environment --exclude '' @ pid h)"

definition run_traffic :: "host \<Rightarrow> expect list \<Rightarrow> rtc \<Rightarrow> outcome \<times> rtc" where
  "run_traffic h es s =
     (case clean_up h s of
        (Inl e, s1) \<Rightarrow> if is_run_error e then run_tool h es s1 else (thread_died e, s1)
      | (Inr _, s1) \<Rightarrow> run_tool h es s1)"

end
