(* ===== verification/Rtc_Handler_Props.thy ===== *)
theory Rtc_Handler_Props
  imports Rtc_Handler
begin

text \<open>
  What one execution guarantees: how the loop over the tool's output ends, that the preparation
  stops at the first command that fails, and what it leaves in the macro file.
\<close>

section \<open>The loop over the output\<close>

definition ends :: "expect \<Rightarrow> bool" where
  "ends e \<longleftrightarrow> e \<in> {Prompt, Eof, Forced}"

definition starts_well :: "expect list \<Rightarrow> bool" where
  "starts_well es \<longleftrightarrow> Started \<in> set (takeWhile (\<lambda>e. \<not> ends e) es)"

definition ends_by :: "expect \<Rightarrow> expect list \<Rightarrow> bool" where
  "ends_by e es \<longleftrightarrow> (case dropWhile (\<lambda>e. \<not> ends e) es of [] \<Rightarrow> False | x # _ \<Rightarrow> x = e)"

text \<open>The loop is left: some turn sees the prompt or the end of the connection, or is forced.\<close>

definition is_over :: "expect list \<Rightarrow> bool" where
  "is_over es \<longleftrightarrow> (\<exists>e \<in> set es. ends e)"

definition left_by :: "expect list \<Rightarrow> exit_by" where
  "left_by es =
     (if ends_by Prompt es then By_prompt else if ends_by Eof es then By_eof
      else if is_over es then By_force else Still_in)"

lemma traffic_from:
  "traffic es og set_ev =
     (\<not> ends_by Prompt es \<and> (og \<or> \<not> set_ev \<and> starts_well es), set_ev \<or> starts_well es, left_by es)"
  by (induction es og set_ev rule: traffic.induct)
    (auto simp: ends_def starts_well_def ends_by_def left_by_def is_over_def)

lemma traffic_outcome:
  "traffic es False False = (starts_well es \<and> \<not> ends_by Prompt es, starts_well es, left_by es)"
  by (auto simp: traffic_from)

lemma ends_by_over: "ends_by e es \<Longrightarrow> is_over es"
  by (induction es) (auto simp: ends_by_def is_over_def split: if_splits)

lemma left_by_simps:
  "left_by es = Still_in \<longleftrightarrow> \<not> is_over es"
  "left_by es = By_eof \<longleftrightarrow> ends_by Eof es"
  by (auto simp: left_by_def ends_by_over) (auto simp: ends_by_def split: list.splits)

lemma finished_outcome:
  "start_event (finished_with (og, set_ev, how)) \<longleftrightarrow> set_ev \<or> how \<noteq> Still_in"
  "released (finished_with (og, set_ev, how)) \<longleftrightarrow> how \<noteq> Still_in"
  "info_error (finished_with (og, set_ev, how)) = None \<longleftrightarrow>
     how = Still_in \<or> set_ev \<and> how \<noteq> By_eof"
  "still_ongoing (finished_with p) = fst p" "thread_error (finished_with p) = None"
  by (auto simp: finished_with_def split: prod.split)

text \<open>C37: the controller blocks until the start event is set. When the command that cleans the
  environment raises anything but \<open>ExecutionRunError\<close>, or the command line cannot be built, the
  thread dies and the event is never set. Otherwise it is set exactly when the start message
  comes, or the loop is left: by the prompt, by the end of the connection or by \<open>force_exit\<close>. A
  tool that shows none of these keeps the thread in its loop and the controller waiting. The node
  is released exactly when the loop is left. Then the execution counts as free of errors
  exactly when the start message came and the connection did not break; while the loop goes on no
  error is recorded. The test stays marked as ongoing unless the tool came back to its prompt.\<close>

theorem run_traffic_outcome:
  assumes "run_traffic h es s = (out, t)" and "clean_up h s = (r, s1)"
  shows "(thread_error out = None \<longleftrightarrow>
      (\<forall>e. r = Inl e \<longrightarrow> is_run_error e) \<and>
      (\<exists>line. res_bind (command_line s1) (\<lambda>c. macro_translator c s1) = Inr line)) \<and>
    (start_event out \<longleftrightarrow> thread_error out = None \<and> (starts_well es \<or> is_over es)) \<and>
    (released out \<longleftrightarrow> thread_error out = None \<and> is_over es) \<and>
    (thread_error out = None \<longrightarrow>
      (info_error out = None \<longleftrightarrow> \<not> is_over es \<or> starts_well es \<and> \<not> ends_by Eof es) \<and>
      (still_ongoing out \<longleftrightarrow> starts_well es \<and> \<not> ends_by Prompt es))"
proof -
  let ?line = "res_bind (command_line s1) (\<lambda>c. macro_translator c s1)"
  have tool: "fst (run_tool h es s1) = (case ?line of Inl e \<Rightarrow> thread_died e
      | Inr _ \<Rightarrow> finished_with (traffic es False False))"
    by (simp add: run_tool_def Let_def split: sum.split prod.split)
  have out: "out = (if \<exists>e. r = Inl e \<and> \<not> is_run_error e then thread_died (projl r)
      else fst (run_tool h es s1))"
    using assms by (auto simp: run_traffic_def split: sum.splits if_splits)
  have died: "\<not> start_event (thread_died e)" "thread_error (thread_died e) \<noteq> None"
    "\<not> released (thread_died e)" for e by (simp_all add: thread_died_def)
  show ?thesis
    unfolding out tool
    by (auto simp: died finished_outcome traffic_outcome left_by_simps split: sum.split)
qed

text \<open>A node on which every command succeeds without output but \<open>pwd\<close>.\<close>

definition demo_host :: host where
  "demo_host = \<lparr>node = (\<lambda>old cmd. Inr (if cmd = ''pwd'' then [''/tmp''] else [], 0)),
     env_info = Inr [''Type: CBA''], now = ''20200101-000000'', pid = ''42''\<rparr>"

definition demo_rtc :: rtc where
  "demo_rtc = (blank_rtc ''HSS-1.2.3.4'' (JObj []) False
     (JObj [(''service_parameters'', JObj []), (''env_var'', JList []), (''git_repos'', JList []),
            (''common.mkr'', JList [JObj [(''name'', JStr ''DIR''), (''value'', JStr ''#WD#/x'')]])]) JNull)
     \<lparr>macro := [(''#WD#'', Some ''/wd'')], suite := ''s'', result_dir := ''r'', git_path := ''g''\<rparr>"

lemma demo_clean_up: "fst (clean_up demo_host demo_rtc) = Inr []"
  "res_bind (command_line (snd (clean_up demo_host demo_rtc)))
     (\<lambda>c. macro_translator c (snd (clean_up demo_host demo_rtc))) = Inr ''HSS_rtc -o r --dbus --cfg s --macro_file common.mkr --hss_build HSS-1.2.3.4  --owner rtc_controller --disable_graph -v --user root''"
  by code_simp+

theorem run_traffic_outcome_witness:
  "\<exists>out t. run_traffic demo_host [Line, Started, Timeout, Eof] demo_rtc = (out, t) \<and>
     start_event out \<and> info_error out \<noteq> None \<and> still_ongoing out \<and> released out \<and>
     (\<exists>out t. run_traffic demo_host [Line, Timeout] demo_rtc = (out, t) \<and> \<not> start_event out)"
proof -
  obtain r where r: "clean_up demo_host demo_rtc = (Inr [], r)"
    "\<exists>line. res_bind (command_line r) (\<lambda>c. macro_translator c r) = Inr line"
    using demo_clean_up by (metis prod.collapse)
  obtain out t where o: "run_traffic demo_host [Line, Started, Timeout, Eof] demo_rtc = (out, t)" by fastforce
  have "starts_well [Line, Started, Timeout, Eof]" "ends_by Eof [Line, Started, Timeout, Eof]"
    "\<not> ends_by Prompt [Line, Started, Timeout, Eof]" "is_over [Line, Started, Timeout, Eof]"
    by (simp_all add: starts_well_def ends_by_def ends_def is_over_def)
  with run_traffic_outcome [OF o r(1)] r(2)
  have 1: "start_event out \<and> info_error out \<noteq> None \<and> still_ongoing out \<and> released out" by auto
  obtain out' t' where o': "run_traffic demo_host [Line, Timeout] demo_rtc = (out', t')" by fastforce
  have "\<not> starts_well [Line, Timeout]" "\<not> is_over [Line, Timeout]"
    by (simp_all add: starts_well_def ends_def is_over_def)
  with run_traffic_outcome [OF o' r(1)] have "\<not> start_event out'" by simp
  with 1 o o' show ?thesis by blast
qed

section \<open>The preparation stops at the first failure\<close>

fun succeeded :: "host \<Rightarrow> string list \<Rightarrow> string list \<Rightarrow> bool" where
  "succeeded h old [] = True"
| "succeeded h old (c # cs) =
     ((case node h old c of Inl _ \<Rightarrow> False | Inr (a, code) \<Rightarrow> code = 0) \<and> succeeded h (old @ [c]) cs)"

lemma succeeded_append:
  "succeeded h old (cs @ ds) \<longleftrightarrow> succeeded h old cs \<and> succeeded h (old @ cs) ds"
  by (induction cs arbitrary: old) auto

lemma succeeded_butlast: "succeeded h old cs \<Longrightarrow> succeeded h old (butlast cs)"
  by (metis append_butlast_last_id butlast.simps(1) succeeded_append)

text \<open>After a step, the commands it ran all succeeded, but for the last one if it raised.\<close>

definition obeys :: "host \<Rightarrow> rtc \<Rightarrow> 'a res \<times> rtc \<Rightarrow> bool" where
  "obeys h s p \<longleftrightarrow> base_data (snd p) = base_data s \<and>
     (\<exists>cs. history (snd p) = history s @ cs \<and>
        succeeded h (history s) (case fst p of Inr _ \<Rightarrow> cs | Inl e \<Rightarrow> butlast cs))"

lemma obeys_andthen:
  assumes "obeys h s p" and "\<And>v s'. p = (Inr v, s') \<Longrightarrow> base_data s' = base_data s \<Longrightarrow> obeys h s' (f v s')"
  shows "obeys h s (andthen p f)"
proof (cases p)
  case (Pair r s')
  show ?thesis
  proof (cases r)
    case (Inl e)
    with assms(1) Pair show ?thesis by (simp add: obeys_def)
  next
    case (Inr v)
    from assms(1) Pair Inr obtain cs where cs: "base_data s' = base_data s" "history s' = history s @ cs"
      "succeeded h (history s) cs" by (auto simp: obeys_def)
    from assms(2) [OF Pair [unfolded Inr] cs(1)] obtain ds where ds:
      "base_data (snd (f v s')) = base_data s'" "history (snd (f v s')) = history s' @ ds"
      "succeeded h (history s') (case fst (f v s') of Inr _ \<Rightarrow> ds | Inl e \<Rightarrow> butlast ds)"
      by (auto simp: obeys_def)
    have "succeeded h (history s) (case fst (f v s') of Inr _ \<Rightarrow> cs @ ds | Inl e \<Rightarrow> butlast (cs @ ds))"
      using cs ds by (auto simp: butlast_append succeeded_append succeeded_butlast split: sum.splits)
    with cs ds Pair Inr show ?thesis by (auto simp: obeys_def)
  qed
qed

lemma obeys_refl: "obeys h s (r, s)"
  by (auto simp: obeys_def split: sum.split)

lemma obeys_config: "obeys h s (from_config r s)"
  by (simp add: from_config_def obeys_refl)

lemma obeys_done: "obeys h s (done_with s)"
  by (simp add: done_with_def obeys_refl)

lemma obeys_raw: "obeys h s (execute_raw h c s)"
  by (auto simp: obeys_def execute_raw_def Let_def split: sum.splits prod.splits)

lemma obeys_cmd: "obeys h s (execute_cmd h c s)"
  by (auto simp: execute_cmd_def obeys_raw obeys_refl split: sum.split)

lemma obeys_for_each: "(\<And>x s. obeys h s (f x s)) \<Longrightarrow> obeys h s (for_each f xs s)"
  by (induction xs arbitrary: s) (auto intro: obeys_andthen obeys_refl)

lemma obeys_all: "obeys h s (execute_all h cs s)"
  unfolding execute_all_def by (rule obeys_for_each) (rule obeys_cmd)

lemma obeys_macro: "obeys h (add_to_macro k v s) p \<longleftrightarrow> obeys h s p"
  by (simp add: obeys_def add_to_macro_def)

lemma obeys_info: "obeys h s (read_info_lines suffix ls s)"
  unfolding read_info_lines_def
proof (rule obeys_for_each)
  fix l s
  have "base_data s' = base_data s \<and> history s' = history s" if "read_info_line suffix l s = Inr s'" for s'
    using that by (auto simp: read_info_line_def Let_def res_bind_def add_to_macro_def split: if_splits sum.splits)
  then show "obeys h s (case read_info_line suffix l s of Inl e \<Rightarrow> (Inl e, s) | Inr s' \<Rightarrow> (Inr (), s'))"
    by (auto simp: obeys_def split: sum.split)
qed

lemmas obeys_steps = obeys_config obeys_done obeys_raw obeys_cmd obeys_all obeys_info

lemma obeys_clone: "obeys h s (clone_repo h repo s)"
  unfolding clone_repo_def Let_def by (intro obeys_andthen obeys_steps) (simp add: obeys_steps obeys_andthen)

lemma obeys_export: "obeys h s (export_env h s)"
  unfolding export_env_def export_var_def
  by (intro obeys_andthen obeys_for_each obeys_steps) (simp add: obeys_cmd split: prod.split)

lemma obeys_place: "obeys h s (place_test_info h s)"
  unfolding place_test_info_def by (intro obeys_andthen obeys_steps)

lemma obeys_netconf: "obeys h s (netconf_info h s)"
  unfolding netconf_info_def by (intro obeys_andthen obeys_steps obeys_macro [THEN iffD1, OF obeys_all])

lemma obeys_common: "obeys h s (write_common h s)"
proof -
  have "obeys h s (echo_element h el s)" for el s
    unfolding echo_element_def
    by (rule obeys_andthen [OF obeys_config]) (auto intro: obeys_andthen obeys_steps)
  moreover have "obeys h s (echo_macro h kv s)" for kv s
    unfolding echo_macro_def by (rule obeys_raw)
  ultimately show ?thesis
    unfolding write_common_def by (intro obeys_andthen obeys_steps obeys_for_each) 
qed

lemma obeys_if: "(b \<Longrightarrow> obeys h s p) \<Longrightarrow> (\<not> b \<Longrightarrow> obeys h s q) \<Longrightarrow> obeys h s (if b then p else q)"
  by simp

text \<open>Without a baseline, no command of the preparation runs after one that failed: when it
  raises, every command but possibly the last one succeeded, and when it returns, all did.\<close>

theorem prepare_stops_at_failure:
  assumes "prepare_test_scenario h s = (r, t)" and "\<not> truthy (base_data s)"
  obtains cs where "history t = history s @ cs"
    and "case r of Inr _ \<Rightarrow> succeeded h (history s) cs | Inl e \<Rightarrow> succeeded h (history s) (butlast cs)"
proof -
  have "obeys h s (prepare_test_scenario h s)"
    unfolding prepare_test_scenario_def
    by (rule obeys_andthen [OF obeys_export] obeys_andthen [OF obeys_all] obeys_andthen [OF obeys_place]
        obeys_andthen [OF obeys_config] obeys_andthen [OF obeys_for_each, OF obeys_clone]
        obeys_andthen [OF obeys_if, OF obeys_netconf obeys_done]
        obeys_andthen [OF obeys_if, OF _ obeys_done] obeys_common
      | simp add: assms(2))+
  then obtain cs where "history t = history s @ cs"
    "succeeded h (history s) (case r of Inr _ \<Rightarrow> cs | Inl e \<Rightarrow> butlast cs)"
    using assms(1) by (auto simp: obeys_def)
  then show thesis by (intro that [of cs]) (cases r; simp)+
qed

lemma demo_prepare: "fst (prepare_test_scenario demo_host demo_rtc) = Inr ()"
  "history (snd (prepare_test_scenario demo_host demo_rtc)) =
    [''mkdir -p r'', ''cd r'', ''pwd'', ''cd -'', ''chmod 666 /tmp/test_info.json'', ''mkdir -p g'',
     ''echo \"CBA_PREPARE_UPGRADE:g/ST_HssUpgradeTool/CBA_prepare_upgrade --node_user root\" >> common.mkr'',
     ''echo \"DIR:/wd/x\" >> common.mkr'', ''echo \"WD:/wd\" >> common.mkr'']"
  "macro (snd (prepare_test_scenario demo_host demo_rtc)) = [(''#WD#'', Some ''/wd'')]"
  by code_simp+

theorem prepare_stops_at_failure_witness:
  "\<exists>cs. history (snd (prepare_test_scenario demo_host demo_rtc)) = history demo_rtc @ cs \<and>
     succeeded demo_host (history demo_rtc) cs"
proof (rule prepare_stops_at_failure [of demo_host demo_rtc "Inr ()" "snd (prepare_test_scenario demo_host demo_rtc)"])
  show "prepare_test_scenario demo_host demo_rtc = (Inr (), snd (prepare_test_scenario demo_host demo_rtc))"
    using demo_prepare(1) by (metis prod.collapse)
  show "\<not> truthy (base_data demo_rtc)" by (simp add: demo_rtc_def blank_rtc_def)
qed auto

section \<open>The macro file\<close>

lemma echo_macros:
  "for_each (echo_macro h) kvs s = (Inr (), t) \<Longrightarrow>
     history t = history s @ map (\<lambda>(k, v). echo_line (str_replace k ''#'' [])
       (case v of None \<Rightarrow> ''None'' | Some x \<Rightarrow> x)) kvs \<and> macro t = macro s"
proof (induction kvs arbitrary: s)
  case (Cons kv kvs)
  then obtain a s1 where 1: "echo_macro h kv s = (Inr a, s1)" "for_each (echo_macro h) kvs s1 = (Inr (), t)"
    by (auto simp: andthen_Inr)
  then have "history s1 = history s @ [echo_line (str_replace (fst kv) ''#'' [])
      (case snd kv of None \<Rightarrow> ''None'' | Some x \<Rightarrow> x)]" "macro s1 = macro s"
    by (auto simp: echo_macro_def execute_raw_def Let_def split: sum.splits prod.splits if_splits)
  with Cons.IH [OF 1(2)] show ?case by (cases kv) simp
qed simp

text \<open>A preparation that returns ends by writing every macro it has, in the order of the
  dictionary and untranslated, as \<open>NAME:VALUE\<close> lines of \<open>common.mkr\<close>.\<close>

theorem prepare_writes_all_macros:
  assumes "prepare_test_scenario h s = (Inr (), t)"
  obtains cs where "history t = cs @ map (\<lambda>(k, v). ''echo \"'' @ str_replace k ''#'' [] @ '':'' @
      (case v of None \<Rightarrow> ''None'' | Some x \<Rightarrow> x) @ ''\" >> common.mkr'') (macro t)"
proof -
  from assms obtain s1 where "write_common h s1 = (Inr (), t)"
    unfolding prepare_test_scenario_def andthen_Inr by blast
  then obtain s2 where "for_each (echo_macro h) (macro s2) s2 = (Inr (), t)"
    unfolding write_common_def andthen_Inr by blast
  from echo_macros [OF this] show thesis by (intro that [of "history s2"]) (simp add: echo_line_def)
qed

theorem prepare_writes_all_macros_witness:
  "\<exists>cs. history (snd (prepare_test_scenario demo_host demo_rtc)) = cs @ [''echo \"WD:/wd\" >> common.mkr'']"
proof (rule prepare_writes_all_macros [of demo_host demo_rtc "snd (prepare_test_scenario demo_host demo_rtc)"])
  show "prepare_test_scenario demo_host demo_rtc = (Inr (), snd (prepare_test_scenario demo_host demo_rtc))"
    using demo_prepare(1) by (metis prod.collapse)
  fix cs assume "history (snd (prepare_test_scenario demo_host demo_rtc)) =
    cs @ map (\<lambda>(k, v). ''echo \"'' @ str_replace k ''#'' [] @ '':'' @
      (case v of None \<Rightarrow> ''None'' | Some x \<Rightarrow> x) @ ''\" >> common.mkr'')
      (macro (snd (prepare_test_scenario demo_host demo_rtc)))"
  moreover have "str_replace ''#WD#'' ''#'' [] = ''WD''" by (simp add: str_replace_def startswith_def)
  ultimately show ?thesis unfolding demo_prepare(3) by simp
qed

end
