(* ===== verification/Scheduler.thy ===== *)
theory Scheduler
  imports Rtc_Prelude Complex_Main
begin

text \<open>
  \<open>HSS_rtc/HSS_rtc_lib/components/scheduler.py\<close>, common part: the thread that sets the calls per
  second (CPS) of the traffic generators (BATs) slot by slot. Python's floats are rationals
  here, so arithmetic is exact. What the schedulers ask of the other components is a list of
  effects; what they read (the clock, the answers of the generators) is the record \<open>obs\<close>.
\<close>

section \<open>Data\<close>

datatype sched_effect =
    SetCps string rat
  | StopPhase
  | FailVerdict string
  | StartMonitoring
  | StopMonitoring
  | SkipCheck
  | DisableLoad
  | EnableLoad
  | Reconfigure "(rat \<times> rat \<times> rat) list"
  | UpdateRef string "(string \<times> (rat \<times> rat) list) list" "(rat \<times> rat \<times> rat) list" int
  | DeleteRef string
  | LockPL string
  | UnlockPL string
  | Plot
  | DataLine "(rat \<times> int) list"

text \<open>
  One entry of \<open>self.data\<close>. \<open>slots\<close> holds the keys that name phases, each a list of (time,
  value); \<open>steps\<close> is the dictionary \<open>loadgen\<close> of the capacity handler (initial, delta up, delta
  down).
\<close>

record entry =
  enabled :: bool
  slots :: "(string, (rat \<times> rat) list) dict"
  steps :: "rat \<times> rat \<times> rat"
  last_time :: rat
  current :: "int list"
  last_current :: int
  target :: rat
  used :: "rat list"

record sched =
  phase :: string
  cps_scheduling :: bool
  running :: bool
  logging :: bool
  cps_errors :: nat
  display :: bool
  bats :: "(string, entry) dict"
  effects :: "sched_effect list"

record obs =
  clock :: rat
  later :: rat
  bat_running :: "string \<Rightarrow> bool"
  accepts :: "string \<Rightarrow> rat \<Rightarrow> bool"
  reads :: "string \<Rightarrow> rat option"
  error_rate :: rat
  tps_error_rate :: rat
  load_now :: rat
  instances :: "string list"

definition effect :: "sched_effect \<Rightarrow> 'a sched_scheme \<Rightarrow> 'a sched_scheme" where
  "effect e s = s\<lparr>effects := effects s @ [e]\<rparr>"

definition entry_update :: "string \<Rightarrow> (entry \<Rightarrow> entry) \<Rightarrow> 'a sched_scheme \<Rightarrow> 'a sched_scheme" where
  "entry_update bat f s = s\<lparr>bats := dict_modify bat f (bats s)\<rparr>"

text \<open>\<open>int(x)\<close>: towards zero.\<close>

definition int_of :: "rat \<Rightarrow> int" where
  "int_of x = (if 0 \<le> x then \<lfloor>x\<rfloor> else \<lceil>x\<rceil>)"

section \<open>Setting and reading the CPS\<close>

definition set_target_cps :: "obs \<Rightarrow> string \<Rightarrow> rat \<Rightarrow> bool" where
  "set_target_cps ob bat v = (bat_running ob bat \<and> accepts ob bat v)"

definition cps_display :: "'a sched_scheme \<Rightarrow> bool" where
  "cps_display s = (cps_scheduling s \<and> display s)"

text \<open>\<open>Scheduler_Base.shutdown\<close>\<close>

definition base_shutdown :: "'a sched_scheme \<Rightarrow> unit res \<times> 'a sched_scheme" where
  "base_shutdown s =
     (let s1 = (if running s then
                  let t = s\<lparr>running := False\<rparr> in if cps_display t then effect Plot t else t
                else s)
      in (Inr (), s1\<lparr>logging := False\<rparr>))"

text \<open>
  \<open>read_current_cps\<close>: more than three failures in a row stop the scheduler. An answer of zero is
  a string and counts as a reading; a BAT without an entry is skipped.
\<close>

definition read_bat ::
  "('a sched_scheme \<Rightarrow> unit res \<times> 'a sched_scheme) \<Rightarrow> obs \<Rightarrow> 'a sched_scheme \<Rightarrow> string \<Rightarrow> 'a sched_scheme" where
  "read_bat sd ob s bat =
     (case map_of (bats s) bat of
        None \<Rightarrow> s
      | Some e \<Rightarrow>
          if enabled e \<and> bat_running ob bat then
            (case reads ob bat of
               None \<Rightarrow>
                 let s1 = s\<lparr>cps_errors := Suc (cps_errors s)\<rparr>
                 in if cps_errors s1 > 3 then snd (sd s1) else s1
             | Some v \<Rightarrow>
                 entry_update bat (\<lambda>e. e\<lparr>current := current e @ [int_of v], last_current := int_of v\<rparr>)
                   (s\<lparr>cps_errors := 0\<rparr>))
          else s)"

definition read_current_cps ::
  "('a sched_scheme \<Rightarrow> unit res \<times> 'a sched_scheme) \<Rightarrow> obs \<Rightarrow> 'a sched_scheme \<Rightarrow> 'a sched_scheme" where
  "read_current_cps sd ob s = foldl (read_bat sd ob) s (instances ob)"

text \<open>\<open>update_data_file\<close>: a line with target and average (integer division) per BAT.\<close>

definition average :: "int list \<Rightarrow> int" where
  "average xs = (if xs = [] then 0 else sum_list xs div int (length xs))"

definition update_data_file :: "'a sched_scheme \<Rightarrow> 'a sched_scheme" where
  "update_data_file s =
     (effect (DataLine (map (\<lambda>e. (target e, average (current e))) (dict_values (bats s)))) s)
       \<lparr>bats := map (\<lambda>(k, e). (k, e\<lparr>current := []\<rparr>)) (bats s)\<rparr>"

text \<open>The loop of \<open>run\<close>: one iteration per observation, a data line every \<open>samples + 1\<close> scans.\<close>

fun run_display ::
  "('a sched_scheme \<Rightarrow> unit res \<times> 'a sched_scheme) \<Rightarrow> nat \<Rightarrow> nat \<Rightarrow> obs list \<Rightarrow> 'a sched_scheme \<Rightarrow> 'a sched_scheme" where
  "run_display sd samples scans [] s = s"
| "run_display sd samples scans (ob # obs) s =
     (if \<not> running s then s
      else
        let s1 = read_current_cps sd ob s
        in if Suc scans > samples then run_display sd samples 0 obs (update_data_file s1)
           else run_display sd samples (Suc scans) obs s1)"

section \<open>Slots\<close>

definition set_slot :: "obs \<Rightarrow> string \<Rightarrow> rat \<Rightarrow> 'a sched_scheme \<Rightarrow> 'a sched_scheme" where
  "set_slot ob bat v s =
     effect (SetCps bat v) (entry_update bat (\<lambda>e. e\<lparr>last_time := later ob, target := v\<rparr>) s)"

definition pop_slot :: "string \<Rightarrow> 'a sched_scheme \<Rightarrow> 'a sched_scheme" where
  "pop_slot bat s = entry_update bat (\<lambda>e. e\<lparr>slots := dict_modify (phase s) tl (slots e)\<rparr>) s"

definition cps_problem :: py_exc where
  "cps_problem = ExecutionRunError ''SCHEDULER Problem setting cps''"

definition try_slot ::
  "('a sched_scheme \<Rightarrow> unit res \<times> 'a sched_scheme) \<Rightarrow> obs \<Rightarrow> string \<Rightarrow> rat \<Rightarrow> 'a sched_scheme \<Rightarrow> unit res \<times> 'a sched_scheme" where
  "try_slot sd ob bat v s =
     (if set_target_cps ob bat v then (Inr (), set_slot ob bat v s) else andthen (sd s) (\<lambda>_ s. (Inl cps_problem, s)))"

text \<open>
  The loop of \<open>Scheduler_Base.refresh\<close>. The result is whether no slot is pending, or \<open>None\<close> after
  the early return of the \<open>KeyError\<close> branch. When the last slot of a BAT has run out nothing is
  set, and the BAT does not count as pending.
\<close>

fun refresh_bats ::
  "('a sched_scheme \<Rightarrow> unit res \<times> 'a sched_scheme) \<Rightarrow> obs \<Rightarrow> string list \<Rightarrow> bool \<Rightarrow> 'a sched_scheme \<Rightarrow>
     bool option res \<times> 'a sched_scheme" where
  "refresh_bats sd ob [] none s = (Inr (Some none), s)"
| "refresh_bats sd ob (bat # rest) none s =
     (case Option.bind (map_of (bats s) bat) (\<lambda>e. map_option (Pair e) (map_of (slots e) (phase s))) of
        None \<Rightarrow> (Inr None, s)
      | Some (e, []) \<Rightarrow> refresh_bats sd ob rest none s
      | Some (e, (t, v) # after) \<Rightarrow>
          if last_time e = 0 then
            andthen (try_slot sd ob bat v s) (\<lambda>_. refresh_bats sd ob rest False)
          else if t = - 1 then refresh_bats sd ob rest False s
          else if t < clock ob - last_time e then
            (case after of
               [] \<Rightarrow> refresh_bats sd ob rest none (pop_slot bat s)
             | (t', v') # _ \<Rightarrow>
                 andthen (try_slot sd ob bat v' (pop_slot bat s)) (\<lambda>_. refresh_bats sd ob rest False))
          else refresh_bats sd ob rest False s)"

definition base_refresh ::
  "('a sched_scheme \<Rightarrow> unit res \<times> 'a sched_scheme) \<Rightarrow> obs \<Rightarrow> string list \<Rightarrow> 'a sched_scheme \<Rightarrow> unit res \<times> 'a sched_scheme" where
  "base_refresh sd ob to_refresh s =
     (if \<not> cps_scheduling s \<or> to_refresh = [] then (Inr (), s)
      else andthen (refresh_bats sd ob to_refresh True s) (\<lambda>none s.
        if none = Some True \<and> phase s = ''loadgen'' then done_with (effect StopPhase s)
        else done_with s))"

definition base_start_phase ::
  "('a sched_scheme \<Rightarrow> unit res \<times> 'a sched_scheme) \<Rightarrow> obs \<Rightarrow> string \<Rightarrow> string list \<Rightarrow> 'a sched_scheme \<Rightarrow> unit res \<times> 'a sched_scheme" where
  "base_start_phase sd ob ph to_start s =
     (let s1 = s\<lparr>phase := ph\<rparr>
      in case to_start of
           [] \<Rightarrow> (Inl (IndexError ''list index out of range''), s1)
         | bat # _ \<Rightarrow>
             if map_of (bats s1) bat = None then done_with s1
             else base_refresh sd ob to_start (entry_update bat (\<lambda>e. e\<lparr>last_time := 0\<rparr>) s1))"

section \<open>The scheduler with fixed slots\<close>

text \<open>An instance of the configuration; \<open>None\<close> is a missing key.\<close>

record inst =
  inst_enable :: "bool option"
  cps_enable :: "bool option"
  inst_slots :: "(string, (rat \<times> rat) list) dict"
  inst_steps :: "(rat \<times> rat \<times> rat) option"

definition scheduled :: "inst \<Rightarrow> bool" where
  "scheduled i \<longleftrightarrow> inst_enable i = Some True \<and> cps_enable i = Some True"

definition new_entry :: "inst \<Rightarrow> entry" where
  "new_entry i = \<lparr>enabled = True, slots = inst_slots i,
     steps = (case inst_steps i of None \<Rightarrow> (0, 0, 0) | Some x \<Rightarrow> x),
     last_time = 0, current = [], last_current = 0, target = 0, used = []\<rparr>"

text \<open>\<open>Scheduler.__init__\<close> after \<open>Scheduler_Base.__init__\<close>; without traffic it is not allowed.\<close>

definition scheduler_init :: "bool \<Rightarrow> bool \<Rightarrow> (string, inst) dict \<Rightarrow> sched res" where
  "scheduler_init with_traffic disp config =
     (if \<not> with_traffic then
        Inl (ExecutionConfigurationError ''SCHEDULER not allowed in a scenario without traffic'')
      else
        let chosen = filter (\<lambda>(k, i). scheduled i) config
        in Inr \<lparr>phase = ''preexec'', cps_scheduling = (chosen \<noteq> []), running = False, logging = True,
                cps_errors = 0, display = disp, bats = map (\<lambda>(k, i). (k, new_entry i)) chosen,
                effects = []\<rparr>)"

definition refresh :: "obs \<Rightarrow> string list \<Rightarrow> sched \<Rightarrow> unit res \<times> sched" where
  "refresh = base_refresh base_shutdown"

definition start_phase :: "obs \<Rightarrow> string \<Rightarrow> string list \<Rightarrow> sched \<Rightarrow> unit res \<times> sched" where
  "start_phase = base_start_phase base_shutdown"

end
