(* ===== verification/Capacity.thy ===== *)
theory Capacity
  imports Scheduler
begin

text \<open>
  \<open>EC_Scheduler\<close> of \<open>HSS_rtc/HSS_rtc_lib/components/scheduler.py\<close>: the capacity handler. It raises
  the CPS period by period until a quality limit is reached, lowers it to the highest value
  that is good, optionally validates that value with one processor back, and leaves a table of
  slots for the rest of the load phase. The state machine is \<open>fsm\<close>.
\<close>

section \<open>State\<close>

datatype fsm_status = Initial | Search | Search_down | Validate | Finished

text \<open>A factor is a number or the name of a macro.\<close>

record slot =
  factor :: "string + rat"
  slot_time :: rat

record reference =
  ref_id :: string
  ref_slots :: "slot list"
  target_load_factor :: rat

record ec = sched +
  fsm :: fsm_status
  period :: rat
  max_load :: rat
  max_error_rate :: rat
  max_load_variance :: rat
  load_variance :: rat
  dc_enabled :: bool
  validation_time :: rat
  traffic_slots :: "slot list"
  traffic_ref :: "reference list"
  update_monitor :: bool
  ec_last_time :: rat
  candidate :: int
  ec_load :: "rat option"
  load_samples :: "rat list"
  period_load :: "int list"
  rump_up :: bool
  pl_for_dc :: "string option"
  pending_to_start :: "int option"
  nof_steps :: nat
  macro_value :: "string \<Rightarrow> rat option"

definition load_validation_enabled :: "ec \<Rightarrow> bool" where
  "load_validation_enabled s \<longleftrightarrow> max_load s \<noteq> - 1"

section \<open>Load of a period\<close>

text \<open>\<open>load_media\<close>: the samples are integers here, and the division of integers rounds down.\<close>

definition load_media :: "ec \<Rightarrow> int" where
  "load_media s = average (map int_of (load_samples s))"

text \<open>\<open>purge_load_samples\<close>: what was measured before the load first reached the mean is dropped.\<close>

definition purge_load_samples :: "int \<Rightarrow> ec \<Rightarrow> ec" where
  "purge_load_samples media s =
     (let kept = dropWhile (\<lambda>x. if rump_up s then x < of_int media else x > of_int media) (load_samples s)
      in if kept = [] then s else s\<lparr>load_samples := kept\<rparr>)"

text \<open>\<open>np.var\<close>\<close>

definition mean :: "rat list \<Rightarrow> rat" where
  "mean xs = sum_list xs / of_nat (length xs)"

definition variance :: "rat list \<Rightarrow> rat" where
  "variance xs = (if xs = [] then 0 else mean (map (\<lambda>x. (x - mean xs) ^ 2) xs))"

text \<open>\<open>load_stable\<close>, a property with effects: it appends to \<open>period_load\<close>.\<close>

definition load_stable :: "ec \<Rightarrow> bool \<times> ec" where
  "load_stable s =
     (if load_media s \<noteq> 0 then
        let s1 = (if fsm s \<noteq> Validate then purge_load_samples (load_media s) s else s);
            s2 = s1\<lparr>period_load := period_load s1 @ [load_media s1], load_variance := variance (load_samples s1)\<rparr>
        in (load_variance s2 \<le> max_load_variance s2, s2)
      else (False, s\<lparr>period_load := period_load s @ [- 1]\<rparr>))"

section \<open>Slots and references\<close>

definition slot_factor :: "slot \<Rightarrow> ec \<Rightarrow> rat res" where
  "slot_factor sl s =
     (case (case factor sl of Inr x \<Rightarrow> Some x | Inl m \<Rightarrow> macro_value s m) of
        Some x \<Rightarrow> Inr x
      | None \<Rightarrow> Inl (ExecutionRunError ''CAPACITY_HANDLER Factor value not valid''))"

text \<open>
  \<open>int(float(factor) * x)\<close> for each slot in turn: the slots computed, and the exception that
  ended the loop early, if any.
\<close>

fun scaled_slots :: "rat \<Rightarrow> slot list \<Rightarrow> ec \<Rightarrow> (rat \<times> rat) list \<times> py_exc option" where
  "scaled_slots x [] s = ([], None)"
| "scaled_slots x (sl # sls) s =
     (case slot_factor sl s of
        Inl e \<Rightarrow> ([], Some e)
      | Inr f \<Rightarrow>
          (case scaled_slots x sls s of
             (rest, e) \<Rightarrow> ((slot_time sl, of_int (int_of (f * x))) # rest, e)))"

fun load_slots :: "rat \<Rightarrow> slot list \<Rightarrow> ec \<Rightarrow> (rat \<times> rat \<times> rat) list res" where
  "load_slots x [] s = Inr []"
| "load_slots x (sl # sls) s =
     (case slot_factor sl s of
        Inl e \<Rightarrow> Inl e
      | Inr f \<Rightarrow>
          (case load_slots x sls s of
             Inl e \<Rightarrow> Inl e | Inr rest \<Rightarrow> Inr ((f * x, slot_time sl, max_load_variance s) # rest)))"

text \<open>
  \<open>build_cps_table\<close>, BAT by BAT: the key \<open>loadgen\<close> becomes a list of slots, empty for a BAT with
  fewer than two targets. \<open>last_time\<close>, \<open>current\<close> and \<open>target\<close> are reset inside the loop over the
  slots.
\<close>

definition reset_entry :: "(rat \<times> rat) list \<Rightarrow> entry \<Rightarrow> entry" where
  "reset_entry table e =
     (let e1 = e\<lparr>slots := dict_set ''loadgen'' table (slots e)\<rparr>
      in if table = [] then e1 else e1\<lparr>last_time := 0, current := [], target := 0\<rparr>)"

definition build_bat_table :: "string \<Rightarrow> ec \<Rightarrow> unit res \<times> ec" where
  "build_bat_table bat s =
     (case map_of (bats s) bat of
        None \<Rightarrow> (Inr (), s)
      | Some e \<Rightarrow>
          if length (used e) > 1 then
            (case scaled_slots (last (used e)) (traffic_slots s) s of
               (table, problem) \<Rightarrow>
                 (case problem of None \<Rightarrow> Inr () | Some x \<Rightarrow> Inl x, entry_update bat (reset_entry table) s))
          else (Inr (), entry_update bat (reset_entry []) s))"

definition build_cps_table :: "ec \<Rightarrow> unit res \<times> ec" where
  "build_cps_table s = for_each build_bat_table (dict_keys (bats s)) s"

definition reconfigure_load_monitor :: "ec \<Rightarrow> unit res \<times> ec" where
  "reconfigure_load_monitor s =
     (case ec_load s of
        Some l \<Rightarrow>
          if update_monitor s then
            (case load_slots l (traffic_slots s) s of
               Inl e \<Rightarrow> (Inl e, s) | Inr sl \<Rightarrow> (Inr (), effect (Reconfigure sl) s))
          else (Inr (), s)
      | None \<Rightarrow> (Inr (), s))"

definition delete_reference :: "ec \<Rightarrow> ec" where
  "delete_reference s = foldl (\<lambda>s r. effect (DeleteRef (ref_id r)) s) s (traffic_ref s)"

fun reference_table :: "reference \<Rightarrow> (string \<times> entry) list \<Rightarrow> ec \<Rightarrow> (string \<times> (rat \<times> rat) list) list res" where
  "reference_table r [] s = Inr []"
| "reference_table r ((bat, e) # es) s =
     (if used e = [] then Inl (IndexError ''list index out of range'')
      else case scaled_slots (last (used e)) (ref_slots r) s of
        (_, Some x) \<Rightarrow> Inl x
      | (table, None) \<Rightarrow>
          (case reference_table r es s of Inl x \<Rightarrow> Inl x | Inr rest \<Rightarrow> Inr ((bat, table) # rest)))"

definition create_one_reference :: "reference \<Rightarrow> ec \<Rightarrow> unit res \<times> ec" where
  "create_one_reference r s =
     (case reference_table r (bats s) s of
        Inl e \<Rightarrow> (Inl e, s)
      | Inr table \<Rightarrow>
          if load_validation_enabled s then
            (case ec_load s of
               None \<Rightarrow> (Inl (TypeError ''unsupported operand type(s)''), s)
             | Some l \<Rightarrow>
                 (case load_slots l (ref_slots r) s of
                    Inl e \<Rightarrow> (Inl e, s)
                  | Inr loads \<Rightarrow>
                      (Inr (), effect (UpdateRef (ref_id r) table loads
                         (int_of (l * target_load_factor r))) s)))
          else (Inr (), effect (UpdateRef (ref_id r) table [] (- 1)) s))"

definition create_reference :: "ec \<Rightarrow> unit res \<times> ec" where
  "create_reference s = for_each create_one_reference (traffic_ref s) s"

section \<open>Locking a processor\<close>

text \<open>
  The wait for the connections: each observation is whether they are up, or the seconds the
  iteration took. \<open>None\<close> means that the observations end before the loop does.
\<close>

fun wait_up :: "rat \<Rightarrow> (bool \<times> rat) list \<Rightarrow> bool option" where
  "wait_up max_time [] = None"
| "wait_up max_time ((True, _) # rest) = Some True"
| "wait_up max_time ((False, elapsed) # rest) =
     (if max_time - elapsed < 0 then Some False else wait_up (max_time - elapsed) rest)"

record cabinet_obs =
  payload :: "string list option"
  lock_fails :: bool
  unlock_fails :: bool
  connections :: "(bool \<times> rat) list"

definition lock_problem :: "string \<Rightarrow> py_exc" where
  "lock_problem pl = ExecutionRunError (''CAPACITY_HANDLER Problem locking  '' @ pl)"

definition lock_PL :: "cabinet_obs \<Rightarrow> ec \<Rightarrow> unit res \<times> ec" where
  "lock_PL c s =
     (case payload c of
        None \<Rightarrow> (Inl (ExecutionRunError ''CAPACITY_HANDLER problem finding a PL to be locked''), s)
      | Some [] \<Rightarrow> (Inl (ExecutionRunError ''CAPACITY_HANDLER not found a PL to be locked''), s)
      | Some (pl # _) \<Rightarrow>
          if lock_fails c then (Inl (lock_problem pl), s)
          else
            let s1 = effect (LockPL pl) (s\<lparr>pl_for_dc := Some pl\<rparr>)
            in if wait_up 60 (connections c) = Some True then (Inr (), s1)
               else (Inl (lock_problem pl), s1))"

definition unlock_PL :: "cabinet_obs \<Rightarrow> ec \<Rightarrow> ec" where
  "unlock_PL c s =
     (case pl_for_dc s of
        None \<Rightarrow> s
      | Some pl \<Rightarrow> if unlock_fails c then s else effect (UnlockPL pl) (s\<lparr>pl_for_dc := None\<rparr>))"

section \<open>Report and shutdown\<close>

text \<open>
  \<open>scheduling_info\<close>: a line per step, with the load of the period and the target of every BAT.
  The load of a period is appended when it ends, so the look-up of the running one is out of
  range.
\<close>

fun info_row :: "nat \<Rightarrow> (string \<times> entry) list \<Rightarrow> (string \<times> rat) list res" where
  "info_row n [] = Inr []"
| "info_row n ((bat, e) # es) =
     (if n < length (used e) then
        (case info_row n es of Inl x \<Rightarrow> Inl x | Inr row \<Rightarrow> Inr ((bat, used e ! n) # row))
      else Inl (IndexError ''list index out of range''))"

fun info_rows :: "nat list \<Rightarrow> ec \<Rightarrow> (int \<times> (string \<times> rat) list) list res" where
  "info_rows [] s = Inr []"
| "info_rows (n # ns) s =
     (if load_validation_enabled s \<and> \<not> n < length (period_load s)
      then Inl (IndexError ''list index out of range'')
      else case info_row n (bats s) of
        Inl x \<Rightarrow> Inl x
      | Inr row \<Rightarrow>
          (case info_rows ns s of
             Inl x \<Rightarrow> Inl x
           | Inr rows \<Rightarrow>
               Inr ((if load_validation_enabled s then period_load s ! n else - 1, row) # rows)))"

definition scheduling_info :: "ec \<Rightarrow> (int \<times> (string \<times> rat) list) list res" where
  "scheduling_info s = info_rows [0..<nof_steps s] s"

definition ec_shutdown :: "cabinet_obs \<Rightarrow> ec \<Rightarrow> unit res \<times> ec" where
  "ec_shutdown c s =
     (let s1 = (if running s then
                  let t = s\<lparr>running := False\<rparr>; t' = (if cps_display t then effect Plot t else t)
                  in unlock_PL c t'
                else s)
      in case scheduling_info s1 of
           Inl e \<Rightarrow> (Inl e, s1)
         | Inr _ \<Rightarrow> (Inr (), s1\<lparr>logging := False\<rparr>))"

section \<open>One period\<close>

text \<open>The common end of every failure: the verdict, the end of the phase and the final state.\<close>

definition give_up :: "string \<Rightarrow> ec \<Rightarrow> ec" where
  "give_up why s = (effect StopPhase (effect (FailVerdict why) s))\<lparr>fsm := Finished\<rparr>"

text \<open>
  \<open>for bat_instance in bat_to_refresh\<close>: a BAT without data gives up, and so does the body when it
  answers \<open>False\<close>; both return from \<open>refresh\<close>.
\<close>

fun each_bat :: "(string \<Rightarrow> entry \<Rightarrow> ec \<Rightarrow> bool res \<times> ec) \<Rightarrow> string list \<Rightarrow> ec \<Rightarrow> bool res \<times> ec" where
  "each_bat f [] s = (Inr True, s)"
| "each_bat f (bat # rest) s =
     (case map_of (bats s) bat of
        None \<Rightarrow> (Inr False, give_up ''Unable to find the Capacity'' s)
      | Some e \<Rightarrow>
          (case f bat e s of
             (Inr True, s') \<Rightarrow> each_bat f rest s'
           | (r, s') \<Rightarrow> (r, s')))"

definition set_value :: "obs \<Rightarrow> string \<Rightarrow> rat \<Rightarrow> ec \<Rightarrow> bool res \<times> ec" where
  "set_value ob bat v s =
     (if set_target_cps ob bat v then
        (Inr True, effect (SetCps bat v) (entry_update bat (\<lambda>e. e\<lparr>target := v, used := used e @ [v]\<rparr>) s))
      else (Inr False, give_up ''problem setting cps'' s))"

definition set_step :: "obs \<Rightarrow> string \<Rightarrow> rat \<Rightarrow> ec \<Rightarrow> bool res \<times> ec" where
  "set_step ob bat v s =
     (case set_value ob bat v s of
        (Inr True, s') \<Rightarrow> (Inr True, s'\<lparr>load_samples := []\<rparr>)
      | r \<Rightarrow> r)"

definition set_initial :: "obs \<Rightarrow> string \<Rightarrow> entry \<Rightarrow> ec \<Rightarrow> bool res \<times> ec" where
  "set_initial ob bat e s =
     (case set_step ob bat (fst (steps e)) s of
        (Inr True, s') \<Rightarrow> (Inr True, s'\<lparr>fsm := Search\<rparr>)
      | r \<Rightarrow> r)"

definition search_bat :: "obs \<Rightarrow> string \<Rightarrow> entry \<Rightarrow> ec \<Rightarrow> bool res \<times> ec" where
  "search_bat ob bat e s =
     (if fsm s = Search_down then
        let s1 = s\<lparr>candidate := int (length (used e)) - 2\<rparr>
        in if candidate s1 < 0
           then (Inr False, give_up ''The first step does not match quality criteria'' s1)
           else set_step ob bat (last (used e) - snd (snd (steps e))) s1
      else if \<bar>target e\<bar> > 100 \<and> \<bar>target e - of_int (last_current e)\<bar> > target e / 4
      then (Inr False, give_up ''could be paused'' s)
      else set_step ob bat (target e + fst (snd (steps e))) s)"

definition down_bat :: "obs \<Rightarrow> string \<Rightarrow> entry \<Rightarrow> ec \<Rightarrow> bool res \<times> ec" where
  "down_bat ob bat e s =
     (case (py_nth (used e) (- 1), py_nth (used e) (candidate s)) of
        (Inr x, Inr good) \<Rightarrow>
          if good > x - snd (snd (steps e))
          then (Inr False, give_up ''next CPS value is lower than the latest good value'' s)
          else set_step ob bat (x - snd (snd (steps e))) s
      | (Inl p, _) \<Rightarrow> (Inl p, s)
      | (_, Inl p) \<Rightarrow> (Inl p, s))"

definition validate_bat :: "obs \<Rightarrow> string \<Rightarrow> entry \<Rightarrow> ec \<Rightarrow> bool res \<times> ec" where
  "validate_bat ob bat e s =
     (case py_nth (used e) (- 1) of
        Inl p \<Rightarrow> (Inl p, s)
      | Inr x \<Rightarrow>
          (case set_value ob bat (8 / 10 * x) s of
             (Inr True, s') \<Rightarrow> (Inr True, s'\<lparr>candidate := int (length (used e))\<rparr>)
           | r \<Rightarrow> r))"

text \<open>After a loop that did not return: the next period begins.\<close>

definition next_period :: "obs \<Rightarrow> ec \<Rightarrow> ec" where
  "next_period ob s =
     (effect StartMonitoring (s\<lparr>nof_steps := Suc (nof_steps s)\<rparr>))\<lparr>ec_last_time := later ob\<rparr>"

definition if_continues :: "bool res \<times> ec \<Rightarrow> (ec \<Rightarrow> ec) \<Rightarrow> unit res \<times> ec" where
  "if_continues p f = andthen p (\<lambda>go s. done_with (if go then f s else s))"

text \<open>The capacity is found: references, the table of slots, and the report.\<close>

definition found :: "bool \<Rightarrow> ec \<Rightarrow> unit res \<times> ec" where
  "found monitor s =
     andthen (create_reference s) (\<lambda>_ s.
     andthen (build_cps_table s) (\<lambda>_ s.
       let s1 = s\<lparr>fsm := Finished\<rparr>
       in case scheduling_info s1 of
            Inl e \<Rightarrow> (Inl e, s1)
          | Inr _ \<Rightarrow>
              if traffic_slots s1 = [] then done_with (effect StopPhase s1)
              else
                andthen (if load_validation_enabled s1
                         then andthen (reconfigure_load_monitor s1) (\<lambda>_ s. done_with (effect EnableLoad s))
                         else done_with s1)
                  (\<lambda>_ s. done_with (if monitor then effect StartMonitoring s else s))))"

definition on_validate :: "obs \<Rightarrow> bool \<Rightarrow> ec \<Rightarrow> unit res \<times> ec" where
  "on_validate ob steady s =
     (if tps_error_rate ob > max_error_rate s \<or> \<not> steady
      then done_with (give_up ''Unable to validate DC'' s)
      else found False
        (s\<lparr>ec_load := Some (if load_validation_enabled s then of_int (last (period_load s)) else - 1)\<rparr>))"

definition limit_reached :: "obs \<Rightarrow> bool \<Rightarrow> ec \<Rightarrow> bool" where
  "limit_reached ob steady s \<longleftrightarrow> error_rate ob > max_error_rate s \<or>
     load_validation_enabled s \<and> (of_int (last (period_load s)) \<ge> max_load s \<or> \<not> steady)"

definition on_search :: "obs \<Rightarrow> bool \<Rightarrow> string list \<Rightarrow> ec \<Rightarrow> unit res \<times> ec" where
  "on_search ob steady to_refresh s =
     if_continues
       (each_bat (search_bat ob) to_refresh
         (if limit_reached ob steady s then s\<lparr>fsm := Search_down, rump_up := False\<rparr> else s))
       (next_period ob)"

definition load_good :: "bool \<Rightarrow> ec \<Rightarrow> bool" where
  "load_good steady s \<longleftrightarrow> \<not> load_validation_enabled s \<or>
     steady \<and> of_int (last (period_load s)) \<le> max_load s"

definition measured_load :: "bool \<Rightarrow> ec \<Rightarrow> rat" where
  "measured_load steady s =
     (if load_validation_enabled s \<and> load_good steady s then of_int (last (period_load s)) else - 1)"

definition on_search_down :: "cabinet_obs \<Rightarrow> obs \<Rightarrow> bool \<Rightarrow> string list \<Rightarrow> ec \<Rightarrow> unit res \<times> ec" where
  "on_search_down c ob steady to_refresh s =
     (let s1 = s\<lparr>ec_load := Some (measured_load steady s)\<rparr>
      in if tps_error_rate ob \<le> max_error_rate s1 \<and> load_good steady s1 then
           if dc_enabled s1 then
             if_continues (each_bat (validate_bat ob) to_refresh (unlock_PL c s1))
               (\<lambda>s. next_period ob (s\<lparr>load_samples := [], fsm := Validate, period := validation_time s\<rparr>))
           else found True s1
         else if_continues (each_bat (down_bat ob) to_refresh s1) (next_period ob))"

text \<open>
  The report of a period: without load validation \<open>period_load[-1]\<close> is read although nothing was
  ever appended to it.
\<close>

definition end_of_period :: "cabinet_obs \<Rightarrow> obs \<Rightarrow> string list \<Rightarrow> ec \<Rightarrow> unit res \<times> ec" where
  "end_of_period c ob to_refresh s =
     (let s1 = effect SkipCheck (effect StopMonitoring s);
          (steady, s2) = (if load_validation_enabled s1 then load_stable s1 else (True, s1))
      in if period_load s2 = [] then (Inl (IndexError ''list index out of range''), s2)
         else case fsm s2 of
           Validate \<Rightarrow> on_validate ob steady s2
         | Search \<Rightarrow> on_search ob steady to_refresh s2
         | Search_down \<Rightarrow> on_search_down c ob steady to_refresh s2
         | _ \<Rightarrow> done_with (give_up ''Wrong FSM state'' s2))"

definition ec_refresh :: "cabinet_obs \<Rightarrow> obs \<Rightarrow> string list \<Rightarrow> ec \<Rightarrow> unit res \<times> ec" where
  "ec_refresh c ob to_refresh s =
     (if \<not> cps_scheduling s \<or> to_refresh = [] then done_with s
      else if phase s \<in> {''preexec'', ''postexec''} \<or> fsm s = Finished
      then base_refresh (ec_shutdown c) ob to_refresh s
      else if ec_last_time s = 0 then
        if_continues (each_bat (set_initial ob) to_refresh
          (s\<lparr>ec_last_time := clock ob, nof_steps := Suc (nof_steps s)\<rparr>)) (\<lambda>s. s)
      else if period s < clock ob - ec_last_time s then end_of_period c ob to_refresh s
      else done_with (if load_validation_enabled s
                      then s\<lparr>ec_load := Some (load_now ob), load_samples := load_samples s @ [load_now ob]\<rparr>
                      else s))"

definition ec_start_phase ::
  "cabinet_obs \<Rightarrow> obs \<Rightarrow> string \<Rightarrow> string list \<Rightarrow> ec \<Rightarrow> unit res \<times> ec" where
  "ec_start_phase c ob ph to_start s =
     (let s1 = s\<lparr>phase := ph\<rparr>
      in if ph \<in> {''preexec'', ''postexec''} then base_start_phase (ec_shutdown c) ob ph to_start s1
         else
           let s2 = (if load_validation_enabled s1 then effect DisableLoad s1 else s1)
           in andthen (if dc_enabled s2 \<and> pl_for_dc s2 = None then lock_PL c s2 else done_with s2) (\<lambda>_ s.
                let left = (case pending_to_start s of
                              None \<Rightarrow> int (length (instances ob)) | Some n \<Rightarrow> n) - 1;
                    s3 = s\<lparr>pending_to_start := Some left\<rparr>
                in if left = 0 then
                     andthen (ec_refresh c ob (instances ob) s3) (\<lambda>_ s. done_with (s\<lparr>pending_to_start := None\<rparr>))
                   else done_with s3))"

section \<open>The constructor\<close>

text \<open>The configuration \<open>Capacity_handler\<close>; \<open>None\<close> is a missing key. Message texts are shortened.\<close>

record cap_config =
  cfg_enable :: "bool option"
  cfg_period :: "rat option"
  cfg_max_load :: "rat option"
  cfg_error_rate :: "rat option"
  cfg_variance :: "rat option"
  cfg_dc :: "bool option"
  cfg_traffic_slots :: "slot list option"
  cfg_references :: "reference list option"
  cfg_update_monitor :: "bool option"
  cfg_validation_time :: "rat option"

record monitors =
  has_error_monitor :: bool
  has_diaproxy :: bool
  has_load_monitor :: bool

definition config_error :: "string \<Rightarrow> py_exc" where
  "config_error why = ExecutionConfigurationError (''CAPACITY_HANDLER '' @ why)"

definition ec_blank :: "bool \<Rightarrow> (string \<Rightarrow> rat option) \<Rightarrow> ec" where
  "ec_blank disp macros =
     \<lparr>phase = ''preexec'', cps_scheduling = False, running = False, logging = True, cps_errors = 0,
      display = disp, bats = [], effects = [],
      fsm = Initial, period = - 1, max_load = 0, max_error_rate = - 1, max_load_variance = 0,
      load_variance = 0, dc_enabled = False, validation_time = - 1, traffic_slots = [],
      traffic_ref = [], update_monitor = False, ec_last_time = 0, candidate = - 1, ec_load = None,
      load_samples = [], period_load = [], rump_up = True, pl_for_dc = None,
      pending_to_start = None, nof_steps = 0, macro_value = macros\<rparr>"

definition read_capacity :: "cap_config \<Rightarrow> ec \<Rightarrow> ec option" where
  "read_capacity cc s =
     Option.bind (cfg_period cc) (\<lambda>p. Option.bind (cfg_max_load cc) (\<lambda>ml.
     Option.bind (cfg_error_rate cc) (\<lambda>er. Option.bind (cfg_variance cc) (\<lambda>va.
     Option.bind (cfg_dc cc) (\<lambda>dc. Option.bind (cfg_traffic_slots cc) (\<lambda>ts.
     Option.bind (cfg_references cc) (\<lambda>rs. Option.bind (cfg_update_monitor cc) (\<lambda>um.
       Some (s\<lparr>period := p, max_load := ml, max_error_rate := er, max_load_variance := va,
               dc_enabled := dc, traffic_slots := ts, traffic_ref := rs, update_monitor := um,
               validation_time := (case cfg_validation_time cc of
                                     None \<Rightarrow> validation_time s | Some v \<Rightarrow> v)\<rparr>)))))))))"

definition ec_entry :: "inst \<Rightarrow> entry" where
  "ec_entry i = (new_entry i)\<lparr>slots := dict_del ''loadgen'' (inst_slots i)\<rparr>"

definition add_instances :: "(string, inst) dict \<Rightarrow> ec \<Rightarrow> ec res" where
  "add_instances config s =
     (let chosen = filter (\<lambda>(k, i). scheduled i) config
      in if \<exists>(k, i) \<in> set chosen. inst_steps i = None
         then Inl (ExecutionConfigurationError ''Missing cps_scheduler loadgen parameter'')
         else Inr ((delete_reference s)\<lparr>bats := map (\<lambda>(k, i). (k, ec_entry i)) chosen, cps_scheduling := True\<rparr>))"

definition ec_init ::
  "bool \<Rightarrow> bool \<Rightarrow> monitors \<Rightarrow> (string \<Rightarrow> rat option) \<Rightarrow> cap_config \<Rightarrow> (string, inst) dict \<Rightarrow> ec res" where
  "ec_init with_traffic disp m macros cc config =
     (let s = ec_blank disp macros
      in if \<not> with_traffic then Inl (config_error ''not allowed in a scenario without traffic'')
         else if \<not> has_error_monitor m then Inl (config_error ''Monitor error is mandatory'')
         else if \<not> has_diaproxy m then Inl (config_error ''Diaproxy Handler is mandatory'')
         else case cfg_enable cc of
           None \<Rightarrow> Inr s
         | Some en \<Rightarrow>
             (case (if en then read_capacity cc s else Some s) of
                None \<Rightarrow> Inl (config_error ''Error parsing json file'')
              | Some s1 \<Rightarrow>
                  if load_validation_enabled s1 \<and> \<not> has_load_monitor m
                  then Inl (config_error ''Monitor load is mandatory'')
                  else add_instances config s1))"

end
