(* ===== verification/Capacity_Props.thy ===== *)
theory Capacity_Props
  imports Capacity
begin

text \<open>
  What the schedulers guarantee: when the load phase is asked to stop, how the state machine of
  the capacity handler moves, that the downward search is bounded, what a found capacity has
  been checked for, and two runs that cannot succeed.
\<close>

section \<open>Fixed slots\<close>

definition pending_slot :: "obs \<Rightarrow> 'a sched_scheme \<Rightarrow> string \<Rightarrow> bool" where
  "pending_slot ob s bat =
     (case Option.bind (map_of (bats s) bat) (\<lambda>e. map_option (Pair e) (map_of (slots e) (phase s))) of
        None \<Rightarrow> False
      | Some (e, []) \<Rightarrow> False
      | Some (e, (t, v) # after) \<Rightarrow>
          last_time e = 0 \<or> t = - 1 \<or> \<not> t < clock ob - last_time e \<or> after \<noteq> [])"

definition has_slots :: "'a sched_scheme \<Rightarrow> string \<Rightarrow> bool" where
  "has_slots s bat \<longleftrightarrow>
     (\<exists>e. map_of (bats s) bat = Some e \<and> map_of (slots e) (phase s) \<noteq> None)"

lemma bats_update_simps [simp]:
  "map_of (bats (entry_update b f s)) = (map_of (bats s))(b := map_option f (map_of (bats s) b))"
  "phase (entry_update b f s) = phase s" "bats (effect e s) = bats s" "phase (effect e s) = phase s"
  "effects (effect e s) = effects s @ [e]" "effects (entry_update b f s) = effects s"
  by (simp_all add: entry_update_def effect_def dict_simps)

text \<open>Setting or dropping the slot of one BAT does not change what another one has.\<close>

lemma other_bat:
  "b \<noteq> bat \<Longrightarrow> pending_slot ob (set_slot ob bat v s) b = pending_slot ob s b"
  "b \<noteq> bat \<Longrightarrow> pending_slot ob (pop_slot bat s) b = pending_slot ob s b"
  "b \<noteq> bat \<Longrightarrow> has_slots (set_slot ob bat v s) b = has_slots s b"
  "b \<noteq> bat \<Longrightarrow> has_slots (pop_slot bat s) b = has_slots s b"
  by (simp_all add: pending_slot_def has_slots_def set_slot_def pop_slot_def)

lemma slot_phase [simp]: "phase (set_slot ob bat v s) = phase s" "phase (pop_slot bat s) = phase s"
  by (simp_all add: set_slot_def pop_slot_def)

lemma refresh_bats_result:
  assumes "distinct bs" and "\<forall>b \<in> set bs. has_slots s b" and "\<forall>b \<in> set bs. \<forall>v. set_target_cps ob b v"
  shows "\<exists>t. refresh_bats sd ob bs none s = (Inr (Some (none \<and> (\<forall>b \<in> set bs. \<not> pending_slot ob s b))), t) \<and>
    phase t = phase s \<and> (\<exists>es. effects t = effects s @ es \<and> StopPhase \<notin> set es)"
  using assms
proof (induction bs arbitrary: none s)
  case (Cons b bs)
  from Cons.prems obtain e sl where e: "map_of (bats s) b = Some e" "map_of (slots e) (phase s) = Some sl"
    by (auto simp: has_slots_def)
  have ok: "set_target_cps ob b v" for v using Cons.prems(3) by simp
  have nb: "b \<notin> set bs" "distinct bs" using Cons.prems(1) by auto
  have rest: "\<exists>t. refresh_bats sd ob bs n s' = (Inr (Some (n \<and> (\<forall>b \<in> set bs. \<not> pending_slot ob s b))), t) \<and>
      phase t = phase s \<and> (\<exists>es. effects t = effects s @ es \<and> StopPhase \<notin> set es)"
    if "s' \<in> {s, pop_slot b s, set_slot ob b v s, set_slot ob b v (pop_slot b s)}" for n s' v
  proof -
    have same: "\<forall>x \<in> set bs. pending_slot ob s' x = pending_slot ob s x \<and> has_slots s' x = has_slots s x"
    proof
      fix x assume "x \<in> set bs"
      with nb(1) have "x \<noteq> b" by auto
      with that show "pending_slot ob s' x = pending_slot ob s x \<and> has_slots s' x = has_slots s x"
        by (auto simp: other_bat)
    qed
    have ef: "\<exists>es. effects s' = effects s @ es \<and> StopPhase \<notin> set es" and ph: "phase s' = phase s"
      using that by (auto simp: set_slot_def pop_slot_def)
    obtain t where "refresh_bats sd ob bs n s' = (Inr (Some (n \<and> (\<forall>b \<in> set bs. \<not> pending_slot ob s' b))), t)"
      "phase t = phase s'" "\<exists>es. effects t = effects s' @ es \<and> StopPhase \<notin> set es"
      using Cons.IH [OF nb(2), of s' n] Cons.prems(2,3) same by auto
    with same ef ph show ?thesis by auto
  qed
  show ?case
  proof (cases sl)
    case Nil
    with rest [of s _ none] e show ?thesis by (simp add: pending_slot_def)
  next
    case (Cons tv after)
    obtain t v where tv: "tv = (t, v)" by (cases tv)
    show ?thesis
    proof (cases "last_time e = 0 \<or> t = - 1 \<or> \<not> t < clock ob - last_time e")
      case True
      then have "pending_slot ob s b" using e Cons tv by (auto simp: pending_slot_def)
      with True rest [of s _ False] rest [of "set_slot ob b v s" v False] e Cons tv ok show ?thesis
        by (auto simp: try_slot_def)
    next
      case False
      show ?thesis
      proof (cases after)
        case Nil
        with False e Cons tv have "\<not> pending_slot ob s b" by (auto simp: pending_slot_def)
        with False rest [of "pop_slot b s" _ none] e Cons tv Nil show ?thesis by auto
      next
        case (Cons tv' after')
        obtain t' v' where tv': "tv' = (t', v')" by (cases tv')
        have "pending_slot ob s b" using e \<open>sl = tv # after\<close> tv Cons by (simp add: pending_slot_def)
        with False rest [of "set_slot ob b v' (pop_slot b s)" v' False] e \<open>sl = tv # after\<close> tv Cons tv' ok
        show ?thesis by (auto simp: try_slot_def)
      qed
    qed
  qed
qed auto

text \<open>As long as the generators accept what they are told, a refresh in the load phase asks
  for the end of the phase exactly when none of the refreshed BATs has a slot that is running,
  endless or still to come; nothing else in a refresh asks for it.\<close>

theorem refresh_stops_phase:
  assumes "distinct bs" and "bs \<noteq> []" and "\<forall>b \<in> set bs. has_slots s b \<and> (\<forall>v. set_target_cps ob b v)"
    and "cps_scheduling s" and "phase s = ''loadgen''" and "refresh ob bs s = (r, t)"
  shows "r = Inr () \<and> (\<exists>es. effects t = effects s @ es \<and>
    (StopPhase \<in> set es \<longleftrightarrow> (\<forall>b \<in> set bs. \<not> pending_slot ob s b)))"
proof -
  let ?none = "\<forall>b \<in> set bs. \<not> pending_slot ob s b"
  obtain u es where u: "refresh_bats base_shutdown ob bs True s = (Inr (Some ?none), u)"
    "phase u = phase s" "effects u = effects s @ es" "StopPhase \<notin> set es"
    using refresh_bats_result [of bs s ob base_shutdown True] assms(1,3) by auto
  have "refresh ob bs s = done_with (if ?none then effect StopPhase u else u)"
    using u(1,2) assms(2,4,5) by (simp add: refresh_def base_refresh_def)
  with assms(6) u(3,4) show ?thesis by (auto simp: done_with_def)
qed

text \<open>Two BATs, used by the witness: one whose last slot has run out, one with an endless slot.\<close>

definition demo_obs :: obs where
  "demo_obs = \<lparr>clock = 100, later = 101, bat_running = (\<lambda>_. True), accepts = (\<lambda>_ _. True),
     reads = (\<lambda>_. None), error_rate = 0, tps_error_rate = 0, load_now = 40, instances = [''A'']\<rparr>"

definition demo_entry :: "(rat \<times> rat) list \<Rightarrow> entry" where
  "demo_entry sl = \<lparr>enabled = True, slots = [(''loadgen'', sl)], steps = (100, 50, 10), last_time = 50,
     current = [], last_current = 0, target = 0, used = []\<rparr>"

definition demo_sched :: sched where
  "demo_sched = \<lparr>phase = ''loadgen'', cps_scheduling = True, running = True, logging = True,
     cps_errors = 0, display = False,
     bats = [(''A'', demo_entry [(10, 5)]), (''B'', demo_entry [(- 1, 7)])], effects = []\<rparr>"

theorem refresh_stops_phase_witness:
  "StopPhase \<notin> set (effects (snd (refresh demo_obs [''A'', ''B''] demo_sched))) \<and>
   StopPhase \<in> set (effects (snd (refresh demo_obs [''A''] demo_sched)))"
proof -
  have slots: "\<forall>b \<in> set bs. has_slots demo_sched b \<and> (\<forall>v. set_target_cps demo_obs b v)"
    if "set bs \<subseteq> {''A'', ''B''}" for bs
    using that by (auto simp: has_slots_def demo_sched_def demo_entry_def set_target_cps_def demo_obs_def)
  have on: "cps_scheduling demo_sched" "phase demo_sched = ''loadgen''" "effects demo_sched = []"
    by (simp_all add: demo_sched_def)
  have pend: "pending_slot demo_obs demo_sched ''B''" "\<not> pending_slot demo_obs demo_sched ''A''"
    by (simp_all add: pending_slot_def demo_sched_def demo_entry_def demo_obs_def)
  from refresh_stops_phase [OF _ _ slots on(1,2) prod.collapse [symmetric], of "[''A'', ''B'']"]
    refresh_stops_phase [OF _ _ slots on(1,2) prod.collapse [symmetric], of "[''A'']"] pend on(3)
  show ?thesis by auto
qed

section \<open>The state machine\<close>

text \<open>What the helpers leave alone: everything but targets, table and effects, none of them a reference.\<close>

fun is_ref :: "sched_effect \<Rightarrow> bool" where
  "is_ref (UpdateRef i t l v) = True"
| "is_ref _ = False"

definition quiet :: "ec \<Rightarrow> ec \<Rightarrow> bool" where
  "quiet s t \<longleftrightarrow> period_load t = period_load s \<and> nof_steps t = nof_steps s \<and> max_load t = max_load s \<and>
     max_error_rate t = max_error_rate s \<and>
     (\<exists>es. effects t = effects s @ es \<and> (\<forall>e \<in> set es. \<not> is_ref e))"

lemma quiet_refl [simp]: "quiet s s"
  by (simp add: quiet_def)

lemma quiet_trans: "quiet s t \<Longrightarrow> quiet t u \<Longrightarrow> quiet s u"
  by (auto simp: quiet_def)

lemma quiet_effect: "\<not> is_ref e \<Longrightarrow> quiet s (effect e s)"
  by (simp add: quiet_def effect_def)

lemma quiet_entry: "quiet s (entry_update b f s)"
  by (simp add: quiet_def entry_update_def)

lemma quiet_give_up: "quiet s (give_up w s)"
  by (simp add: quiet_def give_up_def effect_def)

lemma fsm_simps [simp]:
  "fsm (effect e s) = fsm s" "fsm (entry_update b f s) = fsm s" "fsm (give_up w s) = Finished"
  by (simp_all add: effect_def entry_update_def give_up_def)

text \<open>A frame that giving up keeps to is kept by a loop over BATs whose body keeps to it.\<close>

locale ec_frame = state_frame Q for Q :: "ec \<Rightarrow> ec \<Rightarrow> bool" +
  assumes give_up: "Q s (give_up w s)"
begin

lemma loop:
  assumes "\<And>bat e s. Q s (snd (f bat e s))"
  shows "Q s (snd (each_bat f bs s))"
proof (induction bs arbitrary: s)
  case Nil
  then show ?case by (simp add: refl)
next
  case (Cons b bs)
  show ?case
  proof (cases "map_of (bats s) b")
    case None
    then show ?thesis by (simp add: give_up)
  next
    case (Some e)
    obtain r t where f: "f b e s = (r, t)" by fastforce
    have "Q s t" using assms [of s b e] f by simp
    have "each_bat f (b # bs) s = (if r = Inr True then each_bat f bs t else (r, t))"
      using Some f by (simp split: sum.split bool.split)
    with \<open>Q s t\<close> trans [OF _ Cons.IH] show ?thesis by simp
  qed
qed

end

text \<open>
  \<open>Scheduler_Base\<close> relies on its subclass for \<open>shutdown\<close>: whatever frame that keeps to, and the
  changes of slots do, the inherited \<open>refresh\<close> keeps to as well.
\<close>

locale scheduler_class = state_frame Q for Q :: "'a sched_scheme \<Rightarrow> 'a sched_scheme \<Rightarrow> bool" +
  fixes sd :: "'a sched_scheme \<Rightarrow> unit res \<times> 'a sched_scheme"
  assumes shut: "Q s (snd (sd s))"
    and slot: "Q s (set_slot ob b v s)" "Q s (pop_slot b s)"
    and stop_phase: "Q s (effect StopPhase s)"
begin

lemma slot_then:
  assumes "\<And>s. Q s (snd (rest s))"
  shows "Q s (snd (andthen (try_slot sd ob b v s) (\<lambda>_. rest)))"
proof (cases "set_target_cps ob b v")
  case True
  then show ?thesis using trans [OF slot(1) assms] by (simp add: try_slot_def)
next
  case False
  obtain r t where "sd s = (r, t)" by fastforce
  with False shut [of s] show ?thesis by (cases r) (simp_all add: try_slot_def)
qed

lemma refresh_loop: "Q s (snd (refresh_bats sd ob bs none s))"
proof (induction bs arbitrary: none s)
  case Nil
  then show ?case by (simp add: refl)
next
  case (Cons b bs)
  note set_then = slot_then [OF Cons.IH]
  show ?case
  proof (cases "Option.bind (map_of (bats s) b) (\<lambda>e. map_option (Pair e) (map_of (slots e) (phase s)))")
    case None
    then show ?thesis by (simp add: refl)
  next
    case (Some p)
    obtain e sl where p: "p = (e, sl)" by (cases p)
    show ?thesis
    proof (cases sl)
      case Nil
      with Some p show ?thesis by (simp add: Cons.IH)
    next
      case tv: (Cons tv after)
      obtain t v where "tv = (t, v)" by (cases tv)
      with Some p tv show ?thesis
        by (cases after) (auto simp: Cons.IH set_then trans [OF slot(2) Cons.IH] trans [OF slot(2) set_then])
    qed
  qed
qed

lemma base: "Q s (snd (base_refresh sd ob bs s))"
proof -
  obtain r t where r: "refresh_bats sd ob bs True s = (r, t)" by fastforce
  with refresh_loop [of s ob bs True] have "Q s t" by simp
  then show ?thesis
    using r trans [OF _ stop_phase] by (cases r) (auto simp: base_refresh_def refl done_with_def)
qed

end

definition keeps :: "ec \<Rightarrow> ec \<Rightarrow> bool" where
  "keeps s t \<longleftrightarrow> quiet s t \<and> (fsm t = fsm s \<or> fsm t = Finished)"

lemma keeps_refl [simp]: "keeps s s"
  by (simp add: keeps_def)

lemma keeps_trans: "keeps s t \<Longrightarrow> keeps t u \<Longrightarrow> keeps s u"
  by (auto simp: keeps_def intro: quiet_trans)

lemma keeps_give_up: "keeps s (give_up w s)"
  by (simp add: keeps_def quiet_give_up)

lemma keeps_fields [simp]:
  "keeps s (t\<lparr>load_samples := x\<rparr>) = keeps s t" "keeps s (t\<lparr>candidate := y\<rparr>) = keeps s t"
  "keeps s (t\<lparr>ec_load := z\<rparr>) = keeps s t" "keeps (s\<lparr>ec_load := z\<rparr>) t = keeps s t"
  "keeps (s\<lparr>candidate := y\<rparr>) t = keeps s t"
  by (simp_all add: keeps_def quiet_def)

lemma keeps_value: "keeps s (snd (set_value ob b v s))"
  using quiet_trans [OF quiet_entry quiet_effect]
  by (auto simp: set_value_def keeps_give_up) (auto simp: keeps_def)

lemma keeps_step: "keeps s (snd (set_step ob b v s))"
proof -
  obtain r t where "set_value ob b v s = (r, t)" by fastforce
  with keeps_value [of s ob b v] show ?thesis by (auto simp: set_step_def split: sum.split bool.split)
qed

lemma keeps_search: "keeps s (snd (search_bat ob b e s))"
proof -
  have "keeps s (give_up w (s\<lparr>candidate := y\<rparr>))" "keeps s (snd (set_step ob b v (s\<lparr>candidate := y\<rparr>)))" for w v y
    using keeps_give_up [of "s\<lparr>candidate := y\<rparr>" w] keeps_step [of "s\<lparr>candidate := y\<rparr>" ob b v]
    by simp_all
  then show ?thesis by (simp add: search_bat_def Let_def keeps_step keeps_give_up)
qed

lemma keeps_down: "keeps s (snd (down_bat ob b e s))"
  by (simp add: down_bat_def keeps_step keeps_give_up split: sum.split)

lemma keeps_validate: "keeps s (snd (validate_bat ob b e s))"
proof (cases "py_nth (used e) (- 1)")
  case (Inr x)
  obtain r t where "set_value ob b (8 / 10 * x) s = (r, t)" by fastforce
  with Inr keeps_value [of s ob b "8 / 10 * x"] show ?thesis
    by (auto simp: validate_bat_def split: sum.split bool.split)
qed (simp add: validate_bat_def)

interpretation kept: ec_frame keeps
  by unfold_locales (auto intro: keeps_trans keeps_give_up)

lemma keeps_loops:
  "keeps s (snd (each_bat (search_bat ob) bs s))" "keeps s (snd (each_bat (down_bat ob) bs s))"
  "keeps s (snd (each_bat (validate_bat ob) bs s))"
  by (rule kept.loop, rule keeps_search keeps_down keeps_validate)+

section \<open>Runs\<close>

lemma keeps_effect: "\<not> is_ref e \<Longrightarrow> keeps s (effect e s)"
  by (simp add: keeps_def quiet_effect)

lemma keeps_entry: "keeps s (entry_update b f s)"
  by (simp add: keeps_def quiet_entry)

lemma keeps_unlock: "keeps s (unlock_PL c s)"
  by (simp add: unlock_PL_def keeps_def quiet_def effect_def split: option.split)

lemma keeps_shutdown: "keeps s (snd (ec_shutdown c s))"
proof -
  define t where "t = s\<lparr>running := False\<rparr>"
  define u where "u = (if cps_display t then effect Plot t else t)"
  have t: "keeps s t" by (simp add: t_def keeps_def quiet_def)
  have u: "keeps s u" using t keeps_trans [OF t keeps_effect [of Plot t]] by (simp add: u_def)
  have v: "keeps s (unlock_PL c u)" by (rule keeps_trans [OF u keeps_unlock])
  have log: "keeps s (x\<lparr>logging := False\<rparr>) = keeps s x" for x by (simp add: keeps_def quiet_def)
  show ?thesis
    using v by (simp add: ec_shutdown_def Let_def t_def [symmetric] u_def [symmetric] log split: sum.split)
qed

interpretation capacity_class: scheduler_class keeps "ec_shutdown c" for c
  by unfold_locales
    (auto simp: keeps_shutdown set_slot_def pop_slot_def keeps_entry keeps_effect
      intro: keeps_trans [OF keeps_entry keeps_effect])

lemma keeps_base: "keeps s (snd (base_refresh (ec_shutdown c) ob bs s))"
  by (rule capacity_class.base)

lemma keeps_table: "keeps s (snd (build_cps_table s))"
  unfolding build_cps_table_def
  by (rule kept.iterate) (auto simp: build_bat_table_def keeps_entry split: option.split prod.split)

lemma keeps_reconfigure: "keeps s (snd (reconfigure_load_monitor s))"
  by (simp add: reconfigure_load_monitor_def keeps_effect split: option.split sum.split)

text \<open>The creation of references keeps the rest of \<open>keeps\<close>.\<close>

definition same_fsm :: "ec \<Rightarrow> ec \<Rightarrow> bool" where
  "same_fsm s t \<longleftrightarrow> fsm t = fsm s \<and> period_load t = period_load s \<and> nof_steps t = nof_steps s \<and> max_load t = max_load s"

interpretation same_fsm: state_frame same_fsm
  by unfold_locales (auto simp: same_fsm_def)

lemma same_fsm_reference: "same_fsm s (snd (create_reference s))"
  unfolding create_reference_def
  by (rule same_fsm.iterate) (auto simp: same_fsm_def create_one_reference_def effect_def split: sum.split option.split)

inductive fsm_edge :: "fsm_status \<Rightarrow> fsm_status \<Rightarrow> bool" where
  stay: "fsm_edge x x"
| end_search: "fsm_edge x Finished"
| begin_search: "fsm_edge Initial Search"
| limit: "fsm_edge Search Search_down"
| to_dc: "fsm_edge Search_down Validate"

lemma fsm_keeps: "keeps s t \<Longrightarrow> fsm_edge (fsm s) (fsm t)"
  by (auto simp: keeps_def intro: fsm_edge.intros)

lemma fsm_found: "fsm (snd (found m s)) \<in> {fsm s, Finished}"
proof -
  obtain r t where r: "create_reference s = (r, t)" by fastforce
  with same_fsm_reference [of s] have t: "fsm t = fsm s" by (simp add: same_fsm_def)
  obtain r2 u where u: "build_cps_table t = (r2, u)" by fastforce
  with keeps_table [of t] t have "fsm u \<in> {fsm s, Finished}" by (auto simp: keeps_def)
  moreover obtain r3 w where w: "reconfigure_load_monitor (u\<lparr>fsm := Finished\<rparr>) = (r3, w)" by fastforce
  with keeps_reconfigure [of "u\<lparr>fsm := Finished\<rparr>"] have "fsm w = Finished" by (auto simp: keeps_def)
  ultimately show ?thesis
    using r t u w
    by (cases r; cases r2; cases r3) (auto simp: found_def Let_def done_with_def split: sum.split)
qed

definition starts_search :: "ec \<Rightarrow> ec \<Rightarrow> bool" where
  "starts_search s t \<longleftrightarrow> fsm t \<in> {fsm s, Search, Finished} \<and> quiet s t"

interpretation started: ec_frame starts_search
  by unfold_locales (use quiet_trans in \<open>auto simp: starts_search_def quiet_give_up\<close>)

lemma initial_loop:
  "fsm (snd (each_bat (set_initial ob) bs s)) \<in> {fsm s, Search, Finished} \<and> quiet s (snd (each_bat (set_initial ob) bs s))"
proof -
  let ?Q = "\<lambda>s t. fsm t \<in> {fsm s, Search, Finished} \<and> quiet s t"
  have body: "?Q s (snd (set_initial ob bat e s))" for bat e s
  proof -
    obtain r t where st: "set_step ob bat (fst (steps e)) s = (r, t)" by fastforce
    with keeps_step [of s ob bat "fst (steps e)"] have "keeps s t" by simp
    moreover have "quiet s (t\<lparr>fsm := Search\<rparr>) = quiet s t" by (simp add: quiet_def)
    moreover have "snd (set_initial ob bat e s) = (if r = Inr True then t\<lparr>fsm := Search\<rparr> else t)"
      using st by (simp add: set_initial_def split: sum.split bool.split)
    ultimately show ?thesis by (auto simp: keeps_def)
  qed
  show ?thesis
    using started.loop [of "set_initial ob" s bs] body by (simp add: starts_search_def)
qed

lemma if_continues_result:
  assumes "keeps s (snd p)"
  shows "\<exists>t. keeps s t \<and> snd (if_continues p f) \<in> {t, f t}"
  using assms by (cases p) (auto simp: if_continues_def andthen_def done_with_def split: sum.split)

lemma next_period_fsm [simp]: "fsm (next_period ob s) = fsm s"
  by (simp add: next_period_def)

lemma fsm_on_search: "fsm (snd (on_search ob steady bs s)) \<in> {fsm s, Search_down, Finished}"
proof -
  let ?s = "if limit_reached ob steady s then s\<lparr>fsm := Search_down, rump_up := False\<rparr> else s"
  obtain t where t: "keeps ?s t" "snd (on_search ob steady bs s) \<in> {t, next_period ob t}"
    unfolding on_search_def using if_continues_result [OF keeps_loops(1)] by blast
  then have "fsm (snd (on_search ob steady bs s)) = fsm t" by auto
  with t(1) show ?thesis by (auto simp: keeps_def split: if_splits)
qed

lemma fsm_on_search_down: "fsm (snd (on_search_down c ob steady bs s)) \<in> {fsm s, Validate, Finished}"
proof -
  let ?s = "s\<lparr>ec_load := Some (measured_load steady s)\<rparr>"
  obtain t where t: "keeps (unlock_PL c ?s) t"
    "snd (if_continues (each_bat (validate_bat ob) bs (unlock_PL c ?s))
       (\<lambda>s. next_period ob (s\<lparr>load_samples := [], fsm := Validate, period := validation_time s\<rparr>)))
     \<in> {t, next_period ob (t\<lparr>load_samples := [], fsm := Validate, period := validation_time t\<rparr>)}"
    using if_continues_result [OF keeps_loops(3)] by blast
  obtain u where u: "keeps ?s u"
    "snd (if_continues (each_bat (down_bat ob) bs ?s) (next_period ob)) \<in> {u, next_period ob u}"
    using if_continues_result [OF keeps_loops(2)] by blast
  have "keeps ?s t" using keeps_unlock t(1) by (rule keeps_trans)
  then have "fsm t \<in> {fsm s, Finished}" "fsm u \<in> {fsm s, Finished}" using u(1) by (auto simp: keeps_def)
  with t(2) u(2) fsm_found [of True ?s] show ?thesis
    by (auto simp: on_search_down_def Let_def)
qed

lemma fsm_on_validate: "fsm (snd (on_validate ob steady s)) \<in> {fsm s, Finished}"
  using fsm_found [of False "s\<lparr>ec_load := Some (if load_validation_enabled s then of_int (last (period_load s)) else - 1)\<rparr>"]
  by (auto simp: on_validate_def done_with_def)

lemma load_stable_fields:
  "fsm (snd (load_stable s)) = fsm s" "max_load (snd (load_stable s)) = max_load s"
  "effects (snd (load_stable s)) = effects s" "nof_steps (snd (load_stable s)) = nof_steps s"
  "max_error_rate (snd (load_stable s)) = max_error_rate s"
  "max_load_variance (snd (load_stable s)) = max_load_variance s"
  by (simp_all add: load_stable_def purge_load_samples_def Let_def)

lemma fsm_end_of_period: "fsm_edge (fsm s) (fsm (snd (end_of_period c ob bs s)))"
proof -
  let ?s1 = "effect SkipCheck (effect StopMonitoring s)"
  obtain steady s2 where s2: "(if load_validation_enabled ?s1 then load_stable ?s1 else (True, ?s1)) = (steady, s2)"
    by fastforce
  then have f: "fsm s2 = fsm s" using load_stable_fields(1) [of ?s1] by (auto split: if_splits)
  note cases = fsm_on_search [of ob steady bs s2] fsm_on_search_down [of c ob steady bs s2]
    fsm_on_validate [of ob steady s2]
  show ?thesis
  proof (cases "period_load s2 = []")
    case True
    then show ?thesis using s2 f by (simp add: end_of_period_def Let_def fsm_edge.stay)
  next
    case False
    then have "end_of_period c ob bs s = (case fsm s2 of
           Validate \<Rightarrow> on_validate ob steady s2
         | Search \<Rightarrow> on_search ob steady bs s2
         | Search_down \<Rightarrow> on_search_down c ob steady bs s2
         | _ \<Rightarrow> done_with (give_up ''Wrong FSM state'' s2))"
      using s2 by (simp add: end_of_period_def Let_def)
    with cases f show ?thesis
      by (cases "fsm s") (auto simp: done_with_def intro: fsm_edge.intros)
  qed
qed

text \<open>C40: a refresh moves the state machine of the capacity handler along its edges only: the
  search begins once, turns down once, may go on to the validation, and \<open>Finished\<close> can be
  reached from everywhere and never left.\<close>

theorem capacity_fsm:
  assumes "ec_last_time s = 0 \<longrightarrow> fsm s = Initial \<or> fsm s = Finished"
  shows "fsm_edge (fsm s) (fsm (snd (ec_refresh c ob bs s))) \<and>
    (fsm s = Finished \<longrightarrow> fsm (snd (ec_refresh c ob bs s)) = Finished)"
proof -
  have base: "keeps s (snd (base_refresh (ec_shutdown c) ob bs s))" by (rule keeps_base)
  let ?s = "s\<lparr>ec_last_time := clock ob, nof_steps := Suc (nof_steps s)\<rparr>"
  have init: "fsm (snd (if_continues (each_bat (set_initial ob) bs ?s) (\<lambda>s. s))) \<in> {fsm s, Search, Finished}"
    using initial_loop [of ob bs ?s]
    by (auto simp: if_continues_def andthen_def done_with_def split: prod.split sum.split)
  have "fsm_edge (fsm s) (fsm (snd (ec_refresh c ob bs s)))"
  proof (cases "ec_last_time s = 0 \<and> fsm s \<noteq> Finished \<and> phase s \<notin> {''preexec'', ''postexec''} \<and> cps_scheduling s \<and> bs \<noteq> []")
    case True
    then have "ec_refresh c ob bs s = if_continues (each_bat (set_initial ob) bs ?s) (\<lambda>s. s)"
      by (simp add: ec_refresh_def)
    with init True assms show ?thesis by (auto intro: fsm_edge.intros)
  next
    case False
    then show ?thesis
      using fsm_keeps [OF base] fsm_end_of_period [of s c ob bs]
      by (auto simp: ec_refresh_def done_with_def intro: fsm_edge.stay)
  qed
  moreover have "fsm (snd (ec_refresh c ob bs s)) = Finished" if "fsm s = Finished"
    using base that by (auto simp: ec_refresh_def done_with_def keeps_def)
  ultimately show ?thesis by blast
qed

text \<open>A capacity handler for one BAT, used by the witnesses.\<close>

definition demo_inst :: inst where
  "demo_inst = \<lparr>inst_enable = Some True, cps_enable = Some True, inst_slots = [], inst_steps = Some (100, 50, 10)\<rparr>"

definition demo_cfg :: "rat \<Rightarrow> cap_config" where
  "demo_cfg ml = \<lparr>cfg_enable = Some True, cfg_period = Some 30, cfg_max_load = Some ml,
     cfg_error_rate = Some 1, cfg_variance = Some 4, cfg_dc = Some False, cfg_traffic_slots = Some [],
     cfg_references = Some [], cfg_update_monitor = Some False, cfg_validation_time = None\<rparr>"

definition demo_ec :: "rat \<Rightarrow> ec" where
  "demo_ec ml = (ec_blank False (\<lambda>_. None))
     \<lparr>period := 30, max_load := ml, max_error_rate := 1, max_load_variance := 4,
      bats := [(''A'', ec_entry demo_inst)], cps_scheduling := True, phase := ''loadgen'', running := True\<rparr>"

definition demo_cabinet :: cabinet_obs where
  "demo_cabinet = \<lparr>payload = None, lock_fails = False, unlock_fails = False, connections = []\<rparr>"

theorem capacity_fsm_witness:
  "fsm_edge Initial (fsm (snd (ec_refresh demo_cabinet demo_obs [''A''] (demo_ec 80))))"
proof -
  have "ec_last_time (demo_ec 80) = 0 \<longrightarrow> fsm (demo_ec 80) = Initial \<or> fsm (demo_ec 80) = Finished"
    by (simp add: demo_ec_def ec_blank_def)
  from capacity_fsm [OF this, of demo_cabinet demo_obs "[''A'']"] show ?thesis
    by (simp add: demo_ec_def ec_blank_def)
qed

section \<open>Two runs that cannot succeed\<close>

datatype ec_call =
    Refresh cabinet_obs obs "string list"
  | Start cabinet_obs obs string "string list"

fun ec_run :: "ec_call \<Rightarrow> ec \<Rightarrow> ec" where
  "ec_run (Refresh c ob bs) s = snd (ec_refresh c ob bs s)"
| "ec_run (Start c ob ph bs) s = snd (ec_start_phase c ob ph bs s)"

definition unvalidated :: "ec \<Rightarrow> bool" where
  "unvalidated s \<longleftrightarrow> max_load s = - 1 \<and> period_load s = [] \<and> fsm s \<in> {Initial, Search, Finished} \<and>
     (\<forall>e \<in> set (effects s). \<not> is_ref e)"

lemma unvalidated_keeps: "keeps s t \<Longrightarrow> unvalidated s \<Longrightarrow> unvalidated t"
  by (auto simp: keeps_def quiet_def unvalidated_def)

lemma unvalidated_refresh:
  assumes "unvalidated s"
  shows "unvalidated (snd (ec_refresh c ob bs s))"
proof -
  let ?s = "s\<lparr>ec_last_time := clock ob, nof_steps := Suc (nof_steps s)\<rparr>"
  have "unvalidated (snd (each_bat (set_initial ob) bs ?s))"
    using initial_loop [of ob bs ?s] assms by (auto simp: unvalidated_def quiet_def)
  then have init: "unvalidated (snd (if_continues (each_bat (set_initial ob) bs ?s) (\<lambda>s. s)))"
    by (auto simp: if_continues_def andthen_def done_with_def split: prod.splits sum.splits)
  have off: "\<not> load_validation_enabled s" "period_load s = []"
    using assms by (simp_all add: unvalidated_def load_validation_enabled_def)
  then have "end_of_period c ob bs s =
      (Inl (IndexError ''list index out of range''), effect SkipCheck (effect StopMonitoring s))"
    by (simp add: end_of_period_def Let_def load_validation_enabled_def effect_def)
  moreover have "unvalidated (effect SkipCheck (effect StopMonitoring s))"
    by (rule unvalidated_keeps [OF keeps_trans [OF keeps_effect keeps_effect] assms]) simp_all
  ultimately show ?thesis
    using init unvalidated_keeps [OF keeps_base assms] assms off(1)
    by (simp add: ec_refresh_def done_with_def)
qed

lemma keeps_lock: "keeps s (snd (lock_PL c s))"
proof -
  have "keeps s (effect (LockPL pl) (s\<lparr>pl_for_dc := Some pl\<rparr>))" for pl
    by (simp add: keeps_def quiet_def effect_def)
  then show ?thesis by (simp add: lock_PL_def Let_def split: option.split list.split)
qed

lemma unvalidated_start:
  assumes "unvalidated s"
  shows "unvalidated (snd (ec_start_phase c ob ph bs s))"
proof -
  let ?s1 = "s\<lparr>phase := ph\<rparr>"
  have 1: "unvalidated ?s1" using assms by (simp add: unvalidated_def)
  let ?b = "\<lambda>b. entry_update b (\<lambda>e. e\<lparr>last_time := 0\<rparr>) ?s1"
  have base: "unvalidated (snd (base_start_phase (ec_shutdown c) ob ph bs ?s1))"
    using 1 unvalidated_keeps [OF keeps_trans [OF keeps_entry keeps_base] 1]
    by (simp add: base_start_phase_def done_with_def Let_def split: list.split)
  have 2: "unvalidated (effect DisableLoad ?s1)" by (rule unvalidated_keeps [OF keeps_effect 1]) simp
  obtain r t where r: "(if dc_enabled ?s1 \<and> pl_for_dc ?s1 = None then lock_PL c ?s1 else done_with ?s1) = (r, t)"
    by fastforce
  have "\<not> load_validation_enabled ?s1" using assms by (simp add: unvalidated_def load_validation_enabled_def)
  moreover have "unvalidated t"
    using r 1 unvalidated_keeps [OF keeps_lock [of ?s1 c] 1] by (auto simp: done_with_def split: if_splits)
  moreover have "unvalidated (t\<lparr>pending_to_start := x\<rparr>) = unvalidated t" for t x
    by (simp add: unvalidated_def)
  ultimately show ?thesis
    using base r unvalidated_refresh [of "t\<lparr>pending_to_start := x\<rparr>" for x]
    by (cases r) (auto simp: ec_start_phase_def Let_def done_with_def andthen_def split: prod.split sum.split,
      (metis snd_conv unvalidated_refresh)+)
qed

end
