(* ===== verification/Capacity_Runs.thy ===== *)
theory Capacity_Runs
  imports Capacity_Props
begin

text \<open>
  What whole runs of the capacity handler guarantee: a configuration that can never find a
  capacity, what a found capacity has been measured for, a shutdown that comes in the middle of
  a step, and the length of the downward search.
\<close>

section \<open>A run without load validation\<close>

lemma unvalidated_run: "unvalidated s \<Longrightarrow> unvalidated (ec_run a s)"
  by (cases a) (simp_all add: unvalidated_refresh unvalidated_start)

lemma unvalidated_runs: "unvalidated s \<Longrightarrow> unvalidated (fold ec_run as s)"
  by (induction as arbitrary: s) (simp_all add: unvalidated_run)

lemma delete_reference_fields:
  "fsm (delete_reference s) = fsm s" "max_load (delete_reference s) = max_load s"
  "period_load (delete_reference s) = period_load s" "nof_steps (delete_reference s) = nof_steps s"
  "effects (delete_reference s) = effects s @ map (\<lambda>r. DeleteRef (ref_id r)) (traffic_ref s)"
proof -
  have "fsm t = fsm s \<and> max_load t = max_load s \<and> period_load t = period_load s \<and> nof_steps t = nof_steps s \<and>
      effects t = effects s @ map (\<lambda>r. DeleteRef (ref_id r)) rs"
    if "t = foldl (\<lambda>s r. effect (DeleteRef (ref_id r)) s) s rs" for t :: ec and rs
    using that
  proof (induction rs arbitrary: t rule: rev_induct)
    case (snoc r rs)
    then show ?case by (simp add: effect_def)
  qed simp
  from this [of "delete_reference s" "traffic_ref s"]
  show "fsm (delete_reference s) = fsm s" "max_load (delete_reference s) = max_load s"
    "period_load (delete_reference s) = period_load s" "nof_steps (delete_reference s) = nof_steps s"
    "effects (delete_reference s) = effects s @ map (\<lambda>r. DeleteRef (ref_id r)) (traffic_ref s)"
    by (auto simp: delete_reference_def)
qed

lemma ec_init_fields:
  assumes "ec_init wt disp m macros cc config = Inr s"
  shows "fsm s = Initial \<and> period_load s = [] \<and> nof_steps s = 0 \<and> (\<forall>e \<in> set (effects s). \<not> is_ref e) \<and>
    (cfg_enable cc = Some True \<longrightarrow> cfg_max_load cc = Some (max_load s))"
proof -
  have read: "fsm t = Initial \<and> period_load t = [] \<and> nof_steps t = 0 \<and> effects t = [] \<and> cfg_max_load cc = Some (max_load t)"
    if "read_capacity cc (ec_blank disp macros) = Some t" for t
    using that by (auto simp: read_capacity_def ec_blank_def bind_eq_Some_conv)
  have blank: "fsm (ec_blank disp macros) = Initial" "period_load (ec_blank disp macros) = []"
    "nof_steps (ec_blank disp macros) = 0" "effects (ec_blank disp macros) = []"
    by (simp_all add: ec_blank_def)
  have add: "fsm u = fsm t \<and> period_load u = period_load t \<and> nof_steps u = nof_steps t \<and> max_load u = max_load t \<and>
      effects u = effects t @ map (\<lambda>r. DeleteRef (ref_id r)) (traffic_ref t)"
    if "add_instances config t = Inr u" for t u
    using that delete_reference_fields [of t] by (auto simp: add_instances_def Let_def split: if_splits)
  have no_ref: "\<forall>e \<in> set (map (\<lambda>r. DeleteRef (ref_id r)) rs). \<not> is_ref e" for rs :: "reference list"
    by auto
  show ?thesis
  proof (cases "cfg_enable cc")
    case None
    then show ?thesis using assms blank by (auto simp: ec_init_def Let_def split: if_splits)
  next
    case (Some en)
    with assms obtain t where t: "(if en then read_capacity cc (ec_blank disp macros) else Some (ec_blank disp macros)) = Some t"
      and u: "add_instances config t = Inr s"
      by (auto simp: ec_init_def Let_def split: if_splits option.splits)
    from add [OF u] t read blank no_ref [of "traffic_ref t"] Some show ?thesis by (auto split: if_splits)
  qed
qed

text \<open>With the load validation disabled (\<open>max_load\<close> is -1) no run of a capacity handler ever
  creates a reference or turns the search down, whatever the measurements: the report of the
  first period reads the last element of the empty list of period loads and raises.\<close>

theorem no_capacity_without_load_validation:
  assumes "ec_init wt disp m macros cc config = Inr s" and "cfg_enable cc = Some True"
    and "cfg_max_load cc = Some (- 1)"
  shows "fsm (fold ec_run as s) \<in> {Initial, Search, Finished} \<and>
    (\<forall>e \<in> set (effects (fold ec_run as s)). \<not> is_ref e)"
proof -
  have "unvalidated s" using ec_init_fields [OF assms(1)] assms(2,3) by (auto simp: unvalidated_def)
  then have "unvalidated (fold ec_run as s)" by (rule unvalidated_runs)
  then show ?thesis by (auto simp: unvalidated_def)
qed

definition demo_monitors :: monitors where
  "demo_monitors = \<lparr>has_error_monitor = True, has_diaproxy = True, has_load_monitor = True\<rparr>"

lemma demo_init:
  "\<exists>s. ec_init True False demo_monitors (\<lambda>_. None) (demo_cfg ml) [(''A'', demo_inst)] = Inr s"
  by (simp add: ec_init_def demo_monitors_def demo_cfg_def read_capacity_def add_instances_def Let_def
      demo_inst_def)

theorem no_capacity_without_load_validation_witness:
  "\<exists>s. ec_init True False demo_monitors (\<lambda>_. None) (demo_cfg (- 1)) [(''A'', demo_inst)] = Inr s \<and>
     fsm (fold ec_run [Start demo_cabinet demo_obs ''loadgen'' [''A''], Refresh demo_cabinet demo_obs [''A'']] s)
       \<in> {Initial, Search, Finished}"
proof -
  obtain s where s: "ec_init True False demo_monitors (\<lambda>_. None) (demo_cfg (- 1)) [(''A'', demo_inst)] = Inr s"
    using demo_init by blast
  have "cfg_enable (demo_cfg (- 1)) = Some True" "cfg_max_load (demo_cfg (- 1)) = Some (- 1)"
    by (simp_all add: demo_cfg_def)
  with no_capacity_without_load_validation [OF s] s show ?thesis by blast
qed

section \<open>What a found capacity has been measured for\<close>

definition references :: "ec \<Rightarrow> sched_effect list" where
  "references s = filter is_ref (effects s)"

lemma quiet_references: "quiet s t \<Longrightarrow> references t = references s"
  by (auto simp: quiet_def references_def)

lemma keeps_references: "keeps s t \<Longrightarrow> references t = references s"
  by (simp add: keeps_def quiet_references)

lemma references_simps [simp]:
  "references (s\<lparr>fsm := x\<rparr>) = references s" "references (s\<lparr>ec_last_time := y\<rparr>) = references s"
  "references (s\<lparr>load_samples := z\<rparr>) = references s" "references (s\<lparr>period := p\<rparr>) = references s"
  "references (s\<lparr>ec_load := l\<rparr>) = references s" "references (s\<lparr>nof_steps := n\<rparr>) = references s"
  "references (s\<lparr>rump_up := b\<rparr>) = references s"
  "\<not> is_ref e \<Longrightarrow> references (effect e s) = references s"
  "references (next_period ob s) = references s"
  "references (give_up w s) = references s"
  by (simp_all add: references_def effect_def next_period_def give_up_def)

lemma if_continues_references:
  assumes "keeps s (snd p)" and "\<And>t. references (f t) = references t"
  shows "references (snd (if_continues p f)) = references s"
proof -
  from assms(1) obtain t where "keeps s t" "snd (if_continues p f) \<in> {t, f t}"
    using if_continues_result by blast
  with assms(2) [of t] keeps_references [of s t] show ?thesis by auto
qed

lemma on_search_references: "references (snd (on_search ob steady bs s)) = references s"
proof -
  let ?s = "if limit_reached ob steady s then s\<lparr>fsm := Search_down, rump_up := False\<rparr> else s"
  have "references (snd (on_search ob steady bs s)) = references ?s"
    unfolding on_search_def by (rule if_continues_references [OF keeps_loops(1)]) simp
  then show ?thesis by simp
qed

lemma on_search_down_references:
  assumes "references (snd (on_search_down c ob steady bs s)) \<noteq> references s"
  shows "tps_error_rate ob \<le> max_error_rate s \<and> load_good steady s"
proof (rule ccontr)
  assume bad: "\<not> ?thesis"
  let ?s = "s\<lparr>ec_load := Some (measured_load steady s)\<rparr>"
  have "\<not> (tps_error_rate ob \<le> max_error_rate ?s \<and> load_good steady ?s)"
    using bad by (simp add: load_good_def load_validation_enabled_def)
  then have "on_search_down c ob steady bs s = if_continues (each_bat (down_bat ob) bs ?s) (next_period ob)"
    by (auto simp: on_search_down_def Let_def)
  with if_continues_references [OF keeps_loops(2), of "next_period ob" ob bs ?s] assms show False by simp
qed

lemma purge_fields:
  "max_load_variance (purge_load_samples m s) = max_load_variance s"
  "period_load (purge_load_samples m s) = period_load s"
  "load_media (t\<lparr>period_load := x, load_variance := y\<rparr>) = load_media t"
  by (simp_all add: purge_load_samples_def Let_def load_media_def)

lemma load_stable_result:
  "fst (load_stable s) \<Longrightarrow> variance (load_samples (snd (load_stable s))) \<le> max_load_variance s \<and>
     period_load (snd (load_stable s)) = period_load s @ [load_media (snd (load_stable s))]"
  by (simp add: load_stable_def Let_def purge_fields split: if_splits)

lemma initial_references:
  "references (snd (if_continues (each_bat (set_initial ob) bs s) (\<lambda>s. s))) = references s"
proof -
  obtain r t where r: "each_bat (set_initial ob) bs s = (r, t)" by fastforce
  with initial_loop [of ob bs s] have "references t = references s" by (simp add: quiet_references)
  with r show ?thesis by (cases r) (auto simp: if_continues_def done_with_def)
qed

text \<open>The state at the end of a period, with the load of the period judged.\<close>

definition judged :: "ec \<Rightarrow> bool \<times> ec" where
  "judged s = (let s1 = effect SkipCheck (effect StopMonitoring s)
               in if load_validation_enabled s1 then load_stable s1 else (True, s1))"

lemma judged_fields:
  assumes "judged s = (steady, u)"
  shows "fsm u = fsm s" "max_load u = max_load s" "max_error_rate u = max_error_rate s"
    "max_load_variance u = max_load_variance s" "references u = references s" "nof_steps u = nof_steps s"
    "load_validation_enabled u = load_validation_enabled s"
    "load_validation_enabled s \<Longrightarrow> length (period_load u) = Suc (length (period_load s))"
proof -
  let ?s1 = "effect SkipCheck (effect StopMonitoring s)"
  have 1: "snd (load_stable ?s1) = u \<or> ?s1 = u" using assms by (auto simp: judged_def Let_def split: if_splits)
  then show fields: "fsm u = fsm s" "max_load u = max_load s" "max_error_rate u = max_error_rate s"
    "max_load_variance u = max_load_variance s" "references u = references s" "nof_steps u = nof_steps s"
    using load_stable_fields [of ?s1] by (auto simp: effect_def references_def)
  then show "load_validation_enabled u = load_validation_enabled s" by (simp add: load_validation_enabled_def)
  show "length (period_load u) = Suc (length (period_load s))" if "load_validation_enabled s"
    using assms that
    by (auto simp: judged_def Let_def load_validation_enabled_def effect_def load_stable_def purge_load_samples_def
        split: if_splits)
qed

lemma end_of_period_judged:
  "judged s = (steady, u) \<Longrightarrow> end_of_period c ob bs s =
     (if period_load u = [] then (Inl (IndexError ''list index out of range''), u)
      else case fsm u of
           Validate \<Rightarrow> on_validate ob steady u
         | Search \<Rightarrow> on_search ob steady bs u
         | Search_down \<Rightarrow> on_search_down c ob steady bs u
         | _ \<Rightarrow> done_with (give_up ''Wrong FSM state'' u))"
  by (simp add: end_of_period_def judged_def Let_def split: if_splits)

text \<open>C8: a refresh that publishes references does so at the end of a period of the downward
  search or of the validation, on the measurements of that period: the rate of errors per
  transaction is within its limit, and with the load validation enabled the variance of the
  load is within its limit and, in the search, so is its mean.\<close>

theorem reference_was_measured:
  assumes "references (snd (ec_refresh c ob bs s)) \<noteq> references s"
  shows "period s < clock ob - ec_last_time s \<and> fsm s \<in> {Search_down, Validate} \<and>
    tps_error_rate ob \<le> max_error_rate s \<and>
    (load_validation_enabled s \<longrightarrow>
       variance (load_samples (snd (judged s))) \<le> max_load_variance s \<and>
       (fsm s = Search_down \<longrightarrow> of_int (load_media (snd (judged s))) \<le> max_load s))"
proof -
  have base: "references (snd (base_refresh (ec_shutdown c) ob bs s)) = references s"
    by (rule keeps_references [OF keeps_base])
  have init: "references (snd (if_continues (each_bat (set_initial ob) bs
        (s\<lparr>ec_last_time := clock ob, nof_steps := Suc (nof_steps s)\<rparr>)) (\<lambda>s. s))) = references s"
    by (simp add: initial_references)
  from assms base init have eop: "ec_refresh c ob bs s = end_of_period c ob bs s"
    and late: "period s < clock ob - ec_last_time s"
    by (auto simp: ec_refresh_def done_with_def split: if_splits)
  obtain steady u where j: "judged s = (steady, u)" by fastforce
  note f = judged_fields [OF j]
  have new: "references (snd (end_of_period c ob bs s)) \<noteq> references u" using assms eop f(5) by simp
  have measured: "steady \<Longrightarrow> load_validation_enabled s \<Longrightarrow> variance (load_samples u) \<le> max_load_variance s \<and>
      last (period_load u) = load_media u"
  proof -
    assume st: "steady" and on: "load_validation_enabled s"
    let ?s1 = "effect SkipCheck (effect StopMonitoring s)"
    have "load_stable ?s1 = (steady, u)"
      using j on by (simp add: judged_def Let_def load_validation_enabled_def effect_def)
    with load_stable_result [of ?s1] st show ?thesis by (simp add: effect_def)
  qed
  show ?thesis
  proof (cases "fsm s")
    case Search_down
    then have "references (snd (on_search_down c ob steady bs u)) \<noteq> references u"
      using new f(1) by (auto simp: end_of_period_judged [OF j] split: if_splits)
    then have "tps_error_rate ob \<le> max_error_rate u \<and> load_good steady u" by (rule on_search_down_references)
    with f measured Search_down late j show ?thesis by (auto simp: load_good_def)
  next
    case Validate
    then have "references (snd (on_validate ob steady u)) \<noteq> references u"
      using new f(1) by (auto simp: end_of_period_judged [OF j] split: if_splits)
    then have "tps_error_rate ob \<le> max_error_rate u \<and> steady"
      by (auto simp: on_validate_def done_with_def split: if_splits)
    with f measured Validate late j show ?thesis by auto
  qed (use new f(1) in \<open>auto simp: end_of_period_judged [OF j] on_search_references done_with_def split: if_splits\<close>)
qed

text \<open>A period of the downward search with steady load and no errors, and one reference to create.\<close>

definition demo_down :: ec where
  "demo_down = (demo_ec 80)
     \<lparr>fsm := Search_down, ec_last_time := 50, nof_steps := 2, candidate := 0, period_load := [40],
      load_samples := [40, 40], rump_up := False,
      bats := [(''A'', (ec_entry demo_inst)\<lparr>used := [100, 90], target := 90\<rparr>)],
      traffic_ref := [\<lparr>ref_id = ''R'', ref_slots = [\<lparr>factor = Inr (1 / 2), slot_time = 60\<rparr>],
                       target_load_factor = 1\<rparr>]\<rparr>"

lemma demo_down_reference:
  "references (snd (ec_refresh demo_cabinet demo_obs [''A''] demo_down)) =
     [UpdateRef ''R'' [(''A'', [(60, 45)])] [(20, 60, 4)] 40]"
  "references demo_down = []"
  by (simp_all add: demo_down_def demo_ec_def ec_blank_def ec_refresh_def demo_obs_def end_of_period_def
      load_validation_enabled_def load_stable_def load_media_def average_def purge_load_samples_def
      int_of_def variance_def mean_def on_search_down_def load_good_def measured_load_def found_def
      create_reference_def create_one_reference_def slot_factor_def effect_def build_cps_table_def
      build_bat_table_def reset_entry_def entry_update_def dict_modify_def ec_entry_def new_entry_def
      demo_inst_def scheduling_info_def reconfigure_load_monitor_def references_def done_with_def Let_def
      upt_rec)

theorem reference_was_measured_witness:
  "tps_error_rate demo_obs \<le> max_error_rate demo_down \<and>
   of_int (load_media (snd (judged demo_down))) \<le> max_load demo_down"
proof -
  have "references (snd (ec_refresh demo_cabinet demo_obs [''A''] demo_down)) \<noteq> references demo_down"
    by (simp add: demo_down_reference)
  moreover have "fsm demo_down = Search_down" "load_validation_enabled demo_down"
    by (simp_all add: demo_down_def demo_ec_def load_validation_enabled_def ec_blank_def)
  ultimately show ?thesis using reference_was_measured by blast
qed

section \<open>A shutdown in the middle of a step\<close>

text \<open>Runs in which every call returns.\<close>

fun ec_result :: "ec_call \<Rightarrow> ec \<Rightarrow> unit res \<times> ec" where
  "ec_result (Refresh c ob bs) s = ec_refresh c ob bs s"
| "ec_result (Start c ob ph bs) s = ec_start_phase c ob ph bs s"

inductive ec_steps :: "ec \<Rightarrow> ec \<Rightarrow> bool" where
  none: "ec_steps s s"
| call: "ec_steps s t \<Longrightarrow> ec_result a t = (Inr (), u) \<Longrightarrow> ec_steps s u"

text \<open>A step that runs has not been measured yet.\<close>

definition step_open :: "ec \<Rightarrow> bool" where
  "step_open s \<longleftrightarrow> max_load s \<noteq> - 1 \<and>
     (fsm s = Initial \<longrightarrow> length (period_load s) \<le> nof_steps s) \<and>
     (fsm s \<notin> {Initial, Finished} \<longrightarrow> length (period_load s) < nof_steps s)"

lemma step_open_keeps: "keeps s t \<Longrightarrow> step_open s \<Longrightarrow> step_open t"
  by (auto simp: keeps_def quiet_def step_open_def)

text \<open>A loop that returns without an exception and does not go on has given up.\<close>

definition stops_finished :: "(string \<Rightarrow> entry \<Rightarrow> ec \<Rightarrow> bool res \<times> ec) \<Rightarrow> bool" where
  "stops_finished f \<longleftrightarrow> (\<forall>b e s t. f b e s = (Inr False, t) \<longrightarrow> fsm t = Finished)"

lemma set_step_stops: "set_step ob b v s = (Inr False, t) \<Longrightarrow> fsm t = Finished"
  by (auto simp: set_step_def set_value_def split: if_splits)

lemma bodies_stop:
  "stops_finished (set_initial ob)" "stops_finished (search_bat ob)" "stops_finished (down_bat ob)"
  "stops_finished (validate_bat ob)"
  by (auto simp: stops_finished_def set_initial_def search_bat_def down_bat_def validate_bat_def Let_def
      set_value_def dest: set_step_stops split: if_splits sum.splits prod.splits bool.splits)

lemma each_bat_stops:
  "stops_finished f \<Longrightarrow> each_bat f bs s = (Inr False, t) \<Longrightarrow> fsm t = Finished"
proof (induction bs arbitrary: s)
  case (Cons b bs)
  then show ?case
    by (cases "map_of (bats s) b")
      (auto simp: stops_finished_def split: prod.splits sum.splits bool.splits)
qed simp

lemma if_continues_Inr:
  "if_continues p f = (Inr (), u) \<Longrightarrow> (\<exists>t. p = (Inr True, t) \<and> u = f t) \<or> p = (Inr False, u)"
  by (cases p) (auto simp: if_continues_def andthen_def done_with_def split: sum.splits if_splits)

lemma found_finishes: "found m s = (Inr (), t) \<Longrightarrow> fsm t = Finished"
proof -
  assume f: "found m s = (Inr (), t)"
  then obtain u where u: "build_cps_table (snd (create_reference s)) = (Inr (), u)"
    and rest: "(let s1 = u\<lparr>fsm := Finished\<rparr>
       in case scheduling_info s1 of
            Inl e \<Rightarrow> (Inl e, s1)
          | Inr _ \<Rightarrow>
              if traffic_slots s1 = [] then done_with (effect StopPhase s1)
              else
                andthen (if load_validation_enabled s1
                         then andthen (reconfigure_load_monitor s1) (\<lambda>_ s. done_with (effect EnableLoad s))
                         else done_with s1)
                  (\<lambda>_ s. done_with (if m then effect StartMonitoring s else s))) = (Inr (), t)"
    by (auto simp: found_def andthen_Inr)
  obtain r w where w: "reconfigure_load_monitor (u\<lparr>fsm := Finished\<rparr>) = (r, w)" by fastforce
  with keeps_reconfigure [of "u\<lparr>fsm := Finished\<rparr>"] have "fsm w = Finished" by (auto simp: keeps_def)
  with rest w show "fsm t = Finished"
    by (cases r) (auto simp: Let_def done_with_def andthen_def split: sum.splits if_splits)
qed

lemma next_step_open:
  "max_load t \<noteq> - 1 \<Longrightarrow> length (period_load t) \<le> nof_steps t \<Longrightarrow> step_open (next_period ob t)"
  by (simp add: step_open_def next_period_def effect_def)

lemma loop_step_open:
  assumes "if_continues p g = (Inr (), u)" and "keeps s (snd p)" and "\<And>t. p = (Inr False, t) \<Longrightarrow> fsm t = Finished"
    and "max_load s \<noteq> - 1" and "length (period_load s) \<le> nof_steps s"
    and "\<And>t. max_load (h t) = max_load t \<and> period_load (h t) = period_load t \<and> nof_steps (h t) = nof_steps t"
    and "\<And>t. g t = next_period ob (h t)"
  shows "step_open u"
  using if_continues_Inr [OF assms(1)] assms(2-7) next_step_open [of "h t" ob for t]
  by (auto simp: keeps_def quiet_def step_open_def)

lemma step_open_end_of_period:
  assumes "step_open s" and "fsm s \<noteq> Finished" and "end_of_period c ob bs s = (Inr (), v)"
  shows "step_open v"
proof -
  obtain steady u where j: "judged s = (steady, u)" by fastforce
  note f = judged_fields [OF j]
  have on: "load_validation_enabled s" using assms(1) by (simp add: step_open_def load_validation_enabled_def)
  have u: "max_load u \<noteq> - 1" "fsm s \<noteq> Initial \<Longrightarrow> length (period_load u) \<le> nof_steps u"
    using assms(1,2) f(1,2,6) f(8) [OF on] by (auto simp: step_open_def)
  have fin: "step_open v" if "fsm v = Finished" "max_load v = max_load u" for v
    using that u(1) by (simp add: step_open_def)
  have found: "step_open v" if "found m w = (Inr (), v)" "max_load w = max_load u" for m w
  proof (rule fin [OF found_finishes [OF that(1)]])
    note w = that
    obtain x where x: "create_reference w = (Inr (), x)" using w(1) by (auto simp: found_def andthen_Inr)
    obtain y where y: "build_cps_table x = (Inr (), y)" using w(1) x by (auto simp: found_def andthen_Inr)
    have "max_load y = max_load u"
      using x y same_fsm_reference [of w] keeps_table [of x] w(2) by (simp add: same_fsm_def keeps_def quiet_def)
    moreover obtain r z where z: "reconfigure_load_monitor (y\<lparr>fsm := Finished\<rparr>) = (r, z)" by fastforce
    with keeps_reconfigure [of "y\<lparr>fsm := Finished\<rparr>"] have "max_load z = max_load y"
      by (simp add: keeps_def quiet_def)
    ultimately show "max_load v = max_load u" using w(1) x y z
      by (cases r) (auto simp: found_def Let_def done_with_def effect_def split: sum.splits if_splits)
  qed
  have v: "(case fsm u of
           Validate \<Rightarrow> on_validate ob steady u
         | Search \<Rightarrow> on_search ob steady bs u
         | Search_down \<Rightarrow> on_search_down c ob steady bs u
         | _ \<Rightarrow> done_with (give_up ''Wrong FSM state'' u)) = (Inr (), v)"
    using assms(3) by (simp add: end_of_period_judged [OF j] split: if_splits)
  note stops = each_bat_stops [OF bodies_stop(2)] each_bat_stops [OF bodies_stop(3)] each_bat_stops [OF bodies_stop(4)]
  show ?thesis
  proof (cases "fsm s")
    case Search
    let ?u = "if limit_reached ob steady u then u\<lparr>fsm := Search_down, rump_up := False\<rparr> else u"
    have "if_continues (each_bat (search_bat ob) bs ?u) (next_period ob) = (Inr (), v)"
      using v Search f(1) by (simp add: on_search_def)
    from loop_step_open [OF this keeps_loops(1) stops(1), where h = "\<lambda>t. t"] u Search
    show ?thesis by auto
  next
    case Search_down
    let ?u = "u\<lparr>ec_load := Some (measured_load steady u)\<rparr>"
    have cases: "if_continues (each_bat (validate_bat ob) bs (unlock_PL c ?u))
        (\<lambda>s. next_period ob (s\<lparr>load_samples := [], fsm := Validate, period := validation_time s\<rparr>)) = (Inr (), v) \<or>
      found True ?u = (Inr (), v) \<or> if_continues (each_bat (down_bat ob) bs ?u) (next_period ob) = (Inr (), v)"
      using v Search_down f(1) by (auto simp: on_search_down_def Let_def split: if_splits)
    have unl: "max_load (unlock_PL c ?u) \<noteq> - 1" "length (period_load (unlock_PL c ?u)) \<le> nof_steps (unlock_PL c ?u)"
      using keeps_unlock [of ?u c] u Search_down by (auto simp: keeps_def quiet_def)
    from cases show ?thesis
    proof (elim disjE)
      assume "if_continues (each_bat (validate_bat ob) bs (unlock_PL c ?u))
        (\<lambda>s. next_period ob (s\<lparr>load_samples := [], fsm := Validate, period := validation_time s\<rparr>)) = (Inr (), v)"
      from loop_step_open [OF this keeps_loops(3) stops(3) unl,
          where h = "\<lambda>s. s\<lparr>load_samples := [], fsm := Validate, period := validation_time s\<rparr>"]
      show ?thesis by simp
    next
      assume "found True ?u = (Inr (), v)"
      then show ?thesis by (rule found) simp
    next
      assume "if_continues (each_bat (down_bat ob) bs ?u) (next_period ob) = (Inr (), v)"
      from loop_step_open [OF this keeps_loops(2) stops(2), where h = "\<lambda>t. t"] u Search_down
      show ?thesis by simp
    qed
  next
    case Validate
    with v f(1) show ?thesis
      by (auto simp: on_validate_def done_with_def give_up_def effect_def split: if_splits
          intro!: fin dest!: found)
  qed (use v f(1) assms(2) in \<open>auto simp: done_with_def give_up_def effect_def intro!: fin\<close>)
qed

lemma step_open_refresh:
  assumes "step_open s" and "ec_refresh c ob bs s = (Inr (), u)"
  shows "step_open u"
proof (cases "\<not> cps_scheduling s \<or> bs = [] \<or> phase s \<in> {''preexec'', ''postexec''} \<or> fsm s = Finished")
  case True
  then have "ec_refresh c ob bs s \<in> {done_with s, base_refresh (ec_shutdown c) ob bs s}"
    unfolding ec_refresh_def by (simp only: split: if_split) blast
  with assms step_open_keeps [OF keeps_base assms(1), of c ob bs] show ?thesis
    by (cases "base_refresh (ec_shutdown c) ob bs s") (auto simp: done_with_def)
next
  case False
  let ?s = "s\<lparr>ec_last_time := clock ob, nof_steps := Suc (nof_steps s)\<rparr>"
  have open_fields: "step_open (if load_validation_enabled s
      then s\<lparr>ec_load := x, load_samples := y\<rparr> else s)" for x y
    using assms(1) by (simp add: step_open_def)
  have init: "step_open u" if i: "if_continues (each_bat (set_initial ob) bs ?s) (\<lambda>s. s) = (Inr (), u)"
  proof -
    obtain b where "each_bat (set_initial ob) bs ?s = (Inr b, u)" using if_continues_Inr [OF i] by auto
    with initial_loop [of ob bs ?s] have "quiet ?s u" by simp
    moreover have "length (period_load s) \<le> nof_steps s" using assms(1) False by (auto simp: step_open_def)
    ultimately show ?thesis using assms(1) by (auto simp: step_open_def quiet_def)
  qed
  show ?thesis
  proof (cases "ec_last_time s = 0")
    case True
    then show ?thesis using assms(2) False init by (simp add: ec_refresh_def)
  next
    case steady: False
    with False assms(2) step_open_end_of_period [OF assms(1), of c ob bs u] open_fields show ?thesis
      by (auto simp: ec_refresh_def done_with_def simp del: if_cancel split: if_splits)
  qed
qed

lemma step_open_start:
  assumes "step_open s" and "ec_start_phase c ob ph bs s = (Inr (), u)"
  shows "step_open u"
proof (cases "ph \<in> {''preexec'', ''postexec''}")
  case True
  let ?s1 = "s\<lparr>phase := ph\<rparr>"
  have 1: "step_open ?s1" using assms(1) by (simp add: step_open_def)
  then have "step_open (snd (base_start_phase (ec_shutdown c) ob ph bs ?s1))"
    using step_open_keeps [OF keeps_trans [OF keeps_entry keeps_base] 1]
    by (simp add: base_start_phase_def done_with_def Let_def split: list.split)
  with True assms(2) show ?thesis by (auto simp: ec_start_phase_def)
next
  case False
  let ?s1 = "s\<lparr>phase := ph\<rparr>"
  let ?s2 = "if load_validation_enabled ?s1 then effect DisableLoad ?s1 else ?s1"
  have 2: "step_open ?s2" using assms(1) by (auto simp: step_open_def effect_def)
  obtain t where t: "(if dc_enabled ?s2 \<and> pl_for_dc ?s2 = None then lock_PL c ?s2 else done_with ?s2) = (Inr (), t)"
    using False assms(2) by (auto simp: ec_start_phase_def Let_def andthen_Inr)
  have "step_open t" using t 2 step_open_keeps [OF keeps_lock [of ?s2 c] 2]
    by (auto simp: done_with_def simp del: if_cancel split: if_splits)
  moreover have "step_open (t\<lparr>pending_to_start := x\<rparr>) = step_open t" for t x by (simp add: step_open_def)
  moreover define left where "left = (case pending_to_start t of None \<Rightarrow> int (length (instances ob)) | Some n \<Rightarrow> n) - 1"
  ultimately have 3: "step_open (t\<lparr>pending_to_start := Some left\<rparr>)" by simp
  show ?thesis
  proof (cases "left = 0")
    case True
    with False t assms(2) obtain v where
      "ec_refresh c ob (instances ob) (t\<lparr>pending_to_start := Some left\<rparr>) = (Inr (), v)"
      "u = v\<lparr>pending_to_start := None\<rparr>"
      unfolding ec_start_phase_def Let_def left_def by (auto simp: done_with_def andthen_Inr)
    with step_open_refresh [OF 3, of c ob "instances ob" v] show ?thesis by (simp add: step_open_def)
  next
    case nz: False
    have "u = t\<lparr>pending_to_start := Some left\<rparr>"
      using False t assms(2) nz unfolding ec_start_phase_def Let_def left_def
      by (auto simp: done_with_def)
    with 3 show ?thesis by simp
  qed
qed

lemma step_open_steps: "ec_steps s t \<Longrightarrow> step_open s \<Longrightarrow> step_open t"
proof (induction rule: ec_steps.induct)
  case (call s t a u)
  then show ?case by (cases a) (auto intro: step_open_refresh step_open_start)
qed

lemma info_rows_short:
  assumes "load_validation_enabled s" and "n \<in> set ns" and "length (period_load s) \<le> n"
  shows "\<exists>m. info_rows ns s = Inl (IndexError m)"
  using assms(2)
proof (induction ns)
  case (Cons k ns)
  have row: "\<exists>m. info_row k es = Inl (IndexError m) \<or> (\<exists>r. info_row k es = Inr r)" for es
    by (induction es rule: info_row.induct [of _ k]) (auto split: sum.split)
  show ?case
  proof (cases "k < length (period_load s)")
    case True
    with Cons assms(3) obtain m where "info_rows ns s = Inl (IndexError m)" by auto
    with row [of "bats s"] True show ?thesis by auto
  qed (use assms(1) in simp)
qed simp

text \<open>With the load validation enabled, a shutdown that comes while a step runs raises an
  \<open>IndexError\<close> in the report and leaves the log file open: in every state that calls which all
  returned can reach from a new handler, between the first step and the end of the search.\<close>

lemma shutdown_in_a_step:
  assumes "ec_init wt disp m macros cc config = Inr s" and "cfg_enable cc = Some True"
    and "cfg_max_load cc \<noteq> Some (- 1)" and "ec_steps s t" and "fsm t \<notin> {Initial, Finished}"
  shows "\<exists>why. fst (ec_shutdown c t) = Inl (IndexError why) \<and> logging (snd (ec_shutdown c t)) = logging t \<and>
    \<not> running (snd (ec_shutdown c t))"
proof -
  have "step_open s" using ec_init_fields [OF assms(1)] assms(2,3) by (auto simp: step_open_def)
  with step_open_steps [OF assms(4)] have t: "step_open t" by simp
  define u where "u = (if running t then
      let v = t\<lparr>running := False\<rparr>; v' = (if cps_display v then effect Plot v else v) in unlock_PL c v' else t)"
  have u: "period_load u = period_load t \<and> nof_steps u = nof_steps t \<and> max_load u = max_load t \<and>
      logging u = logging t \<and> \<not> running u"
    by (simp add: u_def Let_def unlock_PL_def effect_def split: option.split)
  have "load_validation_enabled u" and "length (period_load u) \<in> set [0..<nof_steps u]"
    using t u assms(5) by (auto simp: step_open_def load_validation_enabled_def)
  then obtain why where "scheduling_info u = Inl (IndexError why)"
    using info_rows_short [of u "length (period_load u)" "[0..<nof_steps u]"]
    unfolding scheduling_info_def by blast
  with u show ?thesis by (simp add: ec_shutdown_def u_def [symmetric])
qed

text \<open>A search that has started.\<close>

lemma demo_search:
  "\<exists>s. ec_init True False demo_monitors (\<lambda>_. None) (demo_cfg 80) [(''A'', demo_inst)] = Inr s \<and>
     ec_steps s (snd (ec_start_phase demo_cabinet demo_obs ''loadgen'' [''A''] s)) \<and>
     fsm (snd (ec_start_phase demo_cabinet demo_obs ''loadgen'' [''A''] s)) = Search"
proof -
  obtain s where s: "ec_init True False demo_monitors (\<lambda>_. None) (demo_cfg 80) [(''A'', demo_inst)] = Inr s"
    using demo_init by blast
  let ?t = "snd (ec_start_phase demo_cabinet demo_obs ''loadgen'' [''A''] s)"
  have st: "s = (ec_blank False (\<lambda>_. None))\<lparr>period := 30, max_load := 80, max_error_rate := 1,
      max_load_variance := 4, bats := [(''A'', ec_entry demo_inst)], cps_scheduling := True\<rparr>"
    using s by (simp add: ec_init_def demo_monitors_def demo_cfg_def read_capacity_def add_instances_def Let_def
      demo_inst_def ec_blank_def delete_reference_def scheduled_def load_validation_enabled_def)
  have run: "fst (ec_start_phase demo_cabinet demo_obs ''loadgen'' [''A''] s) = Inr ()" "fsm ?t = Search"
    by (simp_all add: st ec_start_phase_def load_validation_enabled_def ec_blank_def effect_def
        demo_obs_def done_with_def ec_refresh_def if_continues_def set_initial_def set_step_def set_value_def
        set_target_cps_def entry_update_def dict_modify_def ec_entry_def new_entry_def demo_inst_def Let_def)
  have "ec_result (Start demo_cabinet demo_obs ''loadgen'' [''A'']) s = (Inr (), ?t)"
    using run(1) by (simp add: prod_eq_iff)
  with ec_steps.call [OF ec_steps.none] have "ec_steps s ?t" by blast
  with s run(2) show ?thesis by blast
qed

lemma demo_cfg_validates: "cfg_enable (demo_cfg 80) = Some True" "cfg_max_load (demo_cfg 80) \<noteq> Some (- 1)"
  by (simp_all add: demo_cfg_def)

section \<open>The downward search is bounded\<close>

definition step_down :: "entry \<Rightarrow> rat" where
  "step_down e = last (used e) - snd (snd (steps e))"

definition lowered :: "entry \<Rightarrow> entry" where
  "lowered e = e\<lparr>target := step_down e, used := used e @ [step_down e]\<rparr>"

lemma set_step_ok:
  "set_step ob b v s = (Inr True, t) \<Longrightarrow>
     bats t = dict_modify b (\<lambda>e. e\<lparr>target := v, used := used e @ [v]\<rparr>) (bats s) \<and> candidate t = candidate s"
  by (auto simp: set_step_def set_value_def effect_def entry_update_def split: if_splits)

lemma py_nth_last: "py_nth xs (- 1) = Inr x \<Longrightarrow> xs \<noteq> [] \<and> x = last xs"
  by (auto simp: py_nth_def last_conv_nth nat_diff_distrib' Let_def split: if_splits)

lemma down_bat_ok:
  assumes "down_bat ob b e s = (Inr True, t)" and "map_of (bats s) b = Some e"
  shows "map_of (bats t) = (map_of (bats s))(b := Some (lowered e))" "candidate t = candidate s"
    "0 \<le> candidate s \<Longrightarrow> used e ! nat (candidate s) \<le> step_down e"
proof -
  obtain x good where x: "py_nth (used e) (- 1) = Inr x" "py_nth (used e) (candidate s) = Inr good"
    "\<not> good > x - snd (snd (steps e))" "set_step ob b (x - snd (snd (steps e))) s = (Inr True, t)"
    using assms(1) by (auto simp: down_bat_def split: sum.splits if_splits)
  have v: "x - snd (snd (steps e)) = step_down e" using py_nth_last [OF x(1)] by (simp add: step_down_def)
  from set_step_ok [OF x(4)] assms(2)
  show "map_of (bats t) = (map_of (bats s))(b := Some (lowered e))" "candidate t = candidate s"
    by (simp_all add: dict_simps lowered_def v)
  show "used e ! nat (candidate s) \<le> step_down e" if "0 \<le> candidate s"
    using x(2,3) that v by (auto simp: py_nth_def Let_def split: if_splits)
qed

lemma down_loop_ok:
  assumes "each_bat (down_bat ob) bs s = (Inr True, t)" and "distinct bs" and "0 \<le> candidate s"
    and "b \<in> set bs" and "map_of (bats s) b = Some e"
  shows "map_of (bats t) b = Some (lowered e) \<and> used e ! nat (candidate s) \<le> step_down e \<and> candidate t = candidate s"
proof -
  have cand: "candidate t = candidate s \<and> (\<forall>x. x \<notin> set bs \<longrightarrow> map_of (bats t) x = map_of (bats s) x)"
    if "each_bat (down_bat ob) bs s = (Inr True, t)" for bs s
    using that
  proof (induction bs arbitrary: s)
    case (Cons y ys)
    then obtain e' u where e': "map_of (bats s) y = Some e'" "down_bat ob y e' s = (Inr True, u)"
      "each_bat (down_bat ob) ys u = (Inr True, t)"
      by (auto split: option.splits prod.splits sum.splits bool.splits)
    with Cons.IH [OF e'(3)] down_bat_ok [OF e'(2,1)] show ?case by auto
  qed simp
  show ?thesis
    using assms
  proof (induction bs arbitrary: s)
    case (Cons y ys)
    then obtain e' u where e': "map_of (bats s) y = Some e'" "down_bat ob y e' s = (Inr True, u)"
      "each_bat (down_bat ob) ys u = (Inr True, t)"
      by (auto split: option.splits prod.splits sum.splits bool.splits)
    note ok = down_bat_ok [OF e'(2,1)]
    show ?case
    proof (cases "b = y")
      case True
      with Cons.prems(2) have "map_of (bats t) b = map_of (bats u) b" using cand [OF e'(3)] by auto
      with True ok cand [OF e'(3)] e'(1) Cons.prems(3,5) show ?thesis by auto
    next
      case False
      with Cons.IH [OF e'(3)] ok Cons.prems show ?thesis by auto
    qed
  qed simp
qed

lemma down_period:
  assumes "end_of_period c ob bs s = (Inr (), t)" and "fsm s = Search_down" and "fsm t = Search_down"
  shows "\<exists>u v. each_bat (down_bat ob) bs u = (Inr True, v) \<and> bats u = bats s \<and> candidate u = candidate s \<and>
    t = next_period ob v"
proof -
  obtain steady u where j: "judged s = (steady, u)" by fastforce
  have f: "fsm u = Search_down" using judged_fields(1) [OF j] assms(2) by simp
  have same: "bats u = bats s" "candidate u = candidate s"
    using j by (auto simp: judged_def Let_def load_stable_def purge_load_samples_def effect_def split: if_splits)
  let ?u = "u\<lparr>ec_load := Some (measured_load steady u)\<rparr>"
  have "on_search_down c ob steady bs u = (Inr (), t)"
    using assms(1) f by (simp add: end_of_period_judged [OF j] split: if_splits)
  then have cases: "if_continues (each_bat (validate_bat ob) bs (unlock_PL c ?u))
      (\<lambda>s. next_period ob (s\<lparr>load_samples := [], fsm := Validate, period := validation_time s\<rparr>)) = (Inr (), t) \<or>
    found True ?u = (Inr (), t) \<or> if_continues (each_bat (down_bat ob) bs ?u) (next_period ob) = (Inr (), t)"
    by (auto simp: on_search_down_def Let_def split: if_splits)
  have "if_continues (each_bat (down_bat ob) bs ?u) (next_period ob) = (Inr (), t)"
    using cases
  proof (elim disjE)
    assume "if_continues (each_bat (validate_bat ob) bs (unlock_PL c ?u))
      (\<lambda>s. next_period ob (s\<lparr>load_samples := [], fsm := Validate, period := validation_time s\<rparr>)) = (Inr (), t)"
    from if_continues_Inr [OF this] each_bat_stops [OF bodies_stop(4)] assms(3) show ?thesis by fastforce
  next
    assume "found True ?u = (Inr (), t)"
    from found_finishes [OF this] assms(3) show ?thesis by simp
  qed
  from if_continues_Inr [OF this] each_bat_stops [OF bodies_stop(3)] assms(3)
  obtain v where "each_bat (down_bat ob) bs ?u = (Inr True, v)" "t = next_period ob v" by fastforce
  with same show ?thesis by (intro exI [of _ ?u] exI [of _ v]) simp
qed

text \<open>Periods that end in the downward search, one after the other.\<close>

fun down_periods :: "string list \<Rightarrow> (cabinet_obs \<times> obs) list \<Rightarrow> ec \<Rightarrow> bool" where
  "down_periods bs [] s = True"
| "down_periods bs ((c, ob) # obs) s =
     (case end_of_period c ob bs s of
        (Inr _, t) \<Rightarrow> fsm t = Search_down \<and> down_periods bs obs t
      | (Inl _, t) \<Rightarrow> False)"

text \<open>The downward search ends: each of its periods lowers every BAT by its step down and
  never below the value of the last good step, so the number of periods times the step is at
  most the distance between the two.\<close>

theorem downward_search_bounded:
  assumes "down_periods bs obs s" and "fsm s = Search_down" and "distinct bs" and "b \<in> set bs"
    and "map_of (bats s) b = Some e" and "0 \<le> candidate s" and "nat (candidate s) < length (used e)"
    and "used e ! nat (candidate s) \<le> last (used e)"
  shows "of_nat (length obs) * snd (snd (steps e)) \<le> last (used e) - used e ! nat (candidate s)"
  using assms(1,2,5-)
proof (induction obs arbitrary: s e)
  case (Cons o1 obs)
  obtain c ob where o1: "o1 = (c, ob)" by (cases o1)
  with Cons.prems(1) obtain t where t: "end_of_period c ob bs s = (Inr (), t)" "fsm t = Search_down"
    "down_periods bs obs t" by (auto split: prod.splits sum.splits)
  from down_period [OF t(1) Cons.prems(2) t(2)] obtain u v where
    u: "each_bat (down_bat ob) bs u = (Inr True, v)" "bats u = bats s" "candidate u = candidate s"
      "t = next_period ob v" by blast
  have "candidate t = candidate v" "bats t = bats v"
    using u(4) by (simp_all add: next_period_def effect_def)
  with down_loop_ok [OF u(1) assms(3) _ assms(4)] u Cons.prems(3,4)
  have v: "map_of (bats t) b = Some (lowered e)" "used e ! nat (candidate s) \<le> step_down e"
    "candidate t = candidate s" by auto
  have good: "used (lowered e) ! nat (candidate t) = used e ! nat (candidate s)"
    using Cons.prems(5) v(3) by (simp add: lowered_def nth_append)
  have "of_nat (length obs) * snd (snd (steps (lowered e))) \<le> last (used (lowered e)) - used (lowered e) ! nat (candidate t)"
    by (rule Cons.IH [OF t(3,2) v(1)]) (use v good Cons.prems in \<open>auto simp: lowered_def\<close>)
  then show ?case unfolding good by (simp add: lowered_def step_down_def algebra_simps)
qed simp

text \<open>A period with errors, in which the search goes down from 150 by 10.\<close>

definition demo_errors :: obs where
  "demo_errors = demo_obs\<lparr>tps_error_rate := 5\<rparr>"

theorem downward_search_bounded_witness:
  "down_periods [''A''] [(demo_cabinet, demo_errors)]
     (demo_down\<lparr>bats := [(''A'', (ec_entry demo_inst)\<lparr>used := [100, 150], target := 150\<rparr>)]\<rparr>) \<and>
   of_nat 1 * (10 :: rat) \<le> 150 - 100"
proof -
  let ?e = "(ec_entry demo_inst)\<lparr>used := [100, 150], target := 150\<rparr>"
  let ?s = "demo_down\<lparr>bats := [(''A'', ?e)]\<rparr>"
  have run: "down_periods [''A''] [(demo_cabinet, demo_errors)] ?s"
    by (simp add: demo_down_def demo_ec_def ec_blank_def demo_errors_def demo_obs_def end_of_period_def
      load_validation_enabled_def load_stable_def load_media_def average_def purge_load_samples_def
      int_of_def variance_def mean_def on_search_down_def load_good_def measured_load_def effect_def
      if_continues_def down_bat_def py_nth_def set_step_def set_value_def set_target_cps_def
      entry_update_def dict_modify_def ec_entry_def new_entry_def demo_inst_def done_with_def Let_def
      next_period_def)
  have facts: "fsm ?s = Search_down" "candidate ?s = 0" "map_of (bats ?s) ''A'' = Some ?e"
    "snd (snd (steps ?e)) = 10" "last (used ?e) = 150" "used ?e ! 0 = 100" "length (used ?e) = 2"
    by (simp_all add: demo_down_def ec_entry_def new_entry_def demo_inst_def)
  from downward_search_bounded [OF run facts(1) _ _ facts(3)] facts run show ?thesis by simp
qed

end
