(* ===== verification/Test_Suite.thy ===== *)
theory Test_Suite
  imports Rtc_Prelude Complex_Main
begin

text \<open>
  \<open>HSS_rtc/HSS_rtc_lib/components/test_suite.py\<close>: the summary of a test case, the test case with
  its state machine, and the suite with its cursor. A test case that was rebuilt from its
  dictionary has no configuration; its attributes are missing and reading them raises. The file
  system is the record \<open>file_system\<close>; the clock and the date are arguments.
\<close>

section \<open>Summary\<close>

record summary =
  file_name :: string
  additional_info :: "string list"
  faulty_steps :: "string list"
  action_results :: "string list"
  action_infos :: "(string, string) dict"

definition new_summary :: "string \<Rightarrow> summary" where
  "new_summary rt =
     \<lparr>file_name = path_join rt ''summary.txt'', additional_info = [], faulty_steps = [], action_results = [],
      action_infos = []\<rparr>"

definition add_faulty_step :: "string \<Rightarrow> summary \<Rightarrow> summary" where
  "add_faulty_step m s = s\<lparr>faulty_steps := faulty_steps s @ [m]\<rparr>"

definition add_action_result :: "string \<Rightarrow> summary \<Rightarrow> summary" where
  "add_action_result m s = s\<lparr>action_results := action_results s @ [m]\<rparr>"

definition endl :: "string \<Rightarrow> string" where
  "endl s = s @ [CHR 0x0A]"

definition add_action_info :: "string \<Rightarrow> string \<Rightarrow> summary \<Rightarrow> summary" where
  "add_action_info k m s =
     (let old = (case map_of (action_infos s) k of None \<Rightarrow> [] | Some x \<Rightarrow> x)
      in s\<lparr>action_infos := dict_set k (old @ endl m) (action_infos s)\<rparr>)"

text \<open>With a time stamp the name \<open>datetime\<close> is read, which the module does not import.\<close>

definition add_to_report :: "string \<Rightarrow> bool \<Rightarrow> summary \<Rightarrow> unit res \<times> summary" where
  "add_to_report m stamp s =
     (if stamp then (Inl (NameError ''global name 'datetime' is not defined''), s)
      else (Inr (), s\<lparr>additional_info := additional_info s @ [m]\<rparr>))"

text \<open>\<open>'%-*s' % (n, s)\<close>\<close>

definition ljust :: "nat \<Rightarrow> string \<Rightarrow> string" where
  "ljust n s = s @ replicate (n - length s) (CHR '' '')"

definition info_lines :: "(string, string) dict \<Rightarrow> string list" where
  "info_lines d = concat (map (\<lambda>(k, v).
     [ljust 15 k @ [CHR 0x3A, CHR 0x0A]] @ map (\<lambda>l. ljust 15 '' '' @ '' '' @ l) (splitlines v) @ [[]]) d)"

definition block :: "string \<Rightarrow> string \<Rightarrow> string list \<Rightarrow> string list" where
  "block title underline body = (if body = [] then [] else [title, underline] @ body @ [[]])"

text \<open>The information of the actions is printed when there are action results.\<close>

definition summary_str :: "summary \<Rightarrow> string" where
  "summary_str s =
     (let info =
        block ''FAULTY STEPs CMDs:'' ''------------------'' (faulty_steps s)
        @ block ''ACTIONS results:'' ''----------------'' (action_results s)
        @ (if action_results s = [] then []
           else [''ACTIONS info:'', ''-------------''] @ info_lines (action_infos s) @ [[]])
        @ (if additional_info s = [] then []
           else [''CHECKs:'', ''-------''] @ additional_info s)
      in if info = [] then endl '' There is not information to be included in the summary''
         else [CHR 0x0A] @ join [CHR 0x0A] info @ [CHR 0x0A])"

text \<open>\<open>save\<close>: the file written; an \<open>IOError\<close> is only logged.\<close>

definition summary_save :: "summary \<Rightarrow> string \<times> string" where
  "summary_save s = (file_name s, summary_str s)"

section \<open>Configuration of a test case\<close>

text \<open>
  What the test tool reads of the JSON file. \<open>None\<close> is a missing key. The field \<open>enable\<close> of a
  step is a boolean or the name of a macro.
\<close>

datatype flag = Flag bool | Macro string

record step_config =
  step_id :: string
  step_enable :: "flag option"
  step_cmd :: "string option"
  step_framework :: bool
  step_exit_rtc_on_fail :: bool
  step_stop_on_fail :: bool
  step_skip_phase_on_fail :: bool
  step_report_not_valid :: bool
  step_repeat :: bool
  step_add_to_verdict :: bool
  step_add_to_summary :: bool
  step_extra_parameters :: string
  step_max_time :: rat
  step_background :: bool

record phase_config =
  phase_enable :: "bool option"
  phase_steps :: "step_config list option"

record tc_config =
  cfg_name :: "string option"
  cfg_retries :: "int option"
  cfg_phases :: "(string, phase_config) dict option"
  cfg_latency_enable :: "bool option"
  cfg_latency_samples :: "int option"

text \<open>\<open>json_at p\<close>: no such file, a file that is not JSON, or its content.\<close>

record file_system =
  real_path :: "string \<Rightarrow> string"
  json_at :: "string \<Rightarrow> (string + tc_config) option"
  is_file :: "string \<Rightarrow> bool"
  abspath :: "string \<Rightarrow> string"

section \<open>Test case\<close>

datatype tc_status = Not_Executed | Tc_Running | Tc_Skipped | Tc_Finished | Tc_Not_Finished

text \<open>The dictionary \<open>__data\<close>.\<close>

record tc_data =
  tc_status :: tc_status
  mandatory :: bool
  failure_messages :: "string list"
  skipped_message :: string
  start_time :: "rat option"
  stop_time :: "rat option"
  start_date :: "string option"
  stop_date :: "string option"
  root_path :: string
  tc_name :: string
  reexecution :: bool

record loaded =
  json_file :: string
  config_data :: tc_config
  macro_files :: "string list"

record test_case =
  data :: tc_data
  repeat :: bool
  report_not_valid :: bool
  summary :: "summary option"
  nof_payloads :: int
  epm :: "(string, json) dict"
  loaded :: "loaded option"

definition blank_data :: "bool \<Rightarrow> string \<Rightarrow> tc_data" where
  "blank_data mand name =
     \<lparr>tc_status = Not_Executed, mandatory = mand, failure_messages = [], skipped_message = [],
      start_time = None, stop_time = None, start_date = None, stop_date = None, root_path = [],
      tc_name = name, reexecution = False\<rparr>"

definition case_with :: "tc_data \<Rightarrow> loaded option \<Rightarrow> test_case" where
  "case_with d l = \<lparr>data = d, repeat = False, report_not_valid = False, summary = None,
     nof_payloads = - 1, epm = [], loaded = l\<rparr>"

text \<open>The macro files must all exist; the first missing one is named in the error.\<close>

fun check_macros :: "file_system \<Rightarrow> string list \<Rightarrow> string list res" where
  "check_macros d [] = Inr []"
| "check_macros d (m # ms) =
     (let p = real_path d m
      in if \<not> is_file d p then Inl (TypeError (''Macro file '' @ p @ '' not found''))
         else case check_macros d ms of Inl e \<Rightarrow> Inl e | Inr ps \<Rightarrow> Inr (p # ps))"

definition new_test_case :: "file_system \<Rightarrow> string \<Rightarrow> string option \<Rightarrow> bool \<Rightarrow> test_case res" where
  "new_test_case d file macros mand =
     (let p = real_path d file
      in case json_at d p of
           None \<Rightarrow> Inl (TypeError (''Configuration file '' @ p @ '' not found''))
         | Some (Inl why) \<Rightarrow> Inl (TypeError (''Error parsing json '' @ p @ '' file: '' @ why))
         | Some (Inr c) \<Rightarrow>
             (case cfg_name c of
                None \<Rightarrow> Inl (TypeError (''Error parsing json '' @ p @ '' file: '' @ exc_str (KeyError ''name'')))
              | Some name \<Rightarrow>
                  (case (case macros of
                           None \<Rightarrow> Inr []
                         | Some m \<Rightarrow> if m = [] then Inr [] else check_macros d (split_on (CHR '','') m)) of
                     Inl e \<Rightarrow> Inl e
                   | Inr ms \<Rightarrow>
                       Inr (case_with (blank_data mand name)
                         (Some \<lparr>json_file = p, config_data = c, macro_files = ms\<rparr>)))))"

definition test_case_of_data :: "tc_data \<Rightarrow> test_case" where
  "test_case_of_data d = case_with d None"

definition no_attribute :: "string \<Rightarrow> py_exc" where
  "no_attribute a = AttributeError (''TestCase object has no attribute '' @ a)"

definition nof_retries :: "test_case \<Rightarrow> int res" where
  "nof_retries t = (case loaded t of
     None \<Rightarrow> Inl (no_attribute ''config_data'')
   | Some l \<Rightarrow> Inr (case cfg_retries (config_data l) of None \<Rightarrow> 0 | Some n \<Rightarrow> n))"

definition set_nof_retries :: "int \<Rightarrow> test_case \<Rightarrow> test_case" where
  "set_nof_retries n t =
     t\<lparr>loaded := map_option (\<lambda>l. l\<lparr>config_data := (config_data l)\<lparr>cfg_retries := Some n\<rparr>\<rparr>) (loaded t)\<rparr>"

text \<open>\<open>self.nof_retries and self.repeat\<close>: a negative count is true.\<close>

definition shall_repeat :: "test_case \<Rightarrow> bool res" where
  "shall_repeat t = (case nof_retries t of Inl e \<Rightarrow> Inl e | Inr n \<Rightarrow> Inr (n \<noteq> 0 \<and> repeat t))"

definition set_repeat :: "bool \<Rightarrow> test_case \<Rightarrow> test_case" where
  "set_repeat b t = t\<lparr>repeat := repeat t \<or> b\<rparr>"

text \<open>\<open>clone\<close> reads the JSON file again; the clone and the original without its mark.\<close>

definition clone :: "file_system \<Rightarrow> test_case \<Rightarrow> (test_case \<times> test_case) res" where
  "clone d t =
     (case loaded t of
        None \<Rightarrow> Inl (no_attribute ''macro_files'')
      | Some l \<Rightarrow>
          (case new_test_case d (json_file l)
                  (if macro_files l = [] then None else Some (join '','' (macro_files l))) (mandatory (data t)) of
             Inl e \<Rightarrow> Inl e
           | Inr c \<Rightarrow>
               (case nof_retries t of
                  Inl e \<Rightarrow> Inl e
                | Inr n \<Rightarrow>
                    Inr ((set_nof_retries (n - 1) c)\<lparr>data := (data c)\<lparr>reexecution := True\<rparr>\<rparr>,
                         t\<lparr>report_not_valid := False\<rparr>))))"

definition epm_enabled :: "test_case \<Rightarrow> bool res" where
  "epm_enabled t = (case loaded t of
     None \<Rightarrow> Inl (no_attribute ''config_data'')
   | Some l \<Rightarrow> Inr (cfg_latency_enable (config_data l) = Some True))"

definition epm_samples :: "test_case \<Rightarrow> int res" where
  "epm_samples t = (case loaded t of
     None \<Rightarrow> Inl (no_attribute ''config_data'')
   | Some l \<Rightarrow> Inr (case cfg_latency_samples (config_data l) of None \<Rightarrow> - 1 | Some n \<Rightarrow> n))"

text \<open>\<open>dict.update\<close>\<close>

definition update_epm :: "(string, json) dict \<Rightarrow> test_case \<Rightarrow> test_case" where
  "update_epm new t = t\<lparr>epm := foldl (\<lambda>d (k, v). dict_set k v d) (epm t) new\<rparr>"

definition add_failure :: "string \<Rightarrow> test_case \<Rightarrow> test_case" where
  "add_failure m t = t\<lparr>data := (data t)\<lparr>failure_messages := failure_messages (data t) @ [m]\<rparr>\<rparr>"

text \<open>
  \<open>update_status\<close>: the three transitions; any other request is logged and ignored. The second
  component is the summary file that was written, if any. A start without a directory fails in
  \<open>os.path.join(None, name)\<close>, when the date and the name have been set.
\<close>

record status_request =
  req_status :: tc_status
  req_message :: string
  req_root :: "string option"
  req_repeat :: bool
  req_case_path :: "string option"

definition start_path :: "file_system \<Rightarrow> status_request \<Rightarrow> string \<Rightarrow> string res" where
  "start_path d r name =
     (case (req_case_path r, req_root r) of
        (Some (c # p), _) \<Rightarrow> Inr (c # p)
      | (_, Some p) \<Rightarrow> Inr (abspath d (path_join p name))
      | (_, None) \<Rightarrow> Inl (AttributeError ''NoneType object has no attribute endswith''))"

definition start_case ::
  "file_system \<Rightarrow> rat \<Rightarrow> string \<Rightarrow> status_request \<Rightarrow> test_case \<Rightarrow> (string \<times> string) option res \<times> test_case" where
  "start_case d now date r t =
     (let name = tc_name (data t) @ ''_'' @ date;
          t1 = t\<lparr>data := (data t)\<lparr>start_date := Some date, tc_name := name\<rparr>\<rparr>
      in case start_path d r name of
           Inl e \<Rightarrow> (Inl e, t1)
         | Inr rt \<Rightarrow>
             (Inr None,
              t1\<lparr>data := (data t1)\<lparr>root_path := rt, start_time := Some now, tc_status := Tc_Running\<rparr>,
                 summary := Some (new_summary rt)\<rparr>))"

definition skip_case :: "status_request \<Rightarrow> test_case \<Rightarrow> test_case" where
  "skip_case r t = t\<lparr>data := (data t)\<lparr>skipped_message := req_message r, tc_status := Tc_Skipped\<rparr>\<rparr>"

definition stop_case :: "rat \<Rightarrow> string \<Rightarrow> status_request \<Rightarrow> test_case \<Rightarrow> test_case" where
  "stop_case now date r t =
     (let t1 = t\<lparr>data := (data t)\<lparr>stop_time := Some now, stop_date := Some date\<rparr>\<rparr>;
          t2 = (if req_message r \<noteq> [] then set_repeat (req_repeat r) (add_failure (req_message r) t1) else t1)
      in t2\<lparr>data := (data t2)\<lparr>tc_status := req_status r\<rparr>\<rparr>)"

definition update_status ::
  "file_system \<Rightarrow> rat \<Rightarrow> string \<Rightarrow> status_request \<Rightarrow> test_case \<Rightarrow> (string \<times> string) option res \<times> test_case" where
  "update_status d now date r t =
     (if req_status r = Tc_Running \<and> tc_status (data t) = Not_Executed
      then start_case d now date r t
      else if req_status r = Tc_Skipped \<and> tc_status (data t) = Not_Executed
      then (Inr None, skip_case r t)
      else if req_status r \<in> {Tc_Finished, Tc_Not_Finished} \<and> tc_status (data t) = Tc_Running
      then (case summary t of
              None \<Rightarrow> (Inl (AttributeError ''NoneType object has no attribute save''), stop_case now date r t)
            | Some s \<Rightarrow> (Inr (Some (summary_save s)), stop_case now date r t))
      else (Inr None, t))"

text \<open>\<open>__str__\<close>. The argument \<open>fmt\<close> is the conversion \<open>%f\<close> of the execution time.\<close>

definition opt_str :: "string option \<Rightarrow> string" where
  "opt_str s = (case s of None \<Rightarrow> ''None'' | Some x \<Rightarrow> x)"

definition case_heading :: "tc_data \<Rightarrow> string" where
  "case_heading t =
     endl ('' Test Case name :  '' @ tc_name t @ (if reexecution t then '' (Re-execution)'' else []))
     @ endl ('' Type           :  '' @ (if mandatory t then ''MANDATORY'' else ''OPTIONAL''))"

definition case_times :: "(rat \<Rightarrow> string) \<Rightarrow> tc_data \<Rightarrow> string res" where
  "case_times fmt t =
     (case (stop_time t, start_time t) of
        (Some b, Some a) \<Rightarrow>
          Inr (endl ('' Start          :  '' @ opt_str (start_date t))
               @ endl ('' Stop           :  '' @ opt_str (stop_date t))
               @ endl ('' Execution time :  '' @ fmt (b - a) @ '' seconds'')
               @ endl ('' Log            :  '' @ root_path t))
      | _ \<Rightarrow> Inl (TypeError ''unsupported operand type(s) for -''))"

definition case_errors :: "tc_data \<Rightarrow> string" where
  "case_errors t =
     concat (map (\<lambda>e. endl (''                   '' @ e)) (filter (\<lambda>e. e \<noteq> []) (failure_messages t)))"

definition case_str :: "(rat \<Rightarrow> string) \<Rightarrow> tc_data \<Rightarrow> string res" where
  "case_str fmt t =
     (case tc_status t of
        Not_Executed \<Rightarrow>
          Inr (endl [] @ case_heading t @ endl '' State          :  NOT EXECUTED'' @ endl [])
      | Tc_Running \<Rightarrow>
          Inr (endl [] @ case_heading t @ endl '' State          :  RUNNING''
               @ endl ('' Start          :  '' @ opt_str (start_date t)) @ endl [])
      | Tc_Skipped \<Rightarrow>
          Inr (endl [] @ case_heading t @ endl '' Result         :  SKIPPED''
               @ endl (''                   '' @ skipped_message t) @ endl [])
      | Tc_Not_Finished \<Rightarrow>
          (case case_times fmt t of
             Inl e \<Rightarrow> Inl e
           | Inr tt \<Rightarrow> Inr (endl [] @ case_heading t @ tt @ endl '' Result         :  NOT FINISHED''
                               @ case_errors t @ endl []))
      | Tc_Finished \<Rightarrow>
          (case case_times fmt t of
             Inl e \<Rightarrow> Inl e
           | Inr tt \<Rightarrow>
               Inr (endl [] @ case_heading t @ tt
                    @ (if failure_messages t \<noteq> []
                       then endl '' Result         :  FAILED'' @ case_errors t @ endl []
                       else endl '' Result         :  SUCCESS'')
                    @ endl [])))"

section \<open>Suite\<close>

text \<open>\<open>cursor\<close> is \<open>__current_text_case\<close>, unset in a suite that was rebuilt from a dictionary.\<close>

record suite =
  suite_name :: string
  cases :: "test_case list"
  cursor :: "int option"
  report_path :: string

datatype suite_verdict = SUCCESS | FAILED

record suite_dict =
  dict_name :: string
  dict_status :: suite_verdict
  dict_cases :: "tc_data list"

definition new_suite :: "string \<Rightarrow> string \<Rightarrow> suite" where
  "new_suite name path = \<lparr>suite_name = name, cases = [], cursor = Some (- 1), report_path = path\<rparr>"

definition suite_of_dict :: "suite_dict \<Rightarrow> suite" where
  "suite_of_dict d = \<lparr>suite_name = dict_name d, cases = map test_case_of_data (dict_cases d),
     cursor = None, report_path = []\<rparr>"

definition suite_status :: "suite \<Rightarrow> suite_verdict" where
  "suite_status s = (if \<exists>t \<in> set (cases s). report_not_valid t then FAILED else SUCCESS)"

definition as_dict :: "suite \<Rightarrow> suite_dict" where
  "as_dict s = \<lparr>dict_name = suite_name s, dict_status = suite_status s, dict_cases = map data (cases s)\<rparr>"

definition add_test_case :: "file_system \<Rightarrow> string \<Rightarrow> string option \<Rightarrow> bool \<Rightarrow> suite \<Rightarrow> unit res \<times> suite" where
  "add_test_case d file macros mand s =
     (case new_test_case d file macros mand of
        Inl e \<Rightarrow> (Inl e, s)
      | Inr t \<Rightarrow> (Inr (), s\<lparr>cases := cases s @ [t]\<rparr>))"

definition no_cursor :: py_exc where
  "no_cursor = AttributeError ''TestSuite object has no attribute current_text_case''"

text \<open>\<open>next_text_case\<close> answers the object; the model answers its index.\<close>

definition next_text_case :: "suite \<Rightarrow> nat option res \<times> suite" where
  "next_text_case s =
     (case cursor s of
        None \<Rightarrow> (Inl no_cursor, s)
      | Some c \<Rightarrow>
          if c < int (length (cases s)) - 1 then (Inr (Some (nat (c + 1))), s\<lparr>cursor := Some (c + 1)\<rparr>)
          else (Inr None, s))"

text \<open>
  \<open>repeat_test_case\<close>: the index of the current case is read as Python does, and the clone comes
  after it.
\<close>

definition py_index :: "'a list \<Rightarrow> int \<Rightarrow> nat option" where
  "py_index xs i =
     (let j = (if i < 0 then i + int (length xs) else i)
      in if 0 \<le> j \<and> j < int (length xs) then Some (nat j) else None)"

definition out_of_range :: py_exc where
  "out_of_range = IndexError ''list index out of range''"

definition repeat_test_case :: "file_system \<Rightarrow> suite \<Rightarrow> unit res \<times> suite" where
  "repeat_test_case d s =
     (case cursor s of
        None \<Rightarrow> (Inl no_cursor, s)
      | Some c \<Rightarrow>
          (case py_index (cases s) c of
             None \<Rightarrow> (Inl out_of_range, s)
           | Some i \<Rightarrow>
               (case clone d (cases s ! i) of
                  Inl e \<Rightarrow> (Inl e, s)
                | Inr (new, old) \<Rightarrow>
                    let ts = (cases s)[i := old]
                    in (Inr (), s\<lparr>cases := take (nat (c + 1)) ts @ [new] @ drop (nat (c + 1)) ts\<rparr>))))"

definition get_last_epm :: "string \<Rightarrow> suite \<Rightarrow> (string \<times> (string, json) dict) option res" where
  "get_last_epm k s =
     (case cursor s of
        None \<Rightarrow> Inl no_cursor
      | Some c \<Rightarrow>
          Inr (map_option (\<lambda>t. (tc_name (data t), epm t))
                (find (\<lambda>t. (case map_of (epm t) ''id'' of None \<Rightarrow> JStr [] | Some v \<Rightarrow> v) = JStr k)
                   (rev (py_take c (cases s))))))"

definition next_test_case_is_optional :: "suite \<Rightarrow> bool res" where
  "next_test_case_is_optional s =
     (case cursor s of
        None \<Rightarrow> Inl no_cursor
      | Some c \<Rightarrow>
          if c < int (length (cases s)) - 1 then
            (case py_nth (cases s) (c + 1) of Inl e \<Rightarrow> Inl e | Inr t \<Rightarrow> Inr (\<not> mandatory (data t)))
          else Inr False)"

definition current_text_case :: "suite \<Rightarrow> test_case res" where
  "current_text_case s = (case cursor s of None \<Rightarrow> Inl no_cursor | Some c \<Rightarrow> py_nth (cases s) c)"

definition nof_tcs :: "suite \<Rightarrow> nat" where
  "nof_tcs s = length (cases s)"

definition nof_mandatory_tcs :: "suite \<Rightarrow> nat" where
  "nof_mandatory_tcs s = length (filter (\<lambda>t. mandatory (data t)) (cases s))"

definition nof_optional_tcs :: "suite \<Rightarrow> nat" where
  "nof_optional_tcs s = length (filter (\<lambda>t. \<not> mandatory (data t)) (cases s))"

definition executed :: "test_case \<Rightarrow> bool" where
  "executed t \<longleftrightarrow> tc_status (data t) \<notin> {Not_Executed, Tc_Running}"

definition nof_mandatory_tcs_exec :: "suite \<Rightarrow> nat" where
  "nof_mandatory_tcs_exec s = length (filter (\<lambda>t. mandatory (data t) \<and> executed t) (cases s))"

definition nof_optional_tcs_exec :: "suite \<Rightarrow> nat" where
  "nof_optional_tcs_exec s = length (filter (\<lambda>t. \<not> mandatory (data t) \<and> executed t) (cases s))"

definition get_summary :: "string \<Rightarrow> suite \<Rightarrow> string" where
  "get_summary name s =
     (case find (\<lambda>t. tc_name (data t) = name \<and> summary t \<noteq> None) (cases s) of
        None \<Rightarrow> ''summary for '' @ name @ '' not found''
      | Some t \<Rightarrow> (case summary t of None \<Rightarrow> [] | Some x \<Rightarrow> summary_str x))"

definition set_execution_status :: "suite_verdict \<Rightarrow> bool \<Rightarrow> suite \<Rightarrow> unit res \<times> suite" where
  "set_execution_status st force s =
     (if force then
        (Inr (), s\<lparr>cases := map (\<lambda>t. if tc_status (data t) \<in> {Tc_Finished, Tc_Not_Finished}
                                       then t\<lparr>report_not_valid := (st = FAILED)\<rparr> else t) (cases s)\<rparr>)
      else case cursor s of
        None \<Rightarrow> (Inl no_cursor, s)
      | Some c \<Rightarrow>
          (case py_index (cases s) c of
             None \<Rightarrow> (Inl out_of_range, s)
           | Some i \<Rightarrow> (Inr (), s\<lparr>cases := (cases s)[i := (cases s ! i)\<lparr>report_not_valid := (st = FAILED)\<rparr>]\<rparr>)))"

fun cases_str :: "(rat \<Rightarrow> string) \<Rightarrow> tc_data list \<Rightarrow> string res" where
  "cases_str fmt [] = Inr []"
| "cases_str fmt (t # ts) =
     (case case_str fmt t of
        Inl e \<Rightarrow> Inl e
      | Inr x \<Rightarrow> (case cases_str fmt ts of Inl e \<Rightarrow> Inl e | Inr y \<Rightarrow> Inr (x @ y)))"

definition suite_str :: "(rat \<Rightarrow> string) \<Rightarrow> suite \<Rightarrow> string res" where
  "suite_str fmt s =
     (case cases_str fmt (map data (cases s)) of
        Inl e \<Rightarrow> Inl e
      | Inr x \<Rightarrow> Inr (endl [] @ endl ('' Test Suite     :  '' @ suite_name s) @ x))"

text \<open>\<open>save_report\<close>: the file and its content.\<close>

definition save_report :: "(rat \<Rightarrow> string) \<Rightarrow> suite \<Rightarrow> (string \<times> string) res" where
  "save_report fmt s =
     (case suite_str fmt s of
        Inl e \<Rightarrow> Inl e
      | Inr x \<Rightarrow> Inr (path_join (report_path s) (''TestSuite_'' @ suite_name s @ ''.report''), x))"

end
