(* ===== verification/Test_Steps.thy ===== *)
theory Test_Steps
  imports Test_Suite
begin

text \<open>
  \<open>HSS_rtc/HSS_rtc_lib/components/steps.py\<close> and \<open>phases.py\<close>: the table from step names to commands, a
  step with its failure handling, and the phases PRE, POST, CLEAN and COLLECT, which run the
  enabled steps of the configuration in order. What the shell answers is the argument \<open>sh\<close>, a
  function of the commands executed so far.
\<close>

section \<open>State of the test tool\<close>

text \<open>
  \<open>RTC_Data\<close> as the steps see it. \<open>running_case\<close> is the position of \<open>TestCase\<close> in the suite;
  \<open>executed_cmds\<close> and \<open>saved_files\<close> record what was asked of the system.
\<close>

record tool =
  tests :: suite
  running_case :: "nat option"
  macros :: "(string, string) dict"
  exit_rtc :: bool
  exit_test_case :: bool
  background_commands :: "string list"
  executed_cmds :: "string list"
  saved_files :: "(string \<times> string) list"
  paused :: bool
  emitted :: "string list"

record user_config =
  u_host :: string
  u_user :: string
  u_port :: string
  u_controller :: string
  u_scxb :: string
  u_extdb :: string
  u_extdb_type :: string
  u_hss_backup :: string
  u_extdb_backup :: string
  u_node_type :: string
  u_verbose :: bool
  u_phases :: "string list"
  u_output_prefix :: string
  u_case_path :: "string option"
  u_dbus :: bool

text \<open>
  The answer to a command. \<open>orders\<close> are the orders of the remote control that arrive while it
  runs; \<open>bg_failure\<close> is the text of the failure to start it in the background.
\<close>

datatype order = Quit | Continue_Quit | Force_Quit | Resume

record cmd_answer =
  out_text :: string
  err_text :: string
  return_code :: int
  bg_failure :: "string option"
  data_saved :: bool
  log_saved :: bool
  orders :: "order list"

type_synonym shell = "string list \<Rightarrow> string \<Rightarrow> cmd_answer"

text \<open>The remote control sets the flags; two of its orders interrupt the main thread.\<close>

definition obey :: "order \<Rightarrow> tool \<Rightarrow> tool" where
  "obey ord r =
     (case ord of
        Quit \<Rightarrow> r\<lparr>paused := False, exit_rtc := True, exit_test_case := False\<rparr>
      | Continue_Quit \<Rightarrow> r\<lparr>paused := False, exit_test_case := True, exit_rtc := False\<rparr>
      | Force_Quit \<Rightarrow> r\<lparr>paused := False, exit_test_case := True, exit_rtc := True\<rparr>
      | Resume \<Rightarrow> r\<lparr>paused := False\<rparr>)"

definition interrupts :: "order \<Rightarrow> bool" where
  "interrupts ord \<longleftrightarrow> ord = Continue_Quit \<or> ord = Force_Quit"

text \<open>One command: it is recorded, the orders are obeyed, and an interrupt loses the answer.\<close>

definition execute :: "shell \<Rightarrow> string \<Rightarrow> tool \<Rightarrow> cmd_answer res \<times> tool" where
  "execute sh cmd r =
     (let a = sh (executed_cmds r) cmd;
          r1 = fold obey (orders a) (r\<lparr>executed_cmds := executed_cmds r @ [cmd]\<rparr>)
      in (if \<exists>ord \<in> set (orders a). interrupts ord then Inl KeyboardInterrupt else Inr a, r1))"

text \<open>An operation on the running test case; without one it is an operation on \<open>None\<close>.\<close>

definition on_case :: "(test_case \<Rightarrow> 'a res \<times> test_case) \<Rightarrow> tool \<Rightarrow> 'a res \<times> tool" where
  "on_case f r =
     (case running_case r of
        None \<Rightarrow> (Inl (AttributeError ''NoneType object has no attribute''), r)
      | Some i \<Rightarrow>
          if i < length (cases (tests r)) then
            (case f (cases (tests r) ! i) of
               (v, t) \<Rightarrow> (v, r\<lparr>tests := (tests r)\<lparr>cases := (cases (tests r))[i := t]\<rparr>\<rparr>))
          else (Inl out_of_range, r))"

definition update_verdict :: "bool \<Rightarrow> string \<Rightarrow> bool \<Rightarrow> tool \<Rightarrow> unit res \<times> tool" where
  "update_verdict verdict why rep r =
     (if verdict then (Inr (), r) else on_case (\<lambda>t. (Inr (), set_repeat rep (add_failure why t))) r)"

definition with_summary :: "(summary \<Rightarrow> unit res \<times> summary) \<Rightarrow> test_case \<Rightarrow> unit res \<times> test_case" where
  "with_summary f t =
     (case summary t of
        None \<Rightarrow> (Inl (AttributeError ''NoneType object has no attribute add''), t)
      | Some s \<Rightarrow> (case f s of (v, s') \<Rightarrow> (v, t\<lparr>summary := Some s'\<rparr>)))"

definition rtc_add_faulty_step :: "string \<Rightarrow> tool \<Rightarrow> unit res \<times> tool" where
  "rtc_add_faulty_step m = on_case (with_summary (\<lambda>s. (Inr (), add_faulty_step m s)))"

definition set_suite_failed :: "tool \<Rightarrow> unit res \<times> tool" where
  "set_suite_failed r =
     (case set_execution_status FAILED False (tests r) of (v, s) \<Rightarrow> (v, r\<lparr>tests := s\<rparr>))"

text \<open>\<open>macro_translator\<close>\<close>

definition rtc_macro_translator :: "string \<Rightarrow> tool \<Rightarrow> string" where
  "rtc_macro_translator s r = foldl (\<lambda>text (k, v). str_replace text k v) s (macros r)"

section \<open>The step table\<close>

datatype step_kind = Framework | External | Function_call

abbreviation dq :: string where "dq \<equiv> [CHR 0x22]"
abbreviation sq :: string where "sq \<equiv> [CHR 0x27]"

definition cba_steps :: "user_config \<Rightarrow> string \<Rightarrow> string \<Rightarrow> string \<Rightarrow> (string, step_kind \<times> string) dict" where
  "cba_steps u out tcname root_dir =
     [(''restore_hss_backup'', Framework, ''CBA_restore_backup -v --node '' @ u_host u @ '' --user '' @ u_user u @ '' --port ''
          @ u_port u @ '' '' @ (if u_hss_backup u = [] then [] else '' -b '' @ u_hss_backup u)),
      (''restore_extdb_backup'', Framework, u_extdb_type u @ ''_restore_backup -v --node '' @ u_extdb u @ '' ''
          @ (if u_extdb_type u = ''GTLA'' then ''-i'' else []) @ '' ''
          @ (if u_extdb_backup u = [] then [] else '' -b '' @ u_extdb_backup u)),
      (''clean_alarms'', Framework, ''CBA_clean_alarms --node '' @ u_host u @ '' --user '' @ u_user u @ '' --port ''
          @ u_port u @ '' -v''),
      (''clean_alerts'', Framework, ''CBA_clean_alerts --node '' @ u_host u @ '' --user '' @ u_user u @ '' --port ''
          @ u_port u @ '' -v''),
      (''clean_app_logs'', Framework, ''CBA_clean_app_logs --node '' @ u_host u @ '' --user '' @ u_user u @ '' --port ''
          @ u_port u @ '' -v -f''),
      (''clean_console_logs'', Framework, ''CBA_clean_console_logs --node '' @ u_host u @ '' --user '' @ u_user u @ '' --port ''
          @ u_port u @ '' -v''),
      (''clean_pmf_logs'', Framework, ''CBA_clean_pmf_logs --node '' @ u_host u @ '' --user '' @ u_user u @ '' --port ''
          @ u_port u @ '' -v''),
      (''get_alarms'', Framework, ''CBA_check_alarms --node '' @ u_host u @ '' --user '' @ u_user u @ '' --port ''
          @ u_port u @ '' -v -x '' @ dq @ ''Diameter Link Disabled'' @ dq),
      (''get_nbi_alarms'', Framework, ''CBA_NBI_check_alarms --node '' @ u_scxb u @ '' -v''),
      (''get_free_memory'', Framework, ''CBA_get_free_memory --node '' @ u_host u @ '' -o '' @ out @ '' --user '' @ u_user u
          @ '' --port '' @ u_port u @ '' -v''),
      (''get_node_status'', Framework, ''CBA_get_node_status --node '' @ u_host u @ '' --user '' @ u_user u @ '' --port ''
          @ u_port u @ '' -v''),
      (''get_vdicos_vars'', Framework, ''CBA_get_node_vdicos_vars --node '' @ u_host u @ '' --user '' @ u_user u @ '' --port ''
          @ u_port u @ '' -v''),
      (''get_repository_list'', Framework, ''CBA_get_repository_list --node '' @ u_host u @ '' --user '' @ u_user u @ '' --port ''
          @ u_port u @ '' -v''),
      (''get_capsule_dumps'', Framework, ''CBA_list_capsule_dumps --node '' @ u_host u @ '' --user '' @ u_user u @ '' --port ''
          @ u_port u @ '' -v''),
      (''get_ExtDb_connections'', Framework, ''CBA_check_ExtDb_connections --node '' @ u_host u @ '' --user '' @ u_user u
          @ '' --port '' @ u_port u @ '' -v''),
      (''get_Http_connections'', Framework, ''CBA_check_Http_connections --node '' @ u_host u @ '' --user '' @ u_user u
          @ '' --port '' @ u_port u @ '' -v''),
      (''get_last_pl_reboot'', Framework, ''CBA_get_last_pl_reboot --node '' @ u_host u @ '' --user '' @ u_user u @ '' --port ''
          @ u_port u @ '' -v''),
      (''get_dynamic_process'', Framework, ''CBA_find_dynamic_process --node '' @ u_host u @ '' --user '' @ u_user u @ '' --port ''
          @ u_port u @ '' -v''),
      (''get_all_processes'', Framework, ''CBA_find_all_processes --node '' @ u_host u @ '' --user '' @ u_user u @ '' --port ''
          @ u_port u @ '' -v''),
      (''get_processes_list'', Framework, ''CBA_list_processes --node '' @ u_host u @ '' --user '' @ u_user u @ '' --port ''
          @ u_port u @ '' -v''),
      (''health_check'', Framework, ''CBA_health_check --node '' @ u_host u @ '' --user '' @ u_user u @ '' --port ''
          @ u_port u @ '' -v -o '' @ out),
      (''cmw_collect_info'', Framework, ''CBA_cmw_collect_info --node '' @ u_host u @ '' --user '' @ u_user u @ '' --port ''
          @ u_port u @ '' -v -o '' @ out @ '' -s '' @ tcname),
      (''diacc_collect_info'', Framework, ''CBA_diacc_collect_info --node '' @ u_host u @ '' --user '' @ u_user u @ '' --port ''
          @ u_port u @ '' -v -o '' @ out @ '' ''),
      (''collect_logs'', Framework, ''CBA_collect_logs --node '' @ u_host u @ '' --user '' @ u_user u @ '' --port ''
          @ u_port u @ '' -v -o '' @ out @ '' -s '' @ tcname),
      (''pmf_counter_sum'', Framework, ''CBA_pmf_counter_sum --node '' @ u_host u @ '' --user '' @ u_user u @ '' --port ''
          @ u_port u @ '' -v -o '' @ out @ ''/pmf_counter_sum_'' @ tcname @ ''.txt''),
      (''pmf_counter_to_csv'', External, ''CBA_pmf_counter_to_csv --input '' @ u_host u @ '' --user '' @ u_user u @ '' --port ''
          @ u_port u @ '' -o '' @ out @ ''/pmf_counter_csv_'' @ tcname @ '' --log-path ''
          @ root_dir @ ''> /dev/null 2>&1''),
      (''check_pl_reboot'', Function_call, ''compare_output_files('' @ sq @ ''get_last_pl_reboot'' @ sq @ '', '' @ sq
          @ ''PL reboot'' @ sq @ '')''),
      (''check_capsule_dumps'', Function_call, ''compare_output_files('' @ sq @ ''get_capsule_dumps'' @ sq @ '', '' @ sq @ ''Capsules''
          @ sq @ '')''),
      (''check_all_processes'', Function_call, ''compare_output_files('' @ sq @ ''get_all_processes'' @ sq @ '', '' @ sq
          @ ''Changes in HSS processes'' @ sq @ '')''),
      (''check_alarms'', Function_call, ''compare_output_files('' @ sq @ ''get_alarms'' @ sq @ '', '' @ sq @ ''New alarms'' @ sq
          @ '')''),
      (''check_nbi_alarms'', Function_call, ''compare_output_files('' @ sq @ ''get_nbi_alarms'' @ sq @ '', '' @ sq
          @ ''New NBI alarms'' @ sq @ '')''),
      (''check_node_status'', Function_call, ''compare_output_files('' @ sq @ ''get_node_status'' @ sq @ '', '' @ sq
          @ ''Node status'' @ sq @ '')''),
      (''check_vdicos_vars'', Function_call, ''compare_output_files('' @ sq @ ''get_vdicos_vars'' @ sq @ '', '' @ sq
          @ ''vDicos variables'' @ sq @ '')''),
      (''check_repository_list'', Function_call, ''compare_output_files('' @ sq @ ''get_repository_list'' @ sq @ '', '' @ sq
          @ ''Repository List'' @ sq @ '')''),
      (''check_ExtDb_connections'', Function_call, ''compare_output_files('' @ sq @ ''get_ExtDb_connections'' @ sq @ '', '' @ sq
          @ ''ExtDb connections'' @ sq @ '')''),
      (''check_Http_connections'', Function_call, ''compare_output_files('' @ sq @ ''get_Http_connections'' @ sq @ '', '' @ sq
          @ ''Http connections'' @ sq @ '')''),
      (''check_list_processes'', Function_call, ''check_list_processes''),
      (''check_free_memory'', Function_call, ''check_free_memory()''),
      (''check_traffic'', Function_call, ''check_traffic_result''),
      (''check_epm'', Function_call, ''check_epm''),
      (''check_load_stability'', Function_call, ''check_load_stability''),
      (''check_scenario_error_rate'', Function_call, ''check_scenario_error_rate()'')]"

definition cloud_steps :: "user_config \<Rightarrow> string \<Rightarrow> string \<Rightarrow> string \<Rightarrow> (string, step_kind \<times> string) dict" where
  "cloud_steps u out tcname root_dir =
     [(''restore_extdb_backup'', Framework, u_extdb_type u @ ''_restore_backup -v ''
          @ (if u_extdb_type u = ''GTLA'' then ''-i'' else []) @ '' ''
          @ (if u_extdb_backup u = [] then [] else '' -b '' @ u_extdb_backup u)),
      (''refresh_credentials'', Framework, ''get_env_info --cloud-credential -v''),
      (''get_nodes_info'', Framework, ''CLOUD_nodes_info -v''),
      (''get_deployments_info'', Framework, ''CLOUD_deployments_info -v''),
      (''get_pods_info'', Framework, ''CLOUD_pods_info -v''),
      (''get_services_info'', Framework, ''CLOUD_services_info -v''),
      (''get_events_info'', Framework, ''CLOUD_events_info -v''),
      (''get_nof_pods_per_node'', Framework, ''CLOUD_nof_pods_per_node -v''),
      (''get_total_nof_pods'', Framework, ''CLOUD_total_nof_pods -v''),
      (''get_node_resources'', Framework, ''CLOUD_node_resources -v''),
      (''get_replica'', Framework, ''CLOUD_replica -v''),
      (''get_alarms'', Framework, ''CLOUD_get_alarms -v''),
      (''get_kubectl_version'', Framework, ''CLOUD_kubectl_version -v''),
      (''get_helm_version'', Framework, ''CLOUD_helm_version -v''),
      (''get_ccd_version'', Framework, ''CLOUD_ccd_version -v''),
      (''get_software_installed'', Framework, ''CLOUD_software_installed -v''),
      (''collect_all_containers_logs'', Framework, ''CLOUD_get_all_containers_logs -v''),
      (''collect_pods_logs'', Framework, ''CLOUD_get_pods_logs -v''),
      (''check_nof_pods_per_node'', Function_call, ''compare_output_files('' @ sq @ ''get_nof_pods_per_node'' @ sq @ '', '' @ sq
          @ ''Pods per node'' @ sq @ '')''),
      (''check_events_info'', Function_call, ''compare_output_files('' @ sq @ ''get_events_info'' @ sq @ '', '' @ sq @ ''Events''
          @ sq @ '')''),
      (''check_alarms'', Function_call, ''compare_output_files('' @ sq @ ''get_alarms'' @ sq @ '', '' @ sq @ ''Alarms'' @ sq
          @ '')''),
      (''check_pods_restarts'', Function_call, ''check_pods_restarts''),
      (''check_all_pods_running'', Framework, ''CLOUD_check_all_pods_running -v''),
      (''check_all_containers_started'', Framework, ''CLOUD_check_all_containers_started -v''),
      (''check_all_nodes_ready'', Framework, ''CLOUD_check_all_nodes_ready -v''),
      (''check_epm'', Function_call, ''check_epm''),
      (''check_traffic'', Function_call, ''check_traffic_result''),
      (''check_scenario_error_rate'', Function_call, ''check_scenario_error_rate()'')]"

definition tsp_steps :: "user_config \<Rightarrow> string \<Rightarrow> string \<Rightarrow> string \<Rightarrow> (string, step_kind \<times> string) dict" where
  "tsp_steps u out tcname root_dir =
     [(''restore_hss_backup'', Framework, ''TSP_restore_backup -v --node '' @ u_controller u @ '' ''
          @ (if u_hss_backup u = [] then [] else '' -b '' @ u_hss_backup u)),
      (''restore_extdb_backup'', Framework, u_extdb_type u @ ''_restore_backup -v --node '' @ u_extdb u @ '' ''
          @ (if u_extdb_type u = ''GTLA'' then ''-i'' else []) @ '' ''
          @ (if u_extdb_backup u = [] then [] else '' -b '' @ u_extdb_backup u)),
      (''clean_app_logs'', Framework, ''TSP_clean_app_logs --node '' @ u_controller u @ '' -v''),
      (''clean_pmf_logs'', Framework, ''TSP_clean_pmf_logs --node '' @ u_controller u @ '' -v''),
      (''get_alarms'', Framework, ''TSP_check_alarm --node '' @ u_controller u @ '' -v -p -x '' @ dq
          @ ''Diameter, Link Failure'' @ dq @ '' '' @ dq @ ''Diameter, Link Disabled'' @ dq
          @ '' '' @ dq @ ''Maximum backup interval exceeded'' @ dq @ '' '' @ dq
          @ ''IO, Archiving Interval Exceeded'' @ dq @ '' '' @ dq @ ''Zone Reloaded From Backup''
          @ dq),
      (''get_capsule_dumps'', Framework, ''TSP_list_capsule_dumps --node '' @ u_controller u @ '' -v''),
      (''get_processors_info'', Framework, ''TSP_get_processors_info --node '' @ u_controller u @ '' -v''),
      (''get_dynamic_process'', Framework, ''TSP_find_dynamic_process --node '' @ u_controller u @ '' -v''),
      (''health_check'', Framework, ''TSP_health_check --node '' @ u_controller u @ '' -v -o '' @ out),
      (''collect_logs'', Framework, ''TSP_collect_logs --node '' @ u_controller u @ '' -v -o '' @ out @ '' -s '' @ tcname),
      (''pmf_counter_sum'', Framework, ''TSP_pmf_counter_sum --node '' @ u_controller u @ '' -v -o '' @ out
          @ ''/pmf_counter_sum_'' @ tcname @ ''.txt''),
      (''pmf_counter_to_csv'', External, ''TSP_pmf_counter_to_csv --input '' @ u_controller u @ '' -o '' @ out
          @ ''/pmf_counter_csv_'' @ tcname @ '' --log-path '' @ root_dir @ '' > /dev/null 2>&1''),
      (''check_alarms'', Function_call, ''compare_output_files('' @ sq @ ''get_alarms'' @ sq @ '', '' @ sq @ ''New alarms'' @ sq
          @ '')''),
      (''check_capsule_dumps'', Function_call, ''compare_output_files('' @ sq @ ''get_capsule_dumps'' @ sq @ '', '' @ sq @ ''Capsules''
          @ sq @ '')''),
      (''check_processors_info'', Function_call, ''compare_output_files('' @ sq @ ''get_processors_info'' @ sq @ '', '' @ sq
          @ ''Processor Info'' @ sq @ '')''),
      (''check_traffic'', Function_call, ''check_traffic_result''),
      (''check_epm'', Function_call, ''check_epm''),
      (''check_load_stability'', Function_call, ''check_load_stability()''),
      (''check_scenario_error_rate'', Function_call, ''check_scenario_error_rate()'')]"

text \<open>The table of the node type; every other type is a TSP node.\<close>

definition step_table :: "user_config \<Rightarrow> string \<Rightarrow> string \<Rightarrow> string \<Rightarrow> (string, step_kind \<times> string) dict" where
  "step_table u out tcname root_dir =
     (if u_node_type u = ''CBA'' then cba_steps u out tcname root_dir
      else if u_node_type u = ''CLOUD'' then cloud_steps u out tcname root_dir
      else tsp_steps u out tcname root_dir)"

record step_env =
  table :: "(string, step_kind \<times> string) dict"
  env_verbose :: bool
  out_path :: string

definition translator_cmd :: "step_env \<Rightarrow> step_config \<Rightarrow> string res" where
  "translator_cmd e c =
     (case map_of (table e) (step_id c) of
        Some (k, cmd) \<Rightarrow> Inr cmd
      | None \<Rightarrow>
          (case step_cmd c of
             Some cmd \<Rightarrow> Inr cmd
           | None \<Rightarrow> Inl (ExecutionConfigurationError
               (''Problem finding '' @ step_id c @ '' cmd : '' @ exc_str (KeyError ''cmd'')))))"

definition translator_type :: "step_env \<Rightarrow> step_config \<Rightarrow> step_kind" where
  "translator_type e c =
     (case map_of (table e) (step_id c) of
        Some (k, cmd) \<Rightarrow> k
      | None \<Rightarrow> if step_framework c then Framework else External)"

section \<open>A step\<close>

definition translate_macros :: "tool \<Rightarrow> string \<Rightarrow> string" where
  "translate_macros r s = (if CHR ''#'' \<in> set s then rtc_macro_translator s r else s)"

definition step_command :: "step_env \<Rightarrow> step_config \<Rightarrow> tool \<Rightarrow> string res" where
  "step_command e c r =
     (case translator_cmd e c of
        Inl x \<Rightarrow> Inl x
      | Inr cmd \<Rightarrow> Inr (translate_macros r (cmd @ '' '' @ step_extra_parameters c)))"

definition step_function :: "step_env \<Rightarrow> step_config \<Rightarrow> tool \<Rightarrow> string res" where
  "step_function e c r =
     (case translator_cmd e c of
        Inl x \<Rightarrow> Inl x
      | Inr cmd \<Rightarrow>
          Inr (translate_macros r
            (if CHR 0x28 \<in> set cmd then cmd else cmd @ [CHR 0x28] @ step_extra_parameters c @ [CHR 0x29])))"

text \<open>\<open>line.find(header)\<close>, as the text after the first occurrence.\<close>

fun after_header :: "string \<Rightarrow> string \<Rightarrow> string option" where
  "after_header h [] = (if h = [] then Some [] else None)"
| "after_header h (c # cs) =
     (if startswith (c # cs) h then Some (drop (length h) (c # cs)) else after_header h cs)"

text \<open>\<open>get_stFramework_error_message\<close>: the last five lines, from the last one.\<close>

fun first_some :: "('a \<Rightarrow> 'b option) \<Rightarrow> 'a list \<Rightarrow> 'b option" where
  "first_some f [] = None"
| "first_some f (x # xs) = (case f x of None \<Rightarrow> first_some f xs | Some y \<Rightarrow> Some y)"

definition framework_error_message :: "string \<Rightarrow> string \<Rightarrow> string option" where
  "framework_error_message header stderr =
     first_some (after_header header) (take 5 (rev (splitlines stderr)))"

definition get_error_info :: "string \<Rightarrow> string" where
  "get_error_info stderr =
     (case framework_error_message ''stFramework_message '' stderr of
        Some m \<Rightarrow> m
      | None \<Rightarrow>
          (case framework_error_message ''stTool_message '' stderr of
             Some m \<Rightarrow> m
           | None \<Rightarrow> ''unknown''))"

text \<open>What a step has measured: the return code (\<open>None\<close> for a step in the background that
  started), output and error.\<close>

record step_result =
  res_code :: "int option"
  res_error :: string
  res_out :: string

definition run_background :: "shell \<Rightarrow> string \<Rightarrow> tool \<Rightarrow> step_result res \<times> tool" where
  "run_background sh cmd r =
     andthen (execute sh cmd r) (\<lambda>a r.
       case bg_failure a of
         Some why \<Rightarrow> (Inr \<lparr>res_code = Some 1, res_error = why, res_out = []\<rparr>, r)
       | None \<Rightarrow>
           (Inr \<lparr>res_code = None, res_error = [], res_out = []\<rparr>,
            r\<lparr>background_commands := background_commands r @ [cmd]\<rparr>))"

definition save_to :: "bool \<Rightarrow> string \<Rightarrow> string \<Rightarrow> tool \<Rightarrow> unit res \<times> tool" where
  "save_to ok name text r =
     (if ok then (Inr (), r\<lparr>saved_files := saved_files r @ [(name, text)]\<rparr>)
      else (Inl (ExecutionRunError (''Error saving file: '' @ name)), r))"

definition timeout_error :: "step_config \<Rightarrow> string \<Rightarrow> string" where
  "timeout_error c stderr =
     (if step_max_time c > 1 \<and> splitlines stderr \<noteq> [] \<and> contains ''Command Timeout'' (last (splitlines stderr))
      then last (splitlines stderr) else [])"

definition run_foreground ::
  "shell \<Rightarrow> step_env \<Rightarrow> string \<Rightarrow> step_config \<Rightarrow> string \<Rightarrow> tool \<Rightarrow> step_result res \<times> tool" where
  "run_foreground sh e ph c cmd r =
     andthen (execute sh ((if translator_type e c = Framework then ''run_command_node '' else []) @ cmd) r) (\<lambda>a r.
     andthen (if length (out_text a) > 1
              then save_to (data_saved a) (path_join (out_path e) (step_id c @ ''.data'')) (out_text a) r
              else (Inr (), r)) (\<lambda>_ r.
       let late = timeout_error c (err_text a)
       in if return_code a \<noteq> 0 \<or> env_verbose e then
            andthen (save_to (log_saved a)
                (path_join (path_join (out_path e) ''../command_log'') (ph @ ''_'' @ step_id c @ ''.log''))
                (err_text a) r)
              (\<lambda>_ r. (Inr \<lparr>res_code = Some (return_code a),
                 res_error = (if late = [] then get_error_info (err_text a) else late), res_out = out_text a\<rparr>, r))
          else (Inr \<lparr>res_code = Some (return_code a), res_error = late, res_out = out_text a\<rparr>, r)))"

definition affects_verdict :: "step_config \<Rightarrow> bool" where
  "affects_verdict c \<longleftrightarrow> step_add_to_verdict c \<or> step_stop_on_fail c \<or> step_exit_rtc_on_fail c \<or> step_report_not_valid c"

definition stop_reason :: "step_config \<Rightarrow> string \<Rightarrow> py_exc option" where
  "stop_reason c why =
     (if step_exit_rtc_on_fail c then Some (ExitRtc why)
      else if step_stop_on_fail c then Some (StopTestCaseOnFail why)
      else if step_skip_phase_on_fail c then Some (SkipPhase why)
      else None)"

text \<open>The end of a failed step: the verdict, the mark of the suite, the summary, the exception.\<close>

definition step_failed :: "string \<Rightarrow> step_config \<Rightarrow> string \<Rightarrow> string \<Rightarrow> tool \<Rightarrow> unit res \<times> tool" where
  "step_failed ph c cmd why r =
     andthen (if affects_verdict c
              then update_verdict False (ph @ '' '' @ cmd @ '': '' @ why) (step_repeat c) r
              else (Inr (), r)) (\<lambda>_ r.
     andthen (if step_report_not_valid c then set_suite_failed r else (Inr (), r)) (\<lambda>_ r.
     andthen (rtc_add_faulty_step
                (ljust 15 ph @ cmd @ [CHR 0x0A, CHR 0x09, CHR 0x09, CHR 0x09] @ ''   '' @ why @ [CHR 0x0A]) r) (\<lambda>_ r.
       case stop_reason c (''configured in '' @ step_id c @ '' at '' @ ph @ '' phase'') of
         None \<Rightarrow> (Inr (), r)
       | Some x \<Rightarrow> (Inl x, r))))"

text \<open>
  \<open>Step.run\<close>. The answer is the text of the function for a step of that type, and the result of
  the command otherwise.
\<close>

definition step_run ::
  "shell \<Rightarrow> step_env \<Rightarrow> string \<Rightarrow> step_config \<Rightarrow> tool \<Rightarrow> (string + step_result) res \<times> tool" where
  "step_run sh e ph c r =
     (if translator_type e c = Function_call then
        (case step_function e c r of Inl x \<Rightarrow> (Inl x, r) | Inr f \<Rightarrow> (Inr (Inl f), r))
      else
        (case step_command e c r of
           Inl x \<Rightarrow> (Inl x, r)
         | Inr cmd \<Rightarrow>
             andthen (if step_background c then run_background sh cmd r else run_foreground sh e ph c cmd r) (\<lambda>a r.
               if res_code a \<notin> {None, Some 0} then
                 andthen (step_failed ph c cmd (res_error a) r) (\<lambda>_ r. (Inr (Inr a), r))
               else (Inr (Inr a), r))))"

section \<open>A phase\<close>

text \<open>\<open>None\<close> is the missing field: the step is skipped with a warning.\<close>

definition step_enabled :: "step_config \<Rightarrow> tool \<Rightarrow> bool" where
  "step_enabled c r =
     (case step_enable c of
        None \<Rightarrow> False
      | Some (Flag b) \<Rightarrow> b
      | Some (Macro m) \<Rightarrow> map_of (macros r) m = Some ''true'')"

text \<open>The loop of \<open>run\<close>; the body is the same shape in every phase, so it is an argument.\<close>

fun run_steps :: "(step_config \<Rightarrow> tool \<Rightarrow> unit res \<times> tool) \<Rightarrow> step_config list \<Rightarrow> tool \<Rightarrow> unit res \<times> tool" where
  "run_steps body [] r = (Inr (), r)"
| "run_steps body (c # cs) r =
     (if exit_test_case r then (Inr (), r)
      else if step_enabled c r then andthen (body c r) (\<lambda>_. run_steps body cs)
      else run_steps body cs r)"

definition missing_steps :: py_exc where
  "missing_steps = KeyError ''steps''"

definition phase_body :: "shell \<Rightarrow> step_env \<Rightarrow> string \<Rightarrow> step_config \<Rightarrow> tool \<Rightarrow> unit res \<times> tool" where
  "phase_body sh e ph c r = andthen (step_run sh e ph c r) (\<lambda>_ r. (Inr (), r))"

definition phase_run :: "shell \<Rightarrow> step_env \<Rightarrow> string \<Rightarrow> phase_config \<Rightarrow> tool \<Rightarrow> unit res \<times> tool" where
  "phase_run sh e ph p r =
     (case phase_enable p of
        None \<Rightarrow> (Inl (KeyError ''enable''), r)
      | Some False \<Rightarrow> (Inr (), r)
      | Some True \<Rightarrow>
          (case phase_steps p of
             None \<Rightarrow> (Inl missing_steps, r)
           | Some cs \<Rightarrow> run_steps (phase_body sh e ph) cs r))"

end
