(* ===== verification/Test_Checks.thy ===== *)
theory Test_Checks
  imports Test_Steps "HOL-Library.List_Lexorder" "HOL-Library.Product_Lexorder" "HOL-Library.Char_ord"
begin

text \<open>
  \<open>HSS_rtc/HSS_rtc_lib/components/checks.py\<close>: the phase CHECK, which turns the result of its steps
  into the verdict of the test case, and the checks that compare what PRE and POST collected.
  Python's \<open>eval\<close> of a check is the argument \<open>ev\<close>. The check of the EPM report is not modelled.
\<close>

section \<open>The phase CHECK\<close>

definition report :: "string \<Rightarrow> tool \<Rightarrow> unit res \<times> tool" where
  "report m = on_case (with_summary (add_to_report m False))"

definition reports :: "string list \<Rightarrow> tool \<Rightarrow> unit res \<times> tool" where
  "reports = for_each report"

definition user_step_lines :: "string \<Rightarrow> string \<Rightarrow> string \<Rightarrow> string list" where
  "user_step_lines sid cmd out =
     [[], ''CHECK User step:  '' @ sid, ''            cmd:  '' @ cmd, ''         output:'']
     @ (if out \<noteq> [] then map (\<lambda>l. ''                  '' @ l) (splitlines out)
        else [''                  No info provided in stdout by user step''])
     @ [[]]"

text \<open>
  The result of a step: an external one by its return code (a step in the background has none),
  any other by the evaluation of what \<open>run\<close> answers, which is \<open>None\<close> for a framework step.
\<close>

definition check_result ::
  "shell \<Rightarrow> (string \<Rightarrow> tool \<Rightarrow> (bool \<times> string) res \<times> tool) \<Rightarrow> step_env \<Rightarrow> step_config \<Rightarrow> tool \<Rightarrow>
     (bool \<times> string) res \<times> tool" where
  "check_result sh ev e c r =
     andthen (step_run sh e ''CHECK'' c r) (\<lambda>a r.
       case a of
         Inl text \<Rightarrow> ev text r
       | Inr res \<Rightarrow>
           if translator_type e c = External then
             andthen (if step_add_to_summary c
                      then (case step_command e c r of
                              Inl x \<Rightarrow> (Inl x, r)
                            | Inr cmd \<Rightarrow> reports (user_step_lines (step_id c) cmd (res_out res)) r)
                      else (Inr (), r))
               (\<lambda>_ r. (Inr (res_code res = Some 0, res_error res), r))
           else (Inl (AttributeError ''CHECK object has no attribute None''), r))"

definition check_body ::
  "shell \<Rightarrow> (string \<Rightarrow> tool \<Rightarrow> (bool \<times> string) res \<times> tool) \<Rightarrow> step_env \<Rightarrow> step_config \<Rightarrow> tool \<Rightarrow> unit res \<times> tool" where
  "check_body sh ev e c r =
     andthen (check_result sh ev e c r) (\<lambda>(ok, why) r.
       if ok then (Inr (), r)
       else
         andthen (if affects_verdict c then update_verdict ok why (step_repeat c) r else (Inr (), r)) (\<lambda>_ r.
         andthen (if step_report_not_valid c then set_suite_failed r else (Inr (), r)) (\<lambda>_ r.
           case stop_reason c (''configured in '' @ step_id c @ '' at CHECK phase'') of
             None \<Rightarrow> (Inr (), r)
           | Some x \<Rightarrow> (Inl x, r))))"

definition check_run ::
  "shell \<Rightarrow> (string \<Rightarrow> tool \<Rightarrow> (bool \<times> string) res \<times> tool) \<Rightarrow> step_env \<Rightarrow> phase_config \<Rightarrow> tool \<Rightarrow> unit res \<times> tool" where
  "check_run sh ev e p r =
     (case phase_enable p of
        None \<Rightarrow> (Inl (KeyError ''enable''), r)
      | Some False \<Rightarrow> (Inr (), r)
      | Some True \<Rightarrow>
          (case phase_steps p of
             None \<Rightarrow> (Inl missing_steps, r)
           | Some cs \<Rightarrow> run_steps (check_body sh ev e) cs r))"

section \<open>Comparing PRE and POST\<close>

text \<open>A file: its content and its modification time. \<open>fs\<close> is the file system.\<close>

record stored =
  content :: string
  mtime :: rat

type_synonym files = "string \<Rightarrow> stored option"

definition case_root :: "tool \<Rightarrow> string" where
  "case_root r =
     (case running_case r of
        None \<Rightarrow> []
      | Some i \<Rightarrow> if i < length (cases (tests r)) then root_path (data (cases (tests r) ! i)) else [])"

definition data_file :: "tool \<Rightarrow> string \<Rightarrow> string \<Rightarrow> string" where
  "data_file r ph name = path_join (path_join (case_root r) ph) (name @ ''.data'')"

text \<open>
  \<open>filecmp.cmp\<close> with its default: equal size and time count as equal; different sizes as
  different; otherwise the contents are compared.
\<close>

definition same_file :: "stored \<Rightarrow> stored \<Rightarrow> bool" where
  "same_file f g \<longleftrightarrow>
     (length (content f) = length (content g) \<and> mtime f = mtime g) \<or> content f = content g"

definition check_line :: "string \<Rightarrow> string \<Rightarrow> string" where
  "check_line slogan text = ''Check '' @ ljust 30 slogan @ '':  '' @ text"

definition compare_output_files ::
  "files \<Rightarrow> string \<Rightarrow> string \<Rightarrow> tool \<Rightarrow> (bool \<times> string) res \<times> tool" where
  "compare_output_files fs step slogan r =
     (let a = data_file r ''PRE'' step; b = data_file r ''POST'' step
      in case (fs a, fs b) of
           (Some f, Some g) \<Rightarrow>
             if same_file f g then
               andthen (report (check_line slogan ''SUCCESS'') r) (\<lambda>_ r. (Inr (True, []), r))
             else
               andthen (report (check_line slogan (''FAILED '' @ a @ '' and '' @ b @ '' are not equal'')) r)
                 (\<lambda>_ r. (Inr (False, ''CHECK '' @ step @ '': '' @ a @ '' and '' @ b @ '' are not equal''), r))
         | _ \<Rightarrow>
             andthen (report (check_line slogan (''UNDEFINED Check that '' @ a @ '' and '' @ b @ '' exist'')) r)
               (\<lambda>_ r. (Inr (False, ''CHECK '' @ step @ '': ''), r)))"

text \<open>A check that needs a missing file fails with the error of \<open>open\<close>.\<close>

definition missing_file :: "string \<Rightarrow> string \<Rightarrow> tool \<Rightarrow> (bool \<times> string) res \<times> tool" where
  "missing_file slogan name r =
     (let why = check_line slogan (''FAILED No such file or directory: '' @ name @ '' '')
      in andthen (report why r) (\<lambda>_ r. (Inr (False, why), r)))"

definition with_both ::
  "files \<Rightarrow> string \<Rightarrow> string \<Rightarrow> (string list \<Rightarrow> string list \<Rightarrow> tool \<Rightarrow> (bool \<times> string) res \<times> tool) \<Rightarrow> tool \<Rightarrow>
     (bool \<times> string) res \<times> tool" where
  "with_both fs slogan name f r =
     (let a = data_file r ''PRE'' name; b = data_file r ''POST'' name
      in case fs a of
           None \<Rightarrow> missing_file slogan a r
         | Some pre \<Rightarrow>
             (case fs b of
                None \<Rightarrow> missing_file slogan b r
              | Some post \<Rightarrow> f (splitlines (content pre)) (splitlines (content post)) r))"

text \<open>\<open>diff_list\<close>: what is in one of the lists only. Python leaves the order open.\<close>

definition diff_list :: "string list \<Rightarrow> string list \<Rightarrow> string list" where
  "diff_list xs ys =
     remdups (filter (\<lambda>x. x \<notin> set ys) xs @ filter (\<lambda>y. y \<notin> set xs) ys)"

definition process_check :: "string list \<Rightarrow> string list \<Rightarrow> string list \<Rightarrow> tool \<Rightarrow> (bool \<times> string) res \<times> tool" where
  "process_check gap pre post r =
     (let real_gap = filter (\<lambda>x. x \<noteq> []) (diff_list (map strip pre) (map strip post));
          faulty = diff_list real_gap gap
      in if faulty \<noteq> [] then
           (let why = check_line ''list_processes'' (''FAILED '' @ join '' '' faulty @ '' '')
            in andthen (report why r) (\<lambda>_ r. (Inr (False, why), r)))
         else andthen (report (check_line ''list_processes'' ''SUCCESS'') r) (\<lambda>_ r. (Inr (True, []), r)))"

definition check_list_processes :: "files \<Rightarrow> string \<Rightarrow> tool \<Rightarrow> (bool \<times> string) res \<times> tool" where
  "check_list_processes fs gap = with_both fs ''list_processes'' ''get_processes_list'' (process_check (words gap))"

section \<open>Restarts and memory\<close>

text \<open>
  Both checks collect a value per name from PRE and from POST, report every difference as an
  error, and answer \<open>True\<close>. An absent value is \<open>None\<close> (the sources use the empty text and 0.0).
\<close>

type_synonym 'v pairs = "(string, 'v option \<times> 'v option) dict"

definition put_pre :: "string \<times> 'v \<Rightarrow> 'v pairs \<Rightarrow> 'v pairs" where
  "put_pre kv d = dict_set (fst kv) (Some (snd kv), None) d"

definition put_post :: "string \<times> 'v \<Rightarrow> 'v pairs \<Rightarrow> 'v pairs" where
  "put_post kv d =
     (case map_of d (fst kv) of
        None \<Rightarrow> dict_set (fst kv) (None, Some (snd kv)) d
      | Some (a, b) \<Rightarrow> dict_set (fst kv) (a, Some (snd kv)) d)"

definition collect :: "(string \<times> 'v) list \<Rightarrow> (string \<times> 'v) list \<Rightarrow> 'v pairs" where
  "collect pre post = fold put_post post (fold put_pre pre [])"

text \<open>A line of \<open>get_pods_info\<close>: the name is the second word and the restarts the fifth.\<close>

definition pod_line :: "string \<Rightarrow> (string \<times> string) option" where
  "pod_line l = (let ws = words l in if length ws > 4 then Some (ws ! 1, ws ! 4) else None)"

text \<open>
  \<open>sorted_nicely\<close>: the pieces of a name are compared in turn, runs of digits as numbers; a number
  is smaller than a text, as in Python 2.
\<close>

definition is_digit :: "char \<Rightarrow> bool" where
  "is_digit c \<longleftrightarrow> CHR ''0'' \<le> c \<and> c \<le> CHR ''9''"

fun pieces :: "bool \<Rightarrow> string \<Rightarrow> string \<Rightarrow> (nat \<times> nat \<times> string) list" where
  "pieces number acc [] =
     (if number then [(0, digits_value acc, []), (1, 0, [])] else [(1, 0, acc)])"
| "pieces number acc (c # cs) =
     (if is_digit c = number then pieces number (acc @ [c]) cs
      else (if number then (0, digits_value acc, []) else (1, 0, acc)) # pieces (\<not> number) [c] cs)"

definition sorted_nicely :: "string list \<Rightarrow> string list" where
  "sorted_nicely = sort_key (pieces False [])"

text \<open>
  The line of one name; \<open>parse\<close> is \<open>int\<close>, and \<open>shw\<close> prints the difference. The columns are not
  aligned.
\<close>

definition pod_row ::
  "(string \<Rightarrow> int option) \<Rightarrow> (int \<Rightarrow> string) \<Rightarrow> string pairs \<Rightarrow> string \<Rightarrow> string list res" where
  "pod_row parse shw d k =
     (case map_of d k of
        None \<Rightarrow> Inr []
      | Some (None, _) \<Rightarrow> Inr [k @ '' MISSING in PRE'']
      | Some (Some x, None) \<Rightarrow> Inr [k @ '' MISSING in POST'']
      | Some (Some x, Some y) \<Rightarrow>
          if x = y then Inr []
          else (case (parse y, parse x) of
                  (Some m, Some n) \<Rightarrow> Inr [k @ '' '' @ shw (m - n)]
                | _ \<Rightarrow> Inl (ValueError ''invalid literal for int() with base 10'')))"

definition report_rows :: "(string \<Rightarrow> string list res) \<Rightarrow> string list \<Rightarrow> tool \<Rightarrow> unit res \<times> tool" where
  "report_rows row = for_each (\<lambda>k r. case row k of Inl e \<Rightarrow> (Inl e, r) | Inr ls \<Rightarrow> reports ls r)"

definition pods_check ::
  "(string \<Rightarrow> int option) \<Rightarrow> (int \<Rightarrow> string) \<Rightarrow> string list \<Rightarrow> string list \<Rightarrow> tool \<Rightarrow> (bool \<times> string) res \<times> tool" where
  "pods_check parse shw pre post r =
     (let d = collect (List.map_filter pod_line pre) (List.map_filter pod_line post)
      in if \<forall>(k, a, b) \<in> set d. a = b then
           andthen (report (check_line ''pods_restart'' ''SUCCESS'') r) (\<lambda>_ r. (Inr (True, []), r))
         else
           (let why = check_line ''pods_restart'' ''FAILED''
            in andthen (reports [why, ''Pod Delta Restarts ''] r) (\<lambda>_ r.
               andthen (report_rows (pod_row parse shw d) (sorted_nicely (dict_keys d)) r) (\<lambda>_ r.
               andthen (report [] r) (\<lambda>_ r. (Inr (True, why), r))))))"

definition check_pods_restarts ::
  "files \<Rightarrow> (string \<Rightarrow> int option) \<Rightarrow> (int \<Rightarrow> string) \<Rightarrow> tool \<Rightarrow> (bool \<times> string) res \<times> tool" where
  "check_pods_restarts fs parse shw = with_both fs ''pods_restart'' ''get_pods_info'' (pods_check parse shw)"

text \<open>A line of \<open>get_free_memory\<close>: the processor and its free memory; the heading is skipped.\<close>

fun memory_lines :: "(string \<Rightarrow> rat res) \<Rightarrow> string list \<Rightarrow> (string \<times> rat) list res" where
  "memory_lines parse [] = Inr []"
| "memory_lines parse (l # ls) =
     (if contains ''MEMORY'' l then memory_lines parse ls
      else case words l of
        a # b # _ \<Rightarrow>
          (case parse b of
             Inl e \<Rightarrow> Inl e
           | Inr v \<Rightarrow>
               (case memory_lines parse ls of Inl e \<Rightarrow> Inl e | Inr rest \<Rightarrow> Inr ((a, v) # rest)))
      | _ \<Rightarrow> Inl out_of_range)"

definition free :: "rat option \<Rightarrow> rat" where
  "free v = (case v of None \<Rightarrow> 0 | Some x \<Rightarrow> x)"

definition memory_row :: "(rat \<Rightarrow> string) \<Rightarrow> rat pairs \<Rightarrow> string \<Rightarrow> string list res" where
  "memory_row shw d k =
     (case map_of d k of
        None \<Rightarrow> Inr []
      | Some (a, b) \<Rightarrow>
          Inr (if free a = 0 then [k @ '' MISSING in PRE'']
               else if free b = 0 then [k @ '' MISSING in POST'']
               else if free a = free b then []
               else [k @ '' '' @ shw ((free a - free b) / free a * 100)]))"

definition unreadable :: "py_exc \<Rightarrow> tool \<Rightarrow> (bool \<times> string) res \<times> tool" where
  "unreadable e r =
     (let why = check_line ''free_memory'' (''FAILED '' @ exc_str e @ '' '')
      in andthen (report why r) (\<lambda>_ r. (Inr (False, why), r)))"

definition memory_verdict ::
  "(rat \<Rightarrow> string) \<Rightarrow> (string \<times> rat) list \<Rightarrow> (string \<times> rat) list \<Rightarrow> tool \<Rightarrow> (bool \<times> string) res \<times> tool" where
  "memory_verdict shw pre post r =
     (let d = collect pre post
      in if \<forall>(k, a, b) \<in> set d. free a = free b then
           andthen (report (check_line ''free_memory'' ''SUCCESS'') r) (\<lambda>_ r. (Inr (True, []), r))
         else
           (let why = check_line ''free_memory'' ''FAILED''
            in andthen (reports [why, ''Proc. Decrement %''] r) (\<lambda>_ r.
               andthen (report_rows (memory_row shw d) (sorted_nicely (dict_keys d)) r) (\<lambda>_ r.
               andthen (report [] r) (\<lambda>_ r. (Inr (True, why), r))))))"

definition check_free_memory ::
  "files \<Rightarrow> (string \<Rightarrow> rat res) \<Rightarrow> (rat \<Rightarrow> string) \<Rightarrow> tool \<Rightarrow> (bool \<times> string) res \<times> tool" where
  "check_free_memory fs parse shw r =
     (let a = data_file r ''PRE'' ''get_free_memory''; b = data_file r ''POST'' ''get_free_memory''
      in case fs a of
           None \<Rightarrow> missing_file ''free_memory'' a r
         | Some f \<Rightarrow>
             (case memory_lines parse (splitlines (content f)) of
                Inl e \<Rightarrow> unreadable e r
              | Inr pre \<Rightarrow>
                  (case fs b of
                     None \<Rightarrow> missing_file ''free_memory'' b r
                   | Some g \<Rightarrow>
                       (case memory_lines parse (splitlines (content g)) of
                          Inl e \<Rightarrow> unreadable e r
                        | Inr post \<Rightarrow> memory_verdict shw pre post r))))"

section \<open>Monitors\<close>

text \<open>The failed registers of a monitor, or \<open>None\<close> without the monitor.\<close>

definition monitor_check ::
  "string \<Rightarrow> string \<Rightarrow> string \<Rightarrow> string \<Rightarrow> string list option \<Rightarrow> tool \<Rightarrow> (bool \<times> string) res \<times> tool" where
  "monitor_check name field title problem registers r =
     (case registers of
        None \<Rightarrow>
          andthen (reports [[], field @ '' not enabled in json file'', []] r)
            (\<lambda>_ r. (Inr (False, ''CHECK '' @ name @ '': '' @ field @ '' not enabled in json file''), r))
      | Some [] \<Rightarrow>
          andthen (reports [[], [], title @ ''  SUCCESS'', []] r) (\<lambda>_ r. (Inr (True, []), r))
      | Some rs \<Rightarrow>
          andthen (reports ([[], [], title @ ''  FAILED''] @ map (\<lambda>x. CHR 0x09 # x) rs @ [[]]) r)
            (\<lambda>_ r. (Inr (False, ''CHECK '' @ name @ '': '' @ str_of_nat (length rs) @ '' registers are '' @ problem), r)))"

definition check_load_stability :: "string list option \<Rightarrow> tool \<Rightarrow> (bool \<times> string) res \<times> tool" where
  "check_load_stability = monitor_check ''load_stability'' ''monitor_load'' ''Load Stability'' ''NOT STABLE''"

definition check_scenario_error_rate :: "string list option \<Rightarrow> tool \<Rightarrow> (bool \<times> string) res \<times> tool" where
  "check_scenario_error_rate =
     monitor_check ''scenario_error_rate'' ''monitor_error'' ''Scenario Error rate '' ''higher than limit''"

end
