(* ===== verification/Terminal_Text.thy ===== *)
theory Terminal_Text
  imports Rtc_Prelude
begin

text \<open>
  Texts of a terminal: \<open>clear_ansi\<close> of \<open>hss_utils/src/st_command/__init__.py\<close>.
\<close>

text \<open>An escape sequence is an introducer, parameters, intermediates and a final
  character; the three classes are disjoint, so the longest match is the only one.\<close>

definition in_range :: "nat \<Rightarrow> nat \<Rightarrow> char \<Rightarrow> bool" where
  "in_range lo hi c \<longleftrightarrow> lo \<le> of_char c \<and> of_char c \<le> hi"

definition after_introducer :: "string \<Rightarrow> string option" where
  "after_introducer s =
     (let rest = dropWhile (in_range 0x20 0x2F) (dropWhile (in_range 0x30 0x3F) s)
      in case rest of [] \<Rightarrow> None | c # cs \<Rightarrow> if in_range 0x40 0x7E c then Some cs else None)"

definition ansi_sequence :: "string \<Rightarrow> string option" where
  "ansi_sequence s =
     (case s of
        [] \<Rightarrow> None
      | c # cs \<Rightarrow>
          if c = CHR 0x9B then after_introducer cs
          else if c = CHR 0x1B then
            (case cs of [] \<Rightarrow> None | d # ds \<Rightarrow> if d = CHR 0x5B then after_introducer ds else None)
          else None)"

lemma after_introducer_length: "after_introducer s = Some t \<Longrightarrow> length t < length s"
proof -
  assume a: "after_introducer s = Some t"
  define u where "u = dropWhile (in_range 0x20 0x2F) (dropWhile (in_range 0x30 0x3F) s)"
  have "length u \<le> length s"
    unfolding u_def by (meson le_trans length_dropWhile_le)
  with a show ?thesis by (auto simp: after_introducer_def u_def [symmetric] split: list.splits if_splits)
qed

lemma ansi_sequence_length: "ansi_sequence s = Some t \<Longrightarrow> length t < length s"
  by (auto simp: ansi_sequence_def split: list.splits if_splits dest!: after_introducer_length)

function clear_ansi :: "string \<Rightarrow> string" where
  "clear_ansi s =
     (case ansi_sequence s of
        Some t \<Rightarrow> clear_ansi t
      | None \<Rightarrow> (case s of [] \<Rightarrow> [] | c # cs \<Rightarrow> c # clear_ansi cs))"
  by pat_completeness auto

termination
  by (relation "measure length") (auto dest: ansi_sequence_length)

declare clear_ansi.simps [simp del]

lemma clear_ansi_plain:
  "CHR 0x9B \<notin> set s \<Longrightarrow> CHR 0x1B \<notin> set s \<Longrightarrow> clear_ansi s = s"
  by (induction s) (auto simp: clear_ansi.simps [of "_ # _"] clear_ansi.simps [of "[]"] ansi_sequence_def)

end
