(* ===== verification/Test_Traffic.thy ===== *)
theory Test_Traffic
  imports Test_Checks Terminal_Text
begin

text \<open>
  The check of the traffic result of \<open>checks.py\<close>: it finds the log directory of every traffic
  generator and reads its start, its error rates and its unexpected requests from the output of
  shell commands. \<open>parse\<close> is Python's \<open>float\<close>.
\<close>

section \<open>Text\<close>

text \<open>\<open>s.find(p)\<close>, \<open>-1\<close> when absent.\<close>

definition str_find :: "string \<Rightarrow> string \<Rightarrow> int" where
  "str_find s p = (case after_header p s of None \<Rightarrow> - 1 | Some t \<Rightarrow> int (length s) - int (length t) - int (length p))"

text \<open>The first match of a non-digit, digits and a non-digit: the value of its digits.\<close>

fun first_number :: "string \<Rightarrow> nat option" where
  "first_number [] = None"
| "first_number (c # cs) =
     (let ds = takeWhile is_digit cs
      in if \<not> is_digit c \<and> ds \<noteq> [] \<and> length ds < length cs then Some (digits_value ds) else first_number cs)"

text \<open>\<open>s.split('\n')[:-1]\<close>\<close>

definition all_lines :: "string \<Rightarrow> string list" where
  "all_lines s = butlast (split_on (CHR 0x0A) s)"

definition dirname :: "string \<Rightarrow> string" where
  "dirname p = (let d = join ''/'' (butlast (split_on (CHR ''/'') p)) in if d = [] \<and> startswith p ''/'' then ''/'' else d)"

section \<open>The check\<close>

definition traffic_type :: "string \<Rightarrow> string" where
  "traffic_type t = (if t = ''ESM'' then ''EPC'' else if t = ''ISMSDA'' then ''IMS'' else t)"

definition find_traffic_log_dir :: "shell \<Rightarrow> tool \<Rightarrow> (string \<times> string) list option res \<times> tool" where
  "find_traffic_log_dir sh r =
     andthen (execute sh (''find  '' @ path_join (case_root r) ''EXECUTION'' @ '' -name '' @ dq @ ''*.txt'' @ dq
                @ '' | grep --color=never '' @ dq @ ''stats_-Measure'' @ dq) r) (\<lambda>a r.
       (Inr (if return_code a = 0
             then Some (map (\<lambda>l. (hd (split_on (CHR ''.'') (basename l)), dirname l)) (all_lines (out_text a)))
             else None), r))"

text \<open>The start of the run, from the log line of the tool.\<close>

definition report_start :: "string \<Rightarrow> tool \<Rightarrow> unit res \<times> tool" where
  "report_start out r =
     (let p = str_find out ''run_titansim_HSS_BAT'';
          command = (if p < 0 then [] else drop (nat p) (take (length out - 2) out));
          rest = (if contains ''.log:'' out then drop (nat (str_find out ''.log:'' + 5)) out else out)
      in andthen (report (''   Command:         '' @ command) r) (\<lambda>_ r.
           case split_on (CHR ''<'') (clear_ansi rest) of
             _ # x # _ \<Rightarrow> report (''   Started at:      '' @ hd (split_on (CHR ''>'') x)) r
           | _ \<Rightarrow> (Inl out_of_range, r)))"

definition first_rate :: "(string \<Rightarrow> rat res) \<Rightarrow> string \<Rightarrow> rat res" where
  "first_rate parse l = (case words l of [] \<Rightarrow> Inl out_of_range | w # _ \<Rightarrow> parse (drop 1 w))"

text \<open>
  One line of the results; the state is the result so far and the phase seen last. \<open>None\<close> as a
  phase is Python's \<open>None\<close>.
\<close>

definition rate_line ::
  "(string \<Rightarrow> rat res) \<Rightarrow> rat \<Rightarrow> string \<Rightarrow> bool \<times> string option \<Rightarrow> tool \<Rightarrow> (bool \<times> string option) res \<times> tool" where
  "rate_line parse limit l st r =
     (if contains ''ErrorRate'' l then
        (case first_rate parse l of
           Inl e \<Rightarrow> (Inl e, r)
         | Inr rate \<Rightarrow>
             andthen (reports [[], ''      '' @ drop 1 l, []] r) (\<lambda>_ r.
               (case words l of
                  _ # _ # _ # ph # _ \<Rightarrow> (Inr (fst st \<and> \<not> rate > limit, Some ph), r)
                | _ \<Rightarrow> (Inl out_of_range, r))))
      else if l \<noteq> [] \<and> snd st \<noteq> None then
        (case first_rate parse l of
           Inl e \<Rightarrow> (Inl e, r)
         | Inr rate \<Rightarrow>
             andthen (if rate \<ge> 1 then report (''   '' @ drop 1 l) r else (Inr (), r)) (\<lambda>_ r. (Inr st, r)))
      else (Inr st, r))"

fun rate_lines ::
  "(string \<Rightarrow> rat res) \<Rightarrow> rat \<Rightarrow> string list \<Rightarrow> bool \<times> string option \<Rightarrow> tool \<Rightarrow> bool res \<times> tool" where
  "rate_lines parse limit [] st r = (Inr (fst st), r)"
| "rate_lines parse limit (l # ls) st r =
     andthen (rate_line parse limit l st r) (\<lambda>st. rate_lines parse limit ls st)"

text \<open>The unexpected requests: \<open>(found, result)\<close>.\<close>

definition nexp_line :: "string \<Rightarrow> bool \<Rightarrow> tool \<Rightarrow> bool res \<times> tool" where
  "nexp_line l found r =
     (case split_on (CHR 0x3A) l of
        _ # x # _ \<Rightarrow>
          (case first_number x of
             None \<Rightarrow> (Inr found, r)
           | Some n \<Rightarrow>
               if n = 0 then (Inr found, r)
               else andthen (reports ((if found then [] else [''   NEXP Outgoing Req.:   FAILED''])
                              @ [''       '' @ join ''  '' (butlast (words l))]) r) (\<lambda>_ r. (Inr True, r)))
      | _ \<Rightarrow> (Inr found, r))"

fun nexp_lines :: "string list \<Rightarrow> bool \<Rightarrow> tool \<Rightarrow> bool res \<times> tool" where
  "nexp_lines [] found r = (Inr found, r)"
| "nexp_lines (l # ls) found r = andthen (nexp_line l found r) (\<lambda>found. nexp_lines ls found)"

definition nexp_check :: "cmd_answer \<Rightarrow> tool \<Rightarrow> bool res \<times> tool" where
  "nexp_check a r =
     (if return_code a = 0 then
        andthen (nexp_lines (all_lines (out_text a)) False r) (\<lambda>found r.
          andthen (if found then (Inr (), r) else report ''   NEXP Outgoing Req.:   SUCCESS'' r)
            (\<lambda>_ r. (Inr (\<not> found), r)))
      else andthen (report ''   NEXP Outgoing Req.:   UNDEFINED. Data file not found'' r) (\<lambda>_ r. (Inr True, r)))"

definition check_bat_instance_result ::
  "shell \<Rightarrow> (string \<Rightarrow> rat res) \<Rightarrow> string \<times> string \<Rightarrow> rat \<Rightarrow> tool \<Rightarrow> bool res \<times> tool" where
  "check_bat_instance_result sh parse inst limit r =
     (let logdir = snd inst
      in andthen (execute sh (''grep run_titansim_HSS_BAT '' @ logdir @ ''/HSSBatTitanSim_*.log'') r) (\<lambda>a r.
         if length (split_on (CHR 0x0A) (out_text a)) > 2 then
           andthen (reports [''   Traffic result can not analyzed'',
               ''   It seems that there are logs for 2 or more run_titansim_HSS_BAT instances in '' @ logdir] r)
             (\<lambda>_ r. (Inr False, r))
         else
           andthen (reports [''   Traffic Type:    '' @ traffic_type (fst inst), ''   Log Directory:   '' @ logdir] r) (\<lambda>_ r.
           andthen (if return_code a = 0 then report_start (out_text a) r else (Inr (), r)) (\<lambda>_ r.
           andthen (execute sh (''cat '' @ logdir @ ''/*traffic_result.data'') r) (\<lambda>b r.
           andthen (reports [[], ''   Error Rate:''] r) (\<lambda>_ r.
           andthen (rate_lines parse limit (all_lines (out_text b)) (True, None) r) (\<lambda>ok r.
           andthen (report [] r) (\<lambda>_ r.
           andthen (execute sh (''grep NEXP '' @ logdir @ ''/*.data'') r) (\<lambda>c r.
           andthen (nexp_check c r) (\<lambda>quiet r. (Inr (ok \<and> quiet), r)))))))))))"

fun check_instances ::
  "shell \<Rightarrow> (string \<Rightarrow> rat res) \<Rightarrow> (rat \<Rightarrow> string) \<Rightarrow> rat \<Rightarrow> nat \<Rightarrow> (string \<times> string) list \<Rightarrow> bool \<times> string \<Rightarrow> tool \<Rightarrow>
     (bool \<times> string) res \<times> tool" where
  "check_instances sh parse shw limit n [] acc r = (Inr acc, r)"
| "check_instances sh parse shw limit n (i # is) acc r =
     andthen (reports ['' '', ''Check BAT Instance '' @ str_of_nat (Suc n)] r) (\<lambda>_ r.
     andthen (check_bat_instance_result sh parse i limit r) (\<lambda>ok r.
       check_instances sh parse shw limit (Suc n) is
         (fst acc \<and> ok,
          snd acc @ (if ok then []
                     else ''CHECK traffic_result: '' @ last (split_on (CHR ''/'') (snd i))
                          @ '' error rate higher than '' @ shw limit @ ''.;'')) r))"

definition check_traffic_result ::
  "shell \<Rightarrow> (string \<Rightarrow> rat res) \<Rightarrow> (rat \<Rightarrow> string) \<Rightarrow> rat \<Rightarrow> tool \<Rightarrow> (bool \<times> string) res \<times> tool" where
  "check_traffic_result sh parse shw limit r =
     andthen (find_traffic_log_dir sh r) (\<lambda>dirs r.
       case dirs of
         None \<Rightarrow> (Inr (True, []), r)
       | Some is \<Rightarrow> check_instances sh parse shw limit 0 is (True, []) r)"

end
