(* ===== verification/Test_Run.thy ===== *)
theory Test_Run
  imports Test_Traffic
begin

text \<open>
  The main loop of the test tool, \<open>RTC_controller.run\<close> of \<open>HSS_rtc/HSS_rtc\<close>: it takes the test
  cases of the suite one by one, runs the phases of each, turns the exception that ended it into
  its status, inserts a clone of a case to be repeated, and waits after a case when the
  controller may want the node for the next build.
\<close>

section \<open>Environment\<close>

text \<open>
  \<open>refused\<close> is the reason for which \<open>check_reference\<close> does not allow a test case; \<open>execution\<close> is the
  phase EXECUTION; both are not modelled. \<open>time_at\<close> gives the time and the date after the commands
  executed so far, \<open>lines_of\<close> the lines of a macro file, \<open>while_paused\<close> the orders that arrive in a
  pause, and \<open>gives_up\<close> whether the user interrupts again.
\<close>

record tool_env =
  the_disk :: file_system
  the_shell :: shell
  user :: user_config
  evaluate :: "string \<Rightarrow> tool \<Rightarrow> (bool \<times> string) res \<times> tool"
  execution :: "phase_config \<Rightarrow> tool \<Rightarrow> unit res \<times> tool"
  refused :: "test_case \<Rightarrow> string option"
  time_at :: "string list \<Rightarrow> rat \<times> string"
  lines_of :: "string \<Rightarrow> string list option"
  expandvars :: "string \<Rightarrow> string"
  default_macros :: "(string, string) dict"
  while_paused :: "string list \<Rightarrow> order list"
  gives_up :: "string list \<Rightarrow> bool"

definition put_macro :: "string \<Rightarrow> string \<Rightarrow> tool \<Rightarrow> tool" where
  "put_macro k v r = r\<lparr>macros := dict_set k v (macros r)\<rparr>"

text \<open>\<open>add_macro_file\<close>: comments are cut, and a line without a colon is ignored.\<close>

definition macro_of_line :: "tool_env \<Rightarrow> string \<Rightarrow> (string \<times> string) option" where
  "macro_of_line e l =
     (let t = strip (takeWhile (\<lambda>c. c \<noteq> CHR ''#'') l)
      in if t = [] \<or> startswith t ''//'' then None
         else case split_on (CHR 0x3A) t of
           k # v # vs \<Rightarrow> Some (''#'' @ k @ ''#'', expandvars e (join [CHR 0x3A] (v # vs)))
         | _ \<Rightarrow> None)"

definition add_macro_file :: "tool_env \<Rightarrow> string list \<Rightarrow> tool \<Rightarrow> unit res \<times> tool" where
  "add_macro_file e = for_each (\<lambda>f r.
     case lines_of e f of
       None \<Rightarrow> (Inl (PyException ''SystemExit 10''), r)
     | Some ls \<Rightarrow> (Inr (), fold (\<lambda>(k, v). put_macro k v) (List.map_filter (macro_of_line e) ls) r))"

definition request_status :: "tool_env \<Rightarrow> tc_status \<Rightarrow> string \<Rightarrow> bool \<Rightarrow> tool \<Rightarrow> unit res \<times> tool" where
  "request_status e st msg rep r =
     (case time_at e (executed_cmds r) of
        (now, date) \<Rightarrow>
          andthen (on_case (update_status (the_disk e) now date
                     \<lparr>req_status = st, req_message = msg, req_root = Some (u_output_prefix (user e)),
                      req_repeat = rep, req_case_path = u_case_path (user e)\<rparr>) r)
            (\<lambda>saved r. (Inr (), case saved of None \<Rightarrow> r | Some f \<Rightarrow> r\<lparr>saved_files := saved_files r @ [f]\<rparr>)))"

text \<open>\<open>get_case\<close>: the object \<open>test_case\<close> of the loop.\<close>

definition get_case :: "(test_case \<Rightarrow> 'a res) \<Rightarrow> tool \<Rightarrow> 'a res \<times> tool" where
  "get_case f = on_case (\<lambda>t. (f t, t))"

section \<open>\<open>RTC_Data.initialize\<close>\<close>

definition initialize :: "tool_env \<Rightarrow> nat \<Rightarrow> tool \<Rightarrow> unit res \<times> tool" where
  "initialize e i r =
     (let r1 = r\<lparr>running_case := Some i, exit_rtc := False, exit_test_case := False, macros := default_macros e\<rparr>
      in andthen (get_case (\<lambda>t. case refused e t of
                     None \<Rightarrow> Inr (case loaded t of None \<Rightarrow> [] | Some l \<Rightarrow> macro_files l)
                   | Some why \<Rightarrow> Inl (ExecutionNotAllowed why)) r1) (\<lambda>files r.
         andthen (add_macro_file e files r) (\<lambda>_ r.
         andthen (on_case (\<lambda>t. (Inr (), t\<lparr>data := (data t)\<lparr>tc_name := rtc_macro_translator (tc_name (data t)) r\<rparr>\<rparr>)) r) (\<lambda>_ r.
         andthen (request_status e Tc_Running [] False r) (\<lambda>_ r.
         andthen (get_case (\<lambda>t. Inr (root_path (data t), tc_name (data t))) r) (\<lambda>(rt, name) r.
           (Inr (), put_macro ''#TESTCASE_NAME#'' name (put_macro ''#TESTCASE_PATH#'' rt r))))))))"

section \<open>The phases of a test case\<close>

definition step_env_of :: "tool_env \<Rightarrow> string \<Rightarrow> tool \<Rightarrow> step_env" where
  "step_env_of e ph r =
     (let out = path_join (case_root r) ph;
          name = (case running_case r of
                    None \<Rightarrow> []
                  | Some i \<Rightarrow> if i < length (cases (tests r)) then tc_name (data (cases (tests r) ! i)) else [])
      in \<lparr>table = step_table (user e) out name (case_root r), env_verbose = u_verbose (user e), out_path = out\<rparr>)"

text \<open>\<open>eval('%s(...)' % phase)\<close>: the class of the phase, and \<open>run\<close>.\<close>

definition run_phase :: "tool_env \<Rightarrow> string \<Rightarrow> phase_config \<Rightarrow> tool \<Rightarrow> unit res \<times> tool" where
  "run_phase e ph p r =
     (if ph = ''CHECK'' then check_run (the_shell e) (evaluate e) (step_env_of e ph r) p r
      else if ph = ''EXECUTION'' then execution e p r
      else if ph \<in> {''CLEAN'', ''PRE'', ''POST'', ''COLLECT''}
      then phase_run (the_shell e) (step_env_of e ph r) ph p r
      else (Inl (NameError ph), r))"

text \<open>The phases in the order of the user; a missing key or a skipped phase goes on to the next.\<close>

definition goes_on :: "py_exc \<Rightarrow> bool" where
  "goes_on x = (case x of KeyError k \<Rightarrow> True | SkipPhase w \<Rightarrow> True | _ \<Rightarrow> False)"

definition one_phase :: "tool_env \<Rightarrow> string \<Rightarrow> tool \<Rightarrow> unit res \<times> tool" where
  "one_phase e ph r =
     andthen (get_case (\<lambda>t. case loaded t of None \<Rightarrow> Inl (no_attribute ''config_data'') | Some l \<Rightarrow> Inr (config_data l)) r)
       (\<lambda>c r.
         case (case Option.bind (cfg_phases c) (\<lambda>ps. map_of ps ph) of
                 None \<Rightarrow> (Inl (KeyError ph), r)
               | Some p \<Rightarrow> (case phase_enable p of
                              None \<Rightarrow> (Inl (KeyError ''enable''), r)
                            | Some b \<Rightarrow> if b then run_phase e ph p r else (Inr (), r))) of
           (Inl x, r') \<Rightarrow> (if goes_on x then Inr () else Inl x, r')
         | (Inr _, r') \<Rightarrow> (Inr (), r'))"

definition exit_ordered :: string where
  "exit_ordered = ''Test case exit order has been received''"

fun run_phases :: "tool_env \<Rightarrow> string list \<Rightarrow> tool \<Rightarrow> unit res \<times> tool" where
  "run_phases e [] r = (Inr (), r)"
| "run_phases e (ph # phs) r =
     (if exit_test_case r then request_status e Tc_Not_Finished exit_ordered False r
      else andthen (one_phase e ph r) (\<lambda>_. run_phases e phs))"

text \<open>What each exception makes of the test case.\<close>

definition ended_by :: "tool_env \<Rightarrow> py_exc \<Rightarrow> tool \<Rightarrow> unit res \<times> tool" where
  "ended_by e x r =
     (case x of
        KeyboardInterrupt \<Rightarrow>
          (let r1 = (if \<not> exit_rtc r \<and> \<not> exit_test_case r \<and> gives_up e (executed_cmds r)
                     then r\<lparr>exit_rtc := True\<rparr> else r)
           in request_status e Tc_Not_Finished ''Test case stopped by user'' False r1)
      | ExecutionConfigurationError m \<Rightarrow> request_status e Tc_Not_Finished (exc_str x) False r
      | ExecutionStartError m \<Rightarrow> request_status e Tc_Not_Finished (exc_str x) False r
      | ExecutionRunError m \<Rightarrow> request_status e Tc_Not_Finished (exc_str x) False r
      | BatError m \<Rightarrow> request_status e Tc_Not_Finished (exc_str x) True r
      | ExitRtc m \<Rightarrow>
          andthen (request_status e Tc_Not_Finished [] False r) (\<lambda>_ r.
          andthen (get_case shall_repeat r) (\<lambda>again r.
            (Inr (), if again then r else r\<lparr>exit_rtc := True\<rparr>)))
      | _ \<Rightarrow> request_status e Tc_Not_Finished [] False r)"

definition run_body :: "tool_env \<Rightarrow> tool \<Rightarrow> unit res \<times> tool" where
  "run_body e r =
     (case andthen (run_phases e (u_phases (user e)) r) (\<lambda>_. request_status e Tc_Finished [] False) of
        (Inl x, r') \<Rightarrow> ended_by e x r'
      | q \<Rightarrow> q)"

text \<open>\<open>RTC_Data.finish\<close>: a case that still runs has ended abnormally.\<close>

definition finish :: "tool_env \<Rightarrow> tool \<Rightarrow> unit res \<times> tool" where
  "finish e r =
     (let r1 = r\<lparr>background_commands := []\<rparr>
      in andthen (get_case (\<lambda>t. Inr (tc_status (data t))) r1) (\<lambda>st r.
           if st = Tc_Running then request_status e Tc_Not_Finished ''Abnormal temination'' False r else (Inr (), r)))"

definition repeat_current :: "tool_env \<Rightarrow> tool \<Rightarrow> unit res \<times> tool" where
  "repeat_current e r =
     (case repeat_test_case (the_disk e) (tests r) of (v, s) \<Rightarrow> (v, r\<lparr>tests := s\<rparr>))"

text \<open>The controller is told that a new build may start, and the loop pauses.\<close>

definition offer_node :: "tool_env \<Rightarrow> tool \<Rightarrow> unit res \<times> tool" where
  "offer_node e r =
     (if \<not> u_dbus (user e) then (Inr (), r)
      else case next_test_case_is_optional (tests r) of
        Inl x \<Rightarrow> (Inl x, r)
      | Inr opt \<Rightarrow>
          (Inr (), if opt \<or> suite_status (tests r) \<noteq> SUCCESS
                   then r\<lparr>emitted := emitted r @ [''test_tool_ready_for_new_build''], paused := True\<rparr> else r))"

section \<open>The loop\<close>

text \<open>One test case, from its initialisation to the end of the iteration.\<close>

definition run_case :: "tool_env \<Rightarrow> nat \<Rightarrow> tool \<Rightarrow> unit res \<times> tool" where
  "run_case e i r =
     (case initialize e i r of
        (Inl (ExecutionNotAllowed why), r') \<Rightarrow> request_status e Tc_Skipped why False r'
      | (Inl x, r') \<Rightarrow> (Inl x, r')
      | (Inr _, r') \<Rightarrow>
          andthen (run_body e r') (\<lambda>_ r.
          andthen (get_case (\<lambda>t. Inr (case loaded t of None \<Rightarrow> [] | Some l \<Rightarrow> json_file l, root_path (data t))) r) (\<lambda>names r.
          andthen (execute (the_shell e) (''cp '' @ fst names @ '' '' @ snd names @ ''/'') r) (\<lambda>_ r.
          andthen (finish e r) (\<lambda>_ r.
          andthen (get_case shall_repeat r) (\<lambda>again r.
          andthen (if again then repeat_current e r else (Inr (), r)) (\<lambda>_. offer_node e)))))))"

text \<open>
  \<open>while self.__paused\<close>: the orders that arrive until the pause ends, and whether the last one
  interrupts the main thread; \<open>None\<close> if the pause never ends.
\<close>

fun wait_paused :: "order list \<Rightarrow> tool \<Rightarrow> (bool \<times> tool) option" where
  "wait_paused os r =
     (if \<not> paused r then Some (False, r)
      else case os of
        [] \<Rightarrow> None
      | ord # rest \<Rightarrow> if interrupts ord then Some (True, obey ord r) else wait_paused rest (obey ord r))"

declare wait_paused.simps [simp del]

text \<open>
  \<open>run\<close>, with as many iterations as \<open>fuel\<close> allows. An order that interrupts the main thread in a
  pause ends the program: the interrupt is raised outside of the handlers of the loop.
\<close>

fun run_loop :: "tool_env \<Rightarrow> nat \<Rightarrow> tool \<Rightarrow> (unit res \<times> tool) option" where
  "run_loop e 0 r = None"
| "run_loop e (Suc n) r =
     (case wait_paused (while_paused e (executed_cmds r)) r of
        None \<Rightarrow> None
      | Some (interrupted, r1) \<Rightarrow>
          if interrupted then Some (Inl KeyboardInterrupt, r1)
          else if exit_rtc r1 then Some (Inr (), r1)
          else
            (case next_text_case (tests r1) of
               (Inl x, s) \<Rightarrow> Some (Inl x, r1)
             | (Inr None, s) \<Rightarrow> Some (Inr (), r1)
             | (Inr (Some i), s) \<Rightarrow>
                 (case run_case e i (r1\<lparr>tests := s\<rparr>) of
                    (Inl x, r2) \<Rightarrow> Some (Inl x, r2)
                  | (Inr _, r2) \<Rightarrow> run_loop e n r2)))"

text \<open>The end of \<open>run\<close>: the report of the suite.\<close>

definition create_report :: "(rat \<Rightarrow> string) \<Rightarrow> tool \<Rightarrow> unit res \<times> tool" where
  "create_report fmt r =
     (case save_report fmt (tests r) of
        Inl x \<Rightarrow> (Inl x, r)
      | Inr f \<Rightarrow> (Inr (), r\<lparr>saved_files := saved_files r @ [f]\<rparr>))"

end
