(* ===== verification/Test_Props.thy ===== *)
theory Test_Props
  imports Test_Run
begin

text \<open>
  What the parts of the test tool guarantee: the life cycle of a test case and its printed form,
  the dictionary of a suite, and what the checks of processes and restarts decide.
\<close>

section \<open>The life cycle of a test case\<close>

definition wf_case :: "test_case \<Rightarrow> bool" where
  "wf_case t \<longleftrightarrow>
     (case tc_status (data t) of
        Not_Executed \<Rightarrow> start_time (data t) = None \<and> stop_time (data t) = None \<and> summary t = None
      | Tc_Skipped \<Rightarrow> start_time (data t) = None \<and> stop_time (data t) = None \<and> summary t = None
      | Tc_Running \<Rightarrow> start_time (data t) \<noteq> None \<and> stop_time (data t) = None \<and> summary t \<noteq> None
      | _ \<Rightarrow> start_time (data t) \<noteq> None \<and> stop_time (data t) \<noteq> None \<and> summary t \<noteq> None)"

inductive status_edge :: "tc_status \<Rightarrow> tc_status \<Rightarrow> bool" where
  same: "status_edge st st"
| start: "status_edge Not_Executed Tc_Running"
| skip: "status_edge Not_Executed Tc_Skipped"
| finish: "status_edge Tc_Running Tc_Finished"
| abandon: "status_edge Tc_Running Tc_Not_Finished"

inductive_simps status_edge_from [simp]:
  "status_edge Tc_Finished st" "status_edge Tc_Not_Finished st" "status_edge Tc_Skipped st"

lemma new_case_wf: "new_test_case d f m mand = Inr t \<Longrightarrow> wf_case t \<and> tc_status (data t) = Not_Executed"
  by (auto simp: new_test_case_def Let_def wf_case_def case_with_def blank_data_def
      split: option.splits sum.splits)

lemma stop_case_fields:
  "tc_status (data (stop_case now date r t)) = req_status r"
  "start_time (data (stop_case now date r t)) = start_time (data t)"
  "stop_time (data (stop_case now date r t)) = Some now"
  "summary (stop_case now date r t) = summary t"
  by (simp_all add: stop_case_def set_repeat_def add_failure_def Let_def)

text \<open>The test case can start, and the request names no directory to start in.\<close>

definition nowhere :: "status_request \<Rightarrow> test_case \<Rightarrow> bool" where
  "nowhere r t \<longleftrightarrow> tc_status (data t) = Not_Executed \<and> req_status r = Tc_Running \<and> req_root r = None \<and>
     (req_case_path r = None \<or> req_case_path r = Some [])"

lemma start_path_fails: "(\<exists>e. start_path d r name = Inl e) \<longleftrightarrow>
    req_root r = None \<and> (req_case_path r = None \<or> req_case_path r = Some [])"
  by (auto simp: start_path_def split: option.split list.split)

lemma start_case_step:
  assumes "start_case d now date r t = (v, t')" and "wf_case t" "tc_status (data t) = Not_Executed"
  shows "wf_case t' \<and> tc_status (data t') \<in> {Not_Executed, Tc_Running} \<and>
    ((\<exists>e. v = Inl e) \<longleftrightarrow> (\<exists>e. start_path d r (tc_name (data t) @ ''_'' @ date) = Inl e)) \<and>
    ((\<exists>e. v = Inl e) \<longrightarrow> tc_status (data t') = Not_Executed)"
  using assms by (auto simp: start_case_def Let_def wf_case_def split: sum.splits)

lemma update_status_step:
  assumes "wf_case t" and "update_status d now date r t = (v, t')"
  shows "wf_case t' \<and> status_edge (tc_status (data t)) (tc_status (data t')) \<and>
    ((\<exists>e. v = Inl e) \<longleftrightarrow> nowhere r t) \<and> (nowhere r t \<longrightarrow> tc_status (data t') = tc_status (data t))"
proof (cases "req_status r = Tc_Running \<and> tc_status (data t) = Not_Executed")
  case True
  with assms(2) have "start_case d now date r t = (v, t')" by (simp add: update_status_def)
  from start_case_step [OF this assms(1)] True show ?thesis
    by (auto simp: nowhere_def start_path_fails intro: status_edge.intros)
next
  case a: False
  then have n: "\<not> nowhere r t" by (auto simp: nowhere_def)
  show ?thesis
  proof (cases "req_status r = Tc_Skipped \<and> tc_status (data t) = Not_Executed")
    case True
    with assms a show ?thesis
      by (auto simp: n update_status_def skip_case_def wf_case_def intro: status_edge.intros)
  next
    case b: False
    show ?thesis
    proof (cases "req_status r \<in> {Tc_Finished, Tc_Not_Finished} \<and> tc_status (data t) = Tc_Running")
      case True
      with assms(1) obtain s where s: "summary t = Some s" by (auto simp: wf_case_def)
      with True a b assms(2) have "v = Inr (Some (summary_save s))" "t' = stop_case now date r t"
        by (auto simp: update_status_def)
      with True s assms(1) show ?thesis
        by (auto simp: n wf_case_def stop_case_fields intro: status_edge.intros split: tc_status.splits)
    next
      case False
      with a b assms show ?thesis by (auto simp: n update_status_def intro: status_edge.intros)
    qed
  qed
qed

lemma wf_printable: "wf_case t \<Longrightarrow> \<exists>s. case_str fmt (data t) = Inr s"
  by (auto simp: wf_case_def case_str_def case_times_def split: tc_status.splits)

text \<open>A sequence of status requests, each at its time.\<close>

definition apply_request :: "file_system \<Rightarrow> rat \<times> string \<times> status_request \<Rightarrow> test_case \<Rightarrow> test_case" where
  "apply_request d q t = (case q of (now, date, r) \<Rightarrow> snd (update_status d now date r t))"

lemma requests_wf: "wf_case t \<Longrightarrow> wf_case (fold (apply_request d) qs t)"
proof (induction qs arbitrary: t)
  case (Cons q qs)
  obtain now date r where q: "q = (now, date, r)" by (cases q)
  obtain v t' where u: "update_status d now date r t = (v, t')" by fastforce
  with update_status_step [OF Cons.prems] have "wf_case t'" by blast
  with Cons.IH [of t'] q u show ?case by (simp add: apply_request_def)
qed simp

text \<open>C38: whatever status changes are requested of a new test case, in whatever order, the next one
  moves it along its life cycle only, never leaves a final status, and the test case can always
  be printed. The next request raises exactly when it starts a test case that has not run, with no
  path for the case and no directory to put it in (both are optional arguments that default to
  \<open>None\<close>); then the status stays as it is. A request for a text that is none of the five
  statuses is ignored by the code and has no counterpart here.\<close>

theorem test_case_life_cycle:
  assumes "new_test_case d f m mand = Inr t0" and "t = fold (apply_request d) qs t0"
    and "update_status d now date r t = (v, t')"
  shows "((\<exists>e. v = Inl e) \<longleftrightarrow> tc_status (data t) = Not_Executed \<and> req_status r = Tc_Running \<and>
      req_root r = None \<and> (req_case_path r = None \<or> req_case_path r = Some [])) \<and>
    ((\<exists>e. v = Inl e) \<longrightarrow> tc_status (data t') = tc_status (data t)) \<and>
    status_edge (tc_status (data t)) (tc_status (data t')) \<and>
    (tc_status (data t) \<in> {Tc_Skipped, Tc_Finished, Tc_Not_Finished} \<longrightarrow> tc_status (data t') = tc_status (data t)) \<and>
    (\<exists>s. case_str fmt (data t') = Inr s)"
proof -
  have "wf_case t" using requests_wf new_case_wf [OF assms(1)] assms(2) by blast
  note step = update_status_step [OF this assms(3)]
  have final: "tc_status (data t) \<in> {Tc_Skipped, Tc_Finished, Tc_Not_Finished} \<longrightarrow> tc_status (data t') = tc_status (data t)"
    using step by auto
  have "\<exists>s. case_str fmt (data t') = Inr s" using step wf_printable by blast
  with step final show ?thesis unfolding nowhere_def by (intro conjI) blast+
qed

definition demo_disk :: file_system where
  "demo_disk = \<lparr>real_path = (\<lambda>p. p),
     json_at = (\<lambda>p. if p = ''t.json'' then Some (Inr \<lparr>cfg_name = Some ''tc'', cfg_retries = Some 1,
       cfg_phases = Some [], cfg_latency_enable = None, cfg_latency_samples = None\<rparr>) else None),
     is_file = (\<lambda>_. True), abspath = (\<lambda>p. p)\<rparr>"

definition ask :: "tc_status \<Rightarrow> status_request" where
  "ask st = \<lparr>req_status = st, req_message = [], req_root = Some ''/out'', req_repeat = False, req_case_path = None\<rparr>"

theorem test_case_life_cycle_witness:
  "\<exists>t0. new_test_case demo_disk ''t.json'' None True = Inr t0 \<and>
     (\<exists>e. fst (update_status demo_disk 1 ''d1'' ((ask Tc_Running)\<lparr>req_root := None\<rparr>) t0) = Inl e) \<and>
     (\<exists>s. case_str (\<lambda>_. ''1'') (data (snd (update_status demo_disk 2 ''d2'' (ask Tc_Finished)
        (fold (apply_request demo_disk) [(1, ''d1'', ask Tc_Running)] t0)))) = Inr s)"
proof -
  obtain t0 where t0: "new_test_case demo_disk ''t.json'' None True = Inr t0"
    by (simp add: new_test_case_def demo_disk_def Let_def)
  obtain v t' where "update_status demo_disk 2 ''d2'' (ask Tc_Finished)
      (fold (apply_request demo_disk) [(1, ''d1'', ask Tc_Running)] t0) = (v, t')" by fastforce
  with test_case_life_cycle [OF t0 refl this, of "\<lambda>_. ''1''"]
  have s: "\<exists>s. case_str (\<lambda>_. ''1'') (data (snd (update_status demo_disk 2 ''d2'' (ask Tc_Finished)
        (fold (apply_request demo_disk) [(1, ''d1'', ask Tc_Running)] t0)))) = Inr s" by auto
  obtain v t' where u: "update_status demo_disk 1 ''d1'' ((ask Tc_Running)\<lparr>req_root := None\<rparr>) t0 = (v, t')"
    by fastforce
  have st: "tc_status (data t0) = Not_Executed" using new_case_wf [OF t0] by blast
  have "t0 = fold (apply_request demo_disk) [] t0" by simp
  from test_case_life_cycle [OF t0 this u] st have "\<exists>e. v = Inl e" by (simp add: ask_def)
  with s u t0 show ?thesis by auto
qed

section \<open>The dictionary of a suite\<close>

lemma rebuilt_case [simp]:
  "data (test_case_of_data d) = d" "report_not_valid (test_case_of_data d) = False"
  by (simp_all add: test_case_of_data_def case_with_def)

lemma data_of_dict [simp]: "data \<circ> test_case_of_data = id" "data \<circ> (test_case_of_data \<circ> f) = f"
  by (simp_all add: fun_eq_iff)

text \<open>A suite that is sent as a dictionary and rebuilt on the other side prints as the original
  and has the same dictionary, but its status is always \<open>SUCCESS\<close>: the status that was sent is
  stored and never read.\<close>

theorem suite_round_trip:
  "suite_str fmt (suite_of_dict (as_dict s)) = suite_str fmt s \<and>
   as_dict (suite_of_dict d) = d\<lparr>dict_status := SUCCESS\<rparr>"
  by (cases "cases_str fmt (map data (cases s))")
    (auto simp: suite_str_def suite_of_dict_def as_dict_def suite_status_def)

section \<open>Comparing PRE and POST\<close>

lemma set_diff_list: "set (diff_list xs ys) = (set xs - set ys) \<union> (set ys - set xs)"
  by (auto simp: diff_list_def)

lemma diff_list_Nil: "diff_list xs ys = [] \<longleftrightarrow> set xs = set ys"
proof -
  have "diff_list xs ys = [] \<longleftrightarrow> set (diff_list xs ys) = {}" by simp
  then show ?thesis unfolding set_diff_list by auto
qed

text \<open>A test case runs, and has a summary to report to.\<close>

definition reporting :: "tool \<Rightarrow> bool" where
  "reporting r \<longleftrightarrow> (\<exists>i. running_case r = Some i \<and> i < length (cases (tests r)) \<and> summary (cases (tests r) ! i) \<noteq> None)"

lemma report_ok: "reporting r \<Longrightarrow> \<exists>r'. report m r = (Inr (), r') \<and> reporting r'"
  by (auto simp: reporting_def report_def on_case_def with_summary_def add_to_report_def)

lemma reports_ok: "reporting r \<Longrightarrow> \<exists>r'. reports ms r = (Inr (), r') \<and> reporting r'"
proof (induction ms arbitrary: r)
  case (Cons m ms)
  from report_ok [OF Cons.prems, of m] Cons.IH show ?case by (fastforce simp: reports_def)
qed (simp add: reports_def)

definition process_set :: "files \<Rightarrow> string \<Rightarrow> string set" where
  "process_set fs f = (case fs f of None \<Rightarrow> {} | Some s \<Rightarrow> set (map strip (splitlines (content s))))"

text \<open>The check of the process list passes exactly when the non-empty lines that changed
  between PRE and POST are the processes named as gap. A named process that did not change makes
  it fail, although the gap is meant as what may be ignored.\<close>

theorem process_check_iff:
  assumes "reporting r" and "fs (data_file r ''PRE'' ''get_processes_list'') = Some pre"
    and "fs (data_file r ''POST'' ''get_processes_list'') = Some post"
  shows "(\<exists>why r'. check_list_processes fs gap r = (Inr (True, why), r')) \<longleftrightarrow>
    (process_set fs (data_file r ''PRE'' ''get_processes_list'')
       - process_set fs (data_file r ''POST'' ''get_processes_list'')
     \<union> (process_set fs (data_file r ''POST'' ''get_processes_list'')
       - process_set fs (data_file r ''PRE'' ''get_processes_list''))) - {[]} = set (words gap)"
proof -
  let ?a = "map strip (splitlines (content pre))" and ?b = "map strip (splitlines (content post))"
  let ?gap = "filter (\<lambda>x. x \<noteq> []) (diff_list ?a ?b)"
  have sets: "process_set fs (data_file r ''PRE'' ''get_processes_list'') = set ?a"
    "process_set fs (data_file r ''POST'' ''get_processes_list'') = set ?b"
    using assms(2,3) by (simp_all add: process_set_def)
  have run: "check_list_processes fs gap r = process_check (words gap) (splitlines (content pre)) (splitlines (content post)) r"
    using assms(2,3) by (simp add: check_list_processes_def with_both_def Let_def)
  have "(\<exists>why r'. check_list_processes fs gap r = (Inr (True, why), r')) \<longleftrightarrow> diff_list ?gap (words gap) = []"
  proof (cases "diff_list ?gap (words gap) = []")
    case True
    obtain r' where "report (check_line ''list_processes'' ''SUCCESS'') r = (Inr (), r')"
      using report_ok [OF assms(1)] by blast
    with True show ?thesis by (simp add: run process_check_def Let_def)
  next
    case False
    let ?why = "check_line ''list_processes'' (''FAILED '' @ join '' '' (diff_list ?gap (words gap)) @ '' '')"
    obtain r' where "report ?why r = (Inr (), r')" using report_ok [OF assms(1)] by blast
    with False have "check_list_processes fs gap r = (Inr (False, ?why), r')"
      unfolding run process_check_def Let_def by (simp only: if_True not_False_eq_True andthen_simps simp_thms)
    with False show ?thesis by (simp only: prod.inject sum.inject simp_thms)
  qed
  also have "\<dots> \<longleftrightarrow> set ?gap = set (words gap)" by (rule diff_list_Nil)
  also have "set ?gap = (set ?a - set ?b \<union> (set ?b - set ?a)) - {[]}"
    by (auto simp only: set_filter set_diff_list)
  finally show ?thesis unfolding sets .
qed

text \<open>A running test case in the directory \<open>/t\<close>, used by the witnesses.\<close>

definition demo_case :: test_case where
  "demo_case = (case_with ((blank_data True ''tc'')\<lparr>tc_status := Tc_Running, root_path := ''/t''\<rparr>) None)
     \<lparr>summary := Some (new_summary ''/t'')\<rparr>"

definition demo_run :: tool where
  "demo_run = \<lparr>tests = \<lparr>suite_name = ''s'', cases = [demo_case], cursor = Some 0, report_path = ''/''\<rparr>,
     running_case = Some 0, macros = [], exit_rtc = False, exit_test_case = False,
     background_commands = [], executed_cmds = [], saved_files = [], paused = False, emitted = []\<rparr>"

definition demo_files :: files where
  "demo_files = (\<lambda>f. if f = ''/t/PRE/get_processes_list.data'' then Some \<lparr>content = ''A'', mtime = 1\<rparr>
     else if f = ''/t/POST/get_processes_list.data'' then Some \<lparr>content = ''A'', mtime = 2\<rparr>
     else if f = ''/t/PRE/get_pods_info.data'' then Some \<lparr>content = ''ns hss r s 1'', mtime = 1\<rparr>
     else if f = ''/t/POST/get_pods_info.data'' then Some \<lparr>content = ''ns hss r s 7'', mtime = 2\<rparr>
     else None)"

lemma demo_reporting: "reporting demo_run"
  by (simp add: reporting_def demo_run_def demo_case_def)

lemma demo_data_file:
  "data_file demo_run ''PRE'' ''get_processes_list'' = ''/t/PRE/get_processes_list.data''"
  "data_file demo_run ''POST'' ''get_processes_list'' = ''/t/POST/get_processes_list.data''"
  "data_file demo_run ''PRE'' ''get_pods_info'' = ''/t/PRE/get_pods_info.data''"
  "data_file demo_run ''POST'' ''get_pods_info'' = ''/t/POST/get_pods_info.data''"
  by (simp_all add: data_file_def case_root_def demo_run_def demo_case_def case_with_def path_join_def startswith_def)

text \<open>The same processes before and after, and one name that may be ignored: the check fails.\<close>

theorem process_check_iff_witness:
  "\<not> (\<exists>why r'. check_list_processes demo_files ''B'' demo_run = (Inr (True, why), r')) \<and>
   (\<exists>why r'. check_list_processes demo_files [] demo_run = (Inr (True, why), r'))"
proof -
  have pre: "demo_files (data_file demo_run ''PRE'' ''get_processes_list'') = Some \<lparr>content = ''A'', mtime = 1\<rparr>"
    and post: "demo_files (data_file demo_run ''POST'' ''get_processes_list'') = Some \<lparr>content = ''A'', mtime = 2\<rparr>"
    unfolding demo_data_file by (simp_all add: demo_files_def)
  have w: "words ''B'' = [''B'']" "words [] = []" by (simp_all add: words_def blank_def)
  have ps: "process_set demo_files (data_file demo_run ''PRE'' ''get_processes_list'')
      = process_set demo_files (data_file demo_run ''POST'' ''get_processes_list'')"
    unfolding process_set_def pre post by simp
  note iff = process_check_iff [OF demo_reporting pre post]
  show ?thesis unfolding iff ps w by simp
qed

section \<open>Checks that cannot fail\<close>

lemma andthen_last:
  "andthen p f = (Inr y, r') \<Longrightarrow> (\<And>v s. f v s = (Inr y, r') \<Longrightarrow> y = x) \<Longrightarrow> y = x"
  by (cases p; cases "fst p") auto

lemma andthen_last3:
  fixes x y :: "'a"
  assumes "andthen p (\<lambda>_ r. andthen (q r) (\<lambda>_ r. andthen (u r) (\<lambda>_ r. (Inr x, r)))) = (Inr y, r')"
  shows "y = x"
  using assms apply (rule andthen_last)
  apply (erule andthen_last)
  apply (erule andthen_last)
  apply simp
  done

lemma report_rows_result: "reporting r \<Longrightarrow> \<exists>v r'. report_rows row ks r = (v, r') \<and> reporting r'"
proof (induction ks arbitrary: r)
  case (Cons k ks)
  show ?case
  proof (cases "row k")
    case (Inr ls)
    from reports_ok [OF Cons.prems, of ls] Cons.IH Inr show ?thesis by (fastforce simp: report_rows_def)
  qed (use Cons.prems in \<open>simp add: report_rows_def\<close>)
qed (simp add: report_rows_def)

text \<open>The check of the pod restarts never fails a test case: whatever the two lists say, when
  it returns at all it answers \<open>True\<close>, and with differences it does so with an error text. So the
  failure handling of its step (verdict, stop, skip) is never reached.\<close>

theorem pods_check_never_fails:
  assumes "reporting r" and "fs (data_file r ''PRE'' ''get_pods_info'') = Some pre"
    and "fs (data_file r ''POST'' ''get_pods_info'') = Some post"
    and "check_pods_restarts fs parse shw r = (Inr (ok, why), r')"
  shows "ok \<and> (why \<noteq> [] \<longleftrightarrow>
    (\<exists>(k, a, b) \<in> set (collect (List.map_filter pod_line (splitlines (content pre)))
        (List.map_filter pod_line (splitlines (content post)))). a \<noteq> b))"
proof -
  define d where "d = collect (List.map_filter pod_line (splitlines (content pre)))
        (List.map_filter pod_line (splitlines (content post)))"
  define failed where "failed = check_line ''pods_restart'' ''FAILED''"
  have failed: "failed \<noteq> []" by (simp add: failed_def check_line_def)
  have run: "check_pods_restarts fs parse shw r =
      (if \<forall>(k, a, b) \<in> set d. a = b then
           andthen (report (check_line ''pods_restart'' ''SUCCESS'') r) (\<lambda>_ r. (Inr (True, []), r))
         else andthen (reports [failed, ''Pod Delta Restarts ''] r) (\<lambda>_ r.
               andthen (report_rows (pod_row parse shw d) (sorted_nicely (dict_keys d)) r) (\<lambda>_ r.
               andthen (report [] r) (\<lambda>_ r. (Inr (True, failed), r)))))"
    using assms(2,3)
    by (simp only: check_pods_restarts_def with_both_def Let_def option.case pods_check_def d_def [symmetric]
        failed_def [symmetric])
  note eq = trans [OF run [symmetric] assms(4)]
  have ex: "(\<exists>(k, a, b) \<in> set d. a \<noteq> b) \<longleftrightarrow> \<not> (\<forall>(k, a, b) \<in> set d. a = b)"
    by (simp add: split_beta)
  show ?thesis
  proof (cases "\<forall>(k, a, b) \<in> set d. a = b")
    case True
    note eq [unfolded if_P [OF True]]
    then have "(ok, why) = (True, [])" by (rule andthen_last) simp
    with True show ?thesis unfolding d_def [symmetric] ex by simp
  next
    case False
    note eq [unfolded if_not_P [OF False]]
    then have "(ok, why) = (True, failed)" by (rule andthen_last3)
    with False failed show ?thesis unfolding d_def [symmetric] ex by simp
  qed
qed

theorem pods_check_never_fails_witness:
  "\<exists>why r'. check_pods_restarts demo_files (\<lambda>_. Some 0) (\<lambda>_. ''0'') demo_run = (Inr (True, why), r') \<and> why \<noteq> []"
proof -
  have pre: "demo_files (data_file demo_run ''PRE'' ''get_pods_info'') = Some \<lparr>content = ''ns hss r s 1'', mtime = 1\<rparr>"
    and post: "demo_files (data_file demo_run ''POST'' ''get_pods_info'') = Some \<lparr>content = ''ns hss r s 7'', mtime = 2\<rparr>"
    unfolding demo_data_file by (simp_all add: demo_files_def)
  have d: "collect (List.map_filter pod_line (splitlines ''ns hss r s 1'')) (List.map_filter pod_line (splitlines ''ns hss r s 7''))
      = [(''hss'', Some ''1'', Some ''7'')]"
    by (simp add: collect_def pod_line_def put_pre_def put_post_def map_filter_simps words_def blank_def Let_def)
  obtain why ok r' where r': "check_pods_restarts demo_files (\<lambda>_. Some 0) (\<lambda>_. ''0'') demo_run = (Inr (ok, why), r')"
  proof -
    have "\<exists>ok why r'. check_pods_restarts demo_files (\<lambda>_. Some 0) (\<lambda>_. ''0'') demo_run = (Inr (ok, why), r')"
    proof -
      let ?d = "[(''hss'', Some ''1'', Some ''7'')] :: string pairs"
      obtain r1 where r1: "reports [check_line ''pods_restart'' ''FAILED'', ''Pod Delta Restarts ''] demo_run = (Inr (), r1)"
        "reporting r1" using reports_ok [OF demo_reporting] by blast
      have rows: "report_rows (pod_row (\<lambda>_. Some 0) (\<lambda>_. ''0'') ?d) (sorted_nicely (dict_keys ?d)) r1
          = reports [''hss 0''] r1"
        by (cases "reports [''hss 0''] r1") (auto simp: report_rows_def sorted_nicely_def pod_row_def andthen_def split: sum.split)
      obtain r2 where r2: "reports [''hss 0''] r1 = (Inr (), r2)" "reporting r2" using reports_ok [OF r1(2)] by blast
      obtain r3 where r3: "report [] r2 = (Inr (), r3)" using report_ok [OF r2(2)] by blast
      have "check_pods_restarts demo_files (\<lambda>_. Some 0) (\<lambda>_. ''0'') demo_run
          = (Inr (True, check_line ''pods_restart'' ''FAILED''), r3)"
        unfolding check_pods_restarts_def with_both_def Let_def pre post option.case pods_check_def stored.simps d
        using r1 rows r2 r3 by simp
      then show ?thesis by blast
    qed
    with that show ?thesis by blast
  qed
  from pods_check_never_fails [OF demo_reporting pre post r'] d r' show ?thesis by auto
qed

end
