(* ===== verification/Test_Loop.thy ===== *)
theory Test_Loop
  imports Test_Props
begin

text \<open>
  The loop of the test tool ends: what a test case may change while it runs, the budget of
  executions that the suite has left, and the bound on the iterations.
\<close>

section \<open>What a run leaves alone\<close>

text \<open>
  The position in the suite, the configuration of every test case and the running case stay, and
  nothing pauses the tool.
\<close>

definition steady :: "tool \<Rightarrow> tool \<Rightarrow> bool" where
  "steady r r' \<longleftrightarrow> cursor (tests r') = cursor (tests r) \<and> map loaded (cases (tests r')) = map loaded (cases (tests r)) \<and>
     running_case r' = running_case r \<and> (paused r' \<longrightarrow> paused r)"

named_theorems steady_rules "operations that are steady"

lemma steady_refl [simp, intro]: "steady r r"
  by (simp add: steady_def)

lemma steady_trans: "steady r s \<Longrightarrow> steady s t \<Longrightarrow> steady r t"
  by (auto simp: steady_def)

interpretation steady: state_frame steady
  by unfold_locales (auto intro: steady_trans)

lemmas steady_flow [steady_rules] = steady.seq steady.branch steady.pair

lemma steady_upd [steady_rules]:
  "steady r (r\<lparr>executed_cmds := a\<rparr>)" "steady r (r\<lparr>saved_files := b\<rparr>)" "steady r (r\<lparr>background_commands := d\<rparr>)"
  "steady r (r\<lparr>macros := m\<rparr>)" "steady r (r\<lparr>exit_rtc := x\<rparr>)" "steady r (r\<lparr>exit_test_case := y\<rparr>)"
  by (simp_all add: steady_def)

lemma steady_obey: "steady r (obey ord r)"
  by (cases ord) (simp_all add: obey_def steady_def)

lemma steady_orders: "steady r (fold obey os r)"
  by (rule steady.fold_steps) (rule steady_obey)

lemma steady_execute [steady_rules]: "steady r (snd (execute sh cmd r))"
  unfolding execute_def Let_def snd_conv by (rule steady_trans [OF steady_upd(1) steady_orders])

definition keeps_loaded :: "(test_case \<Rightarrow> 'a res \<times> test_case) \<Rightarrow> bool" where
  "keeps_loaded f \<longleftrightarrow> (\<forall>t. loaded (snd (f t)) = loaded t)"

lemma steady_on_case [steady_rules]: "keeps_loaded f \<Longrightarrow> steady r (snd (on_case f r))"
proof (cases "running_case r")
  case (Some i)
  assume f: "keeps_loaded f"
  obtain v t where ft: "f (cases (tests r) ! i) = (v, t)" by fastforce
  with f have "loaded t = loaded (cases (tests r) ! i)" by (metis keeps_loaded_def snd_conv)
  then have "i < length (cases (tests r)) \<Longrightarrow> map loaded ((cases (tests r))[i := t]) = map loaded (cases (tests r))"
    by (simp add: map_update list_update_same_conv)
  with Some ft show ?thesis by (simp add: on_case_def steady_def)
qed (simp add: on_case_def)

lemma keeps_loaded_rules [steady_rules]:
  "keeps_loaded (\<lambda>t. (v, set_repeat b (add_failure w t)))"
  "keeps_loaded (with_summary g)"
  "keeps_loaded (update_status d now date q)"
  "keeps_loaded (\<lambda>t. (h t, t))"
  "keeps_loaded (\<lambda>t. (u, t\<lparr>data := k t\<rparr>))"
  by (simp_all add: keeps_loaded_def set_repeat_def add_failure_def with_summary_def update_status_def
      start_case_def skip_case_def stop_case_def Let_def split: option.split prod.split sum.split)

lemma steady_suite_failed [steady_rules]: "steady r (snd (set_suite_failed r))"
proof -
  have "map loaded ((cases s)[i := (cases s ! i)\<lparr>report_not_valid := True\<rparr>]) = map loaded (cases s)"
    if "i < length (cases s)" for i and s :: suite
    using that by (simp add: map_update list_update_same_conv)
  then show ?thesis
    by (auto simp: set_suite_failed_def set_execution_status_def steady_def py_index_def Let_def
        split: option.split if_splits)
qed

lemma steady_update_verdict [steady_rules]: "steady r (snd (update_verdict b w p r))"
  unfolding update_verdict_def by (intro steady_rules) auto

lemma steady_faulty_step [steady_rules]: "steady r (snd (rtc_add_faulty_step m r))"
  unfolding rtc_add_faulty_step_def by (intro steady_rules)

lemma steady_reports [steady_rules]: "steady r (snd (report m r))" "steady r (snd (reports ms r))"
proof -
  show 1: "steady r (snd (report m r))" for m r unfolding report_def by (intro steady_rules)
  show "steady r (snd (reports ms r))"
    unfolding reports_def
  proof (induction ms arbitrary: r)
    case (Cons m ms)
    show ?case unfolding for_each.simps by (rule steady.seq [OF 1 Cons.IH])
  qed simp
qed

section \<open>Steps and phases\<close>

lemma steady_save [steady_rules]: "steady r (snd (save_to ok name text r))"
  unfolding save_to_def by (intro steady_rules) auto

lemma steady_step_failed [steady_rules]: "steady r (snd (step_failed ph c cmd why r))"
  unfolding step_failed_def
  by (intro steady_rules) (auto split: option.split)

lemma steady_background [steady_rules]: "steady r (snd (run_background sh cmd r))"
  unfolding run_background_def
  by (rule steady.seq [OF steady_execute]) (auto split: option.split intro: steady_rules)

lemma steady_foreground [steady_rules]: "steady r (snd (run_foreground sh e ph c cmd r))"
  unfolding run_foreground_def Let_def
  by (intro steady_rules) auto

lemma steady_step_run [steady_rules]: "steady r (snd (step_run sh e ph c r))"
proof (cases "translator_type e c = Function_call")
  case True
  then show ?thesis by (simp add: step_run_def split: sum.split)
next
  case False
  show ?thesis
  proof (cases "step_command e c r")
    case (Inr cmd)
    have "steady r (snd (andthen (if step_background c then run_background sh cmd r else run_foreground sh e ph c cmd r)
        (\<lambda>a r. if res_code a \<notin> {None, Some 0} then
                 andthen (step_failed ph c cmd (res_error a) r) (\<lambda>_ r. (Inr (Inr a), r))
               else (Inr (Inr a), r))))"
      by (intro steady_rules) auto
    with False Inr show ?thesis by (simp add: step_run_def)
  qed (use False in \<open>simp add: step_run_def\<close>)
qed

lemma steady_run_steps:
  assumes "\<And>c r. steady r (snd (body c r))"
  shows "steady r (snd (run_steps body cs r))"
proof (induction cs arbitrary: r)
  case (Cons c cs)
  show ?case unfolding run_steps.simps by (intro steady_rules assms Cons.IH) auto
qed simp

lemma steady_phase_run [steady_rules]: "steady r (snd (phase_run sh e ph p r))"
proof -
  have "steady r (snd (phase_body sh e ph c r))" for c r
    unfolding phase_body_def by (intro steady_rules) auto
  from steady_run_steps [of "phase_body sh e ph", OF this] show ?thesis
    by (simp add: phase_run_def split: option.split bool.split)
qed

text \<open>Python's \<open>eval\<close> and the phase EXECUTION are only known to be steady.\<close>

definition steady_env :: "tool_env \<Rightarrow> bool" where
  "steady_env e \<longleftrightarrow> (\<forall>text r. steady r (snd (evaluate e text r))) \<and> (\<forall>p r. steady r (snd (execution e p r)))"

lemma steady_check_run:
  assumes "\<And>text r. steady r (snd (ev text r))"
  shows "steady r (snd (check_run sh ev e p r))"
proof -
  have res: "steady r (snd (check_result sh ev e c r))" for c r
    unfolding check_result_def
  proof (rule steady.seq [OF steady_step_run])
    show "steady s (snd (case v of Inl text \<Rightarrow> ev text s
       | Inr res \<Rightarrow>
           if translator_type e c = External then
             andthen (if step_add_to_summary c
                      then (case step_command e c s of
                              Inl x \<Rightarrow> (Inl x, s)
                            | Inr cmd \<Rightarrow> reports (user_step_lines (step_id c) cmd (res_out res)) s)
                      else (Inr (), s))
               (\<lambda>_ r. (Inr (res_code res = Some 0, res_error res), r))
           else (Inl (AttributeError ''CHECK object has no attribute None''), s)))" for v s
      using assms by (auto split: sum.split intro!: steady_rules)
  qed
  have "steady r (snd (check_body sh ev e c r))" for c r
    unfolding check_body_def
  proof (rule steady.seq [OF res])
    show "steady s (snd ((\<lambda>(ok, why) r.
       if ok then (Inr (), r)
       else
         andthen (if affects_verdict c then update_verdict ok why (step_repeat c) r else (Inr (), r)) (\<lambda>_ r.
         andthen (if step_report_not_valid c then set_suite_failed r else (Inr (), r)) (\<lambda>_ r.
           case stop_reason c (''configured in '' @ step_id c @ '' at CHECK phase'') of
             None \<Rightarrow> (Inr (), r)
           | Some x \<Rightarrow> (Inl x, r)))) v s))" for v s
      unfolding split_beta by (intro steady_rules) (auto split: option.split)
  qed
  from steady_run_steps [of "check_body sh ev e", OF this] show ?thesis
    by (simp add: check_run_def split: option.split bool.split)
qed

lemma steady_run_phase: "steady_env e \<Longrightarrow> steady r (snd (run_phase e ph p r))"
  by (simp add: run_phase_def steady_env_def steady_check_run steady_phase_run)

lemma steady_get_case [steady_rules]: "steady r (snd (get_case f r))"
  unfolding get_case_def by (intro steady_rules)

lemma steady_one_phase: "steady_env e \<Longrightarrow> steady r (snd (one_phase e ph r))"
proof -
  assume e: "steady_env e"
  have catch: "steady r (snd (case q of
        (Inl x, r') \<Rightarrow> (if goes_on x then Inr () else Inl x, r')
      | (Inr _, r') \<Rightarrow> (Inr (), r')))" if "steady r (snd q)" for r and q :: "unit res \<times> tool"
    using that by (cases q; cases "fst q") auto
  show ?thesis
    unfolding one_phase_def
    by (rule steady.seq [OF steady_get_case], rule catch)
      (auto simp: steady_run_phase [OF e] split: option.split)
qed

lemma steady_request [steady_rules]: "steady r (snd (request_status e st m p r))"
  unfolding request_status_def
  by (auto split: prod.split option.split intro!: steady_rules)

lemma steady_run_phases: "steady_env e \<Longrightarrow> steady r (snd (run_phases e phs r))"
proof (induction phs arbitrary: r)
  case (Cons ph phs)
  show ?case
    unfolding run_phases.simps
    by (intro steady_rules steady_one_phase Cons)
qed simp

lemma steady_ended_by: "steady r (snd (ended_by e x r))"
proof (cases x)
  case KeyboardInterrupt
  define s where "s = (if \<not> exit_rtc r \<and> \<not> exit_test_case r \<and> gives_up e (executed_cmds r) then r\<lparr>exit_rtc := True\<rparr> else r)"
  have "steady r s" by (simp add: s_def steady_upd)
  from steady_trans [OF this steady_request] KeyboardInterrupt show ?thesis
    by (simp add: ended_by_def Let_def s_def [symmetric])
next
  case (ExitRtc m)
  have "steady r (snd (andthen (request_status e Tc_Not_Finished [] False r) (\<lambda>_ r.
          andthen (get_case shall_repeat r) (\<lambda>again r.
            (Inr (), if again then r else r\<lparr>exit_rtc := True\<rparr>)))))"
    by (intro steady_rules) (auto intro: steady_rules)
  with ExitRtc show ?thesis by (simp add: ended_by_def)
qed (simp_all add: ended_by_def steady_request)

lemma steady_run_body: "steady_env e \<Longrightarrow> steady r (snd (run_body e r))"
proof -
  assume e: "steady_env e"
  obtain v r' where q: "andthen (run_phases e (u_phases (user e)) r) (\<lambda>_. request_status e Tc_Finished [] False) = (v, r')"
    by fastforce
  have "steady r (snd (andthen (run_phases e (u_phases (user e)) r) (\<lambda>_. request_status e Tc_Finished [] False)))"
    by (intro steady_rules steady_run_phases e)
  with q have r': "steady r r'" by simp
  show ?thesis
  proof (cases v)
    case (Inl x)
    with q have "run_body e r = ended_by e x r'" by (simp add: run_body_def)
    with r' steady_trans [OF r' steady_ended_by] show ?thesis by simp
  qed (use q r' in \<open>simp add: run_body_def\<close>)
qed

lemma steady_finish [steady_rules]: "steady r (snd (finish e r))"
proof -
  let ?r = "r\<lparr>background_commands := []\<rparr>"
  have "steady ?r (snd (finish e r))" unfolding finish_def Let_def by (intro steady_rules) auto
  then show ?thesis using steady_trans [OF steady_upd(3)] by blast
qed

lemma steady_macro [steady_rules]: "steady r (put_macro k v r)"
  by (simp add: put_macro_def steady_def)

lemma steady_macro_file: "steady r (snd (add_macro_file e fs r))"
proof -
  have all: "steady r (fold (\<lambda>(k, v). put_macro k v) kvs r)" for kvs r
  proof (induction kvs arbitrary: r)
    case (Cons kv kvs)
    show ?case using steady_trans [OF steady_macro Cons.IH] by (cases kv) simp
  qed simp
  show ?thesis
    unfolding add_macro_file_def
  proof (induction fs arbitrary: r)
    case (Cons f fs)
    show ?case unfolding for_each.simps
      by (rule steady.seq [OF _ Cons.IH]) (simp add: all split: option.split)
  qed simp
qed

text \<open>\<open>initialize\<close> sets the running case and keeps the rest.\<close>

lemma initialize_steady:
  "steady (r\<lparr>running_case := Some i\<rparr>) (snd (initialize e i r))"
proof -
  let ?r1 = "r\<lparr>running_case := Some i, exit_rtc := False, exit_test_case := False, macros := default_macros e\<rparr>"
  have 1: "steady (r\<lparr>running_case := Some i\<rparr>) ?r1" by (simp add: steady_def)
  have "steady ?r1 (snd (initialize e i r))"
    unfolding initialize_def Let_def split_beta
    by (intro steady_rules steady_macro_file steady_trans [OF steady_macro steady_macro])
  with 1 show ?thesis by (rule steady_trans)
qed

section \<open>The budget\<close>

text \<open>What is left after the cursor: each case once, and once more per retry.\<close>

definition retries_of :: "loaded option \<Rightarrow> int" where
  "retries_of l = (case l of None \<Rightarrow> 0 | Some x \<Rightarrow> case cfg_retries (config_data x) of None \<Rightarrow> 0 | Some n \<Rightarrow> n)"

definition sane :: "loaded option \<Rightarrow> bool" where
  "sane l \<longleftrightarrow> l \<noteq> None \<and> 0 \<le> retries_of l"

definition budget :: "int \<Rightarrow> test_case list \<Rightarrow> nat" where
  "budget c ts = sum_list (map (\<lambda>l. Suc (nat (retries_of l))) (drop (nat (c + 1)) (map loaded ts)))"

definition ready :: "tool \<Rightarrow> int \<Rightarrow> bool" where
  "ready r c \<longleftrightarrow> cursor (tests r) = Some c \<and> - 1 \<le> c \<and> (\<forall>l \<in> set (map loaded (cases (tests r))). sane l) \<and>
     \<not> paused r"

lemma steady_ready: "steady r r' \<Longrightarrow> ready r c \<Longrightarrow> ready r' c \<and> budget c (cases (tests r')) = budget c (cases (tests r))"
  unfolding steady_def ready_def budget_def by metis

lemma nof_retries_sane: "sane (loaded t) \<Longrightarrow> nof_retries t = Inr (retries_of (loaded t))"
  by (auto simp: sane_def nof_retries_def retries_of_def)

lemma clone_loaded:
  assumes "clone d t = Inr (new, old)" and "sane (loaded t)" and "retries_of (loaded t) \<noteq> 0"
  shows "sane (loaded new) \<and> retries_of (loaded new) = retries_of (loaded t) - 1 \<and> loaded old = loaded t"
proof -
  have new: "loaded c \<noteq> None" if "new_test_case d f m mand = Inr c" for f m mand c
    using that by (auto simp: new_test_case_def Let_def case_with_def split: option.splits sum.splits)
  have n: "nof_retries t = Inr (retries_of (loaded t))" by (rule nof_retries_sane [OF assms(2)])
  obtain l where l: "loaded t = Some l" using assms(2) by (auto simp: sane_def)
  with assms(1) n obtain f m mand c where c: "new_test_case d f m mand = Inr c"
    "new = (set_nof_retries (retries_of (loaded t) - 1) c)\<lparr>data := (data c)\<lparr>reexecution := True\<rparr>\<rparr>"
    "old = t\<lparr>report_not_valid := False\<rparr>"
    by (auto simp: clone_def split: sum.splits)
  obtain lc where "loaded c = Some lc" using new [OF c(1)] by blast
  with c(2,3) assms(2,3) show ?thesis
    by (auto simp: set_nof_retries_def sane_def retries_of_def)
qed

lemma repeat_budget:
  assumes "repeat_test_case d s = (Inr (), s')" and "cursor s = Some (int i)" and "i < length (cases s)"
    and "\<forall>l \<in> set (map loaded (cases s)). sane l" and "retries_of (loaded (cases s ! i)) \<noteq> 0"
  shows "cursor s' = Some (int i) \<and> (\<forall>l \<in> set (map loaded (cases s')). sane l) \<and>
    budget (int i) (cases s') = budget (int i) (cases s) + nat (retries_of (loaded (cases s ! i)))"
proof -
  let ?t = "cases s ! i"
  have t: "sane (loaded ?t)" using assms(3,4) by simp
  obtain new old where cl: "clone d ?t = Inr (new, old)"
    and s': "s' = s\<lparr>cases := take (Suc i) ((cases s)[i := old]) @ [new] @ drop (Suc i) ((cases s)[i := old])\<rparr>"
    using assms(1-3) by (auto simp: repeat_test_case_def py_index_def Let_def nat_add_distrib split: sum.splits)
  note c = clone_loaded [OF cl t assms(5)]
  have same: "map loaded ((cases s)[i := old]) = map loaded (cases s)"
    using c assms(3) by (simp add: map_update list_update_same_conv)
  have "map loaded (cases s') = take (Suc i) (map loaded (cases s)) @ [loaded new] @ drop (Suc i) (map loaded (cases s))"
    unfolding s' same [symmetric] by (simp add: take_map drop_map)
  moreover from this have "\<forall>l \<in> set (map loaded (cases s')). sane l"
  proof -
    have "set (take (Suc i) (map loaded (cases s))) \<union> set (drop (Suc i) (map loaded (cases s))) \<subseteq> set (map loaded (cases s))"
      by (metis set_append append_take_drop_id order_refl)
    with assms(4) have "\<forall>l \<in> set (take (Suc i) (map loaded (cases s))) \<union> set (drop (Suc i) (map loaded (cases s))). sane l"
      by (meson in_mono)
    with c show ?thesis unfolding \<open>map loaded (cases s') = _\<close> by auto
  qed
  moreover have "Suc (nat (retries_of (loaded new))) = nat (retries_of (loaded ?t))"
    using c t assms(5) by (auto simp: sane_def)
  ultimately show ?thesis using assms(2,3) s' by (simp add: budget_def nat_add_distrib)
qed

text \<open>An iteration takes at least one execution from the budget.\<close>

lemma budget_next:
  assumes "c < int (length ts) - 1" and "- 1 \<le> c"
  shows "budget c ts = Suc (nat (retries_of (loaded (ts ! nat (c + 1))))) + budget (c + 1) ts"
proof -
  let ?i = "nat (c + 1)"
  have i: "?i < length ts" "nat (c + 1 + 1) = Suc ?i" using assms by linarith+
  have "drop ?i (map loaded ts) = loaded (ts ! ?i) # drop (Suc ?i) (map loaded ts)"
    using i(1) by (simp add: Cons_nth_drop_Suc [symmetric])
  then show ?thesis using i(2) by (simp add: budget_def)
qed

lemma run_case_budget:
  assumes "steady_env e" and "\<not> u_dbus (user e)" and "ready r (int i)" and "i < length (cases (tests r))"
    and "run_case e i r = (Inr (), r')"
  shows "ready r' (int i) \<and>
    budget (int i) (cases (tests r')) \<le> budget (int i) (cases (tests r)) + nat (retries_of (loaded (cases (tests r) ! i)))"
proof -
  let ?r0 = "r\<lparr>running_case := Some i\<rparr>"
  have r0: "ready ?r0 (int i)" "tests ?r0 = tests r" using assms(3) by (simp_all add: ready_def)
  obtain v s where v: "initialize e i r = (v, s)" by fastforce
  have s: "steady ?r0 s" using initialize_steady [where r = r and i = i and e = e] v by simp
  show ?thesis
  proof (cases v)
    case (Inl x)
    then obtain why where "x = ExecutionNotAllowed why"
      using assms(5) v by (auto simp: run_case_def split: py_exc.splits)
    with assms(5) v Inl have "r' = snd (request_status e Tc_Skipped why False s)" by (simp add: run_case_def)
    with steady_trans [OF s steady_request] have "steady ?r0 r'" by simp
    from steady_ready [OF this r0(1)] show ?thesis by simp
  next
    case (Inr u)
    with assms(5) v obtain r1 r2 r3 r4 r5 js again cmd ans where
      r1: "run_body e s = (Inr (), r1)"
      and r2: "get_case (\<lambda>t. Inr (case loaded t of None \<Rightarrow> [] | Some l \<Rightarrow> json_file l, root_path (data t))) r1 = (Inr js, r2)"
      and r3: "execute (the_shell e) cmd r2 = (Inr ans, r3)"
      and r4: "finish e r3 = (Inr (), r4)"
      and r5: "get_case shall_repeat r4 = (Inr again, r5)"
      and r': "andthen (if again then repeat_current e r5 else (Inr (), r5)) (\<lambda>_. offer_node e) = (Inr (), r')"
    proof -
      have "run_case e i r = andthen (run_body e s) (\<lambda>_ r.
          andthen (get_case (\<lambda>t. Inr (case loaded t of None \<Rightarrow> [] | Some l \<Rightarrow> json_file l, root_path (data t))) r) (\<lambda>js r.
          andthen (execute (the_shell e) (''cp '' @ fst js @ '' '' @ snd js @ ''/'') r) (\<lambda>_ r.
          andthen (finish e r) (\<lambda>_ r.
          andthen (get_case shall_repeat r) (\<lambda>again r.
          andthen (if again then repeat_current e r else (Inr (), r)) (\<lambda>_. offer_node e))))))"
        using v Inr by (simp add: run_case_def)
      with assms(5) that show ?thesis by (fastforce simp only: andthen_Inr)
    qed
    have st: "steady ?r0 r5"
    proof -
      have "steady s r1" using steady_run_body [OF assms(1), of s] r1 by simp
      moreover have "steady r1 r2" using steady_get_case [of r1] r2 by (metis snd_conv)
      moreover have "steady r2 r3" using steady_execute [of r2 "the_shell e"] r3 by (metis snd_conv)
      moreover have "steady r3 r4" using steady_finish [of r3 e] r4 by simp
      moreover have "steady r4 r5" using steady_get_case [of r4 shall_repeat] r5 by simp
      ultimately show ?thesis using s by (blast intro: steady_trans)
    qed
    note ok = steady_ready [OF st r0(1)]
    have len: "map loaded (cases (tests r5)) = map loaded (cases (tests r))"
      and rc: "running_case r5 = Some i" using st by (simp_all add: steady_def)
    then have i5: "i < length (cases (tests r5))" using assms(4) by (metis length_map)
    have same: "loaded (cases (tests r5) ! i) = loaded (cases (tests r) ! i)"
      using len i5 assms(4) by (metis nth_map)
    show ?thesis
    proof (cases again)
      case False
      with r' assms(2) have "r' = r5" by (simp add: offer_node_def)
      with ok r0(2) show ?thesis by simp
    next
      case True
      then obtain w where w: "repeat_current e r5 = (Inr (), w)" "r' = w"
        using r' assms(2) by (auto simp: andthen_Inr offer_node_def)
      then have rep: "repeat_test_case (the_disk e) (tests r5) = (Inr (), tests r')" "r' = r5\<lparr>tests := tests r'\<rparr>"
        by (auto simp: repeat_current_def split: prod.splits)
      have "r5 = r4" "shall_repeat (cases (tests r4) ! i) = Inr True"
        using r5 rc i5 True by (auto simp: get_case_def on_case_def split: option.splits if_splits)
      moreover have sane: "\<forall>l \<in> set (map loaded (cases (tests r5))). sane l" using ok by (simp add: ready_def)
      moreover have "sane (loaded (cases (tests r5) ! i))" using sane i5 by simp
      ultimately have nz: "retries_of (loaded (cases (tests r5) ! i)) \<noteq> 0"
        by (auto simp: shall_repeat_def nof_retries_sane)
      have "cursor (tests r5) = Some (int i)" using ok by (simp add: ready_def)
      note rb = repeat_budget [OF rep(1) this i5 sane nz]
      have "\<not> paused r'" by (subst rep(2)) (use ok in \<open>simp add: ready_def\<close>)
      with rb ok r0(2) same show ?thesis by (simp add: ready_def)
    qed
  qed
qed

text \<open>C7: the test tool ends. Without the controller (which may pause it for good) and with no
  negative number of retries, the loop returns after at most one iteration per test case and one
  per retry that is left; the steps, the checks and the phase EXECUTION may do what they like as
  long as they leave the suite's configuration alone.\<close>

theorem run_terminates:
  assumes "steady_env e" and "\<not> u_dbus (user e)" and "ready r c" and "budget c (cases (tests r)) < n"
  shows "\<exists>v r'. run_loop e n r = Some (v, r')"
  using assms(3,4)
proof (induction n arbitrary: r c)
  case (Suc n)
  have wait: "wait_paused (while_paused e (executed_cmds r)) r = Some (False, r)"
    using Suc.prems(1) by (simp add: wait_paused.simps ready_def)
  have cur: "cursor (tests r) = Some c" "- 1 \<le> c" using Suc.prems(1) by (simp_all add: ready_def)
  show ?case
  proof (cases "exit_rtc r \<or> \<not> c < int (length (cases (tests r))) - 1")
    case True
    with wait cur show ?thesis by (auto simp: next_text_case_def)
  next
    case False
    define i where "i = nat (c + 1)"
    let ?r1 = "r\<lparr>tests := (tests r)\<lparr>cursor := Some (c + 1)\<rparr>\<rparr>"
    have i: "int i = c + 1" "i < length (cases (tests ?r1))" using False cur(2) by (auto simp: i_def)
    have ready1: "ready ?r1 (int i)" using Suc.prems(1) i(1) by (simp add: ready_def)
    have loop: "run_loop e (Suc n) r = (case run_case e i ?r1 of
        (Inl x, r2) \<Rightarrow> Some (Inl x, r2) | (Inr _, r2) \<Rightarrow> run_loop e n r2)"
      using wait cur False by (simp add: next_text_case_def i_def)
    obtain v r2 where v: "run_case e i ?r1 = (v, r2)" by fastforce
    show ?thesis
    proof (cases v)
      case (Inr u)
      with v have "run_case e i ?r1 = (Inr (), r2)" by simp
      from run_case_budget [OF assms(1,2) ready1 i(2) this] have r2: "ready r2 (int i)"
        "budget (int i) (cases (tests r2)) \<le> budget (int i) (cases (tests r)) + nat (retries_of (loaded (cases (tests r) ! i)))"
        by simp_all
      have "budget (int i) (cases (tests r2)) < n"
        using r2(2) Suc.prems(2) budget_next [of c "cases (tests r)"] False cur(2) i(1) by (simp add: i_def)
      from Suc.IH [OF r2(1) this] loop v Inr show ?thesis by simp
    qed (use loop v in simp)
  qed
qed simp

end
