(* ===== verification/Test_Verdict.thy ===== *)
theory Test_Verdict
  imports Test_Loop
begin

text \<open>
  What a phase without a new failure message has shown: every command that counts for the verdict
  was executed and returned 0.
\<close>

definition failures :: "tool \<Rightarrow> nat" where
  "failures r = (case running_case r of
     None \<Rightarrow> 0
   | Some i \<Rightarrow> if i < length (cases (tests r)) then length (failure_messages (data (cases (tests r) ! i))) else 0)"

lemma failures_cong: "tests r' = tests r \<Longrightarrow> running_case r' = running_case r \<Longrightarrow> failures r' = failures r"
  by (simp add: failures_def split: option.split)

lemma failures_upd [simp]:
  "failures (r\<lparr>saved_files := b\<rparr>) = failures r" "failures (r\<lparr>background_commands := d\<rparr>) = failures r"
  "failures (r\<lparr>executed_cmds := h\<rparr>) = failures r"
  by (rule failures_cong; simp)+

text \<open>
  What every operation of a step keeps: the history of commands and the failures only grow, the
  macros stay, and a call that returns was not told to leave the test case.
\<close>

definition grows :: "tool \<Rightarrow> tool \<Rightarrow> bool" where
  "grows r r' \<longleftrightarrow> (\<exists>cs. executed_cmds r' = executed_cmds r @ cs) \<and> macros r' = macros r \<and> failures r \<le> failures r' \<and>
     running_case r' = running_case r \<and> length (cases (tests r')) = length (cases (tests r))"

definition fine :: "tool \<Rightarrow> 'a res \<times> tool \<Rightarrow> bool" where
  "fine r p \<longleftrightarrow> grows r (snd p) \<and> (\<forall>v. fst p = Inr v \<longrightarrow> \<not> exit_test_case r \<longrightarrow> \<not> exit_test_case (snd p))"

named_theorems fine_rules "operations that are fine"

lemma grows_refl [simp]: "grows r r"
  by (simp add: grows_def)

lemma grows_trans: "grows r s \<Longrightarrow> grows s t \<Longrightarrow> grows r t"
  by (auto simp: grows_def)

lemma fine_refl [fine_rules]: "fine r (v, r)"
  by (simp add: fine_def)

lemma fine_upd [fine_rules]:
  "fine r (v, r\<lparr>saved_files := b\<rparr>)" "fine r (v, r\<lparr>background_commands := d\<rparr>)"
  by (simp_all add: fine_def grows_def)

lemma fine_andthen [fine_rules]:
  "fine r p \<Longrightarrow> (\<And>v s. fine s (f v s)) \<Longrightarrow> fine r (andthen p f)"
  by (cases p; cases "fst p") (auto simp: fine_def intro: grows_trans)

lemma fine_if [fine_rules]: "(b \<Longrightarrow> fine r p) \<Longrightarrow> (\<not> b \<Longrightarrow> fine r q) \<Longrightarrow> fine r (if b then p else q)"
  by simp

lemma obey_fields:
  "executed_cmds (fold obey os r) = executed_cmds r" "macros (fold obey os r) = macros r"
  "tests (fold obey os r) = tests r" "running_case (fold obey os r) = running_case r"
  by (induction os arbitrary: r; simp add: obey_def split: order.split)+

lemma obey_exit:
  "\<not> exit_test_case r \<Longrightarrow> \<forall>ord \<in> set os. \<not> interrupts ord \<Longrightarrow> \<not> exit_test_case (fold obey os r)"
  by (induction os arbitrary: r) (auto simp: obey_def interrupts_def split: order.split)

lemma fine_execute [fine_rules]: "fine r (execute sh cmd r)"
proof -
  let ?r = "r\<lparr>executed_cmds := executed_cmds r @ [cmd]\<rparr>"
  have "failures (fold obey os ?r) = failures r" for os
    using failures_cong [of "fold obey os ?r" ?r] by (simp add: obey_fields)
  then show ?thesis
    by (auto simp: fine_def grows_def execute_def Let_def obey_fields obey_exit)
qed

text \<open>Operations on the running case that keep its failure messages, or add one.\<close>

lemma fine_on_case [fine_rules]:
  assumes "\<And>t. length (failure_messages (data t)) \<le> length (failure_messages (data (snd (f t))))"
  shows "fine r (on_case f r)"
proof (cases "running_case r")
  case (Some i)
  obtain v t where "f (cases (tests r) ! i) = (v, t)" by fastforce
  with Some assms [of "cases (tests r) ! i"] show ?thesis
    by (simp add: on_case_def fine_def grows_def failures_def)
qed (simp add: on_case_def fine_def)

lemma fine_verdict [fine_rules]: "fine r (update_verdict b why rep r)"
  unfolding update_verdict_def
  by (intro fine_rules) (simp add: set_repeat_def add_failure_def)

lemma verdict_fails:
  "update_verdict False why rep r = (Inr (), r') \<Longrightarrow> failures r' = Suc (failures r)"
  by (auto simp: update_verdict_def on_case_def failures_def set_repeat_def add_failure_def
      split: option.splits if_splits)

lemma fine_faulty_step [fine_rules]: "fine r (rtc_add_faulty_step m r)"
  unfolding rtc_add_faulty_step_def
  by (intro fine_rules) (simp add: with_summary_def split: option.split)

lemma mark_failures:
  "failure_messages (data (ts[i := (ts ! i)\<lparr>report_not_valid := b\<rparr>] ! j)) = failure_messages (data (ts ! j))"
  by (cases "i < length ts"; cases "i = j") (auto simp: list_update_beyond)

lemma fine_suite_failed [fine_rules]: "fine r (set_suite_failed r)"
  by (auto simp: fine_def grows_def failures_def set_suite_failed_def set_execution_status_def mark_failures
      Let_def split: option.splits)

lemma fine_save [fine_rules]: "fine r (save_to ok name text r)"
  unfolding save_to_def by (intro fine_rules)

lemma fine_stop [fine_rules]: "fine r (case x of None \<Rightarrow> (Inr (), r) | Some e \<Rightarrow> (Inl e, r))"
  by (simp add: fine_rules split: option.split)

lemma fine_step_failed [fine_rules]: "fine r (step_failed ph c cmd why r)"
  unfolding step_failed_def by (intro fine_rules)

lemma step_failed_fails:
  assumes "step_failed ph c cmd why r = (Inr (), r')" and "affects_verdict c"
  shows "failures r < failures r'"
proof -
  define rest where "rest = (\<lambda>_ :: unit. \<lambda>r. andthen (if step_report_not_valid c then set_suite_failed r else (Inr (), r)) (\<lambda>_ r.
     andthen (rtc_add_faulty_step
                (ljust 15 ph @ cmd @ [CHR 0x0A, CHR 0x09, CHR 0x09, CHR 0x09] @ ''   '' @ why @ [CHR 0x0A]) r) (\<lambda>_ r.
       case stop_reason c (''configured in '' @ step_id c @ '' at '' @ ph @ '' phase'') of
         None \<Rightarrow> (Inr (), r)
       | Some x \<Rightarrow> (Inl x, r))))"
  have "step_failed ph c cmd why r = andthen (update_verdict False (ph @ '' '' @ cmd @ '': '' @ why) (step_repeat c) r) rest"
    using assms(2) by (simp add: step_failed_def rest_def)
  with assms(1) obtain r2 where r2: "update_verdict False (ph @ '' '' @ cmd @ '': '' @ why) (step_repeat c) r = (Inr (), r2)"
    "rest () r2 = (Inr (), r')" by (auto simp: andthen_Inr)
  have "fine r2 (rest () r2)" unfolding rest_def by (intro fine_rules)
  with r2(2) verdict_fails [OF r2(1)] show ?thesis by (simp add: fine_def grows_def)
qed

lemma fine_background [fine_rules]: "fine r (run_background sh cmd r)"
  unfolding run_background_def
  by (rule fine_andthen [OF fine_execute]) (auto split: option.split intro: fine_rules)

lemma fine_foreground [fine_rules]: "fine r (run_foreground sh e ph c cmd r)"
  unfolding run_foreground_def Let_def by (intro fine_rules)

lemma fine_step_run [fine_rules]: "fine r (step_run sh e ph c r)"
proof (cases "translator_type e c = Function_call")
  case True
  then show ?thesis by (auto simp: step_run_def fine_rules split: sum.split)
next
  case False
  show ?thesis
  proof (cases "step_command e c r")
    case (Inr cmd)
    have "fine r (andthen (if step_background c then run_background sh cmd r else run_foreground sh e ph c cmd r)
        (\<lambda>a r. if res_code a \<notin> {None, Some 0} then
                 andthen (step_failed ph c cmd (res_error a) r) (\<lambda>_ r. (Inr (Inr a), r))
               else (Inr (Inr a), r)))"
      by (intro fine_rules)
    with False Inr show ?thesis by (simp add: step_run_def)
  qed (use False in \<open>simp add: step_run_def fine_rules\<close>)
qed

text \<open>The text of the command as it is executed.\<close>

definition full_command :: "step_env \<Rightarrow> step_config \<Rightarrow> string \<Rightarrow> string" where
  "full_command e c cmd = (if translator_type e c = Framework then ''run_command_node '' else []) @ cmd"

lemma foreground_result:
  assumes "run_foreground sh e ph c cmd r = (Inr a, r')"
  shows "res_code a = Some (return_code (sh (executed_cmds r) (full_command e c cmd))) \<and>
    executed_cmds r' = executed_cmds r @ [full_command e c cmd]"
proof -
  have save: "executed_cmds t = executed_cmds s" if "save_to ok name body s = (Inr (), t)" for ok name body s t
    using that by (auto simp: save_to_def split: if_splits)
  let ?a = "sh (executed_cmds r) (full_command e c cmd)"
  define last where "last = (\<lambda>r. let late = timeout_error c (err_text ?a)
       in if return_code ?a \<noteq> 0 \<or> env_verbose e then
            andthen (save_to (log_saved ?a)
                (path_join (path_join (out_path e) ''../command_log'') (ph @ ''_'' @ step_id c @ ''.log''))
                (err_text ?a) r)
              (\<lambda>_ r. (Inr \<lparr>res_code = Some (return_code ?a),
                 res_error = (if late = [] then get_error_info (err_text ?a) else late), res_out = out_text ?a\<rparr>, r))
          else (Inr \<lparr>res_code = Some (return_code ?a), res_error = late, res_out = out_text ?a\<rparr>, r))"
  have last: "res_code a = Some (return_code ?a) \<and> executed_cmds t = executed_cmds s" if "last s = (Inr a, t)" for s t
    using that by (auto simp: last_def andthen_Inr Let_def dest!: save split: if_splits)
  obtain r1 where r1: "execute sh (full_command e c cmd) r = (Inr ?a, r1)"
    using assms by (auto simp: run_foreground_def andthen_Inr full_command_def execute_def Let_def split: if_splits)
  then have h: "executed_cmds r1 = executed_cmds r @ [full_command e c cmd]"
    by (auto simp: execute_def Let_def obey_fields)
  have "run_foreground sh e ph c cmd r = andthen (if length (out_text ?a) > 1
              then save_to (data_saved ?a) (path_join (out_path e) (step_id c @ ''.data'')) (out_text ?a) r1
              else (Inr (), r1)) (\<lambda>_. last)"
    using r1 by (simp add: run_foreground_def full_command_def [symmetric] last_def)
  with assms obtain r2 where
    r2: "(if length (out_text ?a) > 1 then save_to (data_saved ?a) (path_join (out_path e) (step_id c @ ''.data'')) (out_text ?a) r1
      else (Inr (), r1)) = (Inr (), r2)" and "last r2 = (Inr a, r')"
    by (auto simp: andthen_Inr)
  then have "executed_cmds r2 = executed_cmds r1" using save by (auto split: if_splits)
  with last [OF \<open>last r2 = (Inr a, r')\<close>] h show ?thesis by simp
qed

text \<open>A step whose failure counts for the verdict and that added none has returned 0.\<close>

definition counted :: "step_env \<Rightarrow> step_config \<Rightarrow> bool" where
  "counted e c \<longleftrightarrow> affects_verdict c \<and> \<not> step_background c \<and> translator_type e c \<noteq> Function_call"

lemma counted_step:
  assumes "phase_body sh e ph c r = (Inr (), r')" and "counted e c" and "step_command e c r = Inr cmd"
    and "failures r' = failures r"
  shows "return_code (sh (executed_cmds r) (full_command e c cmd)) = 0 \<and>
    (\<exists>rest. executed_cmds r' = executed_cmds r @ full_command e c cmd # rest)"
proof -
  obtain a r1 where a: "run_foreground sh e ph c cmd r = (Inr a, r1)"
    and rest: "(if res_code a \<notin> {None, Some 0} then
                 andthen (step_failed ph c cmd (res_error a) r1) (\<lambda>_ r. (Inr (Inr a :: string + step_result), r))
               else (Inr (Inr a), r1)) = (Inr (Inr a), r')"
    using assms(1-3) by (auto simp: phase_body_def step_run_def counted_def andthen_Inr split: if_splits)
  note res = foreground_result [OF a]
  have "res_code a \<in> {None, Some 0}"
  proof (rule ccontr)
    assume bad: "res_code a \<notin> {None, Some 0}"
    with rest have "step_failed ph c cmd (res_error a) r1 = (Inr (), r')" by (auto simp: andthen_Inr)
    from step_failed_fails [OF this] assms(2) have "failures r1 < failures r'" by (simp add: counted_def)
    moreover have "failures r \<le> failures r1"
      using fine_foreground [of r sh e ph c cmd] a by (simp add: fine_def grows_def)
    ultimately show False using assms(4) by simp
  qed
  with res rest show ?thesis by (auto split: if_splits)
qed

lemma fine_phase_body: "fine r (phase_body sh e ph c r)"
  unfolding phase_body_def by (intro fine_rules)

lemma fine_run_steps:
  assumes "\<And>c r. fine r (body c r)"
  shows "fine r (run_steps body cs r)"
proof (induction cs arbitrary: r)
  case (Cons c cs)
  show ?case unfolding run_steps.simps by (intro fine_rules assms Cons.IH)
qed (simp add: fine_rules)

lemma step_enabled_macros: "macros r' = macros r \<Longrightarrow> step_enabled c r' = step_enabled c r"
  by (simp add: step_enabled_def split: option.split flag.split)

lemma step_command_macros: "macros r' = macros r \<Longrightarrow> step_command e c r' = step_command e c r"
  by (simp add: step_command_def translate_macros_def rtc_macro_translator_def split: sum.split)

lemma counted_steps:
  assumes "run_steps (phase_body sh e ph) cs r = (Inr (), r')" and "\<not> exit_test_case r" and "failures r' = failures r"
    and "c \<in> set cs" and "step_enabled c r" and "counted e c" and "step_command e c r = Inr cmd"
  shows "\<exists>before rest. executed_cmds r' = executed_cmds r @ before @ full_command e c cmd # rest \<and>
    return_code (sh (executed_cmds r @ before) (full_command e c cmd)) = 0"
  using assms
proof (induction cs arbitrary: r)
  case (Cons d ds)
  show ?case
  proof (cases "step_enabled d r")
    case False
    with Cons.prems show ?thesis by (intro Cons.IH [of r]) auto
  next
    case True
    with Cons.prems(1,2) obtain s where s: "phase_body sh e ph d r = (Inr (), s)"
      "run_steps (phase_body sh e ph) ds s = (Inr (), r')" by (auto simp: andthen_Inr)
    have g1: "grows r s" "\<not> exit_test_case s"
      using fine_phase_body [of r sh e ph d] s(1) Cons.prems(2) by (simp_all add: fine_def)
    have g2: "grows s r'" using fine_run_steps [of "phase_body sh e ph" s ds] fine_phase_body s(2) by (auto simp: fine_def)
    have f: "failures s = failures r" "failures r' = failures s"
      using g1(1) g2 Cons.prems(3) by (auto simp: grows_def)
    obtain xs where xs: "executed_cmds s = executed_cmds r @ xs" using g1(1) by (auto simp: grows_def)
    have m: "macros s = macros r" using g1(1) by (simp add: grows_def)
    show ?thesis
    proof (cases "c = d")
      case True
      obtain ys where "executed_cmds r' = executed_cmds s @ ys" using g2 by (auto simp: grows_def)
      moreover obtain zs where "executed_cmds s = executed_cmds r @ full_command e c cmd # zs"
        "return_code (sh (executed_cmds r) (full_command e c cmd)) = 0"
        using counted_step [OF s(1), of cmd] True Cons.prems(6,7) f(1) by auto
      ultimately show ?thesis by (intro exI [of _ "[]"] exI [of _ "zs @ ys"]) simp
    next
      case False
      with Cons.prems(4) have "c \<in> set ds" by simp
      from Cons.IH [OF s(2) g1(2) f(2) this] Cons.prems(5-7) step_enabled_macros [OF m] step_command_macros [OF m]
      obtain before rest where "executed_cmds r' = executed_cmds s @ before @ full_command e c cmd # rest"
        "return_code (sh (executed_cmds s @ before) (full_command e c cmd)) = 0" by auto
      with xs show ?thesis by (intro exI [of _ "xs @ before"] exI [of _ rest]) simp
    qed
  qed
qed simp

text \<open>C4: a phase that returns without a new failure message has executed the command of every
  enabled step that counts for the verdict, and each of them returned 0. (Steps in the background
  and steps that are functions are excluded: the phase does not learn how they end.)\<close>

theorem no_failure_means_success:
  assumes "phase_run sh e ph p r = (Inr (), r')" and "phase_enable p = Some True" and "phase_steps p = Some cs"
    and "\<not> exit_test_case r" and "failures r' = failures r"
    and "c \<in> set cs" and "step_enabled c r" and "counted e c" and "step_command e c r = Inr cmd"
  shows "\<exists>before rest. executed_cmds r' = executed_cmds r @ before @ full_command e c cmd # rest \<and>
    return_code (sh (executed_cmds r @ before) (full_command e c cmd)) = 0"
  using assms(1-3) counted_steps [OF _ assms(4-9)] by (simp add: phase_run_def)

text \<open>A phase with one user command, in a shell that answers 0 to everything.\<close>

definition demo_shell :: shell where
  "demo_shell = (\<lambda>h cmd. \<lparr>out_text = [], err_text = [], return_code = 0, bg_failure = None,
     data_saved = True, log_saved = True, orders = []\<rparr>)"

definition demo_step :: step_config where
  "demo_step = \<lparr>step_id = ''mine'', step_enable = Some (Flag True), step_cmd = Some ''run.sh'', step_framework = False,
     step_exit_rtc_on_fail = False, step_stop_on_fail = False, step_skip_phase_on_fail = False,
     step_report_not_valid = False, step_repeat = False, step_add_to_verdict = True,
     step_add_to_summary = False, step_extra_parameters = ''-x'', step_max_time = - 1, step_background = False\<rparr>"

definition demo_step_env :: step_env where
  "demo_step_env = \<lparr>table = [], env_verbose = False, out_path = ''/t/PRE''\<rparr>"

theorem no_failure_means_success_witness:
  "\<exists>before rest. executed_cmds (snd (phase_run demo_shell demo_step_env ''PRE''
       \<lparr>phase_enable = Some True, phase_steps = Some [demo_step]\<rparr> demo_run)) = before @ ''run.sh -x'' # rest \<and>
     return_code (demo_shell before ''run.sh -x'') = 0"
proof -
  let ?p = "\<lparr>phase_enable = Some True, phase_steps = Some [demo_step]\<rparr>"
  let ?r = "snd (phase_run demo_shell demo_step_env ''PRE'' ?p demo_run)"
  have step: "phase_body demo_shell demo_step_env ''PRE'' demo_step demo_run
      = (Inr (), demo_run\<lparr>executed_cmds := [''run.sh -x'']\<rparr>)"
    by (simp add: phase_body_def step_run_def translator_type_def demo_step_env_def step_command_def translator_cmd_def
        translate_macros_def demo_step_def run_foreground_def execute_def demo_shell_def demo_run_def
        timeout_error_def)
  have run: "phase_run demo_shell demo_step_env ''PRE'' ?p demo_run = (Inr (), ?r)" and fail: "failures ?r = failures demo_run"
    using step by (simp_all add: phase_run_def step_enabled_def demo_step_def demo_run_def failures_def)
  have rest: "phase_enable ?p = Some True" "phase_steps ?p = Some [demo_step]" "\<not> exit_test_case demo_run"
    "demo_step \<in> set [demo_step]" "step_enabled demo_step demo_run" "counted demo_step_env demo_step"
    "step_command demo_step_env demo_step demo_run = Inr ''run.sh -x''"
    by (simp_all add: demo_run_def step_enabled_def demo_step_def counted_def affects_verdict_def
        translator_type_def demo_step_env_def step_command_def translator_cmd_def translate_macros_def)
  have "full_command demo_step_env demo_step ''run.sh -x'' = ''run.sh -x''" "executed_cmds demo_run = []"
    by (simp_all add: full_command_def translator_type_def demo_step_env_def demo_step_def demo_run_def)
  with no_failure_means_success [OF run rest(1-3) fail rest(4-7)] show ?thesis by simp
qed

text \<open>A suite with one case that may be repeated once.\<close>

definition demo_config :: user_config where
  "demo_config = \<lparr>u_host = [], u_user = [], u_port = [], u_controller = [], u_scxb = [], u_extdb = [],
     u_extdb_type = [], u_hss_backup = [], u_extdb_backup = [], u_node_type = ''CBA'', u_verbose = False,
     u_phases = [''PRE'', ''CHECK''], u_output_prefix = ''/out'', u_case_path = None, u_dbus = False\<rparr>"

definition demo_tool :: tool_env where
  "demo_tool = \<lparr>the_disk = demo_disk, the_shell = demo_shell, user = demo_config,
     evaluate = (\<lambda>_ r. (Inr (True, []), r)), execution = (\<lambda>_ r. (Inr (), r)), refused = (\<lambda>_. None),
     time_at = (\<lambda>h. (of_nat (length h), ''now'')), lines_of = (\<lambda>_. None), expandvars = (\<lambda>s. s),
     default_macros = [], while_paused = (\<lambda>_. []), gives_up = (\<lambda>_. False)\<rparr>"

theorem run_terminates_witness:
  "\<exists>t v r'. new_test_case demo_disk ''t.json'' None True = Inr t \<and>
     run_loop demo_tool 3 (demo_run\<lparr>tests := (new_suite ''s'' ''/'')\<lparr>cases := [t]\<rparr>\<rparr>) = Some (v, r')"
proof -
  obtain t where t: "new_test_case demo_disk ''t.json'' None True = Inr t" and l: "sane (loaded t)" "retries_of (loaded t) = 1"
    by (simp add: new_test_case_def demo_disk_def Let_def case_with_def sane_def retries_of_def)
  let ?r = "demo_run\<lparr>tests := (new_suite ''s'' ''/'')\<lparr>cases := [t]\<rparr>\<rparr>"
  have e: "steady_env demo_tool" "\<not> u_dbus (user demo_tool)"
    by (simp_all add: steady_env_def demo_tool_def demo_config_def)
  have r: "ready ?r (- 1)" using l(1) by (simp add: ready_def new_suite_def demo_run_def)
  have "budget (- 1) (cases (tests ?r)) < 3" using l(2) by (simp add: budget_def)
  from run_terminates [OF e r this] t show ?thesis by blast
qed

end
