(* ===== verification/Monitors.thy ===== *)
theory Monitors
  imports Capacity
begin

text \<open>
  \<open>HSS_rtc/HSS_rtc_lib/components/monitor.py\<close> and the error register of
  \<open>bat_instance.py\<close>: the thread that judges the load of the system under test, and the monitor
  that compares the error rate of a scenario with its limit. Both fill a data base of registers
  whose failed entries decide the checks of the test case.

  The load monitor protects its state by a mutex. An operation that finds it taken waits; one
  that raises keeps it. The model has \<open>None\<close> for an operation that waits for ever. The clock is
  read once per operation.
\<close>

section \<open>Load monitor\<close>

subsection \<open>State\<close>

text \<open>
  A slot is a dictionary with configured keys and two that the monitor adds; the empty slot has
  none of them.
\<close>

record load_slot =
  sl_target :: "int option"
  sl_variance :: "int option"
  sl_time :: "rat option"
  sl_sampling :: "rat option"
  sl_transition :: "int option"
  sl_pending :: "rat option"
  sl_last_check :: "rat option"

definition no_slot :: load_slot where
  "no_slot = \<lparr>sl_target = None, sl_variance = None, sl_time = None, sl_sampling = None,
     sl_transition = None, sl_pending = None, sl_last_check = None\<rparr>"

datatype load_state = New_Slot | Stable | Not_Stable

datatype reason = No_reason | Out_of_range int int int | High_variance rat int

record load_reg =
  reg_state :: load_state
  reg_check :: bool
  reg_reason :: reason
  reg_time :: rat

record load_monitor =
  lm_running :: bool
  lm_ready :: bool
  target_load_reached :: bool
  last_not_stable_time :: rat
  current_load :: int
  reading_error :: nat
  enable_monitoring :: bool
  lm_slot :: load_slot
  lm_slots :: "load_slot list"
  load_db :: "load_reg list"
  mutex :: bool
  lm_samples :: "int list option"
  allow_usage :: bool
  lm_force_exit :: bool

section \<open>Configuration\<close>

text \<open>
  \<open>slots\<close> of the configuration is a list or the name of a traffic reference, which \<open>RTC_Data\<close>
  translates (\<open>None\<close> or an empty list when it has none).
\<close>

record load_config =
  load_enable :: "bool option"
  load_cfg_slots :: "(string + load_slot list) option"

definition lm_new :: load_monitor where
  "lm_new = \<lparr>lm_running = False, lm_ready = False, target_load_reached = False,
     last_not_stable_time = 0, current_load = 0, reading_error = 0, enable_monitoring = True,
     lm_slot = no_slot, lm_slots = [], load_db = [], mutex = False, lm_samples = None,
     allow_usage = False, lm_force_exit = False\<rparr>"

definition lm_init :: "bool \<Rightarrow> (string \<Rightarrow> load_slot list option) \<Rightarrow> load_config option \<Rightarrow> load_monitor res" where
  "lm_init with_traffic reference config =
     (if \<not> with_traffic then
        Inl (ExecutionConfigurationError ''LOAD_MONITOR not allowed in a scenario without traffic'')
      else case config of
        None \<Rightarrow> Inr lm_new
      | Some c \<Rightarrow>
          (case (load_enable c, load_cfg_slots c) of
             (Some True, Some (Inl name)) \<Rightarrow>
               (case reference name of
                  None \<Rightarrow> Inl (ExecutionConfigurationError (''Monitor load slots for '' @ name @ '' not found''))
                | Some [] \<Rightarrow> Inl (ExecutionConfigurationError (''Monitor load slots for '' @ name @ '' not found''))
                | Some sls \<Rightarrow> Inr (lm_new\<lparr>lm_slots := sls, allow_usage := True\<rparr>))
           | (Some True, Some (Inr sls)) \<Rightarrow> Inr (lm_new\<lparr>lm_slots := sls, allow_usage := True\<rparr>)
           | _ \<Rightarrow> Inr lm_new))"

section \<open>Properties of the current slot\<close>

definition key :: "string \<Rightarrow> 'a option \<Rightarrow> 'a res" where
  "key k x = (case x of None \<Rightarrow> Inl (KeyError k) | Some v \<Rightarrow> Inr v)"

definition lm_target_load :: "load_monitor \<Rightarrow> int res" where
  "lm_target_load s = (if lm_slot s \<noteq> no_slot then key ''target_load'' (sl_target (lm_slot s)) else Inr 0)"

definition lm_variance :: "load_monitor \<Rightarrow> int res" where
  "lm_variance s = key ''variance'' (sl_variance (lm_slot s))"

definition lm_transition :: "load_monitor \<Rightarrow> rat" where
  "lm_transition s = of_int (case sl_transition (lm_slot s) of Some n \<Rightarrow> n | None \<Rightarrow> 10)"

definition sampling_time :: "load_monitor \<Rightarrow> rat" where
  "sampling_time s = (case sl_sampling (lm_slot s) of Some n \<Rightarrow> n | None \<Rightarrow> 3)"

definition tolerance :: int where
  "tolerance = 5"

definition load_in_range :: "load_monitor \<Rightarrow> bool res" where
  "load_in_range s =
     (case lm_target_load s of
        Inl e \<Rightarrow> Inl e
      | Inr t \<Rightarrow> Inr (t - tolerance \<le> current_load s \<and> current_load s \<le> t + tolerance))"

definition np_var :: "int list \<Rightarrow> rat" where
  "np_var xs = variance (map of_int xs)"

definition lm_load_stable :: "load_monitor \<Rightarrow> bool res" where
  "lm_load_stable s =
     (case (lm_samples s, lm_variance s) of
        (None, _) \<Rightarrow> Inl (TypeError ''unsupported operand'')
      | (_, Inl e) \<Rightarrow> Inl e
      | (Some xs, Inr v) \<Rightarrow> Inr (np_var xs \<le> of_int v))"

text \<open>Both operands are integers of Python 2: the division rounds down.\<close>

definition lm_load_media :: "int list \<Rightarrow> int" where
  "lm_load_media xs = sum_list xs div int (length xs)"

definition load_status :: "load_monitor \<Rightarrow> load_state option res" where
  "load_status s =
     (if \<not> lm_ready s then
        Inl (ExecutionRunError ''LOAD_MONITOR Not ready. One loadplotter must be UP&RUNNING'')
      else Inr (if load_db s = [] then None else Some (reg_state (last (load_db s)))))"

section \<open>Operations\<close>

definition lm_enable :: "load_monitor \<Rightarrow> load_monitor" where
  "lm_enable s = s\<lparr>enable_monitoring := True\<rparr>"

definition lm_disable :: "load_monitor \<Rightarrow> load_monitor" where
  "lm_disable s = s\<lparr>enable_monitoring := False\<rparr>"

text \<open>\<open>configure\<close>: the answer of the load plotter to \<open>getstatus\<close>, if there is a load plotter.\<close>

definition lm_configure :: "string option \<Rightarrow> load_monitor \<Rightarrow> load_monitor" where
  "lm_configure answer s = (if answer = Some ''READY'' then s\<lparr>lm_ready := True\<rparr> else s)"

definition add_reg :: "rat \<Rightarrow> load_state \<Rightarrow> reason \<Rightarrow> load_monitor \<Rightarrow> load_monitor" where
  "add_reg now st why s =
     s\<lparr>load_db := load_db s @
        [\<lparr>reg_state = st, reg_check = enable_monitoring s, reg_reason = why, reg_time = now\<rparr>]\<rparr>"

definition discard_last :: "load_reg list \<Rightarrow> load_reg list" where
  "discard_last db = butlast db @ [(last db)\<lparr>reg_check := False\<rparr>]"

definition lm_shutdown :: "rat \<Rightarrow> load_monitor \<Rightarrow> unit res \<times> load_monitor" where
  "lm_shutdown now s =
     andthen (if lm_running s \<and> now - last_not_stable_time s < lm_transition s then
                if load_db s = [] then (Inl (IndexError ''list index out of range''), s)
                else done_with (s\<lparr>load_db := discard_last (load_db s)\<rparr>)
              else done_with s)
       (\<lambda>_ s. done_with (s\<lparr>enable_monitoring := False, lm_running := False\<rparr>))"

definition set_new_slot :: "rat \<Rightarrow> load_monitor \<Rightarrow> unit res \<times> load_monitor" where
  "set_new_slot now s =
     (case lm_slots s of
        [] \<Rightarrow> lm_shutdown now s
      | x # xs \<Rightarrow>
          let s1 = s\<lparr>lm_slots := xs, lm_slot := x\<rparr>
          in case lm_target_load s1 of
               Inl e \<Rightarrow> (Inl e, s1)
             | Inr t \<Rightarrow>
                 let s2 = s1\<lparr>lm_samples := Some (replicate 15 t), target_load_reached := False\<rparr>
                 in case sl_time x of
                      None \<Rightarrow> (Inl (KeyError ''time''), s2)
                    | Some d \<Rightarrow>
                        done_with (add_reg now New_Slot No_reason
                          (s2\<lparr>lm_slot := x\<lparr>sl_pending := Some d, sl_last_check := Some now\<rparr>\<rparr>)))"

definition age_slot :: "rat \<Rightarrow> rat \<Rightarrow> load_monitor \<Rightarrow> unit res \<times> load_monitor" where
  "age_slot now before s =
     (case sl_pending (lm_slot s) of
        None \<Rightarrow> (Inl (KeyError ''pending_time''), s)
      | Some p \<Rightarrow>
          let p' = p - (now - before);
              s1 = s\<lparr>lm_slot := (lm_slot s)\<lparr>sl_pending := Some p'\<rparr>\<rparr>;
              s2 = (if p' < lm_transition s1 then s1\<lparr>target_load_reached := False\<rparr> else s1)
          in if p' < 0 then set_new_slot now s2 else done_with s2)"

definition slot_body :: "rat \<Rightarrow> load_monitor \<Rightarrow> unit res \<times> load_monitor" where
  "slot_body now s =
     andthen
       (if lm_slot s = no_slot then set_new_slot now s
        else case sl_time (lm_slot s) of
          None \<Rightarrow> (Inl (KeyError ''time''), s)
        | Some t \<Rightarrow>
            if t = - 1 then done_with (s\<lparr>lm_slot := (lm_slot s)\<lparr>sl_time := Some (- 2)\<rparr>\<rparr>)
            else if t = - 2 then done_with s
            else (case sl_last_check (lm_slot s) of
                    None \<Rightarrow> (Inl (KeyError ''last_check''), s)
                  | Some l \<Rightarrow> if l = 0 then done_with s else age_slot now l s))
       (\<lambda>_ s. done_with (s\<lparr>lm_slot := (lm_slot s)\<lparr>sl_last_check := Some now\<rparr>\<rparr>))"

text \<open>\<open>deque(..., 15).append\<close>\<close>

definition push_sample :: "int \<Rightarrow> int list \<Rightarrow> int list" where
  "push_sample x xs = drop (length xs - 14) xs @ [x]"

definition judge :: "rat \<Rightarrow> load_monitor \<Rightarrow> unit res \<times> load_monitor" where
  "judge now s =
     andthen (case load_in_range s of Inl e \<Rightarrow> (Inl e, s) | Inr b \<Rightarrow> (Inr b, s)) (\<lambda>in_range s.
     andthen (if in_range then (lm_load_stable s, s) else (Inr False, s)) (\<lambda>good s.
     andthen (load_status s, s) (\<lambda>st s.
       if good then
         if st \<noteq> Some Stable then done_with (add_reg now Stable No_reason s) else done_with s
       else if st \<noteq> Some Not_Stable then
         let s1 = s\<lparr>last_not_stable_time := now\<rparr>
         in case (lm_load_stable s1, lm_target_load s1, lm_variance s1) of
              (Inr True, Inr t, _) \<Rightarrow>
                done_with (add_reg now Not_Stable
                  (Out_of_range (current_load s1) (t - tolerance) (t + tolerance)) s1)
            | (Inr False, _, Inr v) \<Rightarrow>
                done_with (add_reg now Not_Stable
                  (High_variance (np_var (the (lm_samples s1))) v) s1)
            | (Inl e, _, _) \<Rightarrow> (Inl e, s1)
            | (_, Inl e, _) \<Rightarrow> (Inl e, s1)
            | (_, _, Inl e) \<Rightarrow> (Inl e, s1)
       else done_with s)))"

definition stability_body :: "rat \<Rightarrow> load_monitor \<Rightarrow> unit res \<times> load_monitor" where
  "stability_body now s =
     (if target_load_reached s then
        (case lm_samples s of
           None \<Rightarrow> (Inl (AttributeError ''append''), s)
         | Some xs \<Rightarrow>
             let ys = push_sample (current_load s) xs
             in judge now (s\<lparr>lm_samples := Some ys, current_load := lm_load_media ys\<rparr>))
      else andthen (load_in_range s, s) (\<lambda>in_range s.
        done_with (if in_range then s\<lparr>target_load_reached := True\<rparr> else s)))"

text \<open>\<open>acquire\<close> and \<open>release\<close> around a body: the release is not reached when the body raises.\<close>

definition with_mutex ::
  "(load_monitor \<Rightarrow> unit res \<times> load_monitor) \<Rightarrow> load_monitor \<Rightarrow> (unit res \<times> load_monitor) option" where
  "with_mutex f s =
     (if mutex s then None
      else Some (andthen (f (s\<lparr>mutex := True\<rparr>)) (\<lambda>_ s. done_with (s\<lparr>mutex := False\<rparr>))))"

definition update_slot :: "rat \<Rightarrow> load_monitor \<Rightarrow> (unit res \<times> load_monitor) option" where
  "update_slot now = with_mutex (slot_body now)"

definition lm_check_load_stability :: "rat \<Rightarrow> load_monitor \<Rightarrow> (unit res \<times> load_monitor) option" where
  "lm_check_load_stability now = with_mutex (stability_body now)"

definition lm_reconfigure :: "load_slot list \<Rightarrow> load_monitor \<Rightarrow> (unit res \<times> load_monitor) option" where
  "lm_reconfigure sls = with_mutex (\<lambda>s. done_with (s\<lparr>lm_slots := sls, lm_slot := no_slot\<rparr>))"

definition lm_failed_registers :: "load_monitor \<Rightarrow> load_reg list" where
  "lm_failed_registers s = filter (\<lambda>r. reg_state r = Not_Stable \<and> reg_check r) (load_db s)"

section \<open>The thread\<close>

text \<open>What the load plotter answers to \<open>getload 0\<close>: nothing in time, a number or another text.\<close>

datatype load_answer = No_answer | Load int | Unreadable string

text \<open>How far a thread has come: it goes on, has ended, has died of an exception, or waits for a
  mutex for ever.\<close>

datatype thread = Goes_on | Ended | Died py_exc | Waits

definition reading_failed :: "rat \<Rightarrow> load_monitor \<Rightarrow> thread \<times> load_monitor" where
  "reading_failed now s =
     (let s1 = s\<lparr>reading_error := Suc (reading_error s)\<rparr>
      in if reading_error s1 > 3 then
           (case lm_shutdown now s1 of (Inl e, s2) \<Rightarrow> (Died e, s2) | (Inr _, s2) \<Rightarrow> (Goes_on, s2))
         else (Goes_on, s1))"

definition reading :: "rat \<Rightarrow> load_answer \<Rightarrow> load_monitor \<Rightarrow> thread \<times> load_monitor" where
  "reading now a s =
     (case a of
        No_answer \<Rightarrow> reading_failed now s
      | Unreadable t \<Rightarrow> reading_failed now s
      | Load v \<Rightarrow>
          (case update_slot now (s\<lparr>current_load := v\<rparr>) of
             None \<Rightarrow> (Waits, s\<lparr>current_load := v\<rparr>)
           | Some (Inl e, s1) \<Rightarrow> reading_failed now s1
           | Some (Inr _, s1) \<Rightarrow>
               (case lm_check_load_stability now s1 of
                  None \<Rightarrow> (Waits, s1)
                | Some (Inl e, s2) \<Rightarrow> reading_failed now s2
                | Some (Inr _, s2) \<Rightarrow> (Goes_on, s2))))"

fun lm_loop :: "(rat \<times> load_answer) list \<Rightarrow> load_monitor \<Rightarrow> thread \<times> load_monitor" where
  "lm_loop as s =
     (if \<not> lm_running s \<or> lm_force_exit s then (Ended, s)
      else case as of
        [] \<Rightarrow> (Goes_on, s)
      | (now, a) # rest \<Rightarrow>
          (case reading now a s of (Goes_on, s1) \<Rightarrow> lm_loop rest s1 | r \<Rightarrow> r))"

declare lm_loop.simps [simp del]

definition lm_run :: "rat \<Rightarrow> (rat \<times> load_answer) list \<Rightarrow> load_monitor \<Rightarrow> thread \<times> load_monitor" where
  "lm_run now as s =
     (case update_slot now (s\<lparr>lm_running := True\<rparr>) of
        None \<Rightarrow> (Waits, s\<lparr>lm_running := True\<rparr>)
      | Some (Inl e, s1) \<Rightarrow> (Died e, s1)
      | Some (Inr _, s1) \<Rightarrow> lm_loop as s1)"

definition lm_start_monitoring :: "load_monitor \<Rightarrow> bool res" where
  "lm_start_monitoring s =
     (if \<not> allow_usage s then Inr False
      else if \<not> lm_ready s then
        Inl (ExecutionRunError ''LOAD_MONITOR Not ready. One loadplotter must be UP&RUNNING'')
      else Inr True)"

end
