(* ===== verification/Monitor_Props.thy ===== *)
theory Monitor_Props
  imports Monitors
begin

text \<open>
  What the load monitor records: in a slot without end, its data base holds the judgement of
  the window of the last fifteen samples after the target was reached. What a raise under the
  mutex does, and which register a shutdown discards.
\<close>

section \<open>One reading\<close>

definition watching :: "int \<Rightarrow> int \<Rightarrow> load_monitor \<Rightarrow> bool" where
  "watching t v s \<longleftrightarrow> lm_running s \<and> lm_ready s \<and> \<not> mutex s \<and> \<not> lm_force_exit s \<and>
     sl_target (lm_slot s) = Some t \<and> sl_variance (lm_slot s) = Some v \<and>
     sl_time (lm_slot s) \<in> {Some (- 1), Some (- 2)}"

lemma watching_slot: "watching t v s \<Longrightarrow> lm_slot s \<noteq> no_slot"
  by (auto simp: watching_def no_slot_def)

lemma watching_target: "watching t v s \<Longrightarrow> lm_target_load s = Inr t"
  by (simp add: lm_target_load_def watching_slot) (simp add: watching_def key_def)

definition held :: "rat \<Rightarrow> load_monitor \<Rightarrow> load_monitor" where
  "held now s = s\<lparr>lm_slot := (lm_slot s)\<lparr>sl_time := Some (- 2), sl_last_check := Some now\<rparr>\<rparr>"

lemma sl_time_same: "sl_time x = Some d \<Longrightarrow> x\<lparr>sl_time := Some d, sl_last_check := l\<rparr> = x\<lparr>sl_last_check := l\<rparr>"
  by (cases x) simp

lemma update_slot_watching:
  assumes "watching t v s"
  shows "update_slot now s = Some (Inr (), held now s)"
proof -
  have m: "\<not> mutex s" and st: "sl_time (lm_slot s) = Some (- 1) \<or> sl_time (lm_slot s) = Some (- 2)"
    using assms by (auto simp: watching_def)
  have ns: "lm_slot s \<noteq> no_slot" by (rule watching_slot [OF assms])
  from st show ?thesis
  proof
    assume "sl_time (lm_slot s) = Some (- 1)"
    with m ns show ?thesis
      by (simp add: update_slot_def with_mutex_def slot_body_def held_def done_with_def)
  next
    assume a: "sl_time (lm_slot s) = Some (- 2)"
    with m ns show ?thesis
      by (simp add: update_slot_def with_mutex_def slot_body_def held_def done_with_def sl_time_same [OF a])
  qed
qed

definition in_band :: "int \<Rightarrow> int \<Rightarrow> bool" where
  "in_band t x \<longleftrightarrow> t - 5 \<le> x \<and> x \<le> t + 5"

definition steady_load :: "int \<Rightarrow> int \<Rightarrow> int list \<Rightarrow> bool" where
  "steady_load t v xs \<longleftrightarrow> in_band t (lm_load_media xs) \<and> np_var xs \<le> of_int v"

definition verdict :: "int \<Rightarrow> int \<Rightarrow> int list \<Rightarrow> load_state" where
  "verdict t v xs = (if steady_load t v xs then Stable else Not_Stable)"

text \<open>Everything but the registers, the samples and the two flags of a slot.\<close>

definition same_watch :: "load_monitor \<Rightarrow> load_monitor \<Rightarrow> bool" where
  "same_watch s s' \<longleftrightarrow> lm_running s' = lm_running s \<and> lm_ready s' = lm_ready s \<and> mutex s' = mutex s \<and>
     lm_force_exit s' = lm_force_exit s \<and> lm_slot s' = lm_slot s \<and> lm_slots s' = lm_slots s \<and>
     enable_monitoring s' = enable_monitoring s \<and> reading_error s' = reading_error s"

lemma judge_watching:
  assumes "watching t v s" and "lm_samples s = Some xs" and "current_load s = lm_load_media xs"
    and "load_db s \<noteq> []"
  obtains s' why where "judge now (s\<lparr>mutex := m\<rparr>) = (Inr (), s'\<lparr>mutex := m\<rparr>)" and "same_watch s s'"
    and "lm_samples s' = Some xs" and "target_load_reached s' = target_load_reached s"
    and "load_db s' = load_db s @ (if reg_state (last (load_db s)) = verdict t v xs then []
      else [\<lparr>reg_state = verdict t v xs, reg_check = enable_monitoring s, reg_reason = why, reg_time = now\<rparr>])"
proof -
  let ?s = "s\<lparr>mutex := m\<rparr>"
  have tl: "lm_target_load s' = Inr t" "lm_variance s' = Inr v" if "lm_slot s' = lm_slot s" for s'
    using watching_slot [OF assms(1)] that assms(1)
    by (simp_all add: lm_target_load_def lm_variance_def watching_def key_def)
  have r: "load_in_range ?s = Inr (in_band t (lm_load_media xs))"
    using assms(3) by (simp add: load_in_range_def tl in_band_def tolerance_def)
  have st: "lm_load_stable s' = Inr (np_var xs \<le> of_int v)"
    if "lm_slot s' = lm_slot s" "lm_samples s' = Some xs" for s'
    using that by (simp add: lm_load_stable_def tl)
  have ls: "load_status ?s = Inr (Some (reg_state (last (load_db s))))"
    using assms(1,4) by (simp add: load_status_def watching_def)
  show thesis
  proof (cases "reg_state (last (load_db s)) = verdict t v xs")
    case True
    show thesis
      by (rule that [of s])
        (use True assms(2) in \<open>auto simp: judge_def r st ls verdict_def steady_load_def same_watch_def
          done_with_def split: if_splits\<close>)
  next
    case False
    show thesis
    proof (cases "steady_load t v xs")
      case True
      show thesis
        by (rule that [of "add_reg now Stable No_reason s" No_reason])
          (use True False assms(2) in \<open>auto simp: judge_def r st ls verdict_def steady_load_def same_watch_def
            done_with_def add_reg_def\<close>)
    next
      case bad: False
      let ?why = "if np_var xs \<le> of_int v
        then Out_of_range (lm_load_media xs) (t - 5) (t + 5) else High_variance (np_var xs) v"
      show thesis
        by (rule that [of "add_reg now Not_Stable ?why (s\<lparr>last_not_stable_time := now\<rparr>)" ?why])
          (use bad False assms(2,3) in \<open>auto simp: judge_def r st ls verdict_def steady_load_def same_watch_def
            done_with_def add_reg_def tl tolerance_def split: if_splits\<close>)
    qed
  qed
qed

lemma reading_watching:
  assumes "watching t v s" and "lm_samples s = Some xs" and "load_db s \<noteq> []"
  obtains s' why where "reading now (Load x) s = (Goes_on, s')" and "watching t v s'"
    and "enable_monitoring s' = enable_monitoring s"
    and "lm_samples s' = Some (if target_load_reached s then push_sample x xs else xs)"
    and "target_load_reached s' = (target_load_reached s \<or> in_band t x)"
    and "load_db s' = load_db s @
      (if \<not> target_load_reached s \<or> reg_state (last (load_db s)) = verdict t v (push_sample x xs) then []
       else [\<lparr>reg_state = verdict t v (push_sample x xs), reg_check = enable_monitoring s,
              reg_reason = why, reg_time = now\<rparr>])"
proof -
  let ?s = "held now (s\<lparr>current_load := x\<rparr>)"
  have w: "watching t v (s\<lparr>current_load := x\<rparr>)" and w': "watching t v ?s" and m: "\<not> mutex ?s"
    using assms(1) by (auto simp: watching_def held_def)
  have u: "update_slot now (s\<lparr>current_load := x\<rparr>) = Some (Inr (), ?s)" by (rule update_slot_watching [OF w])
  have same: "lm_samples ?s = Some xs" "load_db ?s = load_db s" "target_load_reached ?s = target_load_reached s"
    "enable_monitoring ?s = enable_monitoring s" "current_load ?s = x"
    using assms(2) by (simp_all add: held_def)
  show thesis
  proof (cases "target_load_reached s")
    case False
    have band: "load_in_range (?s\<lparr>mutex := True\<rparr>) = Inr (in_band t x)"
      using watching_slot [OF w'] w' same(5)
      by (simp add: load_in_range_def lm_target_load_def watching_def key_def tolerance_def in_band_def)
    define s' where "s' = (if in_band t x then ?s\<lparr>target_load_reached := True\<rparr> else ?s)"
    have "lm_check_load_stability now ?s = Some (Inr (), s')"
      using False m same band
      by (auto simp: lm_check_load_stability_def with_mutex_def stability_body_def done_with_def s'_def)
    with u have "reading now (Load x) s = (Goes_on, s')" by (simp add: reading_def)
    then show thesis
      by (rule that) (use False w' same in \<open>auto simp: s'_def watching_def\<close>)
  next
    case True
    let ?ys = "push_sample x xs"
    let ?p = "?s\<lparr>lm_samples := Some ?ys, current_load := lm_load_media ?ys\<rparr>"
    have "watching t v ?p" "lm_samples ?p = Some ?ys" "current_load ?p = lm_load_media ?ys" "load_db ?p \<noteq> []"
      using w' assms(3) same(2) by (auto simp: watching_def)
    from judge_watching [OF this, of now True] obtain s' why where j:
      "judge now (?p\<lparr>mutex := True\<rparr>) = (Inr (), s'\<lparr>mutex := True\<rparr>)" "same_watch ?p s'"
      "lm_samples s' = Some ?ys" "target_load_reached s' = target_load_reached ?p"
      "load_db s' = load_db ?p @ (if reg_state (last (load_db ?p)) = verdict t v ?ys then []
        else [\<lparr>reg_state = verdict t v ?ys, reg_check = enable_monitoring ?p, reg_reason = why, reg_time = now\<rparr>])"
      by blast
    have "mutex s' = False" using j(2) m by (simp add: same_watch_def)
    then have s': "s'\<lparr>mutex := False\<rparr> = s'" by (cases s') simp
    have jj: "judge now (?s\<lparr>mutex := True, lm_samples := Some ?ys, current_load := lm_load_media ?ys\<rparr>) =
        (Inr (), s'\<lparr>mutex := True\<rparr>)"
    proof -
      have "?p\<lparr>mutex := True\<rparr> = ?s\<lparr>mutex := True, lm_samples := Some ?ys, current_load := lm_load_media ?ys\<rparr>"
        by (rule load_monitor.equality) simp_all
      with j(1) show ?thesis by (simp only:)
    qed
    have "lm_check_load_stability now ?s = Some (Inr (), s')"
      using True m same jj s'
      by (simp add: lm_check_load_stability_def with_mutex_def stability_body_def done_with_def Let_def)
    with u have "reading now (Load x) s = (Goes_on, s')" by (simp add: reading_def)
    then show thesis
      by (rule that) (use True w' same j in \<open>auto simp: same_watch_def watching_def\<close>)
  qed
qed

section \<open>A slot without end\<close>

text \<open>The last fifteen samples, where the target stands for those before the first.\<close>

definition window :: "int \<Rightarrow> int list \<Rightarrow> int list" where
  "window t ws = drop (length ws) (replicate 15 t @ ws)"

lemma push_window: "push_sample x (window t ws) = window t (ws @ [x])"
proof -
  have "drop (Suc 0) (drop (length ws) (replicate 15 t @ ws)) = drop (Suc (length ws)) (replicate 15 t @ ws)"
    by (simp del: drop_append add: add.commute)
  then show ?thesis by (simp add: push_sample_def window_def del: drop_append) simp
qed

definition bad_at :: "int \<Rightarrow> int \<Rightarrow> int list \<Rightarrow> nat \<Rightarrow> bool" where
  "bad_at t v ws n \<longleftrightarrow> verdict t v (window t (take (Suc n) ws)) = Not_Stable"

lemma bad_at_snoc:
  "(\<exists>n < length (ws @ [x]). bad_at t v (ws @ [x]) n) \<longleftrightarrow>
     (\<exists>n < length ws. bad_at t v ws n) \<or> verdict t v (window t (ws @ [x])) = Not_Stable"
  by (auto simp: less_Suc_eq bad_at_def)

definition state_of :: "int \<Rightarrow> int \<Rightarrow> int list \<Rightarrow> load_state" where
  "state_of t v ws = (if ws = [] then New_Slot else verdict t v (window t ws))"

definition watched :: "int \<Rightarrow> int \<Rightarrow> load_reg list \<Rightarrow> int list \<Rightarrow> load_monitor \<Rightarrow> bool" where
  "watched t v db ws s \<longleftrightarrow> watching t v s \<and> enable_monitoring s \<and> lm_samples s = Some (window t ws) \<and>
     (\<exists>regs. load_db s = db @ regs \<and> regs \<noteq> [] \<and> reg_state (last regs) = state_of t v ws \<and>
        (\<forall>r \<in> set regs. reg_check r) \<and>
        ((\<exists>r \<in> set regs. reg_state r = Not_Stable) \<longleftrightarrow> (\<exists>n < length ws. bad_at t v ws n)))"

lemma watched_reading:
  assumes "watched t v db ws s" and "target_load_reached s"
  obtains s' where "reading now (Load x) s = (Goes_on, s')" and "watched t v db (ws @ [x]) s'"
    and "target_load_reached s'"
proof -
  from assms(1) obtain regs where w: "watching t v s" "enable_monitoring s"
    "lm_samples s = Some (window t ws)" "load_db s = db @ regs" "regs \<noteq> []"
    "reg_state (last regs) = state_of t v ws" "\<forall>r \<in> set regs. reg_check r"
    "(\<exists>r \<in> set regs. reg_state r = Not_Stable) \<longleftrightarrow> (\<exists>n < length ws. bad_at t v ws n)"
    by (auto simp: watched_def)
  let ?v = "verdict t v (window t (ws @ [x]))"
  from w(4,5) have ne: "load_db s \<noteq> []" "reg_state (last (load_db s)) = state_of t v ws" using w(6) by auto
  obtain s' why where r0: "reading now (Load x) s = (Goes_on, s')" "watching t v s'"
    "enable_monitoring s' = enable_monitoring s"
    "lm_samples s' = Some (if target_load_reached s then window t (ws @ [x]) else window t ws)"
    "target_load_reached s' = (target_load_reached s \<or> in_band t x)"
    "load_db s' = load_db s @ (if \<not> target_load_reached s \<or> reg_state (last (load_db s)) = ?v then []
      else [\<lparr>reg_state = ?v, reg_check = enable_monitoring s, reg_reason = why, reg_time = now\<rparr>])"
    by (rule reading_watching [OF w(1,3) ne(1), of now x, unfolded push_window])
  have r: "reading now (Load x) s = (Goes_on, s')" "watching t v s'" "enable_monitoring s'"
    "lm_samples s' = Some (window t (ws @ [x]))" "target_load_reached s'"
    "load_db s' = load_db s @ (if state_of t v ws = ?v then []
      else [\<lparr>reg_state = ?v, reg_check = True, reg_reason = why, reg_time = now\<rparr>])"
    using r0 assms(2) w(2) ne(2) by (simp_all del: append_same_eq)
  define new where "new = (if state_of t v ws = ?v then []
      else [\<lparr>reg_state = ?v, reg_check = True, reg_reason = why, reg_time = now\<rparr>])"
  have v: "?v = state_of t v (ws @ [x])" by (simp add: state_of_def)
  have last: "reg_state (last (regs @ new)) = state_of t v (ws @ [x])"
    using w(5,6) by (auto simp: new_def simp flip: v)
  have bad: "(\<exists>r \<in> set (regs @ new). reg_state r = Not_Stable) \<longleftrightarrow>
      (\<exists>n < length ws. bad_at t v ws n) \<or> ?v = Not_Stable"
  proof (cases "state_of t v ws = ?v")
    case True
    with w(5,6) have "?v = Not_Stable \<Longrightarrow> \<exists>r \<in> set regs. reg_state r = Not_Stable"
      by (metis last_in_set)
    with True w(8) show ?thesis by (auto simp: new_def)
  qed (use w(8) in \<open>auto simp: new_def\<close>)
  have "watched t v db (ws @ [x]) s'"
    unfolding watched_def
  proof (intro conjI exI [of _ "regs @ new"])
    show "load_db s' = db @ regs @ new" using r(6) w(4) by (simp add: new_def)
    show "(\<exists>r \<in> set (regs @ new). reg_state r = Not_Stable) \<longleftrightarrow>
        (\<exists>n < length (ws @ [x]). bad_at t v (ws @ [x]) n)"
      unfolding bad_at_snoc by (rule bad)
  qed (use r w(2,5,7) last in \<open>auto simp: new_def\<close>)
  from that [OF r(1) this r(5)] show thesis .
qed

abbreviation loads :: "(rat \<times> int) list \<Rightarrow> (rat \<times> load_answer) list" where
  "loads rs \<equiv> map (\<lambda>(now, x). (now, Load x)) rs"

lemma loop_running: "watching t v s \<Longrightarrow> lm_loop [] s = (Goes_on, s)"
  "watching t v s \<Longrightarrow> lm_loop ((now, a) # as) s =
     (case reading now a s of (Goes_on, s1) \<Rightarrow> lm_loop as s1 | r \<Rightarrow> r)"
  by (auto simp: watching_def lm_loop.simps)

lemma watched_loop:
  "watched t v db ws s \<Longrightarrow> target_load_reached s \<Longrightarrow>
     \<exists>s'. lm_loop (loads rs) s = (Goes_on, s') \<and> watched t v db (ws @ map snd rs) s'"
proof (induction rs arbitrary: ws s)
  case Nil
  then show ?case using loop_running by (auto simp: watched_def)
next
  case (Cons r rs)
  obtain now x where r: "r = (now, x)" by (cases r)
  from watched_reading [OF Cons.prems] obtain s' where s': "reading now (Load x) s = (Goes_on, s')"
    "watched t v db (ws @ [x]) s'" "target_load_reached s'" .
  from Cons.IH [OF s'(2,3)] s'(1) Cons.prems(1) r show ?case
    by (auto simp: loop_running watched_def)
qed

text \<open>Before the target is reached nothing is judged, and the sample that reaches it is not either.\<close>

definition after_target :: "int \<Rightarrow> int list \<Rightarrow> int list" where
  "after_target t xs = tl (dropWhile (\<lambda>x. \<not> in_band t x) xs)"

lemma unreached_loop:
  "watched t v db [] s \<Longrightarrow> \<not> target_load_reached s \<Longrightarrow>
     \<exists>s'. lm_loop (loads rs) s = (Goes_on, s') \<and> watched t v db (after_target t (map snd rs)) s'"
proof (induction rs arbitrary: s)
  case Nil
  then show ?case using loop_running by (auto simp: watched_def after_target_def)
next
  case (Cons r rs)
  obtain now x where r: "r = (now, x)" by (cases r)
  have w: "watching t v s" "lm_samples s = Some (window t [])" "load_db s \<noteq> []"
    using Cons.prems(1) by (auto simp: watched_def)
  from reading_watching [OF w, of now x] obtain s' where s': "reading now (Load x) s = (Goes_on, s')"
    "watching t v s'" "enable_monitoring s' = enable_monitoring s" "lm_samples s' = lm_samples s"
    "target_load_reached s' = in_band t x" "load_db s' = load_db s"
    using Cons.prems(2) w(2) by auto
  have d: "watched t v db [] s'" using Cons.prems(1) s' by (auto simp: watched_def)
  have l: "lm_loop (loads (r # rs)) s = lm_loop (loads rs) s'" by (simp add: r loop_running [OF w(1)] s'(1))
  show ?case
  proof (cases "in_band t x")
    case True
    with watched_loop [OF d, of rs] s'(5) show ?thesis by (simp only: l) (simp add: r after_target_def)
  next
    case False
    with Cons.IH [OF d] s'(5) show ?thesis by (simp only: l) (simp add: r after_target_def)
  qed
qed

text \<open>C9: in a slot without end, whatever the load plotter reports, the load monitor judges exactly
  the samples after the one that reaches the target: its status is the judgement of the window
  of the last fifteen of them, where the target stands for those that are missing, and the check
  of the load stability fails exactly when one of these windows was bad.\<close>

theorem load_verdict:
  assumes "watching t v s" and "enable_monitoring s" and "lm_samples s = Some (replicate 15 t)"
    and "\<not> target_load_reached s" and "load_db s = db @ [r]" and "reg_state r = New_Slot" and "reg_check r"
    and "ws = after_target t (map snd rs)"
  shows "\<exists>s'. lm_loop (loads rs) s = (Goes_on, s') \<and>
    load_status s' = Inr (Some (if ws = [] then New_Slot else verdict t v (window t ws))) \<and>
    (lm_failed_registers s' = lm_failed_registers s \<longleftrightarrow>
      (\<forall>n < length ws. verdict t v (window t (take (Suc n) ws)) = Stable))"
proof -
  have w: "watched t v db [] s"
    unfolding watched_def using assms(1,2,3,5-7) by (intro conjI exI [of _ "[r]"]) (auto simp: window_def state_of_def)
  from unreached_loop [OF this assms(4), of rs] assms(8) obtain s' where
    s': "lm_loop (loads rs) s = (Goes_on, s')" "watched t v db ws s'" by blast
  then obtain regs where regs: "load_db s' = db @ regs" "regs \<noteq> []"
    "reg_state (last regs) = state_of t v ws" "\<forall>r \<in> set regs. reg_check r" "lm_ready s'"
    "(\<exists>r \<in> set regs. reg_state r = Not_Stable) \<longleftrightarrow> (\<exists>n < length ws. bad_at t v ws n)"
    by (auto simp: watched_def watching_def)
  have "lm_failed_registers s' = lm_failed_registers s \<longleftrightarrow> filter (\<lambda>r. reg_state r = Not_Stable \<and> reg_check r) regs = []"
    using regs(1) assms(5,6) by (simp add: lm_failed_registers_def)
  also have "\<dots> \<longleftrightarrow> \<not> (\<exists>r \<in> set regs. reg_state r = Not_Stable)"
    using regs(4) by (auto simp: filter_empty_conv)
  also have "\<dots> \<longleftrightarrow> (\<forall>n < length ws. \<not> bad_at t v ws n)" using regs(6) by blast
  finally have "lm_failed_registers s' = lm_failed_registers s \<longleftrightarrow>
      (\<forall>n < length ws. verdict t v (window t (take (Suc n) ws)) = Stable)"
    by (simp add: bad_at_def verdict_def)
  with s'(1) regs(1,2,3,5) show ?thesis by (auto simp: load_status_def state_of_def)
qed

definition demo_monitor :: load_monitor where
  "demo_monitor = lm_new\<lparr>lm_running := True, lm_ready := True, lm_samples := Some (replicate 15 40),
     lm_slot := no_slot\<lparr>sl_target := Some 40, sl_variance := Some 2, sl_time := Some (- 1),
       sl_pending := Some (- 1), sl_last_check := Some 100\<rparr>,
     load_db := [\<lparr>reg_state = New_Slot, reg_check = True, reg_reason = No_reason, reg_time = 100\<rparr>]\<rparr>"

theorem load_verdict_witness:
  "\<exists>s'. lm_loop (loads [(103, 12), (106, 38), (109, 41), (112, 70)]) demo_monitor = (Goes_on, s') \<and>
     load_status s' = Inr (Some Not_Stable) \<and> lm_failed_registers s' \<noteq> lm_failed_registers demo_monitor"
proof -
  have ws: "[41, 70] = after_target 40 (map snd [(103 :: rat, 12 :: int), (106, 38), (109, 41), (112, 70)])"
    by (simp add: after_target_def in_band_def)
  have w: "watching 40 2 demo_monitor" "enable_monitoring demo_monitor" "\<not> target_load_reached demo_monitor"
    "lm_samples demo_monitor = Some (replicate 15 40)"
    "load_db demo_monitor = [] @ [\<lparr>reg_state = New_Slot, reg_check = True, reg_reason = No_reason, reg_time = 100\<rparr>]"
    by (simp_all add: demo_monitor_def watching_def lm_new_def)
  have v: "verdict 40 2 (window 40 [41, 70]) = Not_Stable" by code_simp
  have "\<exists>n < length [41, 70 :: int]. verdict 40 2 (window 40 (take (Suc n) [41, 70])) \<noteq> Stable"
    by (rule exI [of _ 1]) (simp add: v)
  with load_verdict [OF w(1,2,4,3,5) _ _ ws] v show ?thesis by auto
qed

section \<open>A raise under the mutex\<close>

text \<open>What the bodies of the two operations leave alone.\<close>

definition frame :: "load_monitor \<Rightarrow> bool \<times> nat" where
  "frame s = (mutex s, reading_error s)"

lemma frame_simps [simp]:
  "frame (s\<lparr>lm_slot := a\<rparr>) = frame s" "frame (s\<lparr>lm_slots := b\<rparr>) = frame s" "frame (s\<lparr>load_db := c\<rparr>) = frame s"
  "frame (s\<lparr>lm_samples := d\<rparr>) = frame s" "frame (s\<lparr>target_load_reached := e\<rparr>) = frame s"
  "frame (s\<lparr>current_load := f\<rparr>) = frame s" "frame (s\<lparr>last_not_stable_time := g\<rparr>) = frame s"
  "frame (s\<lparr>enable_monitoring := h\<rparr>) = frame s" "frame (s\<lparr>lm_running := i\<rparr>) = frame s"
  "frame (add_reg now st why s) = frame s" "snd (done_with s) = s"
  by (simp_all add: frame_def add_reg_def done_with_def)

lemma snd_andthen: "snd (andthen p f) = (case p of (Inl e, s) \<Rightarrow> s | (Inr v, s) \<Rightarrow> snd (f v s))"
  by (simp add: andthen_def split: prod.split sum.split)

lemma frame_andthen:
  "frame (snd p) = x \<Longrightarrow> (\<And>v s. frame s = x \<Longrightarrow> frame (snd (f v s)) = x) \<Longrightarrow> frame (snd (andthen p f)) = x"
  by (auto simp: andthen_def split: prod.split sum.split)

lemma frame_shutdown: "frame (snd (lm_shutdown now s)) = frame s"
  by (auto simp: lm_shutdown_def andthen_def done_with_def frame_def)

lemma frame_set_new_slot: "frame (snd (set_new_slot now s)) = frame s"
  by (simp add: set_new_slot_def Let_def frame_shutdown split: list.split sum.split option.split)

lemma frame_age_slot: "frame (snd (age_slot now l s)) = frame s"
  by (simp add: age_slot_def Let_def frame_set_new_slot split: option.split)

lemma frame_slot_body: "frame (snd (slot_body now s)) = frame s"
  unfolding slot_body_def
  by (rule frame_andthen) (simp_all add: frame_set_new_slot frame_age_slot split: option.split)

lemma frame_judge: "frame (snd (judge now s)) = frame s"
  unfolding judge_def
  by (intro frame_andthen) (auto simp: Let_def split: sum.split bool.split)

lemma frame_stability_body: "frame (snd (stability_body now s)) = frame s"
  by (simp add: stability_body_def Let_def frame_judge snd_andthen split: option.split sum.split)

lemma with_mutex_frame:
  assumes "\<not> mutex s" and "\<And>s. frame (snd (f s)) = frame s"
  obtains r t where "with_mutex f s = Some (r, t)" and "mutex t \<longleftrightarrow> (\<exists>e. r = Inl e)"
    and "reading_error t = reading_error s"
proof -
  obtain r t where f: "f (s\<lparr>mutex := True\<rparr>) = (r, t)" by fastforce
  with assms(2) [of "s\<lparr>mutex := True\<rparr>"] have "mutex t" "reading_error t = reading_error s"
    by (simp_all add: frame_def)
  with f assms(1) that show thesis by (cases r) (auto simp: with_mutex_def done_with_def)
qed

lemma reading_failed_goes_on:
  assumes "reading_failed now s = (Goes_on, s')"
  shows "mutex s' = mutex s \<and> reading_error s' = Suc (reading_error s)"
proof -
  let ?t = "s\<lparr>reading_error := Suc (reading_error s)\<rparr>"
  have "frame s' = frame ?t"
    using assms frame_shutdown [of now ?t]
    by (auto simp: reading_failed_def Let_def split: if_splits prod.splits sum.splits)
  then show ?thesis by (simp add: frame_def)
qed

text \<open>A reading that raises inside the monitor, for instance in a slot without \<open>target_load\<close>,
  is counted as an error of which three are tolerated; but it leaves the mutex taken, so the next
  reading waits for ever, and so does the scheduler when it hands new slots to the monitor.\<close>

theorem raise_in_reading_hangs:
  assumes "\<not> mutex s" and "reading now (Load x) s = (Goes_on, s')" and "reading_error s' \<noteq> reading_error s"
  shows "mutex s' \<and> (\<forall>now x. fst (reading now (Load x) s') = Waits) \<and>
    (\<forall>sls. lm_reconfigure sls s' = None)"
proof -
  let ?s = "s\<lparr>current_load := x\<rparr>"
  have "\<not> mutex ?s" using assms(1) by simp
  then obtain r t where
    u: "update_slot now ?s = Some (r, t)" "mutex t \<longleftrightarrow> (\<exists>e. r = Inl e)" "reading_error t = reading_error s"
    unfolding update_slot_def
    by (rule with_mutex_frame [of ?s "slot_body now", OF _ frame_slot_body]) simp
  have "mutex s'"
  proof (cases r)
    case (Inl e)
    with u assms(2) have "reading_failed now t = (Goes_on, s')" by (simp add: reading_def)
    with reading_failed_goes_on u(2) Inl show ?thesis by blast
  next
    case (Inr v)
    with u(2) have "\<not> mutex t" by simp
    then obtain r' t' where
      c: "lm_check_load_stability now t = Some (r', t')" "mutex t' \<longleftrightarrow> (\<exists>e. r' = Inl e)"
      "reading_error t' = reading_error t"
      unfolding lm_check_load_stability_def
      by (rule with_mutex_frame [of t "stability_body now", OF _ frame_stability_body])
    show ?thesis
    proof (cases r')
      case (Inl e)
      with u c Inr assms(2) have "reading_failed now t' = (Goes_on, s')" by (simp add: reading_def)
      with reading_failed_goes_on c(2) Inl show ?thesis by blast
    next
      case Inr': (Inr w)
      with u c Inr assms(2,3) show ?thesis by (simp add: reading_def)
    qed
  qed
  then show ?thesis by (simp add: reading_def update_slot_def lm_reconfigure_def with_mutex_def)
qed

theorem raise_in_reading_hangs_witness:
  "lm_reconfigure [] (snd (reading 103 (Load 40) (lm_new\<lparr>lm_running := True, lm_ready := True,
     lm_slots := [no_slot\<lparr>sl_variance := Some 2, sl_time := Some 60\<rparr>]\<rparr>))) = None"
proof -
  let ?s = "lm_new\<lparr>lm_running := True, lm_ready := True,
     lm_slots := [no_slot\<lparr>sl_variance := Some 2, sl_time := Some 60\<rparr>]\<rparr>"
  have g: "fst (reading 103 (Load 40) ?s) = Goes_on" "reading_error (snd (reading 103 (Load 40) ?s)) = 1"
    by code_simp+
  then have "reading 103 (Load 40) ?s = (Goes_on, snd (reading 103 (Load 40) ?s))"
    by (metis prod.collapse)
  from raise_in_reading_hangs [OF _ this] g(2) show ?thesis by (simp add: lm_new_def)
qed

section \<open>What a shutdown discards\<close>

lemma shutdown_discards_last:
  assumes "lm_running s" and "load_db s \<noteq> []" and "now - last_not_stable_time s < lm_transition s"
  shows "lm_failed_registers (snd (lm_shutdown now s)) =
    filter (\<lambda>r. reg_state r = Not_Stable \<and> reg_check r) (butlast (load_db s))"
  using assms by (simp add: lm_shutdown_def done_with_def discard_last_def lm_failed_registers_def)

text \<open>The shutdown at the end of the load phase means to discard the last unstable status when it is
  younger than the transition time, but it takes the check off the last register: when the load
  was stable again in between, the unstable status stays a failure.\<close>

theorem shutdown_discards_wrong_register:
  assumes "lm_running s" and "load_db s = db @ [u, r]" and "reg_state u = Not_Stable" and "reg_check u"
    and "now - last_not_stable_time s < lm_transition s"
  shows "u \<in> set (lm_failed_registers (snd (lm_shutdown now s)))"
proof -
  have "load_db s \<noteq> []" using assms(2) by simp
  from shutdown_discards_last [OF assms(1) this assms(5)] assms(2-4) show ?thesis
    by (simp add: butlast_append)
qed

definition demo_recovered :: load_monitor where
  "demo_recovered = snd (lm_loop (loads [(101, 40), (102, 130), (103, 25)])
     (demo_monitor\<lparr>lm_slot := (lm_slot demo_monitor)\<lparr>sl_variance := Some 1000\<rparr>\<rparr>))"

theorem shutdown_discards_wrong_register_witness:
  "lm_failed_registers (snd (lm_shutdown 105 demo_recovered)) \<noteq> []"
proof -
  have l: "load_db demo_recovered =
      [\<lparr>reg_state = New_Slot, reg_check = True, reg_reason = No_reason, reg_time = 100\<rparr>] @
      [\<lparr>reg_state = Not_Stable, reg_check = True, reg_reason = Out_of_range 46 35 45, reg_time = 102\<rparr>,
       \<lparr>reg_state = Stable, reg_check = True, reg_reason = No_reason, reg_time = 103\<rparr>]"
    by code_simp
  have r: "lm_running demo_recovered" "105 - last_not_stable_time demo_recovered < lm_transition demo_recovered"
    by code_simp+
  from shutdown_discards_wrong_register [OF r(1) l _ _ r(2)] show ?thesis by auto
qed

end
