(* ===== verification/Error_Monitor.thy ===== *)
theory Error_Monitor
  imports Monitors
begin

text \<open>
  \<open>ErrorMonitor\<close> of \<open>monitor.py\<close> and the error registers of the traffic instances it sums up
  (\<open>BAT_base\<close> of \<open>bat_instance.py\<close>). The monitor opens one register per phase, and each
  instance one of its own, in the data base of the phase.
\<close>

section \<open>Registers of a traffic instance\<close>

record bat_reg =
  br_start :: rat
  br_stop :: "rat option"
  br_executed :: int
  br_errors :: int

record bat_db =
  bat_enable :: "(string, bool) dict"
  traffic_phase :: string
  error_db :: "(string, bat_reg list) dict"

definition new_bat_db :: "(string, bool) dict option \<Rightarrow> bat_db" where
  "new_bat_db config =
     \<lparr>bat_enable = (case config of Some d \<Rightarrow> d
        | None \<Rightarrow> [(''preexec'', False), (''loadgen'', False), (''postexec'', False)]),
      traffic_phase = ''preexec'',
      error_db = [(''preexec'', []), (''loadgen'', []), (''postexec'', [])]\<rparr>"

definition error_db_registering :: "bat_db \<Rightarrow> bool res" where
  "error_db_registering b =
     (case key (traffic_phase b) (map_of (error_db b) (traffic_phase b)) of
        Inl e \<Rightarrow> Inl e
      | Inr rs \<Rightarrow> Inr (rs \<noteq> [] \<and> br_stop (last rs) = None))"

definition bat_open_register :: "rat \<Rightarrow> string \<Rightarrow> bat_db \<Rightarrow> unit res \<times> bat_db" where
  "bat_open_register now ph b =
     andthen (key ph (map_of (bat_enable b) ph), b) (\<lambda>on b.
       if \<not> on then done_with b
       else andthen (key ph (map_of (error_db b) ph), b) (\<lambda>_ b.
         done_with (b\<lparr>error_db := dict_modify ph
           (\<lambda>rs. rs @ [\<lparr>br_start = now, br_stop = None, br_executed = 0, br_errors = 0\<rparr>]) (error_db b)\<rparr>)))"

definition on_last :: "(bat_reg \<Rightarrow> bat_reg) \<Rightarrow> bat_db \<Rightarrow> bat_db" where
  "on_last f b = b\<lparr>error_db := dict_modify (traffic_phase b)
     (\<lambda>rs. butlast rs @ [f (last rs)]) (error_db b)\<rparr>"

definition bat_close_register :: "rat \<Rightarrow> bat_db \<Rightarrow> unit res \<times> bat_db" where
  "bat_close_register now b =
     andthen (error_db_registering b, b) (\<lambda>on b.
       done_with (if on then on_last (\<lambda>r. r\<lparr>br_stop := Some now\<rparr>) b else b))"

definition bat_update_register :: "int \<Rightarrow> int \<Rightarrow> bat_db \<Rightarrow> unit res \<times> bat_db" where
  "bat_update_register ex er b =
     andthen (error_db_registering b, b) (\<lambda>on b.
       done_with (if on then
         on_last (\<lambda>r. r\<lparr>br_executed := br_executed r + ex, br_errors := br_errors r + er\<rparr>) b else b))"

text \<open>A missing phase is caught; the last register is read whether it is open or not.\<close>

definition bat_read_counters :: "bat_db \<Rightarrow> int \<times> int" where
  "bat_read_counters b =
     (case map_of (error_db b) (traffic_phase b) of
        None \<Rightarrow> (0, 0)
      | Some [] \<Rightarrow> (0, 0)
      | Some rs \<Rightarrow> (br_executed (last rs), br_errors (last rs)))"

definition bat_read_register :: "bat_db \<Rightarrow> bat_reg option" where
  "bat_read_register b =
     (case map_of (error_db b) (traffic_phase b) of
        None \<Rightarrow> None | Some rs \<Rightarrow> if rs = [] then None else Some (last rs))"

definition bat_phase_data :: "string \<Rightarrow> bat_db \<Rightarrow> bat_reg list" where
  "bat_phase_data ph b = (case map_of (error_db b) ph of None \<Rightarrow> [] | Some rs \<Rightarrow> rs)"

definition bat_reset_phase_data :: "string \<Rightarrow> bat_db \<Rightarrow> bat_db" where
  "bat_reset_phase_data ph b = b\<lparr>error_db := dict_set ph [] (error_db b)\<rparr>"

section \<open>The monitor\<close>

record error_reg =
  er_start :: rat
  er_phase :: string
  er_stop :: "rat option"
  er_executed :: int
  er_errors :: int
  er_rate :: rat
  er_max_rate :: rat
  er_check :: bool

record error_monitor =
  em_running :: bool
  em_monitoring :: bool
  em_enable :: "(string, bool) dict"
  em_phase :: string
  em_default_rate :: "rat option"
  em_error_rate :: rat
  em_db :: "error_reg list"
  em_log_open :: bool
  em_bats :: "bat_db list"

record error_config =
  error_enable :: "(string, bool) dict option"
  cfg_default_rate :: "rat option"

text \<open>An empty dictionary of phases is false.\<close>

definition em_init :: "bool \<Rightarrow> error_config option \<Rightarrow> bat_db list \<Rightarrow> error_monitor res" where
  "em_init with_traffic config bs =
     (if \<not> with_traffic then
        Inl (ExecutionConfigurationError ''ERROR_MONITOR not allowed in a scenario without traffic'')
      else
        let s = \<lparr>em_running = False, em_monitoring = False, em_enable = [], em_phase = ''preexec'',
              em_default_rate = Option.bind config cfg_default_rate, em_error_rate = 1 / 10, em_db = [],
              em_log_open = True, em_bats = bs\<rparr>
        in Inr (case Option.bind config error_enable of
              None \<Rightarrow> s
            | Some d \<Rightarrow> if d = [] then s else s\<lparr>em_enable := d, em_running := True\<rparr>))"

definition em_enabled :: "error_monitor \<Rightarrow> bool" where
  "em_enabled s = (map_of (em_enable s) (em_phase s) = Some True)"

definition default_error_rate :: "error_monitor \<Rightarrow> rat" where
  "default_error_rate s = (case em_default_rate s of Some r \<Rightarrow> r | None \<Rightarrow> 1 / 10)"

definition set_error_rate :: "rat option \<Rightarrow> error_monitor \<Rightarrow> error_monitor" where
  "set_error_rate r s = s\<lparr>em_error_rate := (case r of None \<Rightarrow> default_error_rate s | Some x \<Rightarrow> x)\<rparr>"

definition em_open_register :: "rat \<Rightarrow> error_monitor \<Rightarrow> error_monitor" where
  "em_open_register now s =
     s\<lparr>em_db := em_db s @ [\<lparr>er_start = now, er_phase = em_phase s, er_stop = None, er_executed = 0,
        er_errors = 0, er_rate = - 1, er_max_rate = em_error_rate s, er_check = True\<rparr>]\<rparr>"

text \<open>\<open>for bat_instance in BAT_instances\<close>: an exception leaves the instances after it as they were.\<close>

fun each_db :: "(bat_db \<Rightarrow> unit res \<times> bat_db) \<Rightarrow> bat_db list \<Rightarrow> unit res \<times> bat_db list" where
  "each_db f [] = (Inr (), [])"
| "each_db f (b # bs) =
     (case f b of
        (Inl e, b') \<Rightarrow> (Inl e, b' # bs)
      | (Inr _, b') \<Rightarrow> (case each_db f bs of (r, bs') \<Rightarrow> (r, b' # bs')))"

definition on_bats :: "(bat_db \<Rightarrow> unit res \<times> bat_db) \<Rightarrow> error_monitor \<Rightarrow> unit res \<times> error_monitor" where
  "on_bats f s = (case each_db f (em_bats s) of (r, bs) \<Rightarrow> (r, s\<lparr>em_bats := bs\<rparr>))"

definition em_start_monitoring :: "rat \<Rightarrow> string \<Rightarrow> rat option \<Rightarrow> error_monitor \<Rightarrow> unit res \<times> error_monitor" where
  "em_start_monitoring now ph rate s =
     (if \<not> em_running s then done_with s
      else
        let s1 = s\<lparr>em_phase := ph\<rparr>
        in if \<not> em_enabled s1 then done_with s1
           else andthen (on_bats (bat_open_register now ph) (em_open_register now (set_error_rate rate s1)))
             (\<lambda>_ s. done_with (s\<lparr>em_monitoring := True\<rparr>)))"

definition sum_counters :: "bat_db list \<Rightarrow> int \<times> int" where
  "sum_counters bs = (sum_list (map (fst \<circ> bat_read_counters) bs), sum_list (map (snd \<circ> bat_read_counters) bs))"

definition percent :: "int \<Rightarrow> int \<Rightarrow> rat" where
  "percent errs n = of_int (errs * 100) / of_int n"

definition close_reg :: "rat \<Rightarrow> int \<times> int \<Rightarrow> error_reg \<Rightarrow> error_reg" where
  "close_reg now c r =
     (let ex = er_executed r + fst c; er = er_errors r + snd c
      in r\<lparr>er_stop := Some now, er_executed := ex, er_errors := er,
           er_rate := (if ex \<noteq> 0 then percent er ex else 0)\<rparr>)"

definition em_close_register :: "rat \<Rightarrow> error_monitor \<Rightarrow> error_monitor" where
  "em_close_register now s =
     (if em_db s = [] then s
      else s\<lparr>em_db := butlast (em_db s) @ [close_reg now (sum_counters (em_bats s)) (last (em_db s))]\<rparr>)"

definition last_error_rate :: "error_monitor \<Rightarrow> rat" where
  "last_error_rate s = (if em_db s = [] then - 1 else er_rate (last (em_db s)))"

definition em_stop_monitoring :: "rat \<Rightarrow> error_monitor \<Rightarrow> rat res \<times> error_monitor" where
  "em_stop_monitoring now s =
     (if \<not> em_running s then (Inr (- 1), s)
      else if \<not> em_monitoring s then (Inr (- 1), s)
      else andthen (on_bats (bat_close_register now) s) (\<lambda>_ s.
        let s1 = em_close_register now s
        in (Inr (last_error_rate s1), s1\<lparr>em_monitoring := False\<rparr>)))"

definition em_shutdown :: "rat \<Rightarrow> error_monitor \<Rightarrow> unit res \<times> error_monitor" where
  "em_shutdown now s =
     andthen (if em_running s \<and> em_monitoring s then em_stop_monitoring now s else (Inr 0, s)) (\<lambda>_ s.
       done_with (s\<lparr>em_running := False, em_log_open := False\<rparr>))"

definition skip_check_last_register :: "error_monitor \<Rightarrow> error_monitor" where
  "skip_check_last_register s =
     (if em_db s = [] then s
      else s\<lparr>em_db := butlast (em_db s) @ [(last (em_db s))\<lparr>er_check := False\<rparr>]\<rparr>)"

definition em_failed_registers :: "error_monitor \<Rightarrow> error_reg list" where
  "em_failed_registers s = filter (\<lambda>r. er_max_rate r < er_rate r \<and> er_check r) (em_db s)"

text \<open>The counters of the Diameter proxies; requests are not counted.\<close>

definition em_tps_error_rate :: "(string, int) dict \<Rightarrow> rat" where
  "em_tps_error_rate counters =
     (let cs = filter (\<lambda>(k, v). k \<noteq> ''request'') counters;
          executions = sum_list (map snd cs);
          bad = sum_list (map snd (filter (\<lambda>(k, v). k \<notin> {''success'', ''other''}) cs))
      in if executions \<noteq> 0 then percent bad executions else of_int executions)"

end
