(* ===== verification/Bat_Instance.thy ===== *)
theory Bat_Instance
  imports Error_Monitor
begin

text \<open>
  \<open>BAT_base\<close> of \<open>HSS_rtc/HSS_rtc_lib/components/bat_instance.py\<close>: one instance of the traffic
  generator. A thread follows the output of the generator through the states of an execution,
  samples its statistics file and counts errors in the registers of \<open>Error_Monitor\<close>.

  What the node answers to a command is an argument of the operation; \<open>None\<close> stands for a
  command that raises. A step of the thread is one return of \<open>expect\<close>, with the time it took.
\<close>

section \<open>Numbers in texts\<close>

fun py_ints :: "string list \<Rightarrow> int list res" where
  "py_ints [] = Inr []"
| "py_ints (w # ws) =
     (case py_int w of
        Inl e \<Rightarrow> Inl e
      | Inr x \<Rightarrow> (case py_ints ws of Inl e \<Rightarrow> Inl e | Inr xs \<Rightarrow> Inr (x # xs)))"

section \<open>Statistics\<close>

text \<open>
  Per script and phase the numbers of executed, successful and failed traffic cases; \<open>None\<close> for
  the empty dictionary the code starts with.
\<close>

record script_values =
  in_preexec :: "int list"
  in_loadgen :: "int list"
  in_postexec :: "int list"

record stats =
  st_time :: int
  st_scripts :: "(string, script_values) dict"

definition phase_names :: "string list" where
  "phase_names = [''preexec'', ''loadgen'', ''postexec'']"

definition in_phase :: "string \<Rightarrow> script_values \<Rightarrow> int list" where
  "in_phase ph v =
     (if ph = ''preexec'' then in_preexec v else if ph = ''loadgen'' then in_loadgen v else in_postexec v)"

record bat =
  bat_id :: string
  bat_regs :: bat_db
  bat_sampling :: int
  stat_file :: "string option"
  error_stats :: "stats option"
  current_stats :: "stats option"
  last_stats :: "stats option"

definition get_phase :: "bat \<Rightarrow> string" where
  "get_phase b = traffic_phase (bat_regs b)"

definition set_phase :: "string \<Rightarrow> bat \<Rightarrow> bat" where
  "set_phase ph b = b\<lparr>bat_regs := (bat_regs b)\<lparr>traffic_phase := ph\<rparr>\<rparr>"

text \<open>\<open>set_stat_file\<close>: the answer to \<open>find\<close>.\<close>

definition set_stat_file :: "string list option \<Rightarrow> bat \<Rightarrow> bat" where
  "set_stat_file answer b =
     (if stat_file b \<noteq> None then b
      else case answer of
        None \<Rightarrow> b
      | Some ls \<Rightarrow>
          (case find (\<lambda>l. \<not> contains ''No such file or directory'' l \<and> l \<noteq> [CHR 0x22, CHR 0x22] \<and>
                 contains ''stats_-Measure'' l) ls of
             None \<Rightarrow> b | Some l \<Rightarrow> b\<lparr>stat_file := Some l\<rparr>))"

text \<open>\<open>line.split('.')[3].split('"')[0]\<close>\<close>

definition script_of :: "string \<Rightarrow> string res" where
  "script_of l = bind_res (py_nth (split_on (CHR ''.'') l) 3) (\<lambda>p. Inr (hd (split_on (CHR 0x22) p)))"

definition zero_values :: script_values where
  "zero_values = \<lparr>in_preexec = [0, 0, 0], in_loadgen = [0, 0, 0], in_postexec = [0, 0, 0]\<rparr>"

fun template_of :: "string list \<Rightarrow> stats option \<Rightarrow> unit res \<times> stats option" where
  "template_of [] t = (Inr (), t)"
| "template_of (l # ls) t =
     (if contains ''Capture_Started'' l then
        andthen (script_of l, t) (\<lambda>sc t.
          template_of ls (Some \<lparr>st_time = 0,
            st_scripts = dict_set sc zero_values (case t of None \<Rightarrow> [] | Some u \<Rightarrow> st_scripts u)\<rparr>))
      else template_of ls t)"

text \<open>
  \<open>error_template\<close> builds the dictionary once, from the scripts that were started, and returns
  this same dictionary ever after.
\<close>

definition error_template :: "string list option \<Rightarrow> bat \<Rightarrow> unit res \<times> bat" where
  "error_template grep b =
     (if error_stats b \<noteq> None \<or> stat_file b = None then done_with b
      else case grep of
        None \<Rightarrow> done_with b
      | Some ls \<Rightarrow>
          (case template_of ls None of (r, t) \<Rightarrow> (r, b\<lparr>error_stats := t\<rparr>)))"

section \<open>A sample\<close>

definition next_phase :: "string \<Rightarrow> script_values \<Rightarrow> string res" where
  "next_phase ph v =
     bind_res (py_nth (in_postexec v) 0) (\<lambda>post.
       if post \<noteq> 0 then Inr ''postexec''
       else if ph \<noteq> ''postexec'' then
         bind_res (py_nth (in_loadgen v) 0) (\<lambda>load.
           if load \<noteq> 0 then Inr ''loadgen''
           else if ph \<noteq> ''loadgen'' then
             bind_res (py_nth (in_preexec v) 0) (\<lambda>pre. Inr (if pre \<noteq> 0 then ''preexec'' else ph))
           else Inr ph)
       else Inr ph)"

text \<open>
  One line of the file, written into the dictionary of the template: an exception leaves what
  was written before it.
\<close>

definition parse_stat :: "string \<Rightarrow> stats \<times> string \<Rightarrow> unit res \<times> (stats \<times> string)" where
  "parse_stat l s =
     (if \<not> startswith l ([CHR ''['', CHR 0x22] @ ''Group'') then done_with s
      else
        andthen (script_of l, s) (\<lambda>sc s.
        andthen (bind_res (py_nth (split_on (CHR '','') l) 1) (\<lambda>p. py_int (hd (split_on (CHR ''.'') p))), s)
          (\<lambda>t s.
        let s1 = ((fst s)\<lparr>st_time := t\<rparr>, snd s)
        in andthen (py_nth (split_on (CHR '':'') l) 1, s1) (\<lambda>value s.
           let ws = words value
           in andthen (py_ints (take 3 ws), s) (\<lambda>pre s.
              andthen (key sc (map_of (st_scripts (fst s)) sc), s) (\<lambda>v s.
              let put = (\<lambda>v s. ((fst s)\<lparr>st_scripts := dict_set sc v (st_scripts (fst s))\<rparr>, snd s));
                  v1 = v\<lparr>in_preexec := pre\<rparr>
              in andthen (py_ints (take 3 (drop 3 ws)), put v1 s) (\<lambda>load s.
                 let v2 = v1\<lparr>in_loadgen := load\<rparr>
                 in andthen (py_ints (drop 6 ws), put v2 s) (\<lambda>post s.
                    let v3 = v2\<lparr>in_postexec := post\<rparr>
                    in andthen (next_phase (snd s) v3, put v3 s) (\<lambda>ph s.
                       done_with (fst s, ph))))))))))"

definition sample_lines :: "string list \<Rightarrow> string list" where
  "sample_lines ls =
     (if contains ''Capture_Finished'' (join '' '' ls) then take (length ls div 2) ls
      else drop (length ls div 2) ls)"

text \<open>
  \<open>get_current_stats\<close>: the answer to \<open>tail\<close>. \<open>error_sample\<close> is the dictionary of the template
  itself; a copy of it becomes the current statistics.
\<close>

definition get_current_stats :: "string list option \<Rightarrow> string list option \<Rightarrow> bat \<Rightarrow> unit res \<times> bat" where
  "get_current_stats grep tail b =
     (if stat_file b = None then done_with b
      else andthen (error_template grep b) (\<lambda>_ b.
        case error_stats b of
          None \<Rightarrow> done_with b
        | Some t \<Rightarrow>
            (case tail of
               None \<Rightarrow> done_with (b\<lparr>current_stats := None\<rparr>)
             | Some ls \<Rightarrow>
                 if contains ''cannot open'' (join '' '' ls) then done_with (b\<lparr>current_stats := None\<rparr>)
                 else (case for_each parse_stat (sample_lines ls) (t, get_phase b) of
                         (Inl e, (t', ph)) \<Rightarrow> done_with (b\<lparr>error_stats := Some t', current_stats := None\<rparr>)
                       | (Inr _, (t', ph)) \<Rightarrow>
                           done_with (set_phase ph (b\<lparr>error_stats := Some t', current_stats := Some t'\<rparr>))))))"

section \<open>What a sample counts\<close>

record delta =
  period_time :: int
  total_time :: int
  script_rates :: "(string \<times> int \<times> int \<times> rat) list"
  total_rate :: "int \<times> int \<times> rat"

definition failures_of :: "string \<Rightarrow> script_values \<Rightarrow> (int \<times> int) res" where
  "failures_of ph v =
     bind_res (py_nth (in_phase ph v) 2) (\<lambda>errs. bind_res (py_nth (in_phase ph v) 1) (\<lambda>good. Inr (errs, good)))"

text \<open>Per script: its errors and its executions since the last sample that counted.\<close>

fun script_deltas ::
  "string \<Rightarrow> (string, script_values) dict \<Rightarrow> stats \<Rightarrow> ((string \<times> int \<times> int) list) res" where
  "script_deltas ph [] l = Inr []"
| "script_deltas ph ((sc, v) # rest) l =
     bind_res (failures_of ph v) (\<lambda>(errs, good).
     bind_res (key sc (map_of (st_scripts l) sc)) (\<lambda>w.
     bind_res (failures_of ph w) (\<lambda>(errs', good').
       let er = errs - errs'; ex = er + (good - good')
       in if er \<noteq> 0 \<and> ex = 0 then Inl (PyException ''float division by zero'')
          else bind_res (script_deltas ph rest l) (\<lambda>ds. Inr ((sc, ex, er) # ds)))))"

definition faulty_scripts :: "(string \<times> int \<times> int) list \<Rightarrow> (string \<times> int \<times> int \<times> rat) list" where
  "faulty_scripts ds = map (\<lambda>(sc, ex, er). (sc, ex, er, percent er ex)) (filter (\<lambda>(sc, ex, er). er \<noteq> 0) ds)"

definition update_errors_info ::
  "string list option \<Rightarrow> string list option \<Rightarrow> bat \<Rightarrow> delta option res \<times> bat" where
  "update_errors_info grep tail b =
     andthen (get_current_stats grep tail b) (\<lambda>_ b.
       case current_stats b of
         None \<Rightarrow> (Inr None, b)
       | Some c \<Rightarrow>
           andthen (if last_stats b \<noteq> None then done_with b
                    else andthen (error_template grep b) (\<lambda>_ b. done_with (b\<lparr>last_stats := error_stats b\<rparr>))) (\<lambda>_ b.
             case last_stats b of
               None \<Rightarrow> (Inl (KeyError ''last_stats''), b)
             | Some l \<Rightarrow>
                 andthen (script_deltas (get_phase b) (st_scripts c) l, b) (\<lambda>ds b.
                   let ex = sum_list (map (\<lambda>(_, x, _). x) ds); er = sum_list (map (\<lambda>(_, _, y). y) ds);
                       period = st_time c - st_time l
                   in if period < bat_sampling b then (Inr None, b)
                      else andthen (if ex \<noteq> 0
                             then (case bat_update_register ex er (bat_regs b) of
                                     (r, regs) \<Rightarrow> (r, b\<lparr>bat_regs := regs\<rparr>))
                             else done_with b) (\<lambda>_ b.
                        (Inr (Some \<lparr>period_time = period, total_time = st_time c, script_rates = faulty_scripts ds,
                            total_rate = (ex, er, if ex \<noteq> 0 then percent er ex else 0)\<rparr>),
                         b\<lparr>last_stats := current_stats b\<rparr>)))))"

definition check_result :: "string list option \<Rightarrow> string list option \<Rightarrow> bat \<Rightarrow> delta option res \<times> bat" where
  "check_result grep tail b =
     (if get_phase b \<notin> set phase_names then (Inr None, b)
      else case map_of (bat_enable (bat_regs b)) (get_phase b) of
        Some True \<Rightarrow>
          (case update_errors_info grep tail b of
             (Inl (KeyError k), b') \<Rightarrow> (Inr None, b')
           | r \<Rightarrow> r)
      | _ \<Rightarrow> (Inr None, b))"

text \<open>\<open>final_result\<close>: errors and executions per phase of the last sample of the collected file.\<close>

fun phase_totals :: "string \<Rightarrow> (string, script_values) dict \<Rightarrow> (int \<times> int) res" where
  "phase_totals ph [] = Inr (0, 0)"
| "phase_totals ph ((sc, v) # rest) =
     bind_res (py_nth (in_phase ph v) 2) (\<lambda>er.
     bind_res (py_nth (in_phase ph v) 0) (\<lambda>ex.
     bind_res (phase_totals ph rest) (\<lambda>(ers, exs). Inr (er + ers, ex + exs))))"

definition final_rate :: "string \<Rightarrow> bat \<Rightarrow> rat res" where
  "final_rate ph b =
     bind_res (phase_totals ph (case current_stats b of None \<Rightarrow> [] | Some c \<Rightarrow> st_scripts c))
       (\<lambda>(er, ex). Inr (if ex \<noteq> 0 then percent er ex else 0))"

section \<open>The thread\<close>

datatype bat_state = Bat_Idle | Bat_Starting | Bat_Running | Bat_Failed | Bat_Pending | Bat_Stopping | Bat_Stopped

record bat_run =
  the_bat :: bat
  bat_state :: bat_state
  exit_text :: string
  need_clean :: bool
  start_left :: rat
  stop_left :: rat
  stops_sent :: nat
  diaproxys :: "string list"
  loadplotter :: "string option"
  released_bat :: bool

text \<open>What \<open>expect\<close> returns, a stop from another thread, or a signal.\<close>

datatype bat_event =
    Alias_sent
  | Bat_prompt
  | Bat_line string
  | Traffic_finished
  | Main_terminated
  | Mc_problem
  | Bat_timeout
  | Bat_eof
  | Bat_interrupt
  | Stop_call

text \<open>The answers of the node to the commands a step may send.\<close>

record node_answers =
  found_files :: "string list option"
  grep_answer :: "string list option"
  tail_answer :: "string list option"

datatype bat_step = Go_on | Leave | Bat_raise py_exc

definition bat_stop :: "bat_run \<Rightarrow> bat_run" where
  "bat_stop r = (if bat_state r \<in> {Bat_Starting, Bat_Running} then r\<lparr>bat_state := Bat_Pending\<rparr> else r)"

text \<open>\<open>stop_traffic\<close> of \<open>BAT\<close>: Ctrl-C to the generator.\<close>

definition stop_traffic :: "bat_run \<Rightarrow> bat_run" where
  "stop_traffic r = (if bat_state r = Bat_Stopped then r else r\<lparr>stops_sent := Suc (stops_sent r)\<rparr>)"

definition word_after :: "string \<Rightarrow> string list \<Rightarrow> string res" where
  "word_after w ws =
     (if w \<notin> set ws then Inl (ValueError (w @ '' is not in list''))
      else py_nth ws (int (length (takeWhile (\<lambda>x. x \<noteq> w) ws)) + 1))"

text \<open>A line of output names the proxies and the load plotter that were started.\<close>

definition read_line :: "string \<Rightarrow> bat_run \<Rightarrow> unit res \<times> bat_run" where
  "read_line out r =
     (if contains '' DEB '' out \<or> startswith out ''debug'' \<or> length out \<le> 4 then done_with r
      else
        andthen (if contains ''UP & RUNNING'' (tl out) then
                   andthen (word_after ''Diaproxy'' (words (tl out)), r) (\<lambda>info r.
                     andthen (py_nth (split_on (CHR '':'') info) 2, r) (\<lambda>port r.
                       done_with (r\<lparr>diaproxys := diaproxys r @ [hd (split_on (CHR '':'') info) @ '':'' @ port]\<rparr>)))
                 else done_with r) (\<lambda>_ r.
        if contains ''LoadPlotter up and running'' (tl out) then
          andthen (word_after ''in'' (words (tl out)), r) (\<lambda>info r. done_with (r\<lparr>loadplotter := Some info\<rparr>))
        else done_with r))"

definition on_bat :: "(bat \<Rightarrow> 'a res \<times> bat) \<Rightarrow> bat_run \<Rightarrow> bat_step \<times> bat_run" where
  "on_bat f r =
     (case f (the_bat r) of
        (Inl e, b) \<Rightarrow> (Bat_raise e, r\<lparr>the_bat := b\<rparr>)
      | (Inr _, b) \<Rightarrow> (Go_on, r\<lparr>the_bat := b\<rparr>))"

definition stop_now :: "bat_run \<Rightarrow> bat_step \<times> bat_run" where
  "stop_now r = (Go_on, stop_traffic (r\<lparr>bat_state := Bat_Stopping\<rparr>))"

definition wait_stopping :: "rat \<Rightarrow> bat_run \<Rightarrow> bat_step \<times> bat_run" where
  "wait_stopping dt r =
     (if stop_left r - dt > 0 then Go_on else Leave, r\<lparr>stop_left := stop_left r - dt\<rparr>)"

definition on_timeout :: "node_answers \<Rightarrow> rat \<Rightarrow> bat_run \<Rightarrow> bat_step \<times> bat_run" where
  "on_timeout n dt r =
     (case bat_state r of
        Bat_Starting \<Rightarrow>
          (Go_on, r\<lparr>start_left := start_left r - dt,
             bat_state := (if start_left r - dt < 0 then Bat_Pending else Bat_Starting)\<rparr>)
      | Bat_Failed \<Rightarrow> (Go_on, r)
      | Bat_Running \<Rightarrow>
          on_bat (\<lambda>b. andthen (error_template (grep_answer n) (set_stat_file (found_files n) b))
            (\<lambda>_. check_result (grep_answer n) (tail_answer n))) r
      | Bat_Pending \<Rightarrow> stop_now r
      | Bat_Stopping \<Rightarrow> wait_stopping dt r
      | _ \<Rightarrow> (Bat_raise (ExecutionRunError (''Unhandled timeout '' @ bat_id (the_bat r))), r))"

definition on_line :: "rat \<Rightarrow> string \<Rightarrow> bat_run \<Rightarrow> bat_step \<times> bat_run" where
  "on_line dt out r =
     (if bat_state r = Bat_Pending then stop_now r
      else
        let r1 = (if bat_state r = Bat_Starting then r\<lparr>start_left := start_left r - dt\<rparr>
                  else if bat_state r = Bat_Stopping then r\<lparr>stop_left := stop_left r - dt\<rparr> else r)
        in case read_line out r1 of (Inl e, r2) \<Rightarrow> (Bat_raise e, r2) | (Inr _, r2) \<Rightarrow> (Go_on, r2))"

definition bat_step :: "node_answers \<Rightarrow> rat \<Rightarrow> bat_event \<Rightarrow> bat_run \<Rightarrow> bat_step \<times> bat_run" where
  "bat_step n dt ev r =
     (case ev of
        Alias_sent \<Rightarrow>
          (Go_on, if bat_state r = Bat_Starting
             then r\<lparr>bat_state := Bat_Running, the_bat := set_stat_file (found_files n) (the_bat r)\<rparr> else r)
      | Bat_prompt \<Rightarrow>
          (Leave, if bat_state r \<in> {Bat_Starting, Bat_Failed}
             then r\<lparr>bat_state := Bat_Failed, exit_text := ''faulty BAT''\<rparr> else r\<lparr>bat_state := Bat_Stopped\<rparr>)
      | Mc_problem \<Rightarrow>
          (Leave, if bat_state r = Bat_Starting
             then r\<lparr>bat_state := Bat_Failed, exit_text := ''Problem starting MC''\<rparr> else r\<lparr>bat_state := Bat_Stopped\<rparr>)
      | Bat_line out \<Rightarrow> on_line dt out r
      | Traffic_finished \<Rightarrow> (Go_on, r\<lparr>bat_state := Bat_Pending\<rparr>)
      | Main_terminated \<Rightarrow> (Go_on, r\<lparr>bat_state := Bat_Stopping\<rparr>)
      | Bat_timeout \<Rightarrow> on_timeout n dt r
      | Bat_eof \<Rightarrow> (Bat_raise (ExecutionRunError (''EOF waiting for '' @ bat_id (the_bat r))), r)
      | Bat_interrupt \<Rightarrow> (if bat_state r = Bat_Stopping then wait_stopping dt r else stop_now r)
      | Stop_call \<Rightarrow> (Go_on, bat_stop r))"

fun bat_loop :: "(node_answers \<times> rat \<times> bat_event) list \<Rightarrow> bat_run \<Rightarrow> bat_step \<times> bat_run" where
  "bat_loop [] r = (Go_on, r)"
| "bat_loop ((n, dt, ev) # evs) r =
     (case bat_step n dt ev r of (Go_on, r') \<Rightarrow> bat_loop evs r' | q \<Rightarrow> q)"

text \<open>
  \<open>exit_code\<close>: the last line of the log that names an exit code. It is asked for again as long as it
  is empty; after three tries a run without one counts as a success.
\<close>

fun from_match :: "string \<Rightarrow> string \<Rightarrow> string" where
  "from_match p [] = []"
| "from_match p (c # cs) = (if startswith (c # cs) p then c # cs else from_match p cs)"

definition exit_of :: "string list option \<Rightarrow> bat_run \<Rightarrow> bat_run" where
  "exit_of answer r =
     (if exit_text r \<noteq> [] then r
      else case answer of
        None \<Rightarrow> r
      | Some ls \<Rightarrow>
          (case filter (contains ''Exit code'') ls of
             [] \<Rightarrow> r
           | xs \<Rightarrow> r\<lparr>exit_text := from_match ''Exit code'' (last xs)\<rparr>))"

fun poll_exit :: "nat \<Rightarrow> (nat \<Rightarrow> string list option) \<Rightarrow> bat_run \<Rightarrow> bat_run" where
  "poll_exit 0 answers r = (if exit_text (exit_of (answers 0) r) = [] then r\<lparr>exit_text := ''Success''\<rparr> else exit_of (answers 0) r)"
| "poll_exit (Suc n) answers r =
     (let r1 = exit_of (answers (Suc n)) r in if exit_text r1 \<noteq> [] then r1 else poll_exit n answers r1)"

text \<open>\<open>collect_and_clean\<close>, \<open>release\<close>, and the end of the thread after the loop.\<close>

definition collect_and_clean :: "(nat \<Rightarrow> string list option) \<Rightarrow> bat_run \<Rightarrow> bat_run" where
  "collect_and_clean answers r = (if need_clean r then poll_exit 2 answers r else r)\<lparr>need_clean := False\<rparr>"

definition release_bat :: "bat_run \<Rightarrow> bat_run" where
  "release_bat r =
     (if released_bat r then r
      else (if bat_state r = Bat_Running then bat_stop r else r)\<lparr>released_bat := True\<rparr>)"

definition bat_finish ::
  "(nat \<Rightarrow> string list option) \<Rightarrow> string list option \<Rightarrow> string list option \<Rightarrow> bat_run \<Rightarrow> unit res \<times> bat_run" where
  "bat_finish answers grep tail r =
     (let r1 = collect_and_clean answers r
      in andthen (if bat_state r1 \<noteq> Bat_Failed
            then (case get_current_stats grep tail (the_bat r1) of (v, b) \<Rightarrow> (v, r1\<lparr>the_bat := b\<rparr>))
            else done_with r1) (\<lambda>_ r. done_with (release_bat r)))"

definition bat_thread ::
  "(nat \<Rightarrow> string list option) \<Rightarrow> string list option \<Rightarrow> string list option \<Rightarrow>
     (node_answers \<times> rat \<times> bat_event) list \<Rightarrow> bat_run \<Rightarrow> bat_step \<times> bat_run" where
  "bat_thread answers grep tail evs r =
     (if released_bat r then (Leave, r)
      else if bat_state r \<noteq> Bat_Idle then (Bat_raise (ExecutionRunError ''Wrong state''), r\<lparr>need_clean := True\<rparr>)
      else case bat_loop evs (r\<lparr>need_clean := True, bat_state := Bat_Starting, start_left := 180, stop_left := 120\<rparr>) of
        (Leave, r1) \<Rightarrow>
          (case bat_finish answers grep tail r1 of
             (Inl e, r2) \<Rightarrow> (Bat_raise e, r2) | (Inr _, r2) \<Rightarrow> (Leave, r2))
      | q \<Rightarrow> q)"

section \<open>Ports and the command line\<close>

text \<open>
  \<open>free_port\<close>: with an offset the first free port of fifty, otherwise, or when none is free, a random
  one: \<open>draws\<close> is what \<open>randint\<close> returns. After a hundred further draws it gives up, without
  looking at the last one.
\<close>

fun draw_port :: "(int \<Rightarrow> bool) \<Rightarrow> (nat \<Rightarrow> int) \<Rightarrow> nat \<Rightarrow> nat \<Rightarrow> int res" where
  "draw_port free draws i 0 = Inl (ExecutionRunError ''Cannot get a free port in range'')"
| "draw_port free draws i (Suc tries) =
     (if free (draws i) then Inr (draws i) else draw_port free draws (Suc i) tries)"

definition free_port :: "(int \<Rightarrow> bool) \<Rightarrow> (nat \<Rightarrow> int) \<Rightarrow> int \<Rightarrow> int option \<Rightarrow> int res" where
  "free_port free draws lower offset =
     (case Option.bind offset (\<lambda>k. find free [lower + k..lower + k + 49]) of
        Some p \<Rightarrow> Inr p
      | None \<Rightarrow> draw_port free draws 0 100)"

definition telnet_lower_port :: "int \<Rightarrow> int" where
  "telnet_lower_port i = 6000 + 100 * i"

definition mc_lower_port :: "int \<Rightarrow> int" where
  "mc_lower_port i = 7000 + 100 * i"

definition traffic_type_of :: "string \<Rightarrow> string res" where
  "traffic_type_of parameters =
     (let ws = split_on (CHR '' '') parameters
      in if ''-C'' \<notin> set ws then Inl (ValueError ''-C is not in list'')
         else py_nth ws (int (length (takeWhile (\<lambda>x. x \<noteq> ''-C'') ws)) + 1))"

end
