(* ===== verification/Error_Monitor_Props.thy ===== *)
theory Error_Monitor_Props
  imports Error_Monitor
begin

text \<open>
  The error rate of a phase: from the start of the monitoring to its end the scenario's register
  collects what the traffic instances count in between, and nothing else.
\<close>

section \<open>One traffic instance\<close>

definition takes_part :: "string \<Rightarrow> bat_db \<Rightarrow> bool" where
  "takes_part ph b \<longleftrightarrow> map_of (bat_enable b) ph = Some True \<and> map_of (error_db b) ph \<noteq> None"

definition opened :: "rat \<Rightarrow> string \<Rightarrow> bat_db \<Rightarrow> bat_db" where
  "opened now ph b = b\<lparr>error_db := dict_modify ph
     (\<lambda>rs. rs @ [\<lparr>br_start = now, br_stop = None, br_executed = 0, br_errors = 0\<rparr>]) (error_db b)\<rparr>"

lemma open_register: "takes_part ph b \<Longrightarrow> bat_open_register now ph b = (Inr (), opened now ph b)"
  by (auto simp: takes_part_def bat_open_register_def opened_def key_def done_with_def)

text \<open>The phase is entered after its register was opened; then the instance counts.\<close>

fun counts :: "(int \<times> int) list \<Rightarrow> bat_db \<Rightarrow> bat_db" where
  "counts [] b = b"
| "counts ((ex, er) # us) b = counts us (snd (bat_update_register ex er b))"

definition counting :: "string \<Rightarrow> int \<Rightarrow> int \<Rightarrow> bat_db \<Rightarrow> bool" where
  "counting ph ex er b \<longleftrightarrow> traffic_phase b = ph \<and>
     (\<exists>rs r. map_of (error_db b) ph = Some (rs @ [r]) \<and> br_stop r = None \<and> br_executed r = ex \<and> br_errors r = er)"

lemma registering: "counting ph ex er b \<Longrightarrow> error_db_registering b = Inr True"
  by (auto simp: counting_def error_db_registering_def key_def)

lemma counting_opened: "takes_part ph b \<Longrightarrow> counting ph 0 0 ((opened now ph b)\<lparr>traffic_phase := ph\<rparr>)"
  by (auto simp: takes_part_def counting_def opened_def dict_simps)

lemma counting_update:
  "counting ph ex er b \<Longrightarrow> counting ph (ex + x) (er + y) (snd (bat_update_register x y b))"
  by (frule registering)
    (auto simp: counting_def bat_update_register_def done_with_def on_last_def dict_simps)

lemma counting_counts:
  "counting ph ex er b \<Longrightarrow>
     counting ph (ex + sum_list (map fst us)) (er + sum_list (map snd us)) (counts us b)"
proof (induction us arbitrary: ex er b)
  case (Cons u us)
  obtain x y where u: "u = (x, y)" by (cases u)
  from Cons.IH [OF counting_update [OF Cons.prems, of x y]] show ?case by (simp add: u algebra_simps)
qed simp

lemma close_counting:
  assumes "counting ph ex er b"
  obtains c where "bat_close_register now b = (Inr (), c)" and "bat_read_counters c = (ex, er)"
    and "error_db_registering c = Inr False"
proof -
  from assms obtain rs r where r: "traffic_phase b = ph" "map_of (error_db b) ph = Some (rs @ [r])"
    "br_executed r = ex" "br_errors r = er"
    by (auto simp: counting_def)
  let ?c = "on_last (\<lambda>r. r\<lparr>br_stop := Some now\<rparr>) b"
  have m: "map_of (error_db ?c) (traffic_phase ?c) = Some (rs @ [r\<lparr>br_stop := Some now\<rparr>])"
    using r(1,2) by (simp add: on_last_def dict_simps)
  show thesis
  proof (rule that)
    show "bat_close_register now b = (Inr (), ?c)"
      by (simp add: bat_close_register_def registering [OF assms] done_with_def)
    show "bat_read_counters ?c = (ex, er)"
      using m r(3,4) by (cases rs) (simp_all add: bat_read_counters_def)
    show "error_db_registering ?c = Inr False"
      using m by (simp add: error_db_registering_def key_def)
  qed
qed

section \<open>All of them\<close>

lemma each_db_map: "(\<And>b. b \<in> set bs \<Longrightarrow> f b = (Inr (), g b)) \<Longrightarrow> each_db f bs = (Inr (), map g bs)"
  by (induction bs) auto

definition phase_traffic :: "string \<Rightarrow> (int \<times> int) list list \<Rightarrow> bat_db list \<Rightarrow> bat_db list" where
  "phase_traffic ph us bs = map2 (\<lambda>u b. counts u (b\<lparr>traffic_phase := ph\<rparr>)) us bs"

lemma close_all:
  assumes "length us = length bs" and "\<forall>b \<in> set bs. takes_part ph b"
  obtains cs where
    "each_db (bat_close_register end_time) (phase_traffic ph us (map (opened now ph) bs)) = (Inr (), cs)"
    and "sum_counters cs = (sum_list (map fst (concat us)), sum_list (map snd (concat us)))"
    and "\<forall>c \<in> set cs. error_db_registering c = Inr False"
  using assms
proof (induction us bs arbitrary: thesis rule: list_induct2')
  case 1
  then show ?case by (simp add: phase_traffic_def sum_counters_def)
next
  case (4 u us b bs)
  let ?b = "counts u ((opened now ph b)\<lparr>traffic_phase := ph\<rparr>)"
  have "counting ph (sum_list (map fst u)) (sum_list (map snd u)) ?b"
    using counting_counts [OF counting_opened [of ph b now], of u] "4.prems"(3) by simp
  from close_counting [OF this, of end_time] obtain c where c: "bat_close_register end_time ?b = (Inr (), c)"
    "bat_read_counters c = (sum_list (map fst u), sum_list (map snd u))" "error_db_registering c = Inr False"
    by blast
  obtain cs where cs:
    "each_db (bat_close_register end_time) (phase_traffic ph us (map (opened now ph) bs)) = (Inr (), cs)"
    "sum_counters cs = (sum_list (map fst (concat us)), sum_list (map snd (concat us)))"
    "\<forall>c \<in> set cs. error_db_registering c = Inr False"
    using "4.IH" "4.prems"(2,3) by auto
  show ?case
    by (rule "4.prems"(1) [of "c # cs"]) (use c cs in \<open>auto simp: phase_traffic_def sum_counters_def\<close>)
qed simp_all

text \<open>C10: between the start of the monitoring of a phase and its end the scenario's error rate is
  computed from exactly what the traffic instances that take part count in the phase, and the
  check of the error rate fails for it exactly when it is above the limit; no register of an
  instance stays open.\<close>

theorem scenario_error_rate:
  assumes "em_running s" and "em_enabled (s\<lparr>em_phase := ph\<rparr>)" and "\<forall>b \<in> set (em_bats s). takes_part ph b"
    and "em_start_monitoring now ph rate s = (r, s1)" and "length us = length (em_bats s)"
    and "em_stop_monitoring end_time (s1\<lparr>em_bats := phase_traffic ph us (em_bats s1)\<rparr>) = (out, s2)"
    and "ex = sum_list (map fst (concat us))" and "er = sum_list (map snd (concat us))"
  defines "x \<equiv> if ex \<noteq> 0 then percent er ex else 0"
    and "limit \<equiv> (case rate of None \<Rightarrow> default_error_rate s | Some y \<Rightarrow> y)"
  shows "out = Inr x \<and> \<not> em_monitoring s2 \<and>
    (em_failed_registers s2 = em_failed_registers s \<longleftrightarrow> x \<le> limit) \<and>
    (\<forall>b \<in> set (em_bats s2). error_db_registering b = Inr False)"
proof -
  let ?p = "set_error_rate rate (s\<lparr>em_phase := ph\<rparr>)"
  have "each_db (bat_open_register now ph) (em_bats s) = (Inr (), map (opened now ph) (em_bats s))"
    using assms(3) by (intro each_db_map open_register) blast
  then have s1: "s1 = (em_open_register now ?p)\<lparr>em_bats := map (opened now ph) (em_bats s), em_monitoring := True\<rparr>"
    using assms(1,2,4)
    by (auto simp: em_start_monitoring_def on_bats_def done_with_def Let_def em_open_register_def set_error_rate_def)
  from close_all [OF assms(5,3), of end_time now] obtain cs where cs:
    "each_db (bat_close_register end_time) (phase_traffic ph us (map (opened now ph) (em_bats s))) = (Inr (), cs)"
    "sum_counters cs = (ex, er)" "\<forall>c \<in> set cs. error_db_registering c = Inr False"
    using assms(7,8) by auto
  have "em_error_rate ?p = limit"
    by (simp add: set_error_rate_def limit_def default_error_rate_def split: option.split)
  then have db: "em_db s1 = em_db s @ [\<lparr>er_start = now, er_phase = ph, er_stop = None, er_executed = 0, er_errors = 0,
      er_rate = - 1, er_max_rate = limit, er_check = True\<rparr>]"
    by (simp add: s1 em_open_register_def set_error_rate_def)
  have run: "em_running s1" "em_monitoring s1" "em_bats s1 = map (opened now ph) (em_bats s)"
    using assms(1) by (simp_all add: s1 em_open_register_def set_error_rate_def)
  from assms(6) cs(1,2) run db have
    "out = Inr x" "\<not> em_monitoring s2" "em_bats s2 = cs"
    "em_db s2 = em_db s @ [\<lparr>er_start = now, er_phase = ph, er_stop = Some end_time, er_executed = ex,
       er_errors = er, er_rate = x, er_max_rate = limit, er_check = True\<rparr>]"
    by (auto simp: em_stop_monitoring_def on_bats_def Let_def em_close_register_def last_error_rate_def
        close_reg_def x_def)
  with cs(3) show ?thesis by (auto simp: em_failed_registers_def)
qed

definition demo_error_monitor :: error_monitor where
  "demo_error_monitor = \<lparr>em_running = True, em_monitoring = False, em_enable = [(''loadgen'', True)],
     em_phase = ''preexec'', em_default_rate = Some 2, em_error_rate = 1 / 10, em_db = [], em_log_open = True,
     em_bats = replicate 2 (new_bat_db (Some [(''loadgen'', True)]))\<rparr>"

theorem scenario_error_rate_witness:
  "\<exists>s1 s2. em_start_monitoring 10 ''loadgen'' None demo_error_monitor = (Inr (), s1) \<and>
     em_stop_monitoring 90 (s1\<lparr>em_bats := phase_traffic ''loadgen'' [[(40, 1), (50, 2)], [(10, 1)]] (em_bats s1)\<rparr>)
       = (Inr 4, s2) \<and> em_failed_registers s2 \<noteq> em_failed_registers demo_error_monitor"
proof -
  let ?us = "[[(40, 1), (50, 2)], [(10, 1)]] :: (int \<times> int) list list"
  obtain r s1 where s1: "em_start_monitoring 10 ''loadgen'' None demo_error_monitor = (r, s1)" by fastforce
  have r: "r = Inr ()"
  proof -
    have "fst (em_start_monitoring 10 ''loadgen'' None demo_error_monitor) = Inr ()" by code_simp
    with s1 show ?thesis by simp
  qed
  obtain out s2 where s2: "em_stop_monitoring 90 (s1\<lparr>em_bats := phase_traffic ''loadgen'' ?us (em_bats s1)\<rparr>) = (out, s2)"
    by fastforce
  have p: "em_running demo_error_monitor" "em_enabled (demo_error_monitor\<lparr>em_phase := ''loadgen''\<rparr>)"
    "\<forall>b \<in> set (em_bats demo_error_monitor). takes_part ''loadgen'' b"
    "length ?us = length (em_bats demo_error_monitor)" "100 = sum_list (map fst (concat ?us))"
    "4 = sum_list (map snd (concat ?us))"
    by (simp_all add: demo_error_monitor_def em_enabled_def takes_part_def new_bat_db_def)
  from scenario_error_rate [OF p(1-3) s1 p(4) s2 p(5,6)] have "out = Inr 4"
    "em_failed_registers s2 \<noteq> em_failed_registers demo_error_monitor"
    by (simp_all add: percent_def default_error_rate_def demo_error_monitor_def)
  with s1 s2 r show ?thesis by blast
qed

end
