(* ===== verification/Bat_Props.thy ===== *)
theory Bat_Props
  imports Bat_Instance Error_Monitor_Props
begin

text \<open>
  What an instance counts between its first and its last sample, and when its thread ends.
\<close>

section \<open>A sample changes values only\<close>

definition scripts_of :: "stats \<Rightarrow> string list" where
  "scripts_of t = dict_keys (st_scripts t)"

lemma keys_replace: "map_of d k \<noteq> None \<Longrightarrow> dict_keys (dict_set k v d) = dict_keys d"
  by (metis keys_set_present map_of_in_keys not_None_eq)

lemma parse_stat_scripts: "scripts_of (fst (snd (parse_stat l s))) = scripts_of (fst s)"
  by (auto simp: parse_stat_def andthen_def done_with_def scripts_of_def key_def Let_def keys_replace dict_simps
      split: sum.split option.split)

lemma parse_lines_scripts:
  "for_each parse_stat ls s = (r, s') \<Longrightarrow> scripts_of (fst s') = scripts_of (fst s)"
proof (induction ls arbitrary: s)
  case (Cons l ls)
  obtain r1 s1 where l: "parse_stat l s = (r1, s1)" by (metis surj_pair)
  with parse_stat_scripts [of l s] have "scripts_of (fst s1) = scripts_of (fst s)" by simp
  with Cons l show ?case by (cases r1) auto
qed simp

text \<open>
  The template, once built, keeps its scripts; a sample that was read is the template; nothing but
  the phase changes in the registers.
\<close>

definition reads_sample :: "bat \<Rightarrow> bat \<Rightarrow> bool" where
  "reads_sample b b' \<longleftrightarrow>
     (\<forall>t. error_stats b = Some t \<longrightarrow> (\<exists>u. error_stats b' = Some u \<and> scripts_of u = scripts_of t)) \<and>
     (current_stats b' = None \<or> current_stats b' = current_stats b \<or> current_stats b' = error_stats b') \<and>
     (\<exists>ph. bat_regs b' = (bat_regs b)\<lparr>traffic_phase := ph\<rparr>) \<and>
     last_stats b' = last_stats b \<and> bat_sampling b' = bat_sampling b \<and> stat_file b' = stat_file b"

lemma regs_same_phase: "\<exists>ph. x = x\<lparr>traffic_phase := ph\<rparr>"
  by (rule exI [of _ "traffic_phase x"]) simp

lemma template_kept: "error_stats b = Some t \<Longrightarrow> error_template grep b = (Inr (), b)"
  by (simp add: error_template_def done_with_def)

lemma template_only:
  "error_template grep b = (r, b') \<Longrightarrow> \<exists>t. b' = b\<lparr>error_stats := t\<rparr> \<and> (error_stats b \<noteq> None \<longrightarrow> t = error_stats b)"
proof (cases "error_stats b")
  case None
  assume "error_template grep b = (r, b')"
  with None show ?thesis
    by (cases b) (auto simp: error_template_def done_with_def split: if_splits option.splits prod.splits)
next
  case (Some t)
  moreover assume "error_template grep b = (r, b')"
  ultimately show ?thesis by (cases b) (auto simp: template_kept)
qed

lemma get_current_stats_reads:
  assumes "get_current_stats grep tail b = (r, b')"
  shows "reads_sample b b'"
proof (cases "stat_file b = None")
  case True
  with assms regs_same_phase show ?thesis
    by (auto simp: get_current_stats_def done_with_def reads_sample_def)
next
  case False
  obtain v b1 where t: "error_template grep b = (v, b1)" by fastforce
  then obtain u where b1: "b1 = b\<lparr>error_stats := u\<rparr>" "error_stats b \<noteq> None \<longrightarrow> u = error_stats b"
    using template_only by blast
  show ?thesis
  proof (cases v)
    case (Inl e)
    with assms False t b1 regs_same_phase show ?thesis
      by (auto simp: get_current_stats_def reads_sample_def)
  next
    case (Inr w)
    show ?thesis
    proof (cases u)
      case None
      with assms False t b1 Inr regs_same_phase show ?thesis
        by (auto simp: get_current_stats_def done_with_def reads_sample_def)
    next
      case (Some x)
      show ?thesis
      proof (cases "\<exists>ls. tail = Some ls \<and> \<not> contains ''cannot open'' (join '' '' ls)")
        case False': False
        then show ?thesis using assms False t b1 Inr Some regs_same_phase [of "bat_regs b"]
          by (auto simp: get_current_stats_def done_with_def reads_sample_def split: option.splits)
      next
        case True
        then obtain ls where ls: "tail = Some ls" "\<not> contains ''cannot open'' (join '' '' ls)" by blast
        obtain r2 t2 ph where p: "for_each parse_stat (sample_lines ls) (x, get_phase b1) = (r2, (t2, ph))"
          by (metis surj_pair)
        have "scripts_of t2 = scripts_of x" using parse_lines_scripts [OF p] by simp
        with assms False t b1 Inr Some ls p regs_same_phase [of "bat_regs b"] show ?thesis
          by (auto simp: get_current_stats_def done_with_def reads_sample_def set_phase_def split: sum.splits)
      qed
    qed
  qed
qed

section \<open>Totals\<close>

definition failed_in :: "string \<Rightarrow> script_values \<Rightarrow> int" where
  "failed_in ph v = in_phase ph v ! 2"

definition done_in :: "string \<Rightarrow> script_values \<Rightarrow> int" where
  "done_in ph v = in_phase ph v ! 2 + in_phase ph v ! 1"

definition total_failed :: "string \<Rightarrow> stats \<Rightarrow> int" where
  "total_failed ph t = sum_list (map (failed_in ph \<circ> snd) (st_scripts t))"

definition total_done :: "string \<Rightarrow> stats \<Rightarrow> int" where
  "total_done ph t = sum_list (map (done_in ph \<circ> snd) (st_scripts t))"

lemma failures_of_Inr:
  "failures_of ph v = Inr (errs, good) \<Longrightarrow> errs = failed_in ph v \<and> errs + good = done_in ph v"
  by (auto simp: failures_of_def bind_res_def py_nth_def failed_in_def done_in_def Let_def
      split: sum.splits if_splits)

lemma bind_res_Inr: "bind_res r f = Inr v \<longleftrightarrow> (\<exists>x. r = Inr x \<and> f x = Inr v)"
  by (simp add: bind_res_def split: sum.split)

lemma script_deltas_sums:
  "script_deltas ph cs l = Inr ds \<Longrightarrow>
     sum_list (map (\<lambda>(_, x, _). x) ds) =
       sum_list (map (done_in ph \<circ> snd) cs) - sum_list (map (done_in ph \<circ> the \<circ> map_of (st_scripts l) \<circ> fst) cs) \<and>
     sum_list (map (\<lambda>(_, _, y). y) ds) =
       sum_list (map (failed_in ph \<circ> snd) cs) - sum_list (map (failed_in ph \<circ> the \<circ> map_of (st_scripts l) \<circ> fst) cs)"
proof (induction cs arbitrary: ds)
  case (Cons c cs)
  obtain sc v where c: "c = (sc, v)" by (cases c)
  from Cons.prems c obtain errs good w errs' good' es where d:
    "failures_of ph v = Inr (errs, good)" "map_of (st_scripts l) sc = Some w"
    "failures_of ph w = Inr (errs', good')" "script_deltas ph cs l = Inr es"
    "ds = (sc, errs - errs' + (good - good'), errs - errs') # es"
    by (auto simp: bind_res_Inr key_def Let_def split: if_splits option.splits prod.splits)
  from failures_of_Inr [OF d(1)] failures_of_Inr [OF d(3)] Cons.IH [OF d(4)] d(2,5) c show ?case by auto
qed simp

lemma same_scripts_sum:
  assumes "scripts_of c = scripts_of l" and "distinct (scripts_of l)"
  shows "sum_list (map (g \<circ> the \<circ> map_of (st_scripts l) \<circ> fst) (st_scripts c)) = sum_list (map (g \<circ> snd) (st_scripts l))"
proof -
  have "map (g \<circ> the \<circ> map_of (st_scripts l) \<circ> fst) (st_scripts c) =
      map (g \<circ> the \<circ> map_of (st_scripts l)) (scripts_of l)"
    using assms(1) by (simp add: scripts_of_def flip: map_map)
  also have "\<dots> = map (g \<circ> snd) (st_scripts l)"
    using assms(2) by (auto simp: scripts_of_def map_of_is_SomeI intro!: map_cong)
  finally show ?thesis by simp
qed

section \<open>Sampling a phase\<close>

lemma template_of_distinct:
  "template_of ls t = (r, t') \<Longrightarrow> (\<forall>u. t = Some u \<longrightarrow> distinct (scripts_of u)) \<Longrightarrow>
     (\<forall>u. t' = Some u \<longrightarrow> distinct (scripts_of u))"
proof (induction ls arbitrary: t)
  case (Cons l ls)
  show ?case
  proof (cases "contains ''Capture_Started'' l")
    case False
    then have "template_of (l # ls) t = template_of ls t" by (simp only: template_of.simps if_False)
    with Cons.prems(1) have "template_of ls t = (r, t')" by (simp only:)
    then show ?thesis using Cons.prems(2) by (rule Cons.IH)
  next
    case True
    show ?thesis
    proof (cases "script_of l")
      case (Inl e)
      with True have "template_of (l # ls) t = (Inl e, t)"
        by (simp only: template_of.simps if_True andthen_simps)
      with Cons.prems show ?thesis by (simp only: prod.inject)
    next
      case (Inr sc)
      let ?t = "Some \<lparr>st_time = 0,
            st_scripts = dict_set sc zero_values (case t of None \<Rightarrow> [] | Some u \<Rightarrow> st_scripts u)\<rparr>"
      from True Inr have "template_of (l # ls) t = template_of ls ?t"
        by (simp only: template_of.simps if_True andthen_simps)
      with Cons.prems(1) have "template_of ls ?t = (r, t')" by (simp only:)
      moreover have "\<forall>u. ?t = Some u \<longrightarrow> distinct (scripts_of u)"
        using Cons.prems(2) by (cases t) (auto simp: scripts_of_def distinct_keys_set)
      ultimately show ?thesis by (rule Cons.IH)
    qed
  qed
qed simp

definition good_template :: "bat \<Rightarrow> bool" where
  "good_template b \<longleftrightarrow> (\<forall>t. error_stats b = Some t \<longrightarrow> distinct (scripts_of t))"

lemma good_template_error: "error_template grep b = (r, b') \<Longrightarrow> good_template b \<Longrightarrow> good_template b'"
  using template_of_distinct [where t = None]
  by (auto simp: error_template_def good_template_def done_with_def split: if_splits option.splits prod.splits)

lemma good_template_current:
  assumes "get_current_stats grep tail b = (r, b')" and "good_template b"
  shows "good_template b'"
proof (cases "stat_file b = None")
  case True
  with assms show ?thesis by (simp add: get_current_stats_def done_with_def)
next
  case False
  obtain v b1 where t: "error_template grep b = (v, b1)" by (metis surj_pair)
  then have g: "good_template b1" using assms(2) by (rule good_template_error)
  have "good_template b'" if "error_stats b1 = Some x" "v = Inr ()" "error_stats b' = Some y"
    "scripts_of y = scripts_of x" for x y
    using g that by (simp add: good_template_def)
  moreover have "b' = b1 \<or> error_stats b' = error_stats b1 \<or>
      (\<exists>x y. error_stats b1 = Some x \<and> v = Inr () \<and> error_stats b' = Some y \<and> scripts_of y = scripts_of x)"
    using assms(1) False t parse_lines_scripts [of "sample_lines (the tail)" "(the (error_stats b1), get_phase b1)"]
    by (auto simp: get_current_stats_def done_with_def set_phase_def andthen_def
        split: sum.splits option.splits if_splits prod.splits)
  ultimately show ?thesis using g by (auto simp: good_template_def)
qed

text \<open>The register of the phase holds what was counted from the sample \<open>c\<close> to the last one.\<close>

definition counted_from :: "string \<Rightarrow> stats \<Rightarrow> bat \<Rightarrow> bool" where
  "counted_from ph c b \<longleftrightarrow> (\<exists>l t. last_stats b = Some l \<and> error_stats b = Some t \<and>
     scripts_of l = scripts_of t \<and> distinct (scripts_of t) \<and>
     (\<forall>u. current_stats b = Some u \<longrightarrow> scripts_of u = scripts_of t) \<and>
     counting ph (total_done ph l - total_done ph c) (total_failed ph l - total_failed ph c) (bat_regs b))"

lemma counting_phase: "counting ph x y (b\<lparr>traffic_phase := q\<rparr>) \<longleftrightarrow>
    q = ph \<and> counting ph x y (b\<lparr>traffic_phase := ph\<rparr>)"
  by (auto simp: counting_def)

lemma counting_rephased: "counting ph x y b \<Longrightarrow> counting ph x y (b\<lparr>traffic_phase := ph\<rparr>)"
  by (simp add: counting_def)

lemma get_phase_update:
  "traffic_phase (snd (bat_update_register x y b)) = traffic_phase b"
  by (simp add: bat_update_register_def on_last_def done_with_def andthen_def split: sum.split)

text \<open>The counters of the generator only grow: errors without executions do not come up.\<close>

definition regular_out :: "delta option \<Rightarrow> bool" where
  "regular_out out \<longleftrightarrow> (case out of None \<Rightarrow> True | Some d \<Rightarrow> fst (total_rate d) = 0 \<longrightarrow> fst (snd (total_rate d)) = 0)"

lemma update_errors_counted:
  assumes "counted_from ph c b" and "update_errors_info grep tail b = (Inr out, b')" and "get_phase b' = ph"
    and "regular_out out"
  shows "counted_from ph c b'"
proof -
  from assms(1) obtain l t where b: "last_stats b = Some l" "error_stats b = Some t"
    "scripts_of l = scripts_of t" "distinct (scripts_of t)"
    "\<forall>u. current_stats b = Some u \<longrightarrow> scripts_of u = scripts_of t"
    "counting ph (total_done ph l - total_done ph c) (total_failed ph l - total_failed ph c) (bat_regs b)"
    by (auto simp: counted_from_def)
  obtain r b1 where g: "get_current_stats grep tail b = (r, b1)" by (metis surj_pair)
  from get_current_stats_reads [OF g] b obtain u q where r1: "error_stats b1 = Some u" "scripts_of u = scripts_of t"
    "current_stats b1 = None \<or> current_stats b1 = current_stats b \<or> current_stats b1 = Some u"
    "bat_regs b1 = (bat_regs b)\<lparr>traffic_phase := q\<rparr>" "last_stats b1 = Some l"
    by (auto simp: reads_sample_def)
  obtain w where r: "r = Inr w" using assms(2) g by (cases r) (auto simp: update_errors_info_def)
  show ?thesis
  proof (cases "current_stats b1")
    case None
    with assms(2) g r have "b' = b1" by (simp add: update_errors_info_def)
    with assms(3) b r1 None show ?thesis
      by (auto simp: counted_from_def get_phase_def counting_rephased)
  next
    case (Some d)
    have d: "scripts_of d = scripts_of l" using Some r1(1,2,3) b(3,5) by auto
    from assms(2) g r Some r1(5) obtain ds where ds:
      "script_deltas (get_phase b1) (st_scripts d) l = Inr ds"
      by (auto simp: update_errors_info_def done_with_def andthen_Inr)
    define ex er where "ex = sum_list (map (\<lambda>(_, x, _). x) ds)" and "er = sum_list (map (\<lambda>(_, _, y). y) ds)"
    define b2 where "b2 = (if ex \<noteq> 0 then b1\<lparr>bat_regs := snd (bat_update_register ex er (bat_regs b1))\<rparr> else b1)"
    have b': "b' = b1 \<or> b' = b2\<lparr>last_stats := Some d\<rparr> \<and> (ex = 0 \<longrightarrow> er = 0)"
      using assms(2,4) g r Some r1(5) ds
      by (auto simp: update_errors_info_def done_with_def andthen_def Let_def b2_def regular_out_def simp flip: ex_def er_def
          split: if_splits sum.splits prod.splits)
    then have b'': "b' = b1 \<or> b' = b2\<lparr>last_stats := Some d\<rparr>" by blast
    have ph: "get_phase b1 = ph"
      using b' assms(3) by (auto simp: b2_def get_phase_def get_phase_update split: if_splits)
    have cnt: "counting ph (total_done ph l - total_done ph c) (total_failed ph l - total_failed ph c) (bat_regs b1)"
      using ph b(6) r1(4) by (simp add: get_phase_def counting_rephased)
    have sums: "ex = total_done ph d - total_done ph l" "er = total_failed ph d - total_failed ph l"
      using script_deltas_sums [OF ds] same_scripts_sum [OF d, of "done_in ph"]
        same_scripts_sum [OF d, of "failed_in ph"] b(3,4) ph
      by (auto simp: ex_def er_def total_done_def total_failed_def o_assoc)
    show ?thesis
    proof (cases "b' = b1")
      case True
      with b r1 Some d cnt show ?thesis by (auto simp: counted_from_def)
    next
      case False
      with b' have k: "ex = 0 \<Longrightarrow> er = 0" by blast
      have "counting ph (total_done ph d - total_done ph c) (total_failed ph d - total_failed ph c) (bat_regs b2)"
        using counting_update [OF cnt, of ex er] cnt sums k by (auto simp: b2_def)
      with False b' b r1 Some d show ?thesis
        by (auto simp: counted_from_def b2_def split: if_splits)
    qed
  qed
qed

text \<open>The first sample is written into the template before the template is taken as the last sample.\<close>

lemma first_sample:
  assumes "last_stats b = None" and "current_stats b = None" and "0 < bat_sampling b" and "good_template b"
    and "counting ph 0 0 (bat_regs b)" and "update_errors_info grep tail b = (Inr out, b')"
    and "current_stats b' = Some c" and "get_phase b' = ph"
  shows "out = None \<and> counted_from ph c b'"
proof -
  obtain r b1 where g: "get_current_stats grep tail b = (r, b1)" by (metis surj_pair)
  obtain w where r: "r = Inr w" using assms(6) g by (cases r) (auto simp: update_errors_info_def)
  from get_current_stats_reads [OF g] assms(1,2) obtain q where r1:
    "current_stats b1 = None \<or> current_stats b1 = error_stats b1" "bat_regs b1 = (bat_regs b)\<lparr>traffic_phase := q\<rparr>"
    "last_stats b1 = None" "bat_sampling b1 = bat_sampling b"
    by (auto simp: reads_sample_def)
  show ?thesis
  proof (cases "current_stats b1")
    case None
    with assms(6,7) g r show ?thesis by (simp add: update_errors_info_def)
  next
    case (Some d)
    with r1(1) have t: "error_stats b1 = Some d" by simp
    let ?b2 = "b1\<lparr>last_stats := Some d\<rparr>"
    have u: "update_errors_info grep tail b = (case script_deltas (get_phase b1) (st_scripts d) d of
        Inl e \<Rightarrow> (Inl e, ?b2) | Inr ds \<Rightarrow> (Inr None, ?b2))"
      using g r Some t r1(3,4) assms(3) template_kept [OF t, of grep]
      by (simp add: update_errors_info_def done_with_def Let_def get_phase_def split: sum.split)
    with assms(6) have b': "b' = ?b2" "out = None" by (auto split: sum.splits)
    with assms(7) Some have "d = c" by simp
    have "distinct (scripts_of c)"
      using good_template_current [OF g assms(4)] t \<open>d = c\<close> by (simp add: good_template_def)
    moreover have "counting ph 0 0 (bat_regs b1)"
      using assms(5,8) r1(2) b' by (simp add: get_phase_def counting_rephased)
    ultimately show ?thesis using b' Some t \<open>d = c\<close> by (simp add: counted_from_def)
  qed
qed

text \<open>A sequence of samples that all stay in the phase.\<close>

fun sampled :: "string \<Rightarrow> (string list option \<times> string list option) list \<Rightarrow> bat \<Rightarrow> bat option" where
  "sampled ph [] b = Some b"
| "sampled ph ((grep, tail) # rest) b =
     (case update_errors_info grep tail b of
        (Inr out, b') \<Rightarrow> if get_phase b' = ph \<and> regular_out out then sampled ph rest b' else None
      | (Inl e, b') \<Rightarrow> None)"

lemma sampled_counted: "sampled ph as b = Some b' \<Longrightarrow> counted_from ph c b \<Longrightarrow> counted_from ph c b'"
proof (induction as arbitrary: b)
  case (Cons a as)
  obtain grep tail where a: "a = (grep, tail)" by (cases a)
  obtain r b1 where u: "update_errors_info grep tail b = (r, b1)" by (metis surj_pair)
  from Cons.prems(1) a u obtain out where r: "r = Inr out" "get_phase b1 = ph" "regular_out out"
    "sampled ph as b1 = Some b'"
    by (cases r) (auto split: if_splits)
  from update_errors_counted [OF Cons.prems(2) _ r(2,3)] u r(1) have "counted_from ph c b1" by simp
  with Cons.IH r(4) show ?case by blast
qed simp

lemma counting_reads: "counting ph n m x \<Longrightarrow> bat_read_counters x = (n, m)"
proof -
  assume "counting ph n m x"
  then obtain rs r where "map_of (error_db x) (traffic_phase x) = Some (rs @ [r])"
    "br_executed r = n" "br_errors r = m"
    by (auto simp: counting_def)
  then show ?thesis by (cases rs) (simp_all add: bat_read_counters_def)
qed

text \<open>C27: in the first phase that is sampled, that is, when no sample has been read before, what a
  traffic instance counts is the difference between the last sample that counted and the first
  one, however the samples are spaced: none is counted twice, but what the generator had done
  before the first sample is never counted, because the first sample is written into the
  dictionary that serves as its own predecessor. The samples have to stay in the phase, to be read
  without an exception, and to count no errors where nothing was executed (\<open>regular_out\<close>, which counters that
  only grow fulfil). A later phase counts from the last sample of the phase before
  (\<open>later_phase_counts_all\<close>).\<close>

theorem counts_since_first_sample:
  assumes "last_stats b0 = None" and "current_stats b0 = None" and "error_stats b0 = None"
    and "0 < bat_sampling b0" and "counting ph 0 0 (bat_regs b0)"
    and "update_errors_info grep tail b0 = (Inr out, b1)" and "current_stats b1 = Some c" and "get_phase b1 = ph"
    and "sampled ph as b1 = Some b"
  shows "out = None \<and> (\<exists>l. last_stats b = Some l \<and>
    bat_read_counters (bat_regs b) =
      (total_done ph l - total_done ph c, total_failed ph l - total_failed ph c))"
proof -
  have "good_template b0" using assms(3) by (simp add: good_template_def)
  from first_sample [OF assms(1,2,4) this assms(5-8)] have f: "out = None" "counted_from ph c b1" by auto
  from sampled_counted [OF assms(9) f(2)] obtain l where l: "last_stats b = Some l"
    "counting ph (total_done ph l - total_done ph c) (total_failed ph l - total_failed ph c) (bat_regs b)"
    by (auto simp: counted_from_def)
  with counting_reads f(1) show ?thesis by blast
qed

text \<open>With a last sample there already, which is what a later phase begins with, nothing is lost.\<close>

lemma later_phase_counts_all:
  assumes "last_stats b0 = Some c" and "error_stats b0 = Some t" and "scripts_of c = scripts_of t" "distinct (scripts_of t)"
    and "\<And>u. current_stats b0 = Some u \<Longrightarrow> scripts_of u = scripts_of t"
    and "counting ph 0 0 (bat_regs b0)" and "sampled ph as b0 = Some b"
  shows "\<exists>l. last_stats b = Some l \<and>
    bat_read_counters (bat_regs b) =
      (total_done ph l - total_done ph c, total_failed ph l - total_failed ph c)"
proof -
  have "counted_from ph c b0" using assms(1-6) by (simp add: counted_from_def)
  from sampled_counted [OF assms(7) this] show ?thesis by (auto simp: counted_from_def dest: counting_reads)
qed

definition demo_bat :: bat where
  "demo_bat = \<lparr>bat_id = ''B1'',
     bat_regs = snd (bat_open_register 10 ''preexec'' (new_bat_db (Some [(''preexec'', True)]))),
     bat_sampling = 5, stat_file = Some ''stats_-Measure.txt'', error_stats = None, current_stats = None,
     last_stats = None\<rparr>"

definition demo_line :: "string \<Rightarrow> string list option" where
  "demo_line counters = Some [[], ''[\"Group.G.x.Reg\"],'' @ counters]"

definition demo_samples :: "(string list option \<times> string list option) list" where
  "demo_samples = map (\<lambda>c. (Some [''[\"Group.G.x.Reg\"] Capture_Started''], demo_line c))
     [''20.0,: 100 90 10 0 0 0 0 0 0'', ''22.0,: 120 108 12 0 0 0 0 0 0'', ''30.0,: 200 170 30 0 0 0 0 0 0'']"

definition demo_first :: bat where
  "demo_first = snd (update_errors_info (fst (hd demo_samples)) (snd (hd demo_samples)) demo_bat)"

theorem counts_since_first_sample_witness:
  "\<exists>b. sampled ''preexec'' (tl demo_samples) demo_first = Some b \<and> bat_read_counters (bat_regs b) = (100, 20)"
proof -
  have f: "update_errors_info (fst (hd demo_samples)) (snd (hd demo_samples)) demo_bat = (Inr None, demo_first)"
    "get_phase demo_first = ''preexec''" "current_stats demo_first =
      Some \<lparr>st_time = 20, st_scripts = [(''Reg'', \<lparr>in_preexec = [100, 90, 10], in_loadgen = [0, 0, 0],
        in_postexec = [0, 0, 0]\<rparr>)]\<rparr>" (is "_ = Some ?c")
    by code_simp+
  have s: "map_option last_stats (sampled ''preexec'' (tl demo_samples) demo_first) =
      Some (Some \<lparr>st_time = 30, st_scripts = [(''Reg'', \<lparr>in_preexec = [200, 170, 30], in_loadgen = [0, 0, 0],
        in_postexec = [0, 0, 0]\<rparr>)]\<rparr>)" (is "_ = Some (Some ?l)")
    by code_simp
  then obtain b where b: "sampled ''preexec'' (tl demo_samples) demo_first = Some b" "last_stats b = Some ?l"
    by auto
  have d: "last_stats demo_bat = None" "current_stats demo_bat = None" "error_stats demo_bat = None"
    "0 < bat_sampling demo_bat"
    by (simp_all add: demo_bat_def)
  have "counting ''preexec'' 0 0 (bat_regs demo_bat)"
    by (simp add: counting_def demo_bat_def bat_open_register_def new_bat_db_def key_def done_with_def dict_simps)
  from counts_since_first_sample [OF d this f(1,3,2) b(1)] b(2) have
    "bat_read_counters (bat_regs b) =
      (total_done ''preexec'' ?l - total_done ''preexec'' ?c, total_failed ''preexec'' ?l - total_failed ''preexec'' ?c)"
    by auto
  also have "\<dots> = (100, 20)" by code_simp
  finally show ?thesis using b(1) by blast
qed

section \<open>The end of the thread\<close>

lemma stopping_timeouts:
  "bat_state r = Bat_Stopping \<Longrightarrow> 0 < dt \<Longrightarrow> stop_left r \<le> of_nat n * dt \<Longrightarrow> 0 < n \<Longrightarrow>
     \<exists>r'. bat_loop (replicate n (a, dt, Bat_timeout)) r = (Leave, r') \<and> stops_sent r' = stops_sent r \<and>
       bat_state r' = Bat_Stopping"
proof (induction n arbitrary: r)
  case (Suc n)
  let ?r = "r\<lparr>stop_left := stop_left r - dt\<rparr>"
  have s: "bat_step a dt Bat_timeout r = (if stop_left r - dt > 0 then Go_on else Leave, ?r)"
    using Suc.prems(1) by (simp add: bat_step_def on_timeout_def wait_stopping_def)
  show ?case
  proof (cases "stop_left r - dt > 0")
    case False
    with s Suc.prems(1) show ?thesis by simp
  next
    case True
    have le: "stop_left ?r \<le> of_nat n * dt" using Suc.prems(3) by (simp add: algebra_simps)
    with True have "0 < n" by (cases n) auto
    with le Suc.IH [of ?r] Suc.prems(1,2) obtain r' where
      "bat_loop (replicate n (a, dt, Bat_timeout)) ?r = (Leave, r')" "stops_sent r' = stops_sent r"
      "bat_state r' = Bat_Stopping" by auto
    with s True show ?thesis by simp
  qed
qed simp

lemma printing_goes_on:
  assumes "length out \<le> 4"
  shows "bat_state r = Bat_Stopping \<Longrightarrow> \<exists>r'. bat_loop (replicate n (a, dt, Bat_line out)) r = (Go_on, r') \<and>
    bat_state r' = Bat_Stopping"
proof (induction n arbitrary: r)
  case (Suc n)
  then have "bat_step a dt (Bat_line out) r = (Go_on, r\<lparr>stop_left := stop_left r - dt\<rparr>)"
    using assms by (simp add: bat_step_def on_line_def read_line_def done_with_def)
  with Suc.IH [of "r\<lparr>stop_left := stop_left r - dt\<rparr>"] Suc.prems show ?case by simp
qed simp

text \<open>A running instance that is told to stop sends one Ctrl-C to the generator and, when the
  generator stays silent, leaves its loop after at most the two minutes it allows for the
  shutdown. The limit is looked at when nothing is printed only: as long as the generator keeps
  printing, the thread goes on for any time.\<close>

theorem stop_is_bounded_when_silent:
  assumes "bat_state r \<in> {Bat_Starting, Bat_Running}" and "stop_left r = 120" and "0 < dt" and "120 \<le> of_nat n * dt"
  shows "(\<exists>r'. bat_loop ((a, 0, Stop_call) # replicate (Suc n) (a, dt, Bat_timeout)) r = (Leave, r') \<and>
      stops_sent r' = Suc (stops_sent r)) \<and>
    (\<exists>r'. bat_loop ((a, 0, Stop_call) # (a, dt, Bat_timeout) # replicate n (a, dt, Bat_line [])) r = (Go_on, r') \<and>
      bat_state r' = Bat_Stopping)"
proof -
  let ?p = "r\<lparr>bat_state := Bat_Pending\<rparr>"
  let ?s = "r\<lparr>bat_state := Bat_Stopping, stops_sent := Suc (stops_sent r)\<rparr>"
  have stop: "bat_step a 0 Stop_call r = (Go_on, ?p)"
    using assms(1) by (auto simp: bat_step_def bat_stop_def)
  have t: "bat_step a dt Bat_timeout ?p = (Go_on, ?s)"
    by (simp add: bat_step_def on_timeout_def stop_now_def stop_traffic_def)
  have "0 < n" using assms(4) by (cases n) auto
  with stopping_timeouts [of ?s dt n a] assms(2-4) obtain r' where
    "bat_loop (replicate n (a, dt, Bat_timeout)) ?s = (Leave, r')" "stops_sent r' = Suc (stops_sent r)"
    by auto
  moreover obtain r'' where "bat_loop (replicate n (a, dt, Bat_line [])) ?s = (Go_on, r'')"
    "bat_state r'' = Bat_Stopping"
    using printing_goes_on [of "[]" ?s n a dt] by auto
  ultimately show ?thesis using stop t by simp
qed

definition demo_bat_run :: bat_run where
  "demo_bat_run = \<lparr>the_bat = demo_bat, bat_state = Bat_Running, exit_text = [], need_clean = True, start_left = 180,
     stop_left = 120, stops_sent = 0, diaproxys = [], loadplotter = None, released_bat = False\<rparr>"

definition no_answers :: node_answers where
  "no_answers = \<lparr>found_files = None, grep_answer = None, tail_answer = None\<rparr>"

theorem stop_is_bounded_when_silent_witness:
  "fst (bat_loop ((no_answers, 0, Stop_call) # replicate (Suc 12) (no_answers, 10, Bat_timeout)) demo_bat_run) = Leave"
proof -
  have "bat_state demo_bat_run \<in> {Bat_Starting, Bat_Running}" "stop_left demo_bat_run = 120"
    "(0 :: rat) < 10" "(120 :: rat) \<le> of_nat 12 * 10"
    by (simp_all add: demo_bat_run_def)
  from stop_is_bounded_when_silent [OF this, of no_answers] show ?thesis by force
qed

end
