(* ===== verification/Action_Handler.thy ===== *)
theory Action_Handler
  imports Error_Monitor
begin

text \<open>
  \<open>ActionHandler\<close> of \<open>HSS_rtc/HSS_rtc_lib/components/action_handler.py\<close>: the thread that runs the
  configured actions of the load phase one after the other, each when its trigger fires, and that
  takes the monitors out of the verdict while an action runs. The state holds the two monitors;
  what it asks of the test tool and of the executor is a list of effects.

  The shell of the node is the list of what \<open>expect\<close> returns, with the time it took and the command
  that came by UDP meanwhile. The lines that an action prints only go to the log.
\<close>

section \<open>Configuration\<close>

text \<open>A flag is a boolean or the name of a macro; a trigger load is a number or the name of a reference.\<close>

record action_config =
  ac_enable :: "(string + bool) option"
  ac_cmd :: "string option"
  ac_id :: "string option"
  ac_load :: "(string + int) option"
  ac_time :: "int option"
  ac_max_trigger :: int
  ac_max_time :: int
  ac_after :: int
  ac_stop_on_fail :: bool
  ac_not_valid :: bool
  ac_verdict :: bool
  ac_disable_load :: bool
  ac_stop_errors :: bool
  ac_allow_info :: bool

record action =
  act_id :: string
  act_cmd :: string
  act_load :: int
  act_time :: int
  act_cfg :: action_config

definition missing_field :: "string \<Rightarrow> 'a res" where
  "missing_field k = Inl (ExecutionConfigurationError (''Missing '' @ exc_str (KeyError k) @ '' action field in json file''))"

definition need :: "string \<Rightarrow> 'a option \<Rightarrow> ('a \<Rightarrow> 'b res) \<Rightarrow> 'b res" where
  "need k x f = (case x of None \<Rightarrow> missing_field k | Some v \<Rightarrow> f v)"

definition read_action ::
  "(string \<Rightarrow> string option) \<Rightarrow> (string \<Rightarrow> int) \<Rightarrow> bool \<Rightarrow> action_config \<Rightarrow> action option res" where
  "read_action macro_of reference traffic c =
     need ''enable'' (ac_enable c) (\<lambda>en.
       if (case en of Inl m \<Rightarrow> macro_of m \<noteq> Some ''true'' | Inr b \<Rightarrow> \<not> b) then Inr None
       else need ''cmd'' (ac_cmd c) (\<lambda>cmd. need ''id'' (ac_id c) (\<lambda>i. need ''load'' (ac_load c) (\<lambda>ld.
         if ld \<noteq> Inr (- 1) \<and> \<not> traffic then
           Inl (ExecutionConfigurationError (''Load trigger for '' @ i @ '' action shall be -1 in a scenario without traffic''))
         else need ''time'' (ac_time c) (\<lambda>t.
           case ld of
             Inr n \<Rightarrow> Inr (Some \<lparr>act_id = i, act_cmd = cmd, act_load = n, act_time = t, act_cfg = c\<rparr>)
           | Inl name \<Rightarrow>
               if reference name = - 1 then
                 Inl (ExecutionConfigurationError (''Action load trigger for '' @ name @ '' not found''))
               else Inr (Some \<lparr>act_id = i, act_cmd = cmd, act_load = reference name, act_time = t, act_cfg = c\<rparr>))))))"

fun read_actions ::
  "(string \<Rightarrow> string option) \<Rightarrow> (string \<Rightarrow> int) \<Rightarrow> bool \<Rightarrow> action_config list \<Rightarrow> action list res" where
  "read_actions macro_of reference traffic [] = Inr []"
| "read_actions macro_of reference traffic (c # cs) =
     (case read_action macro_of reference traffic c of
        Inl e \<Rightarrow> Inl e
      | Inr a \<Rightarrow>
          (case read_actions macro_of reference traffic cs of
             Inl e \<Rightarrow> Inl e
           | Inr as \<Rightarrow> Inr (case a of None \<Rightarrow> as | Some x \<Rightarrow> x # as)))"

definition load_monitor_needed :: "action list \<Rightarrow> bool" where
  "load_monitor_needed as = (\<exists>a \<in> set as. act_load a \<noteq> - 1 \<or> ac_disable_load (act_cfg a))"

section \<open>State\<close>

datatype ah_effect =
    Command string
  | Ctrl_C
  | Verdict_failed string
  | Suite_not_valid
  | Action_info string string
  | Action_result string string

record action_handler =
  ah_traffic :: bool
  ah_running :: bool
  ah_node :: bool
  ah_executing :: bool
  ah_error_code :: int
  ah_actions :: "action list"
  ah_load :: load_monitor
  ah_errors :: error_monitor
  ah_effects :: "ah_effect list"
  ah_stop_phase :: bool
  ah_released :: bool

text \<open>The monitors are checked for only when an action is enabled; \<open>node_ok\<close>: the shell came up.\<close>

definition ah_init ::
  "(string \<Rightarrow> string option) \<Rightarrow> (string \<Rightarrow> int) \<Rightarrow> bool \<Rightarrow> bool \<Rightarrow> load_monitor option \<Rightarrow> error_monitor option \<Rightarrow>
     load_monitor \<Rightarrow> error_monitor \<Rightarrow> action_config list \<Rightarrow> action_handler res" where
  "ah_init macro_of reference traffic node_ok lm em fake_lm fake_em cs =
     (case read_actions macro_of reference traffic cs of
        Inl e \<Rightarrow> Inl e
      | Inr as \<Rightarrow>
          if as \<noteq> [] \<and> traffic \<and> load_monitor_needed as \<and> lm = None then
            Inl (ExecutionConfigurationError ''Monitor load is mandatory when there are actions with load trigger != -1 or disable_load_monitor == True'')
          else if as \<noteq> [] \<and> traffic \<and> em = None then
            Inl (ExecutionConfigurationError ''Monitor error is mandatory when using action'')
          else Inr \<lparr>ah_traffic = traffic, ah_running = False, ah_node = (as \<noteq> [] \<and> node_ok), ah_executing = False,
            ah_error_code = 0, ah_actions = as,
            ah_load = (case lm of Some m \<Rightarrow> m | None \<Rightarrow> fake_lm),
            ah_errors = (case em of Some m \<Rightarrow> m | None \<Rightarrow> fake_em),
            ah_effects = [], ah_stop_phase = False, ah_released = False\<rparr>)"

definition ah_effect :: "ah_effect \<Rightarrow> action_handler \<Rightarrow> action_handler" where
  "ah_effect e h = h\<lparr>ah_effects := ah_effects h @ [e]\<rparr>"

definition ah_verdict :: "action \<Rightarrow> string \<Rightarrow> action_handler \<Rightarrow> action_handler" where
  "ah_verdict a why h = (if ac_verdict (act_cfg a) then ah_effect (Verdict_failed why) h else h)"

definition ah_not_valid :: "action \<Rightarrow> action_handler \<Rightarrow> action_handler" where
  "ah_not_valid a h = (if ac_not_valid (act_cfg a) then ah_effect Suite_not_valid h else h)"

section \<open>The trigger\<close>

datatype trigger = Fired | Expired | Off_line | Waiting | Trigger_raised py_exc

text \<open>
  One turn per second: the time that passed, and the load monitor as it is then, \<open>None\<close> when the
  handler was shut down meanwhile.
\<close>

definition stable_at :: "int \<Rightarrow> load_monitor \<Rightarrow> bool res" where
  "stable_at ld m =
     (case load_status m of
        Inl e \<Rightarrow> Inl e
      | Inr st \<Rightarrow>
          if st \<noteq> Some Stable then Inr False
          else (case lm_target_load m of Inl e \<Rightarrow> Inl e | Inr t \<Rightarrow> Inr (t = ld)))"

fun triggered :: "action \<Rightarrow> rat \<Rightarrow> rat \<Rightarrow> (rat \<times> load_monitor option) list \<Rightarrow> trigger" where
  "triggered a t mx [] = Waiting"
| "triggered a t mx ((dt, None) # ticks) = Off_line"
| "triggered a t mx ((dt, Some m) # ticks) =
     (let t' = t - dt; mx' = mx - dt
      in if ac_max_trigger (act_cfg a) \<noteq> - 1 \<and> mx' < 0 then Expired
         else if act_load a \<noteq> - 1 then
           (case stable_at (act_load a) m of
              Inl e \<Rightarrow> Trigger_raised e
            | Inr True \<Rightarrow> if t' < 0 then Fired else triggered a t' mx' ticks
            | Inr False \<Rightarrow> triggered a (of_int (act_time a)) mx' ticks)
         else if t' < 0 then Fired
         else triggered a t' mx' ticks)"

definition trigger_of :: "action \<Rightarrow> (rat \<times> load_monitor option) list \<Rightarrow> trigger" where
  "trigger_of a ticks = triggered a (of_int (act_time a)) (of_int (ac_max_trigger (act_cfg a))) ticks"

definition expire :: "action \<Rightarrow> action_handler \<Rightarrow> action_handler" where
  "expire a h = (ah_not_valid a (ah_verdict a ''Max time waiting for trigger expired'' h))\<lparr>ah_stop_phase := True\<rparr>"

section \<open>Running a command\<close>

definition stop_cmd :: "action \<Rightarrow> action_handler \<Rightarrow> action_handler" where
  "stop_cmd a h =
     (if ah_node h then ah_verdict a (''Cmd '' @ act_cmd a @ '' stopped by user'') (ah_effect Ctrl_C h) else h)
       \<lparr>ah_executing := False\<rparr>"

definition ah_shutdown :: "action \<Rightarrow> action_handler \<Rightarrow> action_handler" where
  "ah_shutdown a h =
     (if ah_running h \<and> ah_node h
      then (if ah_executing h then stop_cmd a h else h)\<lparr>ah_node := False\<rparr> else h)\<lparr>ah_running := False\<rparr>"

text \<open>\<open>start_scenario_stable_check\<close> and \<open>stop_scenario_stable_check\<close>, with their answers.\<close>

datatype stable_answer = Answer_OK | Answer_FAILED | Not_configured

definition start_stable_check :: "rat \<Rightarrow> action \<Rightarrow> action_handler \<Rightarrow> stable_answer res \<times> action_handler" where
  "start_stable_check now a h =
     (if ac_disable_load (act_cfg a) \<or> ac_stop_errors (act_cfg a) then
        andthen (if ac_stop_errors (act_cfg a)
                 then (case em_start_monitoring now ''loadgen'' None (ah_errors h) of
                         (r, em) \<Rightarrow> (r, h\<lparr>ah_errors := em\<rparr>))
                 else done_with h) (\<lambda>_ h. (Inr Answer_OK, h))
      else (Inr Not_configured, h))"

definition stop_stable_check :: "rat \<Rightarrow> action \<Rightarrow> action_handler \<Rightarrow> stable_answer res \<times> action_handler" where
  "stop_stable_check now a h =
     andthen (if ac_stop_errors (act_cfg a)
              then (case em_stop_monitoring now (ah_errors h) of
                      (Inl e, em) \<Rightarrow> (Inl e, h\<lparr>ah_errors := em\<rparr>)
                    | (Inr x, em) \<Rightarrow> (Inr x, h\<lparr>ah_errors := skip_check_last_register em\<rparr>))
              else (Inr (- 1), h)) (\<lambda>rate h.
     andthen (if ac_disable_load (act_cfg a)
              then (case load_status (ah_load h) of Inl e \<Rightarrow> (Inl e, h) | Inr st \<Rightarrow> (Inr (st = Some Stable), h))
              else (Inr True, h)) (\<lambda>stable h.
       (Inr (if stable \<and> rate < em_error_rate (ah_errors h) then Answer_OK else Answer_FAILED), h)))"

datatype udp = No_udp | Cancel_action | Add_info string | Start_check | Stop_check | Other_udp

definition read_udp :: "rat \<Rightarrow> action \<Rightarrow> udp \<Rightarrow> action_handler \<Rightarrow> unit res \<times> action_handler" where
  "read_udp now a u h =
     (case u of
        Cancel_action \<Rightarrow> done_with (stop_cmd a h)
      | Add_info m \<Rightarrow>
          done_with (if m \<noteq> [] \<and> ac_allow_info (act_cfg a) then ah_effect (Action_info (act_id a) m) h else h)
      | Start_check \<Rightarrow> andthen (start_stable_check now a h) (\<lambda>_ h. done_with h)
      | Stop_check \<Rightarrow> andthen (stop_stable_check now a h) (\<lambda>_ h. done_with h)
      | _ \<Rightarrow> done_with h)"

text \<open>\<open>Act_prompt\<close> comes with the return code and the error text of the command.\<close>

datatype act_event =
    Act_prompt int "string option"
  | Act_line
  | Act_timeout rat rat udp
  | Act_eof
  | Act_shutdown
  | Act_force_exit

definition prompt :: "action \<Rightarrow> int \<Rightarrow> string option \<Rightarrow> action_handler \<Rightarrow> action_handler" where
  "prompt a code why h =
     (let info = (case why of None \<Rightarrow> ''error code'' | Some w \<Rightarrow> ''error info: '' @ w);
          h1 = h\<lparr>ah_error_code := code\<rparr>;
          h2 = (if code \<noteq> 0 then ah_not_valid a (ah_verdict a (''Cmd '' @ act_cmd a @ '' failed with '' @ info) h1) else h1)
      in (ah_effect (Action_result (act_id a) (if code \<noteq> 0 then info else ''SUCCESS'')) h2)\<lparr>ah_executing := False\<rparr>)"

text \<open>
  The inner loop, with the rest of the time the action may take. \<open>Some True\<close>: the loop ended;
  \<open>Some False\<close>: the thread returned, because the node had gone or it was forced to; \<open>None\<close>: the
  command is still running after these events.
\<close>

fun run_command ::
  "action \<Rightarrow> rat \<Rightarrow> act_event list \<Rightarrow> action_handler \<Rightarrow> (bool option) res \<times> action_handler" where
  "run_command a left [] h = (Inr (if ah_executing h then None else Some True), h)"
| "run_command a left (ev # evs) h =
     (if \<not> ah_executing h then (Inr (Some True), h)
      else if \<not> ah_node h then (Inr (Some False), h)
      else case ev of
        Act_prompt code why \<Rightarrow> (Inr (Some True), prompt a code why h)
      | Act_line \<Rightarrow> run_command a left evs h
      | Act_timeout now dt u \<Rightarrow>
          andthen (read_udp now a u h) (\<lambda>_ h.
            if ac_max_time (act_cfg a) > 0 then
              (if left - dt < 0
               then run_command a (left - dt) evs (ah_shutdown a (ah_verdict a (''Timeout for '' @ act_cmd a) h))
               else run_command a (left - dt) evs h)
            else run_command a left evs h)
      | Act_eof \<Rightarrow> run_command a left evs (ah_shutdown a (ah_verdict a (''EOF waiting for '' @ act_cmd a) h))
      | Act_shutdown \<Rightarrow> run_command a left evs (ah_shutdown a h)
      | Act_force_exit \<Rightarrow> (Inr (Some False), h))"

definition monitors_off :: "rat \<Rightarrow> action \<Rightarrow> action_handler \<Rightarrow> unit res \<times> action_handler" where
  "monitors_off now a h =
     (let h1 = (if ah_traffic h \<and> ac_disable_load (act_cfg a) then h\<lparr>ah_load := lm_disable (ah_load h)\<rparr> else h)
      in if ah_traffic h \<and> ac_stop_errors (act_cfg a)
         then (case em_stop_monitoring now (ah_errors h1) of
                 (Inl e, em) \<Rightarrow> (Inl e, h1\<lparr>ah_errors := em\<rparr>)
               | (Inr _, em) \<Rightarrow> done_with (h1\<lparr>ah_errors := em\<rparr>))
         else done_with h1)"

definition monitors_on :: "rat \<Rightarrow> action \<Rightarrow> action_handler \<Rightarrow> unit res \<times> action_handler" where
  "monitors_on now a h =
     (let h1 = (if ah_traffic h \<and> ac_disable_load (act_cfg a) then h\<lparr>ah_load := lm_enable (ah_load h)\<rparr> else h)
      in if ah_traffic h \<and> ac_stop_errors (act_cfg a)
         then (case em_start_monitoring now ''loadgen'' None (ah_errors h1) of
                 (r, em) \<Rightarrow> (r, h1\<lparr>ah_errors := em\<rparr>))
         else done_with h1)"

section \<open>The thread\<close>

text \<open>What one action meets: the turns of its trigger, the events of its command, the two clocks.\<close>

record act_env =
  trigger_turns :: "(rat \<times> load_monitor option) list"
  started_at :: rat
  act_events :: "act_event list"
  ended_at :: rat

text \<open>\<open>None\<close>: the thread returned or still waits; \<open>Some b\<close>: the action is over, \<open>b\<close> when the loop over the
  actions goes on.\<close>

definition run_action :: "action \<Rightarrow> act_env \<Rightarrow> action_handler \<Rightarrow> (bool option) res \<times> action_handler" where
  "run_action a e h =
     (case (if ah_running h then trigger_of a (trigger_turns e) else Off_line) of
        Expired \<Rightarrow> (Inr None, expire a h)
      | Trigger_raised x \<Rightarrow> (Inl x, h)
      | Fired \<Rightarrow>
          andthen (monitors_off (started_at e) a h) (\<lambda>_ h.
          andthen (run_command a (of_int (ac_max_time (act_cfg a))) (act_events e)
                    (ah_effect (Command (act_cmd a)) h\<lparr>ah_executing := True\<rparr>)) (\<lambda>r h.
            if r \<noteq> Some True then (Inr None, h)
            else andthen (monitors_on (ended_at e) a h) (\<lambda>_ h.
              if ac_stop_on_fail (act_cfg a) \<and> ah_error_code h \<noteq> 0 then
                let h1 = ah_shutdown a h
                in if ah_traffic h1 then (Inr (Some True), h1\<lparr>ah_stop_phase := True\<rparr>) else (Inr (Some False), h1)
              else (Inr (Some True), h))))
      | _ \<Rightarrow> (Inr None, h))"

text \<open>\<open>Some False\<close>: the loop was left by \<open>return\<close>; \<open>None\<close>: the next action is still to come.\<close>

fun run_actions_of :: "action list \<Rightarrow> act_env list \<Rightarrow> action_handler \<Rightarrow> (bool option) res \<times> action_handler" where
  "run_actions_of [] es h = (Inr (Some True), h)"
| "run_actions_of (a # as) [] h = (Inr None, h)"
| "run_actions_of (a # as) (e # es) h =
     andthen (run_action a e h) (\<lambda>r h.
       case r of None \<Rightarrow> (Inr (Some False), h)
       | Some go \<Rightarrow> if go then run_actions_of as es h else (Inr (Some True), h))"

definition ah_run :: "act_env list \<Rightarrow> action_handler \<Rightarrow> unit res \<times> action_handler" where
  "ah_run es h =
     andthen (run_actions_of (ah_actions h) es (h\<lparr>ah_running := True\<rparr>)) (\<lambda>over h.
       if over \<noteq> Some True then done_with h
       else if \<not> ah_traffic h then done_with (h\<lparr>ah_released := True\<rparr>)
       else if ac_after (act_cfg (last (ah_actions h))) \<noteq> - 1 then done_with (h\<lparr>ah_stop_phase := True\<rparr>)
       else done_with h)"

text \<open>\<open>start_handling\<close>: without a node the thread never starts.\<close>

definition start_handling :: "act_env list \<Rightarrow> action_handler \<Rightarrow> unit res \<times> action_handler" where
  "start_handling es h = (if ah_node h then ah_run es h else done_with h)"

end
