(* ===== verification/Execution.thy ===== *)
theory Execution
  imports Bat_Instance Action_Handler
begin

text \<open>
  \<open>EXECUTION\<close> of \<open>HSS_rtc/HSS_rtc_lib/components/execution.py\<close>: the phase of a test case in which the
  traffic generators (BATs) run. It takes them through the traffic phases preexec, loadgen and
  postexec over their telnet consoles, with the schedulers of \<open>Scheduler\<close> and \<open>Capacity\<close> and the error
  monitor of \<open>Error_Monitor\<close> as parts of its state. Of the other components and of the external
  tools it keeps the order of the calls.

  A loop runs over the list of its turns. A turn has the states of the BATs, their replies, what
  the scheduler observes, the time the turn took, what came from other threads, what the user does, and
  where an interrupt comes: in the sleep before the BATs are looked at (\<open>None\<close>), or after that many
  of them have been looked at; then the command that was broken off may leave answers in the queue.
\<close>

section \<open>Replies of a console\<close>

text \<open>
  The answer of a console is a text, a truth value or nothing. A reply may come in time, after the
  ten seconds for which the queue of answers is read but before the next command, or never.
\<close>

datatype cli_answer = Text string | Flag bool | Nothing

datatype console_reply = In_time cli_answer | Late cli_answer | Never

definition answered :: "cli_answer \<Rightarrow> bool" where
  "answered a = (case a of Text w \<Rightarrow> w \<noteq> [] | Flag b \<Rightarrow> b | Nothing \<Rightarrow> False)"

datatype user = Undisturbed | Exit_order | Enter_key | Second_ctrl_c

record turn =
  bat_state_of :: "string \<Rightarrow> bat_state"
  reply_of :: "string \<Rightarrow> string \<Rightarrow> console_reply"
  console_up :: "string \<Rightarrow> bool"
  no_exit_code :: "string \<Rightarrow> bool"
  sees :: obs
  took :: rat
  stop_asked :: bool
  user_does :: user
  breaks_in :: "(nat \<times> cli_answer list) option"

section \<open>State\<close>

datatype component = C_memory | C_load | C_error | C_alarm | C_diaproxy | C_action | C_scheduler

datatype exec_event =
    Started component
  | Shut component
  | Tool_start string
  | Tool_stop string
  | Phase_start string string
  | Phase_stop string
  | Bat_start string
  | Bat_stop string
  | Bats_joined
  | Macro string

record bat_ctl =
  bc_id :: string
  bc_first :: string
  bc_status :: "string option"

record tool_config =
  tool_id :: string
  start_before :: string
  stop_after :: string

record 'a execution =
  ex_bats :: "bat_ctl list"
  ex_errors :: error_monitor
  ex_sched :: "'a sched_scheme"
  ex_components :: "component list"
  ex_tools :: "tool_config list"
  ex_answers :: "cli_answer list"
  ex_pending :: bool
  ex_phase :: string
  ex_log :: "exec_event list"
  ex_skip_postexec :: bool

text \<open>The scheduler: the one with fixed slots or the capacity handler, as the operations that are called.\<close>

record 'a sched_class =
  sc_start_phase :: "obs \<Rightarrow> string \<Rightarrow> string list \<Rightarrow> 'a sched_scheme \<Rightarrow> unit res \<times> 'a sched_scheme"
  sc_refresh :: "obs \<Rightarrow> string list \<Rightarrow> 'a sched_scheme \<Rightarrow> unit res \<times> 'a sched_scheme"
  sc_shutdown :: "'a sched_scheme \<Rightarrow> unit res \<times> 'a sched_scheme"

definition fixed_slots :: "unit sched_class" where
  "fixed_slots = \<lparr>sc_start_phase = start_phase, sc_refresh = refresh, sc_shutdown = base_shutdown\<rparr>"

definition capacity_ops :: "cabinet_obs \<Rightarrow> (_ sched_class)" where
  "capacity_ops c = \<lparr>sc_start_phase = ec_start_phase c, sc_refresh = ec_refresh c, sc_shutdown = ec_shutdown c\<rparr>"

definition ex_event :: "exec_event \<Rightarrow> 'a execution \<Rightarrow> 'a execution" where
  "ex_event e s = s\<lparr>ex_log := ex_log s @ [e]\<rparr>"

definition has :: "component \<Rightarrow> 'a execution \<Rightarrow> bool" where
  "has c s \<longleftrightarrow> c \<in> set (ex_components s)"

definition on_errors :: "(error_monitor \<Rightarrow> 'b res \<times> error_monitor) \<Rightarrow> 'a execution \<Rightarrow> 'b res \<times> 'a execution" where
  "on_errors f s = (case f (ex_errors s) of (r, m) \<Rightarrow> (r, s\<lparr>ex_errors := m\<rparr>))"

text \<open>A scheduler asks for the end of the phase through \<open>request_stop_phase\<close>.\<close>

definition on_sched ::
  "('a sched_scheme \<Rightarrow> unit res \<times> 'a sched_scheme) \<Rightarrow> 'a execution \<Rightarrow> unit res \<times> 'a execution" where
  "on_sched f s =
     (case f (ex_sched s) of (r, m) \<Rightarrow>
        (r, s\<lparr>ex_sched := m,
              ex_pending := (ex_pending s \<or> StopPhase \<in> set (drop (length (effects (ex_sched s))) (effects m)))\<rparr>))"

section \<open>Release\<close>

text \<open>
  \<open>release\<close> shuts everything down and raises its reason; what a component raises in its shutdown
  takes the place of the reason and leaves the rest running.
\<close>

definition shut :: "'a sched_class \<Rightarrow> rat \<Rightarrow> component \<Rightarrow> 'a execution \<Rightarrow> unit res \<times> 'a execution" where
  "shut ops now c s =
     (let s1 = ex_event (Shut c) s
      in case c of
           C_error \<Rightarrow> on_errors (em_shutdown now) s1
         | C_scheduler \<Rightarrow> on_sched (sc_shutdown ops) s1
         | _ \<Rightarrow> done_with s1)"

definition wait_BAT_thread_end :: "rat \<Rightarrow> 'a execution \<Rightarrow> unit res \<times> 'a execution" where
  "wait_BAT_thread_end now s = on_errors (em_shutdown now) (ex_event Bats_joined s)"

definition stop_all_bats :: "'a execution \<Rightarrow> 'a execution" where
  "stop_all_bats s = fold (\<lambda>b. ex_event (Bat_stop (bc_id b))) (ex_bats s) s"

definition stop_BATs :: "rat \<Rightarrow> 'a execution \<Rightarrow> unit res \<times> 'a execution" where
  "stop_BATs now s = wait_BAT_thread_end now (stop_all_bats s)"

definition stop_tools :: "(tool_config \<Rightarrow> bool) \<Rightarrow> 'a execution \<Rightarrow> 'a execution" where
  "stop_tools p s = fold (\<lambda>t. ex_event (Tool_stop (tool_id t))) (filter p (ex_tools s)) s"

definition start_tools :: "string \<Rightarrow> 'a execution \<Rightarrow> 'a execution" where
  "start_tools ph s =
     fold (\<lambda>t. ex_event (Tool_start (tool_id t))) (filter (\<lambda>t. start_before t = ph) (ex_tools s)) s"

definition release_for :: "'a sched_class \<Rightarrow> rat \<Rightarrow> py_exc \<Rightarrow> 'a execution \<Rightarrow> 'b res \<times> 'a execution" where
  "release_for ops now e s =
     andthen (for_each (shut ops now) (rev (ex_components s)) (stop_tools (\<lambda>_. True) s)) (\<lambda>_ s.
     andthen (stop_BATs now s) (\<lambda>_ s. (Inl e, s)))"

section \<open>Commands to a console\<close>

text \<open>
  One queue of answers serves all consoles: an answer that comes too late stays in it and is what
  the next command reads.
\<close>

definition run_cli :: "console_reply \<Rightarrow> 'a execution \<Rightarrow> cli_answer \<times> 'a execution" where
  "run_cli r s =
     (case ex_answers s of
        [] \<Rightarrow>
          (case r of
             In_time a \<Rightarrow> (a, s)
           | Late a \<Rightarrow> (Nothing, s\<lparr>ex_answers := [a]\<rparr>)
           | Never \<Rightarrow> (Nothing, s))
      | old # rest \<Rightarrow>
          (old, s\<lparr>ex_answers := rest @ (case r of In_time a \<Rightarrow> [a] | Late a \<Rightarrow> [a] | Never \<Rightarrow> [])\<rparr>))"

definition ask_console :: "turn \<Rightarrow> string \<Rightarrow> string \<Rightarrow> 'a execution \<Rightarrow> cli_answer res \<times> 'a execution" where
  "ask_console t b cmd s = (case run_cli (reply_of t b cmd) s of (a, s') \<Rightarrow> (Inr a, s'))"

definition bat_error :: "string \<Rightarrow> string \<Rightarrow> py_exc" where
  "bat_error what b = BatError (''EXECUTION '' @ what @ '' '' @ b)"

definition phase_error :: "string \<Rightarrow> string \<Rightarrow> py_exc" where
  "phase_error what b = ExecutionRunError (''EXECUTION problems '' @ what @ '' phase for '' @ b)"

definition read_traffic_phase ::
  "'a sched_class \<Rightarrow> turn \<Rightarrow> string \<Rightarrow> 'a execution \<Rightarrow> cli_answer res \<times> 'a execution" where
  "read_traffic_phase ops t b s =
     (if bat_state_of t b \<noteq> Bat_Running
      then release_for ops (clock (sees t)) (bat_error ''Problem reading traffic phase'' b) s
      else ask_console t b ''ScGrpStatus'' s)"

definition read_ScStatus ::
  "'a sched_class \<Rightarrow> turn \<Rightarrow> string \<Rightarrow> 'a execution \<Rightarrow> cli_answer res \<times> 'a execution" where
  "read_ScStatus ops t b s =
     (if bat_state_of t b \<noteq> Bat_Running
      then release_for ops (clock (sees t)) (bat_error ''Problem reading ScStatus'' b) s
      else andthen (ask_console t b ''ScStatus'' s) (\<lambda>a s.
        if answered a then (Inr a, s)
        else release_for ops (clock (sees t)) (bat_error ''Problem with telnet connection'' b) s))"

section \<open>A traffic phase\<close>

text \<open>\<open>phase in current_phase\<close>: the console reports a text, nothing, or by mistake a truth value.\<close>

definition phase_needed :: "string \<Rightarrow> cli_answer \<Rightarrow> bool res" where
  "phase_needed ph a =
     (case a of
        Text w \<Rightarrow> Inr (contains ph w \<or> ph = ''postexec'')
      | Nothing \<Rightarrow> Inr (ph = ''postexec'')
      | Flag b \<Rightarrow> Inl (TypeError ''argument of type 'bool' is not iterable''))"

definition set_traffic_phase :: "nat \<Rightarrow> string \<Rightarrow> error_monitor \<Rightarrow> error_monitor" where
  "set_traffic_phase i ph m = m\<lparr>em_bats := (em_bats m)[i := (em_bats m ! i)\<lparr>traffic_phase := ph\<rparr>]\<rparr>"

text \<open>A BAT that does not need the phase: its status is compared with \<open>not_needed\<close>, nothing is assigned.\<close>

definition start_bat ::
  "'a sched_class \<Rightarrow> turn \<Rightarrow> string \<Rightarrow> nat \<times> bat_ctl \<Rightarrow> 'a execution \<Rightarrow> unit res \<times> 'a execution" where
  "start_bat ops t ph ib s =
     (let b = bc_id (snd ib)
      in if bat_state_of t b \<noteq> Bat_Running
         then release_for ops (clock (sees t)) (ExecutionRunError (''EXECUTION '' @ b @ '' not running'')) s
         else
           andthen (read_traffic_phase ops t b s) (\<lambda>cur s.
           andthen (phase_needed ph cur, s) (\<lambda>needed s.
             if \<not> needed then done_with s
             else
               andthen (on_sched (sc_start_phase ops (sees t) ph [b]) (s\<lparr>ex_phase := ph\<rparr>)) (\<lambda>_ s.
               andthen (ask_console t b ''start_phase'' (ex_event (Phase_start ph b) s)) (\<lambda>a s.
                 if answered a then done_with (s\<lparr>ex_errors := set_traffic_phase (fst ib) ph (ex_errors s)\<rparr>)
                 else release_for ops (clock (sees t)) (phase_error (''starting '' @ ph) b) s)))))"

definition exec_start_phase ::
  "'a sched_class \<Rightarrow> turn \<Rightarrow> string \<Rightarrow> 'a execution \<Rightarrow> unit res \<times> 'a execution" where
  "exec_start_phase ops t ph s =
     andthen (on_errors (em_start_monitoring (clock (sees t)) ph None) s)
       (\<lambda>_ s. for_each (start_bat ops t ph) (enumerate 0 (ex_bats s)) s)"

definition stop_bat_phase ::
  "'a sched_class \<Rightarrow> turn \<Rightarrow> bat_ctl \<Rightarrow> 'a execution \<Rightarrow> unit res \<times> 'a execution" where
  "stop_bat_phase ops t b s =
     (if bat_state_of t (bc_id b) \<noteq> Bat_Running
      then release_for ops (clock (sees t)) (phase_error ''stopping'' (bc_id b)) s
      else andthen (ask_console t (bc_id b) ''stop_phase'' (ex_event (Phase_stop (bc_id b)) s)) (\<lambda>a s.
        if answered a then done_with s
        else release_for ops (clock (sees t)) (phase_error ''stopping'' (bc_id b)) s))"

definition finished_status :: "cli_answer \<Rightarrow> bool" where
  "finished_status a \<longleftrightarrow> a \<in> {Text ''Stopped'', Text ''Terminated''}"

fun all_finished ::
  "'a sched_class \<Rightarrow> turn \<Rightarrow> bat_ctl list \<Rightarrow> bool \<Rightarrow> 'a execution \<Rightarrow> bool res \<times> 'a execution" where
  "all_finished ops t [] ready s = (Inr ready, s)"
| "all_finished ops t (b # bs) ready s =
     (if bat_state_of t (bc_id b) \<noteq> Bat_Running
      then release_for ops (clock (sees t)) (phase_error ''stopping'' (bc_id b)) s
      else andthen (read_ScStatus ops t (bc_id b) s)
             (\<lambda>a. all_finished ops t bs (ready \<and> finished_status a)))"

text \<open>\<open>Inr True\<close>: the loop has ended; \<open>Inr False\<close>: it still waits after these turns.\<close>

fun await_stop :: "'a sched_class \<Rightarrow> turn list \<Rightarrow> 'a execution \<Rightarrow> bool res \<times> 'a execution" where
  "await_stop ops [] s = (Inr False, s)"
| "await_stop ops (t # ts) s =
     andthen (all_finished ops t (ex_bats s) True s) (\<lambda>ready s.
       if \<not> ready then await_stop ops ts s
       else andthen (on_errors (em_stop_monitoring (clock (sees t))) (s\<lparr>ex_pending := False\<rparr>)) (\<lambda>_ s. (Inr True, s)))"

definition call_if :: "(component \<Rightarrow> exec_event) \<Rightarrow> component \<Rightarrow> 'a execution \<Rightarrow> 'a execution" where
  "call_if e c s = (if has c s then ex_event (e c) s else s)"

definition shut_load :: "'a execution \<Rightarrow> 'a execution" where
  "shut_load s = (if ex_phase s = ''loadgen'' then call_if Shut C_load s else s)"

definition stop_phase :: "'a sched_class \<Rightarrow> turn \<Rightarrow> turn list \<Rightarrow> 'a execution \<Rightarrow> bool res \<times> 'a execution" where
  "stop_phase ops t ts s =
     andthen (for_each (stop_bat_phase ops t) (ex_bats s) (shut_load s)) (\<lambda>_. await_stop ops ts)"

definition expected_phase_status :: "string \<Rightarrow> bat_ctl \<Rightarrow> string" where
  "expected_phase_status ph b =
     (if ph = ''preexec'' then ''loadgen - IDLE'' else if ph = ''loadgen'' then ''postexec - IDLE'' else bc_first b)"

text \<open>One look at every BAT: whether all are ready, and which are still to be refreshed.\<close>

fun look_at ::
  "'a sched_class \<Rightarrow> turn \<Rightarrow> string \<Rightarrow> rat \<Rightarrow> bat_ctl list \<Rightarrow> bool \<Rightarrow> string list \<Rightarrow> 'a execution \<Rightarrow>
     (bool \<times> string list) res \<times> 'a execution" where
  "look_at ops t ph left [] ready rf s = (Inr (ready, rf), s)"
| "look_at ops t ph left (b # bs) ready rf s =
     andthen (read_ScStatus ops t (bc_id b) s) (\<lambda>a s.
       if finished_status a then look_at ops t ph left bs (ready \<and> \<not> left > 0) rf s
       else if bat_state_of t (bc_id b) \<noteq> Bat_Running
       then release_for ops (clock (sees t)) (phase_error (''waiting for end '' @ ph) (bc_id b)) s
       else if bc_status b = Some ''not_needed'' then look_at ops t ph left bs ready rf s
       else andthen (read_traffic_phase ops t (bc_id b) s) (\<lambda>a s.
         if a \<noteq> Text (expected_phase_status ph b) then look_at ops t ph left bs False (rf @ [bc_id b]) s
         else look_at ops t ph left bs ready rf (shut_load s)))"

definition look :: "'a sched_class \<Rightarrow> turn \<Rightarrow> string \<Rightarrow> rat \<Rightarrow> 'a execution \<Rightarrow> bool res \<times> 'a execution" where
  "look ops t ph left s =
     andthen (look_at ops t ph left (ex_bats s) True [] s) (\<lambda>(ready, rf) s.
     andthen (on_sched (sc_refresh ops (sees t) rf) s) (\<lambda>_ s. (Inr ready, s)))"

text \<open>
  An interrupt in the sleep finds \<open>all_ready\<close> as the loop was entered, false. Once the look has begun it
  is true until some BAT shows otherwise, and the handler of the interrupt keeps it. An interrupt in
  the refresh of the scheduler is taken to come before it.
\<close>

definition broken_look ::
  "'a sched_class \<Rightarrow> turn \<Rightarrow> string \<Rightarrow> rat \<Rightarrow> 'a execution \<Rightarrow> bool res \<times> 'a execution" where
  "broken_look ops t ph left s =
     (case breaks_in t of
        None \<Rightarrow> (Inr False, s)
      | Some (n, stale) \<Rightarrow>
          andthen (look_at ops t ph left (take n (ex_bats s)) True [] s) (\<lambda>(ready, rf) s.
            (Inr ready, s\<lparr>ex_answers := ex_answers s @ stale\<rparr>)))"

text \<open>
  \<open>wait_phase_end\<close>, with the rest of the sixty seconds for which a finished BAT is not taken for
  ready. In another phase than loadgen the interrupt is dropped, unless the tool is to exit, and the
  loop is left if \<open>all_ready\<close> is true at that point.
\<close>

fun wait_loop ::
  "'a sched_class \<Rightarrow> string \<Rightarrow> rat \<Rightarrow> turn list \<Rightarrow> 'a execution \<Rightarrow> bool res \<times> 'a execution" where
  "wait_loop ops ph left [] s = (Inr False, s)"
| "wait_loop ops ph left (t # ts) s =
     (let goes_on = (\<lambda>ready left' s.
            let s1 = s\<lparr>ex_pending := (ex_pending s \<or> stop_asked t)\<rparr>
            in if ph = ''loadgen'' \<and> ex_pending s1 then stop_phase ops t ts s1
               else if ready then
                 andthen (on_errors (em_stop_monitoring (clock (sees t))) s1) (\<lambda>_ s. (Inr True, s))
               else wait_loop ops ph left' ts s1)
      in if user_does t = Undisturbed then
           andthen (look ops t ph left s) (\<lambda>ready.
             goes_on ready (if left \<ge> 0 then left - took t else left))
         else
           andthen (broken_look ops t ph left s) (\<lambda>ready s.
             if user_does t = Exit_order \<or> user_does t = Second_ctrl_c \<and> ph = ''loadgen''
             then (Inl KeyboardInterrupt, s)
             else if ph = ''loadgen'' then stop_phase ops t ts s
             else goes_on ready left s))"

definition wait_phase_end :: "'a sched_class \<Rightarrow> string \<Rightarrow> turn list \<Rightarrow> 'a execution \<Rightarrow> bool res \<times> 'a execution" where
  "wait_phase_end ops ph ts s = wait_loop ops ph 60 ts s"

section \<open>The three traffic phases\<close>

fun traffic_running :: "string list \<Rightarrow> turn list \<Rightarrow> bool option" where
  "traffic_running bs [] = None"
| "traffic_running bs (t # ts) =
     (if \<exists>b \<in> set bs. bat_state_of t b \<in> {Bat_Failed, Bat_Stopped} then Some False
      else if \<forall>b \<in> set bs. console_up t b then Some True
      else traffic_running bs ts)"

text \<open>What the phase meets from the start of the BATs to the end of the test case.\<close>

record course =
  up_turns :: "turn list"
  pre_turn :: turn
  pre_turns :: "turn list"
  load_ready :: bool
  load_turn :: turn
  load_turns :: "turn list"
  post_turn :: turn
  ends_at :: rat
  exit_order :: bool

text \<open>A stage that still waits ends the run of the model with \<open>Inr False\<close>.\<close>

definition and_on :: "bool res \<times> 's \<Rightarrow> ('s \<Rightarrow> bool res \<times> 's) \<Rightarrow> bool res \<times> 's" where
  "and_on p f = andthen p (\<lambda>over s. if over then f s else (Inr False, s))"

definition start_monitor_load :: "bool \<Rightarrow> 'a execution \<Rightarrow> unit res \<times> 'a execution" where
  "start_monitor_load ready s =
     (if \<not> has C_load s then done_with s
      else if \<not> ready then
        (Inl (ExecutionRunError ''LOAD_MONITOR Not ready. One loadplotter must be UP&RUNNING''), s)
      else done_with (ex_event (Started C_load) s))"

definition preexec_stage :: "'a sched_class \<Rightarrow> course \<Rightarrow> 'a execution \<Rightarrow> bool res \<times> 'a execution" where
  "preexec_stage ops c s =
     andthen (exec_start_phase ops (pre_turn c) ''preexec'' (start_tools ''preexec'' (call_if Started C_alarm s))) (\<lambda>_ s.
     and_on (wait_phase_end ops ''preexec'' (pre_turns c)
               (call_if Started C_scheduler (ex_event (Macro ''#TIME_TRAFFIC_START#'') s))) (\<lambda>s.
       (Inr True, stop_tools (\<lambda>t. stop_after t = ''preexec'') s)))"

definition loadgen_stage :: "'a sched_class \<Rightarrow> course \<Rightarrow> 'a execution \<Rightarrow> bool res \<times> 'a execution" where
  "loadgen_stage ops c s =
     andthen (start_monitor_load (load_ready c) (start_tools ''loadgen'' s)) (\<lambda>_ s.
     andthen (exec_start_phase ops (load_turn c) ''loadgen'' (call_if Started C_action (call_if Started C_diaproxy s)))
       (\<lambda>_ s.
     and_on (wait_phase_end ops ''loadgen'' (load_turns c) (ex_event (Macro ''#TIME_TRAFFIC_LOAD_START#'') s)) (\<lambda>s.
       (Inr True, stop_tools (\<lambda>t. stop_after t = ''loadgen'')
          (fold (call_if Shut) [C_action, C_diaproxy, C_load, C_alarm]
            (ex_event (Macro ''#TIME_TRAFFIC_LOAD_FINISHED#'') s))))))"

definition postexec_stage :: "'a sched_class \<Rightarrow> course \<Rightarrow> 'a execution \<Rightarrow> bool res \<times> 'a execution" where
  "postexec_stage ops c s =
     andthen (if ex_skip_postexec s then stop_BATs (ends_at c) s
              else andthen (exec_start_phase ops (post_turn c) ''postexec'' (start_tools ''postexec'' s))
                     (\<lambda>_. wait_BAT_thread_end (ends_at c))) (\<lambda>_ s.
     andthen (on_sched (sc_shutdown ops) (ex_event (Shut C_scheduler) s)) (\<lambda>_ s.
       (Inr True, stop_tools (\<lambda>t. stop_after t = ''postexec'') s)))"

definition telnet_control :: "'a sched_class \<Rightarrow> course \<Rightarrow> 'a execution \<Rightarrow> bool res \<times> 'a execution" where
  "telnet_control ops c s =
     (case traffic_running (map bc_id (ex_bats s)) (up_turns c) of
        None \<Rightarrow> (Inr False, s)
      | Some False \<Rightarrow> release_for ops (ends_at c) (BatError ''EXECUTION Problem during BAT start'') s
      | Some True \<Rightarrow>
          and_on (preexec_stage ops c s) (\<lambda>s. and_on (loadgen_stage ops c s) (postexec_stage ops c)))"

section \<open>The phase\<close>

definition interrupted :: "'a sched_class \<Rightarrow> rat \<Rightarrow> 'a execution \<Rightarrow> unit res \<times> 'a execution" where
  "interrupted ops now s =
     andthen (on_sched (sc_shutdown ops)
        (ex_event (Shut C_scheduler) (fold (call_if Shut) [C_action, C_diaproxy, C_load, C_alarm] s))) (\<lambda>_ s.
       stop_BATs now (stop_tools (\<lambda>_. True) s))"

text \<open>
  \<open>run\<close> with traffic and consoles. An \<open>ExecutionRunError\<close>, most of them raised by a \<open>release\<close> already,
  is released again.
\<close>

definition exec_run :: "'a sched_class \<Rightarrow> course \<Rightarrow> 'a execution \<Rightarrow> bool res \<times> 'a execution" where
  "exec_run ops c s =
     (let started = fold (\<lambda>b. ex_event (Bat_start (bc_id b))) (ex_bats s) (call_if Started C_memory s);
          traffic = (case telnet_control ops c started of
              (Inl KeyboardInterrupt, s) \<Rightarrow>
                andthen (interrupted ops (ends_at c) s) (\<lambda>_ s. (Inr True, s))
            | r \<Rightarrow> r);
          whole = and_on traffic (\<lambda>s.
            if exit_order c then (Inl KeyboardInterrupt, call_if Shut C_memory s)
            else (Inr True, call_if Shut C_memory s))
      in case whole of
           (Inl (ExecutionRunError m), s) \<Rightarrow> release_for ops (ends_at c) (ExecutionRunError m) s
         | r \<Rightarrow> r)"

text \<open>With manual control the BATs go through the phases by themselves; one that failed stops all.\<close>

fun manual_loop :: "turn list \<Rightarrow> 'a execution \<Rightarrow> bool \<times> 'a execution" where
  "manual_loop [] s = (False, s)"
| "manual_loop (t # ts) s =
     (if \<exists>b \<in> set (ex_bats s). bat_state_of t (bc_id b) = Bat_Failed then (True, stop_all_bats s)
      else if \<exists>b \<in> set (ex_bats s). no_exit_code t (bc_id b) then manual_loop ts s
      else (True, s))"

definition manual_control :: "rat \<Rightarrow> turn list \<Rightarrow> 'a execution \<Rightarrow> bool res \<times> 'a execution" where
  "manual_control now ts s =
     (case manual_loop ts s of (over, s) \<Rightarrow>
        if over then andthen (wait_BAT_thread_end now s) (\<lambda>_ s. (Inr True, s)) else (Inr False, s))"

text \<open>
  Without traffic the phase waits until the action handler clears the flag that \<open>run\<close> sets after it
  has started the handler; \<open>ended_before\<close>: the thread of the handler was faster. The handler is followed
  through the whole of \<open>es\<close>. If it has not cleared the flag then, \<open>ctrl_c\<close> says whether the user breaks the wait
  off, and at which action; \<open>Inr False\<close>: the wait goes on. \<open>exit_ordered\<close>: the order to leave the test case
  has come, which counts at the end of the wait only.
\<close>

definition run_without_traffic ::
  "bool \<Rightarrow> action option \<Rightarrow> bool \<Rightarrow> act_env list \<Rightarrow> 'a execution \<times> action_handler \<Rightarrow> bool res \<times> 'a execution \<times> action_handler" where
  "run_without_traffic ended_before ctrl_c exit_ordered es sh =
     (let s = call_if Started C_action (call_if Started C_alarm (call_if Started C_memory (fst sh)));
          h = snd (start_handling es (snd sh));
          over = (\<lambda>h. (if exit_ordered then Inl KeyboardInterrupt else Inr True,
            call_if Shut C_memory (call_if Shut C_alarm s), h))
      in if ah_released h \<and> \<not> ended_before then over h
         else (case ctrl_c of
                 Some a \<Rightarrow> over (ah_shutdown a h)
               | None \<Rightarrow> (Inr False, s, h)))"

end
