(* ===== verification/Execution_Props.thy ===== *)
theory Execution_Props
  imports Execution
begin

text \<open>
  Answers of the consoles that come late, and when the wait for the end of a traffic phase is over.
\<close>

section \<open>Answers\<close>

text \<open>A sequence of commands with the replies of the consoles.\<close>

fun converse :: "console_reply list \<Rightarrow> 'a execution \<Rightarrow> cli_answer list \<times> 'a execution" where
  "converse [] s = ([], s)"
| "converse (r # rs) s =
     (case run_cli r s of (a, s1) \<Rightarrow> (case converse rs s1 of (as, s2) \<Rightarrow> (a # as, s2)))"

lemma converse_in_time: "ex_answers s = [] \<Longrightarrow> converse (map In_time as) s = (as, s)"
  by (induction as) (simp_all add: run_cli_def)

lemma converse_shifted:
  "ex_answers s = [old] \<Longrightarrow>
     converse (map In_time as) s = (butlast (old # as), s\<lparr>ex_answers := [last (old # as)]\<rparr>)"
  by (induction as arbitrary: old s) (auto simp: run_cli_def)

text \<open>As long as the replies come in time each command gets its own. After one that came late,
  every later command gets the reply to the command before it, of whatever console, and the queue never
  recovers.\<close>

theorem late_answer_shifts:
  assumes "ex_answers s = []"
  shows "converse (map In_time as @ Late a # map In_time bs) s =
    (as @ Nothing # butlast (a # bs), s\<lparr>ex_answers := [last (a # bs)]\<rparr>)"
proof -
  have "converse (Late a # map In_time bs) s = (Nothing # butlast (a # bs), s\<lparr>ex_answers := [last (a # bs)]\<rparr>)"
    using assms converse_shifted [of "s\<lparr>ex_answers := [a]\<rparr>" a bs] by (simp add: run_cli_def)
  moreover have "converse (map In_time as @ rs) s = (case converse rs s of (xs, s') \<Rightarrow> (as @ xs, s'))" for rs
    using assms by (induction as) (auto simp: run_cli_def split: prod.splits)
  ultimately show ?thesis by simp
qed

section \<open>What the operations leave alone\<close>

definition same_plan :: "'a execution \<Rightarrow> 'a execution \<Rightarrow> bool" where
  "same_plan s s' \<longleftrightarrow> ex_bats s' = ex_bats s \<and> ex_tools s' = ex_tools s \<and> ex_components s' = ex_components s"

interpretation plan: state_frame same_plan
  by unfold_locales (auto simp: same_plan_def)

lemma plan_basic:
  "same_plan s (ex_event e s)" "same_plan s (call_if f c s)" "same_plan s (shut_load s)"
  "same_plan s (s\<lparr>ex_pending := b\<rparr>)" "same_plan s (s\<lparr>ex_phase := ph\<rparr>)" "same_plan s (s\<lparr>ex_errors := m\<rparr>)"
  by (simp_all add: same_plan_def ex_event_def call_if_def shut_load_def)

lemma plan_fold:
  "same_plan s (stop_all_bats s)" "same_plan s (stop_tools p s)" "same_plan s (start_tools ph s)"
  "same_plan s (fold (call_if f) cs s)"
  unfolding stop_all_bats_def stop_tools_def start_tools_def
  by (rule plan.fold_steps, rule plan_basic)+

lemma plan_ops:
  "same_plan s (snd (on_errors f s))" "same_plan s (snd (on_sched g s))" "same_plan s (snd (run_cli r s))"
  "same_plan s (snd (ask_console t b cmd s))"
  by (auto simp: same_plan_def on_errors_def on_sched_def run_cli_def ask_console_def split: prod.splits list.splits console_reply.splits)

section \<open>The end of a traffic phase\<close>

text \<open>A turn in which every reply comes in time, and the answer of a console in it.\<close>

definition answer :: "turn \<Rightarrow> string \<Rightarrow> string \<Rightarrow> cli_answer" where
  "answer t b cmd = (case reply_of t b cmd of In_time a \<Rightarrow> a | _ \<Rightarrow> Nothing)"

definition prompt_turn :: "turn \<Rightarrow> bool" where
  "prompt_turn t \<longleftrightarrow> (\<forall>b cmd. reply_of t b cmd = In_time (answer t b cmd)) \<and>
     (\<forall>n stale. breaks_in t = Some (n, stale) \<longrightarrow> stale = [])"

definition at_end :: "string \<Rightarrow> turn \<Rightarrow> bat_ctl \<Rightarrow> bool" where
  "at_end ph t b \<longleftrightarrow> finished_status (answer t (bc_id b) ''ScStatus'') \<or> bc_status b = Some ''not_needed'' \<or>
     answer t (bc_id b) ''ScGrpStatus'' = Text (expected_phase_status ph b)"

lemma ask_prompt: "prompt_turn t \<Longrightarrow> ex_answers s = [] \<Longrightarrow> ask_console t b cmd s = (Inr (answer t b cmd), s)"
  by (simp add: ask_console_def run_cli_def prompt_turn_def)

lemma release_raises: "fst (release_for ops now e s) \<noteq> Inr v"
  by (auto simp: release_for_def andthen_def split: prod.split sum.split)

lemma release_never: "release_for ops now e s \<noteq> (Inr v, s')"
  using release_raises [of ops now e s v] by (metis fst_conv)

text \<open>States between two commands whose replies all came in time.\<close>

definition calm :: "'a execution \<Rightarrow> 'a execution \<Rightarrow> bool" where
  "calm s s' \<longleftrightarrow> same_plan s s' \<and> ex_answers s' = ex_answers s"

interpretation calm: state_frame calm
  by unfold_locales (auto simp: calm_def same_plan_def)

lemma calm_basic [intro]:
  "calm s (ex_event e s)" "calm s (shut_load s)" "calm s (s\<lparr>ex_pending := b\<rparr>)" "calm s (s\<lparr>ex_phase := ph\<rparr>)"
  "calm s (s\<lparr>ex_errors := m\<rparr>)" "calm s (snd (on_errors f s))" "calm s (snd (on_sched g s))"
  by (auto simp: calm_def same_plan_def ex_event_def call_if_def shut_load_def on_errors_def on_sched_def split: prod.splits)

lemma calm_answers: "calm s s' \<Longrightarrow> ex_answers s = [] \<Longrightarrow> ex_answers s' = []"
  "calm s s' \<Longrightarrow> ex_bats s' = ex_bats s"
  by (simp_all add: calm_def same_plan_def)

lemma status_read:
  assumes "read_ScStatus ops t b s = (Inr a, s')" "prompt_turn t" "ex_answers s = []"
  shows "a = answer t b ''ScStatus'' \<and> s' = s"
  using assms by (auto simp: read_ScStatus_def ask_prompt release_never split: if_splits)

lemma phase_read:
  assumes "read_traffic_phase ops t b s = (Inr a, s')" "prompt_turn t" "ex_answers s = []"
  shows "a = answer t b ''ScGrpStatus'' \<and> s' = s"
  using assms by (auto simp: read_traffic_phase_def ask_prompt release_never split: if_splits)

lemma look_at_ready:
  assumes "look_at ops t ph left bs ready rf s = (Inr (ready', rf'), s')" "prompt_turn t" "ex_answers s = []"
  shows "calm s s' \<and> (ready' \<longrightarrow> ready \<and> (\<forall>b \<in> set bs. at_end ph t b))"
  using assms
proof (induction bs arbitrary: ready rf s)
  case (Cons b bs)
  from Cons.prems obtain a where a: "read_ScStatus ops t (bc_id b) s = (Inr a, s)" "a = answer t (bc_id b) ''ScStatus''"
    by (auto simp: andthen_Inr dest: status_read)
  have shut: "calm s (shut_load s)" "ex_answers (shut_load s) = []"
    using Cons.prems(3) calm_answers(1) by blast+
  from Cons.prems a Cons.IH [OF _ Cons.prems(2)] shut show ?case
    by (auto simp: at_end_def release_never andthen_Inr split: if_splits dest!: phase_read
        intro: calm.trans)
qed (auto simp: calm.refl)

lemma all_finished_ready:
  assumes "all_finished ops t bs ready s = (Inr ready', s')" "prompt_turn t" "ex_answers s = []"
  shows "s' = s \<and> (ready' \<longrightarrow> ready \<and> (\<forall>b \<in> set bs. finished_status (answer t (bc_id b) ''ScStatus'')))"
  using assms
  by (induction bs arbitrary: ready s) (fastforce simp: release_never andthen_Inr split: if_splits dest: status_read)+

lemma em_stop_over:
  "em_stop_monitoring now m = (Inr r, m') \<Longrightarrow> \<not> (em_running m' \<and> em_monitoring m')"
  by (auto simp: em_stop_monitoring_def andthen_Inr Let_def split: if_splits)

definition ends_ready :: "string \<Rightarrow> turn list \<Rightarrow> 'a execution \<Rightarrow> 'a execution \<Rightarrow> bool" where
  "ends_ready ph ts s s' \<longleftrightarrow> calm s s' \<and> \<not> (em_running (ex_errors s') \<and> em_monitoring (ex_errors s')) \<and>
     (\<exists>t \<in> set ts. \<forall>b \<in> set (ex_bats s). at_end ph t b)"

lemma stop_errors_ends:
  assumes "on_errors (em_stop_monitoring now) s = (Inr r, s')" "\<forall>b \<in> set (ex_bats s). at_end ph t b" "t \<in> set ts"
  shows "ends_ready ph ts s s'"
proof -
  have "calm s s'" using assms(1) calm_basic(6) [of s "em_stop_monitoring now"] by simp
  moreover have "\<not> (em_running (ex_errors s') \<and> em_monitoring (ex_errors s'))"
    using assms(1) by (auto simp: on_errors_def split: prod.splits dest: em_stop_over)
  ultimately show ?thesis using assms(2,3) by (auto simp: ends_ready_def)
qed

lemma ends_ready_trans: "calm r s \<Longrightarrow> ends_ready ph ts s s' \<Longrightarrow> ends_ready ph (t # ts) r s'"
  by (auto simp: ends_ready_def calm_answers(2) intro: calm.trans)

lemma ends_ready_from: "calm r s \<Longrightarrow> ends_ready ph ts s s' \<Longrightarrow> ends_ready ph ts r s'"
  by (auto simp: ends_ready_def calm_answers(2) intro: calm.trans)

lemma await_stop_ends:
  assumes "await_stop ops ts s = (Inr True, s')" "list_all prompt_turn ts" "ex_answers s = []"
  shows "ends_ready ph ts s s'"
  using assms
proof (induction ts arbitrary: s)
  case (Cons t ts)
  from Cons.prems(1) obtain ready u where u: "all_finished ops t (ex_bats s) True s = (Inr ready, u)"
    by (auto simp: andthen_Inr)
  with Cons.prems all_finished_ready [OF u] have ready: "all_finished ops t (ex_bats s) True s = (Inr ready, s)"
    "ready \<longrightarrow> (\<forall>b \<in> set (ex_bats s). at_end ph t b)"
    by (auto simp: at_end_def)
  show ?case
  proof (cases ready)
    case False
    with Cons ready have "ends_ready ph ts s s'" by simp
    then show ?thesis by (rule ends_ready_trans [OF calm.refl])
  next
    case True
    with Cons.prems ready obtain r where
      "on_errors (em_stop_monitoring (clock (sees t))) (s\<lparr>ex_pending := False\<rparr>) = (Inr r, s')"
      by (auto simp: andthen_Inr)
    then have "ends_ready ph (t # ts) (s\<lparr>ex_pending := False\<rparr>) s'"
      using True ready by (intro stop_errors_ends) auto
    then show ?thesis by (rule ends_ready_from [OF calm_basic(3)])
  qed
qed simp

lemma stop_bat_calm:
  "prompt_turn t \<Longrightarrow> ex_answers s = [] \<Longrightarrow> stop_bat_phase ops t b s = (Inr v, s') \<Longrightarrow> calm s s'"
  by (auto simp: stop_bat_phase_def andthen_Inr ask_prompt release_never done_with_def ex_event_def
      calm_def same_plan_def split: if_splits)

lemma stop_bats_calm:
  "prompt_turn t \<Longrightarrow> ex_answers s = [] \<Longrightarrow> for_each (stop_bat_phase ops t) bs s = (Inr v, s') \<Longrightarrow> calm s s'"
proof (induction bs arbitrary: s)
  case (Cons b bs)
  then obtain w u where u: "stop_bat_phase ops t b s = (Inr w, u)" "for_each (stop_bat_phase ops t) bs u = (Inr v, s')"
    by (auto simp: andthen_Inr)
  with Cons.prems stop_bat_calm calm_answers(1) have "calm s u" "ex_answers u = []" by blast+
  with Cons u show ?case by (meson calm.trans)
qed (simp add: calm.refl)

lemma stop_phase_ends:
  assumes "stop_phase ops t ts s = (Inr True, s')" "prompt_turn t" "list_all prompt_turn ts" "ex_answers s = []"
  shows "ends_ready ph ts s s'"
proof -
  have "ex_answers (shut_load s) = []" using assms(4) calm_answers(1) [OF calm_basic(2)] by blast
  moreover from assms(1) obtain v u where u: "for_each (stop_bat_phase ops t) (ex_bats s) (shut_load s) = (Inr v, u)"
    "await_stop ops ts u = (Inr True, s')"
    by (auto simp: stop_phase_def andthen_Inr)
  ultimately have "calm (shut_load s) u" using stop_bats_calm assms(2) by blast
  then have "calm s u" using calm_basic(2) calm.trans by blast
  with u assms show ?thesis using await_stop_ends ends_ready_from calm_answers(1) by blast
qed

text \<open>Outside loadgen, no interrupt comes while the BATs are looked at.\<close>

definition unbroken :: "string \<Rightarrow> turn \<Rightarrow> bool" where
  "unbroken ph t \<longleftrightarrow> ph = ''loadgen'' \<or> user_does t = Undisturbed \<or> breaks_in t = None"

lemma broken_look_calm:
  assumes "broken_look ops t ph left s = (Inr ready, s')" "prompt_turn t" "ex_answers s = []"
  shows "calm s s' \<and> (breaks_in t = None \<longrightarrow> \<not> ready)"
proof (cases "breaks_in t")
  case (Some q)
  then obtain n where n: "breaks_in t = Some (n, [])" using assms(2) by (cases q) (auto simp: prompt_turn_def)
  with assms(1) obtain rf u where u: "look_at ops t ph left (take n (ex_bats s)) True [] s = (Inr (ready, rf), u)"
    "s' = u"
    by (auto simp: broken_look_def andthen_Inr)
  with look_at_ready [OF u(1) assms(2,3)] n show ?thesis by simp
qed (use assms in \<open>simp add: broken_look_def calm.refl\<close>)

lemma wait_loop_ends:
  assumes "wait_loop ops ph left ts s = (Inr True, s')" "list_all prompt_turn ts" "ex_answers s = []"
    and "list_all (unbroken ph) ts"
  shows "ends_ready ph ts s s'"
  using assms
proof (induction ts arbitrary: left s)
  case (Cons t ts)
  let ?p = "\<lambda>s. s\<lparr>ex_pending := (ex_pending s \<or> stop_asked t)\<rparr>"
  have on: "ends_ready ph (t # ts) s s'"
    if u: "calm s u" "ready \<longrightarrow> (\<forall>b \<in> set (ex_bats s). at_end ph t b)"
      and run: "(if ph = ''loadgen'' \<and> ex_pending (?p u) then stop_phase ops t ts (?p u)
          else if ready then andthen (on_errors (em_stop_monitoring (clock (sees t))) (?p u)) (\<lambda>_ s. (Inr True, s))
          else wait_loop ops ph left' ts (?p u)) = (Inr True, s')" for u ready left'
  proof -
    have p: "calm s (?p u)" using u calm_basic(3) calm.trans by blast
    with Cons.prems(3) calm_answers have a: "ex_answers (?p u) = []" "ex_bats (?p u) = ex_bats s" by blast+
    have "ends_ready ph (t # ts) (?p u) s'"
    proof (cases "ph = ''loadgen'' \<and> ex_pending (?p u)")
      case True
      with run a Cons.prems(2) have "ends_ready ph ts (?p u) s'" by (auto intro: stop_phase_ends)
      then show ?thesis by (rule ends_ready_trans [OF calm.refl])
    next
      case False
      show ?thesis
      proof (cases ready)
        case True
        with False run obtain r where "on_errors (em_stop_monitoring (clock (sees t))) (?p u) = (Inr r, s')"
          by (auto simp: andthen_Inr split: if_splits)
        then show ?thesis using True u a by (intro stop_errors_ends) auto
      next
        case False
        with \<open>\<not> (ph = ''loadgen'' \<and> ex_pending (?p u))\<close> run a Cons have "ends_ready ph ts (?p u) s'"
          by (auto split: if_splits)
        then show ?thesis by (rule ends_ready_trans [OF calm.refl])
      qed
    qed
    with p show ?thesis by (rule ends_ready_from)
  qed
  show ?case
  proof (cases "user_does t = Undisturbed")
    case True
    with Cons.prems(1) obtain ready u where u: "look ops t ph left s = (Inr ready, u)"
      and run: "(if ph = ''loadgen'' \<and> ex_pending (?p u) then stop_phase ops t ts (?p u)
          else if ready then andthen (on_errors (em_stop_monitoring (clock (sees t))) (?p u)) (\<lambda>_ s. (Inr True, s))
          else wait_loop ops ph (if left \<ge> 0 then left - took t else left) ts (?p u)) = (Inr True, s')"
      by (auto simp: andthen_Inr Let_def)
    from u obtain rf v w where v: "look_at ops t ph left (ex_bats s) True [] s = (Inr (ready, rf), v)"
      "on_sched (sc_refresh ops (sees t) rf) v = (Inr w, u)"
      by (auto simp: look_def andthen_Inr)
    with look_at_ready [OF v(1)] Cons.prems calm_basic(7) [of v "sc_refresh ops (sees t) rf"]
    have "calm s u" "ready \<longrightarrow> (\<forall>b \<in> set (ex_bats s). at_end ph t b)" by (auto intro: calm.trans)
    then show ?thesis using run by (rule on)
  next
    case False
    with Cons.prems(1) obtain ready u where u: "broken_look ops t ph left s = (Inr ready, u)"
      and ex: "\<not> (user_does t = Exit_order \<or> user_does t = Second_ctrl_c \<and> ph = ''loadgen'')"
      and run: "(if ph = ''loadgen'' then stop_phase ops t ts u
        else if ready then andthen (on_errors (em_stop_monitoring (clock (sees t))) (?p u)) (\<lambda>_ s. (Inr True, s))
        else wait_loop ops ph left ts (?p u)) = (Inr True, s')"
      by (auto simp: andthen_Inr Let_def split: if_splits)
    have b: "calm s u" "breaks_in t = None \<longrightarrow> \<not> ready"
      using broken_look_calm [OF u] Cons.prems by simp_all
    show ?thesis
    proof (cases "ph = ''loadgen''")
      case True
      have "ex_answers u = []" using b(1) Cons.prems(3) calm_answers(1) by blast
      with True run Cons.prems(2) have "ends_ready ph ts u s'" by (auto intro: stop_phase_ends)
      then show ?thesis by (rule ends_ready_trans [OF b(1)])
    next
      case other: False
      with False Cons.prems(4) have "breaks_in t = None" by (simp add: unbroken_def)
      with b have "\<not> ready" by blast
      with other run b(1) show ?thesis by (intro on [of u False left]) auto
    qed
  qed
qed simp

text \<open>C16: With consoles that answer in time, which leave no answer behind when an interrupt breaks a question off, waiting for the end of a traffic phase returns only after a turn
  in which every BAT reported the status that follows the phase or the end of its traffic, however the phase came to
  its end: by itself, through the scheduler or the action handler, or by the user. No register of the error monitor
  is being filled then and no answer is left in the queue. The one exception is an interrupt that comes, in another
  phase than loadgen, while the BATs are being looked at, which the last premise excludes: \<open>all_ready\<close> is true then, and
  the phase can end with nothing reported (\<open>interrupt_ends_preexec\<close>). In loadgen interrupts may come at any time, and in
  the other phases in the sleep between two looks.\<close>

theorem phase_end_means_ready:
  assumes "wait_phase_end ops ph ts s = (Inr True, s')" "list_all prompt_turn ts" "ex_answers s = []"
    and "ph \<noteq> ''loadgen'' \<longrightarrow> (\<forall>t \<in> set ts. user_does t \<noteq> Undisturbed \<longrightarrow> breaks_in t = None)"
  shows "(\<exists>t \<in> set ts. \<forall>b \<in> set (ex_bats s). at_end ph t b) \<and> ex_answers s' = [] \<and>
    \<not> (em_running (ex_errors s') \<and> em_monitoring (ex_errors s'))"
proof -
  have "list_all (unbroken ph) ts" using assms(4) by (auto simp: list_all_iff unbroken_def)
  with wait_loop_ends [of ops ph 60 ts s s'] assms(1-3) calm_answers show ?thesis
    unfolding wait_phase_end_def ends_ready_def by blast
qed

section \<open>A BAT without the phase\<close>

lemma start_bat_bats:
  assumes "start_bat ops t ph ib s = (Inr v, s')" "prompt_turn t" "ex_answers s = []"
  shows "ex_bats s' = ex_bats s \<and> ex_answers s' = []"
  using assms
  by (auto simp: start_bat_def Let_def andthen_Inr release_never done_with_def ask_prompt on_sched_def ex_event_def
      split: if_splits prod.splits dest!: phase_read)

lemma start_bats_bats:
  assumes "for_each (start_bat ops t ph) bs s = (Inr v, s')" "prompt_turn t" "ex_answers s = []"
  shows "ex_bats s' = ex_bats s \<and> ex_answers s' = []"
  using assms
proof (induction bs arbitrary: s)
  case (Cons b bs)
  then obtain w u where "start_bat ops t ph b s = (Inr w, u)" "for_each (start_bat ops t ph) bs u = (Inr v, s')"
    by (auto simp: andthen_Inr)
  with Cons start_bat_bats [of ops t ph b s w u] show ?case by auto
qed simp

text \<open>A BAT that lacks a traffic phase and was not configured as such is never marked: as long as its
  console keeps answering in time that it runs in another phase, and no interrupt comes in between its answers, the wait
  for the end of this one goes on, and only an exception ends it.\<close>

theorem missing_phase_waits_for_ever:
  assumes "exec_start_phase ops t ph s = (Inr v, s1)" "prompt_turn t" "ex_answers s = []" "b \<in> set (ex_bats s)"
    and "bc_status b = None" "list_all prompt_turn ts"
    and "list_all (\<lambda>t. answer t (bc_id b) ''ScGrpStatus'' = Text other \<and> answer t (bc_id b) ''ScStatus'' = Text ''Started'') ts"
    and "other \<noteq> expected_phase_status ph b" "list_all (unbroken ph) ts"
  shows "fst (wait_phase_end ops ph ts s1) \<noteq> Inr True"
proof
  assume over: "fst (wait_phase_end ops ph ts s1) = Inr True"
  from assms(1) obtain m where "for_each (start_bat ops t ph) (enumerate 0 (ex_bats (s\<lparr>ex_errors := m\<rparr>)))
      (s\<lparr>ex_errors := m\<rparr>) = (Inr v, s1)"
    by (auto simp: exec_start_phase_def on_errors_def andthen_Inr split: prod.splits)
  from start_bats_bats [OF this assms(2)] assms(3,4) have s1: "ex_answers s1 = []" "b \<in> set (ex_bats s1)" by auto
  from over obtain s' where "wait_loop ops ph 60 ts s1 = (Inr True, s')"
    by (metis prod.collapse wait_phase_end_def)
  from wait_loop_ends [OF this assms(6) s1(1) assms(9)] s1(2) obtain t' where "t' \<in> set ts" "at_end ph t' b"
    by (auto simp: ends_ready_def)
  with assms show False by (auto simp: at_end_def finished_status_def list_all_iff)
qed

section \<open>Examples\<close>

definition demo_exec_errors :: error_monitor where
  "demo_exec_errors = \<lparr>em_running = True, em_monitoring = False, em_enable = [(''preexec'', True)], em_phase = ''preexec'',
     em_default_rate = None, em_error_rate = 1 / 10, em_db = [], em_log_open = True, em_bats = [new_bat_db None]\<rparr>"

definition demo_slots :: sched where
  "demo_slots = \<lparr>phase = ''preexec'', cps_scheduling = False, running = False, logging = True, cps_errors = 0,
     display = False, bats = [], effects = []\<rparr>"

definition demo_exec :: "unit execution" where
  "demo_exec = \<lparr>ex_bats = [\<lparr>bc_id = ''A'', bc_first = ''preexec - IDLE'', bc_status = None\<rparr>],
     ex_errors = demo_exec_errors, ex_sched = demo_slots, ex_components = [C_error, C_scheduler],
     ex_tools = [\<lparr>tool_id = ''tcpdump'', start_before = ''preexec'', stop_after = ''postexec''\<rparr>],
     ex_answers = [], ex_pending = False, ex_phase = ''preexec'', ex_log = [], ex_skip_postexec = True\<rparr>"

definition demo_sees :: obs where
  "demo_sees = \<lparr>clock = 100, later = 101, bat_running = (\<lambda>_. True), accepts = (\<lambda>_ _. True), reads = (\<lambda>_. None),
     error_rate = 0, tps_error_rate = 0, load_now = 0, instances = [''A'']\<rparr>"

text \<open>A turn in which the console reports a running scenario in the given phase.\<close>

definition demo_turn :: "bat_state \<Rightarrow> string \<Rightarrow> turn" where
  "demo_turn st ph = \<lparr>bat_state_of = (\<lambda>_. st),
     reply_of = (\<lambda>_ cmd. In_time (if cmd = ''ScStatus'' then Text ''Started'' else if cmd = ''ScGrpStatus'' then Text ph else Flag True)),
     console_up = (\<lambda>_. True), no_exit_code = (\<lambda>_. True), sees = demo_sees, took = 5, stop_asked = False,
     user_does = Undisturbed, breaks_in = None\<rparr>"

lemmas demo_exec_defs = demo_exec_def demo_exec_errors_def demo_slots_def demo_turn_def demo_sees_def

lemma demo_prompt: "prompt_turn (demo_turn st ph)"
  by (simp add: prompt_turn_def answer_def demo_turn_def)

theorem late_answer_shifts_witness:
  "converse [In_time (Text ''Started''), Late (Text ''Stopped''), In_time (Flag True), In_time (Text ''Started'')] demo_exec =
     ([Text ''Started'', Nothing, Text ''Stopped'', Flag True], demo_exec\<lparr>ex_answers := [Text ''Started'']\<rparr>)"
  using late_answer_shifts [of demo_exec "[Text ''Started'']" "Text ''Stopped''" "[Flag True, Text ''Started'']"]
  by (simp add: demo_exec_def)

lemma demo_wait:
  "fst (wait_phase_end fixed_slots ''preexec'' [demo_turn Bat_Running ''preexec - ACTIVE'', demo_turn Bat_Running ''loadgen - IDLE'']
     demo_exec) = Inr True"
  by code_simp

theorem phase_end_means_ready_witness:
  "\<exists>s'. wait_phase_end fixed_slots ''preexec''
       [demo_turn Bat_Running ''preexec - ACTIVE'', demo_turn Bat_Running ''loadgen - IDLE''] demo_exec = (Inr True, s') \<and>
     ex_answers s' = []"
proof -
  obtain s' where s': "wait_phase_end fixed_slots ''preexec''
      [demo_turn Bat_Running ''preexec - ACTIVE'', demo_turn Bat_Running ''loadgen - IDLE''] demo_exec = (Inr True, s')"
    using demo_wait by (metis prod.collapse)
  have "ex_answers demo_exec = []" by (simp add: demo_exec_def)
  moreover have "user_does (demo_turn st ph) = Undisturbed" for st ph by (simp add: demo_turn_def)
  ultimately have "ex_answers s' = []"
    using phase_end_means_ready [OF s'] by (simp add: demo_prompt)
  with s' show ?thesis by blast
qed

lemma demo_start: "fst (exec_start_phase fixed_slots (demo_turn Bat_Running ''postexec - IDLE'') ''preexec'' demo_exec) = Inr ()"
  by code_simp

theorem missing_phase_waits_for_ever_witness:
  "fst (wait_phase_end fixed_slots ''preexec'' (replicate 1000 (demo_turn Bat_Running ''postexec - IDLE''))
     (snd (exec_start_phase fixed_slots (demo_turn Bat_Running ''postexec - IDLE'') ''preexec'' demo_exec))) \<noteq> Inr True"
proof -
  let ?t = "demo_turn Bat_Running ''postexec - IDLE''"
  obtain s1 where s1: "exec_start_phase fixed_slots ?t ''preexec'' demo_exec = (Inr (), s1)"
    using demo_start by (metis prod.collapse)
  have "list_all prompt_turn (replicate 1000 ?t)" by (simp add: list_all_iff demo_prompt)
  moreover have "list_all (\<lambda>t. answer t (bc_id (hd (ex_bats demo_exec))) ''ScGrpStatus'' = Text ''postexec - IDLE'' \<and>
      answer t (bc_id (hd (ex_bats demo_exec))) ''ScStatus'' = Text ''Started'') (replicate 1000 ?t)"
    by (simp add: list_all_iff answer_def demo_turn_def)
  ultimately have "fst (wait_phase_end fixed_slots ''preexec'' (replicate 1000 ?t) s1) \<noteq> Inr True"
    by (intro missing_phase_waits_for_ever [OF s1 demo_prompt, where b = "hd (ex_bats demo_exec)" and other = "''postexec - IDLE''"])
      (simp_all add: demo_exec_def expected_phase_status_def list_all_iff unbroken_def demo_turn_def)
  with s1 show ?thesis by simp
qed

end
