(* ===== verification/Action_Props.thy ===== *)
theory Action_Props
  imports Action_Handler
begin

text \<open>
  When an action starts, what an action leaves behind of the monitors, and when a command ends.
\<close>

section \<open>The trigger\<close>

definition readable :: "action \<Rightarrow> rat \<times> load_monitor option \<Rightarrow> bool" where
  "readable a x = (case snd x of None \<Rightarrow> False
     | Some m \<Rightarrow> act_load a = - 1 \<or> (case stable_at (act_load a) m of Inl e \<Rightarrow> False | Inr b \<Rightarrow> True))"

definition settled :: "action \<Rightarrow> rat \<times> load_monitor option \<Rightarrow> bool" where
  "settled a x = (case snd x of None \<Rightarrow> False
     | Some m \<Rightarrow> act_load a = - 1 \<or> stable_at (act_load a) m = Inr True)"

definition elapsed :: "(rat \<times> load_monitor option) list \<Rightarrow> rat" where
  "elapsed p = sum_list (map fst p)"

text \<open>The time since the last turn in which the load was not stable at the target.\<close>

definition settled_time :: "action \<Rightarrow> (rat \<times> load_monitor option) list \<Rightarrow> rat" where
  "settled_time a p = elapsed (takeWhile (settled a) (rev p))"

definition in_time :: "action \<Rightarrow> (rat \<times> load_monitor option) list \<Rightarrow> bool" where
  "in_time a p \<longleftrightarrow> ac_max_trigger (act_cfg a) = - 1 \<or>
     list_all (\<lambda>k. elapsed (take k p) \<le> of_int (ac_max_trigger (act_cfg a))) [1..<Suc (length p)]"

definition due :: "action \<Rightarrow> (rat \<times> load_monitor option) list \<Rightarrow> bool" where
  "due a p \<longleftrightarrow> p \<noteq> [] \<and> list_all (readable a) p \<and> in_time a p \<and> settled a (last p) \<and>
     of_int (act_time a) < settled_time a p"

lemma elapsed_simps [simp]:
  "elapsed [] = 0" "elapsed (x # p) = fst x + elapsed p" "elapsed (p @ r) = elapsed p + elapsed r"
  by (simp_all add: elapsed_def)

lemma settled_time_snoc:
  "settled_time a (p @ [x]) = (if settled a x then settled_time a p + fst x else 0)"
  by (simp add: settled_time_def)

lemma in_time_snoc:
  "in_time a (p @ [x]) \<longleftrightarrow>
     in_time a p \<and> (ac_max_trigger (act_cfg a) = - 1 \<or> elapsed (p @ [x]) \<le> of_int (ac_max_trigger (act_cfg a)))"
  by (auto simp: in_time_def list_all_iff)

lemma in_time_prefix: "in_time a (p @ r) \<Longrightarrow> in_time a p"
  by (induction r rule: rev_induct) (auto simp: in_time_snoc simp flip: append_assoc)

lemma due_step:
  "(\<exists>n < length (x # ticks). due a (q @ take (Suc n) (x # ticks))) \<longleftrightarrow>
     due a (q @ [x]) \<or> (\<exists>n < length ticks. due a ((q @ [x]) @ take (Suc n) ticks))"
  by (auto simp: less_Suc_eq_0_disj)

lemma not_due_after:
  assumes "\<not> (readable a x \<and> in_time a (q @ [x]))"
  shows "\<not> due a ((q @ [x]) @ p)"
  using assms in_time_prefix [of a "q @ [x]" p] by (auto simp: due_def)

lemma triggered_iff_due:
  assumes "list_all (readable a) q" "in_time a q"
  shows "triggered a (of_int (act_time a) - settled_time a q) (of_int (ac_max_trigger (act_cfg a)) - elapsed q) ticks
      = Fired \<longleftrightarrow> (\<exists>n < length ticks. due a (q @ take (Suc n) ticks))"
  using assms
proof (induction ticks arbitrary: q)
  case (Cons x ticks)
  obtain dt om where x: "x = (dt, om)" by fastforce
  note step = due_step [of x ticks a q]
  show ?case
  proof (cases "readable a x \<and> in_time a (q @ [x])")
    case False
    with not_due_after [OF this] not_due_after [OF this, of "[]"] have "\<not> (\<exists>n < length (x # ticks). due a (q @ take (Suc n) (x # ticks)))"
      unfolding step by auto
    with False Cons.prems show ?thesis
      by (cases om) (auto simp: x readable_def in_time_snoc Let_def split: sum.splits)
  next
    case True
    with Cons.prems have q: "list_all (readable a) (q @ [x])" "in_time a (q @ [x])" by simp_all
    have here: "due a (q @ [x]) \<longleftrightarrow> settled a x \<and> of_int (act_time a) < settled_time a q + dt"
      using q by (auto simp: due_def settled_time_snoc x)
    from Cons.IH [OF q] True show ?thesis
      unfolding step here
      by (cases om) (auto simp: x readable_def settled_def in_time_snoc Let_def settled_time_snoc algebra_simps
          split: sum.splits bool.splits)
  qed
qed simp

text \<open>C23: An action starts exactly when, after some turn, the handler was on line and the load could be
  read at every turn so far, the limit of the waiting time was kept at each, and the load has been
  stable at the configured target without interruption for longer than the configured time.\<close>

theorem action_starts_when_due: "trigger_of a ticks = Fired \<longleftrightarrow> (\<exists>n. due a (take n ticks))"
proof -
  have "(\<exists>n. due a (take n ticks)) \<longleftrightarrow> (\<exists>n < length ticks. due a (take (Suc n) ticks))"
  proof
    assume "\<exists>n. due a (take n ticks)"
    then obtain n where n: "due a (take n ticks)" ..
    then have "n \<noteq> 0" "ticks \<noteq> []" by (auto simp: due_def)
    with n have "due a (take (Suc (min n (length ticks) - 1)) ticks)" "min n (length ticks) - 1 < length ticks"
      by (cases n; auto simp: min_def)+
    then show "\<exists>n < length ticks. due a (take (Suc n) ticks)" by blast
  qed blast
  with triggered_iff_due [of a "[]" ticks] show ?thesis
    by (simp add: trigger_of_def settled_time_def in_time_def)
qed

section \<open>The monitors around an action\<close>

text \<open>What a command, whatever it meets, leaves alone.\<close>

definition same_setup :: "action_handler \<Rightarrow> action_handler \<Rightarrow> bool" where
  "same_setup h h' \<longleftrightarrow> ah_load h' = ah_load h \<and> ah_traffic h' = ah_traffic h \<and> ah_actions h' = ah_actions h \<and>
     ah_stop_phase h' = ah_stop_phase h \<and> ah_released h' = ah_released h \<and>
     em_running (ah_errors h') = em_running (ah_errors h) \<and> em_enable (ah_errors h') = em_enable (ah_errors h)"

interpretation around: state_frame same_setup
  by unfold_locales (auto simp: same_setup_def)

named_theorems ah_ops

lemmas ah_basic [ah_ops] = ah_effect_def ah_verdict_def ah_not_valid_def stop_cmd_def ah_shutdown_def prompt_def

lemma on_bats_setup:
  "on_bats f s = (r, s') \<Longrightarrow> em_running s' = em_running s \<and> em_enable s' = em_enable s \<and> em_phase s' = em_phase s \<and>
     em_monitoring s' = em_monitoring s"
  by (auto simp: on_bats_def split: prod.splits)

lemma em_start_setup:
  "em_start_monitoring now ph rate s = (r, s') \<Longrightarrow> em_running s' = em_running s \<and> em_enable s' = em_enable s"
  by (auto simp: em_start_monitoring_def done_with_def Let_def andthen_def em_open_register_def set_error_rate_def
      split: if_splits prod.splits sum.splits dest!: on_bats_setup)

lemma em_close_setup:
  "em_running (em_close_register now s) = em_running s" "em_enable (em_close_register now s) = em_enable s"
  "em_running (skip_check_last_register s) = em_running s" "em_enable (skip_check_last_register s) = em_enable s"
  by (simp_all add: em_close_register_def skip_check_last_register_def)

lemma em_stop_setup:
  "em_stop_monitoring now s = (r, s') \<Longrightarrow> em_running s' = em_running s \<and> em_enable s' = em_enable s"
  by (auto simp: em_stop_monitoring_def Let_def andthen_def em_close_setup
      split: if_splits prod.splits sum.splits dest!: on_bats_setup)

lemma same_setup_basic [intro]:
  "same_setup h (stop_cmd a h)" "same_setup h (ah_shutdown a h)" "same_setup h (prompt a code why h)"
  "same_setup h (ah_verdict a w h)" "same_setup h (ah_effect x h)"
  "same_setup h (ah_shutdown a (ah_verdict a w h))"
  by (simp_all add: same_setup_def ah_ops Let_def)

lemma start_check_setup: "same_setup h (snd (start_stable_check now a h))"
  by (auto simp: start_stable_check_def andthen_def done_with_def same_setup_def
      split: prod.splits sum.splits dest!: em_start_setup)

lemma stop_check_setup: "same_setup h (snd (stop_stable_check now a h))"
  unfolding stop_stable_check_def
  by (intro around.seq) (auto simp: same_setup_def em_close_setup split: prod.splits sum.splits dest!: em_stop_setup)

lemma read_udp_setup: "same_setup h (snd (read_udp now a u h))"
  by (cases u) (auto simp: read_udp_def done_with_def around.refl
      intro!: around.seq start_check_setup stop_check_setup)

lemma run_command_setup: "same_setup h (snd (run_command a left evs h))"
proof (induction evs arbitrary: left h)
  case (Cons ev evs)
  have more: "same_setup t (snd (run_command a l evs h'))" if "same_setup t h'" for t l h'
    using that Cons around.trans by blast
  show ?case
    by (cases ev) (auto simp: around.refl intro!: more around.seq [OF read_udp_setup])
qed (simp add: around.refl)

lemma monitors_off_load:
  assumes "monitors_off now a h = (r, h')"
  shows "ah_traffic h' = ah_traffic h" "em_running (ah_errors h') = em_running (ah_errors h)"
    "em_enable (ah_errors h') = em_enable (ah_errors h)"
    "ah_load h' = (if ah_traffic h \<and> ac_disable_load (act_cfg a) then lm_disable (ah_load h) else ah_load h)"
  using assms
  by (auto simp: monitors_off_def Let_def done_with_def split: if_splits prod.splits sum.splits dest!: em_stop_setup)

lemma monitors_on_load:
  assumes "monitors_on now a h = (r, h')"
  shows "ah_traffic h' = ah_traffic h"
    "ah_load h' = (if ah_traffic h \<and> ac_disable_load (act_cfg a) then lm_enable (ah_load h) else ah_load h)"
  using assms by (auto simp: monitors_on_def Let_def done_with_def split: if_splits prod.splits)

lemma em_start_monitors:
  "em_start_monitoring now ph rate s = (Inr (), s') \<Longrightarrow> em_running s \<Longrightarrow> map_of (em_enable s) ph = Some True \<Longrightarrow>
     em_monitoring s' \<and> em_phase s' = ph"
  by (auto simp: em_start_monitoring_def done_with_def Let_def em_enabled_def andthen_Inr set_error_rate_def
      em_open_register_def dest: on_bats_setup)

lemma monitors_on_errors:
  assumes "monitors_on now a h = (Inr (), h')" "ah_traffic h" "ac_stop_errors (act_cfg a)" "em_running (ah_errors h)"
    "map_of (em_enable (ah_errors h)) ''loadgen'' = Some True"
  shows "em_monitoring (ah_errors h') \<and> em_phase (ah_errors h') = ''loadgen''"
  using assms by (auto simp: monitors_on_def Let_def split: prod.splits if_splits dest!: em_start_monitors)

lemma enable_disabled [simp]: "lm_enable (lm_disable m) = lm_enable m"
  by (simp add: lm_enable_def lm_disable_def)

text \<open>An action that came to its end, in its stages.\<close>

lemma run_action_stages:
  assumes "run_action a e h = (Inr (Some go), h')"
  obtains h1 h2 h3 where "trigger_of a (trigger_turns e) = Fired" "ah_running h"
    "monitors_off (started_at e) a h = (Inr (), h1)"
    "run_command a (of_int (ac_max_time (act_cfg a))) (act_events e)
       (ah_effect (Command (act_cmd a)) h1\<lparr>ah_executing := True\<rparr>) = (Inr (Some True), h2)"
    "monitors_on (ended_at e) a h2 = (Inr (), h3)" "ah_load h' = ah_load h3" "ah_errors h' = ah_errors h3"
proof -
  have "\<exists>h1 h2 h3. trigger_of a (trigger_turns e) = Fired \<and> ah_running h \<and>
      monitors_off (started_at e) a h = (Inr (), h1) \<and>
      run_command a (of_int (ac_max_time (act_cfg a))) (act_events e)
        (ah_effect (Command (act_cmd a)) h1\<lparr>ah_executing := True\<rparr>) = (Inr (Some True), h2) \<and>
      monitors_on (ended_at e) a h2 = (Inr (), h3) \<and> ah_load h' = ah_load h3 \<and> ah_errors h' = ah_errors h3"
    using assms
    by (auto simp: run_action_def andthen_Inr Let_def ah_ops split: trigger.splits if_splits)
  then show ?thesis using that by blast
qed

text \<open>C24: An action that comes to its end leaves the load monitor as it found it, and enabled when the
  action takes it out of the verdict, and the error monitor counting again when it runs and the load phase is
  enabled in it, whatever happened to the command: success, failure, timeout, end of file, cancel or shutdown.\<close>

theorem action_restores_monitors:
  assumes "run_action a e h = (Inr (Some go), h')"
  shows "ah_load h' = (if ah_traffic h \<and> ac_disable_load (act_cfg a) then lm_enable (ah_load h) else ah_load h) \<and>
    (ah_traffic h \<and> ac_stop_errors (act_cfg a) \<and> em_running (ah_errors h) \<and>
       map_of (em_enable (ah_errors h)) ''loadgen'' = Some True \<longrightarrow>
     em_monitoring (ah_errors h') \<and> em_phase (ah_errors h') = ''loadgen'')"
proof -
  from assms obtain h1 h2 h3 where off: "monitors_off (started_at e) a h = (Inr (), h1)"
    and cmd: "run_command a (of_int (ac_max_time (act_cfg a))) (act_events e)
       (ah_effect (Command (act_cmd a)) h1\<lparr>ah_executing := True\<rparr>) = (Inr (Some True), h2)"
    and on: "monitors_on (ended_at e) a h2 = (Inr (), h3)" "ah_load h' = ah_load h3" "ah_errors h' = ah_errors h3"
    by (rule run_action_stages)
  from cmd have "same_setup (ah_effect (Command (act_cmd a)) h1\<lparr>ah_executing := True\<rparr>) h2"
    using run_command_setup by (metis snd_conv)
  then have "ah_load h2 = ah_load h1" "ah_traffic h2 = ah_traffic h1"
    "em_running (ah_errors h2) = em_running (ah_errors h1)" "em_enable (ah_errors h2) = em_enable (ah_errors h1)"
    by (simp_all add: same_setup_def ah_effect_def)
  with monitors_off_load [OF off] monitors_on_load [OF on(1)] monitors_on_errors [OF on(1)] on(2,3)
  show ?thesis by simp
qed

section \<open>How long a command may take\<close>

text \<open>Without end of the command only lines and silence; what the silence adds up to.\<close>

definition no_end :: "act_event \<Rightarrow> bool" where
  "no_end ev = (case ev of Act_line \<Rightarrow> True | Act_timeout now dt u \<Rightarrow> True | _ \<Rightarrow> False)"

definition silence :: "act_event list \<Rightarrow> rat" where
  "silence evs = sum_list (map (\<lambda>ev. case ev of Act_timeout now dt u \<Rightarrow> dt | _ \<Rightarrow> 0) evs)"

lemma silence_simps [simp]:
  "silence [] = 0" "silence (Act_line # evs) = silence evs"
  "silence (Act_timeout now dt u # evs) = dt + silence evs"
  by (simp_all add: silence_def)

lemma command_over: "\<not> ah_executing h \<Longrightarrow> run_command a left evs h = (Inr (Some True), h)"
  by (cases evs) simp_all

lemma start_check_running: "ah_running (snd (start_stable_check now a h)) = ah_running h"
  by (auto simp: start_stable_check_def andthen_def done_with_def split: prod.splits sum.splits)

lemma stop_check_running: "ah_running (snd (stop_stable_check now a h)) = ah_running h"
  by (auto simp: stop_stable_check_def andthen_def split: prod.splits sum.splits)

lemma read_udp_running: "read_udp now a u h = (r, h') \<Longrightarrow> ah_running h' = ah_running h"
  using start_check_running [of now a h] stop_check_running [of now a h]
  by (cases u) (auto simp: read_udp_def done_with_def andthen_def ah_ops
      split: prod.splits sum.splits if_splits)

lemma shutdown_stops: "ah_running h \<Longrightarrow> ah_node h \<or> \<not> ah_executing h \<Longrightarrow> \<not> ah_executing (ah_shutdown a h)"
  by (auto simp: ah_ops)

lemma gone_node: "\<not> ah_node h \<Longrightarrow> evs \<noteq> [] \<Longrightarrow> fst (run_command a left evs h) \<noteq> Inr None"
  by (cases evs) auto

lemma verdict_keeps [simp]:
  "ah_running (ah_verdict a w h) = ah_running h" "ah_node (ah_verdict a w h) = ah_node h"
  "ah_executing (ah_verdict a w h) = ah_executing h"
  by (simp_all add: ah_ops)

lemma read_udp_node: "read_udp now a u h = (r, h') \<Longrightarrow> ah_node h' = ah_node h"
  by (cases u) (auto simp: read_udp_def start_stable_check_def stop_stable_check_def done_with_def andthen_def ah_ops
      split: prod.splits sum.splits if_splits)

lemma silence_ends_command:
  assumes "0 < ac_max_time (act_cfg a)" "ah_running h" "ah_node h" "list_all no_end evs" "left < silence evs" "0 \<le> left"
  shows "fst (run_command a left evs h) \<noteq> Inr None"
  using assms
proof (induction evs arbitrary: left h)
  case (Cons ev evs)
  show ?case
  proof (cases ev)
    case (Act_timeout now dt u)
    have step: "fst (run_command a left' evs
        (if left - dt < 0 then ah_shutdown a (ah_verdict a w h') else h')) \<noteq> Inr None"
      if udp: "read_udp now a u h = (Inr v, h')" and left': "left' = left - dt" for v h' left' w
    proof (cases "left - dt < 0")
      case True
      with Cons.prems read_udp_running [OF udp] read_udp_node [OF udp] show ?thesis
        by (simp add: command_over shutdown_stops)
    next
      case False
      with Cons Act_timeout left' read_udp_running [OF udp] read_udp_node [OF udp] show ?thesis by simp
    qed
    with Cons.prems Act_timeout show ?thesis
      by (auto simp: andthen_def split: prod.split sum.split)
  qed (use Cons in \<open>simp_all add: no_end_def\<close>)
qed simp

lemma lines_do_not_count:
  "ah_executing h \<Longrightarrow> ah_node h \<Longrightarrow> run_command a left (replicate n Act_line) h = (Inr None, h)"
  by (induction n) simp_all

text \<open>A command with a time limit comes to its end once it has been silent for longer than the limit
  in total; the time in which it prints lines is not counted: one that prints a line every two seconds runs for
  ever.\<close>

theorem limit_counts_silence_only:
  assumes "0 < ac_max_time (act_cfg a)" "ah_running h" "ah_node h" "ah_executing h"
  shows "(list_all no_end evs \<and> of_int (ac_max_time (act_cfg a)) < silence evs \<longrightarrow>
      fst (run_command a (of_int (ac_max_time (act_cfg a))) evs h) \<noteq> Inr None) \<and>
    run_command a (of_int (ac_max_time (act_cfg a))) (replicate n Act_line) h = (Inr None, h)"
  using assms silence_ends_command [of a h evs "of_int (ac_max_time (act_cfg a))"] lines_do_not_count by simp

section \<open>The end of the thread\<close>

lemma timed_out:
  assumes "0 < ac_max_time (act_cfg a)" "of_int (ac_max_time (act_cfg a)) < dt"
    "ah_running h" "ah_node h" "ah_executing h"
  shows "run_command a (of_int (ac_max_time (act_cfg a))) [Act_timeout now dt No_udp] h =
    (Inr (Some True), ah_shutdown a (ah_verdict a (''Timeout for '' @ act_cmd a) h))"
  using assms by (simp add: read_udp_def done_with_def shutdown_stops)

lemma off_line_leaves: "\<not> ah_running h \<Longrightarrow> run_action a e h = (Inr None, h)"
  by (simp add: run_action_def)

text \<open>
  When the command of an action exceeds its time and another action follows, the handler ends without releasing
  the executor, with the error code still zero.
\<close>

lemma timeout_ends_handler:
  assumes "\<not> ah_traffic h" "ah_node h" "\<not> ah_released h" "ah_error_code h = 0"
    "ah_actions h = a # as" "trigger_of a (trigger_turns e) = Fired" "0 < ac_max_time (act_cfg a)"
    "act_events e = [Act_timeout now dt No_udp]" "of_int (ac_max_time (act_cfg a)) < dt" "length es = length as"
  shows "\<exists>h'. ah_run (e # es) h = (Inr (), h') \<and> \<not> ah_running h' \<and> ah_error_code h' = 0 \<and>
    (ah_released h' \<longleftrightarrow> as = [])"
proof -
  let ?h = "ah_effect (Command (act_cmd a)) (h\<lparr>ah_running := True\<rparr>)\<lparr>ah_executing := True\<rparr>"
  let ?s = "ah_shutdown a (ah_verdict a (''Timeout for '' @ act_cmd a) ?h)"
  have cmd: "run_command a (of_int (ac_max_time (act_cfg a))) (act_events e) ?h = (Inr (Some True), ?s)"
    unfolding assms(8) using assms by (intro timed_out) (simp_all add: ah_effect_def)
  have s: "\<not> ah_running ?s" "\<not> ah_traffic ?s" "ah_error_code ?s = 0" "\<not> ah_released ?s"
    using assms by (simp_all add: ah_ops)
  have "run_action a e (h\<lparr>ah_running := True\<rparr>) = (Inr (Some True), ?s)"
    using assms cmd s by (simp add: run_action_def monitors_off_def monitors_on_def done_with_def)
  with assms s show ?thesis
    by (cases as; cases es) (simp_all add: ah_run_def off_line_leaves done_with_def)
qed

section \<open>Examples\<close>

definition demo_act_config :: action_config where
  "demo_act_config = \<lparr>ac_enable = Some (Inr True), ac_cmd = Some ''reboot'', ac_id = Some ''REBOOT'',
     ac_load = Some (Inr (- 1)), ac_time = Some 10, ac_max_trigger = - 1, ac_max_time = 60, ac_after = - 1,
     ac_stop_on_fail = True, ac_not_valid = False, ac_verdict = True, ac_disable_load = True,
     ac_stop_errors = True, ac_allow_info = True\<rparr>"

definition demo_action :: action where
  "demo_action = \<lparr>act_id = ''REBOOT'', act_cmd = ''reboot'', act_load = - 1, act_time = 10, act_cfg = demo_act_config\<rparr>"

definition demo_act_errors :: error_monitor where
  "demo_act_errors = \<lparr>em_running = True, em_monitoring = True, em_enable = [(''loadgen'', True)], em_phase = ''loadgen'',
     em_default_rate = None, em_error_rate = 1 / 10, em_db = [], em_log_open = True, em_bats = []\<rparr>"

definition demo_handler :: "bool \<Rightarrow> action_handler" where
  "demo_handler traffic = \<lparr>ah_traffic = traffic, ah_running = True, ah_node = True, ah_executing = traffic,
     ah_error_code = 0, ah_actions = [demo_action, demo_action], ah_load = lm_new, ah_errors = demo_act_errors,
     ah_effects = [], ah_stop_phase = False, ah_released = False\<rparr>"

definition demo_act_env :: act_env where
  "demo_act_env = \<lparr>trigger_turns = [(11, Some lm_new)], started_at = 11, act_events = [Act_timeout 75 61 No_udp], ended_at = 80\<rparr>"

lemmas demo_act_defs = demo_act_config_def demo_action_def demo_act_errors_def demo_handler_def demo_act_env_def

lemma demo_fired: "trigger_of demo_action (trigger_turns demo_act_env) = Fired"
  by (simp add: demo_act_defs trigger_of_def)

lemma demo_ends: "fst (run_action demo_action demo_act_env (demo_handler True)) = Inr (Some True)"
  by code_simp

theorem action_restores_monitors_witness:
  "\<exists>h'. run_action demo_action demo_act_env (demo_handler True) = (Inr (Some True), h') \<and>
     enable_monitoring (ah_load h') \<and> em_monitoring (ah_errors h')"
proof -
  obtain h' where "run_action demo_action demo_act_env (demo_handler True) = (Inr (Some True), h')"
    using demo_ends by (metis prod.collapse)
  with action_restores_monitors [OF this] show ?thesis by (auto simp: demo_act_defs lm_enable_def)
qed

theorem limit_counts_silence_only_witness:
  "fst (run_command demo_action 60 [Act_line, Act_timeout 40 35 No_udp, Act_line, Act_timeout 75 26 No_udp]
     (demo_handler True)) \<noteq> Inr None \<and>
   run_command demo_action 60 (replicate 1000 Act_line) (demo_handler True) = (Inr None, demo_handler True)"
  using limit_counts_silence_only [of demo_action "demo_handler True"
    "[Act_line, Act_timeout 40 35 No_udp, Act_line, Act_timeout 75 26 No_udp]" 1000]
  by (simp add: demo_act_defs no_end_def)

end
