(* ===== verification/Execution_Release.thy ===== *)
theory Execution_Release
  imports Execution_Props Action_Props Capacity_Runs
begin

text \<open>
  What an execution that fails or is interrupted stops, with each of the two schedulers, and the wait of an
  execution without traffic for its action handler.
\<close>

section \<open>What a failure releases\<close>

definition release_events :: "'a execution \<Rightarrow> exec_event list" where
  "release_events s =
     map (\<lambda>t. Tool_stop (tool_id t)) (ex_tools s) @ map Shut (rev (ex_components s)) @
     map (\<lambda>b. Bat_stop (bc_id b)) (ex_bats s) @ [Bats_joined]"

definition released :: "'a execution \<Rightarrow> bool" where
  "released s \<longleftrightarrow> (\<exists>l. ex_log s = l @ release_events s)"

text \<open>The registers of the BATs have a list for each traffic phase.\<close>

definition phase_dbs :: "error_monitor \<Rightarrow> bool" where
  "phase_dbs m \<longleftrightarrow> (\<forall>b \<in> set (em_bats m).
     set phase_names \<subseteq> set (dict_keys (error_db b)) \<and> traffic_phase b \<in> set phase_names)"

lemma in_keys: "k \<in> set (dict_keys d) \<longleftrightarrow> map_of d k \<noteq> None"
  by (simp add: map_of_eq_None_iff)

definition same_keys :: "bat_db \<Rightarrow> bat_db \<Rightarrow> bool" where
  "same_keys b b' \<longleftrightarrow> dict_keys (error_db b') = dict_keys (error_db b) \<and> traffic_phase b' = traffic_phase b"

lemma open_keys: "same_keys b (snd (bat_open_register now ph b))"
  by (auto simp: bat_open_register_def same_keys_def andthen_def done_with_def keys_modify split: prod.split sum.split)

lemma close_keys: "same_keys b (snd (bat_close_register now b))"
  by (auto simp: bat_close_register_def on_last_def same_keys_def andthen_def done_with_def keys_modify split: prod.split sum.split)

lemma each_keys: "(\<And>b. same_keys b (snd (f b))) \<Longrightarrow> list_all2 same_keys bs (snd (each_db f bs))"
proof (induction bs)
  case (Cons b bs)
  have "same_keys b b" for b by (simp add: same_keys_def)
  moreover have "list_all2 same_keys bs bs" using calculation by (simp add: list.rel_refl)
  ultimately show ?case
    using Cons.IH [OF Cons.prems] Cons.prems [of b] by (cases "f b"; cases "fst (f b)") (auto split: prod.splits)
qed simp

lemma same_keys_all:
  "list_all2 same_keys bs bs' \<Longrightarrow>
     \<forall>b \<in> set bs. set phase_names \<subseteq> set (dict_keys (error_db b)) \<and> traffic_phase b \<in> set phase_names \<Longrightarrow>
     \<forall>b \<in> set bs'. set phase_names \<subseteq> set (dict_keys (error_db b)) \<and> traffic_phase b \<in> set phase_names"
  by (induction rule: list_all2_induct) (simp_all add: same_keys_def del: set_map)

lemma phase_dbs_keys: "list_all2 same_keys (em_bats m) (em_bats m') \<Longrightarrow> phase_dbs m \<Longrightarrow> phase_dbs m'"
  unfolding phase_dbs_def by (rule same_keys_all)

lemma on_bats_keys:
  "(\<And>b. same_keys b (snd (f b))) \<Longrightarrow> on_bats f m = (r, m') \<Longrightarrow> phase_dbs m \<Longrightarrow> phase_dbs m'"
  using each_keys [of f "em_bats m"] phase_dbs_keys [of m m'] by (auto simp: on_bats_def split: prod.splits)

lemma phase_dbs_bats: "em_bats m' = em_bats m \<Longrightarrow> phase_dbs m' = phase_dbs m"
  by (simp add: phase_dbs_def)

lemma phase_dbs_fields [simp]:
  "phase_dbs (m\<lparr>em_running := a\<rparr>) = phase_dbs m" "phase_dbs (m\<lparr>em_monitoring := a\<rparr>) = phase_dbs m"
  "phase_dbs (m\<lparr>em_phase := p\<rparr>) = phase_dbs m" "phase_dbs (m\<lparr>em_log_open := a\<rparr>) = phase_dbs m"
  "phase_dbs (em_open_register now m) = phase_dbs m" "phase_dbs (set_error_rate r m) = phase_dbs m"
  "phase_dbs (em_close_register now m) = phase_dbs m"
  by (simp_all add: phase_dbs_def em_open_register_def set_error_rate_def em_close_register_def)

lemma start_dbs: "phase_dbs m \<Longrightarrow> phase_dbs (snd (em_start_monitoring now ph r m))"
  by (auto simp: em_start_monitoring_def done_with_def Let_def andthen_def dest: on_bats_keys [OF open_keys]
      split: prod.split sum.split)

lemma stop_dbs: "phase_dbs m \<Longrightarrow> phase_dbs (snd (em_stop_monitoring now m))"
  by (auto simp: em_stop_monitoring_def done_with_def Let_def andthen_def dest: on_bats_keys [OF close_keys]
      split: prod.split sum.split)

lemma close_returns: "phase_dbs m \<Longrightarrow> b \<in> set (em_bats m) \<Longrightarrow> fst (bat_close_register now b) = Inr ()"
proof -
  assume "phase_dbs m" "b \<in> set (em_bats m)"
  then have "traffic_phase b \<in> set (dict_keys (error_db b))" by (auto simp: phase_dbs_def)
  then obtain rs where "map_of (error_db b) (traffic_phase b) = Some rs" unfolding in_keys by blast
  then show ?thesis by (simp add: bat_close_register_def error_db_registering_def key_def done_with_def)
qed

lemma each_returns: "(\<And>b. b \<in> set bs \<Longrightarrow> fst (f b) = Inr ()) \<Longrightarrow> fst (each_db f bs) = Inr ()"
proof (induction bs)
  case (Cons b bs)
  from Cons.prems [of b] Cons show ?case by (cases "f b"; cases "fst (f b)") (auto split: prod.splits)
qed simp

lemma stop_returns: "phase_dbs m \<Longrightarrow> \<exists>r m'. em_stop_monitoring now m = (Inr r, m')"
  using each_returns [of "em_bats m" "bat_close_register now"] close_returns [of m _ now]
  by (auto simp: em_stop_monitoring_def on_bats_def Let_def andthen_def split: prod.split sum.split)

lemma shutdown_returns: "phase_dbs m \<Longrightarrow> fst (em_shutdown now m) = Inr ()"
  using stop_returns [of m now] by (auto simp: em_shutdown_def done_with_def)

lemma shutdown_dbs: "phase_dbs m \<Longrightarrow> phase_dbs (snd (em_shutdown now m))"
  using stop_returns [of m now] stop_dbs [of m now] by (auto simp: em_shutdown_def done_with_def)

text \<open>
  The contract of every step of an execution with fixed slots: it keeps the plan and the lists of the registers,
  and raises \<open>BatError\<close> only when everything is released.
\<close>

definition ok :: "'a execution \<Rightarrow> 'b res \<times> 'a execution \<Rightarrow> bool" where
  "ok s p \<longleftrightarrow> (phase_dbs (ex_errors s) \<longrightarrow>
     same_plan s (snd p) \<and> phase_dbs (ex_errors (snd p)) \<and> (\<forall>m. fst p = Inl (BatError m) \<longrightarrow> released (snd p)))"

lemma ok_seq: "ok s p \<Longrightarrow> (\<And>v t. ok t (f v t)) \<Longrightarrow> ok s (andthen p f)"
proof -
  assume p: "ok s p" and f: "\<And>v t. ok t (f v t)"
  obtain r t where "p = (r, t)" by fastforce
  with p f [of t] show ?thesis
    by (cases r) (auto simp: ok_def intro: plan.trans)
qed

lemma ok_for_each: "(\<And>x t. x \<in> set xs \<Longrightarrow> ok t (f x t)) \<Longrightarrow> ok s (for_each f xs s)"
  by (induction xs arbitrary: s) (auto simp: ok_def [of _ "(Inr _, _)"] plan.refl intro!: ok_seq)

lemma ok_start: "same_plan s t \<Longrightarrow> ex_errors t = ex_errors s \<Longrightarrow> ok t p \<Longrightarrow> ok s p"
  by (auto simp: ok_def intro: plan.trans)

lemma ok_Inr: "ok s (Inr v, s)"
  by (simp add: ok_def plan.refl)

lemma ok_Inl: "(\<And>m. e \<noteq> BatError m) \<Longrightarrow> ok s (Inl e, s)"
  by (simp add: ok_def plan.refl)

lemma ok_Inr_to: "same_plan s t \<Longrightarrow> ex_errors t = ex_errors s \<Longrightarrow> ok s (Inr v, t)"
  by (simp add: ok_def)

lemma errors_kept [simp]:
  "ex_errors (ex_event e s) = ex_errors s" "ex_errors (call_if f c s) = ex_errors s"
  "ex_errors (shut_load s) = ex_errors s"
  by (simp_all add: ex_event_def call_if_def shut_load_def)

lemma fold_event_errors: "(\<And>x s. ex_errors (f x s) = ex_errors s) \<Longrightarrow> ex_errors (fold f xs s) = ex_errors s"
  by (induction xs arbitrary: s) auto

lemma errors_kept_fold [simp]:
  "ex_errors (stop_all_bats s) = ex_errors s" "ex_errors (stop_tools p s) = ex_errors s"
  "ex_errors (start_tools ph s) = ex_errors s" "ex_errors (fold (call_if f) cs s) = ex_errors s"
  by (simp_all add: stop_all_bats_def stop_tools_def start_tools_def fold_event_errors)

lemma fold_event_log: "ex_log (fold (\<lambda>x. ex_event (g x)) xs s) = ex_log s @ map g xs"
  by (induction xs arbitrary: s) (simp_all add: ex_event_def)

lemma bulk_log:
  "ex_log (stop_tools p s) = ex_log s @ map (\<lambda>t. Tool_stop (tool_id t)) (filter p (ex_tools s))"
  "ex_log (stop_all_bats s) = ex_log s @ map (\<lambda>b. Bat_stop (bc_id b)) (ex_bats s)"
  by (simp_all add: stop_tools_def stop_all_bats_def fold_event_log)

lemma event_log: "ex_log (ex_event e s) = ex_log s @ [e]"
  by (simp add: ex_event_def)

lemma on_errors_shutdown:
  assumes "phase_dbs (ex_errors s)"
  shows "\<exists>s'. on_errors (em_shutdown now) s = (Inr (), s') \<and> ex_log s' = ex_log s \<and> same_plan s s' \<and> phase_dbs (ex_errors s')"
  using shutdown_returns [OF assms, of now] shutdown_dbs [OF assms, of now]
  by (auto simp: on_errors_def same_plan_def split: prod.splits)

lemma on_sched_shutdown:
  "\<exists>s'. on_sched (sc_shutdown fixed_slots) s = (Inr (), s') \<and> ex_log s' = ex_log s \<and> same_plan s s' \<and> ex_errors s' = ex_errors s"
  by (auto simp: on_sched_def fixed_slots_def base_shutdown_def same_plan_def Let_def)

lemma shut_one:
  assumes "phase_dbs (ex_errors s)"
  shows "\<exists>s'. shut fixed_slots now c s = (Inr (), s') \<and> ex_log s' = ex_log s @ [Shut c] \<and> same_plan s s' \<and>
    phase_dbs (ex_errors s')"
  using assms on_errors_shutdown [of "ex_event (Shut c) s" now] on_sched_shutdown [of "ex_event (Shut c) s"]
    plan_basic(1) [of s "Shut c"]
  by (cases c) (auto simp: shut_def Let_def done_with_def event_log intro: plan.trans)

lemma shut_all:
  "phase_dbs (ex_errors s) \<Longrightarrow>
     \<exists>s'. for_each (shut fixed_slots now) cs s = (Inr (), s') \<and> ex_log s' = ex_log s @ map Shut cs \<and> same_plan s s' \<and>
       phase_dbs (ex_errors s')"
proof (induction cs arbitrary: s)
  case (Cons c cs)
  from shut_one [OF Cons.prems, of now c] obtain u where "shut fixed_slots now c s = (Inr (), u)"
    "ex_log u = ex_log s @ [Shut c]" "same_plan s u" "phase_dbs (ex_errors u)" by blast
  with Cons.IH [of u] show ?case by (auto intro: plan.trans)
qed (simp add: plan.refl)

lemma release_result:
  assumes "phase_dbs (ex_errors s)"
  shows "\<exists>s'. release_for fixed_slots now e s = (Inl e, s') \<and> ex_log s' = ex_log s @ release_events s \<and>
    same_plan s s' \<and> phase_dbs (ex_errors s')"
proof -
  from assms shut_all [of "stop_tools (\<lambda>_. True) s" now "rev (ex_components s)"] obtain u where
    u: "for_each (shut fixed_slots now) (rev (ex_components s)) (stop_tools (\<lambda>_. True) s) = (Inr (), u)"
    "ex_log u = ex_log s @ map (\<lambda>t. Tool_stop (tool_id t)) (ex_tools s) @ map Shut (rev (ex_components s))"
    "same_plan s u" "phase_dbs (ex_errors u)"
    by (auto simp: bulk_log dest: plan.trans [OF plan_fold(2)])
  moreover from on_errors_shutdown [of "ex_event Bats_joined (stop_all_bats u)" now] u(4) obtain v where
    "on_errors (em_shutdown now) (ex_event Bats_joined (stop_all_bats u)) = (Inr (), v)"
    "ex_log v = ex_log (ex_event Bats_joined (stop_all_bats u))"
    "same_plan (ex_event Bats_joined (stop_all_bats u)) v" "phase_dbs (ex_errors v)"
    by auto
  moreover have "same_plan u (ex_event Bats_joined (stop_all_bats u))"
    using plan_basic(1) plan_fold(1) plan.trans by blast
  ultimately show ?thesis
    by (auto simp: release_for_def stop_BATs_def wait_BAT_thread_end_def bulk_log event_log
        release_events_def same_plan_def)
qed

lemma released_after: "ex_log s' = l @ release_events s \<Longrightarrow> same_plan s s' \<Longrightarrow> released s'"
  by (auto simp: released_def release_events_def same_plan_def)

lemma ok_release: "ok s (release_for fixed_slots now e s :: 'b res \<times> unit execution)"
  unfolding ok_def
proof (intro impI)
  assume "phase_dbs (ex_errors s)"
  from release_result [OF this, of now e] obtain s'
    where "(release_for fixed_slots now e s :: 'b res \<times> unit execution) = (Inl e, s')"
    "released s'" "same_plan s s'" "phase_dbs (ex_errors s')" using released_after by blast
  then show "same_plan s (snd (release_for fixed_slots now e s :: 'b res \<times> unit execution)) \<and>
      phase_dbs (ex_errors (snd (release_for fixed_slots now e s :: 'b res \<times> unit execution))) \<and>
      (\<forall>m. fst (release_for fixed_slots now e s :: 'b res \<times> unit execution) = Inl (BatError m) \<longrightarrow>
         released (snd (release_for fixed_slots now e s :: 'b res \<times> unit execution)))"
    by (metis snd_conv)
qed

lemma ok_ask: "ok s (ask_console t b cmd s)"
  using plan_ops(4) [of s t b cmd]
  by (auto simp: ok_def ask_console_def run_cli_def split: list.splits console_reply.splits)

lemma ok_errors:
  assumes "\<And>m. phase_dbs m \<Longrightarrow> phase_dbs (snd (f m)) \<and> (\<forall>w. fst (f m) \<noteq> Inl (BatError w))"
  shows "ok s (on_errors f s)"
  using assms [of "ex_errors s"] by (auto simp: ok_def on_errors_def same_plan_def split: prod.splits)

lemma ok_sched: "(\<And>m w. fst (f m) \<noteq> Inl (BatError w)) \<Longrightarrow> ok s (on_sched f s)"
  by (auto simp: ok_def on_sched_def same_plan_def split: prod.splits) (metis fst_conv)

lemma em_start_exc: "phase_dbs m \<Longrightarrow> fst (em_start_monitoring now ph r m) \<noteq> Inl (BatError w)"
proof -
  have each: "fst (each_db (bat_open_register now ph) bs) \<noteq> Inl (BatError w)" for bs
  proof (induction bs)
    case (Cons b bs)
    have "fst (bat_open_register now ph b) \<noteq> Inl (BatError w)"
      by (auto simp: bat_open_register_def key_def done_with_def split: option.split)
    with Cons show ?case by (auto split: prod.splits sum.splits)
  qed simp
  show ?thesis
    using each by (auto simp: em_start_monitoring_def done_with_def Let_def on_bats_def andthen_def
        split: prod.split sum.split) (metis fst_conv)
qed

lemma ok_em_start: "ok s (on_errors (em_start_monitoring now ph r) s)"
  by (intro ok_errors) (simp add: start_dbs em_start_exc)

lemma ok_em_stop: "ok s (on_errors (em_stop_monitoring now) s)"
proof (intro ok_errors conjI allI)
  fix m w assume m: "phase_dbs m"
  then show "phase_dbs (snd (em_stop_monitoring now m))" by (rule stop_dbs)
  show "fst (em_stop_monitoring now m) \<noteq> Inl (BatError w)" using stop_returns [OF m, of now] by auto
qed

lemma ok_em_shutdown: "ok s (on_errors (em_shutdown now) s)"
  by (intro ok_errors) (simp add: shutdown_dbs shutdown_returns)

lemma base_shutdown_returns: "\<exists>t. base_shutdown s = (Inr (), t)"
  by (simp add: base_shutdown_def Let_def)

lemma refresh_bats_exc: "fst (refresh_bats base_shutdown ob bs none (s :: sched)) \<noteq> Inl (BatError w)"
proof (induction bs arbitrary: none s)
  case (Cons b bs)
  have attempt: "fst (andthen (try_slot base_shutdown ob b v t) (\<lambda>_. refresh_bats base_shutdown ob bs False)) \<noteq> Inl (BatError w)"
    for v and t :: sched
    using Cons base_shutdown_returns [of t] by (auto simp: try_slot_def cps_problem_def)
  show ?case
    using Cons attempt by (auto split: option.splits list.splits prod.splits if_splits simp: Option.bind_eq_Some_conv)
qed simp

lemma base_refresh_exc: "fst (base_refresh base_shutdown ob bs (s :: sched)) \<noteq> Inl (BatError w)"
  using refresh_bats_exc [of ob bs True s w]
  by (auto simp: base_refresh_def done_with_def andthen_def split: prod.splits sum.splits)

lemma ok_scheduler:
  "ok s (on_sched (sc_refresh fixed_slots ob bs) s)" "ok s (on_sched (sc_start_phase fixed_slots ob ph bs) s)"
  "ok s (on_sched (sc_shutdown fixed_slots) s)"
proof -
  show "ok s (on_sched (sc_refresh fixed_slots ob bs) s)"
    by (rule ok_sched) (simp add: fixed_slots_def refresh_def base_refresh_exc)
  show "ok s (on_sched (sc_start_phase fixed_slots ob ph bs) s)"
    by (rule ok_sched) (simp add: fixed_slots_def start_phase_def base_start_phase_def Let_def base_refresh_exc done_with_def
        split: list.split)
  show "ok s (on_sched (sc_shutdown fixed_slots) s)"
    by (rule ok_sched) (simp add: fixed_slots_def base_shutdown_def Let_def)
qed

lemmas ok_rules = ok_seq ok_for_each ok_release ok_ask ok_Inr ok_em_start ok_em_stop ok_em_shutdown ok_scheduler

lemma ok_via:
  "ok (ex_event e s) p \<Longrightarrow> ok s p" "ok (call_if f c s) p \<Longrightarrow> ok s p" "ok (shut_load s) p \<Longrightarrow> ok s p"
  "ok (start_tools ph s) p \<Longrightarrow> ok s p" "ok (stop_tools q s) p \<Longrightarrow> ok s p" "ok (stop_all_bats s) p \<Longrightarrow> ok s p"
  "ok (s\<lparr>ex_pending := b\<rparr>) p \<Longrightarrow> ok s p" "ok (s\<lparr>ex_phase := ph\<rparr>) p \<Longrightarrow> ok s p"
  "ok (fold (call_if f) cs s) p \<Longrightarrow> ok s p"
  by (rule ok_start; simp add: plan_basic plan_fold)+

lemma ok_done: "ok s (done_with s)"
  by (simp add: done_with_def ok_Inr)

lemma ok_read: "ok s (read_traffic_phase fixed_slots t b s)" "ok s (read_ScStatus fixed_slots t b s)"
  unfolding read_traffic_phase_def read_ScStatus_def by (auto intro!: ok_rules)

lemma ok_set_phase:
  assumes "ph \<in> set phase_names"
  shows "ok s (done_with (s\<lparr>ex_errors := set_traffic_phase i ph (ex_errors s)\<rparr>))"
proof -
  have "phase_dbs (set_traffic_phase i ph m)" if "phase_dbs m" for m
  proof (cases "i < length (em_bats m)")
    case True
    with that assms show ?thesis
      by (fastforce simp: set_traffic_phase_def phase_dbs_def simp del: set_map
          dest!: set_update_subset_insert [THEN subsetD] dest: nth_mem)
  qed (use that in \<open>simp add: set_traffic_phase_def phase_dbs_def list_update_beyond not_less\<close>)
  then show ?thesis by (simp add: ok_def done_with_def same_plan_def)
qed

lemma ok_phase_needed: "ok s (phase_needed ph a, s)"
  by (cases a) (auto simp: phase_needed_def ok_Inr intro: ok_Inl)

lemma ok_start_bat: "ph \<in> set phase_names \<Longrightarrow> ok s (start_bat fixed_slots t ph ib s)"
  unfolding start_bat_def Let_def
  by (auto intro!: ok_release ok_seq [OF ok_read(1)] ok_seq [OF ok_phase_needed] ok_done
      ok_seq [OF ok_via(8) [OF ok_scheduler(2)]] ok_seq [OF ok_via(1) [OF ok_ask]] ok_set_phase)

lemma ok_exec_start: "ph \<in> set phase_names \<Longrightarrow> ok s (exec_start_phase fixed_slots t ph s)"
  unfolding exec_start_phase_def by (intro ok_seq [OF ok_em_start] ok_for_each ok_start_bat)

lemma ok_stop_bat: "ok s (stop_bat_phase fixed_slots t b s)"
  unfolding stop_bat_phase_def by (auto intro!: ok_release ok_done ok_seq [OF ok_via(1) [OF ok_ask]])

lemma ok_all_finished: "ok s (all_finished fixed_slots t bs ready s)"
  by (induction bs arbitrary: ready s) (auto intro!: ok_Inr ok_release ok_seq [OF ok_read(2)])

lemma ok_await_stop: "ok s (await_stop fixed_slots ts s)"
  by (induction ts arbitrary: s)
    (auto intro!: ok_Inr ok_seq [OF ok_all_finished] ok_seq [OF ok_via(7) [OF ok_em_stop]])

lemma ok_stop_phase: "ok s (stop_phase fixed_slots t ts s)"
  unfolding stop_phase_def
  by (intro ok_seq [OF ok_via(3) [OF ok_for_each]] ok_stop_bat ok_await_stop)

lemma ok_look_at: "ok s (look_at fixed_slots t ph left bs ready rf s)"
proof (induction bs arbitrary: ready rf s)
  case (Cons b bs)
  have "ok s (look_at fixed_slots t ph left bs ready rf (shut_load s))" for ready rf s
    by (rule ok_via(3) [OF Cons])
  with Cons show ?case by (auto intro!: ok_release ok_seq [OF ok_read(1)] ok_seq [OF ok_read(2)])
qed (simp add: ok_Inr)

lemma ok_look: "ok s (look fixed_slots t ph left s)"
  unfolding look_def by (auto intro!: ok_Inr ok_seq [OF ok_look_at] ok_seq [OF ok_scheduler(1)] split: prod.split)

lemma ok_broken: "ok s (broken_look fixed_slots t ph left s)"
  unfolding broken_look_def
  by (auto intro!: ok_Inr ok_Inr_to ok_seq [OF ok_look_at] simp: same_plan_def split: option.split prod.split)

lemma if_both: "ok s p \<Longrightarrow> ok s q \<Longrightarrow> ok s (if b then p else q)"
  by simp

lemma ok_wait: "ok s (wait_loop fixed_slots ph left ts s)"
proof (induction ts arbitrary: left s)
  case (Cons t ts)
  let ?p = "\<lambda>s. s\<lparr>ex_pending := (ex_pending s \<or> stop_asked t)\<rparr>"
  have on: "ok s (if ph = ''loadgen'' \<and> ex_pending (?p s) then stop_phase fixed_slots t ts (?p s)
      else if ready then andthen (on_errors (em_stop_monitoring (clock (sees t))) (?p s)) (\<lambda>_ s. (Inr True, s))
      else wait_loop fixed_slots ph left' ts (?p s))" for s ready left'
    by (rule ok_via(7) [where b = "ex_pending s \<or> stop_asked t"])
      (auto intro: ok_stop_phase ok_Inr Cons intro!: ok_seq [OF ok_em_stop])
  show ?case
  proof (cases "user_does t = Undisturbed")
    case True
    show ?thesis unfolding wait_loop.simps Let_def if_P [OF True] by (rule ok_seq [OF ok_look]) (rule on)
  next
    case False
    have rest: "ok r (if ph = ''loadgen'' then stop_phase fixed_slots t ts r
        else if ph = ''loadgen'' \<and> ex_pending (?p r) then stop_phase fixed_slots t ts (?p r)
        else if ready then andthen (on_errors (em_stop_monitoring (clock (sees t))) (?p r)) (\<lambda>_ s. (Inr True, s))
        else wait_loop fixed_slots ph left ts (?p r))" for r ready
      by (rule if_both) (rule ok_stop_phase, rule on)
    show ?thesis
      unfolding wait_loop.simps Let_def if_not_P [OF False]
      by (rule ok_seq [OF ok_broken]) (rule if_both [OF ok_Inl rest], simp)
  qed
qed (simp add: ok_Inr)

lemma ok_and_on: "ok s p \<Longrightarrow> (\<And>t. ok t (f t)) \<Longrightarrow> ok s (and_on p f)"
  unfolding and_on_def by (rule ok_seq) (auto intro: ok_Inr)

lemma ok_wait_BATs: "ok s (wait_BAT_thread_end now s)" "ok s (stop_BATs now s)"
proof -
  show *: "ok s (wait_BAT_thread_end now s)" for s
    unfolding wait_BAT_thread_end_def by (rule ok_via(1) [OF ok_em_shutdown])
  show "ok s (stop_BATs now s)" unfolding stop_BATs_def by (rule ok_via(6) [OF *])
qed


lemmas plan_fields = plan_basic [unfolded same_plan_def] plan_fold [unfolded same_plan_def]

lemma ok_tools:
  "ok s (Inr v, stop_tools p s)" "ok s (Inr v, stop_tools p (fold (call_if f) cs (ex_event e s)))"
  by (rule ok_Inr_to; simp add: same_plan_def plan_fields)+

lemma ok_wait_end: "ok s (wait_phase_end fixed_slots ph ts s)"
  unfolding wait_phase_end_def by (rule ok_wait)

lemma ok_monitor_load: "ok s (start_monitor_load ready s)"
  by (auto simp: start_monitor_load_def intro!: ok_done ok_Inl ok_via(1) [OF ok_done])

lemma ok_phases:
  "ok s (exec_start_phase fixed_slots t ''preexec'' s)" "ok s (exec_start_phase fixed_slots t ''loadgen'' s)"
  "ok s (exec_start_phase fixed_slots t ''postexec'' s)"
  by (rule ok_exec_start, simp add: phase_names_def)+

lemma ok_preexec: "ok s (preexec_stage fixed_slots c s)"
  unfolding preexec_stage_def
  by (intro ok_seq [OF ok_via(2) [OF ok_via(4) [OF ok_phases(1)]]]
      ok_and_on [OF ok_via(1) [OF ok_via(2) [OF ok_wait_end]]] ok_tools)

lemma ok_loadgen: "ok s (loadgen_stage fixed_slots c s)"
  unfolding loadgen_stage_def
  by (intro ok_seq [OF ok_via(4) [OF ok_monitor_load]] ok_seq [OF ok_via(2) [OF ok_via(2) [OF ok_phases(2)]]]
      ok_and_on [OF ok_via(1) [OF ok_wait_end]] ok_tools)

lemma ok_postexec: "ok s (postexec_stage fixed_slots c s)"
proof -
  have "ok s (if ex_skip_postexec s then stop_BATs (ends_at c) s
      else andthen (exec_start_phase fixed_slots (post_turn c) ''postexec'' (start_tools ''postexec'' s))
             (\<lambda>_. wait_BAT_thread_end (ends_at c)))"
    by (auto intro!: ok_wait_BATs ok_seq [OF ok_via(4) [OF ok_phases(3)]])
  then show ?thesis unfolding postexec_stage_def
    by (rule ok_seq) (intro ok_seq [OF ok_via(1) [OF ok_scheduler(3)]] ok_tools)
qed

lemma ok_telnet: "ok s (telnet_control fixed_slots c s)"
  unfolding telnet_control_def
  by (auto intro!: ok_Inr ok_release ok_and_on ok_preexec ok_loadgen ok_postexec split: option.split bool.split)

lemma ok_interrupted: "ok s (interrupted fixed_slots now s)"
  unfolding interrupted_def
  by (intro ok_seq [OF ok_via(9) [OF ok_via(1) [OF ok_scheduler(3)]]] ok_via(5) [OF ok_wait_BATs(2)])

lemma ok_caught: "ok s (Inl KeyboardInterrupt, t) \<Longrightarrow> ok t p \<Longrightarrow> ok s p"
  by (auto simp: ok_def intro: plan.trans)

lemma uncaught:
  "r \<noteq> Inl KeyboardInterrupt \<Longrightarrow> (case (r, u) of (Inl KeyboardInterrupt, s) \<Rightarrow> f s | q \<Rightarrow> q) = (r, u)"
  by (cases r) (auto split: py_exc.split)

text \<open>C22: An execution with fixed slots that ends in an \<open>ExecutionRunError\<close> or a \<open>BatError\<close>, at whatever command
  of whatever phase, has at last told every external tool to stop, shut its components down in the
  reverse order of their creation, stopped every BAT and waited for their threads.\<close>

theorem failed_execution_is_released:
  assumes "exec_run fixed_slots c s = (Inl e, s')" "phase_dbs (ex_errors s)"
    and "e = ExecutionRunError m \<or> e = BatError m"
  shows "released s' \<and> same_plan s s'"
proof -
  define st where "st = fold (\<lambda>b. ex_event (Bat_start (bc_id b))) (ex_bats s) (call_if Started C_memory s)"
  define traffic where "traffic = (case telnet_control fixed_slots c st of
      (Inl KeyboardInterrupt, s) \<Rightarrow> andthen (interrupted fixed_slots (ends_at c) s) (\<lambda>_ s. (Inr True, s)) | r \<Rightarrow> r)"
  define whole where "whole = and_on traffic (\<lambda>s.
      if exit_order c then (Inl KeyboardInterrupt, call_if Shut C_memory s) else (Inr True, call_if Shut C_memory s))"
  have run: "exec_run fixed_slots c s = (case whole of
      (Inl (ExecutionRunError m), s) \<Rightarrow> release_for fixed_slots (ends_at c) (ExecutionRunError m) s | r \<Rightarrow> r)"
    by (simp add: exec_run_def st_def traffic_def whole_def Let_def)
  have "same_plan (call_if Started C_memory s) st" unfolding st_def by (rule plan.fold_steps, rule plan_basic)
  then have st: "same_plan s st" "ex_errors st = ex_errors s"
    using plan.trans [OF plan_basic(2)] by (simp_all add: st_def fold_event_errors)
  obtain r u where u: "telnet_control fixed_slots c st = (r, u)" by fastforce
  have "ok st traffic"
  proof (cases "r = Inl KeyboardInterrupt")
    case True
    have "ok u (andthen (interrupted fixed_slots (ends_at c) u) (\<lambda>_ s. (Inr True, s)))"
      by (rule ok_seq [OF ok_interrupted ok_Inr])
    moreover have "ok st (Inl KeyboardInterrupt :: bool res, u)" using True u ok_telnet [of st c] by simp
    ultimately have "ok st (andthen (interrupted fixed_slots (ends_at c) u) (\<lambda>_ s. (Inr True, s)))"
      by (rule ok_caught [rotated])
    with True u show ?thesis by (simp add: traffic_def)
  next
    case False
    then have "traffic = (r, u)" unfolding traffic_def u by (rule uncaught)
    with u ok_telnet [of st c] show ?thesis by simp
  qed
  then have "ok st whole"
    unfolding whole_def by (rule ok_and_on) (auto intro: ok_via(2) ok_Inl ok_Inr)
  then have "ok s whole" using st by (blast intro: ok_start)
  moreover obtain w v where w: "whole = (w, v)" by fastforce
  ultimately have v: "same_plan s v" "phase_dbs (ex_errors v)" "\<And>m. w = Inl (BatError m) \<Longrightarrow> released v"
    using assms(2) by (auto simp: ok_def)
  show ?thesis
  proof (cases "\<exists>k. w = Inl (ExecutionRunError k)")
    case True
    then obtain k where k: "exec_run fixed_slots c s = release_for fixed_slots (ends_at c) (ExecutionRunError k) v"
      using run w by auto
    from release_result [OF v(2), of "ends_at c" "ExecutionRunError k"] obtain t where
      "(release_for fixed_slots (ends_at c) (ExecutionRunError k) v :: bool res \<times> _) = (Inl (ExecutionRunError k), t)"
      "ex_log t = ex_log v @ release_events v" "same_plan v t" by blast
    with k assms(1) v(1) released_after [of t "ex_log v" v] show ?thesis by (auto intro: plan.trans)
  next
    case False
    with run w have "exec_run fixed_slots c s = (w, v)" by (cases w) (auto split: py_exc.splits)
    with assms False v show ?thesis by auto
  qed
qed

section \<open>An interrupt in preexec\<close>

text \<open>C25: A Ctrl-C that reaches preexec when it begins to look at the BATs, before the first has answered, ends the
  phase as if every BAT were ready: none is asked, whatever it would report, and \<open>wait_phase_end\<close> returns, so that the
  execution goes on with loadgen. No order to leave the test case may have come, which is looked at first, and the error monitor has
  its data bases of the phases, as it has from its start on.\<close>

theorem interrupt_ends_preexec:
  assumes "user_does t \<in> {Enter_key, Second_ctrl_c}" "breaks_in t = Some (0, stale)" "phase_dbs (ex_errors s)"
  shows "\<exists>s'. wait_phase_end ops ''preexec'' (t # ts) s = (Inr True, s') \<and> ex_log s' = ex_log s \<and>
    ex_answers s' = ex_answers s @ stale"
proof -
  let ?s = "s\<lparr>ex_answers := ex_answers s @ stale, ex_pending := ex_pending s \<or> stop_asked t\<rparr>"
  obtain r m where "em_stop_monitoring (clock (sees t)) (ex_errors s) = (Inr r, m)"
    using stop_returns [OF assms(3)] by blast
  then have "on_errors (em_stop_monitoring (clock (sees t))) ?s = (Inr r, ?s\<lparr>ex_errors := m\<rparr>)"
    by (simp add: on_errors_def)
  with assms(1,2) show ?thesis
    by (auto simp: wait_phase_end_def broken_look_def Let_def)
qed

section \<open>The capacity handler\<close>

definition stops_bat :: "'a execution \<Rightarrow> 'a execution \<Rightarrow> bool" where
  "stops_bat s s' \<longleftrightarrow> (\<exists>b. Bat_stop b \<in> set (drop (length (ex_log s)) (ex_log s')))"

lemma fold_shut_log: "\<exists>l. ex_log (fold (call_if Shut) cs s) = ex_log s @ map Shut l \<and> ex_sched (fold (call_if Shut) cs s) = ex_sched s"
proof (induction cs arbitrary: s)
  case (Cons c cs)
  have "\<exists>k. ex_log (call_if Shut c s) = ex_log s @ map Shut k \<and> ex_sched (call_if Shut c s) = ex_sched s"
    by (cases "has c s") (auto simp: call_if_def ex_event_def intro: exI [of _ "[c]"] exI [of _ "[]"])
  with Cons [of "call_if Shut c s"] show ?case by (metis append.assoc fold_simps(2) map_append)
qed simp

lemma stop_tools_fields: "ex_sched (stop_tools p s) = ex_sched s" "ex_components (stop_tools p s) = ex_components s"
proof -
  have "ex_sched (fold (\<lambda>t. ex_event (Tool_stop (tool_id t))) ts s) = ex_sched s" for ts
    by (induction ts arbitrary: s) (simp_all add: ex_event_def)
  then show "ex_sched (stop_tools p s) = ex_sched s" by (simp add: stop_tools_def)
  show "ex_components (stop_tools p s) = ex_components s" by (simp add: plan_fields)
qed

text \<open>While the capacity handler is between its first step and the end of its search, its report raises
  in every shutdown: neither the release after a failure nor an interrupt by the user reaches the BATs, which
  go on with their traffic.\<close>

theorem search_in_progress_keeps_traffic:
  assumes "ec_init wt disp mon macros cc config = Inr s0" "cfg_enable cc = Some True" "cfg_max_load cc \<noteq> Some (- 1)"
    and "ec_steps s0 (ex_sched s)" "fsm (ex_sched s) \<notin> {Initial, Finished}" "ex_components s = cs @ [C_scheduler]"
  shows "\<exists>why t u. (release_for (capacity_ops c) now e s :: bool res \<times> _) = (Inl (IndexError why), t) \<and>
    interrupted (capacity_ops c) now s = (Inl (IndexError why), u) \<and> \<not> stops_bat s t \<and> \<not> stops_bat s u"
proof -
  from shutdown_in_a_step [OF assms(1-5), of c] obtain why v where v: "ec_shutdown c (ex_sched s) = (Inl (IndexError why), v)"
    by (metis prod.collapse)
  have sched: "\<exists>w. on_sched (sc_shutdown (capacity_ops c)) r = (Inl (IndexError why), w) \<and> ex_log w = ex_log r"
    if "ex_sched r = ex_sched s" for r
    using v that by (simp add: on_sched_def capacity_ops_def)
  from sched [of "ex_event (Shut C_scheduler) (stop_tools (\<lambda>_. True) s)"] obtain t where
    t: "on_sched (sc_shutdown (capacity_ops c)) (ex_event (Shut C_scheduler) (stop_tools (\<lambda>_. True) s)) = (Inl (IndexError why), t)"
    "ex_log t = ex_log s @ map (\<lambda>t. Tool_stop (tool_id t)) (ex_tools s) @ [Shut C_scheduler]"
    by (auto simp: ex_event_def stop_tools_fields bulk_log)
  obtain l where l: "ex_log (fold (call_if Shut) [C_action, C_diaproxy, C_load, C_alarm] s) = ex_log s @ map Shut l"
    "ex_sched (fold (call_if Shut) [C_action, C_diaproxy, C_load, C_alarm] s) = ex_sched s"
    using fold_shut_log by blast
  with sched [of "ex_event (Shut C_scheduler) (fold (call_if Shut) [C_action, C_diaproxy, C_load, C_alarm] s)"] obtain u where
    u: "on_sched (sc_shutdown (capacity_ops c))
      (ex_event (Shut C_scheduler) (fold (call_if Shut) [C_action, C_diaproxy, C_load, C_alarm] s)) = (Inl (IndexError why), u)"
    "ex_log u = ex_log s @ map Shut l @ [Shut C_scheduler]"
    by (auto simp: ex_event_def)
  have "(release_for (capacity_ops c) now e s :: bool res \<times> _) = (Inl (IndexError why), t)"
    using t(1) assms(6) by (simp add: release_for_def stop_tools_fields shut_def Let_def)
  moreover have "interrupted (capacity_ops c) now s = (Inl (IndexError why), u)"
    using u(1) by (simp add: interrupted_def)
  moreover have "\<not> stops_bat s t" "\<not> stops_bat s u"
    using t(2) u(2) by (auto simp: stops_bat_def)
  ultimately show ?thesis by blast
qed

section \<open>Without traffic\<close>

text \<open>Without traffic, when the command of the first action gives nothing in a single turn that takes longer than the
  whole of its time, the handler follows its actions to their end and leaves, and the flag is cleared only if this was
  the last action and the thread of the handler did not end before it was set. Otherwise nothing is left that clears it:
  the phase goes on waiting, until the user breaks it off.\<close>

theorem timeout_strands_executor:
  assumes "\<not> ah_traffic h" "ah_node h" "\<not> ah_released h" "ah_error_code h = 0"
    "ah_actions h = a # as" "trigger_of a (trigger_turns e) = Fired" "0 < ac_max_time (act_cfg a)"
    "act_events e = [Act_timeout now dt No_udp]" "of_int (ac_max_time (act_cfg a)) < dt" "length es = length as"
  shows "fst (run_without_traffic ended_before None False (e # es) (s, h)) = Inr (as = [] \<and> \<not> ended_before)"
  using timeout_ends_handler [OF assms] assms(2)
  by (auto simp: run_without_traffic_def start_handling_def Let_def)

section \<open>Examples\<close>

definition demo_course :: course where
  "demo_course = \<lparr>up_turns = [demo_turn Bat_Failed []], pre_turn = demo_turn Bat_Running [], pre_turns = [],
     load_ready = True, load_turn = demo_turn Bat_Running [], load_turns = [], post_turn = demo_turn Bat_Running [],
     ends_at = 200, exit_order = False\<rparr>"

lemma demo_fails: "fst (exec_run fixed_slots demo_course demo_exec) = Inl (BatError ''EXECUTION Problem during BAT start'')"
  by code_simp

theorem failed_execution_is_released_witness:
  "\<exists>s' l. exec_run fixed_slots demo_course demo_exec = (Inl (BatError ''EXECUTION Problem during BAT start''), s') \<and>
     ex_log s' = l @ [Tool_stop ''tcpdump'', Shut C_scheduler, Shut C_error, Bat_stop ''A'', Bats_joined]"
proof -
  obtain s' where s': "exec_run fixed_slots demo_course demo_exec = (Inl (BatError ''EXECUTION Problem during BAT start''), s')"
    using demo_fails by (metis prod.collapse)
  have "phase_dbs (ex_errors demo_exec)"
    by (simp add: demo_exec_defs phase_dbs_def new_bat_db_def phase_names_def)
  from failed_execution_is_released [OF s' this] s' show ?thesis
    by (auto simp: released_def release_events_def same_plan_def demo_exec_def)
qed

text \<open>An execution whose capacity handler has started its search.\<close>

definition demo_capacity :: "ec \<Rightarrow> _ execution" where
  "demo_capacity t = \<lparr>ex_bats = ex_bats demo_exec, ex_errors = demo_exec_errors, ex_sched = t,
     ex_components = [C_load, C_error, C_scheduler], ex_tools = ex_tools demo_exec, ex_answers = [], ex_pending = False,
     ex_phase = ''loadgen'', ex_log = [], ex_skip_postexec = True\<rparr>"

text \<open>A Ctrl-C while the console of the BAT says that preexec is still going on.\<close>

theorem interrupt_ends_preexec_witness:
  "\<exists>t s'. answer t ''A'' ''ScGrpStatus'' = Text ''preexec - ACTIVE'' \<and>
     wait_phase_end fixed_slots ''preexec'' [t] demo_exec = (Inr True, s') \<and> ex_log s' = []"
proof -
  let ?t = "(demo_turn Bat_Running ''preexec - ACTIVE'')\<lparr>user_does := Second_ctrl_c, breaks_in := Some (0, [])\<rparr>"
  have dbs: "phase_dbs (ex_errors demo_exec)"
    by (simp add: demo_exec_defs phase_dbs_def new_bat_db_def phase_names_def)
  have "answer ?t ''A'' ''ScGrpStatus'' = Text ''preexec - ACTIVE''" by (simp add: answer_def demo_turn_def)
  moreover from interrupt_ends_preexec [of ?t "[]" demo_exec fixed_slots "[]", OF _ _ dbs]
  obtain s' where "wait_phase_end fixed_slots ''preexec'' [?t] demo_exec = (Inr True, s')" "ex_log s' = []"
    by (auto simp: demo_exec_def)
  ultimately show ?thesis by blast
qed

theorem search_in_progress_keeps_traffic_witness:
  "\<exists>s why t. ec_init True False demo_monitors (\<lambda>_. None) (demo_cfg 80) [(''A'', demo_inst)] = Inr s \<and>
     interrupted (capacity_ops demo_cabinet) 200
       (demo_capacity (snd (ec_start_phase demo_cabinet demo_obs ''loadgen'' [''A''] s))) = (Inl (IndexError why), t) \<and>
     Bat_stop ''A'' \<notin> set (ex_log t)"
proof -
  from demo_search obtain s where s: "ec_init True False demo_monitors (\<lambda>_. None) (demo_cfg 80) [(''A'', demo_inst)] = Inr s"
    "ec_steps s (snd (ec_start_phase demo_cabinet demo_obs ''loadgen'' [''A''] s))"
    "fsm (snd (ec_start_phase demo_cabinet demo_obs ''loadgen'' [''A''] s)) = Search" by blast
  let ?x = "demo_capacity (snd (ec_start_phase demo_cabinet demo_obs ''loadgen'' [''A''] s))"
  have "ec_steps s (ex_sched ?x)" "fsm (ex_sched ?x) \<notin> {Initial, Finished}" "ex_components ?x = [C_load, C_error] @ [C_scheduler]"
    using s by (simp_all add: demo_capacity_def)
  from search_in_progress_keeps_traffic [OF s(1) demo_cfg_validates this, of demo_cabinet 200 "BatError []"] s(1)
  show ?thesis by (auto simp: stops_bat_def demo_capacity_def)
qed

theorem timeout_strands_executor_witness:
  "fst (run_without_traffic False None False [demo_act_env, demo_act_env] (demo_exec, demo_handler False)) = Inr False"
  using timeout_strands_executor [of "demo_handler False" demo_action "[demo_action]" demo_act_env 75 61 "[demo_act_env]" False demo_exec]
    demo_fired
  by (simp add: demo_act_defs)

end
