(* ===== verification/Launcher_Parser.thy ===== *)
theory Launcher_Parser
  imports Bat_Instance
begin

text \<open>
  The text side of the configuration handler of the launcher of the traffic generator,
  \<open>run_titansim_HSS_BAT/scenario/config_handler.py\<close>: \<open>patch_config\<close>, which rewrites the generated
  configuration line by line, and the parsers that read it back.

  It also holds the two helpers of \<open>hss_utils/st_command\<close> that read addresses, \<open>validate_ip\<close> and
  \<open>parse_vip_parameter\<close>.

  \<open>eval\<close> of a quoted text and \<open>float\<close> of a text are arguments, \<open>lit\<close> and \<open>flt\<close>; so is \<open>address\<close>, the version
  of the address that the library \<open>ipaddress\<close> reads in a text (\<open>None\<close> when it raises). A file is its text.
\<close>

section \<open>Pieces of a line\<close>

definition endswith :: "string \<Rightarrow> string \<Rightarrow> bool" where
  "endswith s p \<longleftrightarrow> startswith (rev s) (rev p)"

text \<open>\<open>s.split(':=')[0]\<close> and \<open>':='.join(s.split(':=')[1:])\<close>; \<open>None\<close> when \<open>':='\<close> does not occur.\<close>

fun cut_assign :: "string \<Rightarrow> (string \<times> string) option" where
  "cut_assign [] = None"
| "cut_assign [c] = None"
| "cut_assign (c # d # cs) =
     (if c = CHR '':'' \<and> d = CHR ''='' then Some ([], cs)
      else map_option (apfst ((#) c)) (cut_assign (d # cs)))"

text \<open>\<open>s[:s.index('//')]\<close>\<close>

fun before_comment :: "string \<Rightarrow> string" where
  "before_comment [] = []"
| "before_comment [c] = [c]"
| "before_comment (c # d # cs) = (if c = CHR ''/'' \<and> d = CHR ''/'' then [] else c # before_comment (d # cs))"

definition quoted :: "string \<Rightarrow> bool" where
  "quoted s \<longleftrightarrow> startswith s [CHR 0x22] \<and> endswith s [CHR 0x22]"

section \<open>\<open>quick_config_parser\<close>\<close>

datatype cfg_value = CStr string | CBool bool | CInt int | CFloat rat

definition clean_value :: "string \<Rightarrow> string" where
  "clean_value v =
     (let w = strip v;
          w1 = (if endswith w '';'' then strip (butlast w) else w)
      in if contains ''//'' w1 then strip (before_comment w1) else w1)"

definition convert :: "(string \<Rightarrow> cfg_value res) \<Rightarrow> (string \<Rightarrow> rat option) \<Rightarrow> string \<Rightarrow> cfg_value res" where
  "convert lit flt v =
     (if quoted v then lit v
      else if v = ''true'' then Inr (CBool True)
      else if v = ''false'' then Inr (CBool False)
      else case py_int v of
        Inr n \<Rightarrow> Inr (CInt n)
      | Inl _ \<Rightarrow> Inr (case flt v of Some x \<Rightarrow> CFloat x | None \<Rightarrow> CStr v))"

definition ignored :: "string \<Rightarrow> bool" where
  "ignored l \<longleftrightarrow> l = [] \<or> startswith l ''//'' \<or> startswith l ''#''"

type_synonym cfg = "(string, cfg_value) dict"

definition parse_line ::
  "(string \<Rightarrow> cfg_value res) \<Rightarrow> (string \<Rightarrow> rat option) \<Rightarrow> string \<Rightarrow> cfg \<Rightarrow> unit res \<times> cfg" where
  "parse_line lit flt l cfg =
     (if ignored (strip l) then done_with cfg
      else case cut_assign (strip l) of
        None \<Rightarrow> done_with cfg
      | Some (var, v) \<Rightarrow>
          andthen (convert lit flt (clean_value v), cfg) (\<lambda>x cfg. done_with (dict_set (strip var) x cfg)))"

definition quick_config_parser ::
  "(string \<Rightarrow> cfg_value res) \<Rightarrow> (string \<Rightarrow> rat option) \<Rightarrow> string \<Rightarrow> cfg res" where
  "quick_config_parser lit flt text =
     (case for_each (parse_line lit flt) (splitlines text) [] of
        (Inl e, _) \<Rightarrow> Inl e | (Inr _, cfg) \<Rightarrow> Inr cfg)"

section \<open>\<open>patch_config\<close>\<close>

definition special_lines :: "string list" where
  "special_lines =
     [''[INCLUDE]'', [CHR 0x22] @ ''params.cfg'' @ [CHR 0x22], [CHR 0x22] @ ''debug_flags.cfg'' @ [CHR 0x22],
      [CHR 0x22] @ ''deployment.cfg'' @ [CHR 0x22], [CHR 0x22] @ ''scenario.cfg'' @ [CHR 0x22]]"

definition window_title :: string where
  "window_title = ''tsp_EPTF_GUI_Main_Window_Title''"

text \<open>\<open>now\<close>: what \<open>time.asctime()\<close> returns.\<close>

definition patch_line :: "string \<Rightarrow> string \<Rightarrow> string list" where
  "patch_line now line =
     (let l = strip line
      in if l \<in> set special_lines then [''//'' @ line]
         else if startswith l ''#'' \<or> startswith l ''//'' then []
         else if startswith l window_title
         then [window_title @ '' := '' @ quote (''HSS traffic <> '' @ now)]
         else [line])"

definition patch_config :: "string \<Rightarrow> string \<Rightarrow> string" where
  "patch_config now raw =
     concat (map (\<lambda>l. l @ [CHR 0x0A]) (concat (map (patch_line now) (splitlines raw))))"

section \<open>Addresses\<close>

definition validate_ip :: "(string \<Rightarrow> nat option) \<Rightarrow> bool \<Rightarrow> string \<Rightarrow> bool" where
  "validate_ip address six a \<longleftrightarrow> address a = Some (if six then 6 else 4)"

definition v4_char :: "char \<Rightarrow> bool" where
  "v4_char c \<longleftrightarrow> digit c \<or> c = CHR ''.''"

definition v6_char :: "char \<Rightarrow> bool" where
  "v6_char c \<longleftrightarrow> digit c \<or> c \<in> set ''abcdefABCDEF.:''"

text \<open>What \<open>re.findall\<close> returns for the three alternatives of the pattern; it skips a character that starts none.\<close>

datatype vip_token = V4 string | V6 string | Separator

lemma length_dropWhile_Cons [termination_simp]: "dropWhile P cs = d # ds \<Longrightarrow> length ds < Suc (length cs)"
  using length_dropWhile_le [of P cs] by simp

lemma length_dropWhile_less [termination_simp]: "length (dropWhile P cs) < Suc (length cs)"
  using length_dropWhile_le [of P cs] by simp

fun vip_tokens :: "string \<Rightarrow> vip_token list" where
  "vip_tokens [] = []"
| "vip_tokens (c # cs) =
     (if v4_char c then V4 (c # takeWhile v4_char cs) # vip_tokens (dropWhile v4_char cs)
      else if c = CHR '':'' then Separator # vip_tokens cs
      else if c = CHR ''['' then
        (case dropWhile v6_char cs of
           d # ds \<Rightarrow> if d = CHR '']'' then V6 (takeWhile v6_char cs) # vip_tokens ds else vip_tokens cs
         | [] \<Rightarrow> vip_tokens cs)
      else vip_tokens cs)"

fun vip_list :: "bool \<Rightarrow> vip_token list \<Rightarrow> string list" where
  "vip_list is_empty [] = []"
| "vip_list is_empty (t # ts) =
     (case t of
        V4 a \<Rightarrow> a # vip_list False ts
      | V6 (c # cs) \<Rightarrow> (c # cs) # vip_list False ts
      | _ \<Rightarrow> if is_empty then [] # vip_list is_empty ts else vip_list True ts)"

definition parse_vip_parameter :: "string \<Rightarrow> string list" where
  "parse_vip_parameter s = vip_list True (vip_tokens s)"

section \<open>Structured values\<close>

definition assertion :: "bool \<Rightarrow> unit res" where
  "assertion b = (if b then Inr () else Inl (AssertionError []))"

definition braces :: "string \<Rightarrow> bool" where
  "braces s \<longleftrightarrow> startswith s ''{'' \<and> endswith s ''}''"

text \<open>\<open>s[1:-1]\<close>\<close>

definition inner :: "string \<Rightarrow> string" where
  "inner s = butlast (tl s)"

text \<open>The element behind \<open>':='\<close>, \<open>p.split(':=')[1]\<close>.\<close>

definition field_value :: "string \<Rightarrow> string res" where
  "field_value p =
     (case cut_assign p of
        None \<Rightarrow> Inl (IndexError ''list index out of range'')
      | Some (_, v) \<Rightarrow> Inr (case cut_assign v of None \<Rightarrow> v | Some (w, _) \<Rightarrow> w))"

definition unquote :: "string \<Rightarrow> string" where
  "unquote s = str_replace s [CHR 0x22] []"

text \<open>A value that is not a text has no \<open>startswith\<close>.\<close>

definition cfg_text :: "cfg_value \<Rightarrow> string res" where
  "cfg_text v = (case v of CStr s \<Rightarrow> Inr s | _ \<Rightarrow> Inl (AttributeError ''startswith''))"

definition parse_host_definition :: "cfg_value option \<Rightarrow> (string \<times> int) option res" where
  "parse_host_definition d =
     (case d of
        None \<Rightarrow> Inr None
      | Some v \<Rightarrow>
          bind_res (cfg_text v) (\<lambda>s. bind_res (assertion (braces s)) (\<lambda>_.
            let ps = split_on (CHR '','') (inner s)
            in if ''active:=false'' \<in> set ps then Inr None
               else bind_res (bind_res (py_nth ps 1) field_value) (\<lambda>host.
                    bind_res (bind_res (py_nth ps 2) field_value) (\<lambda>port.
                    bind_res (py_int port) (\<lambda>n. Inr (Some (unquote host, n))))))))"

definition parse_list_definition :: "cfg_value option \<Rightarrow> string list res" where
  "parse_list_definition d =
     (case d of
        None \<Rightarrow> Inr []
      | Some v \<Rightarrow>
          bind_res (cfg_text v) (\<lambda>s. bind_res (assertion (braces s)) (\<lambda>_.
            Inr (map unquote (split_on (CHR '','') (inner s))))))"

section \<open>\<open>get_BAT_config\<close>\<close>

text \<open>
  The entries of the result that the code computes; the others are looked up in the parsed
  configuration with a default.
\<close>

record bat_config =
  bc_conkeeper :: "(string \<times> int) option"
  bc_loadplotter :: "(string \<times> int) option"
  bc_manual :: "cfg_value option"
  bc_generators :: "string list option"
  bc_diaproxies :: "(string \<times> int \<times> int \<times> string) list option"
  bc_gui :: "(cfg_value option \<times> string) option"
  bc_layer :: "cfg_value option"
  bc_external_db :: "cfg_value option"
  bc_scenario :: string

definition truth :: "cfg_value option \<Rightarrow> bool" where
  "truth v = (case v of None \<Rightarrow> False | Some (CStr s) \<Rightarrow> s \<noteq> [] | Some (CBool b) \<Rightarrow> b | Some (CInt n) \<Rightarrow> n \<noteq> 0
     | Some (CFloat x) \<Rightarrow> x \<noteq> 0)"

definition execution_mode :: "bat_config \<Rightarrow> string" where
  "execution_mode b = (if truth (bc_manual b) then ''Manual'' else ''Automatic'')"

definition scenario_type :: "cfg \<Rightarrow> string" where
  "scenario_type cfg =
     (if map_of cfg ''tsp_use_ISMSDA_Stack'' \<noteq> None then ''ISMSDA''
      else if map_of cfg ''tsp_use_ESM_Stack'' \<noteq> None then ''ESM''
      else if map_of cfg ''tsp_use_OAM_Stack'' \<noteq> None then ''OAM''
      else ''undefined/WSM'')"

text \<open>The last key that ends in \<open>_HostList\<close>, in the order of the dictionary, counts.\<close>

fun host_lists :: "cfg \<Rightarrow> string list option \<Rightarrow> string list option res" where
  "host_lists [] g = Inr g"
| "host_lists ((k, v) # cfg) g =
     (if endswith k ''_HostList'' then bind_res (parse_list_definition (Some v)) (\<lambda>g. host_lists cfg (Some g))
      else host_lists cfg g)"

fun int_proxies :: "(string \<times> string \<times> string \<times> string) list \<Rightarrow> (string \<times> int \<times> int \<times> string) list res" where
  "int_proxies [] = Inr []"
| "int_proxies ((h, p, n, ip) # rest) =
     bind_res (py_int p) (\<lambda>p. bind_res (py_int n) (\<lambda>n. bind_res (int_proxies rest) (\<lambda>rs. Inr ((h, p, n, ip) # rs))))"

definition gui_entry :: "cfg \<Rightarrow> string list option \<Rightarrow> (cfg_value option \<times> string) option res" where
  "gui_entry cfg gens =
     (if truth (map_of cfg ''HEADLESSMODE'') then Inr None
      else case gens of
        None \<Rightarrow> Inl (TypeError ''object has no attribute __getitem__'')
      | Some [] \<Rightarrow> Inl (IndexError ''list index out of range'')
      | Some (g # _) \<Rightarrow> Inr (Some (map_of cfg ''tsp_xtdp_listen_port'', g)))"

definition get_BAT_config ::
  "cfg \<Rightarrow> (string \<times> string \<times> string \<times> string) list \<Rightarrow> bat_config res" where
  "get_BAT_config cfg pxs =
     bind_res (parse_host_definition (map_of cfg ''conkeeperHost'')) (\<lambda>ck.
     bind_res (parse_host_definition (map_of cfg ''loadplotterHost'')) (\<lambda>lp.
     bind_res (host_lists cfg None) (\<lambda>gens.
     bind_res (int_proxies pxs) (\<lambda>proxies.
     bind_res (gui_entry cfg gens) (\<lambda>gui.
       Inr \<lparr>bc_conkeeper = ck, bc_loadplotter = lp, bc_manual = map_of cfg ''MANUALCONTROL'',
            bc_generators = (case gens of Some (g # gs) \<Rightarrow> Some (g # gs) | _ \<Rightarrow> None),
            bc_diaproxies = (if proxies = [] then None else Some proxies), bc_gui = gui,
            bc_layer = map_of cfg ''LAYER_SCENARIO'',
            bc_external_db = (if truth (map_of cfg ''LAYER_SCENARIO'')
              then Some (case map_of cfg ''SUT_LDAP_IP'' of Some v \<Rightarrow> v | None \<Rightarrow> CStr ''unknown'') else None),
            bc_scenario = scenario_type cfg\<rparr>)))))"

end
