(* ===== verification/Cabinet.thy ===== *)
theory Cabinet
  imports Launcher_Parser
begin

text \<open>
  \<open>run_titansim_HSS_BAT/scenario/cabinet.py\<close>: the node under test as the launcher sees it, its addresses
  and the part of the configuration that depends on it. The dictionary \<open>__traffic_info\<close>, as it is once the node
  has answered, is the record \<open>traffic_info\<close>: the entries that may be missing are options or in \<open>ti_vips\<close>,
  where an address that is \<open>None\<close> is the empty text.
\<close>

section \<open>Lines of configuration\<close>

text \<open>\<open>quit_program\<close> ends the process with a code.\<close>

datatype launch_error = Quit int | Raised py_exc

type_synonym 'a launched = "launch_error + 'a"

definition CMDLINE_ERROR :: int where "CMDLINE_ERROR = 1"

definition guard :: "bool \<Rightarrow> 'a launched \<Rightarrow> 'a launched" where
  "guard b r = (if b then r else Inl (Quit CMDLINE_ERROR))"

text \<open>A text is kept as the list of its lines; the file has a newline after each.\<close>

definition bool_text :: "bool \<Rightarrow> string" where
  "bool_text b = (if b then ''true'' else ''false'')"

definition file_text :: "string list \<Rightarrow> string" where
  "file_text ls = concat (map (\<lambda>l. l @ [CHR 0x0A]) ls)"

section \<open>State\<close>

definition REQUIRED_IP :: "string list" where
  "REQUIRED_IP = [''oam'', ''dia_tcp'', ''dia_sctp'', ''radius'', ''controller'', ''extdb'', ''soap'', ''udm'',
     ''soap_ldap'', ''secdia_tcp'']"

datatype cabinet_kind = TSP | CBA | CNHSS

record traffic_info =
  ti_vips :: "(string, string) dict"
  ti_version :: string
  ti_supplier :: string
  ti_map_sri :: bool
  ti_esm :: "bool option"
  ti_common_supplier :: string
  ti_dia_port :: "string option"
  ti_soap_port :: "string option"

record cabinet =
  cab_kind :: cabinet_kind
  cab_name :: string
  cab_IPv6 :: bool
  cab_vips :: "(string, string) dict"
  cab_modules :: "string list"
  cab_active :: bool
  cab_blades :: "string list"
  cab_info :: traffic_info
  cab_appid :: "string option"

definition cabinet_new :: "cabinet_kind \<Rightarrow> string \<Rightarrow> bool \<Rightarrow> traffic_info \<Rightarrow> string option \<Rightarrow> cabinet" where
  "cabinet_new k name ipv6 info appid =
     \<lparr>cab_kind = k, cab_name = name, cab_IPv6 = (if k = TSP then False else ipv6),
      cab_vips = map (\<lambda>v. (v, [])) REQUIRED_IP, cab_modules = [], cab_active = True, cab_blades = [],
      cab_info = info, cab_appid = appid\<rparr>"

definition add_module :: "string \<Rightarrow> cabinet \<Rightarrow> cabinet" where
  "add_module m c = c\<lparr>cab_modules := fold (\<lambda>w ms. if w \<in> set ms then ms else ms @ [w]) (words m) (cab_modules c)\<rparr>"

definition add_filter_blade :: "string \<Rightarrow> cabinet \<Rightarrow> cabinet" where
  "add_filter_blade b c = c\<lparr>cab_blades := cab_blades c @ [b]\<rparr>"

definition get_vip :: "string \<Rightarrow> cabinet \<Rightarrow> string res" where
  "get_vip v c = key v (map_of (cab_vips c) v)"

section \<open>Addresses\<close>

text \<open>\<open>wants\<close>: the address families that \<open>set_vip\<close> of each class accepts for a name; none is asked for the rest.\<close>

definition wants :: "cabinet \<Rightarrow> string \<Rightarrow> bool list option" where
  "wants c v =
     (case cab_kind c of
        TSP \<Rightarrow> Some [False]
      | CBA \<Rightarrow>
          if v \<in> {''dia_tcp'', ''dia_sctp'', ''extdb'', ''soap'', ''soap_ldap''} then Some [cab_IPv6 c]
          else if v \<in> {''oam'', ''radius'', ''controller''} then Some [False]
          else if v = ''udm'' then Some (if cab_IPv6 c then [True, False] else [False])
          else None
      | CNHSS \<Rightarrow>
          if v \<in> {''dia_tcp'', ''dia_sctp'', ''soap'', ''extdb''} then Some [cab_IPv6 c]
          else if v \<in> {''oam'', ''radius'', ''controller''} then Some [False]
          else None)"

definition address_ok :: "(string \<Rightarrow> nat option) \<Rightarrow> cabinet \<Rightarrow> string \<Rightarrow> string \<Rightarrow> bool" where
  "address_ok address c v a =
     (case wants c v of None \<Rightarrow> True | Some vs \<Rightarrow> list_ex (\<lambda>six. validate_ip address six a) vs)"

definition set_vip :: "(string \<Rightarrow> nat option) \<Rightarrow> string \<Rightarrow> string \<Rightarrow> cabinet \<Rightarrow> cabinet launched" where
  "set_vip address v a c =
     (if v \<notin> set REQUIRED_IP then Inl (Raised (KeyError v))
      else if a = [] then Inr c
      else guard (address_ok address c v a) (Inr (c\<lparr>cab_vips := dict_set v a (cab_vips c)\<rparr>)))"

text \<open>
  The addresses the constructors start from: what the node reports, or the unspecified address of the family.
  For a TSP node the address of \<open>soap\<close> is that of its environment, \<open>env\<close>; \<open>None\<close> when it is not found.
\<close>

definition unspecified :: "cabinet \<Rightarrow> string \<Rightarrow> bool \<Rightarrow> string" where
  "unspecified c v reported =
     (case cab_kind c of
        TSP \<Rightarrow> ''0.0.0.0''
      | CBA \<Rightarrow>
          if cab_IPv6 c \<and> v \<in> {''dia_tcp'', ''dia_sctp'', ''extdb'', ''udm'', ''soap'', ''soap_ldap''} then ''::'' else ''0.0.0.0''
      | CNHSS \<Rightarrow>
          if cab_IPv6 c \<and> (v \<in> {''dia_tcp'', ''dia_sctp'', ''soap'', ''extdb''} \<or>
               \<not> reported \<and> v \<in> {''udm'', ''soap_ldap''}) then ''::'' else ''0.0.0.0'')"

definition initial_vip :: "string option \<Rightarrow> cabinet \<Rightarrow> string \<Rightarrow> string" where
  "initial_vip env c v =
     (if cab_kind c = TSP \<and> v = ''soap'' then (case env of Some a \<Rightarrow> a | None \<Rightarrow> ''0.0.0.0'')
      else case map_of (ti_vips (cab_info c)) v of
        None \<Rightarrow> unspecified c v False
      | Some a \<Rightarrow> if a = [] then unspecified c v True else a)"

fun init_vips :: "(string \<Rightarrow> nat option) \<Rightarrow> string option \<Rightarrow> string list \<Rightarrow> cabinet \<Rightarrow> cabinet launched" where
  "init_vips address env [] c = Inr c"
| "init_vips address env (v # vs) c =
     bind_res (set_vip address v (initial_vip env c v) c) (init_vips address env vs)"

text \<open>\<open>check_vector_supplier\<close>: a module given by the user wins over what the node reports.\<close>

definition check_vector_supplier :: "cabinet \<Rightarrow> cabinet launched" where
  "check_vector_supplier c =
     (let s = (if ''HLR'' \<in> set (cab_modules c) then ''HLR''
               else if ''AVG'' \<in> set (cab_modules c) then ''AVG'' else ti_supplier (cab_info c))
      in guard (s \<noteq> []) (Inr (c\<lparr>cab_info := (cab_info c)\<lparr>ti_supplier := s\<rparr>\<rparr>)))"

definition cabinet_init ::
  "(string \<Rightarrow> nat option) \<Rightarrow> string option \<Rightarrow> cabinet_kind \<Rightarrow> string \<Rightarrow> string \<Rightarrow> bool \<Rightarrow> traffic_info \<Rightarrow> string option \<Rightarrow> cabinet launched" where
  "cabinet_init address env k name modules ipv6 info appid =
     (let c = cabinet_new k name ipv6 info appid;
          c1 = (if k = CNHSS then c else add_module modules c)
      in bind_res (init_vips address env REQUIRED_IP c1) (\<lambda>c2.
           if k = CNHSS then Inr c2 else check_vector_supplier c2))"

text \<open>The addresses the user gives, in the order of \<open>REQUIRED_IP\<close>; more of them than names raise.\<close>

fun user_vips :: "(string \<Rightarrow> nat option) \<Rightarrow> string list \<Rightarrow> string list \<Rightarrow> cabinet \<Rightarrow> cabinet launched" where
  "user_vips address names [] c = Inr c"
| "user_vips address [] (a # as) c = Inl (Raised (IndexError ''list index out of range''))"
| "user_vips address (v # names) (a # as) c =
     bind_res (set_vip address v a c) (user_vips address names as)"

section \<open>Configuration\<close>

definition vip_line :: "cabinet \<Rightarrow> string \<times> string \<times> string \<Rightarrow> string" where
  "vip_line c = (\<lambda>(label, sep, v). label @ sep @ quote (case get_vip v c of Inr a \<Rightarrow> a | Inl _ \<Rightarrow> []))"

definition common_vips :: "(string \<times> string \<times> string) list" where
  "common_vips =
     [(''vip_oam'', '':= '', ''oam''), (''vip_dia_tcp'', '':= '', ''dia_tcp''), (''vip_dia_sctp'', '':= '', ''dia_sctp''),
      (''vip_radius'', '':= '', ''radius''), (''vip_controller'', '':= '', ''controller''), (''vip_udm'', '':='', ''udm'')]"

definition vip_cfg :: "cabinet \<Rightarrow> string list launched" where
  "vip_cfg c =
     (case cab_kind c of
        TSP \<Rightarrow> Inr ([] # map (vip_line c) common_vips)
      | CBA \<Rightarrow>
          guard (get_vip ''extdb'' c \<noteq> Inr ''0.0.0.0'') (Inr ([] # map (vip_line c) (common_vips @
            [(''vip_soap'', '':= '', ''soap''), (''vip_soap_ldap'', '':= '', ''soap_ldap''), (''ExtDB_ip'', '':= '', ''extdb'')])))
      | CNHSS \<Rightarrow>
          Inr ([] # map (vip_line c) (common_vips @ [(''ExtDB_ip'', '':= '', ''extdb''), (''vip_soap'', '':= '', ''soap'')])))"

definition layer_cfg :: "cabinet \<Rightarrow> string list" where
  "layer_cfg c =
     (if get_vip ''extdb'' c = Inr ''0.0.0.0''
      then [[], ''layer:= false'', ''remGroupName:= EXCLUDE_ON_MONOLITHIC'']
      else [[], ''layer:= true'', vip_line c (''vip_soap'', '':= '', ''soap''), vip_line c (''ExtDB_ip'', '':= '', ''extdb''),
            ''defParam:= :EXTRA_TIME:1.5'', ''remGroupName:= EXCLUDE_ON_LAYER''])"

definition use_HLR :: "cabinet \<Rightarrow> bool" where
  "use_HLR c \<longleftrightarrow> ti_supplier (cab_info c) = ''HLR''"

definition esm_active :: "cabinet \<Rightarrow> bool" where
  "esm_active c = (case cab_kind c of TSP \<Rightarrow> False | _ \<Rightarrow> (case ti_esm (cab_info c) of Some b \<Rightarrow> b | None \<Rightarrow> True))"

definition common_cfg :: "cabinet \<Rightarrow> string list" where
  "common_cfg c =
     (if esm_active c then [] else [''remGroupName:= EXCLUDE_FOR_ESM_INACTIVE'']) @
     [''defParam:= :MAPSRIFORLCS:'' @ bool_text (ti_map_sri (cab_info c)), ''defParam:= :IPV6:'' @ bool_text (cab_IPv6 c),
      ''defParam:= :AUTH_VECT_SUPP_HLR:'' @ bool_text (use_HLR c), ''defParam:= q:PLATFORM:CBA'', ''defParam:= q:NODE_TYPE:CBA''] @
     map (\<lambda>b. ''loadFilter:= '' @ quote b) (cab_blades c)"

definition common_supplier_cfg :: "cabinet \<Rightarrow> string list" where
  "common_supplier_cfg c =
     (let s = ti_common_supplier (cab_info c)
      in if s = ''ARPFforAllUsers'' then [''remGroupName:= EXCLUDE_WITH_ARPF'']
         else if s \<in> {''NONE'', ''None'', []} then [''remGroupName:= EXCLUDE_WITH_ARPF_NONE''] else [])"

definition exclude_supplier :: "cabinet \<Rightarrow> string" where
  "exclude_supplier c = ''remGroupName:= EXCLUDE_WITH_'' @ (if use_HLR c then ''HLR'' else ''AVG'')"

definition cabinet_cfg :: "cabinet \<Rightarrow> string list launched" where
  "cabinet_cfg c =
     bind_res (vip_cfg c) (\<lambda>vips.
       case cab_kind c of
         TSP \<Rightarrow> Inr (vips @ layer_cfg c @ [exclude_supplier c, ''remGroupName:= EXCLUDE_ON_TSP''] @ common_cfg c)
       | CBA \<Rightarrow>
           Inr (vips @ [exclude_supplier c, ''remGroupName:= EXCLUDE_ON_CBA'', ''remGroupName:= EXCLUDE_ON_LAYER'',
             ''layer:= true'', ''defParam:= :EXTRA_TIME:1.5''] @ common_cfg c @ common_supplier_cfg c)
       | CNHSS \<Rightarrow> let app = cab_appid c in
           if app \<notin> {None, Some []} \<and> ti_dia_port (cab_info c) = None then Inl (Raised (KeyError ''dia_port''))
           else Inr (vips @ [''layer:= true'', ''defParam:= q:NODE_TYPE:CNHSS'', ''defParam:= q:CNHSS_APPID:'' @ (case app of Some a \<Rightarrow> a | None \<Rightarrow> ''None''),
             ''defParam:= :EXTRA_TIME:1.5'', ''defParam:= :NUMBERLDAPPROXIES:1'', ''defParam:= :LDAP_ENABLED:true'',
             ''remGroupName:= EXCLUDE_WITH_AVG'', ''remGroupName:= EXCLUDE_ON_LAYER'', ''defParam:= :MAPSRIFORLCS:false'',
             ''defParam:= :NONIPPDNAPN:false'', ''defParam:= :AUTH_VECT_SUPP_HLR:false'',
             ''defParam:= :IPV6:'' @ bool_text (cab_IPv6 c)] @
             (if app \<in> {None, Some []} then []
              else [''defParam:= :SUT_DIAMETER_PORT:'' @ (case ti_dia_port (cab_info c) of Some p \<Rightarrow> p | None \<Rightarrow> [])]) @
             [''defParam:= :SUT_SOAP_PORT:'' @ (case ti_soap_port (cab_info c) of Some p \<Rightarrow> p | None \<Rightarrow> ''-1'')]))"

end
