(* ===== verification/Launcher_Config.thy ===== *)
theory Launcher_Config
  imports Cabinet
begin

text \<open>
  \<open>TestScenario\<close>, \<open>ExecutionProperties\<close> and \<open>build_config_file\<close> of
  \<open>run_titansim_HSS_BAT/scenario/config_handler.py\<close>: from the options of the user to the input of the
  scenario generator.

  \<open>get_free_port\<close> runs commands: with an offset it asks whether each of ten ports in a row is free, on this
  machine whatever the host, then for any free port of the host. \<open>free port\<close> and \<open>any host lower upper\<close> are what
  the two commands answer, \<open>None\<close> when the second fails.
\<close>

section \<open>The scenario\<close>

definition scenario_types :: "string list" where
  "scenario_types = [''IMS'', ''IMS-SLF'', ''IMS-SLFr'', ''IMS-R'', ''EPC'', ''EPC-SLF'', ''EPC-R'', ''WLAN'', ''OAM'']"

record scenario =
  sn_mode :: string
  sn_proxies :: "string list"
  sn_generators :: "string list"
  sn_conkeeper :: "(string \<times> string) option"
  sn_mix :: string
  sn_version :: "string option"
  sn_cabinets :: "cabinet list"

definition scenario_new :: "string \<Rightarrow> scenario res" where
  "scenario_new m =
     (if m \<notin> set scenario_types then Inl (KeyError m)
      else Inr \<lparr>sn_mode = m, sn_proxies = [], sn_generators = [], sn_conkeeper = None, sn_mix = [],
        sn_version = None, sn_cabinets = []\<rparr>)"

definition sn_traffic_type :: "scenario \<Rightarrow> string option" where
  "sn_traffic_type s =
     (if sn_mode s \<in> {''IMS'', ''IMS-SLF'', ''IMS-SLFr'', ''IMS-R''} then Some ''ISMSDA''
      else if sn_mode s \<in> {''EPC'', ''EPC-SLF'', ''EPC-R''} then Some ''ESM''
      else if sn_mode s = ''WLAN'' then Some ''WSM''
      else if sn_mode s = ''OAM'' then Some ''OAM'' else None)"

definition is_redundant :: "scenario \<Rightarrow> bool" where
  "is_redundant s \<longleftrightarrow> sn_mode s \<in> {''IMS-R'', ''EPC-R''}"

definition add_cabinet :: "cabinet \<Rightarrow> scenario \<Rightarrow> scenario" where
  "add_cabinet c s =
     (let c' = (if sn_mode s \<in> {''IMS-SLF'', ''IMS-R'', ''EPC-SLF'', ''EPC-R''} then add_module ''SLF'' c
                else if sn_mode s = ''IMS-SLFr'' then add_module ''SLFr'' c else c)
      in s\<lparr>sn_cabinets := sn_cabinets s @ [c']\<rparr>)"

definition primary_cabinet :: "scenario \<Rightarrow> cabinet option res" where
  "primary_cabinet s =
     (case sn_cabinets s of
        [] \<Rightarrow> Inr None
      | c # cs \<Rightarrow> if cab_active c then Inr (Some c)
          else (case cs of [] \<Rightarrow> Inl (IndexError ''list index out of range'') | d # _ \<Rightarrow> Inr (Some d)))"

definition secondary_cabinet :: "scenario \<Rightarrow> cabinet option" where
  "secondary_cabinet s =
     (case sn_cabinets s of c # d # _ \<Rightarrow> Some (if cab_active c then d else c) | _ \<Rightarrow> None)"

definition DEFAULT_CONKEEPER_PORT :: string where "DEFAULT_CONKEEPER_PORT = ''4444''"

text \<open>\<open>host\<close> is the name of this host.\<close>

definition set_conkeeper :: "string \<Rightarrow> string option \<Rightarrow> scenario \<Rightarrow> scenario launched" where
  "set_conkeeper host pair s =
     (case pair of
        None \<Rightarrow> Inr (s\<lparr>sn_conkeeper := Some (host, DEFAULT_CONKEEPER_PORT)\<rparr>)
      | Some w \<Rightarrow>
          (case split_on (CHR '':'') w of
             h # p # _ \<Rightarrow>
               (case py_int p of
                  Inl _ \<Rightarrow> Inl (Quit CMDLINE_ERROR)
                | Inr n \<Rightarrow> Inr (s\<lparr>sn_conkeeper := Some (h, str_of_int n)\<rparr>))
           | _ \<Rightarrow> Inr (s\<lparr>sn_conkeeper := Some (w, DEFAULT_CONKEEPER_PORT)\<rparr>)))"

section \<open>Its configuration\<close>

text \<open>
  A proxy that cannot be parsed is reported only: the variables keep the values of the proxy before it, and
  there are none for the first.
\<close>

definition int_or :: "int option \<Rightarrow> string \<Rightarrow> int option" where
  "int_or old w = (case py_int w of Inr n \<Rightarrow> Some n | Inl _ \<Rightarrow> old)"

fun proxies_cfg :: "int option \<Rightarrow> int option \<Rightarrow> string list \<Rightarrow> string list res" where
  "proxies_cfg port nc [] = Inr []"
| "proxies_cfg port nc (p # ps) =
     (let fs = split_on (CHR '':'') p
      in bind_res (py_nth fs 0) (\<lambda>host.
         let port' = (if length fs > 1 then int_or port (fs ! 1) else port);
             nc' = (if length fs > 2 then int_or nc (fs ! 2) else nc)
         in bind_res (py_nth fs 3) (\<lambda>ip.
            case (port', nc') of
              (Some a, Some b) \<Rightarrow>
                bind_res (proxies_cfg port' nc' ps) (\<lambda>ls.
                  Inr ((''diaProxy:= '' @ quote host @ '':'' @ str_of_int a @ '':'' @ str_of_int b @ '':'' @ ip) # ls))
            | _ \<Rightarrow> Inl (NameError ''local variable referenced before assignment''))))"

definition raised :: "'a res \<Rightarrow> 'a launched" where
  "raised r = (case r of Inl e \<Rightarrow> Inl (Raised e) | Inr v \<Rightarrow> Inr v)"

definition no_node :: "'a launched" where
  "no_node = Inl (Raised (AttributeError ''NoneType''))"

definition scenario_cabinet_cfg :: "scenario \<Rightarrow> string list launched" where
  "scenario_cabinet_cfg s =
     bind_res (raised (primary_cabinet s)) (\<lambda>c. case c of None \<Rightarrow> no_node | Some c \<Rightarrow>
     bind_res (cabinet_cfg c) (\<lambda>ls.
       Inr (ls @ [''defParam:= q:PRIMARY_HOSTNAME:'' @ cab_name c] @
         (case secondary_cabinet s of None \<Rightarrow> [] | Some d \<Rightarrow> [''defParam:= q:SECONDARY_HOSTNAME:'' @ cab_name d]) @
         [''slf_proxy_mode:= '' @ bool_text (\<exists>d \<in> set (sn_cabinets s). ''SLF'' \<in> set (cab_modules d) \<or> ''SLFr'' \<in> set (cab_modules d))])))"

definition redundant_cfg :: "scenario \<Rightarrow> string list launched" where
  "redundant_cfg s =
     (if \<not> is_redundant s then Inr []
      else if sn_conkeeper s = None then Inr [''remGroupName:= EXCLUDE_ON_REDUNDANCY'']
      else case secondary_cabinet s of
        None \<Rightarrow> no_node
      | Some d \<Rightarrow> Inr [''remGroupName:= EXCLUDE_ON_REDUNDANCY'', vip_line d (''secvip_dia_tcp'', '':= '', ''dia_tcp''),
          vip_line d (''secvip_oam'', '':= '', ''oam''), vip_line d (''secvip_controller'', '':= '', ''controller'')])"

definition conkeeper_cfg :: "scenario \<Rightarrow> string list" where
  "conkeeper_cfg s =
     (case sn_conkeeper s of None \<Rightarrow> []
      | Some (h, p) \<Rightarrow> [''conkeeperHost:= '' @ quote h, ''conkeeperPort:= '' @ p])"

definition scenario_cfg :: "scenario \<Rightarrow> string list launched" where
  "scenario_cfg s =
     guard (\<not> (sn_mode s \<in> {''IMS'', ''IMS-R'', ''EPC'', ''EPC-R''} \<and> sn_proxies s = []))
       (guard (\<not> (sn_mode s \<in> {''WLAN'', ''OAM''} \<and> sn_proxies s \<noteq> []))
         (bind_res (raised (proxies_cfg None None (sn_proxies s))) (\<lambda>px.
          bind_res (scenario_cabinet_cfg s) (\<lambda>cb.
          bind_res (redundant_cfg s) (\<lambda>rd.
            Inr (map (\<lambda>g. ''lgen:= '' @ quote g) (sn_generators s) @ px @ cb @ rd @ conkeeper_cfg s))))))"

section \<open>Properties of the execution\<close>

record exec_props =
  xp_mc_port :: string
  xp_mode :: string
  xp_gui :: bool
  xp_PTCs :: int
  xp_CPS :: "int option"
  xp_delta_load :: "int option"
  xp_delta_pre :: "int option"
  xp_delta_post :: "int option"
  xp_l1 :: "int option"
  xp_l2 :: "int option"
  xp_l3 :: "int option"
  xp_graph_size :: "int option"
  xp_load_type :: "string option"
  xp_time :: "int option"
  xp_range :: "int option"
  xp_plotter_port :: int
  xp_schedules :: "string list"
  xp_scripts :: "string list"
  xp_disabled :: "string list"
  xp_params :: "string list"
  xp_ranges :: "string list"
  xp_skip_groups :: "string list"
  xp_groups :: "string list"
  xp_mask :: "string list"
  xp_async :: bool

definition exec_props_new :: "string \<Rightarrow> exec_props" where
  "exec_props_new port =
     \<lparr>xp_mc_port = port, xp_mode = ''Automatic'', xp_gui = False, xp_PTCs = 100, xp_CPS = None, xp_delta_load = None,
      xp_delta_pre = None, xp_delta_post = None, xp_l1 = None, xp_l2 = None, xp_l3 = None, xp_graph_size = None,
      xp_load_type = None, xp_time = None, xp_range = None, xp_plotter_port = 5555, xp_schedules = [], xp_scripts = [],
      xp_disabled = [], xp_params = [], xp_ranges = [], xp_skip_groups = [], xp_groups = [],
      xp_mask = [''USER'', ''ACTION'', ''PARALLEL''], xp_async = False\<rparr>"

definition nonzero :: "int \<Rightarrow> int option" where
  "nonzero n = (if n = 0 then None else Some n)"

text \<open>\<open>int(fields[i])\<close>, or the old value when the field is missing or no number.\<close>

definition field_int :: "string list \<Rightarrow> nat \<Rightarrow> int option \<Rightarrow> int option" where
  "field_int fs i old = (if i < length fs then int_or old (fs ! i) else old)"

definition set_traffic_setting :: "string \<Rightarrow> exec_props \<Rightarrow> exec_props" where
  "set_traffic_setting w x =
     (let fs = split_on (CHR '':'') w
      in x\<lparr>xp_PTCs := the (field_int fs 0 (Some (xp_PTCs x))), xp_CPS := field_int fs 1 (xp_CPS x),
           xp_delta_load := field_int fs 2 (xp_delta_load x), xp_delta_pre := field_int fs 3 (xp_delta_pre x),
           xp_delta_post := field_int fs 4 (xp_delta_post x)\<rparr>)"

definition set_load_level_setting :: "string \<Rightarrow> exec_props \<Rightarrow> exec_props" where
  "set_load_level_setting w x =
     (let fs = split_on (CHR '':'') w
      in x\<lparr>xp_l1 := field_int fs 0 (xp_l1 x), xp_l2 := field_int fs 1 (xp_l2 x), xp_l3 := field_int fs 2 (xp_l3 x),
           xp_graph_size := field_int fs 3 (xp_graph_size x),
           xp_load_type := (if length fs > 4 then Some (fs ! 4) else xp_load_type x)\<rparr>)"

definition gui_cfg :: "(string \<Rightarrow> string) \<Rightarrow> scenario \<Rightarrow> exec_props \<Rightarrow> string list launched" where
  "gui_cfg port_of s x =
     (if \<not> xp_gui x then Inr [''headlessmode:= true'', ''servermode:= true'']
      else case sn_generators s of
        [] \<Rightarrow> Inl (Raised (IndexError ''list index out of range''))
      | g # _ \<Rightarrow> Inr [''guiPort:= '' @ port_of g, ''guiHost:= '' @ quote g, ''headlessmode:= false'', ''servermode:= false''])"

definition vip_param :: "string \<Rightarrow> cabinet \<Rightarrow> string \<Rightarrow> string" where
  "vip_param label c v = ''defParam:= q:'' @ label @ '':'' @ (case get_vip v c of Inr a \<Rightarrow> a | Inl _ \<Rightarrow> [])"

text \<open>\<open>user\<close>, \<open>pass\<close>: the credentials of a CBA node.\<close>

definition loadplotter_cfg :: "string \<Rightarrow> string \<Rightarrow> scenario \<Rightarrow> exec_props \<Rightarrow> string list launched" where
  "loadplotter_cfg user pass s x =
     bind_res (raised (primary_cabinet s)) (\<lambda>c. case c of None \<Rightarrow> no_node | Some c \<Rightarrow>
       if cab_kind c = CNHSS \<or> (xp_graph_size x = None \<and> xp_CPS x \<noteq> None) then Inr []
       else case sn_generators s of
         [] \<Rightarrow> Inl (Raised (IndexError ''list index out of range''))
       | g # _ \<Rightarrow> Inr (
           [''loadplotterHost:= '' @ quote g, ''loadplotterPort:= '' @ str_of_int (xp_plotter_port x),
            ''defParam:= q:MEASUREMODE:REMOTE'', vip_param ''LOAD_DESTHOSTIP'' c ''oam'',
            vip_param ''LOAD_DESTHOSTCONTROLLER'' c ''controller'',
            ''defParam:= q:LOAD_MEASURETIME:'' @ (if cab_kind c = TSP then ''1'' else ''5'')] @
           (if cab_kind c = CBA then [''defParam:= q:LOAD_REG_TYPE:all'', ''defParam:= q:CBA_USER:'' @ user,
              ''defParam:= q:CBA_PASSWORD:'' @ pass] else []) @
           (case secondary_cabinet s of None \<Rightarrow> []
            | Some d \<Rightarrow> [vip_param ''LOAD_SEC_DESTHOSTIP'' d ''oam'', vip_param ''LOAD_SEC_DESTHOSTCONTROLLER'' d ''controller'']) @
           [case xp_graph_size x of Some n \<Rightarrow> ''defParam:= :GRAPH_SCAN_SIZE:'' @ str_of_int n
            | None \<Rightarrow> ''defParam:= :REFRESH_PLOT_TIME:0''] @
           (if xp_gui x then [] else [''defParam:= :REFRESH_PLOT_TIME:0'']) @
           (if xp_CPS x = None then [''LoadRegHostName:='' @ quote g] else [])))"

text \<open>Both operands are integers of Python 2.\<close>

definition async_cfg :: "scenario \<Rightarrow> exec_props \<Rightarrow> string list launched" where
  "async_cfg s x =
     (if \<not> xp_async x then Inr []
      else if sn_generators s = [] then Inl (Raised (PyException ''integer division or modulo by zero''))
      else Inr [''defParam:= :PTCSPERLGEN:'' @ str_of_int (xp_PTCs x div int (length (sn_generators s))),
        ''defParam:= :NOTBLOCKING:true'', ''defParam:= :NUMBEROFENTITIES:50000'', ''remGroupName:= EXCLUDE_FOR_ASYNC''])"

definition given :: "string \<Rightarrow> string \<Rightarrow> int option \<Rightarrow> string list" where
  "given label unit v = (case v of None \<Rightarrow> [] | Some n \<Rightarrow> [label @ '':= '' @ str_of_int n @ unit])"

definition settings_cfg :: "exec_props \<Rightarrow> string list" where
  "settings_cfg x =
     given ''Time'' ''.0'' (xp_time x) @ given ''Range'' [] (xp_range x) @
     given ''LoadTarget'' ''.0'' (xp_l1 x) @ given ''PreLoadTarget'' ''.0'' (xp_l2 x) @ given ''PostLoadTarget'' ''.0'' (xp_l3 x) @
     (case xp_load_type x of None \<Rightarrow> [] | Some t \<Rightarrow> [''LoadRegType:= '' @ t]) @
     given ''cpsDeltaLoad'' ''.0'' (xp_delta_load x) @ given ''cpsDeltaPre'' ''.0'' (xp_delta_pre x) @
     given ''cpsDeltaPost'' ''.0'' (xp_delta_post x) @ given ''numOfCps'' ''.0'' (xp_CPS x) @
     given ''numOfPTCs'' [] (Some (xp_PTCs x)) @
     [''manualControl:= '' @ bool_text (xp_mode x \<noteq> ''Automatic'')]"

definition truth_int :: "int option \<Rightarrow> bool" where
  "truth_int v \<longleftrightarrow> v \<noteq> None \<and> v \<noteq> Some 0"

definition exec_cfg :: "(string \<Rightarrow> string) \<Rightarrow> string \<Rightarrow> string \<Rightarrow> int \<Rightarrow> scenario \<Rightarrow> exec_props \<Rightarrow> string list launched" where
  "exec_cfg port_of user pass numhcs s x =
     guard (\<not> (truth_int (xp_time x) \<and> truth_int (xp_range x)))
       (guard (\<not> (truth_int (xp_l1 x) \<and> truth_int (xp_CPS x)))
         (bind_res (gui_cfg port_of s x) (\<lambda>gui.
          bind_res (loadplotter_cfg user pass s x) (\<lambda>lp.
          bind_res (async_cfg s x) (\<lambda>async.
            Inr (gui @ lp @ map (\<lambda>v. ''loadSched:= '' @ v) (xp_schedules x) @ map (\<lambda>v. ''modTc:= '' @ v) (xp_scripts x) @
              map (\<lambda>v. ''remTc:= '' @ v) (xp_disabled x) @ async @ [''mcPort:= '' @ xp_mc_port x] @ settings_cfg x @
              map (\<lambda>v. ''remGroupName:= '' @ v) (xp_skip_groups x) @ map (\<lambda>v. ''trafficGroupName:= '' @ v) (xp_groups x) @
              map (\<lambda>v. ''sub_range:= '' @ v) (xp_ranges x) @ map (\<lambda>v. ''defParam:= '' @ v) (xp_params x) @
              [''LogFile:= '' @ quote ''%r-%n-%e.%h.log'', ''ConsoleMask:= LOG_NOTHING | TTCN_ACTION'',
               ''FileMask:= '' @ join ''|'' (xp_mask x), ''defParam:= :NUMHCS:'' @ str_of_int numhcs]))))))"

section \<open>Ports and proxies\<close>

definition get_free_port ::
  "(int \<Rightarrow> bool) \<Rightarrow> (string \<Rightarrow> int \<Rightarrow> int \<Rightarrow> int option) \<Rightarrow> string \<Rightarrow> int \<Rightarrow> int \<Rightarrow> int option \<Rightarrow> int option" where
  "get_free_port free any host upper lower offset =
     (case Option.bind offset (\<lambda>k. find free [lower + k..lower + k + 9]) of
        Some p \<Rightarrow> Some p
      | None \<Rightarrow> any host lower upper)"

definition port_text :: "int option \<Rightarrow> string" where
  "port_text p = (case p of Some n \<Rightarrow> str_of_int n | None \<Rightarrow> ''None'')"

definition proxy_range :: "string \<Rightarrow> int \<times> int" where
  "proxy_range m = (if m \<in> {''IMS'', ''IMS-SLF'', ''IMS-SLFr'', ''IMS-R''} then (8999, 8000) else (9999, 9000))"

text \<open>A proxy of the command line, completed: host, port, number of connections, local address.\<close>

definition complete_proxy :: "(string \<Rightarrow> string) \<Rightarrow> string \<Rightarrow> string \<Rightarrow> string" where
  "complete_proxy port_of host proxy =
     (case split_on (CHR '':'') proxy of
        [a] \<Rightarrow> proxy @ '':'' @ port_of proxy @ '':1:''
      | [a, b] \<Rightarrow>
          if a = [] \<or> b = []
          then join '':'' [if a = [] then host else a, if b = [] then port_of host else b, ''1'', []]
          else proxy @ '':0:''
      | [a, b, c] \<Rightarrow>
          join '':'' [if a = [] then host else a, if b = [] then port_of host else b, if c = [] then ''1'' else c, []]
      | [a, b, c, d] \<Rightarrow>
          join '':'' [if a = [] then host else a, if b = [] then port_of host else b, if c = [] then ''1'' else c, d]
      | _ \<Rightarrow> proxy)"

fun complete_proxies ::
  "(string \<Rightarrow> int option \<Rightarrow> string) \<Rightarrow> string \<Rightarrow> int option \<Rightarrow> string list \<Rightarrow> string list" where
  "complete_proxies port_of host offset [] = []"
| "complete_proxies port_of host offset (p # ps) =
     complete_proxy (\<lambda>h. port_of h offset) host p #
     complete_proxies port_of host (map_option (\<lambda>k. k + 10) offset) ps"

definition proxy_ports ::
  "(int \<Rightarrow> bool) \<Rightarrow> (string \<Rightarrow> int \<Rightarrow> int \<Rightarrow> int option) \<Rightarrow> string \<Rightarrow> string \<Rightarrow> int option \<Rightarrow> string" where
  "proxy_ports free any m h offset =
     port_text (get_free_port free any h (fst (proxy_range m)) (snd (proxy_range m)) offset)"

definition scenario_proxies ::
  "(int \<Rightarrow> bool) \<Rightarrow> (string \<Rightarrow> int \<Rightarrow> int \<Rightarrow> int option) \<Rightarrow> string \<Rightarrow> int option \<Rightarrow> string option \<Rightarrow> scenario \<Rightarrow> scenario" where
  "scenario_proxies free any host offset proxies s =
     (if sn_traffic_type s \<notin> {Some ''ISMSDA'', Some ''ESM''} then s
      else s\<lparr>sn_proxies := sn_proxies s @
        (case proxies of
           None \<Rightarrow> [host @ '':'' @ proxy_ports free any (sn_mode s) host offset @ '':1:'']
         | Some w \<Rightarrow> complete_proxies (proxy_ports free any (sn_mode s)) host offset (words w))\<rparr>)"

text \<open>The generators: those of the user, or as many of this host as the PTCs need, at most five.\<close>

definition number_of_generators :: "bool \<Rightarrow> int \<Rightarrow> int" where
  "number_of_generators async ptcs = min 5 (1 + ptcs div (if async then 50 else 150))"

definition set_generators :: "string \<Rightarrow> string option \<Rightarrow> exec_props \<Rightarrow> scenario \<Rightarrow> scenario" where
  "set_generators host gens x s =
     s\<lparr>sn_generators := sn_generators s @
        (case gens of
           None \<Rightarrow> replicate (nat (number_of_generators (xp_async x) (xp_PTCs x))) host
         | Some w \<Rightarrow> words w)\<rparr>"

definition conflicting_groups :: "exec_props \<Rightarrow> bool" where
  "conflicting_groups x \<longleftrightarrow> list_ex (\<lambda>g. g \<in> set (xp_groups x)) (xp_skip_groups x)"

text \<open>The command line for the scenario generator, and the files that are joined behind its output.\<close>

definition generator_command :: "string \<Rightarrow> string \<Rightarrow> string \<Rightarrow> bool \<Rightarrow> scenario \<Rightarrow> string" where
  "generator_command prog input folder only s =
     prog @ '' -i '' @ input @ '' -c HSSBat_config.data -t '' @ (case sn_traffic_type s of Some t \<Rightarrow> t | None \<Rightarrow> ''None'') @
     '' -cfg_path '' @ folder @ (if only then '' -s'' else []) @ ''> scenarioGenerator_result.txt 2>&1''"

definition config_files :: "string \<Rightarrow> scenario \<Rightarrow> string list" where
  "config_files folder s =
     (let dir = (case sn_traffic_type s of
            Some t \<Rightarrow> if t = ''ISMSDA'' then Some ''traffic_IMS'' else if t = ''ESM'' then Some ''traffic_EPC''
              else if t = ''WSM'' then Some ''traffic_WLAN'' else Some ''traffic_OAM''
          | None \<Rightarrow> None)
      in case dir of None \<Rightarrow> []
         | Some d \<Rightarrow> map (\<lambda>f. path_join (path_join folder d) f) [''debug_flags.cfg'', ''HSS_Traffic.cfg'', ''params.cfg''])"

text \<open>The file of the traffic mix: \<open>known\<close> is what is found for the version of the node.\<close>

definition sdg_input_file :: "(string \<Rightarrow> string option) \<Rightarrow> string \<Rightarrow> scenario \<Rightarrow> string launched" where
  "sdg_input_file known folder s =
     (let slfr = (\<exists>c \<in> set (sn_cabinets s). ''SLFr'' \<in> set (cab_modules c));
          (pre, suf) = (if sn_traffic_type s = Some ''ISMSDA'' then (if slfr then ''SLFr'' else ''IMS'', ''IMS'')
            else if sn_traffic_type s = Some ''ESM'' then (''EPC'', ''EPC'') else (sn_mode s, sn_mode s));
          dir = path_join folder (''traffic_'' @ suf);
          version = (case sn_version s of
             Some v \<Rightarrow> Inr v
           | None \<Rightarrow> bind_res (raised (primary_cabinet s)) (\<lambda>c. case c of None \<Rightarrow> no_node
               | Some c \<Rightarrow> Inr (ti_version (cab_info c))))
      in bind_res version (\<lambda>v.
           if sn_mix s \<noteq> [] then Inr (path_join dir (sn_mix s))
           else case (if v = [] then None else known v) of
             None \<Rightarrow> Inr (path_join dir (pre @ ''_TrafficMix.cfg''))
           | Some f \<Rightarrow> Inr (path_join dir f)))"

end
