(* ===== verification/Launcher_Build.thy ===== *)
theory Launcher_Build
  imports Launcher_Config
begin

text \<open>
  \<open>build_config_file\<close> of \<open>run_titansim_HSS_BAT/scenario/config_handler.py\<close>: the options of the command line become a
  scenario and the properties of its execution, whose texts are the input of the scenario generator.

  What the surroundings answer is one record, \<open>site\<close>: the name of this host, the library that reads addresses,
  what each node reports (by zone), the ports and the local addresses that are found.
\<close>

section \<open>Inputs\<close>

record site =
  st_host :: string
  st_address :: "string \<Rightarrow> nat option"
  st_info :: "int \<Rightarrow> traffic_info"
  st_env :: "string option"
  st_free :: "int \<Rightarrow> bool"
  st_any :: "string \<Rightarrow> int \<Rightarrow> int \<Rightarrow> int option"
  st_nic :: "string \<Rightarrow> string \<Rightarrow> bool \<Rightarrow> string option"
  st_user :: string
  st_password :: string

record options =
  op_vip_data :: string
  op_node_type :: cabinet_kind
  op_eccd_type :: string
  op_appid :: "string option"
  op_scenario :: string
  op_modules :: string
  op_ipv6 :: bool
  op_dicos :: string
  op_sec_vip :: string
  op_conkeeper :: "string option"
  op_mix :: string
  op_version :: "string option"
  op_gui :: bool
  op_mc_host :: string
  op_mc_port :: "int option"
  op_plotter_port :: int
  op_time :: int
  op_range :: int
  op_traffic :: string
  op_load :: string
  op_async :: bool
  op_generators :: "string option"
  op_proxies :: "string option"
  op_offset :: "int option"
  op_file_mask :: string
  op_schemes :: string
  op_remove_groups :: "string list"
  op_traffic_groups :: "string list"
  op_ranges :: "string list"
  op_parameters :: "string list"
  op_disabled :: "string list"
  op_set_mix :: "string list"
  op_add_mix :: "string list"
  op_force_manual :: bool
  op_automatic :: bool
  op_semiautomatic :: bool
  op_manual :: bool

section \<open>The nodes\<close>

definition primary_node :: "site \<Rightarrow> options \<Rightarrow> cabinet launched" where
  "primary_node st o1 =
     (let vips = parse_vip_parameter (op_vip_data o1)
      in bind_res
           (if op_node_type o1 = CNHSS
            then cabinet_init (st_address st) (st_env st) CNHSS (op_eccd_type o1) (op_modules o1) (op_ipv6 o1)
                   (st_info st 1) (op_appid o1)
            else case vips of
              [] \<Rightarrow> Inl (Raised (IndexError ''list index out of range''))
            | a # _ \<Rightarrow> guard (validate_ip (st_address st) False a)
                (cabinet_init (st_address st) (st_env st) (op_node_type o1) a (op_modules o1) (op_ipv6 o1) (st_info st 1) None))
           (\<lambda>c. bind_res (user_vips (st_address st) REQUIRED_IP vips c) (\<lambda>c.
             Inr (fold add_filter_blade (words (op_dicos o1)) c))))"

definition secondary_node :: "site \<Rightarrow> options \<Rightarrow> cabinet option launched" where
  "secondary_node st o1 =
     (if op_sec_vip o1 = [] then Inr None
      else let vips = split_on (CHR '':'') (op_sec_vip o1)
        in bind_res (cabinet_init (st_address st) (st_env st) TSP (hd vips) (op_modules o1) False (st_info st 2) None) (\<lambda>c.
           bind_res (user_vips (st_address st) REQUIRED_IP vips c) (\<lambda>c. Inr (Some c))))"

section \<open>The scenario\<close>

definition build_scenario :: "site \<Rightarrow> options \<Rightarrow> cabinet \<Rightarrow> cabinet option \<Rightarrow> scenario launched" where
  "build_scenario st o1 c sec =
     bind_res (raised (scenario_new (op_scenario o1))) (\<lambda>s.
     let s1 = add_cabinet c s;
         s2 = (case sec of None \<Rightarrow> s1 | Some d \<Rightarrow> add_cabinet d s1)
     in bind_res (if op_conkeeper o1 = Some [] then Inr s2 else set_conkeeper (st_host st) (op_conkeeper o1) s2) (\<lambda>s3.
        Inr (s3\<lparr>sn_mix := op_mix o1, sn_version := (if op_version o1 = Some [] then None else op_version o1)\<rparr>)))"

section \<open>The execution\<close>

definition execution_mode_of :: "options \<Rightarrow> string" where
  "execution_mode_of o1 =
     (if op_force_manual o1 then ''Manual'' else if op_automatic o1 then ''Automatic''
      else if op_semiautomatic o1 then ''Semiautomatic'' else if op_manual o1 then ''Manual'' else ''Automatic'')"

definition all_words :: "string list \<Rightarrow> string list" where
  "all_words ws = concat (map words ws)"

definition free_port_of :: "site \<Rightarrow> string \<Rightarrow> string" where
  "free_port_of st h = port_text (get_free_port (st_free st) (st_any st) h 65536 11000 None)"

text \<open>The properties as far as they are set before the generators and the proxies.\<close>

definition first_props :: "site \<Rightarrow> options \<Rightarrow> exec_props" where
  "first_props st o1 =
     (let x = (exec_props_new (free_port_of st (op_mc_host o1)))\<lparr>xp_gui := op_gui o1\<rparr>;
          x1 = (case op_mc_port o1 of Some n \<Rightarrow> if n = 0 then x else x\<lparr>xp_mc_port := str_of_int n\<rparr> | None \<Rightarrow> x);
          x2 = x1\<lparr>xp_plotter_port := op_plotter_port o1, xp_time := nonzero (op_time o1), xp_range := nonzero (op_range o1)\<rparr>
      in (set_load_level_setting (op_load o1) (set_traffic_setting (op_traffic o1) x2))\<lparr>xp_async := op_async o1\<rparr>)"

definition nic_param :: "string \<Rightarrow> string option \<Rightarrow> string list" where
  "nic_param label ip = (case ip of None \<Rightarrow> [] | Some a \<Rightarrow> if a = [] then [] else [''q:'' @ label @ '':'' @ a])"

definition local_ips :: "site \<Rightarrow> options \<Rightarrow> cabinet \<Rightarrow> scenario \<Rightarrow> string list launched" where
  "local_ips st o1 c s =
     (case sn_generators s of
        [] \<Rightarrow> Inl (Raised (IndexError ''list index out of range''))
      | g # _ \<Rightarrow>
          bind_res (raised (get_vip ''dia_sctp'' c)) (\<lambda>sctp.
          bind_res (raised (get_vip ''dia_tcp'' c)) (\<lambda>tcp.
          bind_res (raised (get_vip ''udm'' c)) (\<lambda>udm.
            let nic = (\<lambda>a. st_nic st a g (op_ipv6 o1))
            in Inr ((if op_scenario o1 \<in> {''EPC'', ''EPC-SLF'', ''EPC-R''} then nic_param ''DIA_LOCAL_IP'' (nic sctp) else []) @
                 nic_param ''DIA_TCP_LOCAL_IP'' (nic tcp) @
                 (if op_scenario o1 = ''EPC'' \<and> udm \<notin> {''0.0.0.0'', ''0:0''}
                  then nic_param ''UDM_LOCAL_IP'' (nic udm) else []))))))"

definition second_props :: "options \<Rightarrow> exec_props \<Rightarrow> exec_props" where
  "second_props o1 x =
     x\<lparr>xp_mask := xp_mask x @ (if op_file_mask o1 = [] then [] else [op_file_mask o1]),
       xp_schedules := words (op_schemes o1), xp_skip_groups := all_words (op_remove_groups o1),
       xp_groups := all_words (op_traffic_groups o1)\<rparr>"

definition third_props :: "options \<Rightarrow> string list \<Rightarrow> exec_props \<Rightarrow> exec_props" where
  "third_props o1 ips x =
     x\<lparr>xp_ranges := all_words (op_ranges o1), xp_params := ips @ all_words (op_parameters o1),
       xp_disabled := all_words (op_disabled o1),
       xp_scripts := all_words (op_set_mix o1) @ all_words (op_add_mix o1), xp_mode := execution_mode_of o1\<rparr>"

definition numhcs :: "options \<Rightarrow> int" where
  "numhcs o1 = (case op_generators o1 of None \<Rightarrow> 1 | Some w \<Rightarrow> int (card (set (words w))))"

section \<open>The input of the scenario generator\<close>

definition build_config :: "site \<Rightarrow> options \<Rightarrow> (scenario \<times> exec_props) launched" where
  "build_config st o1 =
     bind_res (primary_node st o1) (\<lambda>c.
     bind_res (secondary_node st o1) (\<lambda>sec.
     bind_res (build_scenario st o1 c sec) (\<lambda>s.
       let x = first_props st o1;
           s1 = scenario_proxies (st_free st) (st_any st) (st_host st) (op_offset o1) (op_proxies o1)
                  (set_generators (st_host st) (op_generators o1) x s);
           x1 = second_props o1 x
       in guard (\<not> conflicting_groups x1)
            (bind_res (local_ips st o1 c s1) (\<lambda>ips. Inr (s1, third_props o1 ips x1))))))"

definition generator_input :: "site \<Rightarrow> options \<Rightarrow> string launched" where
  "generator_input st o1 =
     bind_res (build_config st o1) (\<lambda>(s, x).
     bind_res (scenario_cfg s) (\<lambda>ls.
     bind_res (exec_cfg (free_port_of st) (st_user st) (st_password st) (numhcs o1) s x) (\<lambda>ms.
       Inr (file_text (ls @ ms)))))"

end
