(* ===== verification/Launcher_Props.thy ===== *)
theory Launcher_Props
  imports Launcher_Build
begin

text \<open>
  What the launcher writes and reads back: the patched configuration, the addresses of the command line, lists of
  hosts.
\<close>

section \<open>Texts\<close>

definition rstrip :: "string \<Rightarrow> string" where
  "rstrip s = rev (dropWhile blank (rev s))"

lemma strip_rstrip: "s \<noteq> [] \<Longrightarrow> \<not> blank (hd s) \<Longrightarrow> strip s = rstrip s"
  by (cases s) (simp_all add: strip_def rstrip_def)

lemma rstrip_append: "p \<noteq> [] \<Longrightarrow> \<not> blank (last p) \<Longrightarrow> rstrip (p @ x) = p @ rstrip x"
proof -
  assume "p \<noteq> []" and "\<not> blank (last p)"
  then have "dropWhile blank (rev p) = rev p"
    by (cases p rule: rev_cases) simp_all
  then show ?thesis
    by (auto simp: rstrip_def dropWhile_append)
qed

lemma strip_append:
  "p \<noteq> [] \<Longrightarrow> \<not> blank (hd p) \<Longrightarrow> \<not> blank (last p) \<Longrightarrow> strip (p @ x) = p @ rstrip x"
  by (subst strip_rstrip) (simp_all add: rstrip_append)

lemma cut_assign_Cons: "c \<noteq> CHR '':'' \<Longrightarrow> cut_assign (c # cs) = map_option (apfst ((#) c)) (cut_assign cs)"
  by (cases cs) simp_all

lemma cut_assign_append:
  "CHR '':'' \<notin> set p \<Longrightarrow> cut_assign (p @ s) = map_option (apfst ((@) p)) (cut_assign s)"
proof (induction p)
  case (Cons c p)
  then have "c \<noteq> CHR '':''" by auto
  then show ?case
    using Cons by (auto simp: cut_assign_Cons option.map_comp comp_def apfst_def map_prod_def split_beta)
qed (simp add: apfst_def map_prod_def option.map_ident id_def)

lemma splitlines_free: "l \<in> set (splitlines s) \<Longrightarrow> CHR 0x0A \<notin> set l"
  by (induction s arbitrary: l) (fastforce split: if_splits list.splits)+

lemma splitlines_lines:
  "(\<And>l. l \<in> set ls \<Longrightarrow> CHR 0x0A \<notin> set l) \<Longrightarrow> splitlines (concat (map (\<lambda>l. l @ [CHR 0x0A]) ls)) = ls"
proof (induction ls)
  case (Cons l ls)
  have "splitlines (l @ CHR 0x0A # s) = l # splitlines s" if "CHR 0x0A \<notin> set l" for l s
    using that by (induction l) auto
  then show ?case
    using Cons by simp
qed simp

section \<open>Patching the configuration\<close>

definition apart_from_title :: "cfg \<Rightarrow> cfg \<Rightarrow> bool" where
  "apart_from_title c d \<longleftrightarrow> (\<forall>k. \<not> startswith k window_title \<longrightarrow> map_of c k = map_of d k)"

lemma apart_set: "apart_from_title c d \<Longrightarrow> apart_from_title (dict_set k v c) (dict_set k v d)"
  by (simp add: apart_from_title_def update_conv')

lemma apart_title:
  "apart_from_title c d \<Longrightarrow> startswith k window_title \<Longrightarrow> apart_from_title (dict_set k v c) d"
  "apart_from_title c d \<Longrightarrow> startswith k window_title \<Longrightarrow> apart_from_title c (dict_set k v d)"
  by (auto simp: apart_from_title_def update_conv')

lemma parse_line_cases:
  obtains (same) "\<And>c. parse_line lit flt l c = done_with c"
  | (stored) k v where "\<And>c. parse_line lit flt l c = done_with (dict_set k v c)"
      "\<exists>a b. cut_assign (strip l) = Some (a, b) \<and> k = strip a"
  | (failed) e where "\<And>c. parse_line lit flt l c = (Inl e, c)"
proof (cases "ignored (strip l)")
  case True
  then show ?thesis by (intro same) (simp add: parse_line_def)
next
  case unignored: False
  show ?thesis
  proof (cases "cut_assign (strip l)")
    case None
    then show ?thesis using unignored by (intro same) (simp add: parse_line_def)
  next
    case (Some ab)
    obtain a b where ab: "ab = (a, b)" by (cases ab)
    show ?thesis
    proof (cases "convert lit flt (clean_value b)")
      case (Inl e)
      then show ?thesis using unignored Some ab by (intro failed) (simp add: parse_line_def)
    next
      case (Inr v)
      then show ?thesis using unignored Some ab by (intro stored [of "strip a" v]) (auto simp: parse_line_def)
    qed
  qed
qed

lemma title_parts:
  "window_title \<noteq> []" "hd window_title = CHR ''t''" "last window_title = CHR ''e''" "CHR '':'' \<notin> set window_title"
  "\<not> blank (CHR ''t'')" "\<not> blank (CHR ''e'')"
  unfolding window_title_def blank_def by simp_all

lemma parse_comment: "parse_line lit flt (''//'' @ l) c = done_with c"
proof -
  have "strip (''//'' @ l) = ''//'' @ rstrip l"
    by (rule strip_append) (simp_all add: blank_def)
  then show ?thesis
    by (simp add: parse_line_def ignored_def startswith_def)
qed

lemma parse_special: "strip l \<in> set special_lines \<Longrightarrow> parse_line lit flt l c = done_with c"
  by (auto simp: special_lines_def parse_line_def)

lemma parse_old_title:
  assumes "startswith (strip l) window_title" and "parse_line lit flt l c = (Inr (), c1)" and "apart_from_title c d"
  shows "apart_from_title c1 d"
proof -
  obtain x where x: "strip l = window_title @ x"
    using assms(1) by (auto simp: startswith_iff)
  show ?thesis
  proof (cases rule: parse_line_cases [of lit flt l])
    case (stored k v)
    then obtain a where "k = strip (window_title @ a)"
      by (auto simp: x cut_assign_append title_parts)
    then have "startswith k window_title"
      by (simp add: strip_append title_parts startswith_append)
    then show ?thesis
      using assms stored by (auto simp: done_with_def apart_title)
  qed (use assms in \<open>auto simp: done_with_def\<close>)
qed

lemma parse_new_title:
  assumes "convert lit flt (clean_value ('' '' @ quote (''HSS traffic <> '' @ now))) = Inr t"
  shows "parse_line lit flt (window_title @ '' := '' @ quote (''HSS traffic <> '' @ now)) c = done_with (dict_set window_title t c)"
proof -
  let ?q = "quote (''HSS traffic <> '' @ now)"
  have "rstrip ('' := '' @ ?q) = '' := '' @ ?q"
    by (simp add: rstrip_def quote_def blank_def)
  then have s: "strip (window_title @ '' := '' @ ?q) = window_title @ '' := '' @ ?q"
    by (simp only: strip_append title_parts not_False_eq_True)
  have "cut_assign (window_title @ '' := '' @ ?q) = Some (window_title @ '' '', '' '' @ ?q)"
    by (subst cut_assign_append) (simp_all add: title_parts)
  moreover have "strip (window_title @ '' '') = window_title"
    by (subst strip_append) (simp_all add: title_parts rstrip_def blank_def)
  moreover have "\<not> ignored (window_title @ '' := '' @ ?q)"
    by (simp add: ignored_def window_title_def startswith_def)
  ultimately show ?thesis
    using assms by (simp only: parse_line_def s) simp
qed

lemma parse_patched_line:
  assumes "convert lit flt (clean_value ('' '' @ quote (''HSS traffic <> '' @ now))) = Inr t"
    and "parse_line lit flt l c = (Inr (), c1)" and "apart_from_title c d"
  shows "\<exists>d1. for_each (parse_line lit flt) (patch_line now l) d = (Inr (), d1) \<and> apart_from_title c1 d1"
proof -
  consider (special) "strip l \<in> set special_lines"
    | (comment) "strip l \<notin> set special_lines" "startswith (strip l) ''#'' \<or> startswith (strip l) ''//''"
    | (wtitle) "strip l \<notin> set special_lines" "\<not> startswith (strip l) ''#''" "\<not> startswith (strip l) ''//''"
        "startswith (strip l) window_title"
    | (other) "patch_line now l = [l]"
    unfolding patch_line_def Let_def by presburger
  then show ?thesis
  proof cases
    case special
    then show ?thesis
      using assms by (simp add: patch_line_def parse_comment parse_special done_with_def Let_def del: append_Cons append_Nil)
  next
    case comment
    then show ?thesis
      using assms by (auto simp: patch_line_def parse_line_def ignored_def done_with_def Let_def)
  next
    case wtitle
    then show ?thesis
      using parse_old_title [OF wtitle(4) assms(2,3)] parse_new_title [OF assms(1)]
      by (simp add: patch_line_def done_with_def Let_def apart_title startswith_append [of window_title "[]", simplified])
  next
    case other
    then show ?thesis
      using assms by (cases rule: parse_line_cases [of lit flt l]) (auto simp: done_with_def apart_set)
  qed
qed

lemma parse_patched_lines:
  assumes "convert lit flt (clean_value ('' '' @ quote (''HSS traffic <> '' @ now))) = Inr t"
  shows "for_each (parse_line lit flt) ls c = (Inr (), c1) \<Longrightarrow> apart_from_title c d \<Longrightarrow>
    \<exists>d1. for_each (parse_line lit flt) (concat (map (patch_line now) ls)) d = (Inr (), d1) \<and> apart_from_title c1 d1"
proof (induction ls arbitrary: c d)
  case (Cons l ls)
  obtain c2 where l: "parse_line lit flt l c = (Inr (), c2)" and ls: "for_each (parse_line lit flt) ls c2 = (Inr (), c1)"
    using Cons.prems(1) by (auto simp: andthen_def split: prod.splits sum.splits)
  obtain d2 where "for_each (parse_line lit flt) (patch_line now l) d = (Inr (), d2)" "apart_from_title c2 d2"
    using parse_patched_line [OF assms l Cons.prems(2)] by blast
  then show ?case
    using Cons.IH [OF ls] by (simp add: for_each_append)
qed (simp add: done_with_def)

lemma patched_lines: "CHR 0x0A \<notin> set now \<Longrightarrow> splitlines (patch_config now raw) = concat (map (patch_line now) (splitlines raw))"
  unfolding patch_config_def
  by (rule splitlines_lines)
    (auto simp: patch_line_def Let_def quote_def window_title_def split: if_splits dest: splitlines_free)

text \<open>C26: The configuration that the launcher writes, read back, agrees with the generated one but for the
  title of the window, which is the only value that patching changes.
\<close>

theorem patching_keeps_configuration:
  assumes "CHR 0x0A \<notin> set now"
    and "convert lit flt (clean_value ('' '' @ quote (''HSS traffic <> '' @ now))) = Inr t"
    and "quick_config_parser lit flt raw = Inr cfg"
  shows "\<exists>cfg'. quick_config_parser lit flt (patch_config now raw) = Inr cfg' \<and>
    (\<forall>k. \<not> startswith k window_title \<longrightarrow> map_of cfg' k = map_of cfg k)"
proof -
  have "for_each (parse_line lit flt) (splitlines raw) [] = (Inr (), cfg)"
    using assms(3) by (auto simp: quick_config_parser_def split: prod.splits sum.splits)
  from parse_patched_lines [OF assms(2) this, of "[]"] obtain d
    where "for_each (parse_line lit flt) (concat (map (patch_line now) (splitlines raw))) [] = (Inr (), d)"
      "apart_from_title cfg d"
    by (auto simp: apart_from_title_def)
  then show ?thesis
    by (auto simp: quick_config_parser_def patched_lines [OF assms(1)] apart_from_title_def)
qed

definition demo_raw :: string where
  "demo_raw = concat (map (\<lambda>l. l @ [CHR 0x0A])
     [''// generated'', ''[INCLUDE]'', ''TCPPORT := 5555'', window_title @ '' := '' @ quote ''old'', ''LAYER := true;''])"

definition demo_lit :: "string \<Rightarrow> cfg_value res" where
  "demo_lit w = Inr (CStr (unquote w))"

lemma patching_keeps_configuration_witness:
  "\<exists>cfg'. quick_config_parser demo_lit (\<lambda>_. None) (patch_config ''noon'' demo_raw) = Inr cfg' \<and>
    (\<forall>k. \<not> startswith k window_title \<longrightarrow>
       map_of cfg' k = map_of [(''TCPPORT'', CInt 5555), (window_title, CStr ''old''), (''LAYER'', CBool True)] k)"
  by (rule patching_keeps_configuration [of "''noon''" demo_lit "\<lambda>_. None" "CStr ''HSS traffic <> noon''"]; code_simp)

section \<open>Addresses of the command line\<close>

text \<open>An address as the user writes it: one of version 6 in brackets.\<close>

definition vip_text :: "string \<Rightarrow> string" where
  "vip_text a = (if list_all v4_char a then a else ''['' @ a @ '']'')"

lemma vip_chars:
  "\<not> v4_char (CHR ''['')" "\<not> v4_char (CHR '':'')" "\<not> v6_char (CHR '']'')" "\<not> v6_char (CHR ''['')"
  by (simp_all add: v4_char_def v6_char_def digit_def of_char_def)

lemma vip_text_Nil: "vip_text [] = []"
  by (simp add: vip_text_def)

lemma tokens_of_address:
  assumes "a \<noteq> []" and "list_all v6_char a" and "s = [] \<or> (\<exists>t. s = CHR '':'' # t)"
  shows "vip_tokens (vip_text a @ s) = (if list_all v4_char a then V4 a else V6 a) # vip_tokens s"
proof (cases "list_all v4_char a")
  case True
  obtain c cs where a: "a = c # cs" using assms(1) by (cases a) auto
  have "takeWhile v4_char (cs @ s) = cs" "dropWhile v4_char (cs @ s) = s"
    using True assms(3) by (auto simp: a list_all_iff takeWhile_append dropWhile_append vip_chars)
  then show ?thesis
    using True by (simp add: vip_text_def a)
next
  case False
  have "takeWhile v6_char (a @ CHR '']'' # s) = a" "dropWhile v6_char (a @ CHR '']'' # s) = CHR '']'' # s"
    using assms(2) by (auto simp: list_all_iff takeWhile_append dropWhile_append vip_chars)
  then show ?thesis
    using False by (simp add: vip_text_def vip_chars)
qed

text \<open>The addresses given on the command line are read back as they were written, version 4 plain and version 6 in
  brackets, an address left out as the empty text, as long as the last one is not left out.
\<close>

theorem vip_parameter_roundtrip:
  assumes "\<forall>a \<in> set as. list_all v6_char a" and "as = [] \<or> last as \<noteq> []"
  shows "parse_vip_parameter (join '':'' (map vip_text as)) = as"
  using assms
proof (induction as)
  case Nil
  then show ?case by (simp add: parse_vip_parameter_def)
next
  case (Cons a as)
  show ?case
  proof (cases as)
    case Nil
    then show ?thesis
      using Cons.prems tokens_of_address [of a "[]"] by (cases a) (auto simp: parse_vip_parameter_def)
  next
    case (Cons b bs)
    let ?s = "join '':'' (map vip_text as)"
    have IH: "vip_list True (vip_tokens ?s) = as"
      using Cons Cons.IH Cons.prems by (simp add: parse_vip_parameter_def)
    have j: "join '':'' (map vip_text (a # as)) = vip_text a @ CHR '':'' # ?s"
      by (simp add: Cons)
    show ?thesis
    proof (cases "a = []")
      case True
      then show ?thesis
        unfolding parse_vip_parameter_def j using IH by (simp add: vip_chars vip_text_Nil del: join.simps)
    next
      case False
      then show ?thesis
        unfolding parse_vip_parameter_def j using IH Cons.prems tokens_of_address [of a "CHR '':'' # ?s"]
        by (cases a) (auto simp: vip_chars simp del: join.simps)
    qed
  qed
qed

lemma vip_parameter_roundtrip_witness:
  "parse_vip_parameter ''10.0.0.1::[::1]'' = [''10.0.0.1'', [], ''::1'']"
proof -
  have "join '':'' (map vip_text [''10.0.0.1'', [], ''::1'']) = ''10.0.0.1::[::1]''"
    by code_simp
  then show ?thesis
    using vip_parameter_roundtrip [of "[''10.0.0.1'', [], ''::1'']"] by (simp add: v6_char_def digit_def)
qed

section \<open>Structured values\<close>

lemma unquote_filter: "unquote s = filter (\<lambda>c. c \<noteq> CHR 0x22) s"
proof -
  have "replace_from 0 [CHR 0x22] [] s = filter (\<lambda>c. c \<noteq> CHR 0x22) s"
    by (induction s) (simp_all add: startswith_def)
  then show ?thesis by (simp add: unquote_def str_replace_def)
qed

lemma unquote_quote: "CHR 0x22 \<notin> set s \<Longrightarrow> unquote (quote s) = s"
  by (simp add: unquote_filter quote_def filter_id_conv) (metis)

lemma braces_around: "braces (''{'' @ s @ ''}'')" "inner (''{'' @ s @ ''}'') = s"
  by (simp_all add: braces_def inner_def startswith_def endswith_def butlast_append)

text \<open>A list of hosts written as a list of quoted names in braces is parsed to the names.
\<close>

theorem host_list_roundtrip:
  assumes "gs \<noteq> []" and "\<forall>g \<in> set gs. CHR 0x22 \<notin> set g \<and> CHR '','' \<notin> set g"
  shows "parse_list_definition (Some (CStr (''{'' @ join '','' (map quote gs) @ ''}''))) = Inr gs"
proof -
  have "split_on (CHR '','') (join '','' (map quote gs)) = map quote gs"
    using assms by (intro split_on_join) (auto simp: quote_def)
  moreover have "map unquote (map quote gs) = gs"
    using assms(2) by (auto simp: unquote_quote intro: map_idI)
  ultimately show ?thesis
    by (simp only: parse_list_definition_def cfg_text_def assertion_def braces_around bind_res_def option.case sum.case
        cfg_value.case if_True)
qed

end
