(* ===== verification/Cabinet_Props.thy ===== *)
theory Cabinet_Props
  imports Launcher_Props
begin

text \<open>
  Properties of the nodes and the scenario that \<open>build_config_file\<close> makes of the options.
\<close>

lemma launched_Inr: "bind_res r f = Inr v \<longleftrightarrow> (\<exists>x. r = Inr x \<and> f x = Inr v)"
  by (cases r) (simp_all add: bind_res_def)

lemma guard_Inr: "guard b r = Inr v \<longleftrightarrow> b \<and> r = Inr v"
  by (simp add: guard_def)

lemma raised_Inr: "raised r = Inr v \<longleftrightarrow> r = Inr v"
  by (cases r) (simp_all add: raised_def)

lemmas launch_simps = launched_Inr guard_Inr raised_Inr

section \<open>Addresses of a node\<close>

definition addresses_ok :: "(string \<Rightarrow> nat option) \<Rightarrow> cabinet \<Rightarrow> bool" where
  "addresses_ok address c \<longleftrightarrow> dict_keys (cab_vips c) = REQUIRED_IP \<and> cab_active c \<and>
     list_all (\<lambda>(v, a). a = [] \<or> address_ok address c v a) (cab_vips c)"

lemma address_ok_cong:
  "cab_kind d = cab_kind c \<Longrightarrow> cab_IPv6 d = cab_IPv6 c \<Longrightarrow> address_ok address d = address_ok address c"
proof -
  assume "cab_kind d = cab_kind c" and "cab_IPv6 d = cab_IPv6 c"
  then have "wants d = wants c" by (intro ext) (simp only: wants_def)
  then show ?thesis by (intro ext) (simp only: address_ok_def)
qed

lemma addresses_ok_frame:
  "addresses_ok address c \<Longrightarrow> cab_kind d = cab_kind c \<Longrightarrow> cab_IPv6 d = cab_IPv6 c \<Longrightarrow> cab_vips d = cab_vips c \<Longrightarrow>
   cab_active d = cab_active c \<Longrightarrow> addresses_ok address d"
  unfolding addresses_ok_def using address_ok_cong [of d c address] by simp

lemma cabinet_new_ok: "addresses_ok address (cabinet_new k name ipv6 info app)"
  by (simp add: addresses_ok_def cabinet_new_def comp_def list_all_iff)

lemma add_module_ok: "addresses_ok address c \<Longrightarrow> addresses_ok address (add_module m c)"
  by (erule addresses_ok_frame) (simp_all add: add_module_def)

lemma filter_blades_ok: "addresses_ok address c \<Longrightarrow> addresses_ok address (fold add_filter_blade bs c)"
proof (induction bs arbitrary: c)
  case (Cons b bs)
  have "addresses_ok address (add_filter_blade b c)"
    using Cons.prems by (rule addresses_ok_frame) (simp_all add: add_filter_blade_def)
  then show ?case by (simp add: Cons.IH)
qed simp

lemma set_vip_ok: "set_vip address v a c = Inr d \<Longrightarrow> addresses_ok address c \<Longrightarrow> addresses_ok address d"
proof -
  assume d: "set_vip address v a c = Inr d" and c: "addresses_ok address c"
  let ?e = "c\<lparr>cab_vips := dict_set v a (cab_vips c)\<rparr>"
  have ok: "addresses_ok address ?e" if "v \<in> set REQUIRED_IP" "address_ok address c v a"
    using that c set_dict_set [of v a "cab_vips c"]
    by (auto simp: addresses_ok_def list_all_iff dict_simps address_ok_cong [of ?e c])
  have "d = c \<or> v \<in> set REQUIRED_IP \<and> address_ok address c v a \<and> d = ?e"
    using d by (auto simp: set_vip_def launch_simps split: if_splits)
  then show ?thesis using ok c by auto
qed

lemma init_vips_ok: "init_vips address env vs c = Inr d \<Longrightarrow> addresses_ok address c \<Longrightarrow> addresses_ok address d"
  by (induction vs arbitrary: c) (auto simp: launch_simps dest: set_vip_ok)

lemma user_vips_ok: "user_vips address vs as c = Inr d \<Longrightarrow> addresses_ok address c \<Longrightarrow> addresses_ok address d"
  by (induction address vs as c rule: user_vips.induct) (auto simp: launch_simps dest: set_vip_ok)

lemma vector_supplier_ok: "check_vector_supplier c = Inr d \<Longrightarrow> addresses_ok address c \<Longrightarrow> addresses_ok address d"
  by (auto simp: check_vector_supplier_def Let_def guard_Inr intro: addresses_ok_frame)

lemma cabinet_init_ok: "cabinet_init address env k name m six info app = Inr d \<Longrightarrow> addresses_ok address d"
  by (auto simp: cabinet_init_def Let_def launch_simps split: if_splits
      dest!: init_vips_ok vector_supplier_ok intro: cabinet_new_ok add_module_ok)

lemma primary_node_ok: "primary_node st o1 = Inr c \<Longrightarrow> addresses_ok (st_address st) c"
  by (auto simp: primary_node_def Let_def launch_simps split: if_splits list.splits
      intro!: filter_blades_ok elim!: user_vips_ok dest: cabinet_init_ok)

lemma secondary_node_ok: "secondary_node st o1 = Inr (Some d) \<Longrightarrow> addresses_ok (st_address st) d"
  by (auto simp: secondary_node_def Let_def launch_simps split: if_splits elim!: user_vips_ok dest: cabinet_init_ok)

section \<open>The nodes of the scenario\<close>

lemma add_cabinet_nodes: "sn_cabinets (add_cabinet c s) = sn_cabinets s @ [d] \<Longrightarrow> addresses_ok address c \<Longrightarrow> addresses_ok address d"
  by (auto simp: add_cabinet_def Let_def add_module_ok split: if_splits)

lemma add_cabinet_last: "\<exists>d. sn_cabinets (add_cabinet c s) = sn_cabinets s @ [d]"
  by (simp add: add_cabinet_def Let_def)

lemma set_conkeeper_nodes: "set_conkeeper h p s = Inr t \<Longrightarrow> sn_cabinets t = sn_cabinets s"
  by (auto simp: set_conkeeper_def split: option.splits list.splits sum.splits)

lemma scenario_nodes:
  assumes "build_scenario st o1 c sec = Inr s" and "addresses_ok address c"
    and "\<And>d. sec = Some d \<Longrightarrow> addresses_ok address d"
  shows "sn_cabinets s \<noteq> [] \<and> list_all (addresses_ok address) (sn_cabinets s)"
proof -
  obtain s0 where s0: "scenario_new (op_scenario o1) = Inr s0"
    using assms(1) by (auto simp: build_scenario_def launch_simps)
  have new: "sn_cabinets s0 = []"
    using s0 by (auto simp: scenario_new_def split: if_splits)
  let ?s2 = "case sec of None \<Rightarrow> add_cabinet c s0 | Some d \<Rightarrow> add_cabinet d (add_cabinet c s0)"
  have "sn_cabinets s = sn_cabinets ?s2"
    using assms(1) s0 by (auto simp: build_scenario_def launch_simps Let_def dest: set_conkeeper_nodes split: if_splits)
  moreover obtain c' where c': "sn_cabinets (add_cabinet c s0) = [c']" "addresses_ok address c'"
    using add_cabinet_last [of c s0] add_cabinet_nodes [OF _ assms(2), of s0] new by auto
  moreover have "\<exists>d'. sn_cabinets (add_cabinet d (add_cabinet c s0)) = [c', d'] \<and> addresses_ok address d'" if "sec = Some d" for d
    using add_cabinet_last [of d "add_cabinet c s0"] add_cabinet_nodes [OF _ assms(3) [OF that], of "add_cabinet c s0"]
    by (auto simp: c')
  ultimately show ?thesis
    by (cases sec) fastforce+
qed

lemma proxies_nodes: "sn_cabinets (scenario_proxies free any h k ps s) = sn_cabinets s"
  by (simp add: scenario_proxies_def)

lemma generators_nodes: "sn_cabinets (set_generators h gs x s) = sn_cabinets s"
  by (simp add: set_generators_def)

text \<open>C15: Every node of a scenario that the options give has exactly the required names, every address that is
  set is of a family its class accepts for the name, and the first node is the primary one.
\<close>

theorem scenario_addresses_valid:
  assumes "build_config st o1 = Inr (s, x)"
  shows "sn_cabinets s \<noteq> [] \<and> list_all (addresses_ok (st_address st)) (sn_cabinets s) \<and>
    primary_cabinet s = Inr (Some (hd (sn_cabinets s)))"
proof -
  obtain c sec s0 where p: "primary_node st o1 = Inr c" "secondary_node st o1 = Inr sec" "build_scenario st o1 c sec = Inr s0"
    and s: "sn_cabinets s = sn_cabinets s0"
    using assms by (auto simp: build_config_def launch_simps Let_def proxies_nodes generators_nodes)
  have nodes: "sn_cabinets s \<noteq> [] \<and> list_all (addresses_ok (st_address st)) (sn_cabinets s)"
    unfolding s by (rule scenario_nodes [OF p(3)]) (use p primary_node_ok secondary_node_ok in auto)
  then show ?thesis
    by (cases "sn_cabinets s") (auto simp: primary_cabinet_def addresses_ok_def)
qed

definition demo_site :: site where
  "demo_site =
     \<lparr>st_host = ''tg1'', st_address = (\<lambda>a. if CHR '':'' \<in> set a then Some 6 else if a = [] then None else Some 4),
      st_info = (\<lambda>_. \<lparr>ti_vips = [(''oam'', ''10.0.0.1''), (''dia_tcp'', ''fe80::2''), (''controller'', [])], ti_version = ''1.5'',
        ti_supplier = ''AVG'', ti_map_sri = False, ti_esm = None, ti_common_supplier = ''NONE'', ti_dia_port = None,
        ti_soap_port = None\<rparr>),
      st_env = None, st_free = (\<lambda>_. False), st_any = (\<lambda>_ _ _. None), st_nic = (\<lambda>_ _ _. Some ''10.0.0.9''),
      st_user = ''com'', st_password = ''secret''\<rparr>"

definition demo_options :: options where
  "demo_options =
     \<lparr>op_vip_data = ''10.0.0.1::::::[fe80::3]'', op_node_type = CBA, op_eccd_type = [], op_appid = None, op_scenario = ''IMS'',
      op_modules = ''CBA'', op_ipv6 = True, op_dicos = [], op_sec_vip = [], op_conkeeper = Some [], op_mix = [], op_version = None,
      op_gui = False, op_mc_host = ''tg1'', op_mc_port = None, op_plotter_port = 5555, op_time = 60, op_range = 0,
      op_traffic = ''200:10'', op_load = [], op_async = False, op_generators = None, op_proxies = Some ''tg1 tg2:'',
      op_offset = Some 11, op_file_mask = ''ERROR'', op_schemes = [], op_remove_groups = [], op_traffic_groups = [],
      op_ranges = [], op_parameters = [], op_disabled = [], op_set_mix = [], op_add_mix = [], op_force_manual = False,
      op_automatic = False, op_semiautomatic = False, op_manual = False\<rparr>"

lemma demo_builds: "\<not> Option.is_none (case build_config demo_site demo_options of Inr t \<Rightarrow> Some t | Inl _ \<Rightarrow> None)"
  by code_simp

lemma scenario_addresses_valid_witness:
  "\<exists>s x. build_config demo_site demo_options = Inr (s, x) \<and> sn_cabinets s \<noteq> [] \<and>
     list_all (addresses_ok (st_address demo_site)) (sn_cabinets s)"
proof -
  obtain s x where "build_config demo_site demo_options = Inr (s, x)"
    using demo_builds by (cases "build_config demo_site demo_options") auto
  then show ?thesis
    using scenario_addresses_valid [of demo_site demo_options s x] by blast
qed

section \<open>Too many addresses\<close>

lemma user_vips_excess: "length vs < length as \<Longrightarrow> user_vips address vs as c \<noteq> Inr d"
  by (induction address vs as c rule: user_vips.induct) (auto simp: launch_simps)

text \<open>More addresses than there are names never give a configuration.
\<close>

theorem too_many_addresses:
  assumes "length (parse_vip_parameter (op_vip_data o1)) > 10"
  shows "\<not> (\<exists>text. generator_input st o1 = Inr text)"
  using assms user_vips_excess [of REQUIRED_IP]
  by (auto simp: generator_input_def build_config_def primary_node_def launch_simps REQUIRED_IP_def Let_def)

lemma too_many_addresses_witness:
  "\<not> (\<exists>text. generator_input demo_site (demo_options\<lparr>op_vip_data := ''10.0.0.1:1:2:3:4:5:6:7:8:9:10''\<rparr>) = Inr text)"
  by (rule too_many_addresses) code_simp

end
