(* ===== verification/Proxy_Props.thy ===== *)
theory Proxy_Props
  imports Cabinet_Props
begin

text \<open>
  Ports and proxies of the launcher: numbers as texts, the completed definitions and their ports.
\<close>

section \<open>Numbers as texts\<close>

lemma digit_char: "n < 10 \<Longrightarrow> digit (char_of (48 + n :: nat)) \<and> of_char (char_of (48 + n :: nat)) = 48 + n"
  by (simp add: digit_def take_bit_nat_eq_self)

lemma digits_append: "digits_value (a @ [c]) = 10 * digits_value a + (of_char c - 48)"
  by (simp add: digits_value_def)

lemma str_of_nat_digits:
  "digits_value (str_of_nat n) = n \<and> str_of_nat n \<noteq> [] \<and> (\<forall>c \<in> set (str_of_nat n). digit c)"
proof (induction n rule: str_of_nat.induct)
  case (1 n)
  show ?case
  proof (cases "n < 10")
    case True
    then show ?thesis
      using digit_char [of n] by (subst (1 2 3) str_of_nat.simps) (simp add: digits_value_def)
  next
    case False
    have "n mod 10 < 10" by simp
    then show ?thesis
      using 1 [OF False] digit_char [of "n mod 10"] False
      by (subst (1 2 3) str_of_nat.simps) (auto simp: digits_append)
  qed
qed

lemma digit_not: "digit c \<Longrightarrow> \<not> blank c \<and> c \<notin> {CHR ''-'', CHR ''+'', CHR '':'', CHR '',''}"
  by (auto simp: digit_def blank_def)

lemma dropWhile_solid: "\<forall>c \<in> set s. \<not> blank c \<Longrightarrow> dropWhile blank s = s"
  by (cases s) auto

lemma strip_solid: "\<forall>c \<in> set s. \<not> blank c \<Longrightarrow> strip s = s"
  by (simp add: strip_def dropWhile_solid)

lemma py_int_digits:
  assumes "w \<noteq> []" and "\<forall>c \<in> set w. digit c"
  shows "py_int w = Inr (int (digits_value w))" and "py_int (CHR ''-'' # w) = Inr (- int (digits_value w))"
proof -
  obtain d ds where w: "w = d # ds" using assms(1) by (cases w) auto
  have solid: "\<forall>c \<in> set w. \<not> blank c" "\<not> blank (CHR ''-'')" "d \<noteq> CHR ''-''" "d \<noteq> CHR ''+''"
    using assms(2) digit_not by (auto simp: w blank_def)
  have s: "strip w = w" "strip (CHR ''-'' # w) = CHR ''-'' # w"
    using solid by (intro strip_solid; simp)+
  have all: "\<forall>c \<in> set w. digit c" by (rule assms(2))
  show "py_int w = Inr (int (digits_value w))"
    using solid(3,4) all unfolding py_int_def Let_def s by (simp add: w)
  show "py_int (CHR ''-'' # w) = Inr (- int (digits_value w))"
    using all assms(1) unfolding py_int_def Let_def s by simp
qed

lemma py_int_str: "py_int (str_of_int n) = Inr n"
proof (cases "n < 0")
  case True
  have "py_int (CHR ''-'' # str_of_nat (nat (- n))) = Inr (- int (nat (- n)))"
    using py_int_digits(2) [of "str_of_nat (nat (- n))"] str_of_nat_digits [of "nat (- n)"] by metis
  then show ?thesis using True by (simp add: str_of_int_def)
next
  case False
  have "py_int (str_of_nat (nat n)) = Inr (int (nat n))"
    using py_int_digits(1) [of "str_of_nat (nat n)"] str_of_nat_digits [of "nat n"] by metis
  then show ?thesis using False by (simp add: str_of_int_def)
qed

lemma str_of_int_inj: "str_of_int m = str_of_int n \<longleftrightarrow> m = n"
  by (metis py_int_str sum.inject(2))

lemma str_of_int_chars: "CHR '':'' \<notin> set (str_of_int n)" "CHR '','' \<notin> set (str_of_int n)"
proof -
  have "digit c \<or> c = CHR ''-''" if "c \<in> set (str_of_int n)" for c
    using that str_of_nat_digits [of "nat n"] str_of_nat_digits [of "nat (- n)"]
    by (simp add: str_of_int_def split: if_splits) blast
  moreover have "\<not> digit (CHR '':'')" "\<not> digit (CHR '','')"
    using digit_not by blast+
  ultimately show "CHR '':'' \<notin> set (str_of_int n)" "CHR '','' \<notin> set (str_of_int n)" by auto
qed

section \<open>Completed proxies\<close>

lemma fields:
  "a \<in> set (split_on (CHR '':'') p) \<Longrightarrow> CHR '':'' \<notin> set a"
  by (rule split_on_free)

lemma split_fields: "ps \<noteq> [] \<Longrightarrow> \<forall>p \<in> set ps. CHR '':'' \<notin> set p \<Longrightarrow> split_on (CHR '':'') (join '':'' ps) = ps"
  by (rule split_on_join) auto

lemma join_fields: "split_on (CHR '':'') p = fs \<Longrightarrow> p = join '':'' fs"
  using join_split [of "CHR '':''" p] by simp

definition completed_fields :: "(string \<Rightarrow> string) \<Rightarrow> string \<Rightarrow> string list \<Rightarrow> string list" where
  "completed_fields port_of host fs =
     (case fs of
        [a] \<Rightarrow> [a, port_of a, ''1'', []]
      | [a, b] \<Rightarrow> if a \<noteq> [] \<and> b \<noteq> [] then [a, b, ''0'', []]
          else [if a = [] then host else a, if b = [] then port_of host else b, ''1'', []]
      | a # b # c # d \<Rightarrow>
          [if a = [] then host else a, if b = [] then port_of host else b, if c = [] then ''1'' else c,
           (case d of [] \<Rightarrow> [] | w # _ \<Rightarrow> w)]
      | _ \<Rightarrow> [])"

lemma four_fields:
  "length fs \<le> 4 \<Longrightarrow> fs \<noteq> [] \<Longrightarrow>
     (\<exists>a. fs = [a]) \<or> (\<exists>a b. fs = [a, b]) \<or> (\<exists>a b c. fs = [a, b, c]) \<or> (\<exists>a b c d. fs = [a, b, c, d])"
  by (cases fs rule: remdups_adj.cases; simp) (auto simp: numeral_eq_Suc le_Suc_eq length_Suc_conv)

lemma field_cases:
  assumes "length fs \<le> 4" and "fs \<noteq> []"
  obtains (one) a where "fs = [a]" | (two) a b where "fs = [a, b]" | (three) a b c where "fs = [a, b, c]"
    | (four) a b c d where "fs = [a, b, c, d]"
  using four_fields [OF assms] by metis

lemma completed_free:
  assumes "length fs \<le> 4" and "fs \<noteq> []" and "\<forall>a \<in> set fs. CHR '':'' \<notin> set a"
    and "CHR '':'' \<notin> set host" and "\<And>h. CHR '':'' \<notin> set (port_of h)"
  shows "\<forall>a \<in> set (completed_fields port_of host fs). CHR '':'' \<notin> set a"
  using assms(1,2)
proof (cases rule: field_cases)
    case (one a)
    then show ?thesis using assms(3,4,5) unfolding completed_fields_def by simp
  next
    case (two a b)
    then show ?thesis using assms(3,4,5) unfolding completed_fields_def by simp
  next
    case (three a b c)
    then show ?thesis using assms(3,4,5) unfolding completed_fields_def by simp
  next
    case (four a b c d)
    then show ?thesis using assms(3,4,5) unfolding completed_fields_def by simp
qed

lemma completed_not_nil: "length fs \<le> 4 \<Longrightarrow> fs \<noteq> [] \<Longrightarrow> completed_fields port_of host fs \<noteq> []"
  by (drule (1) four_fields) (auto simp: completed_fields_def split: if_splits)

lemma complete_proxy_fields:
  assumes "length (split_on (CHR '':'') p) \<le> 4" and "CHR '':'' \<notin> set host" and "\<And>h. CHR '':'' \<notin> set (port_of h)"
  shows "split_on (CHR '':'') (complete_proxy port_of host p) = completed_fields port_of host (split_on (CHR '':'') p)"
proof -
  let ?fs = "split_on (CHR '':'') p"
  have free: "\<forall>a \<in> set ?fs. CHR '':'' \<notin> set a" by (simp add: fields)
  have p: "p = join '':'' ?fs" by (rule join_fields) simp
  have "complete_proxy port_of host p = join '':'' (completed_fields port_of host ?fs)"
    using assms(1) split_on_not_nil
    proof (cases rule: field_cases)
      case (one a)
      have "p = a" using p one by simp
      then have "complete_proxy port_of host p = a @ '':'' @ port_of a @ '':1:''"
        unfolding complete_proxy_def one by simp
      then show ?thesis unfolding completed_fields_def one by simp
    next
      case (two a b)
      have "p = a @ '':'' @ b" using p two by simp
      then show ?thesis unfolding complete_proxy_def two completed_fields_def by simp
    next
      case (three a b c)
      then show ?thesis unfolding complete_proxy_def completed_fields_def by simp
    next
      case (four a b c d)
      then show ?thesis unfolding complete_proxy_def completed_fields_def by simp
    qed
  moreover have "\<forall>a \<in> set (completed_fields port_of host ?fs). CHR '':'' \<notin> set a"
    by (rule completed_free [OF assms(1) split_on_not_nil free assms(2,3)])
  moreover have "completed_fields port_of host ?fs \<noteq> []"
    by (rule completed_not_nil [OF assms(1) split_on_not_nil])
  ultimately show ?thesis
    by (simp add: split_fields)
qed

lemma complete_proxies_nth:
  "i < length ps \<Longrightarrow> complete_proxies port_of host (Some k) ps ! i =
     complete_proxy (\<lambda>h. port_of h (Some (k + 10 * int i))) host (ps ! i)"
  by (induction ps arbitrary: k i) (auto simp: nth_Cons' algebra_simps of_nat_diff split: nat.split)

lemma length_complete_proxies: "length (complete_proxies port_of host k ps) = length ps"
  by (induction ps arbitrary: k) simp_all

section \<open>Ports\<close>

lemma find_in: "find P xs = Some x \<Longrightarrow> x \<in> set xs \<and> P x"
  by (induction xs) (auto split: if_splits)

lemma port_in_window:
  assumes "\<exists>p \<in> {lower + k..lower + k + 9}. free p"
  shows "\<exists>p \<in> {lower + k..lower + k + 9}. free p \<and> get_free_port free any host upper lower (Some k) = Some p"
proof -
  obtain p where "find free [lower + k..lower + k + 9] = Some p"
    using assms by (cases "find free [lower + k..lower + k + 9]") (auto simp: find_None_iff)
  then show ?thesis
    using find_in [of free "[lower + k..lower + k + 9]" p] by (auto simp: get_free_port_def)
qed

lemma port_text_chars: "CHR '':'' \<notin> set (port_text p)"
  by (cases p) (simp_all add: port_text_def str_of_int_chars)

definition proxy_window :: "string \<Rightarrow> int \<Rightarrow> nat \<Rightarrow> int set" where
  "proxy_window m k i = {snd (proxy_range m) + k + 10 * int i..snd (proxy_range m) + k + 10 * int i + 9}"

lemma proxy_port:
  assumes "\<exists>p \<in> proxy_window m k i. free p"
  shows "\<exists>p \<in> proxy_window m k i. proxy_ports free any m h (Some (k + 10 * int i)) = str_of_int p"
  using port_in_window [of "snd (proxy_range m)" "k + 10 * int i" free any h "fst (proxy_range m)"] assms
  by (auto simp: proxy_window_def proxy_ports_def port_text_def add.assoc)

text \<open>With an offset, the proxies given by host alone get different ports, as long as each window of ten
  ports has a free one.
\<close>

theorem proxy_ports_distinct:
  assumes "\<forall>i < length ps. \<exists>p \<in> proxy_window m k i. free p"
    and "\<forall>p \<in> set ps. CHR '':'' \<notin> set p" and "CHR '':'' \<notin> set host"
  shows "distinct (map (\<lambda>q. split_on (CHR '':'') q ! 1) (complete_proxies (proxy_ports free any m) host (Some k) ps))"
proof -
  let ?qs = "complete_proxies (proxy_ports free any m) host (Some k) ps"
  have port: "\<exists>p \<in> proxy_window m k i. split_on (CHR '':'') (?qs ! i) ! 1 = str_of_int p" if i: "i < length ps" for i
  proof -
    have "split_on (CHR '':'') (ps ! i) = [ps ! i]"
      using assms(2) i split_fields [of "[ps ! i]"] by simp
    then have "split_on (CHR '':'') (?qs ! i) ! 1 = proxy_ports free any m (ps ! i) (Some (k + 10 * int i))"
      using i assms(3)
      by (simp add: complete_proxies_nth complete_proxy_fields completed_fields_def proxy_ports_def port_text_chars)
    then show ?thesis
      using proxy_port [of m k i free any "ps ! i"] assms(1) i by auto
  qed
  have apart: "p \<noteq> q" if "p \<in> proxy_window m k i" "q \<in> proxy_window m k j" "i \<noteq> j" for p q i j
    using that by (auto simp: proxy_window_def)
  have "split_on (CHR '':'') (?qs ! i) ! 1 \<noteq> split_on (CHR '':'') (?qs ! j) ! 1"
    if "i < length ps" "j < length ps" "i \<noteq> j" for i j
    using port [OF that(1)] port [OF that(2)] apart [OF _ _ that(3)] by (metis str_of_int_inj)
  then show ?thesis
    by (auto simp: distinct_conv_nth length_complete_proxies)
qed

lemma proxy_ports_distinct_witness:
  "distinct (map (\<lambda>q. split_on (CHR '':'') q ! 1)
     (complete_proxies (proxy_ports (\<lambda>p. p mod 2 = 0) (\<lambda>_ _ lower. Some lower) ''IMS'') ''tg1'' (Some 11) [''tg1'', ''tg2'', ''tg1'']))"
proof (rule proxy_ports_distinct)
  have "\<exists>p \<in> proxy_window ''IMS'' 11 i. p mod 2 = 0" for i
    by (rule bexI [of _ "8012 + 10 * int i"]) (auto simp: proxy_window_def proxy_range_def)
  then show "\<forall>i < length [''tg1'', ''tg2'', ''tg1'']. \<exists>p \<in> proxy_window ''IMS'' 11 i. p mod 2 = 0"
    by blast
qed simp_all

section \<open>Their lines\<close>

text \<open>A proxy whose port is no number is not refused: its line carries the port of the proxy before it.
\<close>

theorem bad_port_inherits:
  assumes "\<forall>w \<in> {h1, h2, bad, ip1, ip2}. CHR '':'' \<notin> set w" and "py_int bad = Inl e"
  shows "proxies_cfg None None [join '':'' [h1, str_of_int a, str_of_int n, ip1], join '':'' [h2, bad, str_of_int m, ip2]] =
    Inr [''diaProxy:= '' @ quote h1 @ '':'' @ str_of_int a @ '':'' @ str_of_int n @ '':'' @ ip1,
         ''diaProxy:= '' @ quote h2 @ '':'' @ str_of_int a @ '':'' @ str_of_int m @ '':'' @ ip2]"
proof -
  have f: "split_on (CHR '':'') (join '':'' [h1, str_of_int a, str_of_int n, ip1]) = [h1, str_of_int a, str_of_int n, ip1]"
    "split_on (CHR '':'') (join '':'' [h2, bad, str_of_int m, ip2]) = [h2, bad, str_of_int m, ip2]"
    using assms(1) by (intro split_fields; simp add: str_of_int_chars)+
  show ?thesis
    by (simp add: f Let_def int_or_def assms(2) py_int_str py_nth_def bind_res_def del: join.simps split_on.simps)
qed

lemma bad_port_inherits_witness:
  "proxies_cfg None None [join '':'' [''tg1'', str_of_int 8000, str_of_int 1, []], join '':'' [''tg2'', ''x'', str_of_int 2, []]] =
    Inr [''diaProxy:= '' @ quote ''tg1'' @ '':'' @ str_of_int 8000 @ '':'' @ str_of_int 1 @ '':'' @ [],
         ''diaProxy:= '' @ quote ''tg2'' @ '':'' @ str_of_int 8000 @ '':'' @ str_of_int 2 @ '':'' @ []]"
  by (rule bad_port_inherits [where bad = "''x''" and e = "ValueError ''invalid literal for int() with base 10''"])
    (simp, code_simp)

end
