(* ===== verification/Channels.thy ===== *)
theory Channels
  imports Complex_Main Rtc_Prelude
begin

text \<open>
  Connections to a node: \<open>Endpoint\<close>, \<open>Channel\<close> and \<open>ChannelExtension\<close> of \<open>hss_utils/src/connection/__init__.py\<close> with
  the classes of \<open>ssh.py\<close> and the channel of \<open>telnet.py\<close>.

  What \<open>pexpect\<close> reports is a script, consumed by each call of \<open>expect\<close>: the pattern that matched, a
  time-out or the end of the output, with the text before it. A script that is used up times out.
\<close>

section \<open>Errors and endpoints\<close>

datatype conn_error =
    Connection_failed string
  | Connection_timeout
  | Failed_timeout
  | Failed_eof
  | Unauthorized "string option"
  | Enable_x11
  | No_key_file string
  | Conn_raised py_exc

type_synonym 'a conn = "conn_error + 'a"

text \<open>A port is given as a number or as a text.\<close>

datatype port = Port int | Port_text string

fun str_of_port :: "port \<Rightarrow> string" where
  "str_of_port (Port n) = str_of_int n"
| "str_of_port (Port_text w) = w"

record endpoint =
  ep_host :: string
  ep_port :: "port option"
  ep_user :: "string option"
  ep_password :: "string option"

text \<open>The configuration of an endpoint: a key may be missing, and all but the host may be \<open>None\<close>.\<close>

record ep_config =
  cf_host :: "string option"
  cf_port :: "port option option"
  cf_user :: "string option option"
  cf_password :: "string option option"

text \<open>\<open>port\<close> is the default of the class; \<open>me\<close> is what \<open>getpass.getuser()\<close> returns.\<close>

definition endpoint_new :: "port option \<Rightarrow> string \<Rightarrow> ep_config \<Rightarrow> endpoint conn" where
  "endpoint_new port me cf =
     (case cf_host cf of
        None \<Rightarrow> Inl (Conn_raised (ValueError ''host missing''))
      | Some h \<Rightarrow> Inr
          \<lparr>ep_host = h, ep_port = (case cf_port cf of None \<Rightarrow> port | Some p \<Rightarrow> p),
           ep_user = (case cf_user cf of None \<Rightarrow> Some me | Some u \<Rightarrow> u),
           ep_password = (case cf_password cf of None \<Rightarrow> None | Some w \<Rightarrow> w)\<rparr>)"

definition endpoint_dict :: "endpoint \<Rightarrow> ep_config" where
  "endpoint_dict e =
     \<lparr>cf_host = Some (ep_host e), cf_port = Some (ep_port e), cf_user = Some (ep_user e), cf_password = Some (ep_password e)\<rparr>"

definition SSH_DEFAULT_PORT :: port where "SSH_DEFAULT_PORT = Port 22"

definition TELNET_DEFAULT_PORT :: port where "TELNET_DEFAULT_PORT = Port 23"

section \<open>What the process prints\<close>

datatype hit = Hit nat | Timed_out | Ended

type_synonym script = "(hit \<times> string) list"

text \<open>The answer when \<open>n\<close> patterns are waited for.\<close>

fun next_hit :: "nat \<Rightarrow> script \<Rightarrow> (hit \<times> string) \<times> script" where
  "next_hit n [] = ((Timed_out, []), [])"
| "next_hit n ((h, b) # sc) =
     ((case h of Hit i \<Rightarrow> if i < n then Hit i else Timed_out | _ \<Rightarrow> h, b), sc)"

section \<open>Channels\<close>

text \<open>
  One record for the channels by \<open>ssh\<close> and by \<open>telnet\<close>. \<open>ch_proc\<close>: the process exists; \<open>ch_spawned\<close> and
  \<open>ch_sent\<close>: the processes started and the lines sent so far.
\<close>

record channel =
  ch_id :: string
  ch_ep :: endpoint
  ch_timeout :: rat
  ch_used :: bool
  ch_proc :: bool
  ch_flag :: bool
  ch_buffer :: string
  ch_x11 :: string
  ch_key :: string
  ch_subsystem :: string
  ch_script :: script
  ch_spawned :: "string list"
  ch_sent :: "string list"

definition channel_new :: "string \<Rightarrow> endpoint \<Rightarrow> rat \<Rightarrow> script \<Rightarrow> channel" where
  "channel_new i e t sc =
     \<lparr>ch_id = i, ch_ep = e, ch_timeout = t, ch_used = False, ch_proc = False, ch_flag = False, ch_buffer = [], ch_x11 = [],
      ch_key = [], ch_subsystem = [], ch_script = sc, ch_spawned = [], ch_sent = []\<rparr>"

definition ch_opened :: "channel \<Rightarrow> bool" where
  "ch_opened c \<longleftrightarrow> ch_proc c \<and> ch_flag c"

definition ch_lock :: "channel \<Rightarrow> unit conn \<times> channel" where
  "ch_lock c = (if ch_used c then (Inl (Connection_failed ''Already in used!''), c) else done_with (c\<lparr>ch_used := True\<rparr>))"

definition ch_release :: "channel \<Rightarrow> channel" where
  "ch_release c = c\<lparr>ch_used := False\<rparr>"

definition ch_say :: "string \<Rightarrow> channel \<Rightarrow> channel" where
  "ch_say w c = c\<lparr>ch_sent := ch_sent c @ [w]\<rparr>"

definition ch_spawn :: "string \<Rightarrow> channel \<Rightarrow> channel" where
  "ch_spawn cmd c = c\<lparr>ch_proc := True, ch_spawned := ch_spawned c @ [cmd]\<rparr>"

definition ch_drop :: "channel \<Rightarrow> channel" where
  "ch_drop c = c\<lparr>ch_proc := False\<rparr>"

definition ch_write :: "string \<Rightarrow> channel \<Rightarrow> unit conn \<times> channel" where
  "ch_write w c =
     (if \<not> ch_opened c then (Inl (Connection_failed ''Connection not opened''), c) else done_with (ch_say w c))"

text \<open>\<open>__ssh.expect\<close> or \<open>__telnet.expect\<close> inside the classes, for \<open>n\<close> patterns.\<close>

definition ch_wait :: "nat \<Rightarrow> channel \<Rightarrow> hit \<times> channel" where
  "ch_wait n c =
     (case next_hit n (ch_script c) of ((h, b), sc) \<Rightarrow> (h, c\<lparr>ch_script := sc\<rparr>))"

text \<open>\<open>expect\<close> of a channel, which keeps the text before the match. Its log message asks for the last match, which a channel
  that is not opened refuses.\<close>

definition ch_expect :: "nat \<Rightarrow> channel \<Rightarrow> hit conn \<times> channel" where
  "ch_expect n c =
     (if \<not> ch_proc c then (Inl (Conn_raised (AttributeError ''expect'')), c)
      else case next_hit n (ch_script c) of ((h, b), sc) \<Rightarrow>
        if \<not> ch_flag c then (Inl (Connection_failed ''Connection not opened''), c\<lparr>ch_script := sc\<rparr>)
        else (Inr h, c\<lparr>ch_script := sc, ch_buffer := b\<rparr>))"

section \<open>\<open>SSHChannel\<close>\<close>

definition int_of_port :: "endpoint \<Rightarrow> int conn" where
  "int_of_port e =
     (case ep_port e of
        None \<Rightarrow> Inl (Conn_raised (TypeError ''int() argument must be a string or a number''))
      | Some (Port n) \<Rightarrow> Inr n
      | Some (Port_text w) \<Rightarrow> (case py_int w of Inl x \<Rightarrow> Inl (Conn_raised x) | Inr n \<Rightarrow> Inr n))"

definition destination :: "endpoint \<Rightarrow> string" where
  "destination e = (case ep_user e of None \<Rightarrow> ep_host e | Some u \<Rightarrow> u @ ''@'' @ ep_host e)"

definition ssh_command :: "string \<Rightarrow> string \<Rightarrow> string \<Rightarrow> rat \<Rightarrow> int \<Rightarrow> endpoint \<Rightarrow> string" where
  "ssh_command ky x11 sub t p e =
     ''ssh -v'' @ ky @ x11 @ '' -o UserKnownHostsFile=/dev/null -o StrictHostKeyChecking=no -o ConnectTimeout='' @
     str_of_int \<lfloor>t\<rfloor> @ '' -o ServerAliveInterval=120 -p '' @ str_of_int p @ '' '' @ destination e @ sub"

text \<open>
  The loop of \<open>open\<close>. Its patterns by number: 0 a new key, 1 the password, 2 permission denied, 3 to 7 the
  connection cannot be made, 8 and 9 ready.
\<close>

definition cannot_open :: "nat \<Rightarrow> conn_error" where
  "cannot_open i = Connection_failed (''Cannot open channel. Init state: '' @ str_of_nat i)"

fun ssh_login :: "bool \<Rightarrow> script \<Rightarrow> channel \<Rightarrow> unit conn \<times> channel" where
  "ssh_login given_pw [] c = (Inl Connection_timeout, ch_drop (c\<lparr>ch_script := []\<rparr>))"
| "ssh_login given_pw ((h, b) # sc) c =
     (let fail = (\<lambda>e. (Inl e, ch_drop (c\<lparr>ch_script := sc\<rparr>)))
      in case h of
        Hit i \<Rightarrow>
          if i = 0 then ssh_login given_pw sc (ch_say ''yes'' c)
          else if i = 1 then
            (case ep_password (ch_ep c) of
               None \<Rightarrow> fail (Unauthorized (ep_user (ch_ep c)))
             | Some w \<Rightarrow> if given_pw then fail (Unauthorized (ep_user (ch_ep c))) else ssh_login True sc (ch_say w c))
          else if i = 2 then fail (Unauthorized (ep_user (ch_ep c)))
          else if i \<le> 7 then fail (cannot_open i)
          else if i \<le> 9 then done_with (c\<lparr>ch_script := sc, ch_flag := True\<rparr>)
          else fail Connection_timeout
      | Timed_out \<Rightarrow> fail Connection_timeout
      | Ended \<Rightarrow> fail (cannot_open 11))"

definition ssh_open :: "channel \<Rightarrow> unit conn \<times> channel" where
  "ssh_open c =
     (if ch_opened c then done_with c
      else case int_of_port (ch_ep c) of
        Inl e \<Rightarrow> (Inl e, c)
      | Inr p \<Rightarrow>
          let c1 = ch_spawn (ssh_command (ch_key c) (ch_x11 c) (ch_subsystem c) (ch_timeout c) p (ch_ep c)) c
          in ssh_login False (ch_script c1) c1)"

definition ssh_close :: "channel \<Rightarrow> channel" where
  "ssh_close c =
     (let c1 = ch_release c in if \<not> ch_opened c1 then c1 else c1\<lparr>ch_proc := False, ch_flag := False\<rparr>)"

definition enable_x11_forwarding :: "channel \<Rightarrow> unit conn \<times> channel" where
  "enable_x11_forwarding c = (if ch_opened c then (Inl Enable_x11, c) else done_with (c\<lparr>ch_x11 := '' -Y''\<rparr>))"

text \<open>\<open>isfile\<close>: \<open>os.path.isfile\<close>.\<close>

definition set_ssh_key :: "(string \<Rightarrow> bool) \<Rightarrow> string \<Rightarrow> channel \<Rightarrow> unit conn \<times> channel" where
  "set_ssh_key isfile k c = (if \<not> isfile k then (Inl (No_key_file k), c) else done_with (c\<lparr>ch_key := '' -i '' @ k\<rparr>))"

definition set_ssh_subsystem :: "string \<Rightarrow> channel \<Rightarrow> channel" where
  "set_ssh_subsystem w c = c\<lparr>ch_subsystem := '' -s '' @ w\<rparr>"

text \<open>A clone has a process of its own: \<open>sc\<close> is what it prints, \<open>i\<close> the new identifier.\<close>

definition ssh_clone :: "(string \<Rightarrow> bool) \<Rightarrow> string \<Rightarrow> script \<Rightarrow> channel \<Rightarrow> unit conn \<times> channel" where
  "ssh_clone isfile i sc c =
     (let d = channel_new i (ch_ep c) (ch_timeout c) sc
      in andthen (if ch_x11 c = '' -Y'' then enable_x11_forwarding d else done_with d) (\<lambda>_ d.
         andthen (if ch_key c \<noteq> [] then set_ssh_key isfile (ch_key c) d else done_with d) (\<lambda>_ d.
         let d1 = (if ch_subsystem c \<noteq> [] then set_ssh_subsystem (ch_subsystem c) d else d)
         in if ch_opened c then ssh_open d1 else done_with d1)))"

section \<open>Copies of files\<close>

text \<open>
  The loop of \<open>_scp_\<close>. Patterns by number: 0 a new key, 1 the password, 2 a changed key. The result comes with
  the lines sent; \<open>tries\<close> counts the passwords.
\<close>

fun scp_loop :: "string \<Rightarrow> string option \<Rightarrow> script \<Rightarrow> nat \<Rightarrow> string list \<Rightarrow> bool conn \<times> string list" where
  "scp_loop host pw [] tries sent = (Inl Connection_timeout, sent)"
| "scp_loop host pw ((h, before) # sc) tries sent =
     (let go = (\<lambda>tries sent. if tries > 3 then (Inl (Connection_failed (''Unknown response from '' @ host)), sent)
            else scp_loop host pw sc tries sent)
      in case h of
        Timed_out \<Rightarrow> (Inl Connection_timeout, sent)
      | Hit i \<Rightarrow>
          if i = 0 then go tries (sent @ [''yes''])
          else if i = 1 then
            (case pw of
               None \<Rightarrow> (Inl (Connection_failed (''Password needed to connect to '' @ host)), sent)
             | Some w \<Rightarrow> go (tries + 1) (sent @ [w]))
          else if i = 2 then (Inl (Connection_failed (''Invalid entry for '' @ host @ '' in known_host'')), sent)
          else (Inl Connection_timeout, sent)
      | Ended \<Rightarrow>
          if contains ''Permission denied'' before \<or> contains ''lost connection'' before
          then (Inl (Connection_failed (''Cannot connect to '' @ host)), sent)
          else if contains ''o such file'' before then (Inl (Conn_raised (IOError ''File not found'')), sent)
          else if contains ''100%'' before then (Inr True, sent)
          else (Inl (Connection_failed (''Unknown scp output: '' @ [CHR 0x0A] @ before)), sent))"

definition scp_options :: string where
  "scp_options = ''-o UserKnownHostsFile=/dev/null -o StrictHostKeyChecking=no''"

definition none_text :: "string option \<Rightarrow> string" where
  "none_text v = (case v of Some w \<Rightarrow> w | None \<Rightarrow> ''None'')"

definition port_of_endpoint :: "endpoint \<Rightarrow> string" where
  "port_of_endpoint e = (case ep_port e of Some p \<Rightarrow> str_of_port p | None \<Rightarrow> ''None'')"

definition upload_command :: "string \<Rightarrow> string \<Rightarrow> channel \<Rightarrow> string" where
  "upload_command src dst c =
     ''scp '' @ scp_options @ ch_key c @ '' -p -P '' @ port_of_endpoint (ch_ep c) @ '' '' @ src @ '' '' @
     none_text (ep_user (ch_ep c)) @ ''@'' @ ep_host (ch_ep c) @ '':'' @ dst"

definition download_command :: "string \<Rightarrow> string \<Rightarrow> channel \<Rightarrow> string" where
  "download_command src dst c =
     ''scp '' @ scp_options @ ch_key c @ '' -p -P '' @ port_of_endpoint (ch_ep c) @ '' '' @
     none_text (ep_user (ch_ep c)) @ ''@'' @ ep_host (ch_ep c) @ '':'' @ src @ '' '' @ dst"

text \<open>\<open>sc\<close>: what the process of the copy prints.\<close>

definition scp :: "script \<Rightarrow> channel \<Rightarrow> bool conn \<times> string list" where
  "scp sc c = scp_loop (ep_host (ch_ep c)) (ep_password (ch_ep c)) sc 0 []"

section \<open>\<open>SSHChannelExtension\<close>\<close>

text \<open>
  An extension logs in to another host over the process of its channel, which it locks for good. Its
  property \<open>ready\<close> compares a truth value with \<open>None\<close>, so it always holds.
\<close>

record extension =
  xt_id :: string
  xt_sub :: channel
  xt_ep :: endpoint
  xt_used :: bool
  xt_flag :: bool
  xt_buffer :: string
  xt_echo :: bool
  xt_x11 :: string
  xt_key :: string

definition ext_new :: "string \<Rightarrow> endpoint \<Rightarrow> channel \<Rightarrow> conn_error + extension" where
  "ext_new i e c =
     (case ch_lock c of
        (Inl err, _) \<Rightarrow> Inl err
      | (Inr _, c1) \<Rightarrow> Inr \<lparr>xt_id = i, xt_sub = c1, xt_ep = e, xt_used = False, xt_flag = False, xt_buffer = [],
          xt_echo = False, xt_x11 = ch_x11 c, xt_key = ch_key c\<rparr>)"

definition on_sub :: "(channel \<Rightarrow> ('e + 'a) \<times> channel) \<Rightarrow> extension \<Rightarrow> ('e + 'a) \<times> extension" where
  "on_sub f x = (case f (xt_sub x) of (r, c) \<Rightarrow> (r, x\<lparr>xt_sub := c\<rparr>))"

fun ext_login :: "script \<Rightarrow> extension \<Rightarrow> unit conn \<times> extension" where
  "ext_login [] x = (Inl Connection_timeout, x\<lparr>xt_sub := ssh_close ((xt_sub x)\<lparr>ch_script := [], ch_buffer := []\<rparr>)\<rparr>)"
| "ext_login ((h, b) # sc) x =
     (let c = (xt_sub x)\<lparr>ch_script := sc, ch_buffer := b\<rparr>;
          fail = (\<lambda>e. (Inl e, x\<lparr>xt_sub := ssh_close c\<rparr>))
      in case h of
        Hit i \<Rightarrow>
          if i = 0 then ext_login sc (x\<lparr>xt_sub := ch_say ''yes'' c\<rparr>)
          else if i = 1 then
            (case ep_password (xt_ep x) of
               None \<Rightarrow> fail (Connection_failed ''Password is requested'')
             | Some w \<Rightarrow> ext_login sc (x\<lparr>xt_sub := ch_say w c\<rparr>))
          else if i = 2 then
            (if contains ''key_load'' b then ext_login sc (x\<lparr>xt_sub := c\<rparr>) else fail (Unauthorized (ep_user (xt_ep x))))
          else if i \<le> 7 then fail (cannot_open i)
          else if i \<le> 9 then done_with (x\<lparr>xt_sub := c, xt_flag := True\<rparr>)
          else fail Connection_timeout
      | Timed_out \<Rightarrow> fail Connection_timeout
      | Ended \<Rightarrow> fail (cannot_open 11))"

definition ext_open :: "extension \<Rightarrow> unit conn \<times> extension" where
  "ext_open x =
     (if xt_flag x then done_with x
      else andthen (if ch_opened (xt_sub x) then done_with x else on_sub ssh_open x) (\<lambda>_ x.
        case int_of_port (xt_ep x) of
          Inl e \<Rightarrow> (Inl e, x)
        | Inr p \<Rightarrow>
            andthen (on_sub (ch_write (ssh_command (xt_key x) (xt_x11 x) [] (ch_timeout (xt_sub x)) p (xt_ep x))) x) (\<lambda>_ x.
              ext_login (ch_script (xt_sub x)) x)))"

definition ext_close :: "extension \<Rightarrow> extension" where
  "ext_close x =
     (let x1 = x\<lparr>xt_used := False\<rparr>
      in if \<not> xt_flag x1 then x1 else x1\<lparr>xt_sub := ssh_close (xt_sub x1), xt_flag := False\<rparr>)"

definition ext_expect :: "nat \<Rightarrow> extension \<Rightarrow> hit conn \<times> extension" where
  "ext_expect n x =
     andthen (on_sub (ch_expect n) x) (\<lambda>h x. (Inr h, x\<lparr>xt_buffer := ch_buffer (xt_sub x)\<rparr>))"

definition ext_write :: "string \<Rightarrow> extension \<Rightarrow> unit conn \<times> extension" where
  "ext_write w x =
     (if \<not> xt_flag x then (Inl (Connection_failed ''Connection not opened''), x)
      else andthen (on_sub (ch_write w) x) (\<lambda>_ x.
        if xt_echo x then andthen (ext_expect 1 x) (\<lambda>_ x. done_with x) else done_with x))"

definition ext_lock :: "extension \<Rightarrow> unit conn \<times> extension" where
  "ext_lock x = (if xt_used x then (Inl (Connection_failed ''Already in used!''), x) else done_with (x\<lparr>xt_used := True\<rparr>))"

definition ext_enable_x11 :: "extension \<Rightarrow> unit conn \<times> extension" where
  "ext_enable_x11 x = (if xt_flag x then (Inl Enable_x11, x) else done_with (x\<lparr>xt_x11 := '' -Y''\<rparr>))"

text \<open>\<open>i\<close> and \<open>j\<close>: the new identifiers of the channel and of the extension.\<close>

definition ext_clone :: "(string \<Rightarrow> bool) \<Rightarrow> string \<Rightarrow> string \<Rightarrow> script \<Rightarrow> extension \<Rightarrow> conn_error + extension" where
  "ext_clone isfile i j sc x =
     (case ssh_clone isfile i sc (xt_sub x) of
        (Inl e, _) \<Rightarrow> Inl e
      | (Inr _, c) \<Rightarrow>
          (case ext_new j (xt_ep x) c of
             Inl e \<Rightarrow> Inl e
           | Inr y \<Rightarrow>
               (case andthen (if xt_x11 x = '' -Y'' then ext_enable_x11 y else done_with y) (\<lambda>_ y.
                    if xt_flag x then ext_open y else done_with y) of
                  (Inl e, _) \<Rightarrow> Inl e
                | (Inr _, y) \<Rightarrow> Inr y)))"

text \<open>How many matches are left.\<close>

definition script_left :: "channel \<Rightarrow> nat" where
  "script_left c = length (ch_script c)"

definition ext_left :: "extension \<Rightarrow> nat" where
  "ext_left x = script_left (xt_sub x)"

section \<open>\<open>TelnetChannel\<close>\<close>

definition hit_index :: "nat \<Rightarrow> hit \<Rightarrow> nat" where
  "hit_index n h = (case h of Hit i \<Rightarrow> i | Timed_out \<Rightarrow> n | Ended \<Rightarrow> n + 1)"

definition telnet_open :: "channel \<Rightarrow> unit conn \<times> channel" where
  "telnet_open c =
     (if ch_opened c then done_with c
      else case ch_wait 1 (ch_spawn ''telnet'' c) of (h, c1) \<Rightarrow>
        if h \<noteq> Hit 0
        then (Inl (Connection_failed (''Cannot spawn telnet. State: '' @ str_of_nat (hit_index 1 h))), ch_drop c1)
        else
          (let e = ch_ep c1;
               user = (case ep_user e of None \<Rightarrow> [] | Some u \<Rightarrow> ''-l '' @ u @ '' '')
           in case ch_wait 1 (ch_say (''open '' @ user @ ep_host e @ '' '' @ port_of_endpoint e) c1) of (h, c2) \<Rightarrow>
             if h \<noteq> Hit 0
             then (Inl (Connection_failed ''Cannot open telnet connection''), ch_drop (ch_say ''quit'' c2))
             else done_with (c2\<lparr>ch_flag := True\<rparr>)))"

definition telnet_close :: "channel \<Rightarrow> channel" where
  "telnet_close c =
     (let c1 = ch_release c
      in if \<not> ch_opened c1 then c1
         else (ch_say ''quit'' (ch_say ''^]'' c1))\<lparr>ch_proc := False, ch_flag := False\<rparr>)"

text \<open>\<open>expect\<close> of this class has no argument for a time-out; \<open>timed\<close>: the call passes one.\<close>

definition telnet_expect :: "bool \<Rightarrow> nat \<Rightarrow> channel \<Rightarrow> hit conn \<times> channel" where
  "telnet_expect timed n c =
     (if timed then (Inl (Conn_raised (TypeError ''expect() got an unexpected argument timeout'')), c) else ch_expect n c)"

definition telnet_clone :: "string \<Rightarrow> script \<Rightarrow> channel \<Rightarrow> unit conn \<times> channel" where
  "telnet_clone i sc c =
     (let d = channel_new i (ch_ep c) (ch_timeout c) sc in if ch_opened c then telnet_open d else done_with d)"

section \<open>Channels to consoles\<close>

text \<open>\<open>TTCN_TelnetChannel\<close> and \<open>CBA_console_TelnetChannel\<close>: \<open>telnet\<close> is started with the address.\<close>

definition telnet_command :: "endpoint \<Rightarrow> string" where
  "telnet_command e = ''telnet '' @ ep_host e @ '' '' @ port_of_endpoint e"

definition ttcn_open :: "channel \<Rightarrow> unit conn \<times> channel" where
  "ttcn_open c =
     (if ch_opened c then done_with c
      else case ch_wait 1 (ch_spawn (telnet_command (ch_ep c)) c) of (h, c1) \<Rightarrow>
        if h \<noteq> Hit 0 then (Inl (Connection_failed ''Cannot open telnet connection''), ch_drop (ch_say ''quit'' c1))
        else done_with (c1\<lparr>ch_flag := True\<rparr>))"

definition ttcn_close :: "channel \<Rightarrow> channel" where
  "ttcn_close c =
     (let c1 = ch_release c
      in if \<not> ch_opened c1 then c1 else (ch_say ''quit'' c1)\<lparr>ch_proc := False, ch_flag := False\<rparr>)"

text \<open>\<open>expect\<close> of both classes: \<open>n\<close> patterns of the caller and that of the prompt.\<close>

definition console_expect :: "nat \<Rightarrow> channel \<Rightarrow> hit conn \<times> channel" where
  "console_expect n c =
     (if \<not> ch_proc c then (Inl (Conn_raised (AttributeError ''expect'')), c)
      else case next_hit (n + 1) (ch_script c) of ((h, b), sc) \<Rightarrow> (Inr h, c\<lparr>ch_script := sc, ch_buffer := b\<rparr>))"

definition console_open :: "channel \<Rightarrow> unit conn \<times> channel" where
  "console_open c =
     (if ch_opened c then done_with c
      else case ch_wait 2 (ch_spawn (telnet_command (ch_ep c)) c) of (h, c1) \<Rightarrow>
        if h \<noteq> Hit 0 then (Inl (Connection_failed ''Cannot open telnet connection''), ch_drop c1)
        else done_with (c1\<lparr>ch_flag := True\<rparr>))"

text \<open>When the console does not answer, the process is gone before the last line is sent to it.\<close>

definition console_close :: "channel \<Rightarrow> unit conn \<times> channel" where
  "console_close c =
     (let c1 = ch_release c
      in if \<not> ch_opened c1 then done_with c1
         else case ch_wait 1 (ch_say ''^Z'' c1) of (h, c2) \<Rightarrow>
           if h \<noteq> Hit 0 then (Inl (Conn_raised (AttributeError ''sendline'')), ch_drop c2)
           else done_with ((ch_say ''x'' c2)\<lparr>ch_proc := False, ch_flag := False\<rparr>))"

end
