(* ===== verification/Sessions.thy ===== *)
theory Sessions
  imports Channels
begin

text \<open>
  Sessions over a channel: \<open>Session\<close> of \<open>hss_utils/src/connection/__init__.py\<close> and the ten classes of \<open>session.py\<close>.

  A session works on a channel of any class, the record of whose operations is \<open>channel_class\<close>; the classes of
  \<open>Channels\<close> are three values of it. The texts of prompts are not part of the scripts of a channel, which give the number
  of the pattern that matches.
\<close>

section \<open>Classes of channels\<close>

text \<open>
  \<open>cc_expect\<close> gets whether the call passes a time-out. \<open>cc_subsystem\<close> assigns the attribute \<open>ssh_subsystem\<close>, which
  only the channel by \<open>ssh\<close> uses.
\<close>

record 'c channel_class =
  cc_id :: "'c \<Rightarrow> string"
  cc_endpoint :: "'c \<Rightarrow> endpoint"
  cc_opened :: "'c \<Rightarrow> bool"
  cc_used :: "'c \<Rightarrow> bool"
  cc_lock :: "'c \<Rightarrow> unit conn \<times> 'c"
  cc_release :: "'c \<Rightarrow> 'c"
  cc_open :: "'c \<Rightarrow> unit conn \<times> 'c"
  cc_close :: "'c \<Rightarrow> 'c"
  cc_write :: "string \<Rightarrow> 'c \<Rightarrow> unit conn \<times> 'c"
  cc_expect :: "bool \<Rightarrow> nat \<Rightarrow> 'c \<Rightarrow> hit conn \<times> 'c"
  cc_stdout :: "'c \<Rightarrow> string"
  cc_subsystem :: "string \<Rightarrow> 'c \<Rightarrow> 'c"

definition ssh_class :: "channel channel_class" where
  "ssh_class =
     \<lparr>cc_id = ch_id, cc_endpoint = ch_ep, cc_opened = ch_opened, cc_used = ch_used, cc_lock = ch_lock, cc_release = ch_release,
      cc_open = ssh_open, cc_close = ssh_close, cc_write = ch_write, cc_expect = (\<lambda>timed. ch_expect), cc_stdout = ch_buffer,
      cc_subsystem = set_ssh_subsystem\<rparr>"

definition ext_class :: "extension channel_class" where
  "ext_class =
     \<lparr>cc_id = xt_id, cc_endpoint = xt_ep, cc_opened = xt_flag, cc_used = xt_used, cc_lock = ext_lock,
      cc_release = (\<lambda>x. x\<lparr>xt_used := False\<rparr>), cc_open = ext_open, cc_close = ext_close, cc_write = ext_write,
      cc_expect = (\<lambda>timed. ext_expect), cc_stdout = xt_buffer, cc_subsystem = (\<lambda>w x. x)\<rparr>"

definition telnet_class :: "channel channel_class" where
  "telnet_class =
     \<lparr>cc_id = ch_id, cc_endpoint = ch_ep, cc_opened = ch_opened, cc_used = ch_used, cc_lock = ch_lock, cc_release = ch_release,
      cc_open = telnet_open, cc_close = telnet_close, cc_write = ch_write, cc_expect = telnet_expect, cc_stdout = ch_buffer,
      cc_subsystem = (\<lambda>w c. c)\<rparr>"

section \<open>Sessions\<close>

datatype session_kind =
    StandardLinux | HardenedLinux | EprtSetup | NetconfCBA | SignManCLI | CBACliss | CBASignmcli | CBANBICliss
  | TelorbCLI | JambalaCLI

text \<open>What some classes keep besides: the password of root, user and password, host and port of the command line, and the prompt
  of \<open>JambalaCLI\<close> (that of \<open>TelorbCLI\<close> is a pattern that is waited for only).\<close>

record session_config =
  sc_root_password :: string
  sc_user :: string
  sc_password :: string
  sc_CLI_host :: "string option"
  sc_CLI_port :: "string option"
  sc_sync :: string

record 'c session =
  se_channel :: 'c
  se_kind :: session_kind
  se_config :: session_config
  se_autoclose :: bool
  se_ready :: bool
  se_echo :: bool

definition default_config :: session_config where
  "default_config =
     \<lparr>sc_root_password = ''rootroot'', sc_user = ''telorb'', sc_password = ''telorb'', sc_CLI_host = None, sc_CLI_port = None,
      sc_sync = ''.*>''\<rparr>"

definition session_new :: "'c channel_class \<Rightarrow> session_kind \<Rightarrow> 'c \<Rightarrow> conn_error + 'c session" where
  "session_new ops k c =
     (case cc_lock ops c of
        (Inl e, _) \<Rightarrow> Inl e
      | (Inr _, d) \<Rightarrow> Inr
          \<lparr>se_channel = (if k = NetconfCBA then cc_subsystem ops ''netconf'' d else d), se_kind = k, se_config = default_config,
           se_autoclose = False, se_ready = False, se_echo = False\<rparr>)"

definition set_root_passw :: "string \<Rightarrow> 'c session \<Rightarrow> 'c session" where
  "set_root_passw w s = s\<lparr>se_config := (se_config s)\<lparr>sc_root_password := w\<rparr>\<rparr>"

definition set_CLI_server :: "string \<Rightarrow> string \<Rightarrow> 'c session \<Rightarrow> 'c session" where
  "set_CLI_server h p s = s\<lparr>se_config := (se_config s)\<lparr>sc_CLI_host := Some h, sc_CLI_port := Some p\<rparr>\<rparr>"

definition set_sync_expression :: "string \<Rightarrow> 'c session \<Rightarrow> 'c session" where
  "set_sync_expression p s = s\<lparr>se_config := (se_config s)\<lparr>sc_sync := p\<rparr>\<rparr>"

text \<open>\<open>SignManCLI\<close> with a user and a password.\<close>

definition signman_new :: "'c channel_class \<Rightarrow> string \<Rightarrow> string \<Rightarrow> 'c \<Rightarrow> conn_error + 'c session" where
  "signman_new ops user pw c =
     (case session_new ops SignManCLI c of
        Inl e \<Rightarrow> Inl e
      | Inr s \<Rightarrow> Inr (s\<lparr>se_config := (se_config s)\<lparr>sc_user := user, sc_password := pw\<rparr>\<rparr>))"

definition on_channel :: "('c \<Rightarrow> ('e + 'a) \<times> 'c) \<Rightarrow> 'c session \<Rightarrow> ('e + 'a) \<times> 'c session" where
  "on_channel f s = (case f (se_channel s) of (r, c) \<Rightarrow> (r, s\<lparr>se_channel := c\<rparr>))"

definition say_line :: "'c channel_class \<Rightarrow> string \<Rightarrow> 'c session \<Rightarrow> unit conn \<times> 'c session" where
  "say_line ops w = on_channel (cc_write ops w)"

definition wait_match :: "'c channel_class \<Rightarrow> bool \<Rightarrow> nat \<Rightarrow> 'c session \<Rightarrow> hit conn \<times> 'c session" where
  "wait_match ops timed n = on_channel (cc_expect ops timed n)"

text \<open>The first pattern has to match.\<close>

definition not_opened :: conn_error where
  "not_opened = Connection_failed ''Connection not opened''"

definition must_match :: "'c channel_class \<Rightarrow> bool \<Rightarrow> nat \<Rightarrow> conn_error \<Rightarrow> 'c session \<Rightarrow> unit conn \<times> 'c session" where
  "must_match ops timed n e s = andthen (wait_match ops timed n s) (\<lambda>h s. if h = Hit 0 then done_with s else (Inl e, s))"

definition set_ready :: "'c session \<Rightarrow> unit conn \<times> 'c session" where
  "set_ready s = done_with (s\<lparr>se_ready := True\<rparr>)"

definition ensure_open :: "'c channel_class \<Rightarrow> 'c session \<Rightarrow> unit conn \<times> 'c session" where
  "ensure_open ops s =
     (if cc_opened ops (se_channel s) then done_with s
      else andthen (on_channel (cc_open ops) s) (\<lambda>_ s. done_with (s\<lparr>se_autoclose := True\<rparr>)))"

text \<open>\<open>echo_removal\<close> is set when the line that was written comes back.\<close>

definition look_for_echo :: "'c channel_class \<Rightarrow> 'c session \<Rightarrow> unit conn \<times> 'c session" where
  "look_for_echo ops s = andthen (wait_match ops True 1 s) (\<lambda>h s. done_with (s\<lparr>se_echo := (h = Hit 0)\<rparr>))"

section \<open>Opening\<close>

text \<open>\<open>p\<close>: the prompt.\<close>

definition set_prompt :: "string \<Rightarrow> string" where
  "set_prompt p = ''export PS1='' @ quote p @ '' ;  set prompt='' @ quote p"

definition sync_prompt :: "'c channel_class \<Rightarrow> 'c session \<Rightarrow> string" where
  "sync_prompt ops s = cc_id ops (se_channel s) @ ''>''"

definition prompt_stage :: "'c channel_class \<Rightarrow> string \<Rightarrow> 'c session \<Rightarrow> unit conn \<times> 'c session" where
  "prompt_stage ops p s =
     andthen (say_line ops ''stty -echo'' s) (\<lambda>_ s.
     andthen (say_line ops (set_prompt p) s) (\<lambda>_ s.
     andthen (look_for_echo ops s) (\<lambda>_ s.
       must_match ops False 1 not_opened s)))"

definition open_standard :: "'c channel_class \<Rightarrow> 'c session \<Rightarrow> unit conn \<times> 'c session" where
  "open_standard ops s =
     andthen (ensure_open ops s) (\<lambda>_ s. andthen (prompt_stage ops (sync_prompt ops s) s) (\<lambda>_. set_ready))"

definition open_hardened :: "'c channel_class \<Rightarrow> 'c session \<Rightarrow> unit conn \<times> 'c session" where
  "open_hardened ops s =
     andthen (ensure_open ops s) (\<lambda>_ s.
     andthen (prompt_stage ops (sync_prompt ops s) s) (\<lambda>_ s.
     andthen (say_line ops ''su -'' s) (\<lambda>_ s.
     andthen (look_for_echo ops s) (\<lambda>_ s.
     andthen (must_match ops False 1 not_opened s) (\<lambda>_ s.
     andthen (say_line ops (sc_root_password (se_config s)) s) (\<lambda>_ s.
     andthen (prompt_stage ops (sync_prompt ops s) s) (\<lambda>_. set_ready)))))))"

definition open_eprt :: "'c channel_class \<Rightarrow> 'c session \<Rightarrow> unit conn \<times> 'c session" where
  "open_eprt ops s =
     andthen (open_standard ops s) (\<lambda>_ s.
     andthen (say_line ops ''eprtsetup'' s) (\<lambda>_ s.
     andthen (must_match ops False 1 not_opened s) (\<lambda>_ s.
     andthen (say_line ops (''export PS1='' @ quote (sync_prompt ops s)) s) (\<lambda>_ s.
       must_match ops False 1 not_opened s))))"

definition hello_message :: string where
  "hello_message = join [CHR 0x0A]
     [''<?xml version='' @ quote ''1.0'' @ '' encoding='' @ quote ''UTF-8'' @ '' standalone='' @ quote ''yes'' @ ''?>'',
      ''<hello xmlns='' @ quote ''urn:ietf:params:xml:ns:netconf:base:1.0'' @ ''>'', ''<capabilities>'',
      ''<capability>urn:ietf:params:netconf:base:1.0</capability>'', ''</capabilities>'', ''</hello>]]>]]>'', []]"

definition close_message :: string where
  "close_message = join [CHR 0x0A]
     [''<?xml version='' @ quote ''1.0'' @ '' encoding='' @ quote ''UTF-8'' @ '' standalone='' @ quote ''yes'' @ ''?>'',
      ''<rpc message-id='' @ quote ''1'' @ '' xmlns='' @ quote ''urn:ietf:params:xml:ns:netconf:base:1.0'' @ ''>'',
      ''<close-session/>'', ''</rpc>'', '']]>]]>'', []]"

definition open_netconf :: "'c channel_class \<Rightarrow> 'c session \<Rightarrow> unit conn \<times> 'c session" where
  "open_netconf ops s =
     andthen (ensure_open ops s) (\<lambda>_ s.
     andthen (must_match ops False 1 not_opened s) (\<lambda>_ s.
     andthen (say_line ops hello_message s) (\<lambda>_. set_ready)))"

text \<open>No password prompt: the method returns without an error and without a session.\<close>

definition open_signman :: "'c channel_class \<Rightarrow> 'c session \<Rightarrow> unit conn \<times> 'c session" where
  "open_signman ops s =
     andthen (ensure_open ops s) (\<lambda>_ s.
     andthen (say_line ops ''/opt/SignallingManager/bin/signmcli'' s) (\<lambda>_ s.
     andthen (must_match ops False 1 (Connection_failed (''Cannot open '' @ quote ''signmcli'')) s) (\<lambda>_ s.
     andthen (say_line ops (sc_user (se_config s)) s) (\<lambda>_ s.
     andthen (wait_match ops False 1 s) (\<lambda>h s.
       if h \<noteq> Hit 0 then done_with s
       else andthen (say_line ops (sc_password (se_config s)) s) (\<lambda>_ s.
         andthen (wait_match ops False 2 s) (\<lambda>h s.
         andthen (if h = Hit 1
                  then andthen (say_line ops ''yes'' s) (\<lambda>_ s. andthen (wait_match ops False 1 s) (\<lambda>_. done_with))
                  else done_with s) (\<lambda>_ s.
         andthen (wait_match ops False 1 s) (\<lambda>h s. if h = Hit 0 then set_ready s else done_with s)))))))))"

definition open_cliss :: "'c channel_class \<Rightarrow> 'c session \<Rightarrow> unit conn \<times> 'c session" where
  "open_cliss ops s =
     andthen (ensure_open ops s) (\<lambda>_ s.
     andthen (say_line ops ''stty -echo'' s) (\<lambda>_ s.
     andthen (if ep_port (cc_endpoint ops (se_channel s)) \<noteq> Some (Port 122)
              then andthen (say_line ops ''/opt/com/bin/cliss'' s) (\<lambda>_. must_match ops True 2 not_opened)
              else done_with s) (\<lambda>_ s.
     andthen (say_line ops ''prompt CBACliss'' s) (\<lambda>_ s.
     andthen (must_match ops False 1 not_opened s) (\<lambda>_. set_ready)))))"

text \<open>The questions are answered as long as they come: \<open>n\<close> turns of the loop; \<open>Inr False\<close>: it goes on.\<close>

fun signmcli_questions :: "'c channel_class \<Rightarrow> nat \<Rightarrow> 'c session \<Rightarrow> bool conn \<times> 'c session" where
  "signmcli_questions ops 0 s = (Inr False, s)"
| "signmcli_questions ops (Suc n) s =
     andthen (wait_match ops False 2 s) (\<lambda>h s.
       case h of
         Hit 0 \<Rightarrow> (Inr True, s)
       | Hit (Suc 0) \<Rightarrow> andthen (say_line ops ''no'' s) (\<lambda>_. signmcli_questions ops n)
       | _ \<Rightarrow> (Inl not_opened, s))"

definition open_cba_signmcli :: "nat \<Rightarrow> 'c channel_class \<Rightarrow> 'c session \<Rightarrow> bool conn \<times> 'c session" where
  "open_cba_signmcli fuel ops s =
     andthen (ensure_open ops s) (\<lambda>_ s.
     andthen (say_line ops ''stty -echo'' s) (\<lambda>_ s.
     andthen (say_line ops ''/opt/sign/bin/ss7caf-sm-cli'' s) (\<lambda>_ s.
     andthen (signmcli_questions ops fuel s) (\<lambda>through s.
       if \<not> through then (Inr False, s)
       else andthen (say_line ops [] s) (\<lambda>_ s.
         andthen (wait_match ops False 1 s) (\<lambda>_ s.
         andthen (set_ready s) (\<lambda>_ s. (Inr True, s))))))))"

definition open_nbi :: "'c channel_class \<Rightarrow> 'c session \<Rightarrow> unit conn \<times> 'c session" where
  "open_nbi ops s =
     andthen (ensure_open ops s) (\<lambda>_ s.
     andthen (say_line ops (''prompt '' @ quote []) s) (\<lambda>_ s.
     andthen (look_for_echo ops s) (\<lambda>_ s.
     andthen (must_match ops False 1 not_opened s) (\<lambda>_. set_ready))))"

definition open_telorb :: "'c channel_class \<Rightarrow> 'c session \<Rightarrow> unit conn \<times> 'c session" where
  "open_telorb ops s =
     andthen (ensure_open ops s) (\<lambda>_ s.
     let s = s\<lparr>se_echo := True\<rparr>
     in andthen (say_line ops (''telnet '' @ none_text (sc_CLI_host (se_config s)) @ '' '' @ none_text (sc_CLI_port (se_config s))) s) (\<lambda>_ s.
        andthen (must_match ops False 1 not_opened s) (\<lambda>_. set_ready)))"

definition open_jambala :: "'c channel_class \<Rightarrow> 'c session \<Rightarrow> unit conn \<times> 'c session" where
  "open_jambala ops s =
     andthen (ensure_open ops s) (\<lambda>_ s. andthen (prompt_stage ops (sc_sync (se_config s)) s) (\<lambda>_. set_ready))"

definition returned :: "unit conn \<times> 's \<Rightarrow> bool conn \<times> 's" where
  "returned p = andthen p (\<lambda>_ s. (Inr True, s))"

text \<open>\<open>Inr True\<close>: \<open>open\<close> has returned. \<open>fuel\<close> counts for \<open>CBASignmcli\<close> only.\<close>

definition session_open :: "nat \<Rightarrow> 'c channel_class \<Rightarrow> 'c session \<Rightarrow> bool conn \<times> 'c session" where
  "session_open fuel ops s =
     (case se_kind s of
        StandardLinux \<Rightarrow> returned (open_standard ops s)
      | HardenedLinux \<Rightarrow> returned (open_hardened ops s)
      | EprtSetup \<Rightarrow> returned (open_eprt ops s)
      | NetconfCBA \<Rightarrow> returned (open_netconf ops s)
      | SignManCLI \<Rightarrow> returned (open_signman ops s)
      | CBACliss \<Rightarrow> returned (open_cliss ops s)
      | CBASignmcli \<Rightarrow> open_cba_signmcli fuel ops s
      | CBANBICliss \<Rightarrow> returned (open_nbi ops s)
      | TelorbCLI \<Rightarrow> returned (open_telorb ops s)
      | JambalaCLI \<Rightarrow> returned (open_jambala ops s))"

section \<open>Closing\<close>

text \<open>The lock goes first; a session that is not ready is left at that. \<open>bye\<close>: what the class sends.\<close>

definition close_with ::
  "'c channel_class \<Rightarrow> ('c session \<Rightarrow> unit conn \<times> 'c session) \<Rightarrow> 'c session \<Rightarrow> unit conn \<times> 'c session" where
  "close_with ops bye s =
     (let s = s\<lparr>se_channel := cc_release ops (se_channel s)\<rparr>
      in if \<not> se_ready s then done_with s
         else andthen (bye s) (\<lambda>_ s.
           done_with ((if se_autoclose s then s\<lparr>se_channel := cc_close ops (se_channel s)\<rparr> else s)
             \<lparr>se_autoclose := False, se_ready := False\<rparr>)))"

definition close_standard :: "'c channel_class \<Rightarrow> 'c session \<Rightarrow> unit conn \<times> 'c session" where
  "close_standard ops = close_with ops (say_line ops ''exit'')"

definition close_hardened :: "'c channel_class \<Rightarrow> 'c session \<Rightarrow> unit conn \<times> 'c session" where
  "close_hardened ops = close_with ops (\<lambda>s. andthen (say_line ops ''exit'' s) (\<lambda>_. say_line ops ''exit''))"

definition close_eprt :: "'c channel_class \<Rightarrow> 'c session \<Rightarrow> unit conn \<times> 'c session" where
  "close_eprt ops s = andthen (say_line ops ''exit'' s) (\<lambda>_. close_standard ops)"

definition close_netconf :: "'c channel_class \<Rightarrow> 'c session \<Rightarrow> unit conn \<times> 'c session" where
  "close_netconf ops =
     close_with ops (\<lambda>s. andthen (say_line ops close_message s) (\<lambda>_ s. andthen (wait_match ops False 1 s) (\<lambda>_. done_with)))"

definition close_signman :: "'c channel_class \<Rightarrow> 'c session \<Rightarrow> unit conn \<times> 'c session" where
  "close_signman ops = close_with ops (say_line ops ''exit'')"

text \<open>The configuration mode that \<open>CBACliss\<close> and \<open>CBANBICliss\<close> look at is never entered.\<close>

definition close_cliss :: "'c channel_class \<Rightarrow> 'c session \<Rightarrow> unit conn \<times> 'c session" where
  "close_cliss ops = close_with ops (say_line ops ''exit'')"

definition close_cba_signmcli :: "'c channel_class \<Rightarrow> 'c session \<Rightarrow> unit conn \<times> 'c session" where
  "close_cba_signmcli ops = close_with ops (say_line ops ''exit'')"

definition close_nbi :: "'c channel_class \<Rightarrow> 'c session \<Rightarrow> unit conn \<times> 'c session" where
  "close_nbi ops = close_with ops (say_line ops ''exit'')"

definition close_telorb :: "'c channel_class \<Rightarrow> 'c session \<Rightarrow> unit conn \<times> 'c session" where
  "close_telorb ops = close_with ops (say_line ops ''quit'')"

definition close_jambala :: "'c channel_class \<Rightarrow> 'c session \<Rightarrow> unit conn \<times> 'c session" where
  "close_jambala ops = close_with ops (say_line ops ''exit'')"

definition session_close :: "'c channel_class \<Rightarrow> 'c session \<Rightarrow> unit conn \<times> 'c session" where
  "session_close ops s =
     (case se_kind s of
        StandardLinux \<Rightarrow> close_standard ops s
      | HardenedLinux \<Rightarrow> close_hardened ops s
      | EprtSetup \<Rightarrow> close_eprt ops s
      | NetconfCBA \<Rightarrow> close_netconf ops s
      | SignManCLI \<Rightarrow> close_signman ops s
      | CBACliss \<Rightarrow> close_cliss ops s
      | CBASignmcli \<Rightarrow> close_cba_signmcli ops s
      | CBANBICliss \<Rightarrow> close_nbi ops s
      | TelorbCLI \<Rightarrow> close_telorb ops s
      | JambalaCLI \<Rightarrow> close_jambala ops s)"

section \<open>Commands\<close>

text \<open>The result is \<open>None\<close> when the call does not wait for the prompt.\<close>

definition sendline :: "'c channel_class \<Rightarrow> bool \<Rightarrow> string \<Rightarrow> 'c session \<Rightarrow> string option conn \<times> 'c session" where
  "sendline ops synchronous line s =
     (if \<not> se_ready s then (Inl not_opened, s)
      else andthen (say_line ops line s) (\<lambda>_ s.
        andthen (if se_echo s then andthen (wait_match ops True 1 s) (\<lambda>_. done_with) else done_with s) (\<lambda>_ s.
        if synchronous then andthen (wait_match ops True 1 s) (\<lambda>_ s. (Inr (Some (cc_stdout ops (se_channel s))), s))
        else (Inr None, s))))"

text \<open>
  The loop of \<open>sendoptionallines\<close>, \<open>n\<close> turns of it: \<open>Inr None\<close>, it goes on; \<open>Inr (Some r)\<close>, it has returned \<open>r\<close>. With
  \<open>synchronous\<close> the prompt is the pattern after the questions. A question with the answer \<open>None\<close> is passed over.
\<close>

fun optional_loop ::
  "'c channel_class \<Rightarrow> bool \<Rightarrow> (string, string option) dict \<Rightarrow> nat \<Rightarrow> string list \<Rightarrow> 'c session \<Rightarrow>
     string option option conn \<times> 'c session" where
  "optional_loop ops synchronous answers 0 queries s = (Inr None, s)"
| "optional_loop ops synchronous answers (Suc n) queries s =
     (if \<not> synchronous \<and> queries = [] then (Inr (Some None), s)
      else andthen (wait_match ops True (length queries + (if synchronous then 1 else 0)) s) (\<lambda>h s.
        case h of
          Timed_out \<Rightarrow> (Inl Failed_timeout, s)
        | Ended \<Rightarrow> (Inl Failed_eof, s)
        | Hit i \<Rightarrow>
            if i < length queries then
              andthen (case map_of answers (queries ! i) of Some (Some w) \<Rightarrow> say_line ops w s | _ \<Rightarrow> done_with s) (\<lambda>_ s.
                if synchronous then optional_loop ops synchronous answers n queries s
                else let qs = remove1 (queries ! i) queries
                  in if qs = [] then (Inr (Some None), s) else optional_loop ops synchronous answers n qs s)
            else (Inr (Some (Some (cc_stdout ops (se_channel s)))), s)))"

definition sendoptionallines ::
  "nat \<Rightarrow> 'c channel_class \<Rightarrow> bool \<Rightarrow> (string, string option) dict \<Rightarrow> string \<Rightarrow> 'c session \<Rightarrow>
     string option option conn \<times> 'c session" where
  "sendoptionallines fuel ops synchronous answers line s =
     andthen (sendline ops False line s) (\<lambda>_. optional_loop ops synchronous answers fuel (dict_keys answers))"

section \<open>Clones\<close>

text \<open>The class of the clone; two classes make one of another class.\<close>

definition clone_kind :: "session_kind \<Rightarrow> session_kind" where
  "clone_kind k = (if k = CBANBICliss then CBACliss else if k = JambalaCLI then TelorbCLI else k)"

text \<open>\<open>clone\<close> is the clone of the channel; the configuration of the session is not copied.\<close>

definition session_clone ::
  "nat \<Rightarrow> 'c channel_class \<Rightarrow> ('c \<Rightarrow> conn_error + 'c) \<Rightarrow> 'c session \<Rightarrow> (conn_error + bool \<times> 'c session)" where
  "session_clone fuel ops clone s =
     (case clone (se_channel s) of
        Inl e \<Rightarrow> Inl e
      | Inr d \<Rightarrow>
          (case session_new ops (clone_kind (se_kind s)) d of
             Inl e \<Rightarrow> Inl e
           | Inr t \<Rightarrow>
               if \<not> se_ready s then Inr (True, t)
               else (case session_open fuel ops t of (Inl e, _) \<Rightarrow> Inl e | (Inr b, t) \<Rightarrow> Inr (b, t))))"

end
