(* ===== verification/Nodes.thy ===== *)
theory Nodes
  imports Sessions Terminal_Text
begin

text \<open>
  The connections of a node: \<open>Node\<close> of \<open>hss_utils/src/node/__init__.py\<close>, without its monitors (threads).

  A node keeps named connections in a dictionary. A connection is a session over a channel by \<open>ssh\<close> or over an
  extension of such a channel, and it lists the connections that were extended from it. A new channel gets its identifier and what its
  process will print as arguments.
\<close>

section \<open>Connections\<close>

datatype node_session = Direct "channel session" | Extended "extension session"

text \<open>Turns enough for the loops of a session: what the process has left to print.\<close>

definition open_session :: "node_session \<Rightarrow> unit conn \<times> node_session" where
  "open_session s =
     (case s of
        Direct t \<Rightarrow> (case session_open (Suc (script_left (se_channel t))) ssh_class t of (r, t) \<Rightarrow> (bind_res r (\<lambda>_. Inr ()), Direct t))
      | Extended t \<Rightarrow> (case session_open (Suc (ext_left (se_channel t))) ext_class t of (r, t) \<Rightarrow> (bind_res r (\<lambda>_. Inr ()), Extended t)))"

definition close_session :: "node_session \<Rightarrow> node_session" where
  "close_session s =
     (case s of
        Direct t \<Rightarrow> Direct (snd (session_close ssh_class t))
      | Extended t \<Rightarrow> Extended (snd (session_close ext_class t)))"

text \<open>\<open>None\<close> as the text: the call does not wait for the prompt, or there is nothing left to answer.\<close>

definition send_command ::
  "bool \<Rightarrow> (string, string option) dict \<Rightarrow> string \<Rightarrow> node_session \<Rightarrow> string option conn \<times> node_session" where
  "send_command sync answers cmd s =
     (case s of
        Direct t \<Rightarrow>
          (case sendoptionallines (Suc (script_left (se_channel t))) ssh_class sync answers cmd t of
             (r, t) \<Rightarrow> (bind_res r (\<lambda>v. Inr (case v of Some w \<Rightarrow> w | None \<Rightarrow> None)), Direct t))
      | Extended t \<Rightarrow>
          (case sendoptionallines (Suc (ext_left (se_channel t))) ext_class sync answers cmd t of
             (r, t) \<Rightarrow> (bind_res r (\<lambda>v. Inr (case v of Some w \<Rightarrow> w | None \<Rightarrow> None)), Extended t)))"

definition send_single :: "string \<Rightarrow> node_session \<Rightarrow> string option conn \<times> node_session" where
  "send_single line s =
     (case s of
        Direct t \<Rightarrow> (case sendline ssh_class True line t of (r, t) \<Rightarrow> (r, Direct t))
      | Extended t \<Rightarrow> (case sendline ext_class True line t of (r, t) \<Rightarrow> (r, Extended t)))"

definition session_text :: "node_session \<Rightarrow> string" where
  "session_text s =
     (case s of
        Direct t \<Rightarrow> cc_stdout ssh_class (se_channel t)
      | Extended t \<Rightarrow> cc_stdout ext_class (se_channel t))"

text \<open>An entry made by \<open>run_command_async\<close> has neither of the last two keys.\<close>

record conn_entry =
  en_session :: node_session
  en_opened :: bool
  en_extended :: "bool option"
  en_childs :: "string list option"

record node_state =
  nd_default :: string
  nd_connections :: "(string, conn_entry) dict"

definition node_new :: node_state where
  "node_new = \<lparr>nd_default = ''main'', nd_connections = []\<rparr>"

definition childs :: "conn_entry \<Rightarrow> string list" where
  "childs e = (case en_childs e of Some cs \<Rightarrow> cs | None \<Rightarrow> [])"

definition put_entry :: "string \<Rightarrow> conn_entry \<Rightarrow> node_state \<Rightarrow> node_state" where
  "put_entry i e n = n\<lparr>nd_connections := dict_set i e (nd_connections n)\<rparr>"

definition drop_entry :: "string \<Rightarrow> node_state \<Rightarrow> node_state" where
  "drop_entry i n = n\<lparr>nd_connections := dict_del i (nd_connections n)\<rparr>"

definition check_available_connection :: "string \<Rightarrow> node_state \<Rightarrow> bool" where
  "check_available_connection i n \<longleftrightarrow> i \<in> set (dict_keys (nd_connections n))"

definition check_open_connection :: "string \<Rightarrow> node_state \<Rightarrow> bool" where
  "check_open_connection i n = (case map_of (nd_connections n) i of Some e \<Rightarrow> en_opened e | None \<Rightarrow> False)"

definition set_default_connection :: "string \<Rightarrow> node_state \<Rightarrow> node_state" where
  "set_default_connection i n = n\<lparr>nd_default := i\<rparr>"

section \<open>Opening on demand\<close>

text \<open>What \<open>get_channel\<close>, \<open>get_connection\<close>, \<open>connection\<close> and \<open>open_connection\<close> share: the connection is opened if it is not.\<close>

definition open_connection :: "string \<Rightarrow> node_state \<Rightarrow> unit conn \<times> node_state" where
  "open_connection i n =
     (case map_of (nd_connections n) i of
        None \<Rightarrow> (Inl (Conn_raised (KeyError i)), n)
      | Some e \<Rightarrow>
          if en_opened e then done_with n
          else (case open_session (en_session e) of
                  (Inl x, s) \<Rightarrow> (Inl x, put_entry i (e\<lparr>en_session := s\<rparr>) n)
                | (Inr _, s) \<Rightarrow> done_with (put_entry i (e\<lparr>en_session := s, en_opened := True\<rparr>) n)))"

text \<open>A call on the session of a connection that is there.\<close>

definition on_session :: "(node_session \<Rightarrow> 'a conn \<times> node_session) \<Rightarrow> string \<Rightarrow> node_state \<Rightarrow> 'a conn \<times> node_state" where
  "on_session f i n =
     (case map_of (nd_connections n) i of
        None \<Rightarrow> (Inl (Conn_raised (KeyError i)), n)
      | Some e \<Rightarrow> (case f (en_session e) of (r, s) \<Rightarrow> (r, put_entry i (e\<lparr>en_session := s\<rparr>) n)))"

definition connection_id :: "string option \<Rightarrow> node_state \<Rightarrow> string" where
  "connection_id i n = (case i of Some i \<Rightarrow> i | None \<Rightarrow> nd_default n)"

section \<open>New connections\<close>

text \<open>\<open>isfile\<close> and \<open>me\<close> as for channels; \<open>i\<close>: the identifier of the channel, \<open>sc\<close>: what its process prints.\<close>

record conn_params =
  cr_config :: ep_config
  cr_kind :: session_kind
  cr_x11 :: bool
  cr_force :: bool
  cr_key :: "string option"
  cr_timeout :: rat

definition new_channel :: "(string \<Rightarrow> bool) \<Rightarrow> string \<Rightarrow> string \<Rightarrow> script \<Rightarrow> conn_params \<Rightarrow> conn_error + channel" where
  "new_channel isfile me i sc cr =
     bind_res (endpoint_new (Some SSH_DEFAULT_PORT) me (cr_config cr)) (\<lambda>e.
       let c = channel_new i e (cr_timeout cr) sc
       in case andthen (if cr_x11 cr then enable_x11_forwarding c else done_with c) (\<lambda>_ c.
            case cr_key cr of None \<Rightarrow> done_with c | Some k \<Rightarrow> set_ssh_key isfile k c) of
            (Inl x, _) \<Rightarrow> Inl x
          | (Inr _, c) \<Rightarrow> Inr c)"

text \<open>A connection that cannot be opened is not entered.\<close>

definition create_connection ::
  "(string \<Rightarrow> bool) \<Rightarrow> string \<Rightarrow> string \<Rightarrow> script \<Rightarrow> conn_params \<Rightarrow> string \<Rightarrow> node_state \<Rightarrow> unit conn \<times> node_state" where
  "create_connection isfile me i sc cr identity n =
     (if identity \<in> set (dict_keys (nd_connections n)) then done_with n
      else case bind_res (new_channel isfile me i sc cr) (session_new ssh_class (cr_kind cr)) of
        Inl x \<Rightarrow> (Inl x, n)
      | Inr s \<Rightarrow>
          let e = \<lparr>en_session = Direct s, en_opened = cr_force cr, en_extended = Some False, en_childs = Some []\<rparr>
          in if cr_force cr
             then (case open_session (Direct s) of
                     (Inl x, _) \<Rightarrow> (Inl x, n)
                   | (Inr _, s) \<Rightarrow> done_with (put_entry identity (e\<lparr>en_session := s\<rparr>) n))
             else done_with (put_entry identity e n))"

text \<open>
  The channel of an extension: a clone of the channel of the parent, with an extension over it. An extension has no attribute
  \<open>x11_forwarding\<close>, so it cannot be extended itself.
\<close>

definition extended_channel ::
  "(string \<Rightarrow> bool) \<Rightarrow> string \<Rightarrow> string \<Rightarrow> script \<Rightarrow> endpoint \<Rightarrow> node_session \<Rightarrow> conn_error + extension" where
  "extended_channel isfile i j sc e s =
     (case s of
        Direct t \<Rightarrow>
          (case ssh_clone isfile i sc (se_channel t) of
             (Inl x, _) \<Rightarrow> Inl x
           | (Inr _, c) \<Rightarrow> ext_new j e c)
      | Extended t \<Rightarrow>
          bind_res (ext_clone isfile i j sc (se_channel t)) (\<lambda>_. Inl (Conn_raised (AttributeError ''x11_forwarding''))))"

definition add_child :: "string \<Rightarrow> string \<Rightarrow> node_state \<Rightarrow> unit conn \<times> node_state" where
  "add_child parent identity n =
     (case map_of (nd_connections n) parent of
        None \<Rightarrow> (Inl (Conn_raised (KeyError parent)), n)
      | Some e \<Rightarrow>
          (case en_childs e of
             None \<Rightarrow> (Inl (Conn_raised (KeyError ''childs'')), n)
           | Some cs \<Rightarrow> done_with (put_entry parent (e\<lparr>en_childs := Some (cs @ [identity])\<rparr>) n)))"

definition extend_connection ::
  "(string \<Rightarrow> bool) \<Rightarrow> string \<Rightarrow> string \<Rightarrow> string \<Rightarrow> script \<Rightarrow> ep_config \<Rightarrow> session_kind \<Rightarrow> string \<Rightarrow> string \<Rightarrow> node_state \<Rightarrow>
     unit conn \<times> node_state" where
  "extend_connection isfile me i j sc cf k parent identity n =
     (if check_open_connection identity n then done_with n
      else let n = drop_entry identity n
        in case endpoint_new (Some SSH_DEFAULT_PORT) me cf of
          Inl x \<Rightarrow> (Inl x, n)
        | Inr e \<Rightarrow>
            andthen (open_connection parent n) (\<lambda>_ n.
            andthen (on_session (\<lambda>s. (bind_res (extended_channel isfile i j sc e s) (session_new ext_class k), s)) parent n) (\<lambda>s n.
            andthen (add_child parent identity n) (\<lambda>_ n.
              done_with (put_entry identity
                \<lparr>en_session = Extended s, en_opened = False, en_extended = Some True, en_childs = Some []\<rparr> n)))))"

section \<open>Commands\<close>

fun split_crlf :: "string \<Rightarrow> string list" where
  "split_crlf [] = [[]]"
| "split_crlf [c] = [[c]]"
| "split_crlf (c # d # cs) =
     (if c = CHR 0x0D \<and> d = CHR 0x0A then [] # split_crlf cs
      else (case split_crlf (d # cs) of [] \<Rightarrow> [[c]] | l # ls \<Rightarrow> (c # l) # ls))"

definition extract_answer :: "string \<Rightarrow> string list" where
  "extract_answer w = butlast (split_crlf (clear_ansi w))"

text \<open>The answer as one text (\<open>full_answer\<close>).\<close>

definition run_full ::
  "string \<Rightarrow> string option \<Rightarrow> (string, string option) dict \<Rightarrow> node_state \<Rightarrow> string conn \<times> node_state" where
  "run_full cmd identity answers n =
     andthen (open_connection (connection_id identity n) n) (\<lambda>_ n.
     andthen (on_session (send_command True answers cmd) (connection_id identity n) n) (\<lambda>v n.
       (case v of Some w \<Rightarrow> Inr w | None \<Rightarrow> Inl (Conn_raised (TypeError ''expected string or buffer'')), n)))"

definition node_command ::
  "string \<Rightarrow> string option \<Rightarrow> (string, string option) dict \<Rightarrow> node_state \<Rightarrow> string list conn \<times> node_state" where
  "node_command cmd identity answers n =
     andthen (run_full cmd identity answers n) (\<lambda>w n. (Inr (extract_answer w), n))"

definition node_command_full ::
  "string \<Rightarrow> string option \<Rightarrow> (string, string option) dict \<Rightarrow> node_state \<Rightarrow> string conn \<times> node_state" where
  "node_command_full cmd identity answers n =
     andthen (run_full cmd identity answers n) (\<lambda>w n. (Inr (clear_ansi w), n))"

text \<open>The clone of a session has a channel of its own.\<close>

definition clone_session ::
  "(string \<Rightarrow> bool) \<Rightarrow> string \<Rightarrow> string \<Rightarrow> script \<Rightarrow> node_session \<Rightarrow> conn_error + node_session" where
  "clone_session isfile i j sc s =
     (case s of
        Direct t \<Rightarrow>
          bind_res (session_clone (Suc (length sc)) ssh_class
            (\<lambda>c. case ssh_clone isfile i sc c of (Inl x, _) \<Rightarrow> Inl x | (Inr _, d) \<Rightarrow> Inr d) t) (\<lambda>(_, t). Inr (Direct t))
      | Extended t \<Rightarrow>
          bind_res (session_clone (Suc (length sc)) ext_class (ext_clone isfile i j sc) t) (\<lambda>(_, t). Inr (Extended t)))"

definition node_command_async ::
  "(string \<Rightarrow> bool) \<Rightarrow> string \<Rightarrow> string \<Rightarrow> script \<Rightarrow> string \<Rightarrow> string \<Rightarrow> (string, string option) dict \<Rightarrow> string option \<Rightarrow> node_state \<Rightarrow>
     unit conn \<times> node_state" where
  "node_command_async isfile i j sc cmd identity answers parent n =
     andthen
       (if identity \<in> set (dict_keys (nd_connections n)) then done_with n
        else case map_of (nd_connections n) (connection_id parent n) of
          None \<Rightarrow> (Inl (Conn_raised (KeyError (connection_id parent n))), n)
        | Some e \<Rightarrow>
            (case clone_session isfile i j sc (en_session e) of
               Inl x \<Rightarrow> (Inl x, n)
             | Inr s \<Rightarrow> done_with (put_entry identity
                 \<lparr>en_session = s, en_opened = False, en_extended = None, en_childs = None\<rparr> n))) (\<lambda>_ n.
     andthen (open_connection identity n) (\<lambda>_ n.
     andthen (on_session (send_command False answers cmd) identity n) (\<lambda>_. done_with)))"

definition get_return_code :: "string option \<Rightarrow> node_state \<Rightarrow> nat conn \<times> node_state" where
  "get_return_code identity n =
     andthen (node_command ''echo $?'' identity [] n) (\<lambda>ls n. (Inr (if ''0'' \<in> set ls then 0 else 1), n))"

definition get_output_command_async :: "string \<Rightarrow> node_state \<Rightarrow> string conn \<times> node_state" where
  "get_output_command_async i n =
     andthen (open_connection i n) (\<lambda>_ n. on_session (\<lambda>s. (Inr (session_text s), s)) i n)"

definition stop_command_async :: "string \<Rightarrow> (string, string option) dict \<Rightarrow> node_state \<Rightarrow> string option conn \<times> node_state" where
  "stop_command_async i answers n =
     andthen (open_connection i n) (\<lambda>_ n.
     andthen (on_session (send_command True answers [CHR 0x03]) i n) (\<lambda>output n.
     andthen (if i \<noteq> ''main''
              then andthen (open_connection i n) (\<lambda>_ n. andthen (on_session (send_single ''exit'') i n) (\<lambda>_. done_with))
              else done_with n) (\<lambda>_ n.
       (Inr output, n))))"

definition file_exist :: "string \<Rightarrow> string option \<Rightarrow> node_state \<Rightarrow> bool conn \<times> node_state" where
  "file_exist fname identity n =
     andthen (node_command (''ls '' @ fname) (Some (connection_id identity n)) [] n) (\<lambda>ls n.
       (case ls of [] \<Rightarrow> Inl (Conn_raised (IndexError ''list index out of range''))
          | l # _ \<Rightarrow> Inr (\<not> contains ''No such file or directory'' l), n))"

text \<open>Copies go through a process of their own, which prints \<open>sc\<close>; the result is the command and what \<open>scp\<close> returns.\<close>

definition node_copy :: "(channel \<Rightarrow> string) \<Rightarrow> script \<Rightarrow> string \<Rightarrow> node_state \<Rightarrow> (string \<times> bool) conn" where
  "node_copy command sc i n =
     (case map_of (nd_connections n) i of
        None \<Rightarrow> Inl (Conn_raised (KeyError i))
      | Some e \<Rightarrow>
          (case en_session e of
             Direct t \<Rightarrow> bind_res (fst (scp sc (se_channel t))) (\<lambda>b. Inr (command (se_channel t), b))
           | Extended _ \<Rightarrow> Inl (Conn_raised (AttributeError ''download''))))"

section \<open>Closing\<close>

text \<open>Calls one after the other, each of which may need more turns than there are.\<close>

fun all_of :: "('x \<Rightarrow> 's \<Rightarrow> 's option) \<Rightarrow> 'x list \<Rightarrow> 's \<Rightarrow> 's option" where
  "all_of f [] s = Some s"
| "all_of f (x # xs) s = (case f x s of None \<Rightarrow> None | Some t \<Rightarrow> all_of f xs t)"

text \<open>What \<open>close\<close> of the session raises is caught.\<close>

definition closed_entry :: "conn_entry \<Rightarrow> conn_entry" where
  "closed_entry e = e\<lparr>en_session := close_session (en_session e), en_opened := False\<rparr>"

definition mark_closed :: "string \<Rightarrow> node_state \<Rightarrow> node_state" where
  "mark_closed i n = n\<lparr>nd_connections := dict_modify i closed_entry (nd_connections n)\<rparr>"

text \<open>The children first; \<open>None\<close>: deeper than the fuel.\<close>

fun close_connection :: "nat \<Rightarrow> string \<Rightarrow> node_state \<Rightarrow> node_state option" where
  "close_connection 0 i n = None"
| "close_connection (Suc f) i n =
     (case map_of (nd_connections n) i of
        None \<Rightarrow> Some n
      | Some e \<Rightarrow>
          if \<not> en_opened e then Some n
          else map_option (mark_closed i) (all_of (close_connection f) (childs e) n))"

fun release_connection :: "nat \<Rightarrow> string \<Rightarrow> node_state \<Rightarrow> node_state option" where
  "release_connection 0 i n = None"
| "release_connection (Suc f) i n =
     (case map_of (nd_connections n) i of
        None \<Rightarrow> Some n
      | Some e \<Rightarrow>
          (case all_of (release_connection f) (childs e) n of
             None \<Rightarrow> None
           | Some m \<Rightarrow> map_option (drop_entry i) (close_connection (Suc f) i m)))"

definition close_connections :: "nat \<Rightarrow> node_state \<Rightarrow> node_state option" where
  "close_connections f n = all_of (close_connection f) (dict_keys (nd_connections n)) n"

definition release_node :: "nat \<Rightarrow> node_state \<Rightarrow> node_state option" where
  "release_node f n = map_option (\<lambda>m. m\<lparr>nd_connections := []\<rparr>) (close_connections f n)"

end
