(* ===== verification/Session_Props.thy ===== *)
theory Session_Props
  imports Sessions
begin

text \<open>
  Properties of sessions: the contract of a channel, what a session does to its channel and its lock, proved once for every
  class of channels that session_keeps the contract.
\<close>

section \<open>The contract of a channel\<close>

locale channel_contract =
  fixes ops :: "'c channel_class" and chan_ok :: "'c \<Rightarrow> bool"
  assumes lock: "chan_ok c \<Longrightarrow> \<not> cc_used ops c \<Longrightarrow>
      \<exists>d. cc_lock ops c = (Inr (), d) \<and> chan_ok d \<and> cc_used ops d \<and> cc_opened ops d = cc_opened ops c"
    and busy: "cc_used ops c \<Longrightarrow> \<exists>e. cc_lock ops c = (Inl e, c)"
    and released: "chan_ok c \<Longrightarrow>
      chan_ok (cc_release ops c) \<and> \<not> cc_used ops (cc_release ops c) \<and> cc_opened ops (cc_release ops c) = cc_opened ops c"
    and opened: "chan_ok c \<Longrightarrow> cc_open ops c = (Inr v, d) \<Longrightarrow> chan_ok d \<and> cc_opened ops d \<and> cc_used ops d = cc_used ops c"
    and refused: "chan_ok c \<Longrightarrow> cc_open ops c = (Inl e, d) \<Longrightarrow> chan_ok d \<and> \<not> cc_opened ops d \<and> cc_used ops d = cc_used ops c"
    and written: "chan_ok c \<Longrightarrow> cc_write ops w c = (r, d) \<Longrightarrow>
      chan_ok d \<and> cc_opened ops d = cc_opened ops c \<and> cc_used ops d = cc_used ops c"
    and expected: "chan_ok c \<Longrightarrow> cc_expect ops timed n c = (q, d) \<Longrightarrow>
      chan_ok d \<and> cc_opened ops d = cc_opened ops c \<and> cc_used ops d = cc_used ops c"
    and closed: "chan_ok c \<Longrightarrow> chan_ok (cc_close ops c) \<and> \<not> cc_opened ops (cc_close ops c) \<and> \<not> cc_used ops (cc_close ops c)"
    and subsystem: "chan_ok c \<Longrightarrow> chan_ok (cc_subsystem ops w c) \<and> cc_opened ops (cc_subsystem ops w c) = cc_opened ops c \<and>
      cc_used ops (cc_subsystem ops w c) = cc_used ops c"

section \<open>Closing, for all classes\<close>

definition say_goodbye :: "'c channel_class \<Rightarrow> 'c session \<Rightarrow> unit conn \<times> 'c session" where
  "say_goodbye ops s =
     (case se_kind s of
        HardenedLinux \<Rightarrow> andthen (say_line ops ''exit'' s) (\<lambda>_. say_line ops ''exit'')
      | NetconfCBA \<Rightarrow> andthen (say_line ops close_message s) (\<lambda>_ s. andthen (wait_match ops False 1 s) (\<lambda>_. done_with))
      | TelorbCLI \<Rightarrow> say_line ops ''quit'' s
      | _ \<Rightarrow> say_line ops ''exit'' s)"

definition close_common :: "'c channel_class \<Rightarrow> 'c session \<Rightarrow> unit conn \<times> 'c session" where
  "close_common ops = close_with ops (say_goodbye ops)"

lemma close_common_unfold:
  "close_common ops s =
     (let s = s\<lparr>se_channel := cc_release ops (se_channel s)\<rparr>
      in if \<not> se_ready s then done_with s
         else andthen (say_goodbye ops s) (\<lambda>_ s.
           done_with ((if se_autoclose s then s\<lparr>se_channel := cc_close ops (se_channel s)\<rparr> else s)
             \<lparr>se_autoclose := False, se_ready := False\<rparr>)))"
  by (simp add: close_common_def close_with_def)

lemma close_same: "(\<And>t. se_kind t = se_kind s \<Longrightarrow> f t = g t) \<Longrightarrow> close_with ops f s = close_with ops g s"
  by (simp add: close_with_def Let_def)

lemma close_eprt_common:
  assumes "se_kind s = EprtSetup"
  shows "close_eprt ops s = andthen (say_line ops ''exit'' s) (\<lambda>_. close_common ops)"
proof -
  obtain r t where t: "say_line ops ''exit'' s = (r, t)" by (cases "say_line ops ''exit'' s")
  then have "se_kind t = EprtSetup" using assms by (auto simp: say_line_def on_channel_def split: prod.splits)
  then have "close_standard ops t = close_common ops t"
    unfolding close_standard_def close_common_def by (intro close_same) (simp add: say_goodbye_def)
  then show ?thesis unfolding close_eprt_def t by (cases r) simp_all
qed

lemma session_close_common:
  "session_close ops s =
     (if se_kind s = EprtSetup then andthen (say_line ops ''exit'' s) (\<lambda>_. close_common ops) else close_common ops s)"
  unfolding session_close_def
  by (cases "se_kind s")
    (simp_all add: close_eprt_common close_standard_def close_hardened_def close_netconf_def close_signman_def close_cliss_def
      close_cba_signmcli_def close_nbi_def close_telorb_def close_jambala_def close_common_def, auto intro!: close_same
      simp: say_goodbye_def)

section \<open>What a session leaves alone\<close>

definition session_keeps :: "'c channel_class \<Rightarrow> ('c \<Rightarrow> bool) \<Rightarrow> 'c session \<Rightarrow> 'c session \<Rightarrow> bool" where
  "session_keeps ops chan_ok s t \<longleftrightarrow> (chan_ok (se_channel s) \<longrightarrow>
     chan_ok (se_channel t) \<and> cc_opened ops (se_channel t) = cc_opened ops (se_channel s) \<and>
     cc_used ops (se_channel t) = cc_used ops (se_channel s)) \<and>
     se_autoclose t = se_autoclose s \<and> se_ready t = se_ready s \<and> se_kind t = se_kind s"

interpretation session_frame: state_frame "session_keeps ops chan_ok"
  by unfold_locales (auto simp: session_keeps_def)

text \<open>Statements that keep to this, the last of which may make the session ready.\<close>

definition until_ready :: "'c channel_class \<Rightarrow> ('c \<Rightarrow> bool) \<Rightarrow> 'c session \<Rightarrow> ('e + 'a) \<times> 'c session \<Rightarrow> bool" where
  "until_ready ops chan_ok s p \<longleftrightarrow> session_keeps ops chan_ok s (snd p) \<or>
     (\<exists>v t. p = (Inr v, t\<lparr>se_ready := True\<rparr>) \<and> session_keeps ops chan_ok s t)"

lemma until_kept: "session_keeps ops chan_ok s (snd p) \<Longrightarrow> until_ready ops chan_ok s p"
  by (simp add: until_ready_def)

lemma until_set_ready: "until_ready ops chan_ok s (set_ready s)"
  by (auto simp: until_ready_def set_ready_def done_with_def session_keeps_def intro!: exI [of _ s])

lemma until_trans: "session_keeps ops chan_ok s t \<Longrightarrow> until_ready ops chan_ok t p \<Longrightarrow> until_ready ops chan_ok s p"
  by (auto simp: until_ready_def session_keeps_def)

lemma until_seq:
  assumes "session_keeps ops chan_ok s (snd p)" and "\<And>v t. p = (Inr v, t) \<Longrightarrow> until_ready ops chan_ok t (f v t)"
  shows "until_ready ops chan_ok s (andthen p f)"
proof (cases p)
  case (Pair r t)
  then show ?thesis
    using assms by (cases r) (auto simp: andthen_def intro: until_kept until_trans)
qed

lemma until_returned: "until_ready ops chan_ok s p \<Longrightarrow> until_ready ops chan_ok s (returned p)"
  by (cases p; cases "fst p") (auto simp: until_ready_def returned_def)

lemma until_set_true: "until_ready ops chan_ok s (andthen (set_ready s) (\<lambda>_ s. (Inr True, s)))"
  using until_returned [OF until_set_ready] by (simp add: returned_def)

lemma keeps_pure: "session_keeps ops chan_ok s (snd (r, s))"
  by (simp add: session_keeps_def)

lemma until_branch: "(b \<Longrightarrow> until_ready ops chan_ok s p) \<Longrightarrow> (\<not> b \<Longrightarrow> until_ready ops chan_ok s q) \<Longrightarrow>
  until_ready ops chan_ok s (if b then p else q)"
  by simp

context channel_contract begin

lemma keeps_say: "session_keeps ops chan_ok s (snd (say_line ops w s))"
  using written [of "se_channel s" w] by (auto simp: session_keeps_def say_line_def on_channel_def split: prod.splits)

lemma keeps_say_echo: "session_keeps ops chan_ok s (snd (say_line ops w (s\<lparr>se_echo := b\<rparr>)))"
  using keeps_say [of "s\<lparr>se_echo := b\<rparr>" w] by (simp add: session_keeps_def)

lemma keeps_wait: "session_keeps ops chan_ok s (snd (wait_match ops timed n s))"
  using expected [of "se_channel s" timed n] by (auto simp: session_keeps_def wait_match_def on_channel_def split: prod.splits)

lemma keeps_done: "session_keeps ops chan_ok s (snd (done_with s))"
  by (simp add: done_with_def session_frame.refl)

lemma keeps_must: "session_keeps ops chan_ok s (snd (must_match ops timed n e s))"
  unfolding must_match_def by (rule session_frame.seq [OF keeps_wait]) (simp add: done_with_def session_frame.refl)

lemma keeps_echo: "session_keeps ops chan_ok s (snd (look_for_echo ops s))"
  unfolding look_for_echo_def by (rule session_frame.seq [OF keeps_wait]) (simp add: done_with_def session_keeps_def)

lemma keeps_prompt: "session_keeps ops chan_ok s (snd (prompt_stage ops p s))"
  unfolding prompt_stage_def by (intro session_frame.seq keeps_say keeps_echo keeps_must)

lemma keeps_questions: "session_keeps ops chan_ok s (snd (signmcli_questions ops n s))"
proof (induction n arbitrary: s)
  case (Suc n)
  show ?case
    unfolding signmcli_questions.simps
    by (rule session_frame.seq [OF keeps_wait])
      (auto split: hit.splits nat.splits simp: session_frame.refl intro!: session_frame.seq keeps_say Suc.IH)
qed (simp add: session_frame.refl)

lemmas keeps_rules = keeps_say keeps_wait keeps_done keeps_must keeps_echo keeps_prompt keeps_questions

lemma ensure_cases:
  assumes "chan_ok (se_channel s)"
  shows "(\<exists>e t. ensure_open ops s = (Inl e, t) \<and> \<not> cc_opened ops (se_channel t) \<and> se_autoclose t = se_autoclose s \<and>
      se_ready t = se_ready s \<and> cc_used ops (se_channel t) = cc_used ops (se_channel s) \<and> chan_ok (se_channel t) \<and> se_kind t = se_kind s) \<or>
    (\<exists>t. ensure_open ops s = (Inr (), t) \<and> cc_opened ops (se_channel t) \<and>
      se_autoclose t = (se_autoclose s \<or> \<not> cc_opened ops (se_channel s)) \<and>
      se_ready t = se_ready s \<and> cc_used ops (se_channel t) = cc_used ops (se_channel s) \<and> chan_ok (se_channel t) \<and> se_kind t = se_kind s)"
proof (cases "cc_opened ops (se_channel s)")
  case True
  then show ?thesis using assms by (auto simp: ensure_open_def done_with_def)
next
  case False
  obtain r c where c: "cc_open ops (se_channel s) = (r, c)" by (cases "cc_open ops (se_channel s)")
  show ?thesis
  proof (cases r)
    case (Inl e)
    then show ?thesis
      using False assms c refused [OF assms, of e c] by (simp add: ensure_open_def on_channel_def)
  next
    case (Inr v)
    then show ?thesis
      using False assms c opened [OF assms, of v c] by (simp add: ensure_open_def on_channel_def done_with_def)
  qed
qed

text \<open>Each class opens the channel and goes on with statements that leave it open.\<close>

lemma open_parts:
  assumes "se_kind s \<noteq> EprtSetup"
  shows "\<exists>rest. session_open fuel ops s = andthen (ensure_open ops s) (\<lambda>_. rest) \<and> (\<forall>t. until_ready ops chan_ok t (rest t))"
proof -
  have ret: "\<exists>rest. returned (andthen p (\<lambda>_. f)) = andthen p (\<lambda>_. rest) \<and> (\<forall>t. until_ready ops chan_ok t (rest t))"
    if "\<And>t. until_ready ops chan_ok t (f t)" for p :: "unit conn \<times> 'c session" and f :: "'c session \<Rightarrow> unit conn \<times> 'c session"
    using that by (intro exI [of _ "\<lambda>t. returned (f t)"]) (simp add: returned_def andthen_assoc until_returned [unfolded returned_def])
  have direct: "\<exists>rest. andthen p (\<lambda>_. f) = andthen p (\<lambda>_. rest) \<and> (\<forall>t. until_ready ops chan_ok t (rest t))"
    if "\<And>t. until_ready ops chan_ok t (f t)" for p :: "unit conn \<times> 'c session" and f :: "'c session \<Rightarrow> bool conn \<times> 'c session"
    using that by (intro exI [of _ f]) simp
  note rules = until_seq until_set_ready until_branch until_kept keeps_rules
  show ?thesis
  proof (cases "se_kind s")
    case StandardLinux
    then show ?thesis by (simp add: session_open_def open_standard_def) (intro ret rules)
  next
    case HardenedLinux
    then show ?thesis by (simp add: session_open_def open_hardened_def) (intro ret rules)
  next
    case NetconfCBA
    then show ?thesis by (simp add: session_open_def open_netconf_def) (intro ret rules)
  next
    case SignManCLI
    have u: "until_ready ops chan_ok t (done_with t)" for t
      by (intro until_kept keeps_done)
    show ?thesis
      using SignManCLI
      by (simp add: session_open_def open_signman_def)
        (intro ret until_seq until_branch until_set_ready u keeps_say keeps_wait keeps_must session_frame.branch session_frame.seq keeps_done)
  next
    case CBACliss
    then show ?thesis
      by (simp add: session_open_def open_cliss_def) (intro ret until_seq until_set_ready keeps_rules session_frame.branch session_frame.seq)
  next
    case CBASignmcli
    show ?thesis
      using CBASignmcli
      by (simp add: session_open_def open_cba_signmcli_def)
        (intro direct until_seq until_branch until_set_true until_kept [OF keeps_pure] keeps_rules)
  next
    case CBANBICliss
    then show ?thesis by (simp add: session_open_def open_nbi_def) (intro ret rules)
  next
    case TelorbCLI
    show ?thesis
      using TelorbCLI by (simp add: session_open_def open_telorb_def Let_def) (intro ret until_seq until_set_ready keeps_say_echo keeps_must)
  next
    case JambalaCLI
    then show ?thesis by (simp add: session_open_def open_jambala_def) (intro ret rules)
  qed (use assms in simp)
qed

section \<open>Opening and closing\<close>

text \<open>What holds after \<open>open\<close>.\<close>

lemma open_change:
  assumes "chan_ok (se_channel s)" and "se_kind s \<noteq> EprtSetup" and "session_open fuel ops s = (r, t)"
  shows "chan_ok (se_channel t) \<and> se_kind t = se_kind s \<and> cc_used ops (se_channel t) = cc_used ops (se_channel s) \<and>
    (se_autoclose t \<longleftrightarrow> se_autoclose s \<or> cc_opened ops (se_channel t) \<and> \<not> cc_opened ops (se_channel s)) \<and>
    (cc_opened ops (se_channel s) \<longrightarrow> cc_opened ops (se_channel t)) \<and> (se_ready t \<longrightarrow> se_ready s \<or> cc_opened ops (se_channel t)) \<and>
    ((\<exists>e. r = Inl e) \<longrightarrow> se_ready t = se_ready s)"
proof -
  obtain rest where rest: "session_open fuel ops s = andthen (ensure_open ops s) (\<lambda>_. rest)"
    and until: "\<And>t. until_ready ops chan_ok t (rest t)"
    using open_parts [OF assms(2)] by blast
  from ensure_cases [OF assms(1)] show ?thesis
  proof (elim disjE exE conjE)
    fix e u
    assume "ensure_open ops s = (Inl e, u)" "\<not> cc_opened ops (se_channel u)" "se_autoclose u = se_autoclose s"
      "se_ready u = se_ready s" "cc_used ops (se_channel u) = cc_used ops (se_channel s)" "chan_ok (se_channel u)"
      "se_kind u = se_kind s"
    then show ?thesis
      using assms rest ensure_open_def [of ops s] by (auto simp: done_with_def split: if_splits)
  next
    fix u
    assume u: "ensure_open ops s = (Inr (), u)" "cc_opened ops (se_channel u)"
      "se_autoclose u = (se_autoclose s \<or> \<not> cc_opened ops (se_channel s))" "se_ready u = se_ready s"
      "cc_used ops (se_channel u) = cc_used ops (se_channel s)" "chan_ok (se_channel u)" "se_kind u = se_kind s"
    have "rest u = (r, t)" using assms(3) rest u(1) by simp
    then have "session_keeps ops chan_ok u t \<or>
      (\<exists>v t'. r = Inr v \<and> t = t'\<lparr>se_ready := True\<rparr> \<and> session_keeps ops chan_ok u t')"
      using until [of u] by (auto simp: until_ready_def)
    then show ?thesis
      using u by (auto simp: session_keeps_def)
  qed
qed

lemma open_outcome:
  assumes "chan_ok (se_channel s)" and "\<not> se_ready s" and "\<not> se_autoclose s" and "se_kind s \<noteq> EprtSetup"
    and "session_open fuel ops s = (r, t)"
  shows "chan_ok (se_channel t) \<and> se_kind t = se_kind s \<and> cc_used ops (se_channel t) = cc_used ops (se_channel s) \<and>
    (se_autoclose t \<longleftrightarrow> cc_opened ops (se_channel t) \<and> \<not> cc_opened ops (se_channel s)) \<and>
    (cc_opened ops (se_channel s) \<longrightarrow> cc_opened ops (se_channel t)) \<and> (se_ready t \<longrightarrow> cc_opened ops (se_channel t)) \<and>
    ((\<exists>e. r = Inl e) \<longrightarrow> \<not> se_ready t)"
  using open_change [OF assms(1,4,5)] assms(2,3) by blast

lemma keeps_sendline: "session_keeps ops chan_ok s (snd (sendline ops sync line s))"
  unfolding sendline_def
  by (rule session_frame.branch [OF keeps_pure])
    (auto intro!: session_frame.seq keeps_rules simp: session_frame.refl)

lemma keeps_loop: "session_keeps ops chan_ok s (snd (optional_loop ops sync answers n queries s))"
proof (induction n arbitrary: sync queries s)
  case (Suc n)
  show ?case
    unfolding optional_loop.simps
    by (rule session_frame.branch [OF keeps_pure], rule session_frame.seq [OF keeps_wait])
      (auto simp: Let_def session_frame.refl split: hit.splits option.splits
        intro!: session_frame.seq keeps_say keeps_done Suc.IH)
qed (simp add: session_frame.refl)

lemma keeps_command: "session_keeps ops chan_ok s (snd (sendoptionallines n ops sync answers line s))"
  unfolding sendoptionallines_def by (intro session_frame.seq keeps_sendline keeps_loop)

lemma keeps_goodbye: "session_keeps ops chan_ok s (snd (say_goodbye ops s))"
  unfolding say_goodbye_def by (cases "se_kind s") (auto intro!: session_frame.seq keeps_rules)

lemma close_outcome:
  assumes "chan_ok (se_channel s)" and "se_kind s \<noteq> EprtSetup" and "session_close ops s = (Inr v, t)"
  shows "chan_ok (se_channel t) \<and> se_kind t = se_kind s \<and> \<not> cc_used ops (se_channel t) \<and> \<not> se_ready t \<and>
    cc_opened ops (se_channel t) = (cc_opened ops (se_channel s) \<and> \<not> (se_ready s \<and> se_autoclose s)) \<and>
    (se_ready s \<longrightarrow> \<not> se_autoclose t) \<and> (\<not> se_ready s \<longrightarrow> se_autoclose t = se_autoclose s)"
proof (cases "se_ready s")
  case False
  then show ?thesis
    using assms released [OF assms(1)] by (auto simp: session_close_common close_common_unfold Let_def done_with_def)
next
  case True
  let ?s = "s\<lparr>se_channel := cc_release ops (se_channel s)\<rparr>"
  obtain u where u: "say_goodbye ops ?s = (Inr (), u)"
    and t: "t = (if se_autoclose u then u\<lparr>se_channel := cc_close ops (se_channel u)\<rparr> else u)\<lparr>se_autoclose := False, se_ready := False\<rparr>"
    using assms(2,3) True by (auto simp: session_close_common close_common_unfold Let_def done_with_def andthen_Inr)
  have "session_keeps ops chan_ok ?s u"
    using keeps_goodbye [of ?s] u by simp
  then show ?thesis
    using True released [OF assms(1)] closed [of "se_channel u"] by (auto simp: t session_keeps_def)
qed

lemma session_new_cases:
  assumes "chan_ok c"
  shows "(if cc_used ops c then \<exists>e. session_new ops k c = Inl e
     else \<exists>s. session_new ops k c = Inr s \<and> chan_ok (se_channel s) \<and> cc_used ops (se_channel s) \<and>
       cc_opened ops (se_channel s) = cc_opened ops c \<and> \<not> se_ready s \<and> \<not> se_autoclose s \<and> se_kind s = k)"
proof (cases "cc_used ops c")
  case True
  then show ?thesis using busy [OF True] by (auto simp: session_new_def)
next
  case False
  obtain d where "cc_lock ops c = (Inr (), d)" "chan_ok d" "cc_used ops d" "cc_opened ops d = cc_opened ops c"
    using lock [OF assms False] by blast
  then show ?thesis
    using False subsystem [of d "''netconf''"] by (auto simp: session_new_def)
qed

text \<open>From the constructor over \<open>open\<close> to \<open>close\<close>.\<close>

lemma life_of_a_session:
  assumes "chan_ok c" and "k \<noteq> EprtSetup" and "session_new ops k c = Inr s"
    and "session_open fuel ops s = (r, t)" and "session_close ops t = (Inr v, u)"
  shows "cc_used ops (se_channel t) \<and> \<not> cc_used ops (se_channel u) \<and> \<not> se_ready u \<and>
    (if se_ready t then cc_opened ops (se_channel u) = cc_opened ops c
     else cc_opened ops (se_channel u) = cc_opened ops (se_channel t))"
proof -
  have "\<not> cc_used ops c"
    using session_new_cases [OF assms(1), of k] assms(3) by (auto split: if_splits)
  then have s: "chan_ok (se_channel s)" "cc_used ops (se_channel s)" "cc_opened ops (se_channel s) = cc_opened ops c"
    "\<not> se_ready s" "\<not> se_autoclose s" "se_kind s = k"
    using session_new_cases [OF assms(1), of k] assms(3) by auto
  have kind: "se_kind s \<noteq> EprtSetup" using s assms(2) by simp
  note t = open_outcome [OF s(1,4,5) kind assms(4)]
  have "se_kind t \<noteq> EprtSetup" using t kind by simp
  from close_outcome [OF _ this assms(5)] show ?thesis
    using t s by auto
qed

end

section \<open>The classes of channels keep the contract\<close>

definition ssh_ok :: "channel \<Rightarrow> bool" where
  "ssh_ok c \<longleftrightarrow> (ch_proc c \<longleftrightarrow> ch_flag c)"

lemmas channel_ops =
  ch_lock_def ch_release_def ch_write_def ch_expect_def ch_say_def ch_drop_def ch_spawn_def ch_opened_def done_with_def

lemma ssh_login_outcome:
  "ssh_login g sc c = (r, d) \<Longrightarrow> ch_proc c \<Longrightarrow> \<not> ch_flag c \<Longrightarrow>
     ch_used d = ch_used c \<and> (if r = Inr () then ch_proc d \<and> ch_flag d else \<not> ch_proc d \<and> \<not> ch_flag d)"
proof (induction g sc c arbitrary: r d rule: ssh_login.induct)
  case (2 g h b sc c)
  then show ?case
    by (auto simp: Let_def channel_ops split: hit.splits if_splits option.splits)
qed (auto simp: channel_ops)

lemma ssh_open_outcome:
  assumes "ssh_open c = (r, d)" and "ssh_ok c"
  shows "ch_used d = ch_used c \<and> ssh_ok d \<and> (ch_opened d \<longleftrightarrow> r = Inr ())"
proof (cases "ch_opened c")
  case True
  then show ?thesis using assms by (auto simp: ssh_open_def done_with_def)
next
  case False
  then have c: "\<not> ch_proc c" "\<not> ch_flag c"
    using assms(2) by (auto simp: ssh_ok_def ch_opened_def)
  show ?thesis
  proof (cases "int_of_port (ch_ep c)")
    case (Inl e)
    then show ?thesis using assms False by (auto simp: ssh_open_def)
  next
    case (Inr p)
    define c1 where "c1 = ch_spawn (ssh_command (ch_key c) (ch_x11 c) (ch_subsystem c) (ch_timeout c) p (ch_ep c)) c"
    have "ssh_login False (ch_script c1) c1 = (r, d)"
      using assms(1) False Inr by (simp add: ssh_open_def Let_def c1_def)
    moreover have "ch_proc c1" "\<not> ch_flag c1" "ch_used c1 = ch_used c"
      using c by (simp_all add: c1_def ch_spawn_def)
    ultimately have "ch_used d = ch_used c \<and> (if r = Inr () then ch_proc d \<and> ch_flag d else \<not> ch_proc d \<and> \<not> ch_flag d)"
      using ssh_login_outcome [of False "ch_script c1" c1 r d] by simp
    then show ?thesis
      by (cases "r = Inr ()") (simp_all add: ssh_ok_def ch_opened_def)
  qed
qed

lemmas class_simps = ssh_class_def ext_class_def telnet_class_def channel_class.simps

interpretation ssh: channel_contract ssh_class ssh_ok
proof (unfold_locales, unfold class_simps)
  fix c d e and v :: unit
  assume "ssh_ok c"
  then show "ssh_open c = (Inr v, d) \<Longrightarrow> ssh_ok d \<and> ch_opened d \<and> ch_used d = ch_used c"
    and "ssh_open c = (Inl e, d) \<Longrightarrow> ssh_ok d \<and> \<not> ch_opened d \<and> ch_used d = ch_used c"
    using ssh_open_outcome [of c] by auto
qed (auto simp: ssh_ok_def channel_ops ssh_close_def set_ssh_subsystem_def Let_def split: if_splits prod.splits)

lemma telnet_open_outcome:
  "telnet_open c = (r, d) \<Longrightarrow> ssh_ok c \<Longrightarrow> ch_used d = ch_used c \<and> ssh_ok d \<and> (ch_opened d \<longleftrightarrow> r = Inr ())"
  by (auto simp: telnet_open_def ssh_ok_def ch_wait_def channel_ops Let_def split: prod.splits if_splits)

interpretation telnet: channel_contract telnet_class ssh_ok
proof (unfold_locales, unfold class_simps)
  fix c d e and v :: unit
  assume "ssh_ok c"
  then show "telnet_open c = (Inr v, d) \<Longrightarrow> ssh_ok d \<and> ch_opened d \<and> ch_used d = ch_used c"
    and "telnet_open c = (Inl e, d) \<Longrightarrow> ssh_ok d \<and> \<not> ch_opened d \<and> ch_used d = ch_used c"
    using telnet_open_outcome [of c] by auto
qed (auto simp: ssh_ok_def channel_ops telnet_close_def telnet_expect_def Let_def split: if_splits prod.splits)

lemma script_close: "ch_script (ssh_close c) = ch_script c"
  by (simp add: ssh_close_def ch_release_def Let_def)

lemma script_say: "ch_script (ch_say w c) = ch_script c"
  by (simp add: ch_say_def)

lemma ext_login_step:
  obtains (again) c where "ext_login ((h, b) # sc) x = ext_login sc (x\<lparr>xt_sub := c\<rparr>)"
  | (raises) e c where "ext_login ((h, b) # sc) x = (Inl e, x\<lparr>xt_sub := c\<rparr>)" "ch_script c = sc"
  | (succeeds) c where "ext_login ((h, b) # sc) x = (Inr (), x\<lparr>xt_sub := c, xt_flag := True\<rparr>)" "ch_script c = sc"
proof (cases h)
  case (Hit i)
  note [simp] = Hit Let_def done_with_def script_close script_say
  consider "i = 0" | "i = 1" | "i = 2" | "i > 2" "i \<le> 7" | "i > 7" "i \<le> 9" | "i > 9"
    by linarith
  then show thesis
  proof cases
    case 2
    then show thesis using again raises by (cases "ep_password (xt_ep x)") simp_all
  next
    case 3
    then show thesis using again raises by (cases "contains ''key_load'' b") simp_all
  qed (use again raises succeeds in simp_all)
qed (use raises in \<open>simp_all add: Let_def script_close\<close>)

lemma ext_login_outcome:
  "ext_login sc x = (r, y) \<Longrightarrow> \<not> xt_flag x \<Longrightarrow> xt_used y = xt_used x \<and> (xt_flag y \<longleftrightarrow> r = Inr ())"
proof (induction sc arbitrary: x r y)
  case (Cons hb sc)
  obtain h b where hb: "hb = (h, b)" by (cases hb)
  show ?case
  proof (cases rule: ext_login_step [of h b sc x])
    case (again c)
    then show ?thesis
      using Cons.IH [of "x\<lparr>xt_sub := c\<rparr>" r y] Cons.prems hb by simp
  qed (use Cons.prems hb in auto)
qed auto

lemma on_sub_frame: "on_sub f x = (r, y) \<Longrightarrow> xt_flag y = xt_flag x \<and> xt_used y = xt_used x"
  by (auto simp: on_sub_def split: prod.splits)

lemma ext_open_outcome:
  assumes "ext_open x = (r, y)"
  shows "xt_used y = xt_used x \<and> (xt_flag y \<longleftrightarrow> r = Inr ())"
proof (cases "xt_flag x")
  case True
  then show ?thesis using assms by (auto simp: ext_open_def done_with_def)
next
  case False
  obtain r1 x1 where p1: "(if ch_opened (xt_sub x) then done_with x else on_sub ssh_open x) = (r1, x1)"
    by (cases "if ch_opened (xt_sub x) then done_with x else on_sub ssh_open x :: unit conn \<times> extension")
  then have x1: "\<not> xt_flag x1" "xt_used x1 = xt_used x"
    using False on_sub_frame [of ssh_open x r1 x1] by (auto simp: done_with_def split: if_splits)
  show ?thesis
  proof (cases "\<exists>u p. r1 = Inr u \<and> int_of_port (xt_ep x1) = Inr p")
    case stop: False
    then show ?thesis
      using assms False p1 x1 by (cases r1) (auto simp: ext_open_def split: sum.splits)
  next
    case True
    then obtain p where p: "r1 = Inr ()" "int_of_port (xt_ep x1) = Inr p" by auto
    define cmd where "cmd = ssh_command (xt_key x1) (xt_x11 x1) [] (ch_timeout (xt_sub x1)) p (xt_ep x1)"
    obtain r2 x2 where p2: "on_sub (ch_write cmd) x1 = (r2, x2)" by (cases "on_sub (ch_write cmd) x1")
    then have x2: "\<not> xt_flag x2" "xt_used x2 = xt_used x"
      using x1 on_sub_frame by force+
    have "ext_open x = (case r2 of Inl e \<Rightarrow> (Inl e, x2) | Inr _ \<Rightarrow> ext_login (ch_script (xt_sub x2)) x2)"
      using False p1 p p2 by (simp add: ext_open_def cmd_def andthen_def)
    then show ?thesis
      using assms x2 ext_login_outcome [of "ch_script (xt_sub x2)" x2 r y] by (cases r2) auto
  qed
qed

interpretation ext: channel_contract ext_class "\<lambda>_. True"
proof (unfold_locales, unfold class_simps)
  fix c d e and v :: unit
  show "ext_open c = (Inr v, d) \<Longrightarrow> True \<and> xt_flag d \<and> xt_used d = xt_used c"
    and "ext_open c = (Inl e, d) \<Longrightarrow> True \<and> \<not> xt_flag d \<and> xt_used d = xt_used c"
    using ext_open_outcome [of c] by auto
qed (auto simp: ext_lock_def ext_close_def ext_write_def ext_expect_def andthen_def done_with_def Let_def
      split: if_splits prod.splits sum.splits dest!: on_sub_frame)

section \<open>Sessions by \<open>ssh\<close>\<close>

text \<open>Over an open channel nothing is raised when a session says goodbye.\<close>

lemma say_open:
  assumes "ch_opened (se_channel s)"
  obtains t where "say_line ssh_class w s = (Inr (), t)" "ch_opened (se_channel t)"
  using assms by (auto simp: say_line_def on_channel_def class_simps ch_write_def ch_say_def done_with_def ch_opened_def)

lemma wait_open:
  assumes "ch_opened (se_channel s)"
  obtains h t where "wait_match ssh_class timed n s = (Inr h, t)" "ch_opened (se_channel t)"
proof -
  obtain h b sc where "next_hit n (ch_script (se_channel s)) = ((h, b), sc)" by (metis prod.exhaust)
  then show thesis
    using assms that by (simp add: wait_match_def on_channel_def class_simps ch_expect_def ch_opened_def)
qed

lemma goodbye_open:
  assumes "ch_opened (se_channel s)"
  shows "\<exists>t. say_goodbye ssh_class s = (Inr (), t)"
proof -
  obtain u where u: "say_line ssh_class ''exit'' s = (Inr (), u)" "ch_opened (se_channel u)"
    using assms by (rule say_open)
  obtain v where v: "say_line ssh_class ''exit'' u = (Inr (), v)" using u(2) by (rule say_open)
  obtain q where q: "say_line ssh_class ''quit'' s = (Inr (), q)" using assms by (rule say_open)
  obtain m where m: "say_line ssh_class close_message s = (Inr (), m)" "ch_opened (se_channel m)"
    using assms by (rule say_open)
  obtain h x where x: "wait_match ssh_class False 1 m = (Inr h, x)" using m(2) by (rule wait_open)
  show ?thesis
    using u v q m x by (cases "se_kind s") (simp_all add: say_goodbye_def done_with_def)
qed

lemma close_open:
  assumes "se_ready s \<longrightarrow> ch_opened (se_channel s)" and "se_kind s \<noteq> EprtSetup"
  shows "\<exists>t. session_close ssh_class s = (Inr (), t)"
proof (cases "se_ready s")
  case False
  then show ?thesis
    using assms by (auto simp: session_close_common close_common_unfold done_with_def Let_def)
next
  case True
  let ?s = "s\<lparr>se_channel := cc_release ssh_class (se_channel s)\<rparr>"
  have "ch_opened (se_channel ?s)"
    using assms(1) True by (simp add: class_simps ch_release_def ch_opened_def)
  from goodbye_open [OF this] show ?thesis
    using assms True by (auto simp: session_close_common close_common_unfold done_with_def Let_def)
qed

lemma ready_after_open:
  assumes "ssh_ok c" and "k \<noteq> EprtSetup" and "session_new ssh_class k c = Inr s"
    and "session_open fuel ssh_class s = (r, t)"
  shows "(se_ready t \<longrightarrow> ch_opened (se_channel t)) \<and> se_kind t \<noteq> EprtSetup"
  using ssh.session_new_cases [OF assms(1), of k] ssh.open_change [of s fuel r t] assms(2-4)
  by (auto simp: class_simps split: if_splits)

text \<open>C29: A session by \<open>ssh\<close>, of any class but \<open>EprtSetup\<close>, locks its channel from the constructor to \<open>close\<close>, and after \<open>open\<close>,
  which may have raised, \<open>close\<close> returns. What it leaves depends on whether \<open>open\<close> made the session ready: if so the channel is
  open as it was before; otherwise the connection that \<open>open\<close> made stays. \<open>EprtSetup\<close> is left out since its \<open>close\<close> writes first:
  over a channel that is not open it raises and keeps the lock (\<open>eprt_close_keeps_lock\<close>). Exceptions of \<open>pexpect\<close> in a
  write or in closing the process are not modelled.\<close>

theorem session_restores_channel:
  assumes "ssh_ok c" and "k \<noteq> EprtSetup" and "session_new ssh_class k c = Inr s"
    and "session_open fuel ssh_class s = (r, t)"
  shows "ch_used (se_channel t) \<and> (\<exists>u. session_close ssh_class t = (Inr (), u) \<and>
    \<not> ch_used (se_channel u) \<and> \<not> se_ready u \<and>
    (if se_ready t then ch_opened (se_channel u) = ch_opened c else ch_opened (se_channel u) = ch_opened (se_channel t)))"
proof -
  from close_open [of t] ready_after_open [OF assms] obtain u where u: "session_close ssh_class t = (Inr (), u)"
    by blast
  show ?thesis
    using ssh.life_of_a_session [OF assms u] u unfolding class_simps by blast
qed

theorem eprt_close_keeps_lock:
  assumes "session_new ssh_class EprtSetup c = Inr s" and "\<not> ch_opened c"
  shows "\<exists>e. session_close ssh_class s = (Inl e, s) \<and> ch_used (se_channel s)"
  using assms
  by (auto simp: session_new_def session_close_common say_line_def on_channel_def class_simps ch_write_def ch_lock_def
      ch_opened_def done_with_def split: if_splits)

definition demo_endpoint :: endpoint where
  "demo_endpoint = \<lparr>ep_host = ''node1'', ep_port = Some (Port 22), ep_user = Some ''root'', ep_password = Some ''secret''\<rparr>"

definition demo_channel :: "script \<Rightarrow> channel" where
  "demo_channel sc = channel_new ''c1'' demo_endpoint 60 sc"

lemmas demo_simps =
  demo_channel_def demo_endpoint_def channel_new_def class_simps channel_ops ssh_ok_def ssh_open_def int_of_port_def Let_def

text \<open>The node lets the connection in and does not show the prompt: the session cannot be opened, its connection stays.\<close>

lemma session_restores_channel_witness:
  "\<exists>s t u. session_new ssh_class StandardLinux (demo_channel [(Hit 8, [])]) = Inr s \<and>
     session_open 0 ssh_class s = (Inl not_opened, t) \<and> session_close ssh_class t = (Inr (), u) \<and>
     ch_opened (se_channel u) \<and> \<not> ch_used (se_channel u)"
proof -
  let ?c = "demo_channel [(Hit 8, [])]"
  obtain s where s: "session_new ssh_class StandardLinux ?c = Inr s"
    by (simp add: session_new_def demo_simps)
  have "\<exists>t. session_open 0 ssh_class s = (Inl not_opened, t) \<and> ch_opened (se_channel t) \<and> \<not> se_ready t \<and> se_kind t = StandardLinux"
    using s by (auto simp: session_new_def session_open_def open_standard_def returned_def ensure_open_def on_channel_def
        prompt_stage_def say_line_def look_for_echo_def wait_match_def must_match_def demo_simps)
  then obtain t where t: "session_open 0 ssh_class s = (Inl not_opened, t)" "ch_opened (se_channel t)" "\<not> se_ready t"
    "se_kind t = StandardLinux" by blast
  have "ssh_ok ?c" by (simp add: demo_simps)
  from session_restores_channel [OF this _ s t(1)] show ?thesis
    using s t by auto
qed

section \<open>Logging in\<close>

lemma ssh_login_sends:
  "ssh_login g sc c = (r, d) \<Longrightarrow>
     \<exists>a b ws. ch_sent d = ch_sent c @ replicate a ''yes'' @ ws @ replicate b ''yes'' \<and>
       (ws = [] \<or> \<not> g \<and> (\<exists>w. ep_password (ch_ep c) = Some w \<and> ws = [w]))"
proof (induction g sc c arbitrary: r d rule: ssh_login.induct)
  case (1 g c)
  then have "ch_sent d = ch_sent c @ replicate 0 ''yes'' @ [] @ replicate 0 ''yes''" by (auto simp: ch_drop_def)
  then show ?case by blast
next
  case (2 g h b sc c)
  have none: ?case if "ch_sent d = ch_sent c"
    using that by (intro exI [of _ 0] exI [of _ "[]"]) simp
  consider (key) "h = Hit 0" | (pw) w where "h = Hit 1" "\<not> g" "ep_password (ch_ep c) = Some w" | (stop) "ch_sent d = ch_sent c"
    using 2(3) by (auto simp: Let_def channel_ops split: hit.splits if_splits option.splits)
  then show ?case
  proof cases
    case key
    then have "ssh_login g sc (ch_say ''yes'' c) = (r, d)" using 2(3) by (simp add: Let_def)
    from 2(1) [OF HOL.refl key HOL.refl this] obtain a b' ws
      where "ch_sent d = ch_sent c @ ''yes'' # replicate a ''yes'' @ ws @ replicate b' ''yes''"
        "ws = [] \<or> \<not> g \<and> (\<exists>w. ep_password (ch_ep c) = Some w \<and> ws = [w])"
      by (auto simp: ch_say_def)
    then show ?thesis by (intro exI [of _ "Suc a"] exI [of _ b'] exI [of _ ws]) simp
  next
    case (pw w)
    then have l: "ssh_login True sc (ch_say w c) = (r, d)" using 2(3) by (simp add: Let_def)
    have "\<exists>a b ws. ch_sent d = ch_sent (ch_say w c) @ replicate a ''yes'' @ ws @ replicate b ''yes'' \<and> ws = []"
      using 2(2) [OF HOL.refl pw(1) _ HOL.refl pw(3) pw(2) l] by simp
    then obtain a b' where "ch_sent d = ch_sent c @ [w] @ replicate (a + b') ''yes''"
      by (auto simp: ch_say_def replicate_add)
    then show ?thesis
      using pw by (intro exI [of _ 0] exI [of _ "a + b'"] exI [of _ "[w]"]) simp
  qed (rule none)
qed

text \<open>C30: Opening a channel by \<open>ssh\<close> sends confirmations and the password once at most; if it raises no process is left.\<close>

theorem ssh_open_sends:
  assumes "ssh_ok c" and "ssh_open c = (r, d)"
  shows "(\<exists>a b ws. ch_sent d = ch_sent c @ replicate a ''yes'' @ ws @ replicate b ''yes'' \<and>
      (ws = [] \<or> (\<exists>w. ep_password (ch_ep c) = Some w \<and> ws = [w]))) \<and>
    (ch_opened d \<longleftrightarrow> r = Inr ()) \<and> (ch_proc d \<longleftrightarrow> r = Inr ())"
proof -
  have "\<exists>a b ws. ch_sent d = ch_sent c @ replicate a ''yes'' @ ws @ replicate b ''yes'' \<and>
      (ws = [] \<or> (\<exists>w. ep_password (ch_ep c) = Some w \<and> ws = [w]))"
  proof (cases "ch_sent d = ch_sent c")
    case True
    then show ?thesis by (intro exI [of _ 0] exI [of _ "[]"]) simp
  next
    case False
    then obtain p where p: "\<not> ch_opened c" "int_of_port (ch_ep c) = Inr p"
      using assms(2) by (auto simp: ssh_open_def done_with_def split: if_splits sum.splits)
    define c1 where "c1 = ch_spawn (ssh_command (ch_key c) (ch_x11 c) (ch_subsystem c) (ch_timeout c) p (ch_ep c)) c"
    have "ssh_login False (ch_script c1) c1 = (r, d)"
      using assms(2) p by (simp add: ssh_open_def Let_def c1_def)
    from ssh_login_sends [OF this] show ?thesis by (simp add: c1_def ch_spawn_def)
  qed
  then show ?thesis
    using ssh_open_outcome [OF assms(2,1)] by (auto simp: ssh_ok_def ch_opened_def)
qed

lemma ssh_open_sends_witness:
  "\<exists>d. ssh_open (demo_channel [(Hit 0, []), (Hit 1, []), (Hit 8, [])]) = (Inr (), d) \<and> ch_opened d \<and> ch_sent d = [''yes'', ''secret'']"
proof -
  let ?c = "demo_channel [(Hit 0, []), (Hit 1, []), (Hit 8, [])]"
  obtain d where "ssh_open ?c = (Inr (), d)" "ch_sent d = [''yes'', ''secret'']"
    by (auto simp: demo_simps)
  moreover have "ssh_ok ?c" by (simp add: demo_simps)
  ultimately show ?thesis
    using ssh_open_sends [of ?c "Inr ()" d] by blast
qed

text \<open>An extension, in contrast, answers every question for the password.\<close>

lemma ext_login_passwords:
  "ep_password (xt_ep x) = Some w \<Longrightarrow>
     \<exists>y. ext_login (replicate n (Hit 1, b) @ sc) x = ext_login sc y \<and>
       ch_sent (xt_sub y) = ch_sent (xt_sub x) @ replicate n w"
proof (induction n arbitrary: x)
  case (Suc n)
  let ?y = "x\<lparr>xt_sub := ch_say w ((xt_sub x)\<lparr>ch_script := replicate n (Hit 1, b) @ sc, ch_buffer := b\<rparr>)\<rparr>"
  have "ext_login (replicate (Suc n) (Hit 1, b) @ sc) x = ext_login (replicate n (Hit 1, b) @ sc) ?y"
    using Suc.prems by (simp add: Let_def)
  moreover have "ch_sent (xt_sub ?y) = ch_sent (xt_sub x) @ [w]" by (simp add: ch_say_def)
  ultimately show ?case using Suc.IH [of ?y] Suc.prems by auto
qed auto

section \<open>Clones\<close>

text \<open>A channel that has a key cannot be cloned: the clone is given the option with the key instead of the file.\<close>

theorem clone_with_key_fails:
  assumes "set_ssh_key isfile k c = (Inr (), d)" and "\<not> isfile ('' -i '' @ k)"
  shows "fst (ssh_clone isfile i sc d) = Inl (No_key_file ('' -i '' @ k))"
proof -
  have "ch_key d = '' -i '' @ k"
    using assms(1) by (auto simp: set_ssh_key_def done_with_def split: if_splits)
  then show ?thesis
    using assms(2)
    by (simp add: ssh_clone_def Let_def enable_x11_forwarding_def set_ssh_key_def channel_new_def ch_opened_def done_with_def)
qed

lemma clone_with_key_fails_witness:
  "\<exists>d. set_ssh_key (\<lambda>f. f = ''id_rsa'') ''id_rsa'' (demo_channel []) = (Inr (), d) \<and>
     fst (ssh_clone (\<lambda>f. f = ''id_rsa'') ''c2'' [(Hit 8, [])] d) = Inl (No_key_file '' -i id_rsa'')"
proof -
  let ?f = "\<lambda>f. f = ''id_rsa''"
  obtain d where "set_ssh_key ?f ''id_rsa'' (demo_channel []) = (Inr (), d)"
    by (simp add: set_ssh_key_def done_with_def)
  then show ?thesis
    using clone_with_key_fails [of ?f "''id_rsa''" "demo_channel []" d "''c2''" "[(Hit 8, [])]"] by auto
qed

lemma clone_repeats_subsystem:
  "ch_subsystem (snd (ssh_clone isfile i sc ((set_ssh_subsystem w c)\<lparr>ch_key := [], ch_proc := False\<rparr>))) = '' -s '' @ '' -s '' @ w"
  by (simp add: ssh_clone_def Let_def enable_x11_forwarding_def set_ssh_subsystem_def channel_new_def ch_opened_def done_with_def)

text \<open>An extension that was never opened gives its own lock back, but not that of the channel under it.\<close>

lemma unopened_extension_keeps_lock:
  "ext_new i e c = Inr x \<Longrightarrow> ch_used (xt_sub (ext_close x)) \<and> \<not> xt_used (ext_close x)"
  by (auto simp: ext_new_def ext_close_def ch_lock_def done_with_def split: if_splits)

section \<open>Copies\<close>

lemma scp_step:
  assumes "tries \<le> 3"
  obtains (again) t ws where "scp_loop host pw ((h, before) # sc) tries sent = scp_loop host pw sc t (sent @ ws)" "t \<le> 3"
      "length (filter (\<lambda>w. w \<noteq> ''yes'') ws) + tries \<le> t"
  | (raises) e ws where "scp_loop host pw ((h, before) # sc) tries sent = (Inl e, sent @ ws)" "length ws + tries \<le> 4"
  | (copied) "scp_loop host pw ((h, before) # sc) tries sent = (Inr True, sent)" "h = Ended" "contains ''100%'' before"
      "\<not> contains ''Permission denied'' before" "\<not> contains ''lost connection'' before" "\<not> contains ''o such file'' before"
proof (cases h)
  case (Hit i)
  consider "i = 0" | "i = 1" | "i = 2" | "i > 2" by linarith
  then show thesis
  proof cases
    case 1
    then show thesis using Hit assms by (intro again [of tries "[''yes'']"]) (simp_all add: Let_def)
  next
    case 2
    show thesis
    proof (cases pw)
      case None
      then show thesis using 2 Hit assms by (intro raises [of _ "[]"]) (simp_all add: Let_def)
    next
      case (Some w)
      show thesis
      proof (cases "tries = 3")
        case True
        then show thesis using 2 Hit Some by (intro raises [of _ "[w]"]) (simp_all add: Let_def)
      next
        case False
        then show thesis using 2 Hit Some assms by (intro again [of "tries + 1" "[w]"]) (simp_all add: Let_def)
      qed
    qed
  qed (use Hit assms in \<open>auto simp: Let_def intro: raises [of _ "[]"]\<close>)
next
  case Timed_out
  then show thesis using assms by (intro raises [of _ "[]"]) (simp_all add: Let_def)
next
  case Ended
  show thesis
  proof (cases "contains ''Permission denied'' before \<or> contains ''lost connection'' before \<or>
      contains ''o such file'' before \<or> \<not> contains ''100%'' before")
    case True
    then have "\<exists>e. scp_loop host pw ((h, before) # sc) tries sent = (Inl e, sent)"
      using Ended by (auto simp: Let_def)
    then show thesis using assms raises [of _ "[]"] by auto
  next
    case False
    then show thesis using Ended by (intro copied) (simp_all add: Let_def)
  qed
qed

lemma scp_loop_outcome:
  "tries \<le> 3 \<Longrightarrow> scp_loop host pw sc tries sent = (r, sent') \<Longrightarrow>
     length (filter (\<lambda>w. w \<noteq> ''yes'') sent') + tries \<le> length (filter (\<lambda>w. w \<noteq> ''yes'') sent) + 4 \<and>
     (\<forall>b. r = Inr b \<longrightarrow> b \<and> (\<exists>before. (Ended, before) \<in> set sc \<and> contains ''100%'' before \<and>
        \<not> contains ''Permission denied'' before \<and> \<not> contains ''lost connection'' before \<and> \<not> contains ''o such file'' before))"
proof (induction sc arbitrary: tries sent)
  case (Cons hb sc)
  obtain h b where hb: "hb = (h, b)" by (cases hb)
  from Cons.prems(1) show ?case
  proof (cases rule: scp_step [of tries host pw h b sc sent])
    case (again t ws)
    then have "scp_loop host pw sc t (sent @ ws) = (r, sent')" using Cons.prems(2) hb by simp
    from Cons.IH [OF again(2) this] show ?thesis using again(3) by auto
  next
    case (raises e ws)
    then have "sent' = sent @ ws" "\<forall>b. r \<noteq> Inr b" using Cons.prems(2) hb by auto
    moreover have "length (filter (\<lambda>w. w \<noteq> ''yes'') ws) \<le> length ws" by simp
    ultimately show ?thesis using raises(2) by (simp del: length_filter_le)
  next
    case copied
    then show ?thesis using Cons.prems hb by auto
  qed
qed auto

text \<open>A copy gives the password four times at most, and reports success only when the process has ended with
  the text of a complete copy and without a text of failure.\<close>

theorem scp_outcome:
  assumes "scp sc c = (r, sent)"
  shows "length (filter (\<lambda>w. w \<noteq> ''yes'') sent) \<le> 4 \<and>
    (\<forall>b. r = Inr b \<longrightarrow> b \<and> (\<exists>before. (Ended, before) \<in> set sc \<and> contains ''100%'' before \<and>
       \<not> contains ''Permission denied'' before \<and> \<not> contains ''lost connection'' before \<and> \<not> contains ''o such file'' before))"
  using scp_loop_outcome [OF _ assms [unfolded scp_def]] by auto

lemma scp_outcome_witness:
  "scp [(Hit 1, []), (Ended, ''f 100%'')] (demo_channel []) = (Inr True, [''secret'']) \<and>
     length (filter (\<lambda>w. w \<noteq> ''yes'') [''secret'']) \<le> 4"
proof -
  have "scp [(Hit 1, []), (Ended, ''f 100%'')] (demo_channel []) = (Inr True, [''secret''])"
    by (simp add: scp_def demo_channel_def demo_endpoint_def channel_new_def startswith_def)
  then show ?thesis
    using scp_outcome [of "[(Hit 1, []), (Ended, ''f 100%'')]" "demo_channel []"] by blast
qed

end
