(* ===== verification/Session_Turns.thy ===== *)
theory Session_Turns
  imports Session_Props
begin

text \<open>
  The loops of a session end: the contract of a channel whose output is finite, and what follows for the questions of
  \<open>CBASignmcli\<close> and for commands with questions.
\<close>

section \<open>Channels with a finite output\<close>

text \<open>\<open>left\<close>: how many matches are left.\<close>

locale finite_output =
  fixes ops :: "'c channel_class" and left :: "'c \<Rightarrow> nat"
  assumes matched: "cc_expect ops timed n c = (Inr (Hit i), d) \<Longrightarrow> left d < left c"
    and waited: "cc_expect ops timed n c = (r, d) \<Longrightarrow> left d \<le> left c"
    and wrote: "cc_write ops w c = (q, d) \<Longrightarrow> left d \<le> left c"
    and came: "cc_open ops c = (q, d) \<Longrightarrow> left d \<le> left c"

context finite_output begin

lemma say_left: "say_line ops w s = (r, t) \<Longrightarrow> left (se_channel t) \<le> left (se_channel s)"
  by (auto simp: say_line_def on_channel_def split: prod.splits dest: wrote)

lemma wait_left:
  "wait_match ops timed n s = (r, t) \<Longrightarrow>
     left (se_channel t) \<le> left (se_channel s) \<and> (\<forall>i. r = Inr (Hit i) \<longrightarrow> left (se_channel t) < left (se_channel s))"
  by (auto simp: wait_match_def on_channel_def split: prod.splits dest: waited matched)

lemma ensure_left: "ensure_open ops s = (r, t) \<Longrightarrow> left (se_channel t) \<le> left (se_channel s)"
  by (auto simp: ensure_open_def on_channel_def done_with_def andthen_def split: prod.splits sum.splits if_splits dest: came)

lemma questions_end:
  "left (se_channel s) < n \<Longrightarrow> signmcli_questions ops n s \<noteq> (Inr False, t)"
proof (induction n arbitrary: s)
  case (Suc n)
  show ?case
  proof
    assume "signmcli_questions ops (Suc n) s = (Inr False, t)"
    then obtain h u where h: "wait_match ops False 2 s = (Inr h, u)"
      and r: "(case h of Hit 0 \<Rightarrow> (Inr True, u)
        | Hit (Suc 0) \<Rightarrow> andthen (say_line ops ''no'' u) (\<lambda>_. signmcli_questions ops n)
        | _ \<Rightarrow> (Inl not_opened, u)) = (Inr False, t)"
      unfolding signmcli_questions.simps andthen_Inr by blast
    from r have "h = Hit (Suc 0)"
      by (simp split: hit.splits nat.splits)
    then obtain v where u: "wait_match ops False 2 s = (Inr (Hit (Suc 0)), u)" and v: "say_line ops ''no'' u = (Inr (), v)"
      and l: "signmcli_questions ops n v = (Inr False, t)"
      using h r by (auto simp: andthen_Inr)
    have "left (se_channel v) < n"
      using wait_left [OF u] say_left [OF v] Suc.prems by simp
    from Suc.IH [OF this] l show False by simp
  qed
qed simp

text \<open>Opening ends for every class of sessions.\<close>

lemma open_ends:
  assumes "left (se_channel s) < fuel"
  shows "session_open fuel ops s \<noteq> (Inr False, t)"
proof (cases "se_kind s = CBASignmcli")
  case False
  have "returned p \<noteq> (Inr False, t)" for p :: "unit conn \<times> 'c session"
    by (auto simp: returned_def andthen_Inr)
  then show ?thesis
    using False by (cases "se_kind s") (simp_all add: session_open_def)
next
  case True
  show ?thesis
  proof
    assume "session_open fuel ops s = (Inr False, t)"
    then obtain u v w x where "ensure_open ops s = (Inr (), u)" "say_line ops ''stty -echo'' u = (Inr (), v)"
      "say_line ops ''/opt/sign/bin/ss7caf-sm-cli'' v = (Inr (), w)" "signmcli_questions ops fuel w = (Inr False, x)"
      using True by (auto simp: session_open_def open_cba_signmcli_def andthen_Inr split: if_splits)
    moreover have "left (se_channel w) < fuel"
      using calculation(1-3) assms by (fastforce dest: ensure_left say_left)
    ultimately show False using questions_end by blast
  qed
qed

text \<open>One turn of the loop over the questions of a command that asks another one.\<close>

lemma turn_goes_on:
  assumes "optional_loop ops sync answers (Suc n) queries s = (Inr None, t)"
  obtains q u where "q \<in> set queries" "left (se_channel u) < left (se_channel s)"
    "if sync then optional_loop ops sync answers n queries u = (Inr None, t)
     else remove1 q queries \<noteq> [] \<and> optional_loop ops sync answers n (remove1 q queries) u = (Inr None, t)"
proof -
  let ?m = "length queries + (if sync then 1 else 0)"
  let ?reply = "\<lambda>i u. case map_of answers (queries ! i) of Some (Some w) \<Rightarrow> say_line ops w u | _ \<Rightarrow> done_with u"
  let ?next = "\<lambda>i v. if sync then optional_loop ops sync answers n queries v
    else let qs = remove1 (queries ! i) queries in if qs = [] then (Inr (Some None), v) else optional_loop ops sync answers n qs v"
  from assms obtain h u where h: "wait_match ops True ?m s = (Inr h, u)"
    and rest: "(case h of Timed_out \<Rightarrow> (Inl Failed_timeout, u) | Ended \<Rightarrow> (Inl Failed_eof, u)
        | Hit i \<Rightarrow> if i < length queries then andthen (?reply i u) (\<lambda>_. ?next i)
            else (Inr (Some (Some (cc_stdout ops (se_channel u)))), u)) = (Inr None, t)"
    by (auto simp: andthen_Inr split: if_splits)
  obtain i where i: "h = Hit i" "i < length queries"
    using rest by (cases h) (auto split: if_splits)
  then obtain v where v: "?reply i u = (Inr (), v)" and l: "?next i v = (Inr None, t)"
    using rest by (auto simp: andthen_Inr)
  have "left (se_channel v) \<le> left (se_channel u)"
    using v by (auto simp: done_with_def split: option.splits dest: say_left)
  then show thesis
    using that [of "queries ! i" v] i wait_left [OF h] l by (auto simp: Let_def split: if_splits)
qed

lemma loop_ends:
  "left (se_channel s) < n \<or> \<not> sync \<and> length queries < n \<Longrightarrow> optional_loop ops sync answers n queries s \<noteq> (Inr None, t)"
proof (induction n arbitrary: queries s)
  case (Suc n)
  show ?case
  proof
    assume "optional_loop ops sync answers (Suc n) queries s = (Inr None, t)"
    then obtain q u where q: "q \<in> set queries" "left (se_channel u) < left (se_channel s)"
      and l: "if sync then optional_loop ops sync answers n queries u = (Inr None, t)
        else remove1 q queries \<noteq> [] \<and> optional_loop ops sync answers n (remove1 q queries) u = (Inr None, t)"
      by (rule turn_goes_on)
    have "length (remove1 q queries) < length queries"
      using q(1) length_pos_if_in_set [OF q(1)] by (simp add: length_remove1)
    then show False
      using Suc.IH [of u queries] Suc.IH [of u "remove1 q queries"] Suc.prems q(2) l by (cases sync) auto
  qed
qed simp

lemma line_left: "sendline ops sync line s = (r, t) \<Longrightarrow> left (se_channel t) \<le> left (se_channel s)"
  by (fastforce simp: sendline_def andthen_def done_with_def split: prod.splits sum.splits if_splits
      dest!: say_left wait_left)

lemma command_ends:
  assumes "left (se_channel s) < n"
  shows "sendoptionallines n ops sync answers line s \<noteq> (Inr None, t)"
proof
  assume "sendoptionallines n ops sync answers line s = (Inr None, t)"
  then obtain v u where u: "sendline ops False line s = (Inr v, u)" "optional_loop ops sync answers n (dict_keys answers) u = (Inr None, t)"
    by (auto simp: sendoptionallines_def andthen_Inr)
  then show False
    using line_left [OF u(1)] assms loop_ends [of u n sync "dict_keys answers" answers t] by simp
qed

end

section \<open>The classes of channels\<close>

lemma next_hit_left:
  "next_hit n sc = ((h, b), sc') \<Longrightarrow> length sc' \<le> length sc \<and> (\<forall>i. h = Hit i \<longrightarrow> length sc' < length sc)"
  by (cases "(n, sc)" rule: next_hit.cases) auto

lemma ch_expect_left:
  "ch_expect n c = (r, d) \<Longrightarrow> script_left d \<le> script_left c \<and> (\<forall>i. r = Inr (Hit i) \<longrightarrow> script_left d < script_left c)"
  by (auto simp: ch_expect_def script_left_def split: if_splits prod.splits dest: next_hit_left)

lemma ssh_login_left: "ssh_login g sc c = (r, d) \<Longrightarrow> script_left d \<le> length sc"
proof (induction g sc c arbitrary: r d rule: ssh_login.induct)
  case (2 g h b sc c)
  then show ?case
    by (fastforce simp: Let_def channel_ops script_left_def split: hit.splits if_splits option.splits)
qed (auto simp: channel_ops script_left_def)

lemma ssh_open_left: "ssh_open c = (r, d) \<Longrightarrow> script_left d \<le> script_left c"
  using ssh_login_left
  by (fastforce simp: ssh_open_def Let_def done_with_def ch_spawn_def script_left_def split: if_splits sum.splits)

interpretation ssh_output: finite_output ssh_class script_left
  by (unfold_locales, unfold class_simps)
    (auto dest: ch_expect_left ssh_open_left simp: ch_write_def ch_say_def done_with_def script_left_def split: if_splits)

lemma telnet_open_left: "telnet_open c = (r, d) \<Longrightarrow> script_left d \<le> script_left c"
  by (fastforce simp: telnet_open_def ch_wait_def channel_ops script_left_def Let_def split: if_splits prod.splits
      dest!: next_hit_left)

interpretation telnet_output: finite_output telnet_class script_left
  by (unfold_locales, unfold class_simps)
    (auto dest: ch_expect_left telnet_open_left simp: telnet_expect_def ch_write_def ch_say_def done_with_def script_left_def
      split: if_splits)

lemma ext_login_left: "ext_login sc x = (r, y) \<Longrightarrow> ext_left y \<le> length sc"
proof (induction sc arbitrary: x)
  case (Cons hb sc)
  obtain h b where hb: "hb = (h, b)" by (cases hb)
  show ?case
  proof (cases rule: ext_login_step [of h b sc x])
    case (again c)
    then show ?thesis using Cons hb by fastforce
  qed (use Cons.prems hb in \<open>auto simp: ext_left_def script_left_def\<close>)
qed (auto simp: ext_left_def script_left_def script_close)

lemma sub_left:
  "on_sub f x = (r, y) \<Longrightarrow> (\<And>q d. f (xt_sub x) = (q, d) \<Longrightarrow> script_left d \<le> script_left (xt_sub x)) \<Longrightarrow> ext_left y \<le> ext_left x"
  by (auto simp: on_sub_def ext_left_def split: prod.splits)

lemma write_left: "ch_write w c = (r, d) \<Longrightarrow> script_left d \<le> script_left c"
  by (auto simp: ch_write_def ch_say_def done_with_def script_left_def split: if_splits)

lemma ext_open_left:
  assumes "ext_open x = (r, y)"
  shows "ext_left y \<le> ext_left x"
proof (cases "xt_flag x")
  case True
  then show ?thesis using assms by (simp add: ext_open_def done_with_def)
next
  case False
  obtain r1 x1 where p1: "(if ch_opened (xt_sub x) then done_with x else on_sub ssh_open x) = (r1, x1)"
    by (cases "if ch_opened (xt_sub x) then done_with x else on_sub ssh_open x :: unit conn \<times> extension")
  then have x1: "ext_left x1 \<le> ext_left x"
    by (auto simp: done_with_def split: if_splits dest: sub_left [OF _ ssh_open_left])
  show ?thesis
  proof (cases "\<exists>u p. r1 = Inr u \<and> int_of_port (xt_ep x1) = Inr p")
    case stop: False
    then show ?thesis
      using assms False p1 x1 by (cases r1) (auto simp: ext_open_def split: sum.splits)
  next
    case True
    then obtain p where p: "r1 = Inr ()" "int_of_port (xt_ep x1) = Inr p" by auto
    define cmd where "cmd = ssh_command (xt_key x1) (xt_x11 x1) [] (ch_timeout (xt_sub x1)) p (xt_ep x1)"
    obtain r2 x2 where p2: "on_sub (ch_write cmd) x1 = (r2, x2)" by (cases "on_sub (ch_write cmd) x1")
    then have x2: "ext_left x2 \<le> ext_left x1" by (rule sub_left) (rule write_left)
    have "ext_open x = (case r2 of Inl e \<Rightarrow> (Inl e, x2) | Inr _ \<Rightarrow> ext_login (ch_script (xt_sub x2)) x2)"
      using False p1 p p2 by (simp add: ext_open_def cmd_def andthen_def)
    then have "ext_left y \<le> ext_left x2"
      using assms ext_login_left [of "ch_script (xt_sub x2)" x2 r y] by (cases r2) (auto simp: ext_left_def script_left_def)
    then show ?thesis using x1 x2 by simp
  qed
qed

lemma ext_expect_left:
  assumes "ext_expect n x = (r, y)"
  shows "ext_left y \<le> ext_left x \<and> (\<forall>i. r = Inr (Hit i) \<longrightarrow> ext_left y < ext_left x)"
proof -
  obtain q d where "ch_expect n (xt_sub x) = (q, d)" by (cases "ch_expect n (xt_sub x)")
  with ch_expect_left [OF this] assms show ?thesis
    by (cases q) (auto simp: ext_expect_def on_sub_def ext_left_def script_left_def)
qed

lemma ext_write_left:
  assumes "ext_write w x = (r, y)"
  shows "ext_left y \<le> ext_left x"
  using assms
  by (auto simp: ext_write_def andthen_def done_with_def split: if_splits prod.splits sum.splits
      dest!: sub_left [OF _ write_left] ext_expect_left)

interpretation ext_output: finite_output ext_class ext_left
  by (unfold_locales, unfold class_simps) (auto dest: ext_expect_left ext_open_left ext_write_left)

section \<open>Commands with questions\<close>

definition answer_lines :: "(string, string option) dict \<Rightarrow> string \<Rightarrow> string list" where
  "answer_lines answers q = (case map_of answers q of Some (Some w) \<Rightarrow> [w] | _ \<Rightarrow> [])"

text \<open>One turn of the loop over a channel by \<open>ssh\<close>.\<close>

lemma ssh_await:
  "wait_match ssh_class timed n s = (Inr h, t) \<Longrightarrow>
     ch_sent (se_channel t) = ch_sent (se_channel s) \<and>
     (case ch_script (se_channel s) of [] \<Rightarrow> h = Timed_out \<and> ch_script (se_channel t) = []
        | x # sc \<Rightarrow> ch_script (se_channel t) = sc)"
  by (cases "ch_script (se_channel s)")
    (auto simp: wait_match_def on_channel_def class_simps ch_expect_def split: prod.splits if_splits)

lemma ssh_say:
  "say_line ssh_class w s = (Inr v, t) \<Longrightarrow>
     ch_sent (se_channel t) = ch_sent (se_channel s) @ [w] \<and> ch_script (se_channel t) = ch_script (se_channel s)"
  by (auto simp: say_line_def on_channel_def class_simps ch_write_def ch_say_def done_with_def split: prod.splits if_splits)

lemma ssh_answer:
  "(case map_of answers q of Some (Some w) \<Rightarrow> say_line ssh_class w s | _ \<Rightarrow> done_with s) = (Inr v, t) \<Longrightarrow>
     ch_sent (se_channel t) = ch_sent (se_channel s) @ answer_lines answers q \<and> ch_script (se_channel t) = ch_script (se_channel s)"
  by (auto simp: answer_lines_def done_with_def dest: ssh_say split: option.splits)

text \<open>What a turn does that does not raise.\<close>

lemma optional_turn:
  assumes "optional_loop ssh_class sync answers (Suc n) queries s = (Inr r, t)" and "sync \<or> queries \<noteq> []"
  obtains (prompt) "r \<noteq> None" "ch_sent (se_channel t) = ch_sent (se_channel s)"
  | (question) q u where "q \<in> set queries" "ch_sent (se_channel u) = ch_sent (se_channel s) @ answer_lines answers q"
      "ch_script (se_channel s) \<noteq> []" "ch_script (se_channel u) = tl (ch_script (se_channel s))"
      "(if sync then optional_loop ssh_class sync answers n queries u
        else if remove1 q queries = [] then (Inr (Some None), u)
        else optional_loop ssh_class sync answers n (remove1 q queries) u) = (Inr r, t)"
proof -
  let ?m = "length queries + (if sync then 1 else 0)"
  from assms obtain h u where h: "wait_match ssh_class True ?m s = (Inr h, u)"
    and rest: "(case h of Timed_out \<Rightarrow> (Inl Failed_timeout, u) | Ended \<Rightarrow> (Inl Failed_eof, u)
        | Hit i \<Rightarrow> if i < length queries then
              andthen (case map_of answers (queries ! i) of Some (Some w) \<Rightarrow> say_line ssh_class w u | _ \<Rightarrow> done_with u) (\<lambda>_ s.
                if sync then optional_loop ssh_class sync answers n queries s
                else let qs = remove1 (queries ! i) queries
                  in if qs = [] then (Inr (Some None), s) else optional_loop ssh_class sync answers n qs s)
            else (Inr (Some (Some (cc_stdout ssh_class (se_channel u)))), u)) = (Inr r, t)"
    by (auto simp: andthen_Inr split: if_splits)
  note u = ssh_await [OF h]
  show thesis
  proof (cases h)
    case (Hit i)
    then have script: "ch_script (se_channel s) \<noteq> []" "ch_script (se_channel u) = tl (ch_script (se_channel s))"
      using u by (auto split: list.splits)
    show thesis
    proof (cases "i < length queries")
      case True
      then obtain v where v: "(case map_of answers (queries ! i) of Some (Some w) \<Rightarrow> say_line ssh_class w u | _ \<Rightarrow> done_with u) = (Inr (), v)"
        and l: "(if sync then optional_loop ssh_class sync answers n queries v
            else let qs = remove1 (queries ! i) queries
              in if qs = [] then (Inr (Some None), v) else optional_loop ssh_class sync answers n qs v) = (Inr r, t)"
        using rest Hit by (auto simp: andthen_Inr)
      show thesis
        using ssh_answer [OF v] u script True l by (intro question [of "queries ! i" v]) (auto simp: Let_def)
    next
      case False
      then show thesis using rest Hit u by (intro prompt) auto
    qed
  qed (use rest in auto)
qed

lemma optional_answers:
  "optional_loop ssh_class False answers n queries s = (Inr r, t) \<Longrightarrow> distinct queries \<Longrightarrow>
     \<exists>qs. distinct qs \<and> set qs \<subseteq> set queries \<and>
       ch_sent (se_channel t) = ch_sent (se_channel s) @ concat (map (answer_lines answers) qs)"
proof (induction n arbitrary: queries s)
  case (Suc n)
  show ?case
  proof (cases "queries = []")
    case True
    then show ?thesis using Suc.prems by auto
  next
    case False
    from Suc.prems(1) show ?thesis
    proof (rule optional_turn)
      show "False \<or> queries \<noteq> []" using False by simp
    next
      fix q u
      assume q: "q \<in> set queries" "ch_sent (se_channel u) = ch_sent (se_channel s) @ answer_lines answers q"
        and l: "(if False then optional_loop ssh_class False answers n queries u
          else if remove1 q queries = [] then (Inr (Some None), u)
          else optional_loop ssh_class False answers n (remove1 q queries) u) = (Inr r, t)"
      show ?thesis
      proof (cases "remove1 q queries = []")
        case True
        then show ?thesis using q l by (intro exI [of _ "[q]"]) simp
      next
        case False
        then obtain qs where "distinct qs" "set qs \<subseteq> set (remove1 q queries)"
          "ch_sent (se_channel t) = ch_sent (se_channel u) @ concat (map (answer_lines answers) qs)"
          using Suc.IH [of "remove1 q queries" u] Suc.prems(2) l by auto
        then show ?thesis
          using q Suc.prems(2) by (intro exI [of _ "q # qs"]) auto
      qed
    qed (auto intro: exI [of _ "[]"])
  qed
qed (auto intro: exI [of _ "[]"])

lemma ssh_sendline:
  assumes "sendline ssh_class False line s = (Inr v, t)"
  shows "ch_sent (se_channel t) = ch_sent (se_channel s) @ [line] \<and>
    length (ch_script (se_channel t)) \<le> length (ch_script (se_channel s))"
  using assms
  by (auto simp: sendline_def andthen_Inr done_with_def dest!: ssh_say ssh_await split: if_splits list.splits)

text \<open>A command with questions ends: turns for what the process prints are enough. When it does not wait for the prompt, it
  sends the command and then answers each question once at most.\<close>

theorem optional_lines_end:
  assumes "length (ch_script (se_channel s)) < fuel"
    and "sendoptionallines fuel ssh_class synchronous answers line s = (Inr r, t)"
  shows "r \<noteq> None \<and> (\<not> synchronous \<and> distinct (dict_keys answers) \<longrightarrow>
    (\<exists>qs. distinct qs \<and> set qs \<subseteq> set (dict_keys answers) \<and>
       ch_sent (se_channel t) = ch_sent (se_channel s) @ line # concat (map (answer_lines answers) qs)))"
proof -
  obtain v u where u: "sendline ssh_class False line s = (Inr v, u)"
    and l: "optional_loop ssh_class synchronous answers fuel (dict_keys answers) u = (Inr r, t)"
    using assms(2) by (auto simp: sendoptionallines_def andthen_Inr)
  have "r \<noteq> None"
    using ssh_output.command_ends [of s fuel synchronous answers line t] assms by (auto simp: script_left_def)
  then show ?thesis
    using optional_answers [of answers fuel "dict_keys answers" u r t] l ssh_sendline [OF u] by auto
qed

definition demo_session :: "script \<Rightarrow> channel session" where
  "demo_session sc =
     \<lparr>se_channel = (demo_channel sc)\<lparr>ch_used := True, ch_proc := True, ch_flag := True\<rparr>, se_kind = StandardLinux,
      se_config = default_config, se_autoclose = True, se_ready = True, se_echo = False\<rparr>"

lemma optional_lines_end_witness:
  "\<exists>t. sendoptionallines 5 ssh_class False [(''Sure?'', Some ''y'')] ''rm -i f'' (demo_session [(Hit 0, [])]) = (Inr (Some None), t) \<and>
     ch_sent (se_channel t) \<in> {[''rm -i f''], [''rm -i f'', ''y'']}"
proof -
  let ?s = "demo_session [(Hit 0, [])]" and ?a = "[(''Sure?'', Some ''y'')]"
  have "\<exists>t. sendoptionallines 5 ssh_class False ?a ''rm -i f'' ?s = (Inr (Some None), t)"
    by (simp add: sendoptionallines_def sendline_def numeral_eq_Suc say_line_def wait_match_def on_channel_def demo_session_def demo_simps)
  then obtain t where t: "sendoptionallines 5 ssh_class False ?a ''rm -i f'' ?s = (Inr (Some None), t)" by blast
  have "length (ch_script (se_channel ?s)) < 5"
    by (simp add: demo_session_def demo_channel_def channel_new_def)
  from optional_lines_end [OF this t] obtain qs where "distinct qs" "set qs \<subseteq> {''Sure?''}"
    "ch_sent (se_channel t) = ch_sent (se_channel ?s) @ ''rm -i f'' # concat (map (answer_lines ?a) qs)"
    by auto
  moreover have "qs = [] \<or> qs = [''Sure?'']"
    using calculation(1,2) by (cases qs; cases "tl qs") auto
  ultimately show ?thesis
    using t by (auto simp: answer_lines_def demo_session_def demo_channel_def channel_new_def)
qed

end
