(* ===== verification/Node_Props.thy ===== *)
theory Node_Props
  imports Nodes Session_Turns
begin

text \<open>
  Properties of the connections of a node: the tree of connections stays a tree, closing one closes exactly what was
  extended from it, and what a failed \<open>open\<close> leaves.
\<close>

section \<open>The tree of connections\<close>

text \<open>Names and children, in the order of the dictionary.\<close>

definition shape_of :: "(string, conn_entry) dict \<Rightarrow> (string \<times> string list) list" where
  "shape_of d = map (\<lambda>(k, e). (k, childs e)) d"

abbreviation shape :: "node_state \<Rightarrow> (string \<times> string list) list" where
  "shape n \<equiv> shape_of (nd_connections n)"

text \<open>A connection comes before those that were extended from it.\<close>

fun forward :: "(string \<times> string list) list \<Rightarrow> bool" where
  "forward [] \<longleftrightarrow> True"
| "forward ((k, cs) # d) \<longleftrightarrow> k \<notin> set cs \<and> (\<forall>(j, ds) \<in> set d. k \<noteq> j \<and> k \<notin> set ds) \<and> forward d"

fun rank :: "(string \<times> string list) list \<Rightarrow> string \<Rightarrow> nat" where
  "rank [] i = 0"
| "rank ((k, cs) # d) i = (if k = i then Suc (length d) else rank d i)"

lemma rank_bound: "rank d i \<le> length d"
  by (induction d i rule: rank.induct) auto

lemma rank_absent: "i \<notin> set (map fst d) \<Longrightarrow> rank d i = 0"
  by (induction d i rule: rank.induct) auto

lemma rank_child: "forward d \<Longrightarrow> map_of d i = Some cs \<Longrightarrow> c \<in> set cs \<Longrightarrow> rank d c < rank d i"
proof (induction d i rule: rank.induct)
  case (2 k ds d i)
  show ?case
  proof (cases "k = i")
    case True
    then have "k \<noteq> c" using 2 by auto
    then show ?thesis using True rank_bound [of d c] by simp
  next
    case False
    have "map_of d i = Some cs" using 2 False by simp
    moreover from this have "(i, cs) \<in> set d" by (rule map_of_SomeD)
    ultimately have "k \<noteq> c" using 2 by fastforce
    then show ?thesis using False 2 \<open>map_of d i = Some cs\<close> by simp
  qed
qed simp

lemma forward_distinct: "forward d \<Longrightarrow> distinct (map fst d)"
  by (induction d rule: forward.induct) fastforce+

lemma forward_filter: "forward d \<Longrightarrow> forward (filter P d)"
  by (induction d rule: forward.induct) auto

lemma rank_filter: "rank (filter (\<lambda>x. P (fst x)) d) i \<le> rank d i"
proof (induction d i rule: rank.induct)
  case (2 k cs d i)
  have "rank (filter (\<lambda>x. P (fst x)) d) i \<le> length d"
    using rank_bound by (rule le_trans) simp
  moreover have "length (filter (\<lambda>x. P (fst x)) d) \<le> length d" by simp
  ultimately show ?case using 2 by (auto simp: le_SucI simp del: length_filter_le)
qed simp

lemma forward_append: "forward d \<Longrightarrow> k \<notin> set (map fst d) \<Longrightarrow> forward (d @ [(k, [])])"
  by (induction d rule: forward.induct) auto

lemma forward_child:
  "forward d \<Longrightarrow> k \<notin> set (map fst d) \<Longrightarrow> forward (map (\<lambda>(j, cs). (j, if j = p then cs @ [k] else cs)) d)"
  by (induction d rule: forward.induct) (auto split: if_splits)

lemma shape_keys: "map fst (shape_of d) = dict_keys d"
  by (induction d) (auto simp: shape_of_def)

lemma map_of_shape: "map_of (shape_of d) i = map_option childs (map_of d i)"
  by (induction d) (auto simp: shape_of_def)

lemma shape_dict_map: "(\<And>k e. childs (f k e) = childs e) \<Longrightarrow> shape_of (dict_map f d) = shape_of d"
  by (auto simp: shape_of_def dict_map_def)

lemma shape_del: "shape_of (dict_del i d) = filter (\<lambda>x. fst x \<noteq> i) (shape_of d)"
  by (induction d) (auto simp: shape_of_def)

lemma shape_set_new: "i \<notin> set (dict_keys d) \<Longrightarrow> shape_of (dict_set i e d) = shape_of d @ [(i, childs e)]"
  by (induction d) (auto simp: shape_of_def)

lemma shape_set_same: "map_of d i = Some e \<Longrightarrow> childs e' = childs e \<Longrightarrow> shape_of (dict_set i e' d) = shape_of d"
  by (induction d) (auto simp: shape_of_def split: if_splits)

lemma shape_set_childs:
  "distinct (dict_keys d) \<Longrightarrow> map_of d i = Some e \<Longrightarrow>
     shape_of (dict_set i e' d) = map (\<lambda>(j, cs). (j, if j = i then childs e' else cs)) (shape_of d)"
proof (induction d)
  case (Cons kv d)
  obtain k v where kv: "kv = (k, v)" by (cases kv)
  show ?case
  proof (cases "k = i")
    case True
    then have "\<forall>(j, w) \<in> set d. j \<noteq> i" using Cons.prems kv by force
    then have "map (\<lambda>(j, cs). (j, if j = i then childs e' else cs)) (shape_of d) = shape_of d"
      unfolding shape_of_def by (auto intro!: map_idI)
    then show ?thesis using True kv by (simp add: shape_of_def)
  next
    case False
    then show ?thesis using Cons kv by (simp add: shape_of_def)
  qed
qed simp

section \<open>Closing\<close>

lemma all_of_invariant:
  "all_of f xs s = Some t \<Longrightarrow> P s \<Longrightarrow> (\<And>x s t. x \<in> set xs \<Longrightarrow> P s \<Longrightarrow> f x s = Some t \<Longrightarrow> P t) \<Longrightarrow> P t"
proof (induction xs arbitrary: s)
  case (Cons x xs)
  then obtain u where u: "f x s = Some u" "all_of f xs u = Some t" by (auto split: option.splits)
  have "P u" using Cons.prems(2) Cons.prems(3) [OF _ _ u(1)] by simp
  from Cons.IH [OF u(2) this] show ?case using Cons.prems(3) by (meson list.set_intros(2))
qed simp

lemma all_of_ends:
  "P s \<Longrightarrow> (\<And>x s. x \<in> set xs \<Longrightarrow> P s \<Longrightarrow> \<exists>t. f x s = Some t \<and> P t) \<Longrightarrow> \<exists>t. all_of f xs s = Some t \<and> P t"
proof (induction xs arbitrary: s)
  case (Cons x xs)
  obtain u where "f x s = Some u" "P u" using Cons.prems by fastforce
  then show ?case using Cons.IH [of u] Cons.prems(2) by auto
qed simp

lemma childs_closed [simp]: "childs (closed_entry e) = childs e"
  by (simp add: closed_entry_def childs_def)

lemma modify_is_map:
  "distinct (dict_keys d) \<Longrightarrow> dict_modify i f d = dict_map (\<lambda>k v. if k = i then f v else v) d"
proof (induction d)
  case (Cons kv d)
  obtain k v where kv: "kv = (k, v)" by (cases kv)
  have "\<forall>j \<in> set (dict_keys d). j \<noteq> k" using Cons.prems kv by auto
  then have "dict_map (\<lambda>j w. if j = k then f w else w) d = d"
    by (auto simp: dict_map_def intro!: map_idI)
  moreover have "dict_modify i f d = dict_map (\<lambda>k v. if k = i then f v else v) d"
    using Cons by simp
  ultimately show ?case
    using kv by (cases "map_of d i"; cases "k = i") (simp_all add: dict_modify_def dict_map_def)
qed (simp add: dict_modify_def dict_map_def)

text \<open>The connections of \<open>S\<close> are closed, or removed.\<close>

definition with_closed :: "(string \<Rightarrow> bool) \<Rightarrow> node_state \<Rightarrow> node_state" where
  "with_closed S n = n\<lparr>nd_connections := dict_map (\<lambda>k e. if S k then closed_entry e else e) (nd_connections n)\<rparr>"

definition without :: "(string \<Rightarrow> bool) \<Rightarrow> node_state \<Rightarrow> node_state" where
  "without S n = n\<lparr>nd_connections := filter (\<lambda>x. \<not> S (fst x)) (nd_connections n)\<rparr>"

lemma map_of_keys: "map_of (filter (\<lambda>x. P (fst x)) d) k = (if P k then map_of d k else None)"
  by (induction d) auto

definition is_entered :: "string \<Rightarrow> node_state \<Rightarrow> bool" where
  "is_entered k n \<longleftrightarrow> map_of (nd_connections n) k \<noteq> None"

text \<open>What is reached from a connection through children that can be visited.\<close>

inductive reach :: "(string \<Rightarrow> bool) \<Rightarrow> (string \<times> string list) list \<Rightarrow> string \<Rightarrow> string \<Rightarrow> bool" for V d i where
  self: "V i \<Longrightarrow> reach V d i i"
| child: "reach V d i p \<Longrightarrow> map_of d p = Some cs \<Longrightarrow> c \<in> set cs \<Longrightarrow> V c \<Longrightarrow> reach V d i c"

lemma reach_visits: "reach V d i k \<Longrightarrow> V k \<and> V i"
  by (induction rule: reach.induct) auto

lemma reach_rank: "reach V d i k \<Longrightarrow> forward d \<Longrightarrow> rank d k \<le> rank d i"
  by (induction rule: reach.induct) (auto dest: rank_child)

lemma reach_split:
  assumes "V i" and "map_of d i = Some cs"
  shows "reach V d i k \<longleftrightarrow> k = i \<or> (\<exists>c \<in> set cs. reach V d c k)"
proof
  show "reach V d i k \<Longrightarrow> k = i \<or> (\<exists>c \<in> set cs. reach V d c k)"
  proof (induction rule: reach.induct)
    case (child p ds c)
    from child.IH show ?case
    proof
      assume "p = i"
      then show ?thesis using child assms by (auto intro: reach.self)
    next
      assume "\<exists>d' \<in> set cs. reach V d d' p"
      then show ?thesis using child by (blast intro: reach.child)
    qed
  qed simp
next
  have i: "reach V d i i" using assms by (auto intro: reach.self)
  have "reach V d i k" if "c \<in> set cs" "reach V d c k" for c
    using that(2)
  proof (induction rule: reach.induct)
    case self
    show ?case using i that(1) self assms by (auto intro: reach.child)
  qed (blast intro: reach.child)
  then show "k = i \<or> (\<exists>c \<in> set cs. reach V d c k) \<Longrightarrow> reach V d i k" using i by blast
qed

section \<open>Walking down the tree\<close>

text \<open>
  Closing and releasing walk down the tree in the same way. \<open>act S n\<close>: what is done to the connections of \<open>S\<close>; \<open>visit n k\<close>:
  the walk goes into \<open>k\<close>.
\<close>

locale tree_walk =
  fixes act :: "(string \<Rightarrow> bool) \<Rightarrow> node_state \<Rightarrow> node_state" and visit :: "node_state \<Rightarrow> string \<Rightarrow> bool"
  assumes none: "act (\<lambda>_. False) n = n"
    and twice: "(\<And>k. S k \<Longrightarrow> \<not> T k) \<Longrightarrow> act T (act S n) = act (\<lambda>k. S k \<or> T k) n"
    and visited: "visit (act S n) k \<longleftrightarrow> visit n k \<and> \<not> S k"
    and kept: "\<not> S p \<Longrightarrow> map_of (shape (act S n)) p = map_of (shape n) p"
    and lower: "rank (shape (act S n)) k \<le> rank (shape n) k"
    and forward_act: "forward (shape n) \<Longrightarrow> forward (shape (act S n))"

context tree_walk begin

abbreviation reached :: "node_state \<Rightarrow> string \<Rightarrow> string \<Rightarrow> bool" where
  "reached n \<equiv> reach (visit n) (shape n)"

lemma reached_after:
  assumes "\<And>p cs c. S p \<Longrightarrow> map_of (shape n) p = Some cs \<Longrightarrow> c \<in> set cs \<Longrightarrow> visit n c \<Longrightarrow> S c"
  shows "reached (act S n) i k \<Longrightarrow> reached n i k \<and> \<not> S k"
    and "reached n i k \<Longrightarrow> S k \<or> reached (act S n) i k"
proof -
  show "reached (act S n) i k \<Longrightarrow> reached n i k \<and> \<not> S k"
  proof (induction rule: reach.induct)
    case (child p cs c)
    then show ?case using kept [of S p n] by (auto simp: visited intro: reach.child)
  qed (auto simp: visited intro: reach.self)
  show "reached n i k \<Longrightarrow> S k \<or> reached (act S n) i k"
  proof (induction rule: reach.induct)
    case self
    then show ?case by (auto simp: visited intro: reach.self)
  next
    case (child p cs c)
    show ?case
    proof (cases "S c")
      case False
      then have "\<not> S p" using child assms by blast
      then show ?thesis using child False kept [of S p n] by (auto simp: visited intro: reach.child)
    qed simp
  qed
qed

lemma walk_list:
  assumes "\<And>c n. c \<in> set cs \<Longrightarrow> forward (shape n) \<Longrightarrow> rank (shape n) c < f \<Longrightarrow> step c n = Some (act (reached n c) n)"
  shows "forward (shape n) \<Longrightarrow> (\<And>c. c \<in> set cs \<Longrightarrow> rank (shape n) c < f) \<Longrightarrow>
    all_of step cs n = Some (act (\<lambda>k. \<exists>c \<in> set cs. reached n c k) n)"
  using assms
proof (induction cs arbitrary: n)
  case (Cons c cs)
  let ?m = "act (reached n c) n"
  let ?T = "\<lambda>k. \<exists>c' \<in> set cs. reached ?m c' k"
  have closed: "reached n c p \<Longrightarrow> map_of (shape n) p = Some cs' \<Longrightarrow> c' \<in> set cs' \<Longrightarrow> visit n c' \<Longrightarrow> reached n c c'" for p cs' c'
    by (rule reach.child)
  have out: "reached ?m i k \<Longrightarrow> reached n i k \<and> \<not> reached n c k" for i k
    by (rule reached_after(1) [OF closed])
  have stay: "reached n i k \<Longrightarrow> reached n c k \<or> reached ?m i k" for i k
    by (rule reached_after(2) [OF closed])
  have ranks: "rank (shape ?m) c' < f" if "c' \<in> set cs" for c'
    using Cons.prems(2) [of c'] that lower [of "reached n c" n c'] by simp
  have "all_of step cs ?m = Some (act ?T ?m)"
    using Cons.IH [OF forward_act [OF Cons.prems(1)] ranks] Cons.prems(3) by simp
  moreover have "act ?T ?m = act (\<lambda>k. reached n c k \<or> ?T k) n"
    using out by (intro twice) blast
  moreover have "(\<lambda>k. reached n c k \<or> ?T k) = (\<lambda>k. \<exists>c' \<in> set (c # cs). reached n c' k)"
  proof (rule ext)
    fix k
    have "?T k \<Longrightarrow> \<exists>c' \<in> set cs. reached n c' k" using out by blast
    moreover have "c' \<in> set cs \<Longrightarrow> reached n c' k \<Longrightarrow> reached n c k \<or> ?T k" for c' using stay by blast
    ultimately show "(reached n c k \<or> ?T k) = (\<exists>c' \<in> set (c # cs). reached n c' k)" by auto
  qed
  ultimately show ?case using Cons.prems by simp
qed (simp add: none)

text \<open>The children first, then the connection.\<close>

lemma walk_children:
  assumes "forward (shape n)" and "map_of (shape n) i = Some cs" and "visit n i" and "rank (shape n) i \<le> f"
    and "\<And>c n. forward (shape n) \<Longrightarrow> rank (shape n) c < f \<Longrightarrow> step c n = Some (act (reached n c) n)"
  shows "\<exists>S. all_of step cs n = Some (act S n) \<and> \<not> S i \<and> reached n i = (\<lambda>k. S k \<or> k = i) \<and>
    (\<forall>c \<in> set cs. visit n c \<longrightarrow> S c)"
proof (intro exI conjI)
  let ?S = "\<lambda>k. \<exists>c \<in> set cs. reached n c k"
  have ranks: "rank (shape n) c < f" if "c \<in> set cs" for c
    using rank_child [OF assms(1,2) that] assms(4) by simp
  show "all_of step cs n = Some (act ?S n)"
    by (rule walk_list [where f = f]) (use assms ranks in auto)
  show "\<not> ?S i"
  proof
    assume "?S i"
    then obtain c where c: "c \<in> set cs" "reached n c i" by blast
    from reach_rank [OF c(2) assms(1)] rank_child [OF assms(1,2) c(1)] show False by simp
  qed
  show "reached n i = (\<lambda>k. ?S k \<or> k = i)"
    by (intro ext) (auto simp: reach_split [of "visit n", OF assms(3,2)])
  show "\<forall>c \<in> set cs. visit n c \<longrightarrow> ?S c" by (auto intro: reach.self)
qed

end

section \<open>Closing\<close>

lemma shape_with_closed [simp]: "shape (with_closed S n) = shape n"
  by (simp add: with_closed_def shape_dict_map)

interpretation closing: tree_walk with_closed "\<lambda>n k. check_open_connection k n"
proof
  fix n S T k p
  show "with_closed (\<lambda>_. False) n = n" by (simp add: with_closed_def dict_map_def)
  show "with_closed T (with_closed S n) = with_closed (\<lambda>k. S k \<or> T k) n" if "\<And>k. S k \<Longrightarrow> \<not> T k"
  proof -
    have "dict_map (\<lambda>k e. if T k then closed_entry e else e) (dict_map (\<lambda>k e. if S k then closed_entry e else e) d) =
      dict_map (\<lambda>k e. if S k \<or> T k then closed_entry e else e) d" for d
      using that by (auto simp: dict_map_def)
    then show ?thesis by (simp add: with_closed_def)
  qed
  show "check_open_connection k (with_closed S n) \<longleftrightarrow> check_open_connection k n \<and> \<not> S k"
    by (auto simp: check_open_connection_def with_closed_def dict_simps closed_entry_def split: option.splits)
qed simp_all

abbreviation below :: "node_state \<Rightarrow> string \<Rightarrow> string \<Rightarrow> bool" where
  "below n \<equiv> reach (\<lambda>k. check_open_connection k n) (shape n)"

lemma mark_is_with_closed:
  "distinct (dict_keys (nd_connections n)) \<Longrightarrow> mark_closed i n = with_closed (\<lambda>k. k = i) n"
  by (simp add: mark_closed_def with_closed_def modify_is_map)

lemma close_spec:
  "forward (shape n) \<Longrightarrow> rank (shape n) i < f \<Longrightarrow> close_connection f i n = Some (with_closed (below n i) n)"
proof (induction f arbitrary: i n)
  case (Suc f)
  show ?case
  proof (cases "check_open_connection i n")
    case False
    then have "below n i = (\<lambda>_. False)" using reach_visits by fastforce
    moreover have "close_connection (Suc f) i n = Some n"
      using False by (auto simp: check_open_connection_def split: option.splits)
    ultimately show ?thesis by (simp add: closing.none)
  next
    case True
    then obtain e where e: "map_of (nd_connections n) i = Some e" "en_opened e"
      by (auto simp: check_open_connection_def split: option.splits)
    have shape: "map_of (shape n) i = Some (childs e)" using e by (simp add: map_of_shape)
    obtain S where S: "all_of (close_connection f) (childs e) n = Some (with_closed S n)" "\<not> S i"
      "below n i = (\<lambda>k. S k \<or> k = i)"
      using closing.walk_children [where f = f, OF Suc.prems(1) shape True _ Suc.IH] Suc.prems(2) by auto
    have "distinct (dict_keys (nd_connections (with_closed S n)))"
      using forward_distinct [OF Suc.prems(1)] shape_keys by (metis shape_with_closed)
    moreover have "with_closed (\<lambda>k. k = i) (with_closed S n) = with_closed (\<lambda>k. S k \<or> k = i) n"
      using S(2) by (intro closing.twice) auto
    ultimately show ?thesis using e S by (simp add: mark_is_with_closed)
  qed
qed simp

section \<open>Releasing\<close>

lemma shape_without: "shape (without S n) = filter (\<lambda>x. \<not> S (fst x)) (shape n)"
  by (auto simp: without_def shape_of_def filter_map comp_def case_prod_unfold)

interpretation releasing: tree_walk without "\<lambda>n k. is_entered k n"
proof
  fix n S T k p
  show "without (\<lambda>_. False) n = n" by (simp add: without_def)
  show "without T (without S n) = without (\<lambda>k. S k \<or> T k) n" by (simp add: without_def conj_commute)
  show "is_entered k (without S n) \<longleftrightarrow> is_entered k n \<and> \<not> S k"
    by (auto simp: is_entered_def without_def map_of_keys [of "\<lambda>k. \<not> S k"])
  show "\<not> S p \<Longrightarrow> map_of (shape (without S n)) p = map_of (shape n) p"
    by (simp add: shape_without map_of_keys [of "\<lambda>k. \<not> S k"])
  show "rank (shape (without S n)) k \<le> rank (shape n) k"
    unfolding shape_without by (rule rank_filter)
  show "forward (shape n) \<Longrightarrow> forward (shape (without S n))"
    by (simp add: shape_without forward_filter)
qed

abbreviation under :: "node_state \<Rightarrow> string \<Rightarrow> string \<Rightarrow> bool" where
  "under n \<equiv> reach (\<lambda>k. is_entered k n) (shape n)"

lemma drop_is_without: "drop_entry i n = without (\<lambda>k. k = i) n"
proof -
  have "dict_del i d = filter (\<lambda>x. fst x \<noteq> i) d" for d :: "(string, conn_entry) dict"
    by (induction d) auto
  then show ?thesis by (simp add: drop_entry_def without_def)
qed

lemma drop_after_close: "drop_entry i (with_closed (\<lambda>k. k = i \<and> b) n) = drop_entry i n"
proof -
  have "filter (\<lambda>x. fst x \<noteq> i) (dict_map (\<lambda>k e. if k = i \<and> b then closed_entry e else e) d) = filter (\<lambda>x. fst x \<noteq> i) d" for d
    by (induction d) (auto simp: dict_map_def)
  then show ?thesis by (simp add: drop_is_without without_def with_closed_def)
qed

text \<open>When the children have gone, closing reaches the connection only.\<close>

lemma below_alone:
  assumes "map_of (shape n) i = Some cs" and "\<And>c. c \<in> set cs \<Longrightarrow> \<not> check_open_connection c n"
  shows "below n i = (\<lambda>k. k = i \<and> check_open_connection i n)"
proof (rule ext)
  fix k
  have "below n i k \<Longrightarrow> k = i"
    by (induction rule: reach.induct) (use assms in auto)
  then show "below n i k = (k = i \<and> check_open_connection i n)"
    using reach_visits by (fastforce intro: reach.self)
qed

lemma release_spec:
  "forward (shape n) \<Longrightarrow> rank (shape n) i < f \<Longrightarrow> release_connection f i n = Some (without (under n i) n)"
proof (induction f arbitrary: i n)
  case (Suc f)
  show ?case
  proof (cases "map_of (nd_connections n) i")
    case None
    then have "under n i = (\<lambda>_. False)" using reach_visits by (fastforce simp: is_entered_def)
    then show ?thesis using None by (simp add: releasing.none)
  next
    case (Some e)
    have shape: "map_of (shape n) i = Some (childs e)" using Some by (simp add: map_of_shape)
    have visit: "is_entered i n" using Some by (simp add: is_entered_def)
    obtain S where S: "all_of (release_connection f) (childs e) n = Some (without S n)" "\<not> S i"
      "under n i = (\<lambda>k. S k \<or> k = i)" "\<And>c. c \<in> set (childs e) \<Longrightarrow> is_entered c n \<Longrightarrow> S c"
      using releasing.walk_children [where f = f, OF Suc.prems(1) shape visit _ Suc.IH] Suc.prems(2) by auto
    let ?m = "without S n"
    have m: "forward (shape ?m)" "rank (shape ?m) i < Suc f"
      using releasing.forward_act [OF Suc.prems(1)] releasing.lower [of S n i] Suc.prems(2) by (blast, linarith)
    have "\<not> check_open_connection c ?m" if "c \<in> set (childs e)" for c
    proof -
      have "\<not> is_entered c ?m" using S(4) [OF that] releasing.visited [of c S n] by blast
      then show ?thesis by (simp add: is_entered_def check_open_connection_def)
    qed
    then have "below ?m i = (\<lambda>k. k = i \<and> check_open_connection i ?m)"
      using releasing.kept [where S = S and p = i and n = n] S(2) shape by (intro below_alone) auto
    then have "close_connection (Suc f) i ?m = Some (with_closed (\<lambda>k. k = i \<and> check_open_connection i ?m) ?m)"
      using close_spec [OF m] by simp
    moreover have "drop_entry i ?m = without (\<lambda>k. S k \<or> k = i) n"
      unfolding drop_is_without using S(2) by (intro releasing.twice) auto
    ultimately show ?thesis
      using Some S by (simp add: drop_after_close del: close_connection.simps)
  qed
qed simp

section \<open>A node with one connection\<close>

definition demo_params :: conn_params where
  "demo_params =
     \<lparr>cr_config = \<lparr>cf_host = Some ''node1'', cf_port = None, cf_user = Some (Some ''root''), cf_password = Some (Some ''secret'')\<rparr>,
      cr_kind = StandardLinux, cr_x11 = False, cr_force = False, cr_key = None, cr_timeout = 60\<rparr>"

definition demo_node :: "script \<Rightarrow> node_state" where
  "demo_node sc = snd (create_connection (\<lambda>_. False) ''me'' ''c1'' sc demo_params ''main'' node_new)"

definition demo_main :: "script \<Rightarrow> channel session" where
  "demo_main sc =
     \<lparr>se_channel = (channel_new ''c1'' \<lparr>ep_host = ''node1'', ep_port = Some SSH_DEFAULT_PORT, ep_user = Some ''root'', ep_password = Some ''secret''\<rparr>
        60 sc)\<lparr>ch_used := True\<rparr>, se_kind = StandardLinux, se_config = default_config, se_autoclose = False, se_ready = False, se_echo = False\<rparr>"

lemma demo_node: "demo_node sc = \<lparr>nd_default = ''main'', nd_connections = [(''main'',
    \<lparr>en_session = Direct (demo_main sc), en_opened = False, en_extended = Some False, en_childs = Some []\<rparr>)]\<rparr>"
  by (simp add: demo_node_def create_connection_def node_new_def new_channel_def demo_params_def endpoint_new_def bind_res_def
      Let_def done_with_def session_new_def class_simps ch_lock_def channel_new_def put_entry_def demo_main_def)

lemma demo_up: "\<exists>t. session_open n ssh_class (demo_main [(Hit 8, []), (Timed_out, []), (Hit 0, [])]) = (Inr True, t) \<and>
    ch_opened (se_channel t) \<and> se_ready t \<and> se_kind t = StandardLinux \<and> ch_x11 (se_channel t) = [] \<and> ch_key (se_channel t) = [] \<and>
    ch_subsystem (se_channel t) = [] \<and> ch_timeout (se_channel t) = 60 \<and> ch_ep (se_channel t) = ch_ep (se_channel (demo_main []))"
  by (simp add: session_open_def open_standard_def returned_def ensure_open_def on_channel_def demo_main_def SSH_DEFAULT_PORT_def
        prompt_stage_def say_line_def look_for_echo_def wait_match_def must_match_def set_ready_def demo_simps)

lemma demo_down: "\<exists>t. session_open n ssh_class (demo_main [(Hit 8, []), (Timed_out, []), (Timed_out, [])]) = (Inl not_opened, t) \<and>
    ch_opened (se_channel t)"
  by (simp add: session_open_def open_standard_def returned_def ensure_open_def on_channel_def demo_main_def SSH_DEFAULT_PORT_def
        prompt_stage_def say_line_def look_for_echo_def wait_match_def must_match_def set_ready_def demo_simps)

definition demo_open :: node_state where
  "demo_open = snd (open_connection ''main'' (demo_node [(Hit 8, []), (Timed_out, []), (Hit 0, [])]))"

lemma demo_open:
  "\<exists>t. nd_connections demo_open =
       [(''main'', \<lparr>en_session = Direct t, en_opened = True, en_extended = Some False, en_childs = Some []\<rparr>)] \<and>
     ch_opened (se_channel t) \<and> se_ready t \<and> se_kind t = StandardLinux \<and> ch_x11 (se_channel t) = [] \<and> ch_key (se_channel t) = [] \<and>
     ch_subsystem (se_channel t) = [] \<and> ch_timeout (se_channel t) = 60 \<and> ch_ep (se_channel t) = ch_ep (se_channel (demo_main []))"
  using demo_up [of "Suc (script_left (se_channel (demo_main [(Hit 8, []), (Timed_out, []), (Hit 0, [])])))"]
  by (auto simp: demo_open_def open_connection_def demo_node open_session_def bind_res_def put_entry_def done_with_def)

text \<open>The node after another connection was extended from that one.\<close>

definition demo_extended :: node_state where
  "demo_extended = snd (extend_connection (\<lambda>_. False) ''me'' ''c2'' ''c3'' [(Hit 8, [])] (cr_config demo_params) StandardLinux ''main'' ''other''
     demo_open)"

lemma demo_extended_connections:
  "\<exists>t s. nd_connections demo_extended =
     [(''main'', \<lparr>en_session = Direct t, en_opened = True, en_extended = Some False, en_childs = Some [''other'']\<rparr>),
      (''other'', \<lparr>en_session = Extended s, en_opened = False, en_extended = Some True, en_childs = Some []\<rparr>)]"
proof -
  obtain t where t: "nd_connections demo_open =
       [(''main'', \<lparr>en_session = Direct t, en_opened = True, en_extended = Some False, en_childs = Some []\<rparr>)]"
    "ch_opened (se_channel t)" "ch_x11 (se_channel t) = []" "ch_key (se_channel t) = []"
    "ch_subsystem (se_channel t) = []" "ch_timeout (se_channel t) = 60" "ch_ep (se_channel t) = ch_ep (se_channel (demo_main []))"
    using demo_open by blast
  let ?e = "ch_ep (se_channel (demo_main []))"
  obtain d where d: "ssh_clone (\<lambda>_. False) ''c2'' [(Hit 8, [])] (se_channel t) = (Inr (), d)" "\<not> ch_used d"
    using t by (auto simp: ssh_clone_def demo_main_def SSH_DEFAULT_PORT_def demo_simps)
  obtain x where x: "ext_new ''c3'' ?e d = Inr x" "\<not> xt_used x"
    using d(2) by (auto simp: ext_new_def ch_lock_def done_with_def)
  obtain s where s: "session_new ext_class StandardLinux x = Inr s"
    using x(2) by (auto simp: session_new_def class_simps ext_lock_def done_with_def)
  have e: "endpoint_new (Some SSH_DEFAULT_PORT) ''me'' (cr_config demo_params) = Inr ?e"
    by (simp add: endpoint_new_def demo_params_def demo_main_def channel_new_def)
  have eq: "demo_extended = demo_open\<lparr>nd_connections :=
      [(''main'', \<lparr>en_session = Direct t, en_opened = True, en_extended = Some False, en_childs = Some [''other'']\<rparr>),
       (''other'', \<lparr>en_session = Extended s, en_opened = False, en_extended = Some True, en_childs = Some []\<rparr>)]\<rparr>"
    using e d(1) x(1) s t(1)
    by (simp add: demo_extended_def extend_connection_def check_open_connection_def drop_entry_def open_connection_def done_with_def
        on_session_def extended_channel_def bind_res_def put_entry_def add_child_def Let_def)
  show ?thesis unfolding eq by (intro exI) simp
qed

lemma demo_extended:
  "check_open_connection ''main'' demo_extended \<and> is_entered ''other'' demo_extended \<and>
     map_of (shape demo_extended) ''main'' = Some [''other''] \<and> length (nd_connections demo_extended) = 2"
  using demo_extended_connections by (auto simp: check_open_connection_def is_entered_def shape_of_def childs_def)

end
