(* ===== verification/Node_Runs.thy ===== *)
theory Node_Runs
  imports Node_Props
begin

text \<open>
  Sequences of operations on a node: every one of them keeps the connections a tree, so closing and releasing come to an
  end and do what \<open>below\<close> and \<open>under\<close> say.
\<close>

section \<open>Operations that keep the tree\<close>

definition same_shape :: "node_state \<Rightarrow> node_state \<Rightarrow> bool" where
  "same_shape n m \<longleftrightarrow> shape m = shape n"

interpretation node_frame: state_frame same_shape
  by unfold_locales (simp_all add: same_shape_def)

lemma childs_update [simp]:
  "childs (e\<lparr>en_session := s\<rparr>) = childs e" "childs (e\<lparr>en_opened := b\<rparr>) = childs e" "childs (e\<lparr>en_childs := Some cs\<rparr>) = cs"
  by (simp_all add: childs_def)

lemma shape_put:
  "map_of (nd_connections n) i = Some e \<Longrightarrow> childs e' = childs e \<Longrightarrow> shape (put_entry i e' n) = shape n"
  by (simp add: put_entry_def shape_set_same)

lemma open_frame: "same_shape n (snd (open_connection i n))"
  by (auto simp: open_connection_def same_shape_def done_with_def shape_put split: option.splits prod.splits sum.splits)

lemma session_frame: "same_shape n (snd (on_session f i n))"
  by (auto simp: on_session_def same_shape_def shape_put split: option.splits prod.splits)

lemma done_frame: "same_shape n (snd (done_with n))"
  by (simp add: same_shape_def done_with_def)

lemma full_frame: "same_shape n (snd (run_full cmd identity answers n))"
  unfolding run_full_def by (intro node_frame.seq open_frame session_frame) (simp add: same_shape_def)

lemma stop_frame: "same_shape n (snd (stop_command_async i answers n))"
  unfolding stop_command_async_def
  by (intro node_frame.seq open_frame session_frame node_frame.branch done_frame) (simp add: same_shape_def)

lemma output_frame: "same_shape n (snd (get_output_command_async i n))"
  unfolding get_output_command_async_def by (intro node_frame.seq open_frame session_frame)

section \<open>Operations that add or remove connections\<close>

abbreviation tree :: "node_state \<Rightarrow> bool" where
  "tree n \<equiv> forward (shape n)"

lemma tree_new: "tree n \<Longrightarrow> i \<notin> set (dict_keys (nd_connections n)) \<Longrightarrow> childs e = [] \<Longrightarrow> tree (put_entry i e n)"
  using forward_append [of "shape n" i] by (simp add: put_entry_def shape_set_new shape_keys)

lemma tree_drop: "tree n \<Longrightarrow> tree (drop_entry i n)"
  by (simp add: drop_entry_def shape_del forward_filter)

lemma tree_create: "tree n \<Longrightarrow> tree (snd (create_connection isfile me i sc cr identity n))"
  by (auto simp: create_connection_def done_with_def Let_def intro: tree_new simp: childs_def
      split: sum.splits prod.splits)

lemma same_tree: "same_shape n m \<Longrightarrow> tree n \<Longrightarrow> tree m"
  by (simp add: same_shape_def)

lemma tree_child:
  assumes "tree n" and "i \<notin> set (dict_keys (nd_connections n))" and "add_child p i n = (r, m)"
  shows "tree m \<and> dict_keys (nd_connections m) = dict_keys (nd_connections n)"
proof (cases "\<exists>e cs. map_of (nd_connections n) p = Some e \<and> en_childs e = Some cs")
  case False
  then show ?thesis using assms by (auto simp: add_child_def split: option.splits)
next
  case True
  then obtain e cs where e: "map_of (nd_connections n) p = Some e" "en_childs e = Some cs" by blast
  let ?e = "e\<lparr>en_childs := Some (cs @ [i])\<rparr>"
  have m: "m = put_entry p ?e n" using assms(3) e by (simp add: add_child_def done_with_def)
  have d: "distinct (dict_keys (nd_connections n))"
    using forward_distinct [OF assms(1)] shape_keys by metis
  have "shape m = map (\<lambda>(j, ds). (j, if j = p then cs @ [i] else ds)) (shape n)"
    using shape_set_childs [OF d e(1), of ?e, unfolded childs_update] by (simp add: m put_entry_def)
  also have "\<dots> = map (\<lambda>(j, ds). (j, if j = p then ds @ [i] else ds)) (shape n)"
  proof (rule map_cong [OF HOL.refl])
    fix x
    assume "x \<in> set (shape n)"
    then obtain j w where x: "x = (j, childs w)" "(j, w) \<in> set (nd_connections n)"
      by (auto simp: shape_of_def)
    then have "j = p \<Longrightarrow> w = e" using e(1) d by (simp add: map_of_eq_Some_iff)
    then show "(\<lambda>(j, ds). (j, if j = p then cs @ [i] else ds)) x = (\<lambda>(j, ds). (j, if j = p then ds @ [i] else ds)) x"
      using x e(2) by (auto simp: childs_def)
  qed
  finally have "tree m"
    using forward_child [of "shape n" i p] assms(1,2) by (simp add: shape_keys)
  moreover have "dict_keys (nd_connections m) = dict_keys (nd_connections n)"
    using keys_set_present [OF map_of_in_keys [OF e(1)]] by (simp add: m put_entry_def)
  ultimately show ?thesis by blast
qed

lemma same_keys: "same_shape n m \<Longrightarrow> dict_keys (nd_connections m) = dict_keys (nd_connections n)"
  by (metis same_shape_def shape_keys)

lemma tree_extend:
  assumes "tree n"
  shows "tree (snd (extend_connection isfile me i j sc cf k parent identity n))"
proof (cases "check_open_connection identity n")
  case True
  then show ?thesis using assms by (simp add: extend_connection_def done_with_def)
next
  case closed: False
  let ?n = "drop_entry identity n"
  have n: "tree ?n" "identity \<notin> set (dict_keys (nd_connections ?n))"
    using tree_drop [OF assms] by (simp_all add: drop_entry_def fst_dict_del)
  show ?thesis
  proof (cases "endpoint_new (Some SSH_DEFAULT_PORT) me cf")
    case (Inl x)
    then show ?thesis using closed n by (simp add: extend_connection_def)
  next
    case (Inr e)
    let ?s = "on_session (\<lambda>s. (bind_res (extended_channel isfile i j sc e s) (session_new ext_class k), s)) parent"
    obtain r1 n1 where o: "open_connection parent ?n = (r1, n1)" by (cases "open_connection parent ?n")
    obtain r2 n2 where s: "?s n1 = (r2, n2)" by (cases "?s n1")
    obtain r3 n3 where a: "add_child parent identity n2 = (r3, n3)" by (cases "add_child parent identity n2")
    have n1: "same_shape ?n n1" using open_frame [of ?n parent] o by simp
    have "same_shape n1 (snd (?s n1))" by (rule session_frame)
    then have n2: "same_shape ?n n2" unfolding s snd_conv by (rule node_frame.trans [OF n1])
    have t2: "tree n2" "identity \<notin> set (dict_keys (nd_connections n2))"
      using same_tree [OF n2 n(1)] n(2) same_keys [OF n2] by simp_all
    note n3 = tree_child [OF t2 a]
    let ?e = "\<lambda>s. \<lparr>en_session = Extended s, en_opened = False, en_extended = Some True, en_childs = Some []\<rparr>"
    have ext: "extend_connection isfile me i j sc cf k parent identity n =
      andthen (open_connection parent ?n) (\<lambda>_ n. andthen (?s n) (\<lambda>s n. andthen (add_child parent identity n) (\<lambda>_ n.
        done_with (put_entry identity (?e s) n))))"
      using closed Inr by (simp add: extend_connection_def Let_def)
    have t1: "tree n1" by (rule same_tree [OF n1 n(1)])
    have t3: "tree (put_entry identity (?e s) n3)" for s
      using n3 t2(2) by (intro tree_new) (simp_all add: childs_def)
    show ?thesis
    proof (cases r1)
      case (Inl x)
      show ?thesis unfolding ext o Inl andthen_simps snd_conv by (rule t1)
    next
      case r1: (Inr v)
      show ?thesis
      proof (cases r2)
        case (Inl x)
        show ?thesis unfolding ext o r1 s andthen_simps Inl snd_conv by (rule t2(1))
      next
        case r2: (Inr v2)
        show ?thesis
          unfolding ext o r1 andthen_simps s r2 a using n3 t3 by (cases r3) (simp_all add: done_with_def)
      qed
    qed
  qed
qed

lemma tree_async:
  assumes "tree n"
  shows "tree (snd (node_command_async isfile i j sc cmd identity answers parent n))"
proof -
  let ?add = "if identity \<in> set (dict_keys (nd_connections n)) then done_with n
        else case map_of (nd_connections n) (connection_id parent n) of
          None \<Rightarrow> (Inl (Conn_raised (KeyError (connection_id parent n))), n)
        | Some e \<Rightarrow>
            (case clone_session isfile i j sc (en_session e) of
               Inl x \<Rightarrow> (Inl x, n)
             | Inr s \<Rightarrow> done_with (put_entry identity
                 \<lparr>en_session = s, en_opened = False, en_extended = None, en_childs = None\<rparr> n))"
  let ?rest = "\<lambda>(_ :: unit) n. andthen (open_connection identity n) (\<lambda>_ n.
     andthen (on_session (send_command False answers cmd) identity n) (\<lambda>_. done_with))"
  obtain r m where m: "?add = (r, m)" by (cases ?add)
  have "tree m"
    using m assms by (auto simp: done_with_def childs_def intro: tree_new split: if_splits option.splits sum.splits)
  moreover have "same_shape m (snd (?rest v m))" for v
    by (intro node_frame.seq open_frame session_frame done_frame)
  ultimately have "tree (snd (andthen (r, m) ?rest))"
    by (cases r) (auto intro: same_tree)
  then show ?thesis unfolding node_command_async_def m .
qed

lemma tree_close:
  "tree n \<Longrightarrow> close_connection f i n = Some m \<Longrightarrow> tree m"
proof (induction f arbitrary: i n m)
  case (Suc f)
  have "tree u" if "all_of (close_connection f) cs n = Some u" for cs u
    using all_of_invariant [OF that, of tree] Suc by blast
  moreover have "tree (mark_closed j u)" if "tree u" for j u
    using that forward_distinct [OF that] by (simp add: mark_is_with_closed shape_keys)
  ultimately show ?case
    using Suc.prems by (auto split: option.splits if_splits)
qed simp

lemma tree_release:
  "tree n \<Longrightarrow> release_connection f i n = Some m \<Longrightarrow> tree m"
proof (induction f arbitrary: i n m)
  case (Suc f)
  have "tree u" if "all_of (release_connection f) cs n = Some u" for cs u
    using all_of_invariant [OF that, of tree] Suc by blast
  then show ?case
    using Suc.prems
    by (auto simp del: close_connection.simps split: option.splits intro!: tree_drop dest: tree_close)
qed simp

section \<open>Nodes that can occur\<close>

text \<open>The operations of a node, in any order, with any answers.\<close>

inductive reachable_node :: "node_state \<Rightarrow> bool" where
  new: "reachable_node node_new"
| create: "reachable_node n \<Longrightarrow> reachable_node (snd (create_connection isfile me i sc cr identity n))"
| extend: "reachable_node n \<Longrightarrow> reachable_node (snd (extend_connection isfile me i j sc cf k parent identity n))"
| demand: "reachable_node n \<Longrightarrow> reachable_node (snd (open_connection identity n))"
| line: "reachable_node n \<Longrightarrow> reachable_node (snd (on_session (send_single w) identity n))"
| question: "reachable_node n \<Longrightarrow> reachable_node (snd (on_session (send_command sync answers cmd) identity n))"
| command: "reachable_node n \<Longrightarrow> reachable_node (snd (run_full cmd who answers n))"
| async: "reachable_node n \<Longrightarrow> reachable_node (snd (node_command_async isfile i j sc cmd identity answers who n))"
| get_output: "reachable_node n \<Longrightarrow> reachable_node (snd (get_output_command_async identity n))"
| stop: "reachable_node n \<Longrightarrow> reachable_node (snd (stop_command_async identity answers n))"
| set_default: "reachable_node n \<Longrightarrow> reachable_node (set_default_connection identity n)"
| close: "reachable_node n \<Longrightarrow> close_connection fuel identity n = Some m \<Longrightarrow> reachable_node m"
| release: "reachable_node n \<Longrightarrow> release_connection fuel identity n = Some m \<Longrightarrow> reachable_node m"
| release_all: "reachable_node n \<Longrightarrow> release_node fuel n = Some m \<Longrightarrow> reachable_node m"

lemma reachable_tree: "reachable_node n \<Longrightarrow> tree n"
proof (induction rule: reachable_node.induct)
  case new
  show ?case by (simp add: node_new_def shape_of_def)
next
  case (set_default n identity)
  then show ?case by (simp add: set_default_connection_def)
next
  case (release_all n fuel m)
  then show ?case by (auto simp: release_node_def shape_of_def)
qed (auto intro: tree_create tree_extend tree_async tree_close tree_release
      same_tree [OF open_frame] same_tree [OF session_frame] same_tree [OF full_frame] same_tree [OF output_frame]
      same_tree [OF stop_frame])

section \<open>Closing and releasing\<close>

lemma close_reachable:
  "reachable_node n \<Longrightarrow> close_connection (Suc (length (nd_connections n))) i n = Some (with_closed (below n i) n)"
  using close_spec [OF reachable_tree, of n i "Suc (length (nd_connections n))"] rank_bound [of "shape n" i]
  by (simp add: shape_of_def del: close_connection.simps)

text \<open>C12: In every node that can occur, closing a connection comes to an end and closes, once each, that connection and
  the opened ones below it; all others stay as they are. Below it are the connections whose names are recorded as its
  children, directly or over other opened ones. \<open>extend_connection\<close> records the name of an extension in its parent, and no
  operation takes it out again: a connection that is created later under the name of a released
  extension counts as well, though it does not extend anything (\<open>stale_child_is_closed\<close>).\<close>

theorem close_closes_tree:
  assumes "reachable_node n"
  shows "close_connection (Suc (length (nd_connections n))) i n = Some (with_closed (below n i) n)"
  using assms by (rule close_reachable)

lemma reachable_demo: "reachable_node demo_extended"
  unfolding demo_extended_def demo_open_def demo_node_def by (intro reachable_node.intros)

lemma close_closes_tree_witness:
  "\<exists>m. reachable_node demo_extended \<and> check_open_connection ''main'' demo_extended \<and>
     close_connection 3 ''main'' demo_extended = Some m \<and> \<not> check_open_connection ''main'' m"
proof -
  have m: "close_connection 3 ''main'' demo_extended = Some (with_closed (below demo_extended ''main'') demo_extended)"
    using close_closes_tree [OF reachable_demo, of "''main''"] demo_extended by (simp add: numeral_eq_Suc)
  have main: "check_open_connection ''main'' demo_extended" using demo_extended by blast
  then have "below demo_extended ''main'' ''main''" by (rule reach.self)
  then have "\<not> check_open_connection ''main'' (with_closed (below demo_extended ''main'') demo_extended)"
    using closing.visited by blast
  then show ?thesis using m main reachable_demo by blast
qed


text \<open>A connection is closed with one that it does not extend: its name was left among the children when the extension of
  that name was released.\<close>

lemma created_entry:
  assumes "create_connection isfile me j sc cr i n = (Inr (), m)" and "\<not> is_entered i n" and "cr_force cr"
  obtains s where "m = put_entry i \<lparr>en_session = Direct s, en_opened = True, en_extended = Some False, en_childs = Some []\<rparr> n"
proof -
  have dir: "\<exists>u. t = Direct u" if "open_session (Direct s) = (r, t)" for s r t
    using that by (auto simp: open_session_def split: prod.splits)
  show thesis
    using assms that
    by (auto simp: create_connection_def Let_def done_with_def is_entered_def map_of_none_keys
        split: if_splits sum.splits prod.splits dest: dir)
qed

theorem stale_child_is_closed:
  assumes "reachable_node n" and "map_of (nd_connections n) p = Some e" and "en_opened e" and "i \<in> set (childs e)"
    and "\<not> is_entered i n"
    and "create_connection isfile me j sc cr i n = (Inr (), m)" and "cr_force cr"
  shows "\<exists>e' u. map_of (nd_connections m) i = Some e' \<and> en_extended e' = Some False \<and> en_opened e' \<and>
    close_connection (Suc (length (nd_connections m))) p m = Some u \<and> \<not> check_open_connection i u"
proof -
  obtain s where m: "m = put_entry i \<lparr>en_session = Direct s, en_opened = True, en_extended = Some False, en_childs = Some []\<rparr> n"
    using created_entry [OF assms(6,5,7)] .
  have r: "reachable_node m" using reachable_node.create [OF assms(1), of isfile me j sc cr i] assms(6) by simp
  have "p \<noteq> i" using assms(2,5) by (auto simp: is_entered_def)
  then have p: "map_of (nd_connections m) p = Some e"
    using assms(2) by (simp add: m put_entry_def dict_simps)
  have i: "map_of (nd_connections m) i = Some \<lparr>en_session = Direct s, en_opened = True, en_extended = Some False, en_childs = Some []\<rparr>"
    by (simp add: m put_entry_def dict_simps)
  have "below m p p" using p assms(3) by (intro reach.self) (simp add: check_open_connection_def)
  then have "below m p i"
    by (rule reach.child) (use p i assms(4) in \<open>auto simp: map_of_shape check_open_connection_def\<close>)
  then have "\<not> check_open_connection i (with_closed (below m p) m)"
    using closing.visited by blast
  with close_reachable [OF r, of p] i show ?thesis by auto
qed

lemma stale_child_is_closed_witness:
  "\<exists>n m e u. reachable_node n \<and> \<not> is_entered ''other'' n \<and>
     create_connection (\<lambda>_. False) ''me'' ''c1'' [(Hit 8, []), (Timed_out, []), (Hit 0, [])] (demo_params\<lparr>cr_force := True\<rparr>) ''other'' n =
       (Inr (), m) \<and>
     map_of (nd_connections m) ''other'' = Some e \<and> en_extended e = Some False \<and> en_opened e \<and>
     close_connection (Suc (length (nd_connections m))) ''main'' m = Some u \<and> \<not> check_open_connection ''other'' u"
proof -
  let ?sc = "[(Hit 8, []), (Timed_out, []), (Hit 0, [])]"
  let ?n = "drop_entry ''other'' demo_extended"
  obtain t s where c: "nd_connections demo_extended =
     [(''main'', \<lparr>en_session = Direct t, en_opened = True, en_extended = Some False, en_childs = Some [''other'']\<rparr>),
      (''other'', \<lparr>en_session = Extended s, en_opened = False, en_extended = Some True, en_childs = Some []\<rparr>)]"
    using demo_extended_connections by blast
  have "release_connection 2 ''other'' demo_extended = Some ?n"
    using c by (simp add: numeral_2_eq_2 childs_def)
  then have r: "reachable_node ?n" by (rule reachable_node.release [OF reachable_demo])
  have n: "nd_connections ?n =
      [(''main'', \<lparr>en_session = Direct t, en_opened = True, en_extended = Some False, en_childs = Some [''other'']\<rparr>)]"
    using c by (simp add: drop_entry_def)
  then have i: "\<not> is_entered ''other'' ?n" by (simp add: is_entered_def)
  have "fst (create_connection (\<lambda>_. False) ''me'' ''c1'' ?sc (demo_params\<lparr>cr_force := True\<rparr>) ''other'' ?n) = Inr ()"
    using demo_up [of "Suc (script_left (se_channel (demo_main ?sc)))"] n
    by (auto simp: create_connection_def new_channel_def demo_params_def endpoint_new_def bind_res_def Let_def done_with_def
        session_new_def class_simps ch_lock_def channel_new_def open_session_def demo_main_def)
  then obtain m where m: "create_connection (\<lambda>_. False) ''me'' ''c1'' ?sc (demo_params\<lparr>cr_force := True\<rparr>) ''other'' ?n = (Inr (), m)"
    by (metis surjective_pairing)
  from stale_child_is_closed [OF r _ _ _ i m, of "''main''"] n i m r show ?thesis
    by (auto simp: childs_def)
qed

text \<open>C31: In every node that can occur, releasing a connection comes to an end and removes that connection and the ones
  whose names are recorded as its children, directly or over others that are entered, opened or not; all others stay as they
  are. As for closing, a connection that was created under the name of a released extension is removed with the parent
  of the extension.\<close>

theorem release_removes_tree:
  assumes "reachable_node n"
  shows "release_connection (Suc (length (nd_connections n))) i n = Some (without (under n i) n)"
  using release_spec [OF reachable_tree [OF assms], of i "Suc (length (nd_connections n))"] rank_bound [of "shape n" i]
  by (simp add: shape_of_def)

lemma release_removes_tree_witness:
  "\<exists>m. reachable_node demo_extended \<and> is_entered ''other'' demo_extended \<and>
     release_connection 3 ''main'' demo_extended = Some m \<and> \<not> is_entered ''main'' m \<and> \<not> is_entered ''other'' m"
proof -
  have m: "release_connection 3 ''main'' demo_extended = Some (without (under demo_extended ''main'') demo_extended)"
    using release_removes_tree [OF reachable_demo, of "''main''"] demo_extended by (simp add: numeral_eq_Suc)
  have main: "is_entered ''main'' demo_extended"
    using demo_extended by (auto simp: is_entered_def check_open_connection_def split: option.splits)
  have "under demo_extended ''main'' ''main''" using main by (rule reach.self)
  moreover from this have "under demo_extended ''main'' ''other''"
    by (rule reach.child) (use demo_extended in auto)
  ultimately have "\<not> is_entered ''main'' (without (under demo_extended ''main'') demo_extended)"
      "\<not> is_entered ''other'' (without (under demo_extended ''main'') demo_extended)"
    by (simp_all add: releasing.visited)
  then show ?thesis
    using m reachable_demo demo_extended by blast
qed


text \<open>When a connection cannot be opened, the node does not take it as opened: closing leaves it as it is, with whatever
  of its channel is connected.\<close>

theorem failed_open_stays:
  assumes "open_connection i n = (Inl x, m)"
  shows "close_connection (Suc f) i m = Some m"
  using assms
  by (auto simp: open_connection_def put_entry_def done_with_def dict_simps split: option.splits if_splits prod.splits sum.splits)

text \<open>The channel is connected, the prompt does not come.\<close>

lemma failed_open_stays_witness:
  "\<exists>m t e. open_connection ''main'' (demo_node [(Hit 8, []), (Timed_out, []), (Timed_out, [])]) = (Inl not_opened, m) \<and>
     close_connection 1 ''main'' m = Some m \<and>
     nd_connections m = [(''main'', e)] \<and> en_session e = Direct t \<and> ch_opened (se_channel t)"
proof -
  let ?n = "demo_node [(Hit 8, []), (Timed_out, []), (Timed_out, [])]"
  have "\<exists>m t e. open_connection ''main'' ?n = (Inl not_opened, m) \<and> nd_connections m = [(''main'', e)] \<and>
      en_session e = Direct t \<and> ch_opened (se_channel t)"
    using demo_down [of "Suc (script_left (se_channel (demo_main [(Hit 8, []), (Timed_out, []), (Timed_out, [])])))"]
    by (auto simp: open_connection_def demo_node open_session_def bind_res_def put_entry_def)
  then obtain m t e where m: "open_connection ''main'' ?n = (Inl not_opened, m)" "nd_connections m = [(''main'', e)]"
      "en_session e = Direct t" "ch_opened (se_channel t)" by blast
  then show ?thesis
    using failed_open_stays [OF m(1), of 0] by auto
qed

end
