(* ===== verification/Node_Channels.thy ===== *)
theory Node_Channels
  imports Node_Runs
begin

text \<open>
  What the connections of a node have to do with the processes behind them: a connection that the node made and opened goes
  down when it is closed, whatever was done with it; the clone of an opened connection does not.
\<close>

section \<open>Sessions that a node made\<close>

text \<open>The session opened the channel itself, if it is open, and a session that is ready has an open channel.\<close>

definition sound_session :: "channel session \<Rightarrow> bool" where
  "sound_session t \<longleftrightarrow> ssh_ok (se_channel t) \<and> (se_ready t \<longrightarrow> se_autoclose t) \<and> (se_autoclose t \<longleftrightarrow> ch_opened (se_channel t))"

lemma ssh_opened: "cc_opened ssh_class = ch_opened" and ssh_used: "cc_used ssh_class = ch_used"
  by (simp_all add: class_simps)

lemma sound_open:
  assumes "sound_session s" and "se_kind s \<noteq> EprtSetup" and "session_open fuel ssh_class s = (r, t)"
  shows "sound_session t \<and> se_kind t = se_kind s"
  using ssh.open_change [of s fuel r t] assms by (auto simp: sound_session_def ssh_opened ssh_used)

lemma sound_keeps:
  "session_keeps ssh_class ssh_ok s t \<Longrightarrow> sound_session s \<Longrightarrow> sound_session t \<and> se_kind t = se_kind s \<and> se_ready t = se_ready s"
  by (auto simp: session_keeps_def sound_session_def ssh_opened)

text \<open>\<open>open\<close> ends with the session ready; \<open>SignManCLI\<close> may leave it without an error.\<close>

lemma set_ready_last: "andthen p (\<lambda>_. set_ready) = (Inr v, t) \<Longrightarrow> se_ready t"
  by (auto simp: andthen_Inr set_ready_def done_with_def)

lemma open_ready:
  assumes "session_open fuel ops s = (Inr True, t)" and "se_kind s \<notin> {SignManCLI, EprtSetup}"
  shows "se_ready t"
  using assms
  by (cases "se_kind s")
    (auto simp: session_open_def open_standard_def open_hardened_def open_netconf_def open_cliss_def open_cba_signmcli_def
      open_nbi_def open_telorb_def open_jambala_def returned_def andthen_Inr set_ready_def done_with_def Let_def
      split: if_splits)

lemma sound_close:
  assumes "sound_session s" and "se_kind s \<noteq> EprtSetup"
  shows "\<exists>t. session_close ssh_class s = (Inr (), t) \<and> sound_session t \<and> \<not> se_ready t \<and> \<not> ch_used (se_channel t) \<and>
    se_kind t = se_kind s \<and> ch_opened (se_channel t) = (ch_opened (se_channel s) \<and> \<not> se_ready s)"
proof -
  obtain t where t: "session_close ssh_class s = (Inr (), t)"
    using close_open [of s] assms by (auto simp: sound_session_def)
  note out = ssh.close_outcome [OF _ assms(2) t, unfolded ssh_opened ssh_used]
  have "ssh_ok (se_channel s)" using assms(1) by (simp add: sound_session_def)
  from out [OF this] show ?thesis
    using t assms(1) unfolding sound_session_def by blast
qed

section \<open>The class of a session\<close>

interpretation kind_frame: state_frame "\<lambda>s t. se_kind t = se_kind s"
  by unfold_locales simp_all

lemma kind_keeps: "session_keeps ssh_class ssh_ok s t \<Longrightarrow> se_kind t = se_kind s"
  by (simp add: session_keeps_def)

lemmas kind_rules =
  kind_keeps [OF ssh.keeps_say] kind_keeps [OF ssh.keeps_wait] kind_keeps [OF ssh.keeps_must] kind_keeps [OF ssh.keeps_prompt]

lemma kind_ensure: "se_kind (snd (ensure_open ssh_class s)) = se_kind s"
  by (auto simp: ensure_open_def on_channel_def done_with_def andthen_def split: prod.splits sum.splits)

lemma kind_ready: "se_kind (snd (set_ready s)) = se_kind s"
  by (simp add: set_ready_def done_with_def)

lemma kind_open: "session_open fuel ssh_class s = (r, t) \<Longrightarrow> ssh_ok (se_channel s) \<or> se_kind s = EprtSetup \<Longrightarrow> se_kind t = se_kind s"
proof (cases "se_kind s = EprtSetup")
  case True
  have "se_kind (snd (open_eprt ssh_class s)) = se_kind s"
    unfolding open_eprt_def open_standard_def by (intro kind_frame.seq kind_rules kind_ensure kind_ready)
  moreover assume "session_open fuel ssh_class s = (r, t)"
  ultimately show ?thesis
    using True by (auto simp: session_open_def returned_def andthen_def split: prod.splits sum.splits)
qed (use ssh.open_change [of s fuel r t] in auto)

lemma kind_close: "se_kind (snd (session_close ssh_class s)) = se_kind s"
proof -
  have bye: "se_kind (snd (say_goodbye ssh_class s)) = se_kind s" for s
    by (rule kind_keeps [OF ssh.keeps_goodbye])
  have "se_kind (snd (close_common ssh_class s)) = se_kind s" for s
    using bye [of "s\<lparr>se_channel := cc_release ssh_class (se_channel s)\<rparr>"]
    by (auto simp: close_common_unfold Let_def done_with_def andthen_def split: prod.splits sum.splits)
  then show ?thesis
    unfolding session_close_common by (intro kind_frame.branch kind_frame.seq kind_rules)
qed

section \<open>Entries\<close>

text \<open>An entry that \<open>create_connection\<close> made: its session is sound, and ready when the entry is taken as opened.\<close>

definition sound_entry :: "conn_entry \<Rightarrow> bool" where
  "sound_entry e \<longleftrightarrow> (\<forall>t. en_session e = Direct t \<longrightarrow> en_extended e = Some False \<longrightarrow> se_kind t \<noteq> EprtSetup \<longrightarrow>
     sound_session t \<and> (en_opened e \<and> se_kind t \<noteq> SignManCLI \<longrightarrow> se_ready t))"

definition sound_node :: "node_state \<Rightarrow> bool" where
  "sound_node n \<longleftrightarrow> (\<forall>(k, e) \<in> set (nd_connections n). sound_entry e)"

lemma sound_put: "sound_node n \<Longrightarrow> sound_entry e \<Longrightarrow> sound_node (put_entry i e n)"
  using set_dict_set [of i e "nd_connections n"] by (fastforce simp: sound_node_def put_entry_def)

lemma sound_get: "sound_node n \<Longrightarrow> map_of (nd_connections n) i = Some e \<Longrightarrow> sound_entry e"
  by (auto simp: sound_node_def dest!: map_of_SomeD)

text \<open>Updates of a session by which an entry stays sound.\<close>

lemma sound_extended: "sound_entry (e\<lparr>en_session := Extended s, en_opened := b\<rparr>)" "sound_entry (e\<lparr>en_session := Extended s\<rparr>)"
  by (simp_all add: sound_entry_def)

lemma sound_entry_keeps:
  "sound_entry e \<Longrightarrow> en_session e = Direct s \<Longrightarrow> session_keeps ssh_class ssh_ok s t \<Longrightarrow> sound_entry (e\<lparr>en_session := Direct t\<rparr>)"
  using sound_keeps [of s t] kind_keeps [of s t] by (auto simp: sound_entry_def)

lemma sound_command: "sound_entry e \<Longrightarrow> sound_entry (e\<lparr>en_session := snd (send_command sync answers cmd (en_session e))\<rparr>)"
proof (cases "en_session e")
  case (Direct t)
  assume "sound_entry e"
  from sound_entry_keeps [OF this Direct ssh.keeps_command] show ?thesis
    by (simp add: send_command_def Direct case_prod_unfold)
qed (simp add: send_command_def sound_extended split: prod.splits)

lemma sound_single: "sound_entry e \<Longrightarrow> sound_entry (e\<lparr>en_session := snd (send_single w (en_session e))\<rparr>)"
proof (cases "en_session e")
  case (Direct t)
  assume "sound_entry e"
  from sound_entry_keeps [OF this Direct ssh.keeps_sendline] show ?thesis
    by (simp add: send_single_def Direct case_prod_unfold)
qed (simp add: send_single_def sound_extended split: prod.splits)

lemma sound_open_entry:
  assumes "sound_entry e" and "open_session (en_session e) = (r, s)"
  shows "sound_entry (e\<lparr>en_session := s, en_opened := (r = Inr ())\<rparr>)"
proof (cases "en_session e")
  case (Extended t)
  then obtain u where "s = Extended u" using assms(2) by (auto simp: open_session_def split: prod.splits)
  then show ?thesis by (simp add: sound_extended)
next
  case (Direct t)
  let ?f = "Suc (script_left (se_channel t))"
  obtain q u where o: "session_open ?f ssh_class t = (q, u)" by (cases "session_open ?f ssh_class t")
  then have s: "s = Direct u" "r = bind_res q (\<lambda>_. Inr ())"
    using assms(2) Direct by (simp_all add: open_session_def)
  show ?thesis
  proof (cases "en_extended e = Some False \<and> se_kind u \<noteq> EprtSetup")
    case False
    then show ?thesis by (auto simp: sound_entry_def s)
  next
    case True
    have "se_kind t \<noteq> EprtSetup"
      using True kind_open [OF o] by auto
    then have t: "sound_session t" using assms(1) True Direct by (simp add: sound_entry_def)
    note u = sound_open [OF t \<open>se_kind t \<noteq> EprtSetup\<close> o]
    have "se_ready u" if r: "r = Inr ()" and k: "se_kind u \<noteq> SignManCLI"
    proof -
      obtain b where b: "q = Inr b" using r s by (cases q) (simp_all add: bind_res_def)
      have "b = True"
        using ssh_output.open_ends [of t ?f u] o b by (cases b) auto
      then show ?thesis
        using open_ready [of ?f ssh_class t u] o b k u True by simp
    qed
    then show ?thesis using u by (simp add: sound_entry_def s)
  qed
qed

lemma sound_closed_entry: "sound_entry e \<Longrightarrow> sound_entry (closed_entry e)"
proof (cases "en_session e")
  case (Direct t)
  assume e: "sound_entry e"
  show ?thesis
    using e Direct kind_close [of t] sound_close [of t] by (auto simp: sound_entry_def closed_entry_def close_session_def)
qed (simp add: sound_entry_def closed_entry_def close_session_def)

section \<open>Nodes\<close>

definition keeps_sound :: "node_state \<Rightarrow> node_state \<Rightarrow> bool" where
  "keeps_sound n m \<longleftrightarrow> (sound_node n \<longrightarrow> sound_node m)"

interpretation sound_frame: state_frame keeps_sound
  by unfold_locales (auto simp: keeps_sound_def)

lemma sound_demand: "keeps_sound n (snd (open_connection i n))"
proof (cases "map_of (nd_connections n) i")
  case (Some e)
  obtain r s where o: "open_session (en_session e) = (r, s)" by (cases "open_session (en_session e)")
  have "sound_node n \<Longrightarrow> sound_entry (e\<lparr>en_session := s, en_opened := (r = Inr ())\<rparr>)"
    using sound_open_entry [OF _ o] sound_get [OF _ Some] by blast
  moreover have "snd (open_connection i n) =
    (if en_opened e then n else put_entry i (e\<lparr>en_session := s, en_opened := (r = Inr ())\<rparr>) n)"
    using Some o by (cases r; cases e) (auto simp: open_connection_def done_with_def)
  ultimately show ?thesis by (simp add: keeps_sound_def sound_put)
qed (simp add: open_connection_def keeps_sound_def)

lemma sound_call:
  assumes "\<And>e. sound_entry e \<Longrightarrow> sound_entry (e\<lparr>en_session := snd (f (en_session e))\<rparr>)"
  shows "keeps_sound n (snd (on_session f i n))"
  using assms sound_get by (fastforce simp: on_session_def keeps_sound_def case_prod_unfold intro!: sound_put split: option.splits)

lemma sound_same: "sound_entry e \<Longrightarrow> sound_entry (e\<lparr>en_session := en_session e\<rparr>)"
  by simp

lemma sound_pure: "keeps_sound n (snd (r, n))"
  by (simp add: keeps_sound_def)

lemma sound_done: "keeps_sound n (snd (done_with n))"
  by (simp add: keeps_sound_def done_with_def)

lemmas sound_rules =
  sound_demand sound_call [OF sound_command] sound_call [OF sound_single] sound_done sound_pure

lemma sound_full: "keeps_sound n (snd (run_full cmd identity answers n))"
  unfolding run_full_def by (intro sound_frame.seq sound_rules)

lemma sound_output: "keeps_sound n (snd (get_output_command_async i n))"
  unfolding get_output_command_async_def by (intro sound_frame.seq sound_rules sound_call) simp

lemma sound_stop: "keeps_sound n (snd (stop_command_async i answers n))"
  unfolding stop_command_async_def
  by (intro sound_frame.seq sound_frame.branch sound_rules)

lemma sound_async: "keeps_sound n (snd (node_command_async isfile i j sc cmd identity answers parent n))"
  unfolding node_command_async_def
  by (intro sound_frame.seq sound_rules)
    (auto simp: keeps_sound_def done_with_def intro!: sound_put simp: sound_entry_def split: option.splits sum.splits)

lemma sound_child: "keeps_sound n (snd (add_child p i n))"
  by (auto simp: add_child_def keeps_sound_def done_with_def intro!: sound_put dest: sound_get simp: sound_entry_def
      split: option.splits)

lemma sound_drop: "sound_node n \<Longrightarrow> sound_node (drop_entry i n)"
  using set_dict_del [of i "nd_connections n"] by (auto simp: sound_node_def drop_entry_def)

lemma sound_extend: "keeps_sound n (snd (extend_connection isfile me i j sc cf k parent identity n))"
proof -
  have "keeps_sound m (snd (andthen (open_connection parent m) (\<lambda>_ n.
            andthen (on_session (\<lambda>s. (bind_res (extended_channel isfile i j sc e s) (session_new ext_class k), s)) parent n) (\<lambda>s n.
            andthen (add_child parent identity n) (\<lambda>_ n.
              done_with (put_entry identity
                \<lparr>en_session = Extended s, en_opened = False, en_extended = Some True, en_childs = Some []\<rparr> n))))))" for e m
    by (intro sound_frame.seq sound_demand sound_call sound_child)
      (auto simp: keeps_sound_def done_with_def sound_entry_def intro!: sound_put)
  then show ?thesis
    by (auto simp: extend_connection_def keeps_sound_def Let_def done_with_def sound_drop split: sum.splits)
qed

lemma sound_new_session:
  assumes "new_channel isfile me i sc cr = Inr c" and "session_new ssh_class k c = Inr s"
  shows "sound_session s \<and> \<not> se_ready s"
proof -
  have "ssh_ok c \<and> \<not> ch_opened c"
    using assms(1)
    by (auto simp: new_channel_def bind_res_def Let_def enable_x11_forwarding_def set_ssh_key_def channel_new_def ssh_ok_def
        ch_opened_def done_with_def split: sum.splits option.splits if_splits)
  then show ?thesis
    using ssh.session_new_cases [of c k] assms(2) by (auto simp: sound_session_def ssh_opened split: if_splits)
qed

lemma sound_create: "keeps_sound n (snd (create_connection isfile me i sc cr identity n))"
proof (cases "bind_res (new_channel isfile me i sc cr) (session_new ssh_class (cr_kind cr))")
  case (Inl x)
  then show ?thesis by (simp add: create_connection_def keeps_sound_def done_with_def)
next
  case (Inr s)
  then obtain c where "new_channel isfile me i sc cr = Inr c" "session_new ssh_class (cr_kind cr) c = Inr s"
    by (auto simp: bind_res_def split: sum.splits)
  note s = sound_new_session [OF this]
  let ?e = "\<lambda>b. \<lparr>en_session = Direct s, en_opened = b, en_extended = Some False, en_childs = Some []\<rparr>"
  have e: "sound_entry (?e False)" using s by (simp add: sound_entry_def)
  obtain r u where o: "open_session (Direct s) = (r, u)" by (cases "open_session (Direct s)")
  have "r = Inr () \<Longrightarrow> sound_entry ((?e True)\<lparr>en_session := u\<rparr>)"
    using sound_open_entry [OF e, of r u] o by simp
  then show ?thesis
    using Inr e o by (cases r) (auto simp: create_connection_def keeps_sound_def done_with_def Let_def intro!: sound_put)
qed

lemma sound_mark: "sound_node n \<Longrightarrow> sound_node (mark_closed i n)"
proof -
  assume n: "sound_node n"
  show ?thesis
  proof (cases "map_of (nd_connections n) i")
    case (Some e)
    then have "mark_closed i n = put_entry i (closed_entry e) n"
      by (simp add: mark_closed_def put_entry_def dict_modify_def)
    then show ?thesis using n Some by (simp add: sound_put sound_closed_entry sound_get)
  qed (use n in \<open>simp add: mark_closed_def dict_modify_def\<close>)
qed

lemma sound_close_connection: "close_connection f i n = Some m \<Longrightarrow> sound_node n \<Longrightarrow> sound_node m"
proof (induction f arbitrary: i n m)
  case (Suc f)
  have "sound_node u" if "all_of (close_connection f) cs n = Some u" for cs u
    using all_of_invariant [OF that, of sound_node] Suc by blast
  then show ?case using Suc.prems by (auto split: option.splits if_splits intro: sound_mark)
qed simp

lemma sound_release_connection: "release_connection f i n = Some m \<Longrightarrow> sound_node n \<Longrightarrow> sound_node m"
proof (induction f arbitrary: i n m)
  case (Suc f)
  have "sound_node u" if "all_of (release_connection f) cs n = Some u" for cs u
    using all_of_invariant [OF that, of sound_node] Suc by blast
  then show ?case
    using Suc.prems
    by (auto simp del: close_connection.simps split: option.splits intro!: sound_drop dest: sound_close_connection)
qed simp

lemma reachable_sound: "reachable_node n \<Longrightarrow> sound_node n"
proof (induction rule: reachable_node.induct)
  case new
  show ?case by (simp add: node_new_def sound_node_def)
next
  case (set_default n identity)
  then show ?case by (simp add: set_default_connection_def sound_node_def)
next
  case (release_all n fuel m)
  then show ?case by (auto simp: release_node_def sound_node_def)
qed (use sound_create sound_extend sound_rules sound_full sound_async sound_output sound_stop sound_close_connection
      sound_release_connection in \<open>auto simp: keeps_sound_def\<close>)

section \<open>Down and up\<close>

text \<open>C11: A direct connection by \<open>ssh\<close> that the node created and opened is down after it was closed, whatever was done with
  it before: its process has gone, its channel is free and its session is not ready. Two classes of sessions are special.
  \<open>EprtSetup\<close>, whose \<open>close\<close> writes before it looks whether the session is ready, is left out. \<open>SignManCLI\<close> is covered when its
  session is ready; its \<open>open\<close> can return without (no \<open>Pass:\<close>, or no prompt), and then \<open>close\<close> leaves the process
  running, which \<open>signman_stays_up\<close> shows. The process takes what is written to it and ends when it is closed: the
  exceptions \<open>OSError\<close> and \<open>ExceptionPexpect\<close> of \<open>pexpect\<close> in \<open>write_line\<close> and \<open>close\<close>, which \<open>close_connection\<close> catches,
  are not modelled.\<close>

theorem closed_connection_is_down:
  assumes "reachable_node n" and "map_of (nd_connections n) i = Some e" and "en_opened e" and "en_extended e = Some False"
    and "en_session e = Direct t" and "se_kind t \<noteq> EprtSetup" and "se_kind t = SignManCLI \<longrightarrow> se_ready t"
    and "close_connection (Suc (length (nd_connections n))) i n = Some m"
  shows "\<exists>e' t'. map_of (nd_connections m) i = Some e' \<and> en_session e' = Direct t' \<and> \<not> en_opened e' \<and>
    \<not> ch_proc (se_channel t') \<and> \<not> ch_used (se_channel t') \<and> \<not> se_ready t'"
proof -
  have t: "sound_session t" "se_ready t" "se_kind t \<noteq> EprtSetup"
    using sound_get [OF reachable_sound [OF assms(1)] assms(2)] assms(3-7) by (auto simp: sound_entry_def)
  obtain u where u: "session_close ssh_class t = (Inr (), u)" "sound_session u" "\<not> se_ready u" "\<not> ch_used (se_channel u)"
    "\<not> ch_opened (se_channel u)"
    using sound_close [OF t(1,3)] t(2) by auto
  then have "\<not> ch_proc (se_channel u)" by (auto simp: sound_session_def ssh_ok_def ch_opened_def)
  moreover have "below n i i"
    using assms(2,3) by (intro reach.self) (simp add: check_open_connection_def)
  then have "map_of (nd_connections m) i = Some (closed_entry e)"
    using assms(2,8) close_reachable [OF assms(1), of i] by (simp add: with_closed_def dict_simps)
  ultimately show ?thesis
    using assms(5) u by (simp add: closed_entry_def close_session_def)
qed

lemma closed_connection_is_down_witness:
  "\<exists>t m e' t'. reachable_node demo_open \<and>
     nd_connections demo_open = [(''main'', \<lparr>en_session = Direct t, en_opened = True, en_extended = Some False, en_childs = Some []\<rparr>)] \<and>
     ch_opened (se_channel t) \<and> close_connection 2 ''main'' demo_open = Some m \<and>
     map_of (nd_connections m) ''main'' = Some e' \<and> en_session e' = Direct t' \<and> \<not> ch_proc (se_channel t')"
proof -
  have n: "reachable_node demo_open"
    unfolding demo_open_def demo_node_def by (intro reachable_node.intros)
  let ?e = "\<lambda>t. \<lparr>en_session = Direct t, en_opened = True, en_extended = Some False, en_childs = Some []\<rparr>"
  obtain t where t: "nd_connections demo_open = [(''main'', ?e t)]" "ch_opened (se_channel t)" "se_kind t = StandardLinux"
    using demo_open by blast
  have m: "close_connection (Suc (length (nd_connections demo_open))) ''main'' demo_open =
      Some (with_closed (below demo_open ''main'') demo_open)"
    by (rule close_reachable [OF n])
  have "map_of (nd_connections demo_open) ''main'' = Some (?e t)" using t by simp
  from closed_connection_is_down [OF n this _ _ _ _ _ m] obtain e' t' where
    "map_of (nd_connections (with_closed (below demo_open ''main'') demo_open)) ''main'' = Some e'" "en_session e' = Direct t'"
    "\<not> ch_proc (se_channel t')"
    using t(3) by auto
  then show ?thesis using n t m by (auto simp: numeral_2_eq_2)
qed

text \<open>\<open>signmcli\<close> does not ask for the password: \<open>open\<close> returns, the connection counts as opened, and closing it leaves the process.\<close>

lemma signman_up:
  "\<exists>t. session_open f ssh_class ((demo_main [(Hit 8, []), (Hit 0, []), (Timed_out, [])])\<lparr>se_kind := SignManCLI\<rparr>) = (Inr True, t) \<and>
     ch_opened (se_channel t) \<and> \<not> se_ready t \<and> se_kind t = SignManCLI"
  by (simp add: session_open_def open_signman_def returned_def ensure_open_def on_channel_def demo_main_def SSH_DEFAULT_PORT_def
        say_line_def wait_match_def must_match_def demo_simps default_config_def)

lemma signman_stays_up:
  "\<exists>n t m e u. reachable_node n \<and>
     nd_connections n = [(''main'', \<lparr>en_session = Direct t, en_opened = True, en_extended = Some False, en_childs = Some []\<rparr>)] \<and>
     se_kind t = SignManCLI \<and> close_connection 2 ''main'' n = Some m \<and> map_of (nd_connections m) ''main'' = Some e \<and>
     en_session e = Direct u \<and> \<not> en_opened e \<and> ch_proc (se_channel u)"
proof -
  let ?sc = "[(Hit 8, []), (Hit 0, []), (Timed_out, [])]"
  let ?s = "(demo_main ?sc)\<lparr>se_kind := SignManCLI\<rparr>"
  let ?n = "snd (create_connection (\<lambda>_. False) ''me'' ''c1'' ?sc (demo_params\<lparr>cr_kind := SignManCLI, cr_force := True\<rparr>) ''main'' node_new)"
  let ?e = "\<lambda>t. \<lparr>en_session = Direct t, en_opened = True, en_extended = Some False, en_childs = Some []\<rparr>"
  obtain t where t: "session_open (Suc (script_left (se_channel ?s))) ssh_class ?s = (Inr True, t)" "ch_opened (se_channel t)"
      "\<not> se_ready t" "se_kind t = SignManCLI"
    using signman_up by blast
  have n: "nd_connections ?n = [(''main'', ?e t)]"
    using t(1) by (simp add: create_connection_def node_new_def new_channel_def demo_params_def endpoint_new_def bind_res_def
      Let_def done_with_def session_new_def class_simps ch_lock_def channel_new_def put_entry_def demo_main_def open_session_def)
  have r: "reachable_node ?n" by (intro reachable_node.intros)
  have "sound_entry (?e t)" using sound_get [OF reachable_sound [OF r], of "''main''" "?e t"] n by simp
  then have "sound_session t" using t(4) by (simp add: sound_entry_def)
  from sound_close [OF this] t obtain u where u: "session_close ssh_class t = (Inr (), u)" "ch_opened (se_channel u)" by auto
  have "map_of (nd_connections (mark_closed ''main'' ?n)) ''main'' = Some (closed_entry (?e t))"
    using n by (simp add: mark_closed_def dict_modify_def dict_simps)
  moreover have "closed_entry (?e t) = (?e u)\<lparr>en_opened := False\<rparr>" using u(1) by (simp add: closed_entry_def close_session_def)
  ultimately have m: "map_of (nd_connections (mark_closed ''main'' ?n)) ''main'' = Some ((?e u)\<lparr>en_opened := False\<rparr>)" by metis
  have c: "close_connection 2 ''main'' ?n = Some (mark_closed ''main'' ?n)"
    using n by (simp add: numeral_2_eq_2 childs_def)
  have "en_session ((?e u)\<lparr>en_opened := False\<rparr>) = Direct u" "\<not> en_opened ((?e u)\<lparr>en_opened := False\<rparr>)" "ch_proc (se_channel u)"
    using u(2) by (simp_all add: ch_opened_def)
  with r n t(4) c m show ?thesis by blast
qed


lemma ssh_clone_open:
  assumes "ssh_clone isfile i sc c = (Inr v, d)" and "ch_opened c"
  shows "ssh_ok d \<and> ch_opened d"
proof -
  obtain d0 where "ssh_open d0 = (Inr v, d)" "ssh_ok d0"
    using assms
    by (auto simp: ssh_clone_def Let_def enable_x11_forwarding_def set_ssh_key_def set_ssh_subsystem_def channel_new_def ssh_ok_def
        done_with_def ch_opened_def split: if_splits)
  from ssh_open_outcome [OF this] show ?thesis by simp
qed

text \<open>C35: The clone of a session over an open channel, which a command in the background runs in, has its process opened by
  the clone of the channel; the session does not know that it has to close it, so the process outlives \<open>close\<close>.\<close>

theorem clone_outlives_close:
  assumes "clone_session isfile i j sc (Direct s) = Inr (Direct t)" and "ch_opened (se_channel s)" and "se_kind s \<noteq> EprtSetup"
    and "session_close ssh_class t = (Inr (), u)"
  shows "ch_opened (se_channel u) \<and> \<not> se_ready u"
proof -
  let ?clone = "\<lambda>c. case ssh_clone isfile i sc c of (Inl x, _) \<Rightarrow> Inl x | (Inr _, d) \<Rightarrow> Inr d"
  obtain b where c: "session_clone (Suc (length sc)) ssh_class ?clone s = Inr (b, t)"
    using assms(1) by (auto simp: clone_session_def bind_res_def split: sum.splits)
  then obtain d v where d: "ssh_clone isfile i sc (se_channel s) = (Inr v, d)"
    by (auto simp: session_clone_def split: sum.splits prod.splits)
  then obtain s0 where s0: "session_new ssh_class (clone_kind (se_kind s)) d = Inr s0"
    and t: "if se_ready s then session_open (Suc (length sc)) ssh_class s0 = (Inr b, t) else t = s0"
    using c by (auto simp: session_clone_def split: sum.splits prod.splits if_splits)
  have s0: "ssh_ok (se_channel s0)" "ch_opened (se_channel s0)" "\<not> se_ready s0" "\<not> se_autoclose s0" "se_kind s0 \<noteq> EprtSetup"
    using ssh.session_new_cases [of d "clone_kind (se_kind s)"] ssh_clone_open [OF d assms(2)] s0 assms(3)
    by (auto simp: ssh_opened clone_kind_def split: if_splits)
  have t: "ssh_ok (se_channel t)" "ch_opened (se_channel t)" "\<not> se_autoclose t" "se_kind t \<noteq> EprtSetup"
    using ssh.open_outcome [OF s0(1,3,4,5), of "Suc (length sc)" "Inr b" t] s0 t by (auto simp: ssh_opened split: if_splits)
  from ssh.close_outcome [OF t(1,4) assms(4)] t show ?thesis by (simp add: ssh_opened)
qed

lemma clone_outlives_close_witness:
  "\<exists>s t u. clone_session (\<lambda>_. False) ''c2'' ''c3'' [(Hit 8, []), (Timed_out, []), (Hit 0, [])] (Direct s) = Inr (Direct t) \<and>
     ch_opened (se_channel s) \<and> session_close ssh_class t = (Inr (), u) \<and> ch_opened (se_channel u)"
proof -
  let ?sc = "[(Hit 8, []), (Timed_out, []), (Hit 0, [])]"
  obtain s :: "channel session" where s: "ch_opened (se_channel s)" "se_ready s" "se_kind s = StandardLinux" "ch_x11 (se_channel s) = []"
    "ch_key (se_channel s) = []" "ch_subsystem (se_channel s) = []" "ch_timeout (se_channel s) = 60"
    "ch_ep (se_channel s) = ch_ep (se_channel (demo_main []))"
    using demo_open by blast
  have "\<exists>t. clone_session (\<lambda>_. False) ''c2'' ''c3'' ?sc (Direct s) = Inr (Direct t) \<and> se_kind t = StandardLinux \<and>
      ch_opened (se_channel t)"
    using s
    by (simp add: clone_session_def session_clone_def bind_res_def ssh_clone_def clone_kind_def session_new_def demo_main_def
        SSH_DEFAULT_PORT_def session_open_def open_standard_def returned_def ensure_open_def on_channel_def
        prompt_stage_def say_line_def look_for_echo_def wait_match_def must_match_def set_ready_def demo_simps)
  then obtain t where t: "clone_session (\<lambda>_. False) ''c2'' ''c3'' ?sc (Direct s) = Inr (Direct t)" "se_kind t = StandardLinux"
      "ch_opened (se_channel t)" by blast
  obtain u where u: "session_close ssh_class t = (Inr (), u)"
    using close_open [of t] t(2,3) by auto
  from clone_outlives_close [OF t(1) s(1) _ u] show ?thesis using s t(1) u by auto
qed

end
