(* ===== verification/Consoles.thy ===== *)
theory Consoles
  imports Channels
begin

text \<open>
  Two users of the channels to consoles: the thread \<open>Console\<close> of \<open>HSS_rtc/HSS_rtc_lib/components/console.py\<close>, which copies what a console
  prints to a file, and \<open>TTCN_cli\<close> of \<open>hss_utils/src/node/gentraf.py\<close>, which sends commands to the traffic generator.
\<close>

section \<open>\<open>Console\<close>\<close>

text \<open>\<open>cn_lines\<close>: the lines of the file, \<open>cn_fd\<close>: it is open. \<open>cn_dead\<close>: the thread has ended, by itself or by an exception.\<close>

record console =
  cn_id :: string
  cn_host :: string
  cn_port :: port
  cn_channel :: "channel option"
  cn_running :: bool
  cn_force_exit :: bool
  cn_fd :: bool
  cn_lines :: "string list"
  cn_dead :: bool

definition console_new :: "string \<Rightarrow> string \<Rightarrow> port \<Rightarrow> console" where
  "console_new i h p =
     \<lparr>cn_id = ''CONSOLE_'' @ i, cn_host = h, cn_port = p, cn_channel = None, cn_running = False, cn_force_exit = False, cn_fd = False,
      cn_lines = [], cn_dead = False\<rparr>"

text \<open>\<open>conn_text\<close> is the text of an exception, \<open>me\<close> the user, \<open>u\<close> the identifier of the new channel, \<open>sc\<close> what it prints.\<close>

definition console_connect ::
  "(conn_error \<Rightarrow> string) \<Rightarrow> string \<Rightarrow> string \<Rightarrow> script \<Rightarrow> console \<Rightarrow> unit conn \<times> console" where
  "console_connect conn_text me u sc c =
     (case cn_channel c of
        Some _ \<Rightarrow> done_with c
      | None \<Rightarrow>
          let fail = (\<lambda>e. Inl (Conn_raised (ExecutionRunError (cn_id c @ '' cannot open telnet connection: '' @ conn_text e))))
          in case endpoint_new (Some TELNET_DEFAULT_PORT) me
              \<lparr>cf_host = Some (cn_host c), cf_port = Some (Some (cn_port c)), cf_user = None, cf_password = None\<rparr> of
            Inl e \<Rightarrow> (fail e, c)
          | Inr e \<Rightarrow>
              (case console_open (channel_new u e 10 sc) of
                 (Inl x, ch) \<Rightarrow> (fail x, c\<lparr>cn_channel := Some ch\<rparr>)
               | (Inr _, ch) \<Rightarrow> done_with (c\<lparr>cn_channel := Some ch, cn_running := True\<rparr>)))"

text \<open>What closing the channel raises is only logged; the channel is dropped in any case.\<close>

definition console_shut :: "console \<Rightarrow> console" where
  "console_shut c = c\<lparr>cn_fd := False, cn_channel := None, cn_running := False\<rparr>"

definition console_shutdown :: "console \<Rightarrow> console" where
  "console_shutdown c = console_shut (c\<lparr>cn_force_exit := True\<rparr>)"

definition console_online :: "console \<Rightarrow> bool" where
  "console_online c \<longleftrightarrow> cn_running c \<and> cn_channel c \<noteq> None"

definition console_start ::
  "(conn_error \<Rightarrow> string) \<Rightarrow> string \<Rightarrow> string \<Rightarrow> script \<Rightarrow> console \<Rightarrow> unit conn \<times> console" where
  "console_start conn_text me u sc c =
     andthen (console_connect conn_text me u sc c) (\<lambda>_ c. done_with (c\<lparr>cn_fd := True, cn_lines := []\<rparr>))"

text \<open>One turn of the loop of the thread.\<close>

definition console_turn :: "console \<Rightarrow> console" where
  "console_turn c =
     (if cn_dead c then c
      else if \<not> console_online c \<or> cn_force_exit c then c\<lparr>cn_dead := True\<rparr>
      else case cn_channel c of
        None \<Rightarrow> c\<lparr>cn_dead := True\<rparr>
      | Some ch \<Rightarrow>
          (case console_expect 1 ch of
             (Inl _, ch) \<Rightarrow> c\<lparr>cn_channel := Some ch, cn_dead := True\<rparr>
           | (Inr h, ch) \<Rightarrow>
               let c1 = c\<lparr>cn_channel := Some ch\<rparr>
               in if h = Hit 0 \<and> cn_fd c1 then c1\<lparr>cn_lines := cn_lines c1 @ [ch_buffer ch]\<rparr> else c1))"

datatype console_event = Turn | Shutdown

fun console_run :: "console_event list \<Rightarrow> console \<Rightarrow> console" where
  "console_run [] c = c"
| "console_run (Turn # es) c = console_run es (console_turn c)"
| "console_run (Shutdown # es) c = console_run es (console_shutdown c)"

section \<open>\<open>TTCN_cli\<close>\<close>

definition ttcn_cli_new :: "string \<Rightarrow> string \<Rightarrow> script \<Rightarrow> ep_config \<Rightarrow> unit conn \<times> channel option" where
  "ttcn_cli_new me u sc cf =
     (if cf_host cf = None then (Inl (Conn_raised (ValueError ''host missing'')), None)
      else if cf_port cf = None then (Inl (Conn_raised (ValueError ''port missing'')), None)
      else case endpoint_new (Some TELNET_DEFAULT_PORT) me cf of
        Inl e \<Rightarrow> (Inl e, None)
      | Inr e \<Rightarrow> (case ttcn_open (channel_new u e 10 sc) of (r, c) \<Rightarrow> (r, Some c)))"

definition reconnect :: "string \<Rightarrow> channel \<Rightarrow> unit conn \<times> channel" where
  "reconnect line c = andthen (ttcn_open (ttcn_close c)) (\<lambda>_. ch_write line)"

text \<open>
  The loop of \<open>send_line\<close> for \<open>k\<close> patterns of the caller: \<open>Inr None\<close>, it goes on. The first match is the prompt; \<open>owner\<close>: the owner
  still runs.
\<close>

fun ttcn_loop :: "bool \<Rightarrow> nat \<Rightarrow> string \<Rightarrow> nat \<Rightarrow> bool \<Rightarrow> channel \<Rightarrow> hit option conn \<times> channel" where
  "ttcn_loop owner k line 0 first c = (Inr None, c)"
| "ttcn_loop owner k line (Suc n) first c =
     andthen (console_expect k c) (\<lambda>h c.
       case h of
         Hit i \<Rightarrow>
           if i = 0 \<and> (strip (ch_buffer c) \<noteq> [] \<or> line = []) then (Inr (Some h), c)
           else ttcn_loop owner k line n first c
       | _ \<Rightarrow>
           if first \<and> owner then
             (case reconnect line c of
                (Inl _, c) \<Rightarrow> (Inr (Some h), c)
              | (Inr _, c) \<Rightarrow> ttcn_loop owner k line n False c)
           else (Inr (Some h), c))"

definition ttcn_send :: "bool \<Rightarrow> nat \<Rightarrow> string \<Rightarrow> nat \<Rightarrow> channel \<Rightarrow> hit option conn \<times> channel" where
  "ttcn_send owner k line fuel c = andthen (ch_write line c) (\<lambda>_. ttcn_loop owner k line fuel True)"

section \<open>Properties\<close>

definition first_lines :: "nat \<Rightarrow> script \<Rightarrow> string list" where
  "first_lines n sc = map snd (filter (\<lambda>(h, b). h = Hit 0) (take n sc))"

lemma turns_after_end: "cn_dead c \<Longrightarrow> console_run (replicate n Turn) c = c"
  by (induction n) (simp_all add: console_turn_def)

text \<open>A console that is started copies one line per match, and goes on whatever else it sees.\<close>

lemma console_turns:
  assumes "cn_channel c = Some ch" and "ch_proc ch" and "cn_running c" and "\<not> cn_force_exit c" and "cn_fd c" and "\<not> cn_dead c"
  shows "cn_lines (console_run (replicate n Turn) c) = cn_lines c @ first_lines n (ch_script ch) \<and>
    \<not> cn_dead (console_run (replicate n Turn) c)"
  using assms
proof (induction n arbitrary: c ch)
  case (Suc n)
  obtain h b sc where nh: "next_hit (Suc (Suc 0)) (ch_script ch) = ((h, b), sc)" by (metis prod.exhaust)
  let ?ch = "ch\<lparr>ch_script := sc, ch_buffer := b\<rparr>"
  let ?c = "c\<lparr>cn_channel := Some ?ch, cn_lines := cn_lines c @ (if h = Hit 0 then [b] else [])\<rparr>"
  have turn: "console_turn c = ?c"
    using Suc.prems nh by (auto simp: console_turn_def console_online_def console_expect_def Let_def)
  have "first_lines (Suc n) (ch_script ch) = (if h = Hit 0 then [b] else []) @ first_lines n sc"
    using nh by (cases "ch_script ch") (auto simp: first_lines_def split: hit.splits if_splits)
  moreover have "cn_lines (console_run (replicate n Turn) ?c) = cn_lines ?c @ first_lines n (ch_script ?ch) \<and>
      \<not> cn_dead (console_run (replicate n Turn) ?c)"
    by (rule Suc.IH) (use Suc.prems in simp_all)
  ultimately show ?case by (simp add: turn)
qed (simp add: first_lines_def)

lemma shut_turns: "\<not> console_online c \<Longrightarrow> cn_lines (console_run es c) = cn_lines c \<and> \<not> console_online (console_run es c)"
proof (induction es arbitrary: c)
  case (Cons e es)
  show ?case
  proof (cases e)
    case Turn
    have "\<not> console_online (console_turn c) \<and> cn_lines (console_turn c) = cn_lines c"
      using Cons.prems by (simp add: console_turn_def console_online_def)
    then show ?thesis using Cons.IH [of "console_turn c"] Turn by simp
  next
    case Shutdown
    have "\<not> console_online (console_shutdown c) \<and> cn_lines (console_shutdown c) = cn_lines c"
      by (simp add: console_shutdown_def console_shut_def console_online_def)
    then show ?thesis using Cons.IH [of "console_shutdown c"] Shutdown by simp
  qed
qed simp

text \<open>A console that is started writes the lines it reads until it is shut down, in order and none after; the end of
  the output does not end the thread.\<close>

theorem console_copies:
  assumes "console_start conn_text me u sc (console_new i h p) = (Inr (), c)"
  shows "cn_lines (console_run (replicate n Turn @ Shutdown # es) c) = first_lines n (tl sc) \<and>
    \<not> cn_dead (console_run (replicate n Turn) c)"
proof -
  have run: "console_run (xs @ ys) c = console_run ys (console_run xs c)" for xs ys c
    by (induction xs c rule: console_run.induct) simp_all
  obtain ch where c: "cn_channel c = Some ch" "ch_proc ch" "cn_running c" "\<not> cn_force_exit c" "cn_fd c" "\<not> cn_dead c" "cn_lines c = []"
    "ch_script ch = tl sc"
    using assms
    by (cases sc)
      (auto simp: console_start_def console_connect_def console_new_def andthen_Inr endpoint_new_def console_open_def ch_wait_def
        channel_new_def ch_opened_def ch_spawn_def done_with_def split: prod.splits if_splits hit.splits)
  note turns = console_turns [OF c(1-6), of n]
  let ?d = "console_run (replicate n Turn) c"
  have "\<not> console_online (console_shutdown ?d)" "cn_lines (console_shutdown ?d) = cn_lines ?d"
    by (simp_all add: console_shutdown_def console_shut_def console_online_def)
  then show ?thesis
    using turns shut_turns [of "console_shutdown ?d" es] c(7,8) by (simp add: run)
qed

lemma console_copies_witness:
  "\<exists>c. console_start (\<lambda>_. []) ''me'' ''u'' [(Hit 0, []), (Hit 0, ''up''), (Ended, []), (Hit 0, ''late'')] (console_new ''1'' ''h'' (Port 23)) =
       (Inr (), c) \<and>
     cn_lines (console_run [Turn, Turn, Shutdown, Turn] c) = [''up''] \<and> \<not> cn_dead (console_run [Turn, Turn] c)"
proof -
  let ?sc = "[(Hit 0, []), (Hit 0, ''up''), (Ended, []), (Hit 0, ''late'')]"
  have "\<exists>c. console_start (\<lambda>_. []) ''me'' ''u'' ?sc (console_new ''1'' ''h'' (Port 23)) = (Inr (), c)"
    by (simp add: console_start_def console_connect_def console_new_def endpoint_new_def console_open_def ch_wait_def
        channel_new_def ch_opened_def ch_spawn_def done_with_def)
  then obtain c where c: "console_start (\<lambda>_. []) ''me'' ''u'' ?sc (console_new ''1'' ''h'' (Port 23)) = (Inr (), c)" by blast
  from console_copies [OF c, of 2 "[Turn]"] show ?thesis
    using c by (simp add: numeral_2_eq_2 first_lines_def)
qed

text \<open>When the connection fails the console keeps a channel that is not open: a second call does not try again.\<close>

lemma failed_connect_is_kept:
  "console_connect conn_text me u sc c = (Inl e, d) \<Longrightarrow> console_connect conn_text me u' sc' d = (Inr (), d) \<and> \<not> cn_running d \<or> cn_running c"
  by (auto simp: console_connect_def endpoint_new_def done_with_def split: option.splits prod.splits sum.splits)

text \<open>What a reconnection sends and starts.\<close>

lemma reconnect_effect:
  assumes "reconnect line c = (r, d)"
  shows "length (ch_spawned d) \<le> length (ch_spawned c) + 1 \<and> length (ch_script d) \<le> length (ch_script c) \<and>
    (\<exists>ws. ch_sent d = ch_sent c @ ws \<and> length ws \<le> 2 \<and> set ws \<subseteq> {''quit'', line})"
proof -
  define c1 where "c1 = ttcn_close c"
  have c1: "ch_spawned c1 = ch_spawned c" "ch_script c1 = ch_script c" "\<exists>xs. ch_sent c1 = ch_sent c @ xs \<and> xs \<in> {[], [''quit'']}"
    "\<not> ch_opened c1"
    by (auto simp: c1_def ttcn_close_def ch_release_def ch_say_def ch_opened_def Let_def)
  obtain h b sc where nh: "next_hit 1 (ch_script c1) = ((h, b), sc)" by (metis prod.exhaust)
  then have sc: "length sc \<le> length (ch_script c1)"
    by (cases "ch_script c1") auto
  show ?thesis
    using assms c1 nh sc unfolding reconnect_def c1_def [symmetric]
    by (auto simp: ttcn_open_def ch_wait_def ch_spawn_def ch_say_def ch_drop_def ch_write_def done_with_def ch_opened_def
        split: if_splits)
qed

lemma console_expect_effect:
  "console_expect k c = (r, d) \<Longrightarrow> ch_spawned d = ch_spawned c \<and> ch_sent d = ch_sent c \<and>
     (length (ch_script d) < length (ch_script c) \<or> ch_script d = [] \<and> ch_script c = [] \<and> (\<forall>i. r \<noteq> Inr (Hit i)) \<or> d = c \<and> (\<exists>e. r = Inl e))"
  by (cases "ch_script c") (auto simp: console_expect_def split: if_splits prod.splits)

text \<open>After the reconnection the loop ends, with no more lines.\<close>

lemma loop_second:
  assumes "ttcn_loop owner k line n False c = (Inr r, d)"
  shows "ch_sent d = ch_sent c \<and> ch_spawned d = ch_spawned c \<and> (length (ch_script c) < n \<longrightarrow> r \<noteq> None) \<and>
    (\<forall>i. r = Some (Hit i) \<longrightarrow> i = 0 \<and> (strip (ch_buffer d) \<noteq> [] \<or> line = []))"
  using assms
proof (induction n arbitrary: c)
  case (Suc n)
  then obtain h u where u: "console_expect k c = (Inr h, u)" by (auto simp: andthen_Inr)
  note e = console_expect_effect [OF u]
  show ?case
  proof (cases "\<exists>i. h = Hit i \<and> \<not> (i = 0 \<and> (strip (ch_buffer u) \<noteq> [] \<or> line = []))")
    case True
    then have l: "ttcn_loop owner k line n False u = (Inr r, d)" using Suc.prems u by auto
    then show ?thesis using Suc.IH [OF l] e True by auto
  next
    case False
    then have "r = Some h \<and> d = u" using Suc.prems u by (cases h) auto
    then show ?thesis using e False by auto
  qed
qed simp

lemma loop_first:
  assumes "ttcn_loop owner k line n first c = (Inr r, d)"
  shows "length (ch_spawned d) \<le> length (ch_spawned c) + 1 \<and> (Suc (length (ch_script c)) < n \<longrightarrow> r \<noteq> None) \<and>
    (\<forall>i. r = Some (Hit i) \<longrightarrow> i = 0 \<and> (strip (ch_buffer d) \<noteq> [] \<or> line = [])) \<and>
    (\<exists>ws. ch_sent d = ch_sent c @ ws \<and> length ws \<le> 2 \<and> set ws \<subseteq> {''quit'', line} \<and> (ws \<noteq> [] \<longrightarrow> owner))"
  using assms
proof (induction n arbitrary: c)
  case (Suc n)
  then obtain h u where u: "console_expect k c = (Inr h, u)" by (auto simp: andthen_Inr)
  note e = console_expect_effect [OF u]
  consider (again) i where "h = Hit i" "\<not> (i = 0 \<and> (strip (ch_buffer u) \<noteq> [] \<or> line = []))"
    | (retry) "\<forall>i. h \<noteq> Hit i" "first \<and> owner" | (over) "r = Some h" "d = u" "\<forall>i. h = Hit i \<longrightarrow> i = 0 \<and> (strip (ch_buffer u) \<noteq> [] \<or> line = [])"
    using Suc.prems u by (cases h) (auto split: if_splits)
  then show ?case
  proof cases
    case (again i)
    then have l: "ttcn_loop owner k line n first u = (Inr r, d)" using Suc.prems u by auto
    then show ?thesis using Suc.IH [OF l] e again by auto
  next
    case retry
    obtain q v where v: "reconnect line u = (q, v)" by (cases "reconnect line u")
    note re = reconnect_effect [OF v]
    show ?thesis
    proof (cases q)
      case (Inl x)
      then have "r = Some h \<and> d = v" using retry Suc.prems u v by (cases h) auto
      then show ?thesis using re e retry by auto
    next
      case (Inr x)
      then have l: "ttcn_loop owner k line n False v = (Inr r, d)" using retry Suc.prems u v by (cases h) auto
      from loop_second [OF l] show ?thesis using re e retry by auto
    qed
  next
    case over
    then show ?thesis
      using e by auto
  qed
qed simp

text \<open>A command to the traffic generator ends, after one reconnection at most, which sends it once more; the prompt counts
  as an answer only when text came with it, or the command is empty.\<close>

theorem ttcn_command_ends:
  assumes "Suc (length (ch_script c)) < fuel" and "ttcn_send owner k line fuel c = (Inr r, d)"
  shows "r \<noteq> None \<and> length (ch_spawned d) \<le> length (ch_spawned c) + 1 \<and>
    (\<forall>i. r = Some (Hit i) \<longrightarrow> i = 0 \<and> (strip (ch_buffer d) \<noteq> [] \<or> line = [])) \<and>
    (\<exists>ws. ch_sent d = ch_sent c @ line # ws \<and> length ws \<le> 2 \<and> set ws \<subseteq> {''quit'', line} \<and> (ws \<noteq> [] \<longrightarrow> owner))"
proof -
  obtain c1 where c1: "ch_write line c = (Inr (), c1)" and l: "ttcn_loop owner k line fuel True c1 = (Inr r, d)"
    using assms(2) by (auto simp: ttcn_send_def andthen_Inr)
  have "ch_sent c1 = ch_sent c @ [line]" "ch_script c1 = ch_script c" "ch_spawned c1 = ch_spawned c"
    using c1 by (auto simp: ch_write_def ch_say_def done_with_def split: if_splits)
  then show ?thesis using loop_first [OF l] assms(1) by auto
qed

lemma ttcn_command_ends_witness:
  "\<exists>c d. ttcn_cli_new ''me'' ''u'' [(Hit 0, []), (Ended, []), (Hit 0, []), (Hit 0, ''done'')]
       \<lparr>cf_host = Some ''h'', cf_port = Some (Some (Port 4000)), cf_user = None, cf_password = None\<rparr> = (Inr (), Some c) \<and>
     ttcn_send True 0 ''start'' 9 c = (Inr (Some (Hit 0)), d) \<and> ch_sent d = [''start'', ''quit'', ''start''] \<and> strip (ch_buffer d) \<noteq> []"
proof -
  let ?sc = "[(Hit 0, []), (Ended, []), (Hit 0, []), (Hit 0, ''done'')]"
  let ?cf = "\<lparr>cf_host = Some ''h'', cf_port = Some (Some (Port 4000)), cf_user = None, cf_password = None\<rparr>"
  note simps = ttcn_cli_new_def endpoint_new_def ttcn_open_def ch_wait_def channel_new_def ch_opened_def ch_spawn_def done_with_def
  have "\<exists>c d. ttcn_cli_new ''me'' ''u'' ?sc ?cf = (Inr (), Some c) \<and> Suc (length (ch_script c)) < 9 \<and>
      ttcn_send True 0 ''start'' 9 c = (Inr (Some (Hit 0)), d) \<and> ch_sent d = [''start'', ''quit'', ''start'']"
    by (simp add: simps ttcn_send_def ch_write_def ch_say_def numeral_eq_Suc console_expect_def reconnect_def ttcn_close_def
        ch_release_def strip_def blank_def)
  then obtain c d where c: "ttcn_cli_new ''me'' ''u'' ?sc ?cf = (Inr (), Some c)" "Suc (length (ch_script c)) < 9"
      "ttcn_send True 0 ''start'' 9 c = (Inr (Some (Hit 0)), d)" "ch_sent d = [''start'', ''quit'', ''start'']"
    by blast
  from ttcn_command_ends [OF c(2,3)] show ?thesis using c by blast
qed

end
