(* ===== verification/Cliss_Text.thy ===== *)
theory Cliss_Text
  imports Rtc_Prelude "HOL-Library.List_Lexorder"
begin

text \<open>
  The answers of the command line of a CBA node: \<open>parse_cliss_info\<close> and \<open>fill_from_cliss_info\<close> of
  \<open>hss_utils/src/node/cba.py\<close>, \<open>remove_quottes\<close> and \<open>sorted_nicely\<close> of \<open>st_command/__init__.py\<close>.
  What is read from an answer whose lines have the form that the parser looks for.
\<close>

section \<open>Lines\<close>

definition lstrip :: "string \<Rightarrow> string" where
  "lstrip = dropWhile blank"

definition identation :: "string \<Rightarrow> nat" where
  "identation l = length l - length (lstrip l)"

definition ends_with :: "string \<Rightarrow> string \<Rightarrow> bool" where
  "ends_with s p \<longleftrightarrow> startswith (rev s) (rev p)"

text \<open>\<open>s[1:-1]\<close> of a text in quotes; a single quote becomes empty.\<close>

definition remove_quottes :: "string \<Rightarrow> string" where
  "remove_quottes s = (if startswith s [CHR 0x22] \<and> ends_with s [CHR 0x22] then butlast (tl s) else s)"

definition clean_line :: "string \<Rightarrow> string" where
  "clean_line l =
     lstrip (str_replace (str_replace (str_replace (str_replace l '' <read-only>'' []) '' <default>'' []) '' <deprecated>'' []) [CHR 0x0D] [])"

text \<open>\<open>data[key].append(value)\<close>, or a list of its own for a new key.\<close>

definition append_value :: "string \<Rightarrow> string \<Rightarrow> (string, string list) dict \<Rightarrow> (string, string list) dict" where
  "append_value k v d = dict_set k (case map_of d k of Some vs \<Rightarrow> vs @ [v] | None \<Rightarrow> [v]) d"

text \<open>
  The state of the loop: the variable \<open>key\<close>, which does not exist before the first line that sets it, and the dictionary.
\<close>

definition cliss_line ::
  "string \<Rightarrow> string option \<times> (string, string list) dict \<Rightarrow> (string option \<times> (string, string list) dict) res" where
  "cliss_line line st =
     (if identation line = 0 then Inr st
      else let l = clean_line line; (key, d) = st
        in if CHR ''='' \<in> set l \<and> \<not> startswith l [CHR 0x22] then
             (let k = takeWhile (\<lambda>c. c \<noteq> CHR ''='') l
              in Inr (Some k, append_value k (remove_quottes (drop (Suc (length k)) l)) d))
           else if startswith l [CHR 0x22] then
             (case key of
                None \<Rightarrow> Inl (NameError ''local variable key referenced before assignment'')
              | Some k \<Rightarrow> Inr (Some k, append_value k (remove_quottes l) d))
           else Inr (Some l, d))"

fun cliss_lines ::
  "string list \<Rightarrow> string option \<times> (string, string list) dict \<Rightarrow> (string option \<times> (string, string list) dict) res" where
  "cliss_lines [] st = Inr st"
| "cliss_lines (l # ls) st = bind_res (cliss_line l st) (cliss_lines ls)"

definition parse_cliss_info :: "string \<Rightarrow> (string, string list) dict res" where
  "parse_cliss_info info = bind_res (cliss_lines (split_on (CHR 0x0A) info) (None, [])) (\<lambda>(_, d). Inr d)"

text \<open>
  The requested keys. A key that is missing gets the empty text, here \<open>[]\<close>: the callers take its length, its elements or
  its first element, which the empty text does not have either. Nothing is filled from an error or from an empty answer.
\<close>

definition fill_from_cliss_info :: "string list \<Rightarrow> string \<Rightarrow> (string, string list) dict res" where
  "fill_from_cliss_info to_fill info =
     (if contains ''ERROR:'' info then Inr []
      else bind_res (parse_cliss_info info) (\<lambda>d.
        Inr (if d = [] then []
             else fold (\<lambda>k f. dict_set k (case map_of d k of Some vs \<Rightarrow> vs | None \<Rightarrow> []) f) to_fill [])))"

text \<open>\<open>d[k]\<close> and \<open>d[k][0]\<close>\<close>

definition field :: "string \<Rightarrow> (string, 'v) dict \<Rightarrow> 'v res" where
  "field k d = (case map_of d k of None \<Rightarrow> Inl (KeyError k) | Some v \<Rightarrow> Inr v)"

definition first_of :: "string \<Rightarrow> (string, 'v list) dict \<Rightarrow> 'v res" where
  "first_of k d = bind_res (field k d) (\<lambda>vs. py_nth vs 0)"

text \<open>\<open>s.splitlines()\<close>: a line ends with a line feed, a carriage return or both.\<close>

fun text_lines :: "string \<Rightarrow> string list" where
  "text_lines [] = []"
| "text_lines [c] = (if c = CHR 0x0A \<or> c = CHR 0x0D then [[]] else [[c]])"
| "text_lines (c # d # cs) =
     (if c = CHR 0x0D \<and> d = CHR 0x0A then [] # text_lines cs
      else if c = CHR 0x0A \<or> c = CHR 0x0D then [] # text_lines (d # cs)
      else (case text_lines (d # cs) of [] \<Rightarrow> [[c]] | l # ls \<Rightarrow> (c # l) # ls))"

section \<open>Sorting\<close>

lemma dropWhile_shorter: "dropWhile P s = r \<Longrightarrow> r \<noteq> [] \<Longrightarrow> (\<And>c. \<not> P c \<Longrightarrow> Q c) \<Longrightarrow> length (dropWhile Q r) < length s"
proof -
  assume r: "dropWhile P s = r" "r \<noteq> []" and pq: "\<And>c. \<not> P c \<Longrightarrow> Q c"
  from r obtain c cs where c: "r = c # cs" by (cases r) auto
  with r have "\<not> P c" by (metis hd_dropWhile list.sel(1))
  with c pq have "length (dropWhile Q r) < length r" by (simp add: le_imp_less_Suc length_dropWhile_le)
  also have "length r \<le> length s" using r by (metis length_dropWhile_le)
  finally show ?thesis .
qed

text \<open>
  \<open>re.split('([0-9]+)', s)\<close> alternates texts and numbers; a text is the list of its codes and a number a list of its own, which are
  compared at equal places only.
\<close>

function nice_key :: "string \<Rightarrow> nat list list" where
  "nice_key s =
     (let w = takeWhile (\<lambda>c. \<not> digit c) s; r = dropWhile (\<lambda>c. \<not> digit c) s
      in if r = [] then [map of_char w]
         else map of_char w # [digits_value (takeWhile digit r)] # nice_key (dropWhile digit r))"
  by pat_completeness auto

termination
  by (relation "measure length") (auto intro: dropWhile_shorter)

declare nice_key.simps [simp del]

definition sorted_names :: "string list \<Rightarrow> string list" where
  "sorted_names = sort_key nice_key"

lemma sorted_nicely_spec:
  "set (sorted_names ws) = set ws" "length (sorted_names ws) = length ws" "sorted (map nice_key (sorted_names ws))"
  by (simp_all add: sorted_names_def)

section \<open>The lines of an answer\<close>

text \<open>
  The form of the lines that the parser looks for: an indentation, a key with its value, a key alone or a value alone, and
  after it any of the three remarks and a carriage return. A value on the line of its key may be quoted or not; a value on a
  line of its own is quoted. Keys and values have no line end and no angle bracket; a key is not empty, has no equals sign and
  does not begin with a blank or a quote.
\<close>

definition plain_text :: "string \<Rightarrow> bool" where
  "plain_text s \<longleftrightarrow> CHR 0x0A \<notin> set s \<and> CHR 0x0D \<notin> set s \<and> CHR ''<'' \<notin> set s"

definition plain_key :: "string \<Rightarrow> bool" where
  "plain_key k \<longleftrightarrow> plain_text k \<and> CHR ''='' \<notin> set k \<and>
     (case k of [] \<Rightarrow> False | c # _ \<Rightarrow> \<not> blank c \<and> c \<noteq> CHR 0x22)"

definition indent :: "string \<Rightarrow> bool" where
  "indent s \<longleftrightarrow> s \<noteq> [] \<and> set s \<subseteq> {CHR '' '', CHR 0x09}"

definition remarks :: "string list" where
  "remarks = ['' <read-only>'', '' <default>'', '' <deprecated>'']"

definition rest_of_line :: "string \<Rightarrow> bool" where
  "rest_of_line t \<longleftrightarrow> (\<exists>ms r. set ms \<subseteq> set remarks \<and> (r = [] \<or> r = [CHR 0x0D]) \<and> t = concat ms @ r)"

definition line_with :: "string \<Rightarrow> string \<Rightarrow> bool" where
  "line_with body l \<longleftrightarrow> (\<exists>s t. indent s \<and> rest_of_line t \<and> l = s @ body @ t)"

definition pair_line :: "string \<Rightarrow> string \<Rightarrow> string \<Rightarrow> bool" where
  "pair_line k v l \<longleftrightarrow> plain_key k \<and> plain_text v \<and>
     (line_with (k @ ''='' @ quote v) l \<or> \<not> startswith v [CHR 0x22] \<and> line_with (k @ ''='' @ v) l)"

definition name_line :: "string \<Rightarrow> string \<Rightarrow> bool" where
  "name_line k l \<longleftrightarrow> plain_key k \<and> line_with k l"

definition value_line :: "string \<Rightarrow> string \<Rightarrow> bool" where
  "value_line v l \<longleftrightarrow> plain_text v \<and> line_with (quote v) l"

text \<open>Lines that are an answer with these attributes; lines without an indentation are in between.\<close>

inductive answer_lines :: "(string \<times> string list) list \<Rightarrow> string list \<Rightarrow> bool" where
  none: "answer_lines [] []"
| other: "answer_lines es ls \<Longrightarrow> identation l = 0 \<Longrightarrow> CHR 0x0A \<notin> set l \<Longrightarrow> answer_lines es (l # ls)"
| one: "answer_lines es ls \<Longrightarrow> pair_line k v l \<Longrightarrow> answer_lines ((k, [v]) # es) (l # ls)"
| several: "answer_lines es ls \<Longrightarrow> name_line k l \<Longrightarrow> list_all2 value_line vs ms \<Longrightarrow> vs \<noteq> [] \<Longrightarrow>
    answer_lines ((k, vs) # es) (l # ms @ ls)"

section \<open>Cleaning a line\<close>

lemma replace_plain:
  "CHR ''<'' \<notin> set s \<Longrightarrow> \<not> startswith u ''<'' \<Longrightarrow>
     replace_from 0 (CHR '' '' # CHR ''<'' # p) [] (s @ u) = s @ replace_from 0 (CHR '' '' # CHR ''<'' # p) [] u"
proof (induction s)
  case (Cons x s)
  then have "\<not> startswith ((x # s) @ u) (CHR '' '' # CHR ''<'' # p)"
    by (cases s; cases u) (auto simp: startswith_def)
  with Cons show ?case by simp
qed simp

lemma replace_skip: "replace_from (length s) old new (s @ u) = replace_from 0 old new u"
  by (induction s) simp_all

lemma replace_hit: "replace_from 0 (c # p) [] ((c # p) @ u) = replace_from 0 (c # p) [] u"
  using replace_skip [of p "c # p" "[]" u] by (simp add: startswith_def)

lemma remark_shape:
  assumes "m \<in> set remarks"
  obtains p where "m = CHR '' '' # CHR ''<'' # p" "CHR '' '' \<notin> set p" "p \<noteq> []"
  using assms that by (auto simp: remarks_def)

lemma replace_free: "c \<notin> set s \<Longrightarrow> replace_from 0 (c # p) [] (s @ u) = s @ replace_from 0 (c # p) [] u"
  by (induction s) (auto simp: startswith_def)

lemma other_remark:
  assumes "m \<in> set remarks" "m' \<in> set remarks" "m \<noteq> m'"
  shows "\<not> startswith (m @ u) m'"
  using assms by (auto simp: remarks_def startswith_def)

lemma replace_other:
  assumes "m \<in> set remarks" "m' \<in> set remarks" "m \<noteq> m'"
  shows "replace_from 0 m' [] (m @ u) = m @ replace_from 0 m' [] u"
proof -
  obtain p where p: "m = CHR '' '' # CHR ''<'' # p" "CHR '' '' \<notin> set p" using assms(1) by (rule remark_shape)
  obtain q where q: "m' = CHR '' '' # CHR ''<'' # q" using assms(2) by (rule remark_shape)
  have "\<not> startswith (CHR '' '' # (CHR ''<'' # p) @ u) m'" using other_remark [OF assms, of u] by (simp add: p)
  moreover have "CHR '' '' \<notin> set (CHR ''<'' # p)" using p(2) by simp
  from replace_free [OF this] have "replace_from 0 m' [] ((CHR ''<'' # p) @ u) = (CHR ''<'' # p) @ replace_from 0 m' [] u"
    unfolding q by blast
  ultimately show ?thesis by (simp add: p(1))
qed

lemma replace_remarks:
  assumes "m \<in> set remarks" and "r = [] \<or> r = [CHR 0x0D]"
  shows "set ms \<subseteq> set remarks \<Longrightarrow>
     replace_from 0 m [] (concat ms @ r) = concat (filter (\<lambda>x. x \<noteq> m) ms) @ r"
proof (induction ms)
  case Nil
  obtain p where "m = CHR '' '' # CHR ''<'' # p" using assms(1) by (rule remark_shape)
  then show ?case using assms(2) by (auto simp: startswith_def)
next
  case (Cons x ms)
  then have x: "x \<in> set remarks" and IH: "replace_from 0 m [] (concat ms @ r) = concat (filter (\<lambda>x. x \<noteq> m) ms) @ r" by auto
  show ?case
  proof (cases "x = m")
    case True
    obtain p where "m = CHR '' '' # CHR ''<'' # p" using assms(1) by (rule remark_shape)
    then show ?thesis using True IH replace_hit [of "CHR '' ''" "CHR ''<'' # p" "concat ms @ r"] by simp
  next
    case False
    then show ?thesis using IH replace_other [OF x assms(1) False, of "concat ms @ r"] by simp
  qed
qed

lemma drop_remark:
  assumes "m \<in> set remarks" "r = [] \<or> r = [CHR 0x0D]" "set ms \<subseteq> set remarks" "CHR ''<'' \<notin> set s"
  shows "str_replace (s @ concat ms @ r) m [] = s @ concat (filter (\<lambda>x. x \<noteq> m) ms) @ r"
proof -
  obtain p where m: "m = CHR '' '' # CHR ''<'' # p" using assms(1) by (rule remark_shape)
  have "\<not> startswith (concat ms @ r) ''<''"
    using assms(2,3) by (cases ms) (auto simp: startswith_def remarks_def)
  from replace_plain [OF assms(4) this, of p] show ?thesis
    using replace_remarks [OF assms(1-3)] by (simp add: str_replace_def m)
qed

lemma clean_rest:
  assumes "plain_text s" "rest_of_line t"
  shows "clean_line (s @ t) = lstrip s"
proof -
  obtain ms r where t: "set ms \<subseteq> set remarks" "r = [] \<or> r = [CHR 0x0D]" "t = concat ms @ r"
    using assms(2) by (auto simp: rest_of_line_def)
  have lt: "CHR ''<'' \<notin> set s" and cr: "CHR 0x0D \<notin> set s" using assms(1) by (simp_all add: plain_text_def)
  let ?drop = "\<lambda>m. filter (\<lambda>x. x \<noteq> m)"
  have r: "'' <read-only>'' \<in> set remarks" "'' <default>'' \<in> set remarks" "'' <deprecated>'' \<in> set remarks"
    by (simp_all add: remarks_def)
  have sub: "set (?drop m xs) \<subseteq> set remarks" if "set xs \<subseteq> set remarks" for m xs using that by auto
  let ?m1 = "?drop '' <read-only>'' ms"
  let ?m2 = "?drop '' <default>'' ?m1"
  let ?m3 = "?drop '' <deprecated>'' ?m2"
  note d1 = drop_remark [OF r(1) t(2) t(1) lt] and d2 = drop_remark [OF r(2) t(2) sub [OF t(1)] lt]
    and d3 = drop_remark [OF r(3) t(2) sub [OF sub [OF t(1)]] lt]
  have none: "?m3 = []" using t(1) by (auto simp: remarks_def filter_empty_conv)
  have "replace_from 0 [CHR 0x0D] [] (s @ r) = s"
    using t(2) replace_free [OF cr, of "[]" r] by (auto simp: startswith_def)
  then show ?thesis
    unfolding clean_line_def t(3) d1 d2 d3 none by (simp add: str_replace_def)
qed

lemma blank_chars: "blank (CHR '' '')" "blank (CHR 0x09)" "\<not> blank (CHR 0x22)"
  by (simp_all add: blank_def)

lemma lstrip_indent: "indent s \<Longrightarrow> lstrip (s @ u) = lstrip u"
  unfolding lstrip_def by (rule dropWhile_append2) (auto simp: indent_def blank_chars)

lemma remove_quote: "remove_quottes (quote v) = v"
  by (simp add: remove_quottes_def quote_def startswith_def ends_with_def)

text \<open>What the parser makes of a line: it is not skipped, and this is left of it.\<close>

lemma line_cleaned:
  assumes "line_with body l" "plain_text body" "lstrip body = body" "body \<noteq> []"
  shows "identation l \<noteq> 0" "clean_line l = body" "CHR 0x0A \<notin> set l"
proof -
  obtain s t where l: "indent s" "rest_of_line t" "l = s @ body @ t" using assms(1) by (auto simp: line_with_def)
  have s: "CHR 0x0A \<notin> set s" "plain_text s" using l(1) by (auto simp: indent_def plain_text_def)
  then have "plain_text (s @ body)" using assms(2) by (simp add: plain_text_def)
  from clean_rest [OF this l(2)] show "clean_line l = body" using assms(3) l by (simp add: lstrip_indent)
  have "length (lstrip l) \<le> length (body @ t)"
    unfolding l(3) lstrip_indent [OF l(1)] unfolding lstrip_def by (rule length_dropWhile_le)
  moreover have "length l = length s + length (body @ t)" "length s > 0" using l by (simp_all add: indent_def)
  ultimately show "identation l \<noteq> 0" unfolding identation_def by linarith
  have "CHR 0x0A \<notin> set m" if "m \<in> set remarks" for m using that by (auto simp: remarks_def)
  then have "CHR 0x0A \<notin> set t" using l(2) by (fastforce simp: rest_of_line_def)
  then show "CHR 0x0A \<notin> set l" using s assms(2) by (simp add: l(3) plain_text_def)
qed

section \<open>What the parser reads\<close>

lemma takeWhile_key: "CHR ''='' \<notin> set k \<Longrightarrow> takeWhile (\<lambda>c. c \<noteq> CHR ''='') (k @ CHR ''='' # r) = k"
  by (subst takeWhile_append2) auto

lemma key_start:
  assumes "plain_key k"
  shows "lstrip (k @ u) = k @ u" "k @ u \<noteq> []" "\<not> startswith (k @ u) [CHR 0x22]" "plain_text k" "CHR ''='' \<notin> set k"
  using assms by (auto simp: plain_key_def lstrip_def startswith_def split: list.splits)

lemma plain_join: "plain_text (s @ t) \<longleftrightarrow> plain_text s \<and> plain_text t"
  by (auto simp: plain_text_def)

lemma plain_quote: "plain_text (quote v) = plain_text v" "plain_text ''=''"
  by (auto simp: plain_text_def quote_def)

lemma read_assignment:
  assumes "plain_key k" "plain_text w" "line_with (k @ ''='' @ w) l"
  shows "cliss_line l (x, d) = Inr (Some k, append_value k (remove_quottes w) d) \<and> CHR 0x0A \<notin> set l"
proof -
  have "plain_text (k @ ''='' @ w)" using assms(1,2) key_start(4) by (simp only: plain_join plain_quote simp_thms)
  note c = line_cleaned [OF assms(3) this key_start(1,2) [OF assms(1)]]
  show ?thesis
    using c key_start(3) [OF assms(1), of "''='' @ w"] takeWhile_key [of k w] key_start(5) [OF assms(1)] by (simp add: cliss_line_def Let_def)
qed

lemma read_pair:
  assumes "pair_line k v l"
  shows "cliss_line l (x, d) = Inr (Some k, append_value k v d)" "CHR 0x0A \<notin> set l"
proof -
  have "remove_quottes v = v" if "\<not> startswith v [CHR 0x22]" using that by (simp add: remove_quottes_def)
  then have "cliss_line l (x, d) = Inr (Some k, append_value k v d) \<and> CHR 0x0A \<notin> set l"
    using assms read_assignment [of k v l x d] read_assignment [of k "quote v" l x d]
    by (auto simp: pair_line_def plain_quote remove_quote)
  then show "cliss_line l (x, d) = Inr (Some k, append_value k v d)" "CHR 0x0A \<notin> set l" by simp_all
qed

lemma read_name:
  assumes "name_line k l"
  shows "cliss_line l (x, d) = Inr (Some k, d)" "CHR 0x0A \<notin> set l"
proof -
  have k: "plain_key k" "line_with k l" using assms by (simp_all add: name_line_def)
  note c = line_cleaned [OF k(2) key_start(4) [OF k(1)] key_start(1,2) [OF k(1), of "[]", unfolded append_Nil2]]
  show "cliss_line l (x, d) = Inr (Some k, d)" "CHR 0x0A \<notin> set l"
    using c key_start(3) [OF k(1), of "[]"] key_start(5) [OF k(1)] by (simp_all add: cliss_line_def)
qed

lemma read_value:
  assumes "value_line v l"
  shows "cliss_line l (Some k, d) = Inr (Some k, append_value k v d)" "CHR 0x0A \<notin> set l"
proof -
  have v: "plain_text (quote v)" "line_with (quote v) l" using assms by (simp_all add: value_line_def plain_quote)
  have q: "lstrip (quote v) = quote v" "quote v \<noteq> []" "startswith (quote v) [CHR 0x22]"
    by (simp_all add: lstrip_def quote_def blank_chars startswith_def)
  note c = line_cleaned [OF v(2,1) q(1,2)]
  show "cliss_line l (Some k, d) = Inr (Some k, append_value k v d)" "CHR 0x0A \<notin> set l"
    using c q(3) by (simp_all add: cliss_line_def remove_quote)
qed

lemma cliss_lines_append:
  "cliss_lines (xs @ ys) st = bind_res (cliss_lines xs st) (cliss_lines ys)"
  by (induction xs arbitrary: st) (auto simp: bind_res_def split: sum.splits)

lemma read_values:
  "list_all2 value_line vs ms \<Longrightarrow> cliss_lines ms (Some k, d) = Inr (Some k, fold (append_value k) vs d)"
  by (induction arbitrary: d rule: list_all2_induct) (simp_all add: read_value bind_res_def)

definition add_entry :: "string \<times> string list \<Rightarrow> (string, string list) dict \<Rightarrow> (string, string list) dict" where
  "add_entry e = fold (append_value (fst e)) (snd e)"

lemma skip_line: "identation l = 0 \<Longrightarrow> cliss_line l st = Inr st"
  by (simp add: cliss_line_def)

lemma read_answer:
  "answer_lines es ls \<Longrightarrow> \<exists>y. cliss_lines ls (x, d) = Inr (y, fold add_entry es d)"
  by (induction arbitrary: x d rule: answer_lines.induct)
    (simp_all add: add_entry_def bind_res_def skip_line read_pair(1) read_name(1) read_values cliss_lines_append)

lemma value_lines_free: "list_all2 value_line vs ms \<Longrightarrow> m \<in> set ms \<Longrightarrow> CHR 0x0A \<notin> set m"
  by (induction rule: list_all2_induct) (auto dest: read_value(2))

lemma answer_line_free: "answer_lines es ls \<Longrightarrow> l \<in> set ls \<Longrightarrow> CHR 0x0A \<notin> set l"
  by (induction rule: answer_lines.induct) (auto dest: read_pair(2) read_name(2) value_lines_free)

lemma answer_values: "answer_lines es ls \<Longrightarrow> \<forall>e \<in> set es. snd e \<noteq> []"
  by (induction rule: answer_lines.induct) auto

definition held :: "string \<Rightarrow> (string, string list) dict \<Rightarrow> string list" where
  "held k d = (case map_of d k of Some vs \<Rightarrow> vs | None \<Rightarrow> [])"

lemma map_append_value: "map_of (append_value k v d) j = (if j = k then Some (held k d @ [v]) else map_of d j)"
  by (simp add: append_value_def held_def dict_simps split: option.split)

lemma map_append_values:
  "map_of (fold (append_value k) vs d) j = (if j = k \<and> vs \<noteq> [] then Some (held k d @ vs) else map_of d j)"
  by (induction vs arbitrary: d) (auto simp: map_append_value held_def)

lemma map_entries:
  "\<forall>e \<in> set es. snd e \<noteq> [] \<Longrightarrow>
     map_of (fold add_entry es d) j =
       (if j \<in> fst ` set es then Some (held j d @ concat (map snd (filter (\<lambda>e. fst e = j) es))) else map_of d j)"
proof (induction es arbitrary: d)
  case (Cons e es)
  obtain k vs where e: "e = (k, vs)" by (cases e)
  have "vs \<noteq> []" using Cons.prems e by auto
  then have "held j (add_entry e d) = (if j = k then held k d @ vs else held j d)"
    "map_of (add_entry e d) j = (if j = k then Some (held k d @ vs) else map_of d j)"
    by (simp_all add: held_def add_entry_def e map_append_values)
  moreover have "filter (\<lambda>e. fst e = k) es = []" if "k \<notin> fst ` set es"
    using that by (force simp: filter_empty_conv)
  ultimately show ?case
    using Cons.IH [of "add_entry e d"] Cons.prems by (cases "j = k") (simp_all add: e)
qed simp

text \<open>C14: \<open>parse_cliss_info\<close> on an answer of the form it looks for: lines \<open>key=value\<close>, quoted or not, and lines with a key alone that
  are followed by one or more lines with a quoted value, each of them indented by spaces or tabs, with any of the remarks
  \<open><read-only>\<close>, \<open><default>\<close> and \<open><deprecated>\<close> and a carriage return at its end; lines without an indentation may come in between but not
  inside such a block. Keys and values contain no line end and no angle bracket, keys no equals sign, and a key begins
  with neither a blank nor a quote. Then exactly the keys are there, each with all its values in the order of the lines, also when the
  key comes more than once, and nothing of the remarks, the quotes and the other lines.
\<close>

theorem cliss_answer_parsed:
  assumes "answer_lines es ls"
  shows "\<exists>d. parse_cliss_info (join [CHR 0x0A] ls) = Inr d \<and>
    (\<forall>k. map_of d k = (if k \<in> fst ` set es then Some (concat (map snd (filter (\<lambda>e. fst e = k) es))) else None))"
proof -
  let ?d = "fold add_entry es []"
  obtain y where y: "cliss_lines ls (None, []) = Inr (y, ?d)" using read_answer [OF assms, of None "[]"] by blast
  have "parse_cliss_info (join [CHR 0x0A] ls) = Inr ?d"
  proof (cases "ls = []")
    case True
    with y show ?thesis
      by (simp add: parse_cliss_info_def cliss_line_def identation_def lstrip_def bind_res_def)
  next
    case False
    then have "split_on (CHR 0x0A) (join [CHR 0x0A] ls) = ls"
      using answer_line_free [OF assms] by (rule split_on_join)
    with y show ?thesis by (simp add: parse_cliss_info_def bind_res_def)
  qed
  moreover have "map_of ?d k = (if k \<in> fst ` set es then Some (concat (map snd (filter (\<lambda>e. fst e = k) es))) else None)" for k
    using map_entries [of es "[]" k] answer_values [OF assms] by (simp add: held_def)
  ultimately show ?thesis by blast
qed

theorem cliss_answer_parsed_witness:
  "\<exists>d. parse_cliss_info (join [CHR 0x0A] [''HcJob=Full'', ''   status=SUCCESS <read-only>'' @ [CHR 0x0D], ''   urls <default>'',
       ''      '' @ quote ''1:a=b'', ''      '' @ quote ''2:c d'' @ '' <read-only>'']) = Inr d \<and>
     map_of d ''status'' = Some [''SUCCESS''] \<and> map_of d ''urls'' = Some [''1:a=b'', ''2:c d''] \<and> map_of d ''HcJob'' = None"
proof -
  have rest: "rest_of_line []" "rest_of_line ('' <read-only>'' @ [CHR 0x0D])" "rest_of_line '' <default>''" "rest_of_line '' <read-only>''"
    unfolding rest_of_line_def remarks_def
    by (rule exI [of _ "[]"] exI [of _ "['' <read-only>'']"] exI [of _ "['' <default>'']"], force)+
  have line: "line_with b (s @ b @ t)" if "indent s" "rest_of_line t" for b s t
    using that by (auto simp: line_with_def)
  have indent: "indent ''   ''" "indent ''      ''" by (simp_all add: indent_def)
  have key: "plain_key ''status''" "plain_key ''urls''" by (simp_all add: plain_key_def plain_text_def blank_def)
  have plain: "plain_text ''SUCCESS''" "plain_text ''1:a=b''" "plain_text ''2:c d''" by (simp_all add: plain_text_def)
  have status: "pair_line ''status'' ''SUCCESS'' (''   status=SUCCESS <read-only>'' @ [CHR 0x0D])"
    using line [OF indent(1) rest(2), of "''status=SUCCESS''"] key(1) plain(1) by (simp add: pair_line_def startswith_def)
  have urls: "name_line ''urls'' ''   urls <default>''"
    using line [OF indent(1) rest(3), of "''urls''"] key(2) by (simp add: name_line_def)
  have vals: "value_line ''1:a=b'' (''      '' @ quote ''1:a=b'')" "value_line ''2:c d'' (''      '' @ quote ''2:c d'' @ '' <read-only>'')"
    using line [OF indent(2) rest(1), of "quote ''1:a=b''"] line [OF indent(2) rest(4), of "quote ''2:c d''"] plain(2,3)
    unfolding value_line_def append_Nil2 by blast+
  have "answer_lines [(''status'', [''SUCCESS'']), (''urls'', [''1:a=b'', ''2:c d''])]
    [''HcJob=Full'', ''   status=SUCCESS <read-only>'' @ [CHR 0x0D], ''   urls <default>'',
       ''      '' @ quote ''1:a=b'', ''      '' @ quote ''2:c d'' @ '' <read-only>'']"
    using answer_lines.other [OF answer_lines.one [OF answer_lines.several [OF answer_lines.none urls,
      of "[''1:a=b'', ''2:c d'']" "[''      '' @ quote ''1:a=b'', ''      '' @ quote ''2:c d'' @ '' <read-only>'']"] status], of "''HcJob=Full''"]
      vals by (simp add: identation_def lstrip_def blank_def)
  from cliss_answer_parsed [OF this] show ?thesis by auto
qed

text \<open>A value on the first line of an answer has no key yet: the variable does not exist.\<close>

lemma value_without_key:
  assumes "value_line v l"
  shows "parse_cliss_info l = Inl (NameError ''local variable key referenced before assignment'')"
proof -
  have v: "plain_text (quote v)" "line_with (quote v) l" using assms by (simp_all add: value_line_def plain_quote)
  have q: "lstrip (quote v) = quote v" "quote v \<noteq> []" "startswith (quote v) [CHR 0x22]"
    by (simp_all add: lstrip_def quote_def blank_chars startswith_def)
  note c = line_cleaned [OF v(2,1) q(1,2)]
  have "split_on (CHR 0x0A) l = [l]" using split_on_join [of "[l]" "CHR 0x0A"] c(3) by simp
  then show ?thesis using c q(3) by (simp add: parse_cliss_info_def cliss_line_def bind_res_def)
qed

end
