(* ===== verification/Cliss.thy ===== *)
theory Cliss
  imports Cliss_Text Channels
begin

text \<open>
  What a CBA node is asked through its command line: the methods of \<open>Cba\<close> in \<open>hss_utils/src/node/cba.py\<close> that send commands over a
  named connection, as sequences of the calls of \<open>self\<close> they make. These calls are the record \<open>cba_ops\<close>, the node is the state
  \<open>'w\<close>; \<open>Cba_Node\<close> gives the record for the node classes of \<open>Nodes\<close>.
\<close>

section \<open>Errors and calls\<close>

datatype node_error =
    Conn_error conn_error
  | Command_failure string
  | Execution_timeout string

type_synonym 'a node_res = "node_error + 'a"

text \<open>\<open>str(e)\<close>\<close>

fun conn_error_str :: "conn_error \<Rightarrow> string" where
  "conn_error_str (Connection_failed m) = ''Connection failed ('' @ m @ '')''"
| "conn_error_str Connection_timeout = ''Timeout reached''"
| "conn_error_str Failed_timeout = ''Connection failed (Timeout)''"
| "conn_error_str Failed_eof = ''Connection failed (EOF)''"
| "conn_error_str (Unauthorized u) = ''Unauthorized user: '' @ (case u of None \<Rightarrow> ''None'' | Some w \<Rightarrow> w)"
| "conn_error_str Enable_x11 = ''Not allowed to enable X11 forwarding for an opened channel''"
| "conn_error_str (No_key_file k) = ''ssh key file '' @ k @ '' not found''"
| "conn_error_str (Conn_raised e) = exc_str e"

fun node_error_str :: "node_error \<Rightarrow> string" where
  "node_error_str (Conn_error e) = conn_error_str e"
| "node_error_str (Command_failure m) = m"
| "node_error_str (Execution_timeout m) = m"

definition of_res :: "'a res \<Rightarrow> 'a node_res" where
  "of_res r = (case r of Inl e \<Rightarrow> Inl (Conn_error (Conn_raised e)) | Inr v \<Rightarrow> Inr v)"

text \<open>\<open>except Exception as e: raise CommandFailure(str(e))\<close>\<close>

definition as_failure :: "'a node_res \<times> 'w \<Rightarrow> 'a node_res \<times> 'w" where
  "as_failure p = (case p of (Inl e, w) \<Rightarrow> (Inl (Command_failure (node_error_str e)), w) | q \<Rightarrow> q)"

text \<open>
  The calls: \<open>self.config['host']\<close> and \<open>get_user_credential\<close>; \<open>run_command\<close> with \<open>full_answer\<close> and without it;
  \<open>extend_connection(p, p)\<close>; \<open>close_connection\<close> and \<open>release_connection\<close>; \<open>time.sleep\<close> and \<open>time.time\<close>. On top of
  them \<open>start_CBACliss\<close> and \<open>start_CBANBICliss\<close> with host, identity and user.
\<close>

record 'w run_ops =
  cb_host :: "'w \<Rightarrow> string"
  cb_credential :: "string \<Rightarrow> 'w \<Rightarrow> string res"
  cb_full :: "string option \<Rightarrow> string \<Rightarrow> 'w \<Rightarrow> string node_res \<times> 'w"
  cb_lines :: "string option \<Rightarrow> string \<Rightarrow> 'w \<Rightarrow> string list node_res \<times> 'w"
  cb_extend :: "string \<Rightarrow> 'w \<Rightarrow> unit node_res \<times> 'w"
  cb_close :: "string \<Rightarrow> 'w \<Rightarrow> 'w"
  cb_release :: "string \<Rightarrow> 'w \<Rightarrow> 'w"
  cb_sleep :: "rat \<Rightarrow> 'w \<Rightarrow> 'w"
  cb_time :: "'w \<Rightarrow> rat"

record 'w cba_ops = "'w run_ops" +
  cb_start :: "string \<Rightarrow> string \<Rightarrow> string \<Rightarrow> 'w \<Rightarrow> unit node_res \<times> 'w"
  cb_start_nbi :: "string \<Rightarrow> string \<Rightarrow> 'w \<Rightarrow> unit node_res \<times> 'w"

definition HSSADMIN :: string where "HSSADMIN = ''cliss_hssadministrator''"

definition NBI :: string where "NBI = ''nbi_cliss''"

definition UDM :: string where "UDM = ''cliss_udm''"

definition HSSSUPPORT :: string where "HSSSUPPORT = ''cliss_ericssonhsssupport''"

definition MODULES :: string where "MODULES = ''cliss_modules''"

text \<open>\<open>CLISS_ACCESS\<close>; \<open>hssadministrator\<close> is also the default of \<open>start_CBACliss\<close>.\<close>

definition CLISS_ACCESS :: "(string, string) dict" where
  "CLISS_ACCESS =
     [(''DEFAULT'', ''hssadministrator''), (''ESM_ACTIVE'', ''hssadministrator''), (''EXTDB'', ''hssadministrator''),
      (''EXTDB_INSTALL'', ''ericssonhsssupport''), (''VECTOR_SUPPLIER'', ''ericssonhsssupport''), (''ARPF'', ''ericssonhsssupport''),
      (''RADIUS'', ''hssadministrator''), (''DIAMETER'', ''hssadministrator''), (''MAP'', ''hssadministrator''),
      (''BACKUP'', ''hssadministrator''), (''ALARM'', ''hssadministrator''), (''NBI_ALARM'', ''advanced''),
      (''NBI_TENANT'', ''advanced''), (''NBI_PROC'', ''advanced''), (''HEALTH_CHECK'', ''hssadministrator''),
      (''USER_MNG'', ''com-emergency''), (''UDM_SERVER'', ''hssadministrator''), (''SOAP_SERVER'', ''SystemAdministrator''),
      (''SOAP_LDAP_SERVER'', ''SystemAdministrator''), (''USER_LICENSE'', ''SystemAdministrator''), (''USER_CERT'', ''com-emergency''),
      (''USER_NTP'', ''SystemAdministrator'')]"

definition user_of :: "string \<Rightarrow> string" where
  "user_of k = (case map_of CLISS_ACCESS k of Some u \<Rightarrow> u | None \<Rightarrow> [])"

definition LICENSE_DN :: string where "LICENSE_DN = ''ManagedElement=1,SystemFunctions=1,Lm=1''"

definition NTP_SERVER_DN :: string where "NTP_SERVER_DN = ''ManagedElement=1,SystemFunctions=1,SysM=1,TimeM=1,Ntp=1''"

definition SYS_DN :: string where "SYS_DN = ''ManagedElement=1,SystemFunctions=1,SysM=1''"

definition CERT_MNG_DN :: string where "CERT_MNG_DN = ''ManagedElement=1,SystemFunctions=1,SecM=1,CertM=1''"

definition EVIP_FLOWPOLICY_DN :: string where
  "EVIP_FLOWPOLICY_DN = ''ManagedElement=1,Transport=1,Evip=1,EvipAlbs=1,EvipAlb=ln_om_sc,EvipFlowPolicies=1''"

definition HEALTH_CHECK_DN :: string where "HEALTH_CHECK_DN = ''ManagedElement=1,SystemFunctions=1,HealthCheckM=1''"

definition BACKUP_CLISS_DN :: string where "BACKUP_CLISS_DN = ''ManagedElement=1,SystemFunctions=1,BrM=1,BrmBackupManager=SYSTEM_DATA''"

text \<open>Also \<open>NBI_ALARM_CLISS_DN\<close>.\<close>

definition ALARM_CLISS_DN :: string where "ALARM_CLISS_DN = ''ManagedElement=1,SystemFunctions=1,Fm=1''"

definition HSS_DN :: string where "HSS_DN = ''ManagedElement=1,HSS-Function=HSS_FUNCTION''"

definition MODULE_IMS_CLISS_DN :: string where "MODULE_IMS_CLISS_DN = HSS_DN @ '',HSS-IsmSdaApplication=HSS_ISMSDA''"

definition MODULE_ESM_CLISS_DN :: string where
  "MODULE_ESM_CLISS_DN = HSS_DN @ '',HSS-EsmApplication.applicationName=HSS_ESM,HSS-EsmConfigurationContainer=HSS-EsmConfigurationContainer'' @
     '',HSS-EsmConfigurationData=HSS-EsmConfigurationData''"

section \<open>Commands and transactions\<close>

definition start_cliss :: "'w cba_ops \<Rightarrow> string \<Rightarrow> string \<Rightarrow> 'w \<Rightarrow> unit node_res \<times> 'w" where
  "start_cliss ops i user w = cb_start ops (cb_host ops w) i user w"

definition send :: "('w, 'z) run_ops_scheme \<Rightarrow> string \<Rightarrow> string \<Rightarrow> 'w \<Rightarrow> unit node_res \<times> 'w" where
  "send ops i cmd w = andthen (cb_full ops (Some i) cmd w) (\<lambda>_. done_with)"

definition sends :: "('w, 'z) run_ops_scheme \<Rightarrow> string \<Rightarrow> string list \<Rightarrow> 'w \<Rightarrow> unit node_res \<times> 'w" where
  "sends ops i = for_each (send ops i)"

text \<open>\<open>if 'ERROR' in answer: raise CommandFailure(answer.replace('\r\n',';'))\<close>\<close>

definition refused :: "string \<Rightarrow> node_error" where
  "refused a = Command_failure (str_replace a [CHR 0x0D, CHR 0x0A] '';'')"

definition ask_cliss :: "('w, 'z) run_ops_scheme \<Rightarrow> string \<Rightarrow> string \<Rightarrow> 'w \<Rightarrow> string node_res \<times> 'w" where
  "ask_cliss ops i cmd w =
     andthen (cb_full ops (Some i) cmd w) (\<lambda>a w. (if contains ''ERROR'' a then Inl (refused a) else Inr a, w))"

definition commit :: "('w, 'z) run_ops_scheme \<Rightarrow> string \<Rightarrow> 'w \<Rightarrow> unit node_res \<times> 'w" where
  "commit ops i w = andthen (ask_cliss ops i ''commit'' w) (\<lambda>_. done_with)"

text \<open>The place that is changed, \<open>configure\<close>, the changes, \<open>commit\<close>.\<close>

definition transaction :: "('w, 'z) run_ops_scheme \<Rightarrow> string \<Rightarrow> string list \<Rightarrow> string list \<Rightarrow> 'w \<Rightarrow> unit node_res \<times> 'w" where
  "transaction ops i place changes w = andthen (sends ops i (place @ [''configure''] @ changes) w) (\<lambda>_. commit ops i)"

text \<open>\<open>show\<close> and the fields of the answer.\<close>

definition show_fields :: "('w, 'z) run_ops_scheme \<Rightarrow> string \<Rightarrow> string \<Rightarrow> string list \<Rightarrow> 'w \<Rightarrow> (string, string list) dict node_res \<times> 'w" where
  "show_fields ops i cmd ks w =
     andthen (cb_full ops (Some i) cmd w) (\<lambda>a w. (of_res (fill_from_cliss_info ks a), w))"

text \<open>
  A loop with a deadline: \<open>look\<close> gives a result or asks for another turn, and the time of the turn is taken from what is left.
  \<open>Inr None\<close>: still in the loop after \<open>n\<close> turns.
\<close>

fun poll ::
  "('w \<Rightarrow> rat) \<Rightarrow> ('w \<Rightarrow> 'a option node_res \<times> 'w) \<Rightarrow> node_error \<Rightarrow> nat \<Rightarrow> rat \<Rightarrow> 'w \<Rightarrow> 'a option node_res \<times> 'w" where
  "poll time look late 0 left w = (Inr None, w)"
| "poll time look late (Suc n) left w =
     (case look w of
        (Inl e, v) \<Rightarrow> (Inl e, v)
      | (Inr (Some r), v) \<Rightarrow> (Inr (Some r), v)
      | (Inr None, v) \<Rightarrow>
          if left - (time v - time w) < 0 then (Inl late, v)
          else poll time look late n (left - (time v - time w)) v)"

section \<open>Single commands\<close>

text \<open>Formatting \<open>'configure'\<close> with an argument raises.\<close>

definition run_cliss_command :: "'w cba_ops \<Rightarrow> string \<Rightarrow> string \<Rightarrow> bool \<Rightarrow> 'w \<Rightarrow> string node_res \<times> 'w" where
  "run_cliss_command ops cmd user configure w =
     andthen (start_cliss ops user user w) (\<lambda>_ w.
       if configure
       then (Inl (Conn_error (Conn_raised (TypeError ''not all arguments converted during string formatting''))), w)
       else andthen (cb_full ops (Some user) cmd w) (\<lambda>a w. (Inr a, cb_close ops user w)))"

section \<open>Licenses\<close>

definition not_found :: "string \<Rightarrow> node_error" where
  "not_found w = Command_failure (w @ '' not found.'')"

definition FINGERPRINT :: string where "FINGERPRINT = ''01-23-45-67-89-ab-20150101''"

text \<open>The first value of a field: an empty field is not found.\<close>

definition given_value :: "string \<Rightarrow> (string, string list) dict \<Rightarrow> string node_res" where
  "given_value k d = bind_res (of_res (field k d)) (\<lambda>vs. case vs of [] \<Rightarrow> Inl (not_found k) | v # _ \<Rightarrow> Inr v)"

definition right_fingerprint :: "(string, string list) dict \<Rightarrow> unit node_res" where
  "right_fingerprint d =
     bind_res (given_value ''fingerprint'' d) (\<lambda>v.
       if v \<noteq> FINGERPRINT then Inl (Command_failure (''fingerprint != '' @ FINGERPRINT)) else Inr ())"

definition set_fingerprint :: "'w cba_ops \<Rightarrow> 'w \<Rightarrow> unit node_res \<times> 'w" where
  "set_fingerprint ops w =
     andthen (transaction ops HSSADMIN [] [LICENSE_DN @ '',fingerprint='' @ quote FINGERPRINT] w) (\<lambda>_ w.
     andthen (show_fields ops HSSADMIN (''show -v '' @ LICENSE_DN) [''fingerprint''] w) (\<lambda>d w. (right_fingerprint d, w)))"

definition check_fingerprint :: "'w cba_ops \<Rightarrow> (string, string list) dict \<Rightarrow> 'w \<Rightarrow> unit node_res \<times> 'w" where
  "check_fingerprint ops d w =
     andthen (given_value ''fingerprintUpdateable'' d, w) (\<lambda>u w.
       if u = ''false'' then (right_fingerprint d, w) else set_fingerprint ops w)"

text \<open>One license: \<open>Some line\<close> goes into the report.\<close>

definition license_line :: "bool \<Rightarrow> (string, string list) dict \<Rightarrow> string list node_res" where
  "license_line no_granted d =
     bind_res (of_res (first_of ''granted'' d)) (\<lambda>g.
       if no_granted then (if g \<noteq> ''true'' then of_res (field ''keyId'' d) else Inr [])
       else bind_res (of_res (first_of ''keyId'' d)) (\<lambda>k.
         Inr [k @ [CHR 0x09] @ (if g = ''true'' then ''Granted'' else ''No granted'')]))"

definition show_key :: "'w cba_ops \<Rightarrow> string \<Rightarrow> string \<Rightarrow> string list \<Rightarrow> 'w \<Rightarrow> (string, string list) dict node_res \<times> 'w" where
  "show_key ops kind k ks w =
     andthen (ask_cliss ops HSSADMIN (''show -v '' @ LICENSE_DN @ '','' @ kind @ ''='' @ k) w) (\<lambda>a w.
       (of_res (fill_from_cliss_info ks a), w))"

fun collect_lines :: "('x \<Rightarrow> 'w \<Rightarrow> 'a list node_res \<times> 'w) \<Rightarrow> 'x list \<Rightarrow> 'w \<Rightarrow> 'a list node_res \<times> 'w" where
  "collect_lines f [] w = (Inr [], w)"
| "collect_lines f (x # xs) w =
     andthen (f x w) (\<lambda>ls w. andthen (collect_lines f xs w) (\<lambda>ms w. (Inr (ls @ ms), w)))"

text \<open>The names of the keys of a kind.\<close>

definition license_keys :: "'w cba_ops \<Rightarrow> string \<Rightarrow> 'w \<Rightarrow> string list node_res \<times> 'w" where
  "license_keys ops kind w =
     andthen (start_cliss ops HSSADMIN (user_of ''USER_LICENSE'') w) (\<lambda>_ w.
     andthen (ask_cliss ops HSSADMIN (''show -v '' @ LICENSE_DN) w) (\<lambda>a w.
       (of_res (bind_res (fill_from_cliss_info [kind] a) (field kind)), w)))"

definition find_licenses :: "'w cba_ops \<Rightarrow> bool \<Rightarrow> 'w \<Rightarrow> string list node_res \<times> 'w" where
  "find_licenses ops no_granted w =
     andthen (license_keys ops ''FeatureKey'' w) (\<lambda>ks w.
     andthen (collect_lines (\<lambda>k w. andthen (show_key ops ''FeatureKey'' k [''granted'', ''keyId''] w) (\<lambda>d w.
         (license_line no_granted d, w))) ks w) (\<lambda>ls w.
       (Inr (sorted_names ls), w)))"

definition find_capacity_licenses :: "'w cba_ops \<Rightarrow> 'w \<Rightarrow> string list node_res \<times> 'w" where
  "find_capacity_licenses ops w =
     andthen (license_keys ops ''CapacityKey'' w) (\<lambda>ks w.
     andthen (collect_lines (\<lambda>k w. andthen (show_key ops ''CapacityKey'' k [''keyId''] w) (\<lambda>d w.
         (bind_res (of_res (first_of ''keyId'' d)) (\<lambda>v. Inr [v]), w))) ks w) (\<lambda>ls w.
       (Inr (sorted_names ls), w)))"

text \<open>A refused \<open>show\<close> is tried once more after a second.\<close>

definition show_key_again :: "'w cba_ops \<Rightarrow> string \<Rightarrow> 'w \<Rightarrow> (string, string list) dict node_res \<times> 'w" where
  "show_key_again ops k w =
     (let cmd = ''show -v '' @ LICENSE_DN @ '',FeatureKey='' @ k
      in andthen (cb_full ops (Some HSSADMIN) cmd w) (\<lambda>a w.
         andthen (if contains ''ERROR'' a then ask_cliss ops HSSADMIN cmd (cb_sleep ops 1 w) else (Inr a, w)) (\<lambda>a w.
           (of_res (fill_from_cliss_info [''granted'', ''keyId''] a), w))))"

text \<open>The printed \<open>keyId\<close> is a list, or the empty text if it is missing.\<close>

definition list_text :: "string list \<Rightarrow> string" where
  "list_text vs = (if vs = [] then [] else ''['' @ join '', '' (map (\<lambda>v. [CHR 0x27] @ v @ [CHR 0x27]) vs) @ '']'')"

definition check_granted :: "'w cba_ops \<Rightarrow> string \<Rightarrow> 'w \<Rightarrow> unit node_res \<times> 'w" where
  "check_granted ops k w =
     andthen (show_key_again ops k w) (\<lambda>d w.
       (bind_res (of_res (first_of ''granted'' d)) (\<lambda>g.
          if g = ''true'' then Inr ()
          else bind_res (of_res (field ''keyId'' d)) (\<lambda>vs.
            Inl (Command_failure (''FeatureKey '' @ list_text vs @ '' is not granted'')))), w))"

definition check_all_licenses_granted :: "'w cba_ops \<Rightarrow> 'w \<Rightarrow> unit node_res \<times> 'w" where
  "check_all_licenses_granted ops w =
     andthen (license_keys ops ''FeatureKey'' w) (\<lambda>ks w.
       if ks = [] then (Inl (Command_failure ''FeatureKeys not found''), w)
       else for_each (check_granted ops) ks w)"

definition grant_licenses :: "'w cba_ops \<Rightarrow> 'w \<Rightarrow> unit node_res \<times> 'w" where
  "grant_licenses ops w =
     andthen (start_cliss ops HSSADMIN (user_of ''USER_LICENSE'') w) (\<lambda>_ w.
     andthen (sends ops HSSADMIN [LICENSE_DN, ''publishLicenseInventory''] w) (\<lambda>_ w.
     andthen (find_licenses ops True (cb_sleep ops 10 w)) (\<lambda>ls w.
       (if ls \<noteq> [] then Inl (Command_failure (''There are no granted licenses: '' @ join '' '' ls)) else Inr (), w))))"

text \<open>One turn of waiting for the installation.\<close>

definition install_turn :: "'w cba_ops \<Rightarrow> 'w \<Rightarrow> (string, string list) dict option node_res \<times> 'w" where
  "install_turn ops w =
     andthen (show_fields ops HSSADMIN ''show -v'' [''state'', ''result''] (cb_sleep ops 5 w)) (\<lambda>d w.
       (bind_res (of_res (field ''state'' d)) (\<lambda>st.
        bind_res (of_res (field ''result'' d)) (\<lambda>_. Inr (if st = [''FINISHED''] then Some d else None))), w))"

text \<open>\<open>None\<close>: still waiting.\<close>

definition after_install :: "'w cba_ops \<Rightarrow> (string, string list) dict option \<Rightarrow> 'w \<Rightarrow> unit option node_res \<times> 'w" where
  "after_install ops r w =
     (case r of
        None \<Rightarrow> (Inr None, w)
      | Some d \<Rightarrow>
          andthen (of_res (field ''result'' d), w) (\<lambda>res w.
            if res \<noteq> [''SUCCESS''] then (Inl (Command_failure ''installKeyFile failed''), w)
            else andthen (grant_licenses ops w) (\<lambda>_ w. (Inr (Some ()), w))))"

text \<open>\<open>n\<close> turns of waiting.\<close>

definition update_licenses :: "'w cba_ops \<Rightarrow> nat \<Rightarrow> string \<Rightarrow> 'w \<Rightarrow> unit option node_res \<times> 'w" where
  "update_licenses ops n licenses w =
     andthen (start_cliss ops HSSADMIN (user_of ''USER_LICENSE'') w) (\<lambda>_ w.
     andthen (show_fields ops HSSADMIN (''show -v '' @ LICENSE_DN) [''fingerprintUpdateable'', ''fingerprint''] w) (\<lambda>d w.
     andthen (as_failure (check_fingerprint ops d w)) (\<lambda>_ w.
     andthen (sends ops HSSADMIN
       [LICENSE_DN @ '',KeyFileManagement=1'', ''installKeyFile file:///cluster/'' @ licenses @ '' '' @ quote []] w) (\<lambda>_ w.
     andthen (poll (cb_time ops) (install_turn ops) (Execution_timeout ''Timeout waiting for installKeyFile'') n 300 w) (\<lambda>r.
       after_install ops r)))))"

end
