(* ===== verification/Cmw_Status.thy ===== *)
theory Cmw_Status
  imports Cliss
begin

text \<open>
  What the status commands of a CBA node print: \<open>parse\<close> of \<open>hss_utils/src/st_command/__init__.py\<close>, and the methods of \<open>Cba\<close>
  (\<open>hss_utils/src/node/cba.py\<close>) that read the state of controllers and processors with it.
\<close>

section \<open>Blocks of lines\<close>

text \<open>\<open>ev\<close> is \<open>eval\<close> of a text, \<open>None\<close> if it raises. Its values are texts, numbers, \<open>None\<close> or something that is neither a list
  nor a dictionary.\<close>

datatype pval = PStr string | PInt int | PNone | POther

definition autocast :: "(string \<Rightarrow> pval option) \<Rightarrow> string \<Rightarrow> pval" where
  "autocast ev v =
     (if startswith v ''0-'' \<or> startswith v ''1-'' \<or> startswith v ''2-'' then PStr v
      else case ev v of
        Some x \<Rightarrow> x
      | None \<Rightarrow> (case py_int v of Inr n \<Rightarrow> PInt n | Inl _ \<Rightarrow> PStr v))"

text \<open>The value of a key: one, several, or a dictionary from the values of the key to the blocks below them.\<close>

datatype status_entry = Val pval | Vals "pval list" | Blocks "(pval \<times> (pval \<times> status_entry) list) list"

type_synonym status_block = "(pval, status_entry) dict"

definition line_key :: "(string \<Rightarrow> pval option) \<Rightarrow> string \<Rightarrow> pval" where
  "line_key ev l = autocast ev (strip (hd (split_on (CHR ''='') l)))"

definition line_value :: "(string \<Rightarrow> pval option) \<Rightarrow> string \<Rightarrow> pval" where
  "line_value ev l =
     (case autocast ev (strip (join ''='' (tl (split_on (CHR ''='') l)))) of PNone \<Rightarrow> PStr [] | v \<Rightarrow> v)"

text \<open>A block below the last key. A list as the key of a dictionary raises.\<close>

definition attach :: "pval \<times> pval \<Rightarrow> status_block \<Rightarrow> status_block \<Rightarrow> status_block res" where
  "attach cur sub d =
     (case map_of d (fst cur) of
        None \<Rightarrow> Inr (dict_set (fst cur) (Blocks [(snd cur, sub)]) d)
      | Some (Blocks bs) \<Rightarrow> Inr (dict_set (fst cur) (Blocks (dict_set (snd cur) sub bs)) d)
      | Some (Val v) \<Rightarrow> Inr (dict_set (fst cur) (Blocks [(v, sub)]) d)
      | Some (Vals _) \<Rightarrow> Inl (TypeError ''unhashable type: list''))"

text \<open>A line of the block itself.\<close>

definition put_line :: "pval \<Rightarrow> pval \<Rightarrow> status_block \<Rightarrow> status_block" where
  "put_line k v d =
     (case map_of d k of
        None \<Rightarrow> dict_set k (Val v) d
      | Some (Vals vs) \<Rightarrow> dict_set k (Vals (vs @ [v])) d
      | Some (Blocks bs) \<Rightarrow> dict_set k (Blocks (dict_set v [] bs)) d
      | Some (Val u) \<Rightarrow> dict_set k (Vals [u, v]) d)"

text \<open>
  \<open>__parse_block__\<close> on the lines that are left: the block and the lines after it; \<open>None\<close>: more turns are needed.
\<close>

fun parse_block ::
  "(string \<Rightarrow> pval option) \<Rightarrow> nat \<Rightarrow> nat \<Rightarrow> string list \<Rightarrow> (pval \<times> pval) option \<Rightarrow> status_block \<Rightarrow> (status_block \<times> string list) res option" where
  "parse_block ev 0 n ls cur d = None"
| "parse_block ev (Suc f) n [] cur d = Some (Inr (d, []))"
| "parse_block ev (Suc f) n (l # ls) cur d =
     (if strip l = [] \<or> CHR ''='' \<notin> set l then parse_block ev f n ls cur d
      else let m = identation l; k = line_key ev l; v = line_value ev l
        in if m < n then Some (Inr (d, l # ls))
           else if m > n then
             (case parse_block ev f m ls None [] of
                None \<Rightarrow> None
              | Some (Inl e) \<Rightarrow> Some (Inl e)
              | Some (Inr (sub, rest)) \<Rightarrow>
                  (case cur of
                     None \<Rightarrow> parse_block ev f n rest None d
                   | Some kv \<Rightarrow>
                       (case attach kv (dict_set k (Val v) sub) d of
                          Inl e \<Rightarrow> Some (Inl e)
                        | Inr d \<Rightarrow> parse_block ev f n rest cur d)))
           else parse_block ev f n ls (if k = PNone then None else Some (k, v)) (put_line k v d))"

lemma parse_block_rest:
  "parse_block ev f n ls cur d = Some (Inr (b, rest)) \<Longrightarrow> length rest \<le> length ls"
proof (induction f arbitrary: n ls cur d b rest)
  case (Suc f)
  show ?case
  proof (cases ls)
    case (Cons l ms)
    with Suc.prems show ?thesis
      by (auto simp: Let_def dest!: Suc.IH split: if_splits option.splits sum.splits)
  qed (use Suc.prems in auto)
qed simp

lemma parse_block_ends: "length ls < f \<Longrightarrow> parse_block ev f n ls cur d \<noteq> None"
proof (induction f arbitrary: n ls cur d)
  case (Suc f)
  show ?case
  proof (cases ls)
    case (Cons l ms)
    then have ms: "length ms < f" using Suc.prems by simp
    show ?thesis
    proof (cases "parse_block ev f (identation l) ms None []")
      case None
      with Suc.IH [OF ms, of "identation l" None "[]"] show ?thesis by contradiction
    next
      case (Some r)
      have "length rest < f" if "r = Inr (sub, rest)" for sub rest
        using that Some ms by (auto dest: parse_block_rest)
      then show ?thesis
        using Cons Some ms by (auto simp: Let_def Suc.IH simp del: not_None_eq split: option.split sum.split)
    qed
  qed simp
qed simp

definition parse :: "(string \<Rightarrow> pval option) \<Rightarrow> string \<Rightarrow> status_block res" where
  "parse ev raw =
     (let ls = text_lines raw
      in case parse_block ev (Suc (length ls)) 0 ls None [] of
           None \<Rightarrow> Inr []
         | Some r \<Rightarrow> bind_res r (\<lambda>(d, _). Inr d))"

lemma parse_total: "parse_block ev (Suc (length ls)) 0 ls None [] \<noteq> None"
  by (rule parse_block_ends) simp

section \<open>State of processors and controllers\<close>

text \<open>\<open>w in v\<close> for a value of a block, and the text of a key.\<close>

definition in_pval :: "string \<Rightarrow> pval \<Rightarrow> bool res" where
  "in_pval w v =
     (case v of PStr s \<Rightarrow> Inr (contains w s) | _ \<Rightarrow> Inl (TypeError ''argument is not iterable''))"

definition in_entry :: "string \<Rightarrow> status_entry \<Rightarrow> bool res" where
  "in_entry w e =
     (case e of
        Val v \<Rightarrow> in_pval w v
      | Vals vs \<Rightarrow> Inr (PStr w \<in> set vs)
      | Blocks bs \<Rightarrow> Inr (PStr w \<in> set (dict_keys bs)))"

definition entry_field :: "string \<Rightarrow> status_block \<Rightarrow> status_entry res" where
  "entry_field k b = (case map_of b (PStr k) of None \<Rightarrow> Inl (KeyError k) | Some e \<Rightarrow> Inr e)"

definition items :: "status_entry \<Rightarrow> (pval \<times> status_block) list res" where
  "items e = (case e of Blocks bs \<Rightarrow> Inr bs | _ \<Rightarrow> Inl (AttributeError ''iteritems''))"

text \<open>\<open>data[data.keys()[0]]\<close> and its blocks.\<close>

definition node_blocks :: "(string \<Rightarrow> pval option) \<Rightarrow> string \<Rightarrow> (pval \<times> status_block) list res" where
  "node_blocks ev raw =
     bind_res (parse ev raw) (\<lambda>d. case d of [] \<Rightarrow> Inl (IndexError ''list index out of range'') | (_, e) # _ \<Rightarrow> items e)"

text \<open>\<open>None\<close>: neither enabled nor disabled.\<close>

definition block_state :: "status_block \<Rightarrow> string option res" where
  "block_state b =
     bind_res (bind_res (entry_field ''OperState'' b) (in_entry ''DISABLED'')) (\<lambda>off.
       if off then Inr (Some ''DISABLED'')
       else bind_res (bind_res (entry_field ''OperState'' b) (in_entry ''ENABLED'')) (\<lambda>on.
         if \<not> on then Inr None
         else bind_res (bind_res (entry_field ''AdminState'' b) (in_entry ''UNLOCKED'')) (\<lambda>free.
           Inr (Some (if free then ''UNLOCKED'' else ''LOCKED'')))))"

fun find_state :: "string \<Rightarrow> (pval \<times> status_block) list \<Rightarrow> string option res" where
  "find_state processor [] = Inr None"
| "find_state processor ((k, b) # bs) =
     bind_res (in_pval processor k) (\<lambda>here.
       if here then bind_res (block_state b) (\<lambda>st. case st of Some w \<Rightarrow> Inr (Some w) | None \<Rightarrow> find_state processor bs)
       else find_state processor bs)"

definition processor_state :: "(string \<Rightarrow> pval option) \<Rightarrow> ('w, 'z) run_ops_scheme \<Rightarrow> string \<Rightarrow> 'w \<Rightarrow> string option node_res \<times> 'w" where
  "processor_state ev ops processor w =
     andthen (cb_full ops None ''cmw-status -v node'' w) (\<lambda>a w.
       (of_res (bind_res (node_blocks ev a) (find_state processor)), w))"

text \<open>The first place of \<open>PL-\<close> or \<open>SC-\<close> with digits after it.\<close>

fun processor_name :: "string \<Rightarrow> string option" where
  "processor_name [] = None"
| "processor_name (c # cs) =
     (let s = c # cs; ds = takeWhile digit (drop 3 s)
      in if (startswith s ''PL-'' \<or> startswith s ''SC-'') \<and> ds \<noteq> [] then Some (take 3 s @ ds) else processor_name cs)"

text \<open>A key without a name leaves the name of the key before it.\<close>

fun all_states :: "string option \<Rightarrow> (pval \<times> status_block) list \<Rightarrow> (string, string) dict \<Rightarrow> (string, string) dict res" where
  "all_states cur [] d = Inr d"
| "all_states cur ((k, b) # bs) d =
     (case k of
        PStr w \<Rightarrow>
          (let cur = (case processor_name w of Some p \<Rightarrow> Some p | None \<Rightarrow> cur)
           in bind_res (block_state b) (\<lambda>st.
             case (st, cur) of
               (None, _) \<Rightarrow> all_states cur bs d
             | (Some v, Some p) \<Rightarrow> all_states cur bs (dict_set p v d)
             | (Some v, None) \<Rightarrow> Inl (NameError ''local variable processor referenced before assignment'')))
      | _ \<Rightarrow> Inl (TypeError ''expected string or buffer''))"

definition all_processors_state :: "(string \<Rightarrow> pval option) \<Rightarrow> ('w, 'z) run_ops_scheme \<Rightarrow> 'w \<Rightarrow> (string, string) dict node_res \<times> 'w" where
  "all_processors_state ev ops w =
     andthen (cb_full ops None ''cmw-status -v node'' w) (\<lambda>a w.
       (of_res (bind_res (node_blocks ev a) (\<lambda>bs. all_states None bs [])), w))"

text \<open>A missing key ends the loop with what has been found.\<close>

fun controller_states :: "(pval \<times> status_block) list \<Rightarrow> (string, status_entry) dict \<Rightarrow> (string, status_entry) dict res" where
  "controller_states [] r = Inr r"
| "controller_states ((k, b) # bs) r =
     (case k of
        PStr w \<Rightarrow>
          (let one = contains ''Cmw1'' w \<or> contains ''SC-1'' w; two = contains ''Cmw2'' w \<or> contains ''SC-2'' w
           in case entry_field ''HAState'' b of
                Inl _ \<Rightarrow> if one \<or> two then Inr r else controller_states bs r
              | Inr e \<Rightarrow> controller_states bs
                  ((if two then dict_set ''SC-2'' e else id) ((if one then dict_set ''SC-1'' e else id) r)))
      | _ \<Rightarrow> Inl (TypeError ''argument is not iterable''))"

definition controller_state :: "(string \<Rightarrow> pval option) \<Rightarrow> ('w, 'z) run_ops_scheme \<Rightarrow> 'w \<Rightarrow> (string, status_entry) dict node_res \<times> 'w" where
  "controller_state ev ops w =
     andthen (cb_full ops None (''cmw-status -v siass | grep -A2 '' @ quote (''ComSa'' @ [CHR 0x5C] @ ''|ERIC-com'')) w) (\<lambda>a w.
     andthen (of_res (bind_res (parse ev a) (\<lambda>d.
         case map_of d (PStr ''safSISU'') of
           None \<Rightarrow> Inr []
         | Some e \<Rightarrow> bind_res (items e) (\<lambda>bs. controller_states bs []))), w) (\<lambda>r w.
       (if r = [] then Inl (Command_failure ''SC Status info not available'') else Inr r, w)))"

definition sc_is_primary :: "(string \<Rightarrow> pval option) \<Rightarrow> ('w, 'z) run_ops_scheme \<Rightarrow> string \<Rightarrow> 'w \<Rightarrow> bool node_res \<times> 'w" where
  "sc_is_primary ev ops sc w =
     andthen (controller_state ev ops w) (\<lambda>r w.
       (of_res (case map_of r sc of None \<Rightarrow> Inr False | Some e \<Rightarrow> in_entry ''ACTIVE'' e), w))"

text \<open>\<open>run_command(cmd)[0]\<close>\<close>

definition first_line :: "('w, 'z) run_ops_scheme \<Rightarrow> string option \<Rightarrow> string \<Rightarrow> 'w \<Rightarrow> string node_res \<times> 'w" where
  "first_line ops i cmd w = andthen (cb_lines ops i cmd w) (\<lambda>ls w. (of_res (py_nth ls 0), w))"

definition other_sc :: "string \<Rightarrow> string" where
  "other_sc h = (if h = ''SC-2'' then ''SC-1'' else ''SC-2'')"

text \<open>The active controller: this one or the other.\<close>

definition primary_name :: "(string \<Rightarrow> pval option) \<Rightarrow> ('w, 'z) run_ops_scheme \<Rightarrow> string option \<Rightarrow> 'w \<Rightarrow> string node_res \<times> 'w" where
  "primary_name ev ops i w =
     andthen (first_line ops i ''hostname'' w) (\<lambda>h w.
     andthen (sc_is_primary ev ops h w) (\<lambda>p w. (Inr (if p then h else other_sc h), w)))"

definition sc_ip :: "('w, 'z) run_ops_scheme \<Rightarrow> string \<Rightarrow> bool \<Rightarrow> 'w \<Rightarrow> string node_res \<times> 'w" where
  "sc_ip ops sc v6 w =
     andthen (first_line ops None (''cat /cluster/etc/cluster.conf | grep ln_om | grep '' @
       quote (''ip '' @ (if sc = ''SC-1'' then ''1'' else ''2'')) @ '' '' @ (if v6 then '' | grep sc6'' else [])) w) (\<lambda>l w.
       (of_res (py_nth (words l) (- 1)), w))"

definition get_primary_sc :: "(string \<Rightarrow> pval option) \<Rightarrow> ('w, 'z) run_ops_scheme \<Rightarrow> bool \<Rightarrow> 'w \<Rightarrow> (string \<times> string) node_res \<times> 'w" where
  "get_primary_sc ev ops v6 w =
     andthen (primary_name ev ops None w) (\<lambda>h w. andthen (sc_ip ops h v6 w) (\<lambda>ip w. (Inr (h, ip), w)))"

end
