(* ===== verification/Cba_Node.thy ===== *)
theory Cba_Node
  imports Cmw_Status Nodes
begin

text \<open>
  The connections of a CBA node: the constructor of \<open>Cba\<close> (\<open>hss_utils/src/node/cba.py\<close>), the sessions it opens to its command line and
  the user checks on the way. The calls of \<open>Cliss\<close> are those of \<open>Nodes\<close> on the connections of the node.
\<close>

section \<open>State\<close>

text \<open>
  \<open>ca_fresh\<close>: identifiers of the next channels and what their processes print; \<open>ca_costs\<close>: the time each command takes.
\<close>

record cba =
  ca_node :: node_state
  ca_host :: string
  ca_port :: port
  ca_user :: string
  ca_password :: string
  ca_credentials :: "(string, string) dict"
  ca_kind :: session_kind
  ca_log_id :: "string option"
  ca_fresh :: "(string \<times> string \<times> script) list"
  ca_now :: rat
  ca_costs :: "rat list"

definition spend :: "cba \<Rightarrow> cba" where
  "spend c = (case ca_costs c of [] \<Rightarrow> c | t # ts \<Rightarrow> c\<lparr>ca_now := ca_now c + max 0 t, ca_costs := ts\<rparr>)"

definition of_conn :: "'a conn \<Rightarrow> 'a node_res" where
  "of_conn r = (case r of Inl e \<Rightarrow> Inl (Conn_error e) | Inr v \<Rightarrow> Inr v)"

definition on_node :: "(node_state \<Rightarrow> 'a conn \<times> node_state) \<Rightarrow> cba \<Rightarrow> 'a node_res \<times> cba" where
  "on_node f c = (case f (ca_node c) of (r, n) \<Rightarrow> (of_conn r, spend (c\<lparr>ca_node := n\<rparr>)))"

definition next_process :: "cba \<Rightarrow> (string \<times> string \<times> script) \<times> cba" where
  "next_process c = (case ca_fresh c of [] \<Rightarrow> (([], [], []), c) | x # xs \<Rightarrow> (x, c\<lparr>ca_fresh := xs\<rparr>))"

text \<open>\<open>self.__USER_CREDENTIALS[user]\<close>\<close>

definition credential :: "string \<Rightarrow> cba \<Rightarrow> string res" where
  "credential user c = field user (ca_credentials c)"

definition config_of :: "string \<Rightarrow> port \<Rightarrow> string \<Rightarrow> string \<Rightarrow> ep_config" where
  "config_of host port user pw =
     \<lparr>cf_host = Some host, cf_port = Some (Some port), cf_user = Some (Some user), cf_password = Some (Some pw)\<rparr>"

definition own_config :: "cba \<Rightarrow> ep_config" where
  "own_config c = config_of (ca_host c) (ca_port c) (ca_user c) (ca_password c)"

text \<open>Users are always given, so the name of the own user is never asked for.\<close>

definition cba_create :: "ep_config \<Rightarrow> session_kind \<Rightarrow> bool \<Rightarrow> string \<Rightarrow> cba \<Rightarrow> unit node_res \<times> cba" where
  "cba_create cf k force identity c =
     (if check_available_connection identity (ca_node c) then done_with c
      else case next_process c of ((i, _, sc), c) \<Rightarrow>
        on_node (create_connection (\<lambda>_. False) [] i sc
          \<lparr>cr_config = cf, cr_kind = k, cr_x11 = False, cr_force = force, cr_key = None, cr_timeout = 60\<rparr> identity) c)"

definition cba_extend_to :: "ep_config \<Rightarrow> session_kind \<Rightarrow> string \<Rightarrow> string \<Rightarrow> cba \<Rightarrow> unit node_res \<times> cba" where
  "cba_extend_to cf k parent identity c =
     (if check_open_connection identity (ca_node c) then done_with c
      else case next_process c of ((i, j, sc), c) \<Rightarrow> on_node (extend_connection (\<lambda>_. False) [] i j sc cf k parent identity) c)"

definition set_root :: "string \<Rightarrow> node_session \<Rightarrow> node_session" where
  "set_root pw s = (case s of Direct t \<Rightarrow> Direct (set_root_passw pw t) | Extended t \<Rightarrow> Extended (set_root_passw pw t))"

text \<open>An own connection; a hardened session gets the password of root.\<close>

definition own_connection :: "string \<Rightarrow> cba \<Rightarrow> unit node_res \<times> cba" where
  "own_connection identity c =
     andthen (cba_create (own_config c) (ca_kind c) False identity c) (\<lambda>_ c.
       if ca_kind c \<noteq> HardenedLinux then done_with c
       else andthen (of_res (credential ''root'' c), c) (\<lambda>pw c.
         done_with (c\<lparr>ca_node := (ca_node c)
           \<lparr>nd_connections := dict_modify identity (\<lambda>e. e\<lparr>en_session := set_root pw (en_session e)\<rparr>) (nd_connections (ca_node c))\<rparr>\<rparr>)))"

definition make_default :: "cba \<Rightarrow> cba" where
  "make_default c = c\<lparr>ca_node := set_default_connection ''main'' (ca_node c)\<rparr>"

text \<open>Fuel for every tree of connections.\<close>

definition cba_close :: "string \<Rightarrow> cba \<Rightarrow> cba" where
  "cba_close i c =
     (case close_connection (Suc (length (nd_connections (ca_node c)))) i (ca_node c) of
        Some n \<Rightarrow> c\<lparr>ca_node := n\<rparr>
      | None \<Rightarrow> c)"

definition cba_release :: "string \<Rightarrow> cba \<Rightarrow> cba" where
  "cba_release i c =
     (case release_connection (Suc (length (nd_connections (ca_node c)))) i (ca_node c) of
        Some n \<Rightarrow> c\<lparr>ca_node := n\<rparr>
      | None \<Rightarrow> c)"

definition cba_run :: "cba run_ops" where
  "cba_run =
     \<lparr>cb_host = ca_host, cb_credential = credential,
      cb_full = (\<lambda>i cmd. on_node (node_command_full cmd i [])),
      cb_lines = (\<lambda>i cmd. on_node (node_command cmd i [])),
      cb_extend = (\<lambda>p c. andthen (of_res (credential ''root'' c), c) (\<lambda>pw.
         cba_extend_to (config_of p (Port_text ''1022'') ''root'' pw) StandardLinux ''main'' p)),
      cb_close = cba_close, cb_release = cba_release,
      cb_sleep = (\<lambda>t c. c\<lparr>ca_now := ca_now c + max 0 t\<rparr>), cb_time = ca_now\<rparr>"

section \<open>Construction\<close>

text \<open>The configuration: a host has to be there.\<close>

definition cba_new ::
  "(string, string) dict \<Rightarrow> string option \<Rightarrow> port option \<Rightarrow> string option \<Rightarrow> bool \<Rightarrow> (string \<times> string \<times> script) list \<Rightarrow> rat list \<Rightarrow>
     (node_error + cba)" where
  "cba_new creds host port user netconf processes costs =
     (case host of
        None \<Rightarrow> Inl (Conn_error (Conn_raised (ValueError ''host missing'')))
      | Some h \<Rightarrow>
          (let u = (case user of None \<Rightarrow> ''com-emergency'' | Some u \<Rightarrow> u)
           in bind_res (of_res (field u creds)) (\<lambda>pw.
             case own_connection ''main''
               \<lparr>ca_node = node_new, ca_host = h, ca_port = (case port of None \<Rightarrow> Port_text ''22'' | Some p \<Rightarrow> p), ca_user = u,
                ca_password = pw, ca_credentials = creds,
                ca_kind = (if netconf then NetconfCBA else if u = ''root'' then StandardLinux else HardenedLinux),
                ca_log_id = None, ca_fresh = processes, ca_now = 0, ca_costs = costs\<rparr> of
               (Inl e, _) \<Rightarrow> Inl e
             | (Inr _, c) \<Rightarrow> Inr (make_default c))))"

definition force_primary_controller :: "(string \<Rightarrow> pval option) \<Rightarrow> cba \<Rightarrow> unit node_res \<times> cba" where
  "force_primary_controller ev c =
     andthen (primary_name ev cba_run None c) (\<lambda>h c.
     andthen (sc_ip cba_run h False c) (\<lambda>ip c.
     andthen (own_connection ''main'' (cba_release ''main'' (c\<lparr>ca_host := ip\<rparr>))) (\<lambda>_ c. done_with (make_default c))))"

section \<open>The command line\<close>

text \<open>\<open><cliPort>(.+)</cliPort>\<close> at the begin of a line: the group ends at the last closing tag.\<close>

fun before_last :: "string \<Rightarrow> string \<Rightarrow> string option" where
  "before_last p [] = None"
| "before_last p (c # cs) =
     (case before_last p cs of
        Some w \<Rightarrow> Some (c # w)
      | None \<Rightarrow> if startswith (c # cs) p then Some [] else None)"

definition cli_port_of :: "string \<Rightarrow> string option" where
  "cli_port_of l =
     (let s = strip l
      in if startswith s ''<cliPort>''
         then (case before_last ''</cliPort>'' (drop 9 s) of Some w \<Rightarrow> if w = [] then None else Some w | None \<Rightarrow> None)
         else None)"

definition cli_port :: "cba \<Rightarrow> int option node_res \<times> cba" where
  "cli_port c =
     andthen (cb_lines cba_run None ''cat  /storage/system/config/com-apr9010443/lib/comp/libcom_sshd_manager.cfg'' c) (\<lambda>ls c.
       (case List.map_filter cli_port_of ls of
          [] \<Rightarrow> Inr None
        | w # _ \<Rightarrow> bind_res (of_res (py_int w)) (\<lambda>n. Inr (Some n)), c))"

definition tally_command :: "string \<Rightarrow> string \<Rightarrow> string" where
  "tally_command sc user = ''ssh '' @ sc @ '' pam_tally2 --user '' @ user"

text \<open>The failures of a user in the second line of the answer.\<close>

definition tally_failures :: "string \<Rightarrow> string list \<Rightarrow> int res" where
  "tally_failures user answer =
     bind_res (py_nth answer 1) (\<lambda>l.
       if user \<in> set (words l) then bind_res (py_nth (words l) 1) py_int else Inr 0)"

definition check_user_locked_sc :: "string \<Rightarrow> string \<Rightarrow> cba \<Rightarrow> unit node_res \<times> cba" where
  "check_user_locked_sc user sc c =
     andthen (own_connection ''aux_com'' c) (\<lambda>_ c.
     andthen (cb_lines cba_run None (tally_command sc user) c) (\<lambda>ls c.
     andthen (of_res (tally_failures user ls), c) (\<lambda>n c.
       if n \<le> 4 then done_with c
       else andthen (cb_lines cba_run None (tally_command sc user @ '' -r'') (cb_sleep cba_run (1 / 10) c)) (\<lambda>_ c.
         andthen (cb_lines cba_run None (tally_command sc user) c) (\<lambda>ls c.
         andthen (of_res (tally_failures user ls), c) (\<lambda>_. done_with))))))"

definition check_user_locked :: "string \<Rightarrow> cba \<Rightarrow> unit node_res \<times> cba" where
  "check_user_locked user c =
     andthen (first_line cba_run None ''hostname'' c) (\<lambda>h c.
     andthen (check_user_locked_sc user h c) (\<lambda>_. check_user_locked_sc user (other_sc h)))"

definition start_CBAClissEmergency :: "(string \<Rightarrow> pval option) \<Rightarrow> string \<Rightarrow> string \<Rightarrow> cba \<Rightarrow> unit node_res \<times> cba" where
  "start_CBAClissEmergency ev identity parent c =
     andthen (of_res (credential ''com-emergency'' c), c) (\<lambda>pw c.
     andthen (primary_name ev cba_run (Some parent) c) (\<lambda>h c.
     andthen (check_user_locked ''com-emergency'' c) (\<lambda>_.
       cba_extend_to (config_of h (Port_text ''22'') ''com-emergency'' pw) CBACliss parent identity)))"

definition USER_MNG_DN :: string where "USER_MNG_DN = ''ManagedElement=1,SystemFunctions=1,SecM=1,UserManagement=1''"

text \<open>Whether a method of the user management is locked.\<close>

definition method_locked :: "string \<Rightarrow> cba \<Rightarrow> bool node_res \<times> cba" where
  "method_locked m c =
     andthen (show_fields cba_run ''cliss_emergency'' (''show -v '' @ USER_MNG_DN @ '','' @ m @ ''=1'') [''administrativeState''] c) (\<lambda>d c.
       (of_res (bind_res (field ''administrativeState'' d) (\<lambda>vs. Inr (case vs of v # _ \<Rightarrow> v = ''LOCKED'' | [] \<Rightarrow> False))), c))"

definition release_aux :: "cba \<Rightarrow> cba" where
  "release_aux c = cba_release ''aux_com'' (cba_release ''cliss_emergency'' c)"

definition is_AandA_enabled :: "(string \<Rightarrow> pval option) \<Rightarrow> cba \<Rightarrow> bool node_res \<times> cba" where
  "is_AandA_enabled ev c =
     andthen (own_connection ''aux_com'' c) (\<lambda>_ c.
     andthen (start_CBAClissEmergency ev ''cliss_emergency'' ''aux_com'' c) (\<lambda>_ c.
     andthen (method_locked ''LdapAuthenticationMethod'' c) (\<lambda>locked c.
       if locked then (Inr False, release_aux c)
       else andthen (method_locked ''LocalAuthorizationMethod'' c) (\<lambda>locked c. (Inr (\<not> locked), release_aux c)))))"

text \<open>\<open>state\<close>: \<open>UNLOCKED\<close> to enable and \<open>LOCKED\<close> to disable.\<close>

definition set_AandA :: "('w, 'z) run_ops_scheme \<Rightarrow> string \<Rightarrow> 'w \<Rightarrow> unit node_res \<times> 'w" where
  "set_AandA ops state =
     transaction ops ''cliss_emergency'' [USER_MNG_DN @ '',LdapAuthenticationMethod=1'']
       [''administrativeState='' @ state, USER_MNG_DN @ '',LocalAuthorizationMethod=1'', ''administrativeState='' @ state]"

definition switch_AandA :: "string \<Rightarrow> (string \<Rightarrow> pval option) \<Rightarrow> cba \<Rightarrow> unit node_res \<times> cba" where
  "switch_AandA state ev c =
     andthen (start_CBAClissEmergency ev ''cliss_emergency'' ''main'' c) (\<lambda>_. set_AandA cba_run state)"

definition enable_AandA :: "(string \<Rightarrow> pval option) \<Rightarrow> cba \<Rightarrow> unit node_res \<times> cba" where
  "enable_AandA ev c = andthen (is_AandA_enabled ev c) (\<lambda>on c. if on then done_with c else switch_AandA ''UNLOCKED'' ev c)"

definition disable_AandA :: "(string \<Rightarrow> pval option) \<Rightarrow> cba \<Rightarrow> unit node_res \<times> cba" where
  "disable_AandA ev c = andthen (is_AandA_enabled ev c) (\<lambda>on c. if \<not> on then done_with c else switch_AandA ''LOCKED'' ev c)"

text \<open>An exception of one kind is handled.\<close>

definition except :: "(node_error \<Rightarrow> bool) \<Rightarrow> 'a node_res \<times> 'w \<Rightarrow> ('w \<Rightarrow> 'a node_res \<times> 'w) \<Rightarrow> 'a node_res \<times> 'w" where
  "except P p f = (case p of (Inl e, w) \<Rightarrow> if P e then f w else (Inl e, w) | q \<Rightarrow> q)"

definition unauthorized :: "node_error \<Rightarrow> bool" where
  "unauthorized e \<longleftrightarrow> (\<exists>u. e = Conn_error (Unauthorized u))"

definition broken :: "node_error \<Rightarrow> bool" where
  "broken e \<longleftrightarrow> e = Conn_error Failed_eof \<or> e = Conn_error Failed_timeout"

text \<open>A connection that answers is used again; \<open>False\<close>: it is released or was not there.\<close>

definition reuse_connection :: "string \<Rightarrow> cba \<Rightarrow> bool node_res \<times> cba" where
  "reuse_connection identity c =
     (if \<not> check_available_connection identity (ca_node c) then (Inr False, c)
      else except broken
        (andthen (cb_lines cba_run (Some identity) [] c) (\<lambda>_ c. (Inr True, c)))
        (\<lambda>c. (Inr False, cba_release identity c)))"

text \<open>First the given user or the own one, then \<open>com-emergency\<close>, then that user again after a look at its failures.\<close>

definition new_cliss :: "(string \<Rightarrow> pval option) \<Rightarrow> string \<Rightarrow> string \<Rightarrow> port \<Rightarrow> string \<Rightarrow> string \<Rightarrow> cba \<Rightarrow> unit node_res \<times> cba" where
  "new_cliss ev host identity port user pw c =
     (let create = (\<lambda>u w. cba_create (config_of host port u w) CBACliss True identity)
      in except unauthorized
           (andthen (is_AandA_enabled ev c) (\<lambda>on c.
              if on \<and> user \<noteq> ''root'' then create user pw c else create (ca_user c) (ca_password c) c))
           (\<lambda>c. andthen (of_res (credential ''com-emergency'' c), c) (\<lambda>w c.
              except unauthorized (create ''com-emergency'' w c)
                (\<lambda>c. andthen (check_user_locked ''com-emergency'' c) (\<lambda>_. create ''com-emergency'' w)))))"

definition start_CBACliss :: "(string \<Rightarrow> pval option) \<Rightarrow> string \<Rightarrow> string \<Rightarrow> string \<Rightarrow> cba \<Rightarrow> unit node_res \<times> cba" where
  "start_CBACliss ev host identity user c =
     andthen (of_res (credential user c), c) (\<lambda>pw c.
     andthen (reuse_connection identity c) (\<lambda>again c.
       if again then done_with c
       else andthen (cli_port c) (\<lambda>p c.
         new_cliss ev host identity (if p = Some 122 then Port_text ''122'' else Port 830) user pw c)))"

definition start_CBANBICliss :: "string \<Rightarrow> string \<Rightarrow> cba \<Rightarrow> unit node_res \<times> cba" where
  "start_CBANBICliss host identity c =
     andthen (of_res (credential ''advanced'' c), c) (\<lambda>pw c.
       except unauthorized
         (cba_create (config_of host (Port_text ''2024'') ''advanced'' pw) CBANBICliss True identity c)
         (\<lambda>c. cba_create (config_of host (Port_text ''2024'') (ca_user c) (ca_password c)) CBACliss True identity c))"

definition start_CBASignmcli :: "string \<Rightarrow> string \<Rightarrow> cba \<Rightarrow> unit node_res \<times> cba" where
  "start_CBASignmcli identity parent c =
     andthen (first_line cba_run (Some parent) ''hostname'' c) (\<lambda>h c.
     andthen (of_res (credential ''root'' c), c) (\<lambda>pw.
       cba_extend_to (config_of h (Port_text ''1022'') ''root'' pw) CBASignmcli ''main'' identity))"

definition cba_methods :: "(string \<Rightarrow> pval option) \<Rightarrow> cba cba_ops" where
  "cba_methods ev =
     run_ops.extend cba_run (cba_ops.fields (start_CBACliss ev) start_CBANBICliss)"

definition node_status_OK :: "cba \<Rightarrow> bool node_res \<times> cba" where
  "node_status_OK c =
     andthen (own_connection ''status'' c) (\<lambda>_ c.
       case cb_full cba_run (Some ''status'') ''cmw-status app csiass comp node sg si siass su'' c of
         (Inl e, c) \<Rightarrow> (Inr False, cba_release ''status'' c)
       | (Inr a, c) \<Rightarrow> (Inr (contains ''Status OK'' a), cba_release ''status'' c))"

end
