(* ===== verification/Cliss_Config.thy ===== *)
theory Cliss_Config
  imports Cliss "HOL-Library.Char_ord"
begin

text \<open>
  The operations of \<open>Cba\<close> (\<open>hss_utils/src/node/cba.py\<close>) that change the configuration of a CBA node through its command line: modules,
  health check, licensed functions, certificates, time servers, flow policies, diameter peers. Each is a sequence of
  transactions.
\<close>

section \<open>Traffic modules\<close>

text \<open>A module is unlocked if it is locked; the result says whether it was.\<close>

definition unlock_module :: "'w cba_ops \<Rightarrow> string \<Rightarrow> string \<Rightarrow> 'w \<Rightarrow> bool node_res \<times> 'w" where
  "unlock_module ops dn attribute w =
     andthen (start_cliss ops MODULES (user_of ''DEFAULT'') w) (\<lambda>_ w.
     andthen (send ops MODULES dn w) (\<lambda>_ w.
     andthen (cb_full ops (Some MODULES) (''show '' @ attribute) w) (\<lambda>a w.
       if contains ''Locked'' a
       then andthen (transaction ops MODULES [] [attribute @ ''='' @ quote ''Unlocked''] w) (\<lambda>_ w. (Inr True, w))
       else (Inr False, w))))"

definition unlock_traffic_modules :: "'w cba_ops \<Rightarrow> 'w \<Rightarrow> nat node_res \<times> 'w" where
  "unlock_traffic_modules ops w =
     andthen (unlock_module ops MODULE_IMS_CLISS_DN ''hss-AdministrativeState'' w) (\<lambda>a w.
     andthen (unlock_module ops MODULE_ESM_CLISS_DN ''hss-EsmAdministrativeState'' w) (\<lambda>b w.
       (Inr (of_bool a + of_bool b), w)))"

section \<open>Places of the command line\<close>

text \<open>\<open>start_health_check_handling\<close>, \<open>start_backup_handling\<close> and \<open>start_alarm_handling\<close> go to a place below a node of the tree.\<close>

definition go_to :: "'w cba_ops \<Rightarrow> string \<Rightarrow> string \<Rightarrow> 'w \<Rightarrow> unit node_res \<times> 'w" where
  "go_to ops dn next_level w =
     andthen (start_cliss ops HSSADMIN ''hssadministrator'' w) (\<lambda>_ w. send ops HSSADMIN (dn @ next_level) w)"

definition start_health_check_handling :: "'w cba_ops \<Rightarrow> string \<Rightarrow> 'w \<Rightarrow> unit node_res \<times> 'w" where
  "start_health_check_handling ops = go_to ops HEALTH_CHECK_DN"

definition start_backup_handling :: "'w cba_ops \<Rightarrow> string \<Rightarrow> 'w \<Rightarrow> unit node_res \<times> 'w" where
  "start_backup_handling ops = go_to ops BACKUP_CLISS_DN"

definition start_alarm_handling :: "'w cba_ops \<Rightarrow> string \<Rightarrow> 'w \<Rightarrow> unit node_res \<times> 'w" where
  "start_alarm_handling ops = go_to ops ALARM_CLISS_DN"

definition run_health_check_cmd :: "'w cba_ops \<Rightarrow> string \<Rightarrow> string \<Rightarrow> 'w \<Rightarrow> string node_res \<times> 'w" where
  "run_health_check_cmd ops cmd next_level w =
     andthen (start_health_check_handling ops next_level w) (\<lambda>_ w. cb_full ops (Some HSSADMIN) cmd w)"

definition run_backup_cmd :: "'w cba_ops \<Rightarrow> string \<Rightarrow> string \<Rightarrow> 'w \<Rightarrow> string node_res \<times> 'w" where
  "run_backup_cmd ops cmd next_level w =
     andthen (start_backup_handling ops next_level w) (\<lambda>_ w. cb_full ops (Some HSSADMIN) cmd w)"

definition backup_info :: "'w cba_ops \<Rightarrow> string list \<Rightarrow> string \<Rightarrow> 'w \<Rightarrow> (string, string list) dict node_res \<times> 'w" where
  "backup_info ops ks next_level w =
     andthen (start_backup_handling ops next_level w) (\<lambda>_ w. show_fields ops HSSADMIN ''show -v'' ks w)"

definition alarm_info :: "'w cba_ops \<Rightarrow> string list \<Rightarrow> string \<Rightarrow> 'w \<Rightarrow> (string, string list) dict node_res \<times> 'w" where
  "alarm_info ops ks next_level w =
     andthen (start_alarm_handling ops next_level w) (\<lambda>_ w. show_fields ops HSSADMIN ''show -v'' ks w)"

definition alarm_fields :: "string list" where
  "alarm_fields =
     [''activeSeverity'', ''eventType'', ''lastEventTime'', ''source'', ''specificProblem'', ''additionalText'', ''originalAdditionalText'']"

definition get_alarm_info :: "'w cba_ops \<Rightarrow> string \<Rightarrow> 'w \<Rightarrow> (string, string list) dict node_res \<times> 'w" where
  "get_alarm_info ops alarm = alarm_info ops alarm_fields ('',FmAlarm='' @ alarm)"

fun all_res :: "'a res list \<Rightarrow> 'a list res" where
  "all_res [] = Inr []"
| "all_res (r # rs) = bind_res r (\<lambda>v. bind_res (all_res rs) (\<lambda>vs. Inr (v # vs)))"

definition print_alarm_info :: "string \<Rightarrow> (string, string list) dict \<Rightarrow> string res" where
  "print_alarm_info alarm d =
     bind_res (all_res (map (\<lambda>k. first_of k d) alarm_fields)) (\<lambda>vs.
       Inr (join [CHR 0x0A, CHR 0x09] ((''FmAlarm:'' @ alarm) # vs)))"

definition healthcheck_info :: "'w cba_ops \<Rightarrow> string list \<Rightarrow> 'w \<Rightarrow> (string, string list) dict node_res \<times> 'w" where
  "healthcheck_info ops ks w = andthen (go_to ops HEALTH_CHECK_DN '',HcJob=Full'' w) (\<lambda>_ w. show_fields ops HSSADMIN ''show -v'' ks w)"

definition healthcheck_list_hcjobs :: "'w cba_ops \<Rightarrow> string list \<Rightarrow> 'w \<Rightarrow> (string, string list) dict node_res \<times> 'w" where
  "healthcheck_list_hcjobs ops ks w = andthen (go_to ops HEALTH_CHECK_DN [] w) (\<lambda>_ w. show_fields ops HSSADMIN ''show'' ks w)"

definition is_virtual :: "'w cba_ops \<Rightarrow> 'w \<Rightarrow> bool node_res \<times> 'w" where
  "is_virtual ops w = andthen (cb_full ops None ''dmesg | grep Hypervisor'' w) (\<lambda>a w. (Inr (a \<noteq> []), w))"

definition start_healthcheck :: "'w cba_ops \<Rightarrow> 'w \<Rightarrow> unit node_res \<times> 'w" where
  "start_healthcheck ops w =
     andthen (start_cliss ops HSSADMIN ''hssadministrator'' w) (\<lambda>_ w.
     andthen (transaction ops HSSADMIN [HEALTH_CHECK_DN] [''no HcJob=Full''] w) (\<lambda>_ w.
     andthen (is_virtual ops w) (\<lambda>virtual w.
     andthen (if virtual
              then transaction ops HSSADMIN []
                [''HcRule=HSS_201,administrativeState=LOCKED'', ''HcRule=HSS_107,administrativeState=LOCKED''] w
              else done_with w) (\<lambda>_ w.
     andthen (transaction ops HSSADMIN []
       [''HcJob=Full'', ''rulesCategories=TROUBLESHOOT'', ''rulesCategories=SHORT''] w) (\<lambda>_ w.
       send ops HSSADMIN ''execute'' w)))))"

section \<open>Time servers\<close>

definition remove_ntp_server_cliss :: "'w cba_ops \<Rightarrow> string \<Rightarrow> 'w \<Rightarrow> unit node_res \<times> 'w" where
  "remove_ntp_server_cliss ops k w =
     andthen (start_cliss ops HSSADMIN (user_of ''USER_NTP'') w) (\<lambda>_ w.
     andthen (send ops HSSADMIN (NTP_SERVER_DN @ '',NtpServer='' @ k) w) (\<lambda>_ w.
       as_failure (transaction ops HSSADMIN [NTP_SERVER_DN] [''no NtpServer='' @ k] w)))"

definition add_ntp_server_cliss :: "'w cba_ops \<Rightarrow> string \<Rightarrow> string \<Rightarrow> 'w \<Rightarrow> unit node_res \<times> 'w" where
  "add_ntp_server_cliss ops ip k w =
     andthen (start_cliss ops HSSADMIN (user_of ''USER_NTP'') w) (\<lambda>_ w.
       as_failure (transaction ops HSSADMIN [NTP_SERVER_DN]
         [''NtpServer='' @ k, ''serverAddress='' @ ip, ''administrativeState=UNLOCKED''] w))"

definition update_ntp_server_cliss :: "'w cba_ops \<Rightarrow> string \<Rightarrow> string \<Rightarrow> 'w \<Rightarrow> unit node_res \<times> 'w" where
  "update_ntp_server_cliss ops ip k w =
     andthen (start_cliss ops HSSADMIN (user_of ''USER_NTP'') w) (\<lambda>_ w.
       as_failure (transaction ops HSSADMIN [NTP_SERVER_DN @ '',NtpServer='' @ k] [''serverAddress='' @ ip] w))"

text \<open>
  The configured servers with their addresses. At most two are looked at, and all addresses come from the first answer.
\<close>

definition ntp_server :: "'w cba_ops \<Rightarrow> string \<Rightarrow> string list \<Rightarrow> int \<Rightarrow> 'w \<Rightarrow> (string \<times> string) node_res \<times> 'w" where
  "ntp_server ops answer ids j w =
     andthen (of_res (py_nth ids j), w) (\<lambda>k w.
     andthen (send ops HSSADMIN (NTP_SERVER_DN @ '',NtpServer='' @ k) w) (\<lambda>_ w.
       (of_res (bind_res (fill_from_cliss_info [''serverAddress''] answer) (\<lambda>d.
          bind_res (field ''serverAddress'' d) (\<lambda>vs.
          bind_res (py_nth vs j) (\<lambda>ip. Inr (k, ip))))), w)))"

definition get_ntp_servers_info_cliss :: "'w cba_ops \<Rightarrow> 'w \<Rightarrow> (string, string) dict node_res \<times> 'w" where
  "get_ntp_servers_info_cliss ops w =
     andthen (start_cliss ops HSSADMIN (user_of ''USER_NTP'') w) (\<lambda>_ w.
     andthen (cb_full ops (Some HSSADMIN) (''show -r '' @ NTP_SERVER_DN) w) (\<lambda>answer w.
     andthen (of_res (fill_from_cliss_info [''NtpServer''] answer), w) (\<lambda>d w.
       as_failure (andthen (of_res (field ''NtpServer'' d), w) (\<lambda>ids w.
         if ids = [] then (Inr [], w)
         else andthen (ntp_server ops answer ids 0 w) (\<lambda>a w.
           if length ids > 1
           then andthen (ntp_server ops answer ids 1 w) (\<lambda>b w. (Inr (dict_set (fst b) (snd b) [a]), w))
           else (Inr [a], w)))))))"

text \<open>The identifiers in order get the servers in order.\<close>

definition update_all_ntp :: "'w cba_ops \<Rightarrow> (string \<times> string) list \<Rightarrow> 'w \<Rightarrow> unit node_res \<times> 'w" where
  "update_all_ntp ops = for_each (\<lambda>(k, ip). update_ntp_server_cliss ops ip k)"

text \<open>
  With as many servers as identifiers or more, all identifiers are updated, and if there is exactly one of them and another
  server, that one is added under the next number. With fewer servers, these identifiers are updated; if there is
  exactly one server, the second identifier is removed.
\<close>

definition update_ntp_servers_cliss :: "'w cba_ops \<Rightarrow> string list \<Rightarrow> 'w \<Rightarrow> unit node_res \<times> 'w" where
  "update_ntp_servers_cliss ops servers w =
     andthen (get_ntp_servers_info_cliss ops w) (\<lambda>info w.
       let ids = sort (dict_keys info)
       in andthen (update_all_ntp ops (zip ids servers) w) (\<lambda>_ w.
            if length info \<le> length servers then
              (case (ids, servers) of
                 ([k], _ # ip # _) \<Rightarrow>
                   andthen (of_res (py_int k), w) (\<lambda>n w. add_ntp_server_cliss ops ip (str_of_int (1 + n)) w)
               | _ \<Rightarrow> done_with w)
            else (case (ids, servers) of
                 (_ # k # _, [_]) \<Rightarrow> remove_ntp_server_cliss ops k w
               | _ \<Rightarrow> done_with w)))"

definition ntp_turn :: "'w cba_ops \<Rightarrow> string \<Rightarrow> string \<Rightarrow> 'w \<Rightarrow> unit option node_res \<times> 'w" where
  "ntp_turn ops processor server w =
     andthen (cb_full ops (Some processor) (''ntpdate -u '' @ server) w) (\<lambda>a w.
       if contains ''step time server'' a \<or> contains ''adjust time server'' a then (Inr (Some ()), w)
       else (Inr None, cb_sleep ops 5 w))"

definition sync_processor_ntp_server :: "'w cba_ops \<Rightarrow> nat \<Rightarrow> string \<Rightarrow> string \<Rightarrow> 'w \<Rightarrow> string list option node_res \<times> 'w" where
  "sync_processor_ntp_server ops n processor server w =
     andthen (cb_extend ops processor w) (\<lambda>_ w.
     andthen (poll (cb_time ops) (ntp_turn ops processor server)
       (Execution_timeout (''Timeout waiting for syncronization processor '' @ processor)) n 120 w) (\<lambda>r w.
       case r of
         None \<Rightarrow> (Inr None, w)
       | Some _ \<Rightarrow> andthen (cb_lines ops (Some processor) ''date'' w) (\<lambda>ls w. (Inr (Some ls), w))))"

definition sync_processor_ntp_restart :: "'w cba_ops \<Rightarrow> string \<Rightarrow> 'w \<Rightarrow> string list node_res \<times> 'w" where
  "sync_processor_ntp_restart ops processor w =
     andthen (cb_extend ops processor w) (\<lambda>_ w.
     andthen (cb_lines ops (Some processor) ''service ntp restart'' w) (\<lambda>_ w.
       cb_lines ops (Some processor) ''date'' (cb_sleep ops 8 w)))"

end
