(* ===== verification/Cliss_Certs.thy ===== *)
theory Cliss_Certs
  imports Cliss
begin

text \<open>
  Certificates, encrypted access, flow policies and scaling of a CBA node: more of the operations of \<open>Cba\<close>
  (\<open>hss_utils/src/node/cba.py\<close>) through its command line.
\<close>

section \<open>Credential of the node\<close>

definition start_cert :: "'w cba_ops \<Rightarrow> 'w \<Rightarrow> unit node_res \<times> 'w" where
  "start_cert ops = start_cliss ops HSSADMIN (user_of ''USER_CERT'')"

definition cert_transaction :: "'w cba_ops \<Rightarrow> string \<Rightarrow> string list \<Rightarrow> 'w \<Rightarrow> unit node_res \<times> 'w" where
  "cert_transaction ops place changes w = andthen (start_cert ops w) (\<lambda>_ w. transaction ops HSSADMIN [place] changes w)"

text \<open>
  Nothing is done if there is a credential. After a refused enrollment the answer of \<open>show\<close> decides: it is an error
  if the file exists already.
\<close>

definition add_csr_cert_cliss :: "'w cba_ops \<Rightarrow> string \<Rightarrow> 'w \<Rightarrow> unit node_res \<times> 'w" where
  "add_csr_cert_cliss ops cn_ip w =
     andthen (start_cert ops w) (\<lambda>_ w.
     andthen (cb_full ops (Some HSSADMIN) (''show -r -v '' @ CERT_MNG_DN) w) (\<lambda>a w.
       if contains ''NodeCredential=1'' a then done_with w
       else andthen (transaction ops HSSADMIN [CERT_MNG_DN]
           [''NodeCredential=1'', ''subjectName='' @ quote (''C=SE,O=Ericsson,CN='' @ cn_ip), ''keyInfo=RSA_4096''] w) (\<lambda>_ w.
         andthen (cb_full ops (Some HSSADMIN) ''startOfflineCsrEnrollment --uri HSS.csr'' w) (\<lambda>a w.
           if contains ''true'' a then done_with w
           else andthen (cb_full ops (Some HSSADMIN) ''show'' w) (\<lambda>a w.
             if \<not> contains ''URI parameter file already exists'' a then done_with w
             else (Inl (refused a), w))))))"

definition delete_csr_cert_cliss :: "'w cba_ops \<Rightarrow> 'w \<Rightarrow> unit node_res \<times> 'w" where
  "delete_csr_cert_cliss ops = cert_transaction ops CERT_MNG_DN [''no NodeCredential=1'']"

definition enrollment_info :: "'w cba_ops \<Rightarrow> string list \<Rightarrow> 'w \<Rightarrow> (string, string list) dict node_res \<times> 'w" where
  "enrollment_info ops ks w =
     andthen (start_cert ops w) (\<lambda>_ w.
     andthen (send ops HSSADMIN (CERT_MNG_DN @ '',NodeCredential=1'') w) (\<lambda>_ w.
       show_fields ops HSSADMIN ''show enrollmentProgress'' ks w))"

definition trusted_cert_info :: "'w cba_ops \<Rightarrow> string list \<Rightarrow> 'w \<Rightarrow> (string, string list) dict node_res \<times> 'w" where
  "trusted_cert_info ops ks w =
     andthen (start_cert ops w) (\<lambda>_ w.
     andthen (send ops HSSADMIN CERT_MNG_DN w) (\<lambda>_ w. show_fields ops HSSADMIN ''show reportProgress'' ks w))"

text \<open>The first line with a version counts; without one the variable does not exist.\<close>

definition tls_version :: "string \<Rightarrow> string res" where
  "tls_version a =
     (case filter (contains ''protocolVersion='') (text_lines a) of
        [] \<Rightarrow> Inl (NameError ''local variable tls_protocol referenced before assignment'')
      | l # _ \<Rightarrow> Inr (str_replace (last (split_on (CHR ''='') l)) [CHR 0x22] []))"

definition get_tls_protocol :: "'w cba_ops \<Rightarrow> 'w \<Rightarrow> string node_res \<times> 'w" where
  "get_tls_protocol ops w =
     andthen (start_cert ops w) (\<lambda>_ w.
     andthen (cb_full ops (Some HSSADMIN)
       ''show ManagedElement=1,SystemFunctions=1,SecM=1,Tls=1 | filter protocolVersion | filter TLS'' w) (\<lambda>a w.
       (of_res (bind_res (tls_version a) (\<lambda>v.
          Inr (if v = ''TLSv1.2'' then ''tls1_2'' else if v = ''TLSv1.1'' then ''tls1_1'' else ''tls1''))), w)))"

text \<open>A turn of waiting for the end of an installation.\<close>

definition install_state ::
  "('w \<Rightarrow> (string, string list) dict node_res \<times> 'w) \<Rightarrow> 'w \<Rightarrow> (string, string list) dict option node_res \<times> 'w" where
  "install_state info w =
     andthen (info w) (\<lambda>d w.
       (bind_res (of_res (first_of ''state'' d)) (\<lambda>st. Inr (if st = ''FINISHED'' then Some d else None)), w))"

definition progress_keys :: "string list" where
  "progress_keys = [''state'', ''result'', ''resultInfo'']"

text \<open>The end of an installation that \<open>what\<close> names: it has to be successful.\<close>

definition installed :: "string \<Rightarrow> (string, string list) dict \<Rightarrow> unit node_res" where
  "installed what d =
     bind_res (of_res (first_of ''result'' d)) (\<lambda>r.
       if r = ''SUCCESS'' then Inr ()
       else bind_res (of_res (first_of ''resultInfo'' d)) (\<lambda>i. Inl (Command_failure (what @ '' error: '' @ i))))"

definition wait_installed ::
  "'w cba_ops \<Rightarrow> nat \<Rightarrow> string \<Rightarrow> rat \<Rightarrow> ('w \<Rightarrow> (string, string list) dict node_res \<times> 'w) \<Rightarrow> 'w \<Rightarrow> unit option node_res \<times> 'w" where
  "wait_installed ops n what pause_for info w =
     andthen (poll (cb_time ops) (\<lambda>w. install_state info (cb_sleep ops pause_for w))
       (Execution_timeout (''Timeout waiting for '' @ what)) n 60 w) (\<lambda>r w.
       (case r of None \<Rightarrow> Inr None | Some d \<Rightarrow> bind_res (installed what d) (\<lambda>_. Inr (Some ())), w))"

text \<open>The command with the password of the user \<open>hss_st\<close>; it has to answer \<open>true\<close>.\<close>

definition install_from :: "'w cba_ops \<Rightarrow> string \<Rightarrow> string \<Rightarrow> string \<Rightarrow> string \<Rightarrow> 'w \<Rightarrow> unit node_res \<times> 'w" where
  "install_from ops what ip_tg file finger w =
     andthen (of_res (cb_credential ops ''hss_st'' w), w) (\<lambda>pw w.
     andthen (cb_full ops (Some HSSADMIN)
       (what @ '' --uri sftp://hss_st@'' @ ip_tg @ ''/'' @ file @ '' --uriPassword '' @ pw @ '' --fingerprint '' @ finger) w) (\<lambda>a w.
       (if contains ''true'' a then Inr () else Inl (refused a), w)))"

definition inst_csr_cert_cliss :: "'w cba_ops \<Rightarrow> nat \<Rightarrow> string \<Rightarrow> string \<Rightarrow> string \<Rightarrow> 'w \<Rightarrow> unit option node_res \<times> 'w" where
  "inst_csr_cert_cliss ops n ip_tg cert_file finger w =
     andthen (start_cert ops w) (\<lambda>_ w.
     andthen (cb_full ops (Some HSSADMIN) (''show '' @ CERT_MNG_DN) w) (\<lambda>a w.
       if \<not> contains ''NodeCredential=1'' a then (Inl (Command_failure ''Node Credential should be already created''), w)
       else andthen (send ops HSSADMIN (CERT_MNG_DN @ '',NodeCredential=1'') w) (\<lambda>_ w.
         andthen (install_from ops ''installCredentialFromUri'' ip_tg cert_file finger w) (\<lambda>_ w.
           wait_installed ops n ''installCredentialFromUri'' 5 (enrollment_info ops progress_keys) w))))"

definition inst_trusted_cert_cliss :: "'w cba_ops \<Rightarrow> nat \<Rightarrow> string \<Rightarrow> string \<Rightarrow> string \<Rightarrow> 'w \<Rightarrow> unit option node_res \<times> 'w" where
  "inst_trusted_cert_cliss ops n ip_tg cert_file finger w =
     andthen (start_cert ops w) (\<lambda>_ w.
     andthen (send ops HSSADMIN CERT_MNG_DN w) (\<lambda>_ w.
     andthen (install_from ops ''installTrustedCertFromUri'' ip_tg cert_file finger w) (\<lambda>_ w.
       wait_installed ops n ''installTrustedCertFromUri'' 3 (trusted_cert_info ops progress_keys) w)))"

section \<open>Trusted certificates\<close>

definition delete_trusted_cert_cliss :: "'w cba_ops \<Rightarrow> 'w \<Rightarrow> unit node_res \<times> 'w" where
  "delete_trusted_cert_cliss ops w =
     andthen (start_cert ops w) (\<lambda>_ w.
       as_failure (sends ops HSSADMIN [CERT_MNG_DN, ''removeTrustedCert --trustedCert '' @ quote ''TrustedCertificate=1''] w))"

definition create_trusted_category_cliss :: "'w cba_ops \<Rightarrow> 'w \<Rightarrow> unit node_res \<times> 'w" where
  "create_trusted_category_cliss ops w =
     andthen (start_cert ops w) (\<lambda>_ w.
     andthen (sends ops HSSADMIN [CERT_MNG_DN, ''configure'', ''TrustCategory=1''] w) (\<lambda>_ w.
     andthen (ask_cliss ops HSSADMIN (''trustedCertificates=['' @ quote (CERT_MNG_DN @ '',TrustedCertificate=1'') @ '']'') w) (\<lambda>_ w.
       commit ops HSSADMIN w)))"

definition delete_trusted_category_cliss :: "'w cba_ops \<Rightarrow> 'w \<Rightarrow> unit node_res \<times> 'w" where
  "delete_trusted_category_cliss ops = cert_transaction ops CERT_MNG_DN [''no TrustCategory=1'']"

definition enable_trusted_cert_cliss :: "'w cba_ops \<Rightarrow> 'w \<Rightarrow> unit node_res \<times> 'w" where
  "enable_trusted_cert_cliss ops = cert_transaction ops CERT_MNG_DN [''TrustedCertificate=1'', ''managedState=ENABLED'']"

text \<open>A certificate that does not exist is left alone.\<close>

definition disable_trusted_cert_cliss :: "'w cba_ops \<Rightarrow> 'w \<Rightarrow> unit node_res \<times> 'w" where
  "disable_trusted_cert_cliss ops w =
     andthen (start_cert ops w) (\<lambda>_ w.
     andthen (send ops HSSADMIN CERT_MNG_DN w) (\<lambda>_ w.
     andthen (cb_full ops (Some HSSADMIN) ''TrustedCertificate=1'' w) (\<lambda>a w.
       if contains ''ERROR'' a then done_with w else transaction ops HSSADMIN [] [''managedState=DISABLED''] w)))"

section \<open>Encrypted access\<close>

text \<open>\<open>kind\<close>: \<open>CliTls\<close> or \<open>NetconfTls\<close>.\<close>

definition credential_of :: "string" where
  "credential_of = ''nodeCredential='' @ quote (CERT_MNG_DN @ '',NodeCredential=1'')"

definition category_of :: "string" where
  "category_of = ''trustCategory='' @ quote (CERT_MNG_DN @ '',TrustCategory=1'')"

definition config_tls :: "string \<Rightarrow> 'w cba_ops \<Rightarrow> 'w \<Rightarrow> unit node_res \<times> 'w" where
  "config_tls kind ops w =
     andthen (cert_transaction ops (SYS_DN @ '','' @ kind @ ''=1'') [credential_of, category_of] w) (\<lambda>_ w.
       transaction ops HSSADMIN [] [''administrativeState=UNLOCKED''] w)"

definition delete_config_tls :: "string \<Rightarrow> 'w cba_ops \<Rightarrow> 'w \<Rightarrow> unit node_res \<times> 'w" where
  "delete_config_tls kind ops =
     cert_transaction ops (SYS_DN @ '','' @ kind @ ''=1'')
       [''administrativeState=LOCKED'', ''no '' @ credential_of, ''no '' @ category_of]"

definition config_cli_tls_cliss :: "'w cba_ops \<Rightarrow> 'w \<Rightarrow> unit node_res \<times> 'w" where
  "config_cli_tls_cliss = config_tls ''CliTls''"

definition delete_config_cli_tls_cliss :: "'w cba_ops \<Rightarrow> 'w \<Rightarrow> unit node_res \<times> 'w" where
  "delete_config_cli_tls_cliss = delete_config_tls ''CliTls''"

definition config_netconf_tls_cliss :: "'w cba_ops \<Rightarrow> 'w \<Rightarrow> unit node_res \<times> 'w" where
  "config_netconf_tls_cliss = config_tls ''NetconfTls''"

definition delete_config_netconf_tls_cliss :: "'w cba_ops \<Rightarrow> 'w \<Rightarrow> unit node_res \<times> 'w" where
  "delete_config_netconf_tls_cliss = delete_config_tls ''NetconfTls''"

section \<open>Flow policies and scaling\<close>

definition config_flow_policy_cliss :: "'w cba_ops \<Rightarrow> string \<Rightarrow> string \<Rightarrow> string \<Rightarrow> string \<Rightarrow> string \<Rightarrow> 'w \<Rightarrow> unit node_res \<times> 'w" where
  "config_flow_policy_cliss ops name dest port prot pool =
     cert_transaction ops EVIP_FLOWPOLICY_DN
       [''EvipFlowPolicy='' @ name, ''addressFamily='' @ quote ''ipv4'', ''dest='' @ quote dest, ''destPort='' @ quote port,
        ''protocol='' @ quote prot, ''targetPool='' @ quote pool]"

definition delete_flow_policy_cliss :: "'w cba_ops \<Rightarrow> string \<Rightarrow> 'w \<Rightarrow> unit node_res \<times> 'w" where
  "delete_flow_policy_cliss ops name = cert_transaction ops EVIP_FLOWPOLICY_DN [''no EvipFlowPolicy='' @ name]"

text \<open>The result of a turn: whether the answer is complete, and the answer.\<close>

definition scaling_turn :: "'w cba_ops \<Rightarrow> 'w \<Rightarrow> (bool \<times> string) node_res \<times> 'w" where
  "scaling_turn ops w =
     andthen (send ops HSSADMIN (SYS_DN @ '',CrM=1'') (cb_sleep ops 5 w)) (\<lambda>_ w.
     andthen (cb_full ops (Some HSSADMIN) ''show -m ComputeResourceRole -p instantiationState,operationalState'' w) (\<lambda>a w.
       (if \<not> contains ''ERROR'' a then Inr (True, a)
        else if contains ''Failed to retrieve all requested information'' a then Inr (False, a)
        else Inl (refused a), w)))"

text \<open>The deadline is looked at before the answer is.\<close>

fun scaling_loop :: "'w cba_ops \<Rightarrow> nat \<Rightarrow> rat \<Rightarrow> 'w \<Rightarrow> string option node_res \<times> 'w" where
  "scaling_loop ops 0 left w = (Inr None, w)"
| "scaling_loop ops (Suc n) left w =
     (case scaling_turn ops w of
        (Inl e, v) \<Rightarrow> (Inl e, v)
      | (Inr (through, a), v) \<Rightarrow>
          if left - (cb_time ops v - cb_time ops w) < 0
          then (Inl (Execution_timeout ''Timeout waiting for computerResourceRole information''), v)
          else if through then (Inr (Some a), v)
          else scaling_loop ops n (left - (cb_time ops v - cb_time ops w)) v)"

definition check_scaling_cliss :: "'w cba_ops \<Rightarrow> nat \<Rightarrow> 'w \<Rightarrow> string option node_res \<times> 'w" where
  "check_scaling_cliss ops n w =
     andthen (start_cliss ops HSSADMIN (user_of ''USER_MNG'') w) (\<lambda>_. scaling_loop ops n 300)"

definition scalable_payloads_cliss :: "'w cba_ops \<Rightarrow> 'w \<Rightarrow> string node_res \<times> 'w" where
  "scalable_payloads_cliss ops w =
     andthen (start_cliss ops HSSADMIN (user_of ''USER_MNG'') w) (\<lambda>_ w.
     andthen (send ops HSSADMIN (SYS_DN @ '',CrM=1'') w) (\<lambda>_. ask_cliss ops HSSADMIN ''show Role=role.payload''))"

text \<open>One commit for all payloads.\<close>

definition scale_in_payloads_cliss :: "'w cba_ops \<Rightarrow> string list \<Rightarrow> 'w \<Rightarrow> unit node_res \<times> 'w" where
  "scale_in_payloads_cliss ops names w =
     andthen (start_cliss ops HSSADMIN (user_of ''USER_MNG'') w) (\<lambda>_ w.
     andthen (for_each (\<lambda>p. sends ops HSSADMIN
       [SYS_DN @ '',CrM=1,ComputeResourceRole='' @ p, ''configure'', ''no provides'']) names w) (\<lambda>_ w.
     andthen (send ops HSSADMIN ''up'' w) (\<lambda>_. commit ops HSSADMIN)))"

end
