(* ===== verification/Cliss_Nodes.thy ===== *)
theory Cliss_Nodes
  imports Cmw_Status
begin

text \<open>
  Processors, the north-bound interface, diameter peers, the address of the map application and the connections to data bases of a CBA
  node: operations of \<open>Cba\<close> (\<open>hss_utils/src/node/cba.py\<close>).
\<close>

section \<open>Processors\<close>

text \<open>The result is the time it took.\<close>

definition timed :: "('w, 'z) run_ops_scheme \<Rightarrow> ('w \<Rightarrow> 'a node_res \<times> 'w) \<Rightarrow> 'w \<Rightarrow> rat node_res \<times> 'w" where
  "timed ops f w = andthen (f w) (\<lambda>_ v. (Inr (cb_time ops v - cb_time ops w), v))"

definition lock_processor :: "('w, 'z) run_ops_scheme \<Rightarrow> string \<Rightarrow> 'w \<Rightarrow> rat node_res \<times> 'w" where
  "lock_processor ops p = timed ops (cb_lines ops None (''cmw-node-lock '' @ p))"

definition unlock_processor :: "('w, 'z) run_ops_scheme \<Rightarrow> string \<Rightarrow> 'w \<Rightarrow> rat node_res \<times> 'w" where
  "unlock_processor ops p = timed ops (cb_lines ops None (''cmw-node-unlock '' @ p))"

text \<open>The commands go to the default connection, although the connection to the processor has been made.\<close>

definition disable_itco_watchdog :: "('w, 'z) run_ops_scheme \<Rightarrow> string \<Rightarrow> 'w \<Rightarrow> unit node_res \<times> 'w" where
  "disable_itco_watchdog ops p w =
     andthen (cb_extend ops p w) (\<lambda>_ w.
     andthen (cb_lines ops None ''systemctl stop lde-watchdogd.service'' w) (\<lambda>_ w.
     andthen (cb_lines ops None (''echo '' @ quote ''V'' @ '' >/dev/watchdog'') w) (\<lambda>_. done_with)))"

definition status_itco_watchdog_disabled :: "('w, 'z) run_ops_scheme \<Rightarrow> string \<Rightarrow> 'w \<Rightarrow> bool node_res \<times> 'w" where
  "status_itco_watchdog_disabled ops p w =
     andthen (cb_extend ops p w) (\<lambda>_ w.
     andthen (first_line ops None (''systemctl status lde-watchdogd.service | grep '' @ quote ''Active:'') w) (\<lambda>l w.
       (Inr (contains ''inactive'' l), w)))"

section \<open>North-bound interface\<close>

definition NBI_TENANT_CLISS_DN :: string where "NBI_TENANT_CLISS_DN = ''ManagedElement=1,DmxcFunction=1''"

definition NBI_PROC_CLISS_DN :: string where "NBI_PROC_CLISS_DN = ''ManagedElement=1,Equipment=1''"

definition start_nbi_alarm_handling :: "'w cba_ops \<Rightarrow> string \<Rightarrow> 'w \<Rightarrow> unit node_res \<times> 'w" where
  "start_nbi_alarm_handling ops next_level w =
     andthen (cb_start_nbi ops (cb_host ops w) NBI w) (\<lambda>_. send ops NBI (ALARM_CLISS_DN @ next_level))"

text \<open>At the top an answer without counters is asked for once more.\<close>

definition nbi_alarm_info :: "'w cba_ops \<Rightarrow> string list \<Rightarrow> string \<Rightarrow> 'w \<Rightarrow> (string, string list) dict node_res \<times> 'w" where
  "nbi_alarm_info ops ks next_level w =
     andthen (start_nbi_alarm_handling ops next_level w) (\<lambda>_ w.
     andthen (cb_full ops (Some NBI) ''show -v'' w) (\<lambda>a w.
       if next_level \<noteq> [] \<or> contains ''sumCritical'' a then (of_res (fill_from_cliss_info ks a), w)
       else andthen (cb_full ops (Some NBI) ''show -v'' (cb_sleep ops 10 w)) (\<lambda>a w.
         (if contains ''sumCritical'' a then of_res (fill_from_cliss_info ks a)
          else Inl (Command_failure ''Error when getting alarms from NBI''), w))))"

definition subnet_of :: "string \<Rightarrow> string list res" where
  "subnet_of l =
     bind_res (py_nth (words l) 0) (\<lambda>v. Inr (if CHR ''/'' \<in> set v then [hd (split_on (CHR ''/'') l)] else []))"

fun subnets_of :: "string list \<Rightarrow> string list res" where
  "subnets_of [] = Inr []"
| "subnets_of (l # ls) = bind_res (subnet_of l) (\<lambda>a. bind_res (subnets_of ls) (\<lambda>b. Inr (a @ b)))"

definition subnets :: "('w, 'z) run_ops_scheme \<Rightarrow> 'w \<Rightarrow> string list node_res \<times> 'w" where
  "subnets ops w = andthen (cb_lines ops None ''ip route'' w) (\<lambda>ls w. (of_res (subnets_of ls), w))"

text \<open>\<open>s.encode('string-escape')\<close>\<close>

definition hex_digit :: "nat \<Rightarrow> char" where
  "hex_digit n = char_of (if n < 10 then 48 + n else 87 + n)"

definition escape :: "char \<Rightarrow> string" where
  "escape c =
     (let n = of_char c
      in if c = CHR 0x5C then [c, c] else if c = CHR 0x27 then [CHR 0x5C, c]
         else if c = CHR 0x09 then [CHR 0x5C, CHR ''t''] else if c = CHR 0x0A then [CHR 0x5C, CHR ''n'']
         else if c = CHR 0x0D then [CHR 0x5C, CHR ''r'']
         else if n < 32 \<or> 127 \<le> n then [CHR 0x5C, CHR ''x'', hex_digit (n div 16), hex_digit (n mod 16)]
         else [c])"

definition raw_string :: "string \<Rightarrow> string" where
  "raw_string s = concat (map escape s)"

text \<open>Loops that stop at the first result.\<close>

fun find_first :: "('x \<Rightarrow> 'w \<Rightarrow> 'a option node_res \<times> 'w) \<Rightarrow> 'x list \<Rightarrow> 'w \<Rightarrow> 'a option node_res \<times> 'w" where
  "find_first f [] w = (Inr None, w)"
| "find_first f (x # xs) w =
     andthen (f x w) (\<lambda>r w. case r of Some v \<Rightarrow> (Inr (Some v), w) | None \<Rightarrow> find_first f xs w)"

definition nbi_values :: "'w cba_ops \<Rightarrow> string \<Rightarrow> string \<Rightarrow> 'w \<Rightarrow> string list node_res \<times> 'w" where
  "nbi_values ops cmd k w = andthen (show_fields ops NBI cmd [k] w) (\<lambda>d w. (of_res (field k d), w))"

definition get_nbi_tenant :: "'w cba_ops \<Rightarrow> string \<Rightarrow> 'w \<Rightarrow> string option node_res \<times> 'w" where
  "get_nbi_tenant ops nbi_node w =
     andthen (subnets ops w) (\<lambda>nets w.
     andthen (cb_start_nbi ops nbi_node NBI w) (\<lambda>_ w.
     andthen (nbi_values ops (''show -v '' @ NBI_TENANT_CLISS_DN) ''Tenant'' w) (\<lambda>ts w.
       find_first (\<lambda>t w.
         andthen (nbi_values ops (''show -r '' @ NBI_TENANT_CLISS_DN @ '',Tenant='' @ raw_string t) ''subnetAddr'' w) (\<lambda>as w.
           (Inr (if \<exists>a \<in> set as. a \<in> set nets then Some t else None), w))) ts w)))"

text \<open>\<open>tenant in data['tenant']\<close>: the field is a list, or the empty text if it is missing.\<close>

definition tenant_in :: "string option \<Rightarrow> string list \<Rightarrow> bool res" where
  "tenant_in t vs =
     (if vs = [] then (case t of None \<Rightarrow> Inl (TypeError ''in <string> requires string as left operand'') | Some w \<Rightarrow> Inr (w = []))
      else Inr (case t of None \<Rightarrow> False | Some w \<Rightarrow> w \<in> set vs))"

definition blade_dn :: "string \<Rightarrow> string \<Rightarrow> string" where
  "blade_dn shelf slot = NBI_PROC_CLISS_DN @ '',Shelf='' @ shelf @ '',Slot='' @ slot @ '',Blade=1''"

definition is_blade :: "string option \<Rightarrow> string \<Rightarrow> (string, string list) dict \<Rightarrow> bool res" where
  "is_blade tenant processor d =
     bind_res (bind_res (field ''tenant'' d) (tenant_in tenant)) (\<lambda>t.
       if t then bind_res (first_of ''userLabel'' d) (\<lambda>u. Inr (contains processor u)) else Inr False)"

definition get_nbi_proc_cliss_dn :: "'w cba_ops \<Rightarrow> string \<Rightarrow> string \<Rightarrow> 'w \<Rightarrow> string node_res \<times> 'w" where
  "get_nbi_proc_cliss_dn ops nbi_node processor w =
     andthen (get_nbi_tenant ops nbi_node w) (\<lambda>tenant w.
     andthen (cb_start_nbi ops nbi_node NBI w) (\<lambda>_ w.
     andthen (nbi_values ops (''show -v '' @ NBI_PROC_CLISS_DN) ''Shelf'' w) (\<lambda>shelfs w.
     andthen (find_first (\<lambda>shelf w.
         andthen (nbi_values ops (''show -v '' @ NBI_PROC_CLISS_DN @ '',Shelf='' @ shelf) ''Slot'' w) (\<lambda>slots w.
           find_first (\<lambda>slot w.
             andthen (show_fields ops NBI (''show -v '' @ blade_dn shelf slot) [''userLabel'', ''tenant''] w) (\<lambda>d w.
               (bind_res (of_res (is_blade tenant processor d)) (\<lambda>b. Inr (if b then Some (blade_dn shelf slot) else None)), w)))
             slots w)) shelfs w) (\<lambda>r w.
       (case r of Some dn \<Rightarrow> Inr dn
        | None \<Rightarrow> Inl (Command_failure (''Processor '' @ processor @ '' not found in NBI configuration'')), w)))))"

text \<open>
  The processor is set to a state in one transaction, then its state is read until it is \<open>goal\<close>; \<open>between\<close>: what is done in between.
  The result is the time it took; \<open>None\<close>: still waiting.
\<close>

definition nbi_turn :: "(string \<Rightarrow> pval option) \<Rightarrow> 'w cba_ops \<Rightarrow> string \<Rightarrow> string \<Rightarrow> 'w \<Rightarrow> unit option node_res \<times> 'w" where
  "nbi_turn ev ops processor goal w =
     andthen (processor_state ev ops processor (cb_sleep ops 2 w)) (\<lambda>st w. (Inr (if st = Some goal then Some () else None), w))"

definition nbi_set ::
  "(string \<Rightarrow> pval option) \<Rightarrow> 'w cba_ops \<Rightarrow> nat \<Rightarrow> string \<Rightarrow> string \<Rightarrow> string \<Rightarrow> ('w \<Rightarrow> 'w) \<Rightarrow> string \<Rightarrow> int \<Rightarrow> string \<Rightarrow> 'w \<Rightarrow>
     rat option node_res \<times> 'w" where
  "nbi_set ev ops n state goal doing between nbi_node timeout processor w =
     andthen (cb_start_nbi ops nbi_node NBI w) (\<lambda>_ started.
     andthen (get_nbi_proc_cliss_dn ops nbi_node processor started) (\<lambda>dn w.
     andthen (transaction ops NBI [dn] [''administrativeState='' @ state] w) (\<lambda>_ w.
       let w = between w
       in andthen (poll (cb_time ops) (nbi_turn ev ops processor goal)
            (Conn_error (Conn_raised (PyException
               (''Timeout ('' @ str_of_int timeout @ '' sec) waiting for '' @ doing @ '' processor '' @ processor))))
            n (of_int timeout - (cb_time ops w - cb_time ops started)) w) (\<lambda>r w.
            (Inr (map_option (\<lambda>_. cb_time ops w - cb_time ops started) r), w)))))"

definition nbi_lock_processor ::
  "(string \<Rightarrow> pval option) \<Rightarrow> 'w cba_ops \<Rightarrow> nat \<Rightarrow> string \<Rightarrow> string \<Rightarrow> int \<Rightarrow> 'w \<Rightarrow> rat option node_res \<times> 'w" where
  "nbi_lock_processor ev ops n processor nbi_node timeout =
     nbi_set ev ops n ''LOCKED'' ''DISABLED'' ''locking''
       (\<lambda>w. if contains ''SC'' processor then cb_sleep ops 10 (cb_close ops ''main'' w) else w) nbi_node timeout processor"

definition nbi_unlock_processor ::
  "(string \<Rightarrow> pval option) \<Rightarrow> 'w cba_ops \<Rightarrow> nat \<Rightarrow> string \<Rightarrow> string \<Rightarrow> int \<Rightarrow> 'w \<Rightarrow> rat option node_res \<times> 'w" where
  "nbi_unlock_processor ev ops n processor nbi_node timeout =
     nbi_set ev ops n ''UNLOCKED'' ''UNLOCKED'' ''unlocking'' (\<lambda>w. w) nbi_node timeout processor"

section \<open>Diameter peers\<close>

text \<open>The place of the peers of a stack.\<close>

definition peer_dn :: "string \<Rightarrow> string res" where
  "peer_dn stackid =
     (let dn = (\<lambda>s. HSS_DN @ '',DIA-CFG-Application=DIA,DIA-CFG-StackContainer='' @ s @ '',DIA-CFG-PeerNodeContainer='' @ s)
      in if stackid = ''ISMSDA'' then Inr (dn ''HSS_ISMSDA'') else if stackid = ''ESM'' then Inr (dn ''HSS_ESM'')
         else if stackid = ''SM'' then Inr (dn ''HSS_SM'') else Inl (ValueError ''Container value not expected''))"

definition start_peer :: "'w cba_ops \<Rightarrow> string \<Rightarrow> 'w \<Rightarrow> string node_res \<times> 'w" where
  "start_peer ops stackid w =
     andthen (of_res (peer_dn stackid), w) (\<lambda>dn w.
     andthen (start_cliss ops HSSADMIN ''hssadministrator'' w) (\<lambda>_ w. (Inr dn, w)))"

definition disconnected :: "'w cba_ops \<Rightarrow> bool \<Rightarrow> 'w \<Rightarrow> 'w" where
  "disconnected ops b w = (if b then cb_close ops HSSADMIN w else w)"

text \<open>\<open>data.get(k, [])\<close>\<close>

definition peer_list :: "'w cba_ops \<Rightarrow> string \<Rightarrow> string \<Rightarrow> bool \<Rightarrow> 'w \<Rightarrow> string list node_res \<times> 'w" where
  "peer_list ops cmd k disconnect w =
     andthen (show_fields ops HSSADMIN cmd [k] w) (\<lambda>d w.
       (Inr (case map_of d k of Some vs \<Rightarrow> vs | None \<Rightarrow> []), disconnected ops disconnect w))"

definition get_dia_container_peer_nodes :: "'w cba_ops \<Rightarrow> string \<Rightarrow> string \<Rightarrow> bool \<Rightarrow> 'w \<Rightarrow> string list node_res \<times> 'w" where
  "get_dia_container_peer_nodes ops stackid str_filter disconnect w =
     andthen (start_peer ops stackid w) (\<lambda>dn.
       peer_list ops (''show -v '' @ dn @ '' '' @ (if str_filter = [] then [] else ''|filter '' @ str_filter))
         ''DIA-CFG-NeighbourNode'' disconnect)"

definition get_dia_container_peer_node_conns :: "'w cba_ops \<Rightarrow> string \<Rightarrow> string \<Rightarrow> bool \<Rightarrow> 'w \<Rightarrow> string list node_res \<times> 'w" where
  "get_dia_container_peer_node_conns ops stackid peer disconnect w =
     andthen (start_peer ops stackid w) (\<lambda>dn.
       peer_list ops (''show -v '' @ dn @ '',DIA-CFG-NeighbourNode='' @ peer) ''DIA-CFG-Conn'' disconnect)"

definition remove_dia_peer_node :: "'w cba_ops \<Rightarrow> string \<Rightarrow> string \<Rightarrow> bool \<Rightarrow> 'w \<Rightarrow> unit node_res \<times> 'w" where
  "remove_dia_peer_node ops stackid peer disconnect w =
     andthen (start_peer ops stackid w) (\<lambda>dn w.
     andthen (transaction ops HSSADMIN [dn @ '',DIA-CFG-NeighbourNode='' @ peer] [''enabled=false''] w) (\<lambda>_ w.
     andthen (transaction ops HSSADMIN [dn] [''no DIA-CFG-NeighbourNode='' @ peer] w) (\<lambda>_ w.
       done_with (disconnected ops disconnect w))))"

section \<open>The map application\<close>

definition map_dn :: "string \<Rightarrow> string option" where
  "map_dn mpv =
     (if mpv = ''ISM-SDA'' then Some (HSS_DN @ '',MPV-Application=MAP,MPV-AppInstance=ISM-SDA'')
      else if mpv = ''ESM'' then Some (HSS_DN @ '',MPV-Application=MAP,MPV-AppInstance=HSS_ESM'') else None)"

definition change_OwnGTAddress :: "'w cba_ops \<Rightarrow> string \<Rightarrow> string \<Rightarrow> 'w \<Rightarrow> bool node_res \<times> 'w" where
  "change_OwnGTAddress ops mpv address w =
     (case map_dn mpv of
        None \<Rightarrow> (Inr False, w)
      | Some dn \<Rightarrow>
          andthen (start_cliss ops HSSADMIN ''hssadministrator'' w) (\<lambda>_ w.
          andthen (transaction ops HSSADMIN [dn] [''mpv-OwnGTAddress='' @ address] w) (\<lambda>_ w.
            (Inr True, cb_close ops HSSADMIN w))))"

text \<open>The operation with its three values.\<close>

definition map_operation :: "'w cba_ops \<Rightarrow> string \<Rightarrow> string \<Rightarrow> 'w \<Rightarrow> (string \<times> string list) list node_res \<times> 'w" where
  "map_operation ops dn op w =
     (let ks = [''mpv-MapTimeGap'', ''mpv-MaxMap'', ''mpv-Timer'']
      in andthen (show_fields ops HSSADMIN (''show -v '' @ dn @ '',MPV-Operation='' @ op) ks w) (\<lambda>d w.
           (of_res (bind_res (first_of ''mpv-MapTimeGap'' d) (\<lambda>a. bind_res (first_of ''mpv-MaxMap'' d) (\<lambda>b.
              bind_res (first_of ''mpv-Timer'' d) (\<lambda>c. Inr [(op, [a, b, c])])))), w)))"

text \<open>The address and the operations; \<open>None\<close>: no data. An answer without the address leaves the connection open.\<close>

definition get_map_info :: "'w cba_ops \<Rightarrow> string \<Rightarrow> 'w \<Rightarrow> (string \<times> (string \<times> string list) list) option node_res \<times> 'w" where
  "get_map_info ops mpv w =
     (case map_dn mpv of
        None \<Rightarrow> (Inr None, w)
      | Some dn \<Rightarrow>
          andthen (start_cliss ops HSSADMIN ''hssadministrator'' w) (\<lambda>_ w.
          andthen (cb_full ops (Some HSSADMIN) (''show -v '' @ dn) w) (\<lambda>a w.
          andthen (of_res (fill_from_cliss_info [''MPV-Operation''] a), w) (\<lambda>o1 w.
          andthen (of_res (fill_from_cliss_info [''mpv-OwnGTAddress''] a), w) (\<lambda>d w.
            case map_of d ''mpv-OwnGTAddress'' of
              Some (own # _) \<Rightarrow>
                (case map_of o1 ''MPV-Operation'' of
                   None \<Rightarrow> (Inr (Some (own, [])), cb_close ops HSSADMIN w)
                 | Some ops1 \<Rightarrow>
                     andthen (collect_lines (map_operation ops dn) ops1 w) (\<lambda>r w. (Inr (Some (own, r)), cb_close ops HSSADMIN w)))
            | _ \<Rightarrow> (Inr None, w))))))"

section \<open>Connections to data bases and peers\<close>

text \<open>\<open>None\<close>: the method ends without a value. \<open>-2\<close>: the object does not exist.\<close>

datatype amount = Amount string | Unknown int

definition configured_amount :: "'w cba_ops \<Rightarrow> string \<Rightarrow> string \<Rightarrow> string \<Rightarrow> string list \<Rightarrow> string \<Rightarrow> 'w \<Rightarrow> amount option node_res \<times> 'w" where
  "configured_amount ops i user dn absent k w =
     andthen (start_cliss ops i user w) (\<lambda>_ w.
     andthen (cb_full ops (Some i) (''show -v '' @ dn) w) (\<lambda>a w.
       (if \<exists>t \<in> set absent. contains t a then Inr (Some (Unknown (- 2)))
        else bind_res (of_res (fill_from_cliss_info [k] a)) (\<lambda>d.
          Inr (case map_of d k of None \<Rightarrow> Some (Unknown (- 1)) | Some [] \<Rightarrow> None | Some (v # _) \<Rightarrow> Some (Amount v))), cb_close ops i w)))"

definition UDM_SERVER_CLISS_DN :: string where
  "UDM_SERVER_CLISS_DN = HSS_DN @ '',HTTP-Application=HTTP,HTTP-PeerServiceConfig=UDM''"

definition UDM_HTTP2_SERVER_CLISS_DN :: string where
  "UDM_HTTP2_SERVER_CLISS_DN = HSS_DN @ '',HTTP-Application=HTTP,HTTP-PeerServiceConfig=UDMHttp2''"

definition EXTDB_INSTALL_CLISS_DN :: string where
  "EXTDB_INSTALL_CLISS_DN =
     ''ManagedElement=1,HSS-Function.applicationName=HSS_FUNCTION,HSS-ExtDbFunction=HSS_EXTDB'' @
     '',HSS-ExtDbServicesSupportContainer=HSS-ExtDbServicesSupportContainer,HSS-ExtDbInstallation=HSS-ExtDbInstallation''"

definition EXTDB_CLISS_DN :: string where
  "EXTDB_CLISS_DN =
     ''ManagedElement=1,HSS-Function.applicationName=HSS_FUNCTION,HSS-ExtDbFunction.applicationName=HSS_EXTDB''"

definition configured_ExtDb_connections :: "'w cba_ops \<Rightarrow> 'w \<Rightarrow> amount option node_res \<times> 'w" where
  "configured_ExtDb_connections ops =
     configured_amount ops HSSSUPPORT (user_of ''EXTDB_INSTALL'') EXTDB_INSTALL_CLISS_DN [] ''hss-ExtDbMaxConnections''"

definition configured_Http_connections :: "'w cba_ops \<Rightarrow> 'w \<Rightarrow> amount option node_res \<times> 'w" where
  "configured_Http_connections ops =
     configured_amount ops UDM (user_of ''UDM_SERVER'') UDM_SERVER_CLISS_DN [''not found'', ''Invalid value''] ''maxOutgoingConnections''"

definition configured_Http2_connections :: "'w cba_ops \<Rightarrow> 'w \<Rightarrow> amount option node_res \<times> 'w" where
  "configured_Http2_connections ops =
     configured_amount ops UDM (user_of ''UDM_SERVER'') UDM_HTTP2_SERVER_CLISS_DN [''not found''] ''maxOutgoingConnections''"

text \<open>The last part of each address; \<open>short\<close>: without what follows a dollar sign. A missing list is empty.\<close>

definition last_part :: "bool \<Rightarrow> string \<Rightarrow> string" where
  "last_part short u =
     (let p = last (split_on (CHR ''/'') u) in if short then hd (split_on (CHR ''$'') p) else p)"

definition configured_list :: "'w cba_ops \<Rightarrow> string \<Rightarrow> string \<Rightarrow> string \<Rightarrow> bool \<Rightarrow> bool \<Rightarrow> string \<Rightarrow> 'w \<Rightarrow> string list node_res \<times> 'w" where
  "configured_list ops i user cmd refusal short k w =
     andthen (start_cliss ops i user w) (\<lambda>_ w.
     andthen (cb_full ops (Some i) cmd w) (\<lambda>a w.
       (if refusal \<and> contains ''ERROR'' a then Inr []
        else bind_res (of_res (fill_from_cliss_info [k] a)) (\<lambda>d.
          Inr (case map_of d k of None \<Rightarrow> [] | Some vs \<Rightarrow> map (last_part short) vs)), cb_close ops i w)))"

definition configured_ExtDb_urls :: "'w cba_ops \<Rightarrow> 'w \<Rightarrow> string list node_res \<times> 'w" where
  "configured_ExtDb_urls ops =
     configured_list ops HSSADMIN (user_of ''EXTDB'') (''show -v '' @ EXTDB_CLISS_DN) False True ''hss-ExtDbConfigUrlList''"

definition configured_Http_uris :: "'w cba_ops \<Rightarrow> 'w \<Rightarrow> string list node_res \<times> 'w" where
  "configured_Http_uris ops =
     configured_list ops UDM (user_of ''UDM_SERVER'') (''show '' @ UDM_SERVER_CLISS_DN) True False ''uriAddressList''"

definition configured_Http2_uris :: "'w cba_ops \<Rightarrow> 'w \<Rightarrow> string list node_res \<times> 'w" where
  "configured_Http2_uris ops =
     configured_list ops UDM (user_of ''UDM_SERVER'') (''show '' @ UDM_HTTP2_SERVER_CLISS_DN) True True ''uriAddressList''"

end
