(* ===== verification/Cliss_Props.thy ===== *)
theory Cliss_Props
  imports Cliss_Config Cliss_Certs Cliss_Nodes
begin

text \<open>
  What the operations of the command line keep: the locale \<open>cba_laws\<close> for what every call of a node promises, and the
  commands that are sent, on a node that writes them down.
\<close>

section \<open>What every call promises\<close>

text \<open>
  \<open>frame\<close> is kept by every call, and it lets the clock run forward only; sleeping takes at least its time.
\<close>

locale run_laws = state_frame frame for frame :: "'w \<Rightarrow> 'w \<Rightarrow> bool" +
  fixes ops :: "('w, 'z) run_ops_scheme"
  assumes full: "frame w (snd (cb_full ops i c w))"
    and lines: "frame w (snd (cb_lines ops i c w))"
    and extend: "frame w (snd (cb_extend ops p w))"
    and close: "frame w (cb_close ops j w)"
    and release: "frame w (cb_release ops j w)"
    and sleep: "frame w (cb_sleep ops t w)"
    and clock: "frame w v \<Longrightarrow> cb_time ops w \<le> cb_time ops v"
    and advance: "0 \<le> t \<Longrightarrow> cb_time ops w + t \<le> cb_time ops (cb_sleep ops t w)"
begin

lemma value_pair: "frame w (snd (r, w))"
  using refl by simp

lemma finish: "frame w (snd (done_with w))"
  by (simp add: done_with_def refl)

lemma after: "frame w v \<Longrightarrow> frame v (snd p) \<Longrightarrow> frame w (snd p)"
  by (rule trans)

lemma lines_later: "frame w (snd (cb_lines ops i c (cb_sleep ops t w)))"
  by (rule trans [OF sleep lines])

lemmas calls = value_pair finish full lines lines_later extend

lemma send: "frame w (snd (send ops i c w))"
  unfolding send_def by (intro seq calls)

lemma sends: "frame w (snd (sends ops i cs w))"
  unfolding sends_def by (intro iterate send)

lemma ask_cliss: "frame w (snd (ask_cliss ops i c w))"
  unfolding ask_cliss_def by (intro seq calls)

lemma commit: "frame w (snd (commit ops i w))"
  unfolding commit_def by (intro seq calls ask_cliss)

lemma transaction: "frame w (snd (transaction ops i place changes w))"
  unfolding transaction_def by (intro seq sends commit)

lemma show_fields: "frame w (snd (show_fields ops i c ks w))"
  unfolding show_fields_def by (intro seq calls)

lemma first_line: "frame w (snd (first_line ops i c w))"
  unfolding first_line_def by (intro seq calls)

lemma controller_state: "frame w (snd (controller_state ev ops w))"
  unfolding controller_state_def by (intro seq calls)

lemma sc_is_primary: "frame w (snd (sc_is_primary ev ops sc w))"
  unfolding sc_is_primary_def by (intro seq calls controller_state)

lemma primary_name: "frame w (snd (primary_name ev ops i w))"
  unfolding primary_name_def by (intro seq calls first_line sc_is_primary)

lemma sc_ip: "frame w (snd (sc_ip ops sc v6 w))"
  unfolding sc_ip_def by (intro seq calls first_line)

lemmas basic_calls = calls send sends ask_cliss commit transaction show_fields first_line primary_name sc_ip

end

text \<open>The methods that open the command line keep to the frame too.\<close>

locale cba_laws = run_laws frame ops for frame :: "'w \<Rightarrow> 'w \<Rightarrow> bool" and ops :: "'w cba_ops" +
  assumes start: "frame w (snd (cb_start ops h j u w))"
    and start_nbi: "frame w (snd (cb_start_nbi ops h j w))"
begin

lemma start_cliss: "frame w (snd (start_cliss ops i u w))"
  unfolding start_cliss_def by (rule start)

lemma go_to: "frame w (snd (go_to ops dn l w))"
  unfolding go_to_def by (intro seq basic_calls start_cliss)

lemma start_alarm_handling: "frame w (snd (start_alarm_handling ops l w))"
  unfolding start_alarm_handling_def by (rule go_to)

lemma install_turn_waits: "install_turn ops w = (Inr None, v) \<Longrightarrow> cb_time ops w + 5 \<le> cb_time ops v"
proof -
  assume "install_turn ops w = (Inr None, v)"
  moreover have "frame (cb_sleep ops 5 w) (snd (install_turn ops w))"
    unfolding install_turn_def by (intro seq show_fields value_pair)
  ultimately have "cb_time ops (cb_sleep ops 5 w) \<le> cb_time ops v" by (auto dest: clock)
  with advance [of 5 w] show ?thesis by simp
qed

end

section \<open>Loops with a deadline\<close>

lemma andthen_not: "(\<And>v w. p = (Inr v, w) \<Longrightarrow> fst (f v w) \<noteq> Inr r) \<Longrightarrow> fst (andthen p f) \<noteq> Inr r"
  by (cases p; cases "fst p") auto

text \<open>If a turn that has to be repeated takes the time \<open>d\<close> at least, the deadline comes.\<close>

lemma poll_ends:
  assumes "\<And>w v. look w = (Inr None, v) \<Longrightarrow> time w + d \<le> time v"
    and "0 \<le> left" "left < of_nat n * d"
  shows "fst (poll time look late n left w) \<noteq> Inr None"
  using assms(2,3)
proof (induction n arbitrary: left w)
  case (Suc n)
  show ?case
  proof (cases "look w")
    case (Pair r v)
    show ?thesis
    proof (cases "r = Inr None")
      case True
      with Pair have "time w + d \<le> time v" using assms(1) by simp
      with Suc.prems have "left - (time v - time w) < of_nat n * d" by (simp add: algebra_simps)
      with Suc.IH [of "left - (time v - time w)" v] True Pair show ?thesis by auto
    qed (use Pair in \<open>auto split: sum.split option.split\<close>)
  qed
qed simp

context cba_laws
begin

lemma wait_for_installation: "fst (poll (cb_time ops) (install_turn ops) e 61 300 w) \<noteq> Inr None"
  by (rule poll_ends [where d = 5]) (auto intro: install_turn_waits)

lemma update_ends: "fst (update_licenses ops 61 licenses w) \<noteq> Inr None"
proof -
  have installed: "fst (after_install ops (Some d) w) \<noteq> Inr None" for d w
    by (auto simp: after_install_def andthen_def split: prod.split sum.split)
  have "fst (after_install ops r v) \<noteq> Inr None"
    if "poll (cb_time ops) (install_turn ops) e 61 300 w = (Inr r, v)" for e w r v
    using that wait_for_installation [of e w] installed by (cases r) auto
  then show ?thesis
    unfolding update_licenses_def by (intro andthen_not)
qed

end

section \<open>A node that answers from a list\<close>

text \<open>For the examples: each command takes the next answer and no time; without an answer it is empty.\<close>

definition next_answer :: "string node_res list \<times> rat \<Rightarrow> string node_res \<times> string node_res list \<times> rat" where
  "next_answer w = (case fst w of [] \<Rightarrow> (Inr [], w) | a # as \<Rightarrow> (a, as, snd w))"

definition scripted :: "(string node_res list \<times> rat) cba_ops" where
  "scripted =
     \<lparr>cb_host = (\<lambda>w. ''host''), cb_credential = (\<lambda>u w. Inr ''secret''), cb_full = (\<lambda>i c. next_answer),
      cb_lines = (\<lambda>i c w. case next_answer w of (r, v) \<Rightarrow> (bind_res r (\<lambda>a. Inr (text_lines a)), v)),
      cb_extend = (\<lambda>p. done_with), cb_close = (\<lambda>i w. w), cb_release = (\<lambda>i w. w),
      cb_sleep = (\<lambda>t w. (fst w, snd w + t)), cb_time = snd, cb_start = (\<lambda>h i u. done_with), cb_start_nbi = (\<lambda>h i. done_with)\<rparr>"

end
