(* ===== verification/Cba_Runs.thy ===== *)
theory Cba_Runs
  imports Cba_Node Cliss_Props Node_Runs
begin

text \<open>
  The node of \<open>Cba_Node\<close> keeps the promises of \<open>Cliss_Props\<close>: its connections stay a tree, so that closing one never stops for
  lack of fuel, and its clock runs forward. Every method of the command line inherits both.
\<close>

definition cba_tree :: "cba \<Rightarrow> bool" where
  "cba_tree c \<longleftrightarrow> tree (ca_node c)"

definition cba_frame :: "cba \<Rightarrow> cba \<Rightarrow> bool" where
  "cba_frame c d \<longleftrightarrow> ca_now c \<le> ca_now d \<and> (cba_tree c \<longrightarrow> cba_tree d)"

interpretation cba: state_frame cba_frame
  by unfold_locales (auto simp: cba_frame_def)

lemma spend_frame: "ca_now c \<le> ca_now (spend c)" "ca_node (spend c) = ca_node c"
  by (simp_all add: spend_def split: list.split)

lemma on_node_frame: "(\<And>n. tree n \<Longrightarrow> tree (snd (f n))) \<Longrightarrow> cba_frame c (snd (on_node f c))"
proof -
  assume t: "\<And>n. tree n \<Longrightarrow> tree (snd (f n))"
  obtain r n where f: "f (ca_node c) = (r, n)" by force
  show ?thesis
    using spend_frame [of "c\<lparr>ca_node := n\<rparr>"] t [of "ca_node c"] f by (auto simp: on_node_def cba_frame_def cba_tree_def)
qed

lemma fresh_frame: "next_process c = (x, d) \<Longrightarrow> cba_frame c d"
  by (auto simp: next_process_def cba_frame_def cba_tree_def split: list.splits)

lemma create_frame: "cba_frame c (snd (cba_create cf k force identity c))"
proof (cases "next_process c")
  case (Pair x d)
  have "cba_frame c (snd (on_node (create_connection isfile me i sc cr identity) d))" for isfile me i sc cr
    by (rule cba.trans [OF fresh_frame [OF Pair]], intro on_node_frame tree_create)
  then show ?thesis
    using Pair by (auto simp: cba_create_def done_with_def cba.refl split: prod.split)
qed

lemma extend_frame: "cba_frame c (snd (cba_extend_to cf k parent identity c))"
proof (cases "next_process c")
  case (Pair x d)
  have "cba_frame c (snd (on_node (extend_connection isfile me i j sc cf k parent identity) d))" for isfile me i j sc
    by (rule cba.trans [OF fresh_frame [OF Pair]], intro on_node_frame tree_extend)
  then show ?thesis
    using Pair by (auto simp: cba_extend_to_def done_with_def cba.refl split: prod.split)
qed

lemma command_tree: "tree n \<Longrightarrow> tree (snd (node_command cmd i answers n))"
  unfolding node_command_def
  by (rule same_tree, rule node_frame.seq [OF full_frame]) (simp_all add: same_shape_def)

lemma command_full_tree: "tree n \<Longrightarrow> tree (snd (node_command_full cmd i answers n))"
  unfolding node_command_full_def
  by (rule same_tree, rule node_frame.seq [OF full_frame]) (simp_all add: same_shape_def)

lemma cba_close_frame: "cba_frame c (cba_close i c)"
  by (auto simp: cba_close_def cba_frame_def cba_tree_def simp del: close_connection.simps dest: tree_close split: option.split)

lemma cba_release_frame: "cba_frame c (cba_release i c)"
  by (auto simp: cba_release_def cba_frame_def cba_tree_def simp del: release_connection.simps dest: tree_release split: option.split)

text \<open>The calls of the node keep the laws.\<close>

interpretation run: run_laws cba_frame cba_run
proof unfold_locales
  fix c i cmd
  show "cba_frame c (snd (cb_full cba_run i cmd c))" "cba_frame c (snd (cb_lines cba_run i cmd c))"
    by (simp_all add: cba_run_def on_node_frame command_tree command_full_tree)
next
  fix c p
  have "cba_frame c (snd (andthen (of_res (credential ''root'' c), c) (\<lambda>pw. cba_extend_to (cf pw) k m p)))" for cf k m
    by (intro cba.seq extend_frame) (simp add: cba.refl)
  then show "cba_frame c (snd (cb_extend cba_run p c))" by (simp add: cba_run_def)
next
  fix c j
  show "cba_frame c (cb_close cba_run j c)" "cba_frame c (cb_release cba_run j c)"
    by (simp_all add: cba_run_def cba_close_frame cba_release_frame)
next
  fix c t
  show "cba_frame c (cb_sleep cba_run t c)" by (simp add: cba_run_def cba_frame_def cba_tree_def)
next
  fix c d
  assume "cba_frame c d"
  then show "cb_time cba_run c \<le> cb_time cba_run d" by (simp add: cba_run_def cba_frame_def)
next
  fix c and t :: rat
  assume "0 \<le> t"
  then show "cb_time cba_run c + t \<le> cb_time cba_run (cb_sleep cba_run t c)" by (simp add: cba_run_def)
qed

section \<open>Opening the command line\<close>

lemma root_shape: "shape_of (dict_modify i (\<lambda>e. e\<lparr>en_session := f e\<rparr>) d) = shape_of d"
  by (auto simp: dict_modify_def shape_set_same split: option.split)

lemma root_frame:
  "cba_frame c (c\<lparr>ca_node := (ca_node c)\<lparr>nd_connections := dict_modify i (\<lambda>e. e\<lparr>en_session := f e\<rparr>) (nd_connections (ca_node c))\<rparr>\<rparr>)"
  by (simp add: cba_frame_def cba_tree_def root_shape)

lemma own_frame: "cba_frame c (snd (own_connection i c))"
  unfolding own_connection_def
  by (intro cba.seq cba.branch create_frame run.basic_calls) (simp add: done_with_def root_frame)

lemma default_frame: "cba_frame c (make_default c)"
  by (simp add: make_default_def cba_frame_def cba_tree_def set_default_connection_def)

lemma cli_port_frame: "cba_frame c (snd (cli_port c))"
  unfolding cli_port_def by (intro cba.seq run.basic_calls)

lemma locked_sc_frame: "cba_frame c (snd (check_user_locked_sc user sc c))"
  unfolding check_user_locked_sc_def
  by (intro cba.seq cba.branch own_frame run.basic_calls)

lemma locked_frame: "cba_frame c (snd (check_user_locked user c))"
  unfolding check_user_locked_def by (intro cba.seq run.basic_calls locked_sc_frame)

lemma emergency_frame: "cba_frame c (snd (start_CBAClissEmergency ev i p c))"
  unfolding start_CBAClissEmergency_def by (intro cba.seq run.basic_calls locked_frame extend_frame)

lemma method_frame: "cba_frame c (snd (method_locked m c))"
  unfolding method_locked_def by (intro cba.seq run.basic_calls)

lemma release_aux_frame: "cba_frame c (snd (v, release_aux c))"
  unfolding release_aux_def snd_conv by (rule cba.trans [OF cba_release_frame cba_release_frame])

lemma AandA_frame: "cba_frame c (snd (is_AandA_enabled ev c))"
  unfolding is_AandA_enabled_def
  by (intro cba.seq cba.branch own_frame emergency_frame method_frame release_aux_frame)

lemma switch_frame: "cba_frame c (snd (switch_AandA state ev c))"
  unfolding switch_AandA_def set_AandA_def by (intro cba.seq emergency_frame run.basic_calls)

lemma except_frame:
  "cba_frame c (snd p) \<Longrightarrow> (\<And>d. cba_frame d (snd (f d))) \<Longrightarrow> cba_frame c (snd (except P p f))"
  by (cases p; cases "fst p") (auto simp: except_def intro: cba.trans)

lemma reuse_frame: "cba_frame c (snd (reuse_connection i c))"
  unfolding reuse_connection_def
  by (intro cba.branch except_frame cba.seq run.basic_calls) (simp add: cba_release_frame)

lemma new_cliss_frame: "cba_frame c (snd (new_cliss ev host i port user pw c))"
  unfolding new_cliss_def Let_def
  by (intro except_frame cba.seq cba.branch AandA_frame create_frame run.basic_calls locked_frame)

lemma start_frame: "cba_frame c (snd (start_CBACliss ev host i user c))"
  unfolding start_CBACliss_def by (intro cba.seq cba.branch reuse_frame cli_port_frame new_cliss_frame run.basic_calls)

lemma start_nbi_frame: "cba_frame c (snd (start_CBANBICliss host i c))"
  unfolding start_CBANBICliss_def by (intro cba.seq except_frame create_frame run.basic_calls)

lemma start_signm_frame: "cba_frame c (snd (start_CBASignmcli i p c))"
  unfolding start_CBASignmcli_def by (intro cba.seq extend_frame run.basic_calls)

lemma primary_frame: "cba_frame c (snd (force_primary_controller ev c))"
proof -
  have "cba_frame c (cba_release ''main'' (c\<lparr>ca_host := ip\<rparr>))" for c ip
    using cba_release_frame [of "c\<lparr>ca_host := ip\<rparr>" "''main''"] by (simp add: cba_frame_def cba_tree_def)
  then have "cba_frame c (snd (own_connection ''main'' (cba_release ''main'' (c\<lparr>ca_host := ip\<rparr>))))" for c ip
    using own_frame cba.trans by blast
  then show ?thesis
    unfolding force_primary_controller_def
    by (intro cba.seq run.basic_calls) (simp_all add: done_with_def default_frame)
qed

lemma status_frame: "cba_frame c (snd (node_status_OK c))"
proof -
  have "cba_frame c (snd (case cb_full cba_run i cmd c of (Inl e, c) \<Rightarrow> (Inr False, cba_release k c) | (Inr a, c) \<Rightarrow> (Inr (g a), cba_release k c)))"
    for c i cmd k g
    using run.full [of c i cmd] cba_release_frame cba.trans by (fastforce split: prod.split sum.split)
  then show ?thesis unfolding node_status_OK_def by (intro cba.seq own_frame)
qed

text \<open>The methods keep the laws.\<close>

interpretation cba_method: cba_laws cba_frame "cba_methods ev"
proof (intro cba_laws.intro cba_laws_axioms.intro run_laws.intro cba.state_frame_axioms run_laws_axioms.intro)
  fix c i cmd p j t
  have ops: "cb_full (cba_methods ev) = cb_full cba_run" "cb_lines (cba_methods ev) = cb_lines cba_run"
    "cb_extend (cba_methods ev) = cb_extend cba_run" "cb_close (cba_methods ev) = cb_close cba_run"
    "cb_release (cba_methods ev) = cb_release cba_run" "cb_sleep (cba_methods ev) = cb_sleep cba_run"
    "cb_time (cba_methods ev) = cb_time cba_run"
    by (simp_all add: cba_methods_def run_ops.defs cba_run_def)
  show "cba_frame c (snd (cb_full (cba_methods ev) i cmd c))" "cba_frame c (snd (cb_lines (cba_methods ev) i cmd c))"
    "cba_frame c (snd (cb_extend (cba_methods ev) p c))" "cba_frame c (cb_close (cba_methods ev) j c)"
    "cba_frame c (cb_release (cba_methods ev) j c)" "cba_frame c (cb_sleep (cba_methods ev) t c)"
    "\<And>d. cba_frame c d \<Longrightarrow> cb_time (cba_methods ev) c \<le> cb_time (cba_methods ev) d"
    "0 \<le> t \<Longrightarrow> cb_time (cba_methods ev) c + t \<le> cb_time (cba_methods ev) (cb_sleep (cba_methods ev) t c)"
    unfolding ops by (rule run.full run.lines run.extend run.close run.release run.sleep run.clock run.advance; assumption?)+
next
  fix c h i u
  show "cba_frame c (snd (cb_start (cba_methods ev) h i u c))" "cba_frame c (snd (cb_start_nbi (cba_methods ev) h i c))"
    by (simp_all add: cba_methods_def run_ops.defs cba_ops.defs cba_run_def start_frame start_nbi_frame)
qed

end
