(* ===== verification/Cliss_Calls.thy ===== *)
theory Cliss_Calls
  imports Cba_Runs
begin

text \<open>
  The operations that change the configuration of a CBA node, as one type of calls: all of them keep the connections of the
  node a tree, and when one of them returns, what it changed has been committed.
\<close>

section \<open>Calls\<close>

datatype conf_call =
    Unlock_modules
  | Start_healthcheck
  | Remove_ntp string
  | Add_ntp string string
  | Update_ntp string string
  | Update_ntps "string list"
  | Add_csr string
  | Delete_csr
  | Create_category
  | Delete_category
  | Enable_certificate
  | Disable_certificate
  | Config_cli_tls
  | Delete_cli_tls
  | Config_netconf_tls
  | Delete_netconf_tls
  | Config_flow string string string string string
  | Delete_flow string
  | Scale_in "string list"
  | Remove_peer string string bool
  | Change_address string string

definition silent :: "'a node_res \<times> 'w \<Rightarrow> unit node_res \<times> 'w" where
  "silent p = andthen p (\<lambda>_. done_with)"

fun run_conf :: "'w cba_ops \<Rightarrow> conf_call \<Rightarrow> 'w \<Rightarrow> unit node_res \<times> 'w" where
  "run_conf ops Unlock_modules w = silent (unlock_traffic_modules ops w)"
| "run_conf ops Start_healthcheck w = start_healthcheck ops w"
| "run_conf ops (Remove_ntp k) w = remove_ntp_server_cliss ops k w"
| "run_conf ops (Add_ntp ip k) w = add_ntp_server_cliss ops ip k w"
| "run_conf ops (Update_ntp ip k) w = update_ntp_server_cliss ops ip k w"
| "run_conf ops (Update_ntps ips) w = update_ntp_servers_cliss ops ips w"
| "run_conf ops (Add_csr ip) w = add_csr_cert_cliss ops ip w"
| "run_conf ops Delete_csr w = delete_csr_cert_cliss ops w"
| "run_conf ops Create_category w = create_trusted_category_cliss ops w"
| "run_conf ops Delete_category w = delete_trusted_category_cliss ops w"
| "run_conf ops Enable_certificate w = enable_trusted_cert_cliss ops w"
| "run_conf ops Disable_certificate w = disable_trusted_cert_cliss ops w"
| "run_conf ops Config_cli_tls w = config_cli_tls_cliss ops w"
| "run_conf ops Delete_cli_tls w = delete_config_cli_tls_cliss ops w"
| "run_conf ops Config_netconf_tls w = config_netconf_tls_cliss ops w"
| "run_conf ops Delete_netconf_tls w = delete_config_netconf_tls_cliss ops w"
| "run_conf ops (Config_flow n d p prot pool) w = config_flow_policy_cliss ops n d p prot pool w"
| "run_conf ops (Delete_flow n) w = delete_flow_policy_cliss ops n w"
| "run_conf ops (Scale_in ps) w = scale_in_payloads_cliss ops ps w"
| "run_conf ops (Remove_peer s p b) w = remove_dia_peer_node ops s p b w"
| "run_conf ops (Change_address m a) w = silent (change_OwnGTAddress ops m a w)"

section \<open>The connections stay a tree\<close>

context cba_laws
begin

lemma failure: "frame w (snd p) \<Longrightarrow> frame w (snd (as_failure p))"
  by (cases p; cases "fst p") (auto simp: as_failure_def)

lemma start_cert: "frame w (snd (start_cert ops w))"
  unfolding start_cert_def by (rule start_cliss)

lemma cert_transaction: "frame w (snd (cert_transaction ops place changes w))"
  unfolding cert_transaction_def by (intro seq start_cert transaction)

lemma unlock_module: "frame w (snd (unlock_module ops dn a w))"
  unfolding unlock_module_def by (intro seq branch start_cliss basic_calls)

lemma ntp_server: "frame w (snd (ntp_server ops a ids j w))"
  unfolding ntp_server_def by (intro seq basic_calls)

lemma ntp_info: "frame w (snd (get_ntp_servers_info_cliss ops w))"
  unfolding get_ntp_servers_info_cliss_def by (intro seq branch failure start_cliss basic_calls ntp_server)

lemma ntp_calls:
  "frame w (snd (update_ntp_server_cliss ops ip k w))" "frame w (snd (add_ntp_server_cliss ops ip k w))"
  "frame w (snd (remove_ntp_server_cliss ops k w))"
  unfolding update_ntp_server_cliss_def add_ntp_server_cliss_def remove_ntp_server_cliss_def
  by (intro seq failure start_cliss basic_calls)+

lemma update_all: "frame w (snd (update_all_ntp ops xs w))"
  unfolding update_all_ntp_def by (intro iterate) (simp add: ntp_calls split: prod.split)

lemma update_ntps: "frame w (snd (update_ntp_servers_cliss ops ips w))"
proof -
  have add: "frame w (snd (andthen (of_res (py_int k), w) (\<lambda>n w. add_ntp_server_cliss ops ip (g n) w)))" for w k ip g
    by (intro seq basic_calls ntp_calls)
  show ?thesis
    unfolding update_ntp_servers_cliss_def Let_def
    by (intro seq ntp_info update_all) (auto simp: finish intro: add ntp_calls split: list.split)
qed

lemma peer: "frame w (snd (remove_dia_peer_node ops s p b w))"
  unfolding remove_dia_peer_node_def start_peer_def
  by (intro seq start_cliss basic_calls) (simp add: done_with_def disconnected_def close refl)

lemma address: "frame w (snd (change_OwnGTAddress ops m a w))"
proof -
  have "frame w (snd (andthen (start_cliss ops HSSADMIN u w) (\<lambda>_ w. andthen (transaction ops HSSADMIN p c w) (\<lambda>_ w.
      (Inr True, cb_close ops HSSADMIN w)))))" for u p c
    by (intro seq start_cliss basic_calls) (simp add: close)
  then show ?thesis by (simp add: change_OwnGTAddress_def refl split: option.split)
qed

lemma conf_frame: "frame w (snd (run_conf ops call w))"
proof (cases call)
  case Unlock_modules
  then show ?thesis by (simp add: silent_def unlock_traffic_modules_def) (intro seq unlock_module basic_calls)
next
  case Start_healthcheck
  then show ?thesis
    by (simp add: start_healthcheck_def is_virtual_def) (intro seq branch start_cliss basic_calls)
next
  case (Add_csr ip)
  then show ?thesis by (simp add: add_csr_cert_cliss_def) (intro seq branch start_cert basic_calls)
next
  case Create_category
  then show ?thesis by (simp add: create_trusted_category_cliss_def) (intro seq start_cert basic_calls)
next
  case Disable_certificate
  then show ?thesis by (simp add: disable_trusted_cert_cliss_def) (intro seq branch start_cert basic_calls)
next
  case (Scale_in ps)
  then show ?thesis by (simp add: scale_in_payloads_cliss_def) (intro seq iterate start_cliss basic_calls)
next
  case (Change_address m a)
  then show ?thesis by (simp add: silent_def) (intro seq address basic_calls)
qed (simp_all add: ntp_calls update_ntps peer delete_csr_cert_cliss_def delete_trusted_category_cliss_def
  enable_trusted_cert_cliss_def config_cli_tls_cliss_def config_netconf_tls_cliss_def config_tls_def seq cert_transaction
  transaction delete_config_cli_tls_cliss_def delete_config_netconf_tls_cliss_def delete_config_tls_def
  config_flow_policy_cliss_def delete_flow_policy_cliss_def)

lemma show_key: "frame w (snd (show_key ops kind k ks w))"
  unfolding show_key_def by (intro seq basic_calls)

lemma collect: "(\<And>x w. frame w (snd (f x w))) \<Longrightarrow> frame w (snd (collect_lines f xs w))"
proof (induction xs arbitrary: w)
  case (Cons x xs)
  show ?case unfolding collect_lines.simps by (intro seq Cons value_pair)
qed (simp add: refl)

lemma find_licenses: "frame w (snd (find_licenses ops b w))"
  unfolding find_licenses_def license_keys_def by (intro seq collect show_key start_cliss basic_calls)

lemma grant_licenses: "frame w (snd (grant_licenses ops w))"
proof -
  have "frame w (snd (find_licenses ops b (cb_sleep ops t w)))" for b t w
    by (rule trans [OF sleep find_licenses])
  then show ?thesis unfolding grant_licenses_def by (intro seq start_cliss basic_calls)
qed

lemma wait_frame: "(\<And>w. frame w (snd (look w))) \<Longrightarrow> frame w (snd (poll time look e n t w))"
proof (induction n arbitrary: t w)
  case (Suc n)
  have "frame w v" if "look w = (r, v)" for r v using Suc.prems [of w] that by simp
  with Suc show ?case by (auto split: prod.split sum.split option.split intro: trans)
qed (simp add: refl)

lemma update_frame: "frame w (snd (update_licenses ops n ls w))"
proof -
  have "frame w (snd (install_turn ops w))" for w
    unfolding install_turn_def by (intro seq basic_calls trans [OF sleep show_fields])
  moreover have "frame w (snd (after_install ops r w))" for r w
    unfolding after_install_def by (cases r) (auto intro!: seq branch grant_licenses basic_calls simp: refl)
  moreover have "frame w (snd (check_fingerprint ops d w))" for d w
    unfolding check_fingerprint_def set_fingerprint_def by (intro seq branch basic_calls)
  ultimately show ?thesis
    unfolding update_licenses_def by (intro seq failure start_cliss basic_calls wait_frame)
qed

end










section \<open>Changes are committed\<close>

text \<open>A node that writes down the commands it is given, with their connection and what it answers.\<close>

type_synonym command_log = "(string option \<times> string \<times> string node_res) list"

definition written ::
  "string option \<Rightarrow> string \<Rightarrow> ('a \<Rightarrow> string) \<Rightarrow> ('w \<Rightarrow> 'a node_res \<times> 'w) \<Rightarrow> 'w \<times> command_log \<Rightarrow> 'a node_res \<times> 'w \<times> command_log"
where
  "written i c as_text f s = (case f (fst s) of (r, w) \<Rightarrow> (r, w, snd s @ [(i, c, bind_res r (\<lambda>a. Inr (as_text a)))]))"

definition beside :: "('w \<Rightarrow> 'a \<times> 'w) \<Rightarrow> 'w \<times> command_log \<Rightarrow> 'a \<times> 'w \<times> command_log" where
  "beside f s = (case f (fst s) of (r, w) \<Rightarrow> (r, w, snd s))"

definition logged :: "'w cba_ops \<Rightarrow> ('w \<times> command_log) cba_ops" where
  "logged ops =
     \<lparr>cb_host = (\<lambda>s. cb_host ops (fst s)), cb_credential = (\<lambda>u s. cb_credential ops u (fst s)),
      cb_full = (\<lambda>i c. written i c (\<lambda>a. a) (cb_full ops i c)),
      cb_lines = (\<lambda>i c. written i c (join [CHR 0x0A]) (cb_lines ops i c)),
      cb_extend = (\<lambda>p. beside (cb_extend ops p)),
      cb_close = (\<lambda>i s. (cb_close ops i (fst s), snd s)), cb_release = (\<lambda>i s. (cb_release ops i (fst s), snd s)),
      cb_sleep = (\<lambda>t s. (cb_sleep ops t (fst s), snd s)), cb_time = (\<lambda>s. cb_time ops (fst s)),
      cb_start = (\<lambda>h i u. beside (cb_start ops h i u)), cb_start_nbi = (\<lambda>h i. beside (cb_start_nbi ops h i))\<rparr>"

text \<open>
  A connection that has been given \<open>configure\<close> and, after it, no \<open>commit\<close> that the node has accepted: an answer has come and it contains
  no \<open>ERROR\<close>.
\<close>

definition accepted :: "string node_res \<Rightarrow> bool" where
  "accepted r = (case r of Inl _ \<Rightarrow> False | Inr a \<Rightarrow> \<not> contains ''ERROR'' a)"

definition next_mode :: "string option \<Rightarrow> bool \<Rightarrow> string option \<times> string \<times> string node_res \<Rightarrow> bool" where
  "next_mode i b x =
     (case x of (j, c, r) \<Rightarrow>
        if j \<noteq> i then b else if c = ''configure'' then True else if c = ''commit'' \<and> accepted r then False else b)"

definition changing :: "string option \<Rightarrow> command_log \<Rightarrow> bool" where
  "changing i cs = foldl (next_mode i) False cs"

text \<open>What returns leaves no change open that was not open before; what commits leaves none.\<close>

definition settles :: "string option \<Rightarrow> ('w \<times> command_log \<Rightarrow> ('e + 'a) \<times> 'w \<times> command_log) \<Rightarrow> bool" where
  "settles i f \<longleftrightarrow> (\<forall>s v t. f s = (Inr v, t) \<longrightarrow> \<not> changing i (snd s) \<longrightarrow> \<not> changing i (snd t))"

definition commits :: "string option \<Rightarrow> ('w \<times> command_log \<Rightarrow> ('e + 'a) \<times> 'w \<times> command_log) \<Rightarrow> bool" where
  "commits i f \<longleftrightarrow> (\<forall>s v t. f s = (Inr v, t) \<longrightarrow> \<not> changing i (snd t))"

lemma changing_snoc: "changing i (cs @ [x]) = next_mode i (changing i cs) x"
  by (simp add: changing_def)

lemma settles_seq_at: "settles i p \<Longrightarrow> (\<And>u v. settles i (f u v)) \<Longrightarrow> settles i (\<lambda>s. andthen (p s) (f s))"
  unfolding settles_def by (metis andthen_Inr)

lemma settles_seq: "settles i p \<Longrightarrow> (\<And>v. settles i (f v)) \<Longrightarrow> settles i (\<lambda>s. andthen (p s) f)"
  by (rule settles_seq_at)

lemma settles_value: "settles i (\<lambda>s. (r, s))" "settles i (Pair r)" "settles i done_with"
  by (simp_all add: settles_def done_with_def)

lemma settles_result: "settles i (\<lambda>s. (f s, s))"
  by (simp add: settles_def)

lemma settles_branch: "settles i p \<Longrightarrow> settles i q \<Longrightarrow> settles i (\<lambda>s. if b then p s else q s)"
  by (simp add: settles_def)

lemma settles_iterate: "(\<And>x. settles i (f x)) \<Longrightarrow> settles i (for_each f xs)"
proof (induction xs)
  case (Cons x xs)
  then have "settles i (\<lambda>s. andthen (f x s) (\<lambda>_. for_each f xs))" by (intro settles_seq) auto
  then show ?case by (simp add: settles_def)
qed (simp add: settles_def)

lemma settles_failure: "settles i p \<Longrightarrow> settles i (\<lambda>s. as_failure (p s))"
  by (auto simp: settles_def as_failure_def split: prod.splits sum.splits)

lemma commits_settles: "commits i f \<Longrightarrow> settles i f"
  by (auto simp: settles_def commits_def)

lemma commits_last: "(\<And>v. commits i (f v)) \<Longrightarrow> commits i (\<lambda>s. andthen (p s) f)"
  by (auto simp: commits_def andthen_Inr)

lemma written_settles: "j \<noteq> i \<or> c \<noteq> ''configure'' \<Longrightarrow> settles i (written j c as_text f)"
  by (auto simp: settles_def written_def changing_snoc next_mode_def split: prod.splits)

lemma beside_settles: "settles i (beside f)"
  by (auto simp: settles_def beside_def split: prod.splits)

lemma logged_simps [simp]:
  "cb_full (logged ops) j c = written j c (\<lambda>a. a) (cb_full ops j c)"
  "cb_lines (logged ops) j c = written j c (join [CHR 0x0A]) (cb_lines ops j c)"
  "cb_extend (logged ops) p = beside (cb_extend ops p)" "cb_start (logged ops) h k u = beside (cb_start ops h k u)"
  "cb_start_nbi (logged ops) h k = beside (cb_start_nbi ops h k)"
  "snd (cb_close (logged ops) k s) = snd s" "snd (cb_sleep (logged ops) t s) = snd s"
  by (simp_all add: logged_def)

lemma settles_after: "settles i f \<Longrightarrow> (\<And>s. snd (g s) = snd s) \<Longrightarrow> settles i (\<lambda>s. f (g s))"
  unfolding settles_def by metis

lemma settles_at: "(\<And>x. settles i (f x)) \<Longrightarrow> settles i (\<lambda>s. f (g s) s)"
  by (simp add: settles_def)

lemma settles_later: "settles i f \<Longrightarrow> settles i (\<lambda>s. f (cb_sleep (logged ops) t s))"
  by (rule settles_after) simp_all

lemma full_settles: "j \<noteq> i \<or> c \<noteq> ''configure'' \<Longrightarrow> settles i (cb_full (logged ops) j c)"
  unfolding logged_simps by (rule written_settles)

lemma lines_settles: "j \<noteq> i \<or> c \<noteq> ''configure'' \<Longrightarrow> settles i (cb_lines (logged ops) j c)"
  unfolding logged_simps by (rule written_settles)

lemma start_settles: "settles i (start_cliss (logged ops) k u)" "settles i (start_cert (logged ops))"
proof -
  show "settles i (start_cliss (logged ops) k u)" for k u
    by (auto simp: settles_def start_cliss_def beside_def split: prod.splits)
  then show "settles i (start_cert (logged ops))" by (simp add: start_cert_def)
qed

lemma nbi_settles: "settles i (cb_start_nbi (logged ops) h k)"
  unfolding logged_simps by (rule beside_settles)

lemma send_settles: "Some j \<noteq> i \<or> c \<noteq> ''configure'' \<Longrightarrow> settles i (send (logged ops) j c)"
  unfolding send_def [abs_def] by (intro settles_seq full_settles settles_value) auto

lemma sends_settles: "(\<And>c. c \<in> set cs \<Longrightarrow> Some j \<noteq> i \<or> c \<noteq> ''configure'') \<Longrightarrow> settles i (sends (logged ops) j cs)"
proof (induction cs)
  case (Cons c cs)
  then have "settles i (\<lambda>s. andthen (send (logged ops) j c s) (\<lambda>_. sends (logged ops) j cs))"
    by (intro settles_seq send_settles) auto
  then show ?case by (simp add: settles_def sends_def)
qed (simp add: settles_def sends_def)

lemma ask_settles: "Some j \<noteq> i \<or> c \<noteq> ''configure'' \<Longrightarrow> settles i (ask_cliss (logged ops) j c)"
  unfolding ask_cliss_def [abs_def] by (intro settles_seq full_settles settles_value) auto

lemma fields_settles: "Some j \<noteq> i \<or> c \<noteq> ''configure'' \<Longrightarrow> settles i (show_fields (logged ops) j c ks)"
  unfolding show_fields_def [abs_def] by (intro settles_seq full_settles settles_value) auto

text \<open>\<open>commit\<close> returns only when the node has accepted it.\<close>

lemma commit_commits: "commits (Some j) (commit (logged ops) j)"
  by (auto simp: commits_def commit_def ask_cliss_def andthen_Inr written_def done_with_def changing_snoc next_mode_def accepted_def
      bind_res_def split: prod.splits if_splits)

lemma commit_settles: "settles i (commit (logged ops) j)"
  unfolding commit_def [abs_def] by (intro settles_seq ask_settles settles_value) auto

lemma then_commit: "settles i p \<Longrightarrow> settles i (\<lambda>s. andthen (p s) (\<lambda>_. commit (logged ops) j))"
  by (rule settles_seq) (simp_all add: commit_settles)

lemma after_commit: "Some j = i \<Longrightarrow> settles i (\<lambda>s. andthen (p s) (\<lambda>_. commit (logged ops) j))"
  by (auto intro: commits_settles commits_last commit_commits)

lemma transaction_settles: "settles i (transaction (logged ops) j place changes)"
  unfolding transaction_def [abs_def]
  by (cases "Some j = i") (auto intro: then_commit after_commit sends_settles)

lemmas settling = settles_seq settles_branch start_settles transaction_settles settles_value

lemma cert_settles: "settles i (cert_transaction (logged ops) place changes)"
  unfolding cert_transaction_def [abs_def] by (intro settling)

lemma place_not_configure [simp]:
  "NTP_SERVER_DN @ w \<noteq> ''configure''" "CERT_MNG_DN \<noteq> ''configure''" "SYS_DN @ w \<noteq> ''configure''"
  "MODULE_IMS_CLISS_DN \<noteq> ''configure''" "MODULE_ESM_CLISS_DN \<noteq> ''configure''" "HEALTH_CHECK_DN \<noteq> ''configure''"
  by (simp_all add: NTP_SERVER_DN_def CERT_MNG_DN_def SYS_DN_def MODULE_IMS_CLISS_DN_def MODULE_ESM_CLISS_DN_def HSS_DN_def
      HEALTH_CHECK_DN_def)

lemma unlock_settles: "dn \<noteq> ''configure'' \<Longrightarrow> settles i (unlock_module (logged ops) dn a)"
  unfolding unlock_module_def [abs_def] by (intro settling send_settles full_settles) auto

lemma ntp_settles:
  "settles i (update_ntp_server_cliss (logged ops) ip k)" "settles i (add_ntp_server_cliss (logged ops) ip k)"
  "settles i (remove_ntp_server_cliss (logged ops) k)"
  unfolding update_ntp_server_cliss_def [abs_def] add_ntp_server_cliss_def [abs_def] remove_ntp_server_cliss_def [abs_def]
  by (intro settling settles_failure send_settles disjI2 place_not_configure)+

lemma ntp_server_settles: "settles i (ntp_server (logged ops) a ids j)"
  unfolding ntp_server_def [abs_def] by (intro settling send_settles disjI2 place_not_configure)

lemma ntp_info_settles: "settles i (get_ntp_servers_info_cliss (logged ops))"
  unfolding get_ntp_servers_info_cliss_def [abs_def]
  by (intro settling settles_failure ntp_server_settles full_settles) simp

lemma update_ntps_settles: "settles i (update_ntp_servers_cliss (logged ops) ips)"
proof -
  have all: "settles i (update_all_ntp (logged ops) xs)" for xs
    unfolding update_all_ntp_def by (rule settles_iterate) (auto simp: ntp_settles split: prod.split)
  have more: "settles i (\<lambda>w. andthen (of_res (py_int k), w) (\<lambda>n w. add_ntp_server_cliss (logged ops) ip (g n) w))" for k ip g
    by (intro settling ntp_settles)
  have "settles i (\<lambda>w. if b then (case p of ([k], _ # ip # _) \<Rightarrow>
        andthen (of_res (py_int k), w) (\<lambda>n w. add_ntp_server_cliss (logged ops) ip (str_of_int (1 + n)) w) | _ \<Rightarrow> done_with w)
      else (case p of (_ # k # _, [_]) \<Rightarrow> remove_ntp_server_cliss (logged ops) k w | _ \<Rightarrow> done_with w))" for b p
    using more ntp_settles settles_value
    by (cases b; cases p; cases "fst p"; cases "tl (fst p)"; cases "snd p"; cases "tl (snd p)") simp_all
  then show ?thesis
    unfolding update_ntp_servers_cliss_def [abs_def] Let_def by (intro settles_seq ntp_info_settles all)
qed

lemma scale_settles: "settles i (scale_in_payloads_cliss (logged ops) ps)"
proof (cases "Some HSSADMIN = i")
  case True
  then show ?thesis
    unfolding scale_in_payloads_cliss_def [abs_def]
    by (intro settles_seq [OF start_settles(1)] commits_settles commits_last) (auto intro: commit_commits)
next
  case False
  then show ?thesis
    unfolding scale_in_payloads_cliss_def [abs_def]
    by (intro settles_seq start_settles then_commit settles_iterate sends_settles send_settles) auto
qed

lemma category_settles: "settles i (create_trusted_category_cliss (logged ops))"
proof (cases "Some HSSADMIN = i")
  case True
  then show ?thesis
    unfolding create_trusted_category_cliss_def [abs_def]
    by (intro settles_seq [OF start_settles(2)] commits_settles commits_last) (auto intro: commit_commits)
next
  case False
  then show ?thesis
    unfolding create_trusted_category_cliss_def [abs_def]
    by (intro settles_seq start_settles sends_settles ask_settles commit_settles) auto
qed

lemma peer_settles: "settles i (remove_dia_peer_node (logged ops) s p b)"
proof -
  have "settles i (\<lambda>w. done_with (disconnected (logged ops) b w))"
    by (auto simp: settles_def disconnected_def done_with_def logged_def)
  then show ?thesis
    unfolding remove_dia_peer_node_def [abs_def] start_peer_def [abs_def] by (intro settling)
qed

lemma address_settles: "settles i (change_OwnGTAddress (logged ops) m a)"
proof -
  have "settles i (\<lambda>w. (Inr True, cb_close (logged ops) HSSADMIN w))" by (auto simp: settles_def logged_def)
  then show ?thesis
    unfolding change_OwnGTAddress_def [abs_def]
    by (cases "map_dn m") (auto intro!: settling)
qed

lemma health_settles: "settles i (start_healthcheck (logged ops))"
  unfolding start_healthcheck_def [abs_def] is_virtual_def [abs_def]
  by (intro settling full_settles send_settles) auto

lemma csr_settles: "settles i (add_csr_cert_cliss (logged ops) ip)"
  unfolding add_csr_cert_cliss_def [abs_def] by (intro settling full_settles) auto

lemma disable_settles: "settles i (disable_trusted_cert_cliss (logged ops))"
  unfolding disable_trusted_cert_cliss_def [abs_def] by (intro settling full_settles send_settles) auto

lemma conf_settles: "settles i (run_conf (logged ops) call)"
proof (cases call)
  case Unlock_modules
  have "settles i (\<lambda>w. silent (unlock_traffic_modules (logged ops) w))"
    unfolding silent_def unlock_traffic_modules_def [abs_def] by (intro settling unlock_settles place_not_configure)
  with Unlock_modules show ?thesis by (simp add: settles_def)
next
  case (Change_address m a)
  have "settles i (\<lambda>w. silent (change_OwnGTAddress (logged ops) m a w))"
    unfolding silent_def by (intro settling address_settles)
  with Change_address show ?thesis by (simp add: settles_def)
next
  case Config_cli_tls
  have "settles i (config_tls k (logged ops))" for k
    unfolding config_tls_def [abs_def] by (intro settling cert_settles)
  with Config_cli_tls show ?thesis by (simp add: settles_def config_cli_tls_cliss_def)
next
  case Config_netconf_tls
  have "settles i (config_tls k (logged ops))" for k
    unfolding config_tls_def [abs_def] by (intro settling cert_settles)
  with Config_netconf_tls show ?thesis by (simp add: settles_def config_netconf_tls_cliss_def)
qed (use ntp_settles update_ntps_settles scale_settles category_settles peer_settles health_settles csr_settles disable_settles
    cert_settles in \<open>simp_all add: settles_def delete_csr_cert_cliss_def delete_trusted_category_cliss_def
      enable_trusted_cert_cliss_def delete_config_cli_tls_cliss_def delete_config_netconf_tls_cliss_def delete_config_tls_def
      config_flow_policy_cliss_def delete_flow_policy_cliss_def\<close>)

section \<open>Licenses and processors\<close>

lemma settles_poll: "settles i look \<Longrightarrow> settles i (poll time look e n t)"
proof (induction n arbitrary: t)
  case (Suc n)
  then show ?case unfolding settles_def by (fastforce split: prod.splits sum.splits option.splits if_splits)
qed (simp add: settles_def)

lemma settles_collect: "(\<And>x. settles i (f x)) \<Longrightarrow> settles i (collect_lines f xs)"
proof (induction xs)
  case (Cons x xs)
  then have "settles i (\<lambda>w. andthen (f x w) (\<lambda>ls w. andthen (collect_lines f xs w) (\<lambda>ms w. (Inr (ls @ ms), w))))"
    by (intro settles_seq settles_value Cons)
  then show ?case by (simp add: settles_def)
qed (simp add: settles_def)

lemma settles_find: "(\<And>x. settles i (f x)) \<Longrightarrow> settles i (find_first f xs)"
proof (induction xs)
  case (Cons x xs)
  have "settles i (\<lambda>w. case r of Some v \<Rightarrow> (Inr (Some v), w) | None \<Rightarrow> find_first f xs w)" for r
    using Cons.IH [OF Cons.prems] by (cases r) (simp_all only: option.case settles_value)
  then have "settles i (\<lambda>w. andthen (f x w) (\<lambda>r w. case r of Some v \<Rightarrow> (Inr (Some v), w) | None \<Rightarrow> find_first f xs w))"
    by (intro settles_seq Cons.prems)
  then show ?case by (simp add: settles_def)
qed (simp add: settles_def)

lemma license_not_configure [simp]: "LICENSE_DN @ w \<noteq> ''configure''" "''configure'' \<noteq> LICENSE_DN"
  by (simp_all add: LICENSE_DN_def)

lemma keys_settle: "settles i (license_keys (logged ops) kind)" "settles i (show_key (logged ops) kind k ks)"
  unfolding license_keys_def [abs_def] show_key_def [abs_def] by (intro settling ask_settles; simp)+

lemma find_settles: "settles i (find_licenses (logged ops) b)"
  unfolding find_licenses_def [abs_def] by (intro settling settles_collect keys_settle)

lemma grant_settles: "settles i (grant_licenses (logged ops))"
proof -
  have "settles i (\<lambda>w. find_licenses (logged ops) True (cb_sleep (logged ops) 10 w))"
    by (rule settles_later [OF find_settles])
  then show ?thesis
    unfolding grant_licenses_def [abs_def] by (intro settling sends_settles) auto
qed

lemma install_settles: "settles i (install_turn (logged ops))"
proof -
  have "settles i (\<lambda>w. andthen (show_fields (logged ops) HSSADMIN ''show -v'' ks w) (\<lambda>d w. (r d, w)))" for ks r
    by (intro settling fields_settles) simp
  from settles_later [OF this, of _ _ 5] show ?thesis unfolding install_turn_def [abs_def] .
qed

lemma fingerprint_settles: "settles i (check_fingerprint (logged ops) d)"
  unfolding check_fingerprint_def [abs_def] set_fingerprint_def [abs_def] by (intro settling fields_settles) simp

lemma after_settles: "settles i (after_install (logged ops) r)"
proof (cases r)
  case (Some d)
  have "settles i (\<lambda>w. andthen (of_res (field ''result'' d), w) (\<lambda>res w.
            if res \<noteq> [''SUCCESS''] then (Inl (Command_failure ''installKeyFile failed''), w)
            else andthen (grant_licenses (logged ops) w) (\<lambda>_ w. (Inr (Some ()), w))))"
    by (intro settling grant_settles)
  then show ?thesis unfolding Some after_install_def [abs_def] by simp
qed (simp add: after_install_def [abs_def] settles_value)

lemma licenses_settle: "settles i (update_licenses (logged ops) n keys)"
  unfolding update_licenses_def [abs_def]
  by (intro settling fields_settles settles_failure fingerprint_settles sends_settles settles_poll install_settles after_settles) auto

lemma nbi_values_settle: "c \<noteq> ''configure'' \<Longrightarrow> settles i (nbi_values (logged ops) c k)"
  unfolding nbi_values_def [abs_def] by (intro settling fields_settles disjI2)

lemma tenant_settles: "settles i (get_nbi_tenant (logged ops) h)"
  unfolding get_nbi_tenant_def [abs_def] subnets_def [abs_def]
  by (intro settling lines_settles nbi_settles nbi_values_settle settles_find; simp)

lemma place_settles: "settles i (get_nbi_proc_cliss_dn (logged ops) h p)"
  unfolding get_nbi_proc_cliss_dn_def [abs_def]
  by (intro settling tenant_settles nbi_settles nbi_values_settle settles_find fields_settles; simp)

lemma turn_settles: "settles i (nbi_turn ev (logged ops) p goal)"
proof -
  have "settles i (\<lambda>w. andthen (processor_state ev (logged ops) p w) (\<lambda>st w. (r st, w)))" for r
    unfolding processor_state_def [abs_def] by (intro settling full_settles) simp
  from settles_later [OF this, of _ 2] show ?thesis unfolding nbi_turn_def [abs_def] .
qed

lemma nbi_set_settles:
  assumes "\<And>s. snd (between s) = snd s"
  shows "settles i (nbi_set ev (logged ops) n state goal doing between h timeout p)"
proof -
  have wait: "settles i (\<lambda>w. let w = between w in andthen (poll time (nbi_turn ev (logged ops) p goal) e n (t w) w) (\<lambda>r w. (g r w, w)))"
    for time e t g
  proof -
    have "settles i (\<lambda>w. andthen (poll time (nbi_turn ev (logged ops) p goal) e n x w) (\<lambda>r w. (g r w, w)))" for x
      by (intro settles_seq settles_poll turn_settles settles_result)
    then have "settles i (\<lambda>w. andthen (poll time (nbi_turn ev (logged ops) p goal) e n (t w) w) (\<lambda>r w. (g r w, w)))"
      by (rule settles_at)
    then show ?thesis unfolding Let_def by (rule settles_after) (rule assms)
  qed
  show ?thesis
    unfolding nbi_set_def [abs_def]
    by (rule settles_seq_at [OF nbi_settles], rule settles_seq_at [OF place_settles], rule settles_seq_at [OF transaction_settles], rule wait)
qed

lemma lock_settles: "settles i (nbi_lock_processor ev (logged ops) n p h timeout)"
  unfolding nbi_lock_processor_def by (rule nbi_set_settles) simp

lemma unlock_processor_settles: "settles i (nbi_unlock_processor ev (logged ops) n p h timeout)"
  unfolding nbi_unlock_processor_def by (rule nbi_set_settles) simp

section \<open>Every method that configures\<close>

text \<open>
  All methods of \<open>Cba\<close> that give \<open>configure\<close> to the node: those of \<open>conf_call\<close>, the licenses, the processors over the north-bound
  interface, and what \<open>enable_AandA\<close> and \<open>disable_AandA\<close> do over the connection that they have opened. \<open>run_cliss_command\<close> is
  none of them: told to configure it raises before it sends anything.
\<close>

datatype changing_call =
    Configure conf_call
  | Licenses nat string
  | Lock_over_nbi nat string string int
  | Unlock_over_nbi nat string string int
  | Set_AandA string

fun run_changing :: "(string \<Rightarrow> pval option) \<Rightarrow> 'w cba_ops \<Rightarrow> changing_call \<Rightarrow> 'w \<Rightarrow> unit node_res \<times> 'w" where
  "run_changing ev ops (Configure c) w = run_conf ops c w"
| "run_changing ev ops (Licenses n keys) w = silent (update_licenses ops n keys w)"
| "run_changing ev ops (Lock_over_nbi n p h timeout) w = silent (nbi_lock_processor ev ops n p h timeout w)"
| "run_changing ev ops (Unlock_over_nbi n p h timeout) w = silent (nbi_unlock_processor ev ops n p h timeout w)"
| "run_changing ev ops (Set_AandA state) w = set_AandA ops state w"

lemma silent_settles: "settles i f \<Longrightarrow> settles i (\<lambda>w. silent (f w))"
  unfolding silent_def by (intro settling)

lemma changing_settles: "settles i (run_changing ev (logged ops) call)"
proof (cases call)
  case (Set_AandA state)
  then show ?thesis using transaction_settles by (simp add: settles_def set_AandA_def)
next
  case (Licenses n keys)
  then show ?thesis using silent_settles [OF licenses_settle] by (simp add: settles_def)
next
  case (Lock_over_nbi n p h timeout)
  then show ?thesis using silent_settles [OF lock_settles] by (simp add: settles_def)
next
  case (Unlock_over_nbi n p h timeout)
  then show ?thesis using silent_settles [OF unlock_processor_settles] by (simp add: settles_def)
qed (use conf_settles in \<open>simp add: settles_def\<close>)

text \<open>C13: a method that changes the configuration and returns without an exception leaves no connection with a change that the node
  has not accepted, unless there was one before: every \<open>configure\<close> of a connection is followed by a \<open>commit\<close> on it that the
  node has answered, and answered without \<open>ERROR\<close>. This holds for every node the commands are given to, whatever it
  answers, and for every method of \<open>Cba\<close> that gives \<open>configure\<close>; a user may still send it as a command of his own.
\<close>

theorem completed_calls_commit:
  assumes "run_changing ev (logged ops) call (w, l) = (Inr (), (v, k))" and "\<not> changing i l"
  shows "\<not> changing i k"
  using assms changing_settles [of i ev ops call] by (auto simp: settles_def)

lemma completed_calls_commit_witness:
  "\<exists>v k. run_changing (\<lambda>_. None) (logged scripted) (Configure (Delete_flow ''p'')) (([], 0), []) = (Inr (), (v, k)) \<and>
     (Some HSSADMIN, ''configure'', Inr []) \<in> set k \<and> \<not> changing (Some HSSADMIN) k"
proof -
  let ?k = "map (\<lambda>c. (Some HSSADMIN, c, Inr [])) [EVIP_FLOWPOLICY_DN, ''configure'', ''no EvipFlowPolicy=p'', ''commit'']"
  have r: "run_changing (\<lambda>_. None) (logged scripted) (Configure (Delete_flow ''p'')) (([], 0), []) = (Inr (), (([], 0), ?k))"
    by (simp add: delete_flow_policy_cliss_def cert_transaction_def start_cert_def start_cliss_def transaction_def sends_def
        send_def commit_def ask_cliss_def logged_def written_def beside_def scripted_def next_answer_def done_with_def bind_res_def)
  have "\<not> changing (Some HSSADMIN) ?k"
    using completed_calls_commit [OF r, of "Some HSSADMIN"] by (simp add: changing_def)
  with r show ?thesis by force
qed

text \<open>The commands of a log, without the answers.\<close>

definition commands :: "command_log \<Rightarrow> (string option \<times> string) list" where
  "commands k = map (\<lambda>(i, c, _). (i, c)) k"

lemma start_log: "start_cert (logged ops) s = (r, t) \<Longrightarrow> snd t = snd s"
  by (auto simp: start_cert_def start_cliss_def beside_def split: prod.splits)

lemma send_log: "send (logged ops) j c s = (r, t) \<Longrightarrow> commands (snd t) = commands (snd s) @ [(Some j, c)]"
  by (auto simp: send_def written_def andthen_def done_with_def commands_def split: prod.splits sum.splits)

lemma sends_log: "sends (logged ops) j cs s = (Inr u, t) \<Longrightarrow> commands (snd t) = commands (snd s) @ map (Pair (Some j)) cs"
  by (induction cs arbitrary: s) (auto simp: sends_def andthen_Inr commands_def dest!: send_log)

text \<open>After \<open>configure\<close>, commands that are not \<open>commit\<close> leave the change open.\<close>

lemma still_changing:
  assumes "commands k = xs @ (i, ''configure'') # ys" and "(i, ''commit'') \<notin> set ys"
  shows "changing i k"
proof -
  obtain us r vs where k: "k = us @ (i, ''configure'', r) # vs" "commands vs = ys"
    using assms(1) by (auto simp: commands_def map_eq_append_conv map_eq_Cons_conv)
  have "foldl (next_mode i) True vs" if "(i, ''commit'') \<notin> set (commands vs)" for vs
    using that by (induction vs) (auto simp: next_mode_def commands_def)
  with k assms(2) show ?thesis by (simp add: changing_def next_mode_def)
qed

definition certificates_command :: string where
  "certificates_command = ''trustedCertificates=['' @ quote (CERT_MNG_DN @ '',TrustedCertificate=1'') @ '']''"

text \<open>C34: when the node answers the certificates of a new trust category with \<open>ERROR\<close>, after a start and three commands that went
  through, \<open>create_trusted_category_cliss\<close> raises with this answer and sends no \<open>commit\<close>: the category is created, the four
  commands are all that was sent, and the connection stays in its transaction for the next call.
\<close>

theorem refused_category_stays_open:
  assumes "start_cert (logged ops) (w, l) = (Inr (), s)"
    and "sends (logged ops) HSSADMIN [CERT_MNG_DN, ''configure'', ''TrustCategory=1''] s = (Inr (), t)"
    and "cb_full (logged ops) (Some HSSADMIN) certificates_command t = (Inr a, (v, k))" and "contains ''ERROR'' a"
  shows "create_trusted_category_cliss (logged ops) (w, l) = (Inl (refused a), (v, k)) \<and>
    commands k = commands l @ map (Pair (Some HSSADMIN)) [CERT_MNG_DN, ''configure'', ''TrustCategory=1'', certificates_command] \<and>
    changing (Some HSSADMIN) k"
proof -
  have r: "create_trusted_category_cliss (logged ops) (w, l) = (Inl (refused a), (v, k))"
    using assms unfolding create_trusted_category_cliss_def ask_cliss_def certificates_command_def
    by (simp only: andthen_simps if_True)
  have "snd s = l" using start_log [OF assms(1)] by simp
  moreover have "commands k = commands (snd t) @ [(Some HSSADMIN, certificates_command)]"
    using assms(3) by (auto simp: written_def commands_def split: prod.splits)
  ultimately have k: "commands k = commands l @ map (Pair (Some HSSADMIN))
      [CERT_MNG_DN, ''configure'', ''TrustCategory=1'', certificates_command]"
    using sends_log [OF assms(2)] by simp
  then have "changing (Some HSSADMIN) k"
    by (intro still_changing [of k "commands l @ [(Some HSSADMIN, CERT_MNG_DN)]" _
        "map (Pair (Some HSSADMIN)) [''TrustCategory=1'', certificates_command]"]) (simp_all add: certificates_command_def)
  with r k show ?thesis by blast
qed

lemma refused_category_stays_open_witness:
  "\<exists>v k. create_trusted_category_cliss (logged scripted) (([Inr [], Inr [], Inr [], Inr ''ERROR''], 0), []) =
       (Inl (refused ''ERROR''), (v, k)) \<and> changing (Some HSSADMIN) k"
proof -
  let ?x = "(Some HSSADMIN, certificates_command, Inr ''ERROR'')"
  have send: "send (logged scripted) HSSADMIN c ((Inr [] # as, t), k) = (Inr (), ((as, t), k @ [(Some HSSADMIN, c, Inr [])]))"
    for c as t k
    by (simp add: send_def written_def scripted_def next_answer_def done_with_def bind_res_def)
  have start: "start_cert (logged scripted) (w, k) = (Inr (), (w, k))" for w k
    by (simp add: start_cert_def start_cliss_def beside_def scripted_def done_with_def)
  obtain k where sent: "sends (logged scripted) HSSADMIN [CERT_MNG_DN, ''configure'', ''TrustCategory=1'']
      (([Inr [], Inr [], Inr [], Inr ''ERROR''], 0), []) = (Inr (), (([Inr ''ERROR''], 0), k))"
    by (simp add: sends_def send done_with_def)
  have "cb_full (logged scripted) (Some HSSADMIN) certificates_command (([Inr ''ERROR''], 0), k) = (Inr ''ERROR'', (([], 0), k @ [?x]))"
    by (simp add: written_def scripted_def next_answer_def bind_res_def)
  from refused_category_stays_open [OF start sent this] show ?thesis by (auto simp: startswith_def)
qed

text \<open>C33: on every CBA node the update of the licenses comes to an end: it waits for the installation for 61 turns at most, each of
  which sleeps five seconds, before the deadline of 300 seconds raises.
\<close>

theorem license_update_ends: "fst (update_licenses (cba_methods ev) 61 licenses c) \<noteq> Inr None"
  by (rule cba_method.update_ends)

end
