(* ===== verification/Alarm_Monitor.thy ===== *)
theory Alarm_Monitor
  imports Cliss_Config
begin

text \<open>
  The thread that watches the list of alarms of a CBA node: \<open>AlarmMonitorBaseCBA\<close> of \<open>hss_utils/src/node/cba.py\<close> and its
  subclass \<open>AlarmMonitor\<close> of \<open>HSS_rtc_lib/components/monitor.py\<close>, which brings methods of its own to start and to shut down.
\<close>

section \<open>State\<close>

text \<open>
  \<open>am_world\<close> is the node with its clock; \<open>am_connected\<close>: \<open>connection\<close> is not \<open>None\<close>. \<open>am_shown\<close> is what \<open>log_event\<close> gets.
\<close>

record 'w alarm_monitor =
  am_world :: 'w
  am_connected :: bool
  am_running :: bool
  am_allow :: bool
  am_max_time :: rat
  am_last :: "string list"
  am_current :: "string list"
  am_alarms :: "(string, (string, string list) dict \<times> string) dict"
  am_sampling :: rat
  am_exit :: bool
  am_shown :: "string list"

definition alarm_monitor_new :: "'w \<Rightarrow> 'w alarm_monitor" where
  "alarm_monitor_new w =
     \<lparr>am_world = w, am_connected = False, am_running = False, am_allow = True, am_max_time = 300, am_last = [], am_current = [],
      am_alarms = [], am_sampling = 1, am_exit = False, am_shown = []\<rparr>"

definition activate_force_exit :: "'w alarm_monitor \<Rightarrow> 'w alarm_monitor" where
  "activate_force_exit m = m\<lparr>am_exit := True\<rparr>"

text \<open>\<open>set(xs) - set(ys)\<close>\<close>

definition list_minus :: "'a list \<Rightarrow> 'a list \<Rightarrow> 'a list" where
  "list_minus xs ys = remdups (filter (\<lambda>x. x \<notin> set ys) xs)"

definition new_alarms :: "'w alarm_monitor \<Rightarrow> string list" where
  "new_alarms m = list_minus (am_current m) (am_last m)"

definition cleared_alarms :: "'w alarm_monitor \<Rightarrow> string list" where
  "cleared_alarms m = list_minus (am_last m) (am_current m)"

text \<open>A call on the connection.\<close>

definition on_world :: "('w \<Rightarrow> 'a node_res \<times> 'w) \<Rightarrow> 'w alarm_monitor \<Rightarrow> 'a node_res \<times> 'w alarm_monitor" where
  "on_world f m = (case f (am_world m) of (r, w) \<Rightarrow> (r, m\<lparr>am_world := w\<rparr>))"

definition pause_for :: "'w cba_ops \<Rightarrow> rat \<Rightarrow> 'w alarm_monitor \<Rightarrow> 'w alarm_monitor" where
  "pause_for ops t m = m\<lparr>am_world := cb_sleep ops t (am_world m)\<rparr>"

section \<open>The data base of alarms\<close>

text \<open>An empty answer stores nothing.\<close>

definition add_alarm_info :: "'w cba_ops \<Rightarrow> string \<Rightarrow> string \<Rightarrow> 'w alarm_monitor \<Rightarrow> unit node_res \<times> 'w alarm_monitor" where
  "add_alarm_info ops state alarm m =
     (if \<not> am_connected m then done_with m
      else andthen (on_world (get_alarm_info ops alarm) m) (\<lambda>d m.
        done_with (if d = [] then m else m\<lparr>am_alarms := dict_set alarm (d, state) (am_alarms m)\<rparr>)))"

definition clear_alarm_info :: "string \<Rightarrow> 'w alarm_monitor \<Rightarrow> 'w alarm_monitor" where
  "clear_alarm_info alarm m = m\<lparr>am_alarms := dict_modify alarm (\<lambda>(d, _). (d, ''Cleared'')) (am_alarms m)\<rparr>"

definition alarm_message :: "string \<Rightarrow> string \<Rightarrow> string" where
  "alarm_message state text = [CHR 0x0A] @ state @ ''     '' @ text @ [CHR 0x0A]"

text \<open>An alarm that is not stored or that lacks a field is not shown.\<close>

definition show_alarm :: "string \<Rightarrow> string \<Rightarrow> 'w alarm_monitor \<Rightarrow> 'w alarm_monitor" where
  "show_alarm state alarm m =
     (if \<not> am_connected m then m
      else case map_of (am_alarms m) alarm of
        None \<Rightarrow> m
      | Some (d, _) \<Rightarrow>
          (case print_alarm_info alarm d of
             Inl _ \<Rightarrow> m
           | Inr text \<Rightarrow> m\<lparr>am_shown := am_shown m @ [alarm_message state text]\<rparr>))"

definition get_not_cleared_alarms :: "'w alarm_monitor \<Rightarrow> string list" where
  "get_not_cleared_alarms m = dict_keys (filter (\<lambda>(_, _, st). st = ''New'') (am_alarms m))"

definition show_not_cleared_alarms :: "'w alarm_monitor \<Rightarrow> 'w alarm_monitor" where
  "show_not_cleared_alarms m = fold (show_alarm ''Alarm received but not cleared'') (get_not_cleared_alarms m) m"

text \<open>
  The fields of the filter one after the other: \<open>None\<close> for a field that the alarm does not have. The first value of a field has to
  contain the text.
\<close>

fun filter_matches :: "(string, string) dict \<Rightarrow> (string, string list) dict \<Rightarrow> bool option" where
  "filter_matches [] d = Some True"
| "filter_matches ((k, v) # f) d =
     (case first_of k d of
        Inl _ \<Rightarrow> None
      | Inr u \<Rightarrow> if contains v u then filter_matches f d else Some False)"

text \<open>The search ends with the first alarm that lacks a field.\<close>

fun alarm_state_in ::
  "(string, string) dict \<Rightarrow> (string \<times> (string, string list) dict \<times> string) list \<Rightarrow> (string \<times> string) option" where
  "alarm_state_in f [] = None"
| "alarm_state_in f ((alarm, d, st) # as) =
     (if st = ''Initial'' then alarm_state_in f as
      else case filter_matches f d of
        None \<Rightarrow> None
      | Some True \<Rightarrow> Some (alarm, st)
      | Some False \<Rightarrow> alarm_state_in f as)"

definition alarm_state :: "(string, string) dict \<Rightarrow> 'w alarm_monitor \<Rightarrow> (string \<times> string) option" where
  "alarm_state f m = alarm_state_in f (am_alarms m)"

section \<open>Start and end\<close>

text \<open>
  \<open>shutdown\<close> of the base class forbids to reconnect; that of the subclass does not. What is done with the released connection
  afterwards is nothing.
\<close>

definition alarm_base_shutdown :: "'w cba_ops \<Rightarrow> 'w alarm_monitor \<Rightarrow> 'w alarm_monitor" where
  "alarm_base_shutdown ops m =
     (let m = m\<lparr>am_running := False\<rparr>
      in if \<not> am_connected m then m
         else (show_not_cleared_alarms (pause_for ops (am_sampling m + 1) (m\<lparr>am_allow := False\<rparr>)))\<lparr>am_connected := False\<rparr>)"

definition rtc_shutdown :: "'w cba_ops \<Rightarrow> 'w alarm_monitor \<Rightarrow> 'w alarm_monitor" where
  "rtc_shutdown ops m =
     (if \<not> am_connected m then m\<lparr>am_running := False\<rparr>
      else (pause_for ops (am_sampling m + 1) (m\<lparr>am_running := False\<rparr>))\<lparr>am_connected := False\<rparr>)"

text \<open>
  The subclass connects; \<open>connect\<close> is what the constructor of \<open>Cba\<close> gives. The base class asks for an attribute that it does not have, so
  it never connects. The result says whether the thread is started.
\<close>

definition base_start :: "'w alarm_monitor \<Rightarrow> bool \<times> 'w alarm_monitor" where
  "base_start m = (True, m)"

definition rtc_start :: "bool \<Rightarrow> (node_error + 'w) \<Rightarrow> 'w alarm_monitor \<Rightarrow> bool \<times> 'w alarm_monitor" where
  "rtc_start allowed connect m =
     (if \<not> allowed then (False, m)
      else (True, if am_running m then m
                  else case connect of
                    Inl _ \<Rightarrow> m
                  | Inr w \<Rightarrow> m\<lparr>am_world := w, am_connected := True, am_running := True\<rparr>))"

section \<open>The thread\<close>

text \<open>What other threads do before a turn: nothing, force the exit, or shut the monitor down.\<close>

datatype outside = Quiet | Force_exit | Shut

definition interfere :: "('w alarm_monitor \<Rightarrow> 'w alarm_monitor) \<Rightarrow> outside \<Rightarrow> 'w alarm_monitor \<Rightarrow> 'w alarm_monitor" where
  "interfere shut x m = (case x of Quiet \<Rightarrow> m | Force_exit \<Rightarrow> activate_force_exit m | Shut \<Rightarrow> shut m)"

text \<open>
  One element of the list for each turn of a loop; what is left of it when the loop ends, or \<open>None\<close>: still in the loop. \<open>left\<close> is
  the time that is left, \<open>shut\<close> the method \<open>shutdown\<close> of the class.
\<close>

fun alarm_reconnect ::
  "'w cba_ops \<Rightarrow> ('w alarm_monitor \<Rightarrow> 'w alarm_monitor) \<Rightarrow> outside list \<Rightarrow> rat \<Rightarrow> 'w alarm_monitor \<Rightarrow>
     outside list option \<times> 'w alarm_monitor" where
  "alarm_reconnect ops shut [] left m = (None, m)"
| "alarm_reconnect ops shut (x # xs) left m =
     (let m = interfere shut x m
      in if \<not> am_allow m \<or> am_exit m then (Some xs, m)
         else let p = pause_for ops 10 m
           in case (if \<not> am_connected p then (Inl (Conn_error (Conn_raised (AttributeError ''release_connection''))), p)
                    else on_world (\<lambda>w. start_alarm_handling ops [] (cb_release ops HSSADMIN w)) p) of
                (Inr _, q) \<Rightarrow> (Some xs, q\<lparr>am_running := True\<rparr>)
              | (Inl _, q) \<Rightarrow>
                  (let left = left - (cb_time ops (am_world q) - cb_time ops (am_world m))
                   in alarm_reconnect ops shut xs left (if left < 0 then shut q else q)))"

text \<open>The alarms that are there: the answer has to have the field.\<close>

definition listed :: "'w cba_ops \<Rightarrow> 'w alarm_monitor \<Rightarrow> string list node_res \<times> 'w alarm_monitor" where
  "listed ops m =
     (if \<not> am_connected m then (Inl (Conn_error (Conn_raised (AttributeError ''alarm_info''))), m)
      else andthen (on_world (alarm_info ops [''FmAlarm''] []) m) (\<lambda>d m. (of_res (field ''FmAlarm'' d), m)))"

definition first_look :: "'w cba_ops \<Rightarrow> 'w alarm_monitor \<Rightarrow> unit node_res \<times> 'w alarm_monitor" where
  "first_look ops m =
     andthen (listed ops m) (\<lambda>as m. for_each (add_alarm_info ops ''Initial'') as (m\<lparr>am_last := as\<rparr>))"

definition sample_alarms :: "'w cba_ops \<Rightarrow> 'w alarm_monitor \<Rightarrow> unit node_res \<times> 'w alarm_monitor" where
  "sample_alarms ops m =
     andthen (listed ops m) (\<lambda>as m.
       let m = m\<lparr>am_current := as\<rparr>
       in andthen (for_each (\<lambda>a m. andthen (add_alarm_info ops ''New'' a m) (\<lambda>_ m. done_with (show_alarm ''New'' a m))) (new_alarms m) m)
            (\<lambda>_ m.
              let m = fold (\<lambda>a m. show_alarm ''Cleared'' a (clear_alarm_info a m)) (cleared_alarms m) m
              in done_with (m\<lparr>am_last := am_current m\<rparr>)))"

definition broken_connection :: "node_error \<Rightarrow> bool" where
  "broken_connection e \<longleftrightarrow> e = Conn_error Failed_eof \<or> e = Conn_error Failed_timeout"

text \<open>How the thread is left: it goes on, it has ended, or an exception has ended it.\<close>

datatype thread_end = Going_on | Ended | Died node_error

fun watch ::
  "'w cba_ops \<Rightarrow> ('w alarm_monitor \<Rightarrow> 'w alarm_monitor) \<Rightarrow> nat \<Rightarrow> outside list \<Rightarrow> 'w alarm_monitor \<Rightarrow> thread_end \<times> 'w alarm_monitor"
where
  "watch ops shut 0 xs m = (Going_on, m)"
| "watch ops shut (Suc n) [] m = (Going_on, m)"
| "watch ops shut (Suc n) (x # xs) m =
     (let m = interfere shut x m
      in if \<not> am_running m \<or> am_exit m then (Ended, m)
         else case sample_alarms ops (pause_for ops (am_sampling m) m) of
           (Inr _, m) \<Rightarrow> watch ops shut n xs m
         | (Inl e, m) \<Rightarrow>
             if \<not> broken_connection e then (Died e, m)
             else (case alarm_reconnect ops shut xs (am_max_time m) m of
                     (None, m) \<Rightarrow> (Going_on, m)
                   | (Some ys, m) \<Rightarrow> watch ops shut n ys m))"

definition monitor_run ::
  "'w cba_ops \<Rightarrow> ('w alarm_monitor \<Rightarrow> 'w alarm_monitor) \<Rightarrow> outside list \<Rightarrow> 'w alarm_monitor \<Rightarrow> thread_end \<times> 'w alarm_monitor" where
  "monitor_run ops shut xs m =
     (case first_look ops m of
        (Inr _, m) \<Rightarrow> watch ops shut (Suc (length xs)) xs m
      | (Inl e, m) \<Rightarrow>
          if \<not> broken_connection e then (Died e, m)
          else (case alarm_reconnect ops shut xs (am_max_time m) m of
                  (None, m) \<Rightarrow> (Going_on, m)
                | (Some ys, m) \<Rightarrow> watch ops shut (Suc (length ys)) ys m))"

end
