(* ===== verification/Alarm_Props.thy ===== *)
theory Alarm_Props
  imports Alarm_Monitor Cba_Runs
begin

text \<open>
  The thread that watches the alarms: what a completed look at the list keeps of the data base, when the thread gives
  up after a lost connection, and what ends it without a word.
\<close>

section \<open>The data base follows the list\<close>

text \<open>An alarm that is stored and not cleared was in the last list.\<close>

definition tracked :: "string list \<Rightarrow> 'w alarm_monitor \<Rightarrow> bool" where
  "tracked as m \<longleftrightarrow> (\<forall>a d st. map_of (am_alarms m) a = Some (d, st) \<longrightarrow> st \<noteq> ''Cleared'' \<longrightarrow> a \<in> set as)"

lemma for_each_keeps:
  "(\<And>x s v t. x \<in> set xs \<Longrightarrow> I s \<Longrightarrow> f x s = (Inr v, t) \<Longrightarrow> I t) \<Longrightarrow> I s \<Longrightarrow> for_each f xs s = (Inr u, t) \<Longrightarrow> I t"
  by (induction xs arbitrary: s) (auto simp: andthen_Inr, blast)

lemma show_keeps [simp]:
  "am_alarms (show_alarm st a m) = am_alarms m" "am_last (show_alarm st a m) = am_last m"
  "am_current (show_alarm st a m) = am_current m" "am_connected (show_alarm st a m) = am_connected m"
  "am_allow (show_alarm st a m) = am_allow m" "am_exit (show_alarm st a m) = am_exit m"
  "am_running (show_alarm st a m) = am_running m"
  by (auto simp: show_alarm_def split: option.split sum.split)

lemma add_keeps:
  assumes "add_alarm_info ops st a m = (Inr (), n)"
  shows "am_last n = am_last m" "am_current n = am_current m" "tracked as m \<Longrightarrow> a \<in> set as \<Longrightarrow> tracked as n"
  using assms
  by (auto simp: add_alarm_info_def on_world_def done_with_def andthen_Inr tracked_def dict_simps split: if_splits prod.splits)

lemma clear_all:
  "am_last (fold (\<lambda>a m. show_alarm st a (clear_alarm_info a m)) cs m) = am_last m \<and>
   am_current (fold (\<lambda>a m. show_alarm st a (clear_alarm_info a m)) cs m) = am_current m \<and>
   map_of (am_alarms (fold (\<lambda>a m. show_alarm st a (clear_alarm_info a m)) cs m)) b =
     map_option (\<lambda>(d, s). (d, if b \<in> set cs then ''Cleared'' else s)) (map_of (am_alarms m) b)"
proof (induction cs arbitrary: m)
  case Nil
  then show ?case by (simp add: option.map_ident split: option.split)
next
  case (Cons c cs)
  then show ?case
    by (cases "map_of (am_alarms m) b") (auto simp: clear_alarm_info_def dict_simps)
qed

lemma sample_tracks:
  assumes "sample_alarms ops m = (Inr (), n)" and "tracked (am_last m) m"
  shows "tracked (am_last n) n \<and> am_last n = am_current n"
proof -
  define f where "f = (\<lambda>a m. andthen (add_alarm_info ops ''New'' a m) (\<lambda>_ m. done_with (show_alarm ''New'' a m)))"
  obtain as m1 m2 where l: "listed ops m = (Inr as, m1)"
    and adds: "for_each f (new_alarms (m1\<lparr>am_current := as\<rparr>)) (m1\<lparr>am_current := as\<rparr>) = (Inr (), m2)"
    and n: "n = (fold (\<lambda>a m. show_alarm ''Cleared'' a (clear_alarm_info a m)) (cleared_alarms m2) m2)
        \<lparr>am_last := am_current (fold (\<lambda>a m. show_alarm ''Cleared'' a (clear_alarm_info a m)) (cleared_alarms m2) m2)\<rparr>"
    using assms(1) by (auto simp: sample_alarms_def andthen_Inr Let_def f_def done_with_def)
  have m1: "am_alarms m1 = am_alarms m" "am_last m1 = am_last m"
    using l by (auto simp: listed_def on_world_def andthen_Inr split: if_splits prod.splits)
  let ?I = "\<lambda>s. am_last s = am_last m \<and> am_current s = as \<and> tracked (am_last m @ as) s"
  have "?I m2"
  proof (rule for_each_keeps [where I = ?I, OF _ _ adds])
    show "?I (m1\<lparr>am_current := as\<rparr>)" using m1 assms(2) by (auto simp: tracked_def)
  next
    fix a s v t
    assume a: "a \<in> set (new_alarms (m1\<lparr>am_current := as\<rparr>))" and s: "?I s" and "f a s = (Inr v, t)"
    then obtain u where "add_alarm_info ops ''New'' a s = (Inr (), u)" and t: "t = show_alarm ''New'' a u"
      by (auto simp: f_def andthen_Inr done_with_def)
    moreover have "a \<in> set (am_last m @ as)" using a by (simp add: new_alarms_def list_minus_def)
    ultimately have "am_last u = am_last m" "am_current u = as" "tracked (am_last m @ as) u"
      using add_keeps s by metis+
    then show "?I t" by (simp add: t tracked_def)
  qed
  then show ?thesis
    using clear_all [of "''Cleared''" "cleared_alarms m2" m2] n
    by (fastforce simp: tracked_def cleared_alarms_def list_minus_def split: if_splits)
qed

text \<open>
  The monitors of a thread whose looks have all come to their end: the first one at an empty data base, then one after the
  other. In between anything may change but the data base and the last list.
\<close>

inductive looked :: "'w cba_ops \<Rightarrow> 'w alarm_monitor \<Rightarrow> bool" for ops where
  start: "am_alarms m = [] \<Longrightarrow> first_look ops m = (Inr (), n) \<Longrightarrow> looked ops n"
| again: "looked ops m \<Longrightarrow> am_alarms p = am_alarms m \<Longrightarrow> am_last p = am_last m \<Longrightarrow> sample_alarms ops p = (Inr (), n) \<Longrightarrow>
    looked ops n"

lemma first_look_tracks:
  assumes "first_look ops m = (Inr (), n)" and "am_alarms m = []"
  shows "tracked (am_last n) n"
proof -
  obtain as m1 where l: "listed ops m = (Inr as, m1)"
    and adds: "for_each (add_alarm_info ops ''Initial'') as (m1\<lparr>am_last := as\<rparr>) = (Inr (), n)"
    using assms(1) by (auto simp: first_look_def andthen_Inr)
  have m1: "am_alarms m1 = []"
    using l assms(2) by (auto simp: listed_def on_world_def andthen_Inr split: if_splits prod.splits)
  let ?I = "\<lambda>s. am_last s = as \<and> tracked as s"
  have "?I n"
  proof (rule for_each_keeps [where I = ?I, OF _ _ adds])
    show "?I (m1\<lparr>am_last := as\<rparr>)" using m1 by (simp add: tracked_def)
  next
    fix a s v t
    assume "a \<in> set as" "?I s" "add_alarm_info ops ''Initial'' a s = (Inr v, t)"
    then show "?I t" using add_keeps [of ops "''Initial''" a s t] by auto
  qed
  then show ?thesis by auto
qed

lemma looked_tracks: "looked ops m \<Longrightarrow> tracked (am_last m) m"
proof (induction rule: looked.induct)
  case (start m n)
  then show ?case using first_look_tracks by blast
next
  case (again m p n)
  then have "tracked (am_last p) p" by (simp add: tracked_def)
  with again show ?case using sample_tracks by blast
qed

text \<open>C19: as long as every look at the list of alarms has come to its end without an exception, from the first one on, each alarm
  that is stored and not cleared is in the list that was read last: what is not in the list any more has been cleared. A look that
  is broken off may end this for good, as \<open>aborted_look_leaves_alarm\<close> shows.
\<close>

theorem completed_look_tracks:
  assumes "looked ops m" and "map_of (am_alarms m) a = Some (d, st)" "st \<noteq> ''Cleared''"
  shows "a \<in> set (am_last m)"
  using looked_tracks [OF assms(1)] assms(2,3) by (auto simp: tracked_def)

text \<open>A node with the alarm \<open>1\<close> and then with none.\<close>

definition one_alarm :: string where
  "one_alarm = ''   FmAlarm=1''"

definition one_source :: string where
  "one_source = ''   source=x''"

definition source_details :: "(string, string list) dict" where
  "source_details = map (\<lambda>k. (k, if k = ''source'' then [''x''] else [])) alarm_fields"

lemma read_answers:
  "fill_from_cliss_info [''FmAlarm''] one_alarm = Inr [(''FmAlarm'', [''1''])]"
  "fill_from_cliss_info alarm_fields one_source = Inr source_details"
  by code_simp+

lemma source_details_given: "source_details \<noteq> []"
  by (simp add: source_details_def alarm_fields_def)

lemma scripted_list:
  assumes "fill_from_cliss_info [''FmAlarm''] w = Inr [(''FmAlarm'', as)]" and "am_connected m" and "am_world m = (Inr [] # Inr w # rs, t)"
  shows "listed scripted m = (Inr as, m\<lparr>am_world := (rs, t)\<rparr>)"
  using assms
  by (simp add: listed_def on_world_def alarm_info_def start_alarm_handling_def go_to_def start_cliss_def send_def show_fields_def
      scripted_def next_answer_def done_with_def of_res_def field_def)

lemma scripted_details:
  assumes "am_connected m" and "am_world m = (Inr [] # Inr one_source # rs, t)"
  shows "add_alarm_info scripted st a m =
    (Inr (), m\<lparr>am_world := (rs, t), am_alarms := dict_set a (source_details, st) (am_alarms m)\<rparr>)"
  using assms read_answers(2) source_details_given
  by (simp add: add_alarm_info_def on_world_def get_alarm_info_def alarm_info_def start_alarm_handling_def go_to_def start_cliss_def
      send_def show_fields_def scripted_def next_answer_def done_with_def of_res_def)

lemma completed_look_tracks_witness:
  "\<exists>m n. first_look scripted m = (Inr (), n) \<and> looked scripted n \<and>
     map_of (am_alarms n) ''1'' = Some (source_details, ''Initial'') \<and> ''1'' \<in> set (am_last n)"
proof -
  let ?m = "(alarm_monitor_new ([Inr [], Inr one_alarm, Inr [], Inr one_source], 0))\<lparr>am_connected := True\<rparr>"
  let ?n = "?m\<lparr>am_world := ([], 0), am_last := [''1''], am_alarms := [(''1'', (source_details, ''Initial''))]\<rparr>"
  have r: "first_look scripted ?m = (Inr (), ?n)"
    using scripted_list [OF read_answers(1), of ?m] scripted_details
    by (simp add: first_look_def alarm_monitor_new_def done_with_def)
  then have l: "looked scripted ?n" by (intro looked.start) (simp_all add: alarm_monitor_new_def)
  from completed_look_tracks [OF l, of "''1''"] have "''1'' \<in> set (am_last ?n)" by simp
  with r l show ?thesis by (intro exI [of _ ?m] exI [of _ ?n]) simp
qed

text \<open>
  A look that is broken off keeps the alarms it has stored and the list before: what was added in it and has gone when the connection
  is back is neither new nor missing for the next look, and stays as it is.
\<close>

lemma add_other:
  assumes "add_alarm_info ops st a m = (r, n)"
  shows "am_last n = am_last m \<and> (b \<noteq> a \<longrightarrow> map_of (am_alarms n) b = map_of (am_alarms m) b)"
  using assms
  by (auto simp: add_alarm_info_def on_world_def done_with_def andthen_def dict_simps split: if_splits prod.splits sum.splits)

lemma for_each_keeps_always:
  "(\<And>x s r t. x \<in> set xs \<Longrightarrow> I s \<Longrightarrow> f x s = (r, t) \<Longrightarrow> I t) \<Longrightarrow> I s \<Longrightarrow> for_each f xs s = (r, t) \<Longrightarrow> I t"
proof (induction xs arbitrary: s)
  case (Cons x xs)
  obtain q u where u: "f x s = (q, u)" by (cases "f x s")
  then have "I u" using Cons.prems by (meson list.set_intros(1))
  then have "for_each f xs u = (r, t) \<Longrightarrow> I t" using Cons.IH [of u] Cons.prems(1) by (meson list.set_intros(2))
  with Cons.prems(3) \<open>I u\<close> u show ?case by (cases q) auto
qed (simp add: done_with_def)

lemma listed_keeps: "listed ops m = (r, n) \<Longrightarrow> am_last n = am_last m \<and> am_alarms n = am_alarms m"
  by (auto simp: listed_def on_world_def andthen_def split: if_splits prod.splits sum.splits)

lemma adding_keeps:
  assumes "for_each (\<lambda>a m. andthen (add_alarm_info ops ''New'' a m) (\<lambda>_ m. done_with (show_alarm ''New'' a m))) as m = (r, n)"
  shows "am_last n = am_last m \<and> (b \<notin> set as \<longrightarrow> map_of (am_alarms n) b = map_of (am_alarms m) b)"
proof -
  let ?I = "\<lambda>s. am_last s = am_last m \<and> (b \<notin> set as \<longrightarrow> map_of (am_alarms s) b = map_of (am_alarms m) b)"
  show ?thesis
  proof (rule for_each_keeps_always [where I = ?I, OF _ _ assms])
    fix a s r t
    assume a: "a \<in> set as" "?I s" "andthen (add_alarm_info ops ''New'' a s) (\<lambda>_ m. done_with (show_alarm ''New'' a m)) = (r, t)"
    obtain q u where u: "add_alarm_info ops ''New'' a s = (q, u)" by (cases "add_alarm_info ops ''New'' a s")
    from a(1,2) add_other [OF u, of b] have "?I u" by auto
    moreover have "am_last t = am_last u" "am_alarms t = am_alarms u" using a(3) u by (cases q; auto simp: done_with_def)+
    ultimately show "?I t" by simp
  qed simp
qed

lemma aborted_keeps_last: "sample_alarms ops m = (Inl e, n) \<Longrightarrow> am_last n = am_last m"
  using listed_keeps [of ops m] adding_keeps [of ops]
  by (auto simp: sample_alarms_def Let_def andthen_Inl done_with_def)

lemma unlisted_stays:
  assumes "sample_alarms ops p = (Inr (), q)" and "a \<notin> set (am_last p)" "a \<notin> set (am_current q)"
  shows "map_of (am_alarms q) a = map_of (am_alarms p) a \<and> a \<notin> set (am_last q)"
proof -
  obtain as p1 p2 where l: "listed ops p = (Inr as, p1)"
    and adds: "for_each (\<lambda>a m. andthen (add_alarm_info ops ''New'' a m) (\<lambda>_ m. done_with (show_alarm ''New'' a m)))
      (new_alarms (p1\<lparr>am_current := as\<rparr>)) (p1\<lparr>am_current := as\<rparr>) = (Inr (), p2)"
    and q: "q = (fold (\<lambda>a m. show_alarm ''Cleared'' a (clear_alarm_info a m)) (cleared_alarms p2) p2)
        \<lparr>am_last := am_current (fold (\<lambda>a m. show_alarm ''Cleared'' a (clear_alarm_info a m)) (cleared_alarms p2) p2)\<rparr>"
    using assms(1) by (auto simp: sample_alarms_def andthen_Inr Let_def done_with_def)
  note p1 = listed_keeps [OF l] and p2 = adding_keeps [OF adds, of a] and c = clear_all [of "''Cleared''" "cleared_alarms p2" p2]
  let ?I = "\<lambda>s. am_current s = as"
  have "am_current p2 = as"
  proof (rule for_each_keeps [where I = ?I, OF _ _ adds])
    fix a s v t
    assume "?I s" "andthen (add_alarm_info ops ''New'' a s) (\<lambda>_ m. done_with (show_alarm ''New'' a m)) = (Inr v, t)"
    then show "?I t" using add_keeps(2) by (fastforce simp: andthen_Inr done_with_def)
  qed simp
  moreover from this have "a \<notin> set as" using assms(3) q c by simp
  ultimately have "a \<notin> set (new_alarms (p1\<lparr>am_current := as\<rparr>))" "a \<notin> set (cleared_alarms p2)"
    using assms(2) p1 p2 by (simp_all add: new_alarms_def cleared_alarms_def list_minus_def)
  then show ?thesis
    using p1 p2 c q \<open>a \<notin> set as\<close> \<open>am_current p2 = as\<close> by (simp add: option.map_ident case_prod_unfold)
qed

theorem aborted_look_leaves_alarm:
  assumes "sample_alarms ops m = (Inl e, n)" and "map_of (am_alarms n) a = Some (d, st)" and "a \<notin> set (am_last m)"
    and "am_alarms p = am_alarms n" "am_last p = am_last n"
    and "sample_alarms ops p = (Inr (), q)" and "a \<notin> set (am_current q)"
  shows "map_of (am_alarms q) a = Some (d, st) \<and> a \<notin> set (am_last q)"
  using unlisted_stays [OF assms(6) _ assms(7)] aborted_keeps_last [OF assms(1)] assms(2-5) by simp

definition two_alarms :: string where
  "two_alarms = ''   FmAlarm=1'' @ [CHR 0x0A] @ ''   FmAlarm=2''"

lemma read_two_and_none:
  "fill_from_cliss_info [''FmAlarm''] two_alarms = Inr [(''FmAlarm'', [''1'', ''2''])]"
  "fill_from_cliss_info [''FmAlarm''] one_source = Inr [(''FmAlarm'', [])]"
  by code_simp+

lemma print_source: "print_alarm_info a source_details = Inl (IndexError ''list index out of range'')"
  by code_simp

lemma aborted_look_leaves_alarm_witness:
  "\<exists>m n q. sample_alarms scripted m = (Inl (Conn_error Failed_eof), n) \<and>
     sample_alarms scripted (n\<lparr>am_world := ([Inr [], Inr one_source], 0)\<rparr>) = (Inr (), q) \<and> am_current q = [] \<and>
     map_of (am_alarms q) ''1'' = Some (source_details, ''New'')"
proof -
  let ?m = "(alarm_monitor_new ([Inr [], Inr two_alarms, Inr [], Inr one_source, Inl (Conn_error Failed_eof)], 0))\<lparr>am_connected := True\<rparr>"
  let ?n = "?m\<lparr>am_world := ([], 0), am_current := [''1'', ''2''], am_alarms := [(''1'', (source_details, ''New''))]\<rparr>"
  let ?p = "?n\<lparr>am_world := ([Inr [], Inr one_source], 0)\<rparr>"
  let ?q = "?n\<lparr>am_current := []\<rparr>"
  have fails: "add_alarm_info scripted ''New'' ''2'' s = (Inl (Conn_error Failed_eof), s\<lparr>am_world := ([], 0)\<rparr>)"
    if "am_connected s" "am_world s = ([Inl (Conn_error Failed_eof)], 0)" for s
    using that
    by (simp add: add_alarm_info_def on_world_def get_alarm_info_def alarm_info_def start_alarm_handling_def go_to_def start_cliss_def
        send_def scripted_def next_answer_def done_with_def)
  have m: "sample_alarms scripted ?m = (Inl (Conn_error Failed_eof), ?n)"
    using scripted_list [OF read_two_and_none(1), of ?m] scripted_details fails print_source
    by (simp add: sample_alarms_def Let_def new_alarms_def list_minus_def alarm_monitor_new_def done_with_def show_alarm_def)
  have q: "sample_alarms scripted ?p = (Inr (), ?q)"
    using scripted_list [OF read_two_and_none(2), of ?p]
    by (simp add: sample_alarms_def Let_def new_alarms_def cleared_alarms_def list_minus_def alarm_monitor_new_def done_with_def)
  have "map_of (am_alarms ?q) ''1'' = Some (source_details, ''New'') \<and> ''1'' \<notin> set (am_last ?q)"
    using aborted_look_leaves_alarm [OF m _ _ _ _ q, of "''1''" source_details "''New''"] by (simp add: alarm_monitor_new_def)
  with m q show ?thesis by (intro exI [of _ ?m] exI [of _ ?n] exI [of _ ?q]) simp
qed

section \<open>Lost connections\<close>

text \<open>Who is not allowed to reconnect, or forced to leave, is out with the next turn.\<close>

definition may_leave :: "'w alarm_monitor \<Rightarrow> bool" where
  "may_leave m \<longleftrightarrow> \<not> am_allow m \<or> am_exit m"

lemma fold_show [simp]:
  "am_allow (fold (show_alarm st) as m) = am_allow m" "am_exit (fold (show_alarm st) as m) = am_exit m"
  by (induction as arbitrary: m) simp_all

context cba_laws
begin

lemma alarm_handling_time:
  "start_alarm_handling ops [] (cb_release ops HSSADMIN w) = (r, v) \<Longrightarrow> cb_time ops w \<le> cb_time ops v"
  by (metis clock trans release start_alarm_handling snd_conv)

lemma base_shutdown_leaves: "am_connected m \<Longrightarrow> may_leave (alarm_base_shutdown ops m)"
  by (simp add: may_leave_def alarm_base_shutdown_def show_not_cleared_alarms_def pause_for_def Let_def)

lemma interfere_leaves: "may_leave m \<Longrightarrow> may_leave (interfere (alarm_base_shutdown ops) x m)"
  by (auto simp: may_leave_def interfere_def activate_force_exit_def alarm_base_shutdown_def show_not_cleared_alarms_def pause_for_def Let_def
      split: outside.split)

lemma interfere_connected:
  "am_connected m \<or> may_leave m \<Longrightarrow>
     am_connected (interfere (alarm_base_shutdown ops) x m) \<or> may_leave (interfere (alarm_base_shutdown ops) x m)"
  using interfere_leaves [of m x] base_shutdown_leaves [of m]
  by (cases x) (auto simp: interfere_def activate_force_exit_def may_leave_def)

lemma leaving_ends: "may_leave m \<Longrightarrow> xs \<noteq> [] \<Longrightarrow> fst (alarm_reconnect ops (alarm_base_shutdown ops) xs left m) \<noteq> None"
  using interfere_leaves [of m "hd xs"] by (cases xs) (auto simp: Let_def may_leave_def)

lemma base_reconnect_ends:
  "am_connected m \<or> may_leave m \<Longrightarrow> left < 10 * of_nat n \<Longrightarrow> (left < 0 \<longrightarrow> may_leave m) \<Longrightarrow> n < length xs \<Longrightarrow>
     fst (alarm_reconnect ops (alarm_base_shutdown ops) xs left m) \<noteq> None"
proof (induction n arbitrary: left m xs)
  case 0
  then show ?case using leaving_ends [of m xs left] by (cases xs) auto
next
  case (Suc n)
  from Suc.prems(4) obtain x ys where xs: "xs = x # ys" and ys: "n < length ys" by (cases xs) auto
  define a where "a = interfere (alarm_base_shutdown ops) x m"
  show ?case
  proof (cases "may_leave a")
    case True
    then show ?thesis by (simp add: xs a_def may_leave_def Let_def)
  next
    case False
    then have c: "am_connected a" using interfere_connected [OF Suc.prems(1), of x] by (simp add: a_def)
    obtain r w where r: "start_alarm_handling ops [] (cb_release ops HSSADMIN (cb_sleep ops 10 (am_world a))) = (r, w)" by force
    let ?q = "(pause_for ops 10 a)\<lparr>am_world := w\<rparr>" and ?l = "left - (cb_time ops w - cb_time ops (am_world a))"
    have step: "alarm_reconnect ops (alarm_base_shutdown ops) xs left m =
        (case r of Inr _ \<Rightarrow> (Some ys, ?q\<lparr>am_running := True\<rparr>)
         | Inl _ \<Rightarrow> alarm_reconnect ops (alarm_base_shutdown ops) ys ?l (if ?l < 0 then alarm_base_shutdown ops ?q else ?q))"
      using False c r by (simp add: xs a_def [symmetric] may_leave_def on_world_def pause_for_def Let_def split: sum.split)
    have "cb_time ops (am_world a) + 10 \<le> cb_time ops w"
      using advance [of 10 "am_world a"] alarm_handling_time [OF r] by simp
    with Suc.prems(2) have l: "?l < 10 * of_nat n" by simp
    have q: "am_connected ?q" using c by (simp add: pause_for_def)
    have "fst (alarm_reconnect ops (alarm_base_shutdown ops) ys ?l (if ?l < 0 then alarm_base_shutdown ops ?q else ?q)) \<noteq> None"
      using q base_shutdown_leaves [OF q] by (intro Suc.IH l ys) auto
    then show ?thesis unfolding step by (auto split: sum.split)
  qed
qed

end

text \<open>C20: the monitor of the base class gives up on a lost connection: whatever the node answers, it is out of the loop after at most one
  turn for ten seconds of the time it is allowed, and one more.
\<close>

theorem base_monitor_gives_up:
  assumes "am_connected m" "0 \<le> am_max_time m" "am_max_time m < 10 * of_nat n" "n < length xs"
  shows "fst (alarm_reconnect (cba_methods ev) (alarm_base_shutdown (cba_methods ev)) xs (am_max_time m) m) \<noteq> None"
  using assms by (intro cba_method.base_reconnect_ends [where n = n]) auto

lemma base_monitor_gives_up_witness:
  "\<forall>c. fst (alarm_reconnect (cba_methods (\<lambda>_. None)) (alarm_base_shutdown (cba_methods (\<lambda>_. None))) (replicate 32 Quiet) 300
     ((alarm_monitor_new c)\<lparr>am_connected := True\<rparr>)) \<noteq> None"
  using base_monitor_gives_up [of "(alarm_monitor_new c)\<lparr>am_connected := True\<rparr>" 31 "replicate 32 Quiet" "\<lambda>_. None" for c]
  by (simp add: alarm_monitor_new_def)

text \<open>C21: the monitor of the test tool does not: its own \<open>shutdown\<close> leaves the permission to reconnect, so it stays in the loop as long as the
  node cannot be reached or after it has been shut down, however long that is and whoever shuts it down in between.
\<close>

theorem tool_monitor_never_gives_up:
  assumes "\<And>w. \<exists>e v. start_alarm_handling ops [] (cb_release ops HSSADMIN w) = (Inl e, v)"
    and "am_allow m" "\<not> am_exit m" "Force_exit \<notin> set xs"
  shows "fst (alarm_reconnect ops (rtc_shutdown ops) xs left m) = None"
  using assms(2-)
proof (induction xs arbitrary: left m)
  case (Cons x xs)
  let ?a = "interfere (rtc_shutdown ops) x m"
  have a: "am_allow ?a" "\<not> am_exit ?a"
    using Cons.prems by (auto simp: interfere_def rtc_shutdown_def pause_for_def split: outside.splits)
  obtain e v where f: "start_alarm_handling ops [] (cb_release ops HSSADMIN (cb_sleep ops 10 (am_world ?a))) = (Inl e, v)"
    using assms(1) by blast
  have on: "fst (alarm_reconnect ops (rtc_shutdown ops) xs left q) = None" if "am_allow q" "\<not> am_exit q" for left q
    using Cons.IH Cons.prems(3) that by simp
  have "fst (alarm_reconnect ops (rtc_shutdown ops) xs left (if b then rtc_shutdown ops q else q)) = None"
    if "am_allow q" "\<not> am_exit q" for left b q
    using that by (intro on) (auto simp: rtc_shutdown_def pause_for_def)
  then show ?case
    using a f by (simp add: on_world_def pause_for_def Let_def)
qed simp

lemma tool_monitor_never_gives_up_witness:
  "fst (alarm_reconnect (scripted\<lparr>cb_start := \<lambda>h i u w. (Inl (Conn_error Connection_timeout), w)\<rparr>)
     (rtc_shutdown (scripted\<lparr>cb_start := \<lambda>h i u w. (Inl (Conn_error Connection_timeout), w)\<rparr>))
     (Shut # replicate 100 Quiet) 300 ((alarm_monitor_new ([], 0))\<lparr>am_connected := True\<rparr>)) = None"
  by (rule tool_monitor_never_gives_up)
    (auto simp: start_alarm_handling_def go_to_def start_cliss_def alarm_monitor_new_def)

section \<open>A refused listing\<close>

text \<open>When the node answers the request for the list of alarms with an error, the thread dies: the answer has no field, the exception
  is not one of a lost connection, and the monitor still counts as running.
\<close>

theorem refused_listing_ends_thread:
  assumes "am_connected m" "am_running m" "\<not> am_exit m"
    and "start_alarm_handling ops [] (cb_sleep ops (am_sampling m) (am_world m)) = (Inr (), u)"
    and "cb_full ops (Some HSSADMIN) ''show -v'' u = (Inr a, v)" "contains ''ERROR:'' a"
  shows "watch ops shut (Suc n) (Quiet # xs) m =
     (Died (Conn_error (Conn_raised (KeyError ''FmAlarm''))), m\<lparr>am_world := v\<rparr>)"
  using assms
  by (simp add: interfere_def sample_alarms_def listed_def pause_for_def on_world_def alarm_info_def show_fields_def fill_from_cliss_info_def
      of_res_def field_def broken_connection_def)

lemma refused_listing_ends_thread_witness:
  "fst (watch scripted (rtc_shutdown scripted) 1 [Quiet]
     ((alarm_monitor_new ([Inr [], Inr ''ERROR: no''], 0))\<lparr>am_connected := True, am_running := True\<rparr>)) =
     Died (Conn_error (Conn_raised (KeyError ''FmAlarm'')))"
proof -
  let ?m = "(alarm_monitor_new ([Inr [], Inr ''ERROR: no''], 0))\<lparr>am_connected := True, am_running := True\<rparr>"
  have "start_alarm_handling scripted [] (cb_sleep scripted (am_sampling ?m) (am_world ?m)) = (Inr (), ([Inr ''ERROR: no''], 1))"
    by (simp add: start_alarm_handling_def go_to_def start_cliss_def send_def scripted_def next_answer_def done_with_def
        alarm_monitor_new_def)
  from refused_listing_ends_thread [OF _ _ _ this, of "''ERROR: no''" "([], 1)" "rtc_shutdown scripted" 0 "[]"]
  show ?thesis by (simp add: scripted_def next_answer_def alarm_monitor_new_def startswith_def)
qed

end
