(* ===== verification/Alarm_Log.thy ===== *)
theory Alarm_Log
  imports Cba_Node "HOL-Library.Char_ord"
begin

text \<open>
  The thread that reads the log of alarm events of a CBA node: \<open>AlarmLogEventHandlerBaseCBA\<close> of \<open>hss_utils/src/node/cba.py\<close> with
  the methods of \<open>Cba\<close> on log files, and what the test cases ask of it (\<open>CBA_TestCaseBase\<close> of
  \<open>HSS_rtc_lib/components/test_cases.py\<close>: the expected alarms).
\<close>

section \<open>Log files\<close>

definition alarm_path :: string where "alarm_path = ''/var/filem/nbi_root/AlarmLogs''"

text \<open>\<open>conId_for_log\<close>: a connection of the user \<open>com-emergency\<close>, made when it is first asked for.\<close>

definition log_connection :: "cba \<Rightarrow> string node_res \<times> cba" where
  "log_connection c =
     (case ca_log_id c of
        Some i \<Rightarrow> (Inr i, c)
      | None \<Rightarrow>
          except unauthorized
            (andthen (of_res (credential ''com-emergency'' c), c) (\<lambda>pw c.
             andthen (cba_create (config_of (ca_host c) (ca_port c) ''com-emergency'' pw) StandardLinux True ''com-emergency'' c) (\<lambda>_ c.
               (Inr ''com-emergency'', c\<lparr>ca_log_id := Some ''com-emergency''\<rparr>))))
            (\<lambda>c. (Inr ''main'', c\<lparr>ca_log_id := Some ''main''\<rparr>)))"

definition file_name :: "string \<Rightarrow> string" where
  "file_name l = clear_ansi (last (split_on (CHR ''/'') l))"

definition find_logs :: "string \<Rightarrow> string \<Rightarrow> cba \<Rightarrow> string list node_res \<times> cba" where
  "find_logs path wildcard c =
     andthen (log_connection c) (\<lambda>i c.
     andthen (cb_lines cba_run (Some i) (''ls -Art '' @ path @ ''/'' @ wildcard) c) (\<lambda>ls c.
       (Inr (map file_name (takeWhile (\<lambda>l. \<not> startswith l ''ls:'') ls)), c)))"

definition get_log_info :: "string \<Rightarrow> cba \<Rightarrow> string node_res \<times> cba" where
  "get_log_info file c = andthen (log_connection c) (\<lambda>i. cb_full cba_run (Some i) (''cat '' @ file))"

definition logs :: "string \<Rightarrow> string \<Rightarrow> cba \<Rightarrow> string list node_res \<times> cba" where
  "logs path wildcard c = andthen (find_logs path wildcard c) (\<lambda>ls c. (Inr (map file_name ls), c))"

text \<open>The latest log with two underscores.\<close>

definition active_log :: "string \<Rightarrow> string \<Rightarrow> cba \<Rightarrow> string option node_res \<times> cba" where
  "active_log path wildcard c =
     andthen (logs path wildcard c) (\<lambda>ls c. (Inr (List.find (\<lambda>l. length (filter (\<lambda>x. x = CHR ''_'') l) = 2) (rev ls)), c))"

section \<open>State\<close>

record event =
  ev_data :: "(string, string) dict"
  ev_state :: string

text \<open>
  \<open>al_connected\<close>: \<open>connection\<close> is not \<open>None\<close>. \<open>al_outside\<close>: what other threads do before each of the next turns of a loop.
\<close>

datatype outsider = Calm | Forced | Shut_down

record alarm_log =
  al_cba :: cba
  al_connected :: bool
  al_running :: bool
  al_allow :: bool
  al_exit :: bool
  al_host :: string
  al_max_time :: rat
  al_sampling :: rat
  al_last_event :: string
  al_last_log :: "string option"
  al_events :: "(string, event) dict"
  al_shown :: "string list"
  al_outside :: "outsider list"

definition alarm_log_new :: "string \<Rightarrow> cba \<Rightarrow> outsider list \<Rightarrow> alarm_log" where
  "alarm_log_new host c xs =
     \<lparr>al_cba = c, al_connected = False, al_running = False, al_allow = True, al_exit = False, al_host = host, al_max_time = 300,
      al_sampling = 10, al_last_event = ''2001'', al_last_log = None, al_events = [], al_shown = [], al_outside = xs\<rparr>"

section \<open>Events\<close>

text \<open>\<open>event_info\<close>: every stored event has these fields.\<close>

definition event_fields :: "(string \<times> nat) list" where
  "event_fields =
     [(''lastEventTime'', 1), (''source'', 2), (''specificProblem'', 5), (''additionalText'', 8), (''eventType'', 10),
      (''activeSeverity'', 12), (''originalAdditionalText'', 13)]"

definition event_data :: "string list \<Rightarrow> (string, string) dict" where
  "event_data info = map (\<lambda>(k, i). (k, info ! i)) event_fields"

definition event_value :: "string \<Rightarrow> event \<Rightarrow> string" where
  "event_value k e = (case map_of (ev_data e) k of Some v \<Rightarrow> v | None \<Rightarrow> [])"

definition event_info :: "string \<Rightarrow> event \<Rightarrow> string" where
  "event_info i e =
     join [CHR 0x0A, CHR 0x09] ((''LogTimestamp - sequence number: '' @ i) # map (\<lambda>k. event_value k e)
       [''activeSeverity'', ''eventType'', ''lastEventTime'', ''source'', ''specificProblem'', ''additionalText'', ''originalAdditionalText''])"

definition show_event :: "string \<Rightarrow> alarm_log \<Rightarrow> alarm_log" where
  "show_event i m =
     (case map_of (al_events m) i of
        None \<Rightarrow> m
      | Some e \<Rightarrow> m\<lparr>al_shown := al_shown m @ [[CHR 0x0A] @ ev_state e @ ''     '' @ event_info i e @ [CHR 0x0A]]\<rparr>)"

definition shown_if :: "bool \<Rightarrow> string \<Rightarrow> alarm_log \<Rightarrow> alarm_log" where
  "shown_if b i m = (if b then show_event i m else m)"

text \<open>
  A record of the log, its time stamp and its text: only what is later than the last processed event counts. A cleared alarm that is not
  known is left out.
\<close>

definition store_event :: "string \<Rightarrow> bool \<Rightarrow> string list \<Rightarrow> alarm_log \<Rightarrow> alarm_log" where
  "store_event initial show info m =
     (let i = info ! 11 @ '' - '' @ info ! 14
      in if info ! 7 \<noteq> ''CLEARED''
         then shown_if show i (m\<lparr>al_events := dict_set i \<lparr>ev_data = event_data info, ev_state = initial\<rparr> (al_events m)\<rparr>)
         else if i \<in> set (dict_keys (al_events m))
         then shown_if show i (m\<lparr>al_events := dict_modify i (\<lambda>e. e\<lparr>ev_state := ''Cleared''\<rparr>) (al_events m)\<rparr>)
         else m)"

definition process_record :: "string \<Rightarrow> bool \<Rightarrow> string \<times> string \<Rightarrow> alarm_log \<Rightarrow> unit node_res \<times> alarm_log" where
  "process_record initial show r m =
     (if al_last_event m < fst r then
        (let info = split_on (CHR '';'') (snd r)
         in if length info < 15 then (Inl (Conn_error (Conn_raised (IndexError ''list index out of range''))), m)
            else done_with ((store_event initial show info m)\<lparr>al_last_event := fst r\<rparr>))
      else done_with m)"

definition process_records :: "string \<Rightarrow> bool \<Rightarrow> (string \<times> string) list \<Rightarrow> alarm_log \<Rightarrow> unit node_res \<times> alarm_log" where
  "process_records initial show = for_each (process_record initial show)"

definition find_event :: "string \<Rightarrow> alarm_log \<Rightarrow> string list" where
  "find_event state m = dict_keys (filter (\<lambda>(_, e). ev_state e = state) (al_events m))"

text \<open>A missing event runs into a misspelt name.\<close>

definition remove_event :: "string \<Rightarrow> alarm_log \<Rightarrow> unit node_res \<times> alarm_log" where
  "remove_event i m =
     (if i \<in> set (dict_keys (al_events m)) then done_with (m\<lparr>al_events := dict_del i (al_events m)\<rparr>)
      else (Inl (Conn_error (Conn_raised (NameError ''global name Keyerror is not defined''))), m))"

text \<open>\<open>None\<close>: a field of the filter is missing.\<close>

fun event_matches :: "(string, string) dict \<Rightarrow> event \<Rightarrow> bool option" where
  "event_matches [] e = Some True"
| "event_matches ((k, v) # f) e =
     (case map_of (ev_data e) k of
        None \<Rightarrow> None
      | Some u \<Rightarrow> if contains v u then event_matches f e else Some False)"

fun event_state_in :: "(string, string) dict \<Rightarrow> (string \<times> event) list \<Rightarrow> (string \<times> string) option" where
  "event_state_in f [] = None"
| "event_state_in f ((i, e) # es) =
     (if ev_state e = ''Initial'' then event_state_in f es
      else case event_matches f e of
        None \<Rightarrow> None
      | Some True \<Rightarrow> Some (i, ev_state e)
      | Some False \<Rightarrow> event_state_in f es)"

definition event_state :: "(string, string) dict \<Rightarrow> alarm_log \<Rightarrow> (string \<times> string) option" where
  "event_state f m = event_state_in f (al_events m)"

definition report_not_cleared_events :: "alarm_log \<Rightarrow> alarm_log" where
  "report_not_cleared_events m = fold show_event (find_event ''New'' m) m"

definition not_cleared_events_info :: "alarm_log \<Rightarrow> string" where
  "not_cleared_events_info m =
     [CHR 0x0A] @ concat (map (\<lambda>(i, e). event_info i e @ [CHR 0x0A]) (filter (\<lambda>(_, e). ev_state e = ''New'') (al_events m)))"

section \<open>Lost connections\<close>

definition on_cba :: "(cba \<Rightarrow> 'a node_res \<times> cba) \<Rightarrow> alarm_log \<Rightarrow> 'a node_res \<times> alarm_log" where
  "on_cba f m = (case f (al_cba m) of (r, c) \<Rightarrow> (r, m\<lparr>al_cba := c\<rparr>))"

definition al_now :: "alarm_log \<Rightarrow> rat" where
  "al_now m = ca_now (al_cba m)"

definition al_sleep :: "rat \<Rightarrow> alarm_log \<Rightarrow> alarm_log" where
  "al_sleep t m = m\<lparr>al_cba := cb_sleep cba_run t (al_cba m)\<rparr>"

definition log_shutdown :: "bool \<Rightarrow> alarm_log \<Rightarrow> alarm_log" where
  "log_shutdown wait m =
     (let m = m\<lparr>al_exit := True, al_running := False\<rparr>
      in if \<not> al_connected m then m
         else let m = m\<lparr>al_allow := False\<rparr>
           in (if wait then al_sleep (al_sampling m + 1) m else m)\<lparr>al_connected := False\<rparr>)"

definition disturb :: "outsider \<Rightarrow> alarm_log \<Rightarrow> alarm_log" where
  "disturb x m = (case x of Calm \<Rightarrow> m | Forced \<Rightarrow> m\<lparr>al_exit := True\<rparr> | Shut_down \<Rightarrow> log_shutdown True m)"

definition no_connection :: "node_error" where
  "no_connection = Conn_error (Conn_raised (AttributeError ''NoneType''))"

text \<open>A new main connection to the host of the beginning.\<close>

definition connect_again :: "alarm_log \<Rightarrow> unit node_res \<times> alarm_log" where
  "connect_again m =
     (if \<not> al_connected m then (Inl no_connection, m)
      else on_cba (\<lambda>c.
        andthen (log_connection (cba_release ''main'' c)) (\<lambda>i c.
        andthen (own_connection ''main'' ((cba_release i c)\<lparr>ca_host := al_host m\<rparr>)) (\<lambda>_ c.
          on_node (open_connection ''main'') (make_default c)))) m)"

text \<open>
  The two nested loops of \<open>reconnect\<close>: \<open>waiting\<close> is the inner one, which waits for the status of the system. The result is what the
  method returns and the turns that are left; \<open>None\<close>: still in the loops.
\<close>

fun log_reconnect ::
  "(string \<Rightarrow> pval option) \<Rightarrow> bool \<Rightarrow> outsider list \<Rightarrow> rat \<Rightarrow> alarm_log \<Rightarrow> (bool \<times> outsider list) option \<times> alarm_log" where
  "log_reconnect ev waiting [] left m = (None, m)"
| "log_reconnect ev False (x # xs) left m =
     (let a = disturb x m
      in if \<not> al_allow a \<or> al_exit a then (Some (False, xs), a)
         else case connect_again (al_sleep 15 a) of
           (r, b) \<Rightarrow>
             (let left = left - (al_now b - al_now a)
              in case r of
                   Inr _ \<Rightarrow> log_reconnect ev True xs left b
                 | Inl _ \<Rightarrow> log_reconnect ev False xs left (if left < 0 then log_shutdown True b else b)))"
| "log_reconnect ev True (x # xs) left m =
     (let a = disturb x m
      in if al_exit a then (Some (False, xs), a)
         else case (if al_connected a then on_cba node_status_OK a else (Inl no_connection, a)) of
           (r, b) \<Rightarrow>
             if r = Inr True then
               (case on_cba (force_primary_controller ev) b of
                  (Inr _, c) \<Rightarrow> (Some (True, xs), c\<lparr>al_running := True, al_cba := (al_cba c)\<lparr>ca_log_id := None\<rparr>\<rparr>)
                | (Inl _, c) \<Rightarrow>
                    (let left = left - (al_now c - al_now a)
                     in log_reconnect ev False xs left (if left < 0 then log_shutdown True c else c)))
             else
               (let c = al_sleep 5 b; left = left - (al_now c - al_now a)
                in log_reconnect ev True xs left (if left < 0 then log_shutdown True c else c)))"

text \<open>The methods of the thread may not come back from \<open>reconnect\<close> within the turns.\<close>

datatype log_error = Raised node_error | Hung

definition reconnect_log :: "(string \<Rightarrow> pval option) \<Rightarrow> alarm_log \<Rightarrow> (log_error + bool) \<times> alarm_log" where
  "reconnect_log ev m =
     (case log_reconnect ev False (al_outside m) (al_max_time m) m of
        (None, n) \<Rightarrow> (Inl Hung, n\<lparr>al_outside := []\<rparr>)
      | (Some (b, xs), n) \<Rightarrow> (Inr b, n\<lparr>al_outside := xs\<rparr>))"

definition on_node_log :: "(cba \<Rightarrow> 'a node_res \<times> cba) \<Rightarrow> alarm_log \<Rightarrow> (log_error + 'a) \<times> alarm_log" where
  "on_node_log f m =
     (case (if al_connected m then on_cba f m else (Inl no_connection, m)) of
        (Inl e, n) \<Rightarrow> (Inl (Raised e), n)
      | (Inr v, n) \<Rightarrow> (Inr v, n))"

section \<open>Reading the log\<close>

definition last_log :: "(string \<Rightarrow> pval option) \<Rightarrow> alarm_log \<Rightarrow> (log_error + string option) \<times> alarm_log" where
  "last_log ev m =
     (if \<not> al_connected m then (Inr None, m)
      else andthen (on_node_log (active_log alarm_path ''*.log'') m) (\<lambda>a m.
        case a of
          Some l \<Rightarrow> (Inr (Some l), m)
        | None \<Rightarrow>
            andthen (reconnect_log ev m) (\<lambda>b m.
              if b then on_node_log (active_log alarm_path ''*.log'') m else (Inr None, m))))"

text \<open>
  The logs that begin like the last one, and the active one if it is a new one. Without an active log the name of the file is not a text, which
  raises when the path is joined.
\<close>

definition log_to_process :: "(string \<Rightarrow> pval option) \<Rightarrow> alarm_log \<Rightarrow> (log_error + string option list) \<times> alarm_log" where
  "log_to_process ev m =
     (case al_last_log m of
        None \<Rightarrow> (Inr [], m)
      | Some l \<Rightarrow>
          andthen (on_node_log (find_logs alarm_path (hd (split_on (CHR ''.'') l) @ ''*'')) m) (\<lambda>ls m.
            if ls = [] then (Inr [], m)
            else andthen (last_log ev m) (\<lambda>active m.
              if Some l \<noteq> active then (Inr (map Some ls @ [active]), al_sleep 2 (m\<lparr>al_last_log := active\<rparr>))
              else (Inr (map Some ls), m))))"

fun read_logs :: "string option list \<Rightarrow> alarm_log \<Rightarrow> (log_error + string) \<times> alarm_log" where
  "read_logs [] m = (Inr [], m)"
| "read_logs (None # ls) m = (Inl (Raised (Conn_error (Conn_raised (AttributeError ''startswith'')))), m)"
| "read_logs (Some l # ls) m =
     andthen (on_node_log (get_log_info (path_join alarm_path l)) m) (\<lambda>a m.
     andthen (read_logs ls m) (\<lambda>b m. (Inr (a @ b), m)))"

definition get_event_info_from_log :: "(string \<Rightarrow> pval option) \<Rightarrow> alarm_log \<Rightarrow> (log_error + string) \<times> alarm_log" where
  "get_event_info_from_log ev m =
     andthen (log_to_process ev m) (\<lambda>ls m.
     andthen (read_logs ls m) (\<lambda>a m. (Inr (''<data>'' @ [CHR 0x0A] @ a @ [CHR 0x0A] @ ''</data>''), m)))"

text \<open>\<open>xml\<close> reads the records of a text: time stamp and text of the alarm; it raises if the text is not well-formed.\<close>

definition raising :: "'a node_res \<times> 's \<Rightarrow> (log_error + 'a) \<times> 's" where
  "raising p = (case p of (Inl e, s) \<Rightarrow> (Inl (Raised e), s) | (Inr v, s) \<Rightarrow> (Inr v, s))"

definition process_events ::
  "(string \<Rightarrow> pval option) \<Rightarrow> (string \<Rightarrow> (string \<times> string) list res) \<Rightarrow> string \<Rightarrow> bool \<Rightarrow> alarm_log \<Rightarrow> (log_error + unit) \<times> alarm_log" where
  "process_events ev xml initial show m =
     andthen (get_event_info_from_log ev m) (\<lambda>a m.
     andthen (raising (of_res (xml a), m)) (\<lambda>rs m. raising (process_records initial show rs m)))"

definition initialize_last_processed_event ::
  "(string \<Rightarrow> pval option) \<Rightarrow> (string \<Rightarrow> (string \<times> string) list res) \<Rightarrow> alarm_log \<Rightarrow> (log_error + unit) \<times> alarm_log" where
  "initialize_last_processed_event ev xml m =
     andthen (get_event_info_from_log ev m) (\<lambda>a m.
     andthen (raising (of_res (xml a), m)) (\<lambda>rs m.
       done_with (if rs = [] then m else m\<lparr>al_last_event := fst (last rs)\<rparr>)))"

text \<open>\<open>connect\<close>: what the constructor of \<open>Cba\<close> gives. The result says whether the thread is started.\<close>

definition start_log_handling ::
  "(string \<Rightarrow> pval option) \<Rightarrow> (string \<Rightarrow> (string \<times> string) list res) \<Rightarrow> (node_error + cba) \<Rightarrow> alarm_log \<Rightarrow> (log_error + bool) \<times> alarm_log" where
  "start_log_handling ev xml connect m =
     (let m = (if al_running m then m
               else case connect of
                 Inl _ \<Rightarrow> m
               | Inr c \<Rightarrow>
                   (case force_primary_controller ev c of
                      (Inl _, c) \<Rightarrow> m\<lparr>al_cba := c, al_connected := True\<rparr>
                    | (Inr _, c) \<Rightarrow> m\<lparr>al_cba := c, al_connected := True, al_running := True\<rparr>))
      in andthen (last_log ev m) (\<lambda>l m.
           let m = m\<lparr>al_last_log := l\<rparr>
           in if l = None then (Inr False, log_shutdown False m)
              else andthen (initialize_last_processed_event ev xml m) (\<lambda>_ m. (Inr True, m))))"

text \<open>How the thread is left.\<close>

datatype log_end = Log_on | Log_ended | Log_died node_error

definition after_error :: "(string \<Rightarrow> pval option) \<Rightarrow> (log_error + unit) \<times> alarm_log \<Rightarrow> log_end option \<times> alarm_log" where
  "after_error ev p =
     (case p of
        (Inr _, m) \<Rightarrow> (None, m)
      | (Inl Hung, m) \<Rightarrow> (Some Log_on, m)
      | (Inl (Raised e), m) \<Rightarrow>
          if broken e then (case reconnect_log ev m of (Inl _, m) \<Rightarrow> (Some Log_on, m) | (Inr _, m) \<Rightarrow> (None, m))
          else (Some (Log_died e), m))"

fun log_loop ::
  "(string \<Rightarrow> pval option) \<Rightarrow> (string \<Rightarrow> (string \<times> string) list res) \<Rightarrow> nat \<Rightarrow> alarm_log \<Rightarrow> log_end \<times> alarm_log" where
  "log_loop ev xml 0 m = (Log_on, m)"
| "log_loop ev xml (Suc n) m =
     (case al_outside m of
        [] \<Rightarrow> (Log_on, m)
      | x # xs \<Rightarrow>
          (let m = disturb x (m\<lparr>al_outside := xs\<rparr>)
           in if \<not> al_running m \<or> al_exit m then (Log_ended, m)
              else case after_error ev (process_events ev xml ''New'' True (al_sleep (al_sampling m) m)) of
                (Some r, m) \<Rightarrow> (r, m)
              | (None, m) \<Rightarrow> log_loop ev xml n m))"

definition log_run ::
  "(string \<Rightarrow> pval option) \<Rightarrow> (string \<Rightarrow> (string \<times> string) list res) \<Rightarrow> nat \<Rightarrow> alarm_log \<Rightarrow> log_end \<times> alarm_log" where
  "log_run ev xml n m =
     (case after_error ev (process_events ev xml ''Initial'' False m) of
        (Some r, m) \<Rightarrow> (r, m)
      | (None, m) \<Rightarrow> log_loop ev xml n m)"

end
