(* ===== verification/Alarm_Log_Props.thy ===== *)
theory Alarm_Log_Props
  imports Alarm_Log Cba_Runs
begin

text \<open>
  The thread that reads the log of alarm events: what reading the same log again does, and that it comes back from a lost
  connection.
\<close>

section \<open>Reading a log that grows\<close>

lemma stored_last [simp]: "al_last_event (store_event i s info m) = al_last_event m"
  by (auto simp: store_event_def shown_if_def show_event_def Let_def split: option.split)

lemma record_skipped: "fst r \<le> al_last_event m \<Longrightarrow> process_record i s r m = (Inr (), m)"
  by (auto simp: process_record_def done_with_def)

lemma record_done:
  "process_record i s r m = (Inr v, n) \<Longrightarrow>
     n = (if al_last_event m < fst r then (store_event i s (split_on (CHR '';'') (snd r)) m)\<lparr>al_last_event := fst r\<rparr> else m)"
  by (auto simp: process_record_def done_with_def Let_def split: if_splits)

lemma records_append:
  "process_records i s (rs @ ss) m = andthen (process_records i s rs m) (\<lambda>_. process_records i s ss)"
  by (induction rs arbitrary: m) (auto simp: process_records_def done_with_def andthen_def split: prod.split sum.split)

lemma records_skipped: "(\<And>r. r \<in> set rs \<Longrightarrow> fst r \<le> al_last_event m) \<Longrightarrow> process_records i s rs m = (Inr (), m)"
  by (induction rs) (simp_all add: process_records_def record_skipped done_with_def)

lemma records_done:
  "process_records i s rs m = (Inr v, n) \<Longrightarrow> al_last_event m \<le> al_last_event n \<and> (\<forall>r \<in> set rs. fst r \<le> al_last_event n)"
proof (induction rs arbitrary: m)
  case (Cons r rs)
  then obtain u a where r: "process_record i s r m = (Inr u, a)" and rs: "process_records i s rs a = (Inr v, n)"
    by (auto simp: process_records_def andthen_Inr)
  have "al_last_event m \<le> al_last_event a" "fst r \<le> al_last_event a"
    using record_done [OF r] by (auto simp: less_imp_le leI)
  with Cons.IH [OF rs] show ?case by auto
qed (simp add: process_records_def done_with_def)

text \<open>In a log with ascending time stamps every record counts.\<close>

lemma last_forgotten: "store_event i s info (m\<lparr>al_last_event := t\<rparr>) = (store_event i s info m)\<lparr>al_last_event := t\<rparr>"
  by (auto simp: store_event_def shown_if_def show_event_def Let_def split: option.split)

lemma fold_last_forgotten:
  "fold (\<lambda>r. store_event i s (f r)) rs (m\<lparr>al_last_event := t\<rparr>) = (fold (\<lambda>r. store_event i s (f r)) rs m)\<lparr>al_last_event := t\<rparr>"
  by (induction rs arbitrary: m) (simp_all add: last_forgotten)

lemma ascending_records:
  "process_records i s rs m = (Inr v, n) \<Longrightarrow> sorted_wrt (<) (al_last_event m # map fst rs) \<Longrightarrow>
     al_events n = al_events (fold (\<lambda>r. store_event i s (split_on (CHR '';'') (snd r))) rs m)"
proof (induction rs arbitrary: m)
  case (Cons r rs)
  then obtain u a where r: "process_record i s r m = (Inr u, a)" and rs: "process_records i s rs a = (Inr v, n)"
    by (auto simp: process_records_def andthen_Inr)
  have "a = (store_event i s (split_on (CHR '';'') (snd r)) m)\<lparr>al_last_event := fst r\<rparr>"
    using record_done [OF r] Cons.prems(2) by simp
  with Cons.IH [OF rs] Cons.prems(2) show ?case by (simp add: fold_last_forgotten)
qed (simp add: process_records_def done_with_def)

text \<open>C17: the log is read from its begin every time. For a log that has grown this gives what reading it once gives, so no record counts
  twice, and with ascending time stamps all of them count. Of records with the same time stamp that follow each other only the first one does.
\<close>

theorem growing_log_is_read_once:
  assumes "process_records i s old m = (Inr v, n)"
  shows "process_records i s (old @ new) n = process_records i s (old @ new) m \<and>
    (sorted_wrt (<) (al_last_event m # map fst old) \<longrightarrow>
      al_events n = al_events (fold (\<lambda>r. store_event i s (split_on (CHR '';'') (snd r))) old m)) \<and>
    process_records i s (old @ [r, (fst r, other)] @ new) m = process_records i s (old @ [r] @ new) m"
proof (intro conjI impI)
  have "process_records i s old n = (Inr (), n)"
    using records_done [OF assms] by (intro records_skipped) simp
  then show "process_records i s (old @ new) n = process_records i s (old @ new) m"
    by (simp add: records_append assms)
next
  have twice: "process_records i s [r, (fst r, other)] a = process_records i s [r] a" for a
  proof (cases "process_record i s r a")
    case (Pair q b)
    show ?thesis
    proof (cases q)
      case (Inr u)
      with Pair record_done [of i s r a u b] have "fst r \<le> al_last_event b" by (auto simp: leI)
      then show ?thesis using Pair Inr by (simp add: process_records_def done_with_def record_skipped)
    qed (use Pair in \<open>simp add: process_records_def\<close>)
  qed
  have "process_records i s ([r, (fst r, other)] @ new) = process_records i s ([r] @ new)"
    by (rule ext) (simp only: records_append twice)
  then show "process_records i s (old @ [r, (fst r, other)] @ new) m = process_records i s (old @ [r] @ new) m"
    by (simp only: records_append)
qed (rule ascending_records [OF assms], assumption)

lemma growing_log_is_read_once_witness:
  "\<forall>c. \<exists>n. process_records ''New'' False [(''2022'', replicate 14 (CHR '';''))] (alarm_log_new [] c []) = (Inr (), n) \<and>
     process_records ''New'' False ([(''2022'', replicate 14 (CHR '';''))] @ [(''2023'', [])]) n =
     process_records ''New'' False ([(''2022'', replicate 14 (CHR '';''))] @ [(''2023'', [])]) (alarm_log_new [] c []) \<and>
     dict_keys (al_events n) = ['' - '']"
proof
  fix c
  let ?m = "alarm_log_new [] c []" and ?r = "(''2022'', replicate 14 (CHR '';''))"
  have early: "al_last_event ?m < fst ?r" by (simp add: alarm_log_new_def)
  have "length (split_on (CHR '';'') (snd ?r)) = 15" by (simp add: numeral_nat)
  then obtain n where n: "process_records ''New'' False [?r] ?m = (Inr (), n)"
    using early by (simp add: process_records_def process_record_def done_with_def Let_def)
  from growing_log_is_read_once [OF n, of "[(''2023'', [])]"] early
  have "process_records ''New'' False ([?r] @ [(''2023'', [])]) n = process_records ''New'' False ([?r] @ [(''2023'', [])]) ?m"
    "al_events n = al_events (store_event ''New'' False (split_on (CHR '';'') (snd ?r)) ?m)" by auto
  with n show "\<exists>n. process_records ''New'' False [?r] ?m = (Inr (), n) \<and>
      process_records ''New'' False ([?r] @ [(''2023'', [])]) n = process_records ''New'' False ([?r] @ [(''2023'', [])]) ?m \<and>
      dict_keys (al_events n) = ['' - '']"
    by (intro exI [of _ n]) (simp add: store_event_def shown_if_def alarm_log_new_def Let_def numeral_nat)
qed

section \<open>Back from a lost connection\<close>

lemma disturb_keeps_exit: "al_exit m \<Longrightarrow> al_exit (disturb x m)"
  by (cases x) (auto simp: disturb_def log_shutdown_def al_sleep_def Let_def)

lemma shutdown_exits: "al_exit (log_shutdown b m)"
  by (auto simp: log_shutdown_def al_sleep_def Let_def)

lemma exit_ends: "al_exit m \<Longrightarrow> xs \<noteq> [] \<Longrightarrow> fst (log_reconnect ev b xs left m) \<noteq> None"
  using disturb_keeps_exit [of m "hd xs"] by (cases xs; cases b) (auto simp: Let_def)

lemma log_connection_frame: "cba_frame c (snd (log_connection c))"
proof -
  have "cba_frame c (c\<lparr>ca_log_id := i\<rparr>)" for c i by (simp add: cba_frame_def cba_tree_def)
  then show ?thesis
    unfolding log_connection_def
    by (auto split: option.split intro!: except_frame cba.seq run.basic_calls create_frame simp: cba.refl)
qed

lemma open_main_frame: "cba_frame c (snd (on_node (open_connection i) c))"
proof (rule on_node_frame)
  fix n :: node_state
  assume "tree n"
  then show "tree (snd (open_connection i n))" by (rule same_tree [rotated]) (rule open_frame)
qed

lemma again_time: "al_now m \<le> al_now (snd (connect_again m))"
proof -
  have host: "cba_frame c (c\<lparr>ca_host := h\<rparr>)" for c h by (simp add: cba_frame_def cba_tree_def)
  have "cba_frame c (snd (andthen (log_connection (cba_release ''main'' c)) (\<lambda>i c.
      andthen (own_connection ''main'' ((cba_release i c)\<lparr>ca_host := h\<rparr>)) (\<lambda>_ c. on_node (open_connection ''main'') (make_default c)))))"
    for c h
    by (intro cba.seq cba.trans [OF cba_release_frame log_connection_frame]
        cba.trans [OF cba_release_frame cba.trans [OF host own_frame]] cba.trans [OF default_frame open_main_frame])
  then show ?thesis
    unfolding cba_frame_def
    by (auto simp: connect_again_def on_cba_def al_now_def split: prod.split) (metis snd_conv)
qed

lemma sleep_time: "0 \<le> t \<Longrightarrow> al_now m + t \<le> al_now (al_sleep t m)"
  using run.advance [of t "al_cba m"] by (simp add: al_now_def al_sleep_def cba_run_def)

lemma on_cba_time:
  assumes "\<And>c. cba_frame c (snd (f c))"
  shows "al_now m \<le> al_now (snd (on_cba f m))"
  using assms [of "al_cba m"] by (auto simp: on_cba_def al_now_def cba_frame_def split: prod.split)

text \<open>A turn that does not end the loops: what is left afterwards, and whether the exit has been forced when nothing is left.\<close>

lemma late_exits: "left < 0 \<longrightarrow> al_exit (if left < 0 then log_shutdown b m else m)"
  by (simp add: shutdown_exits)

lemma first_turn:
  "fst (log_reconnect ev False (x # xs) left m) \<noteq> None \<or>
   (\<exists>b l n. log_reconnect ev False (x # xs) left m = log_reconnect ev b xs l n \<and> l \<le> left - 15 \<and> (\<not> b \<longrightarrow> l < 0 \<longrightarrow> al_exit n))"
proof -
  define a where "a = disturb x m"
  show ?thesis
  proof (cases "\<not> al_allow a \<or> al_exit a")
    case True
    then show ?thesis by (simp add: a_def Let_def)
  next
    case False
    obtain r b where r: "connect_again (al_sleep 15 a) = (r, b)" by force
    let ?l = "left - (al_now b - al_now a)"
    have "al_now a + 15 \<le> al_now b" using sleep_time [of 15 a] again_time [of "al_sleep 15 a"] r by simp
    then have l: "?l \<le> left - 15" by simp
    have step: "log_reconnect ev False (x # xs) left m =
        (case r of Inr _ \<Rightarrow> log_reconnect ev True xs ?l b
         | Inl _ \<Rightarrow> log_reconnect ev False xs ?l (if ?l < 0 then log_shutdown True b else b))"
      using False r by (simp add: a_def [symmetric] Let_def)
    show ?thesis
    proof (cases r)
      case (Inl e)
      with step have "log_reconnect ev False (x # xs) left m = log_reconnect ev False xs ?l (if ?l < 0 then log_shutdown True b else b)"
        by simp
      then show ?thesis using l late_exits [of ?l True b] by blast
    next
      case (Inr u)
      with step have "log_reconnect ev False (x # xs) left m = log_reconnect ev True xs ?l b" by simp
      then show ?thesis using l by blast
    qed
  qed
qed

lemma status_time: "al_now m \<le> al_now (snd (if al_connected m then on_cba node_status_OK m else (Inl no_connection, m)))"
  by (simp add: on_cba_time status_frame)

lemma waiting_turn:
  "fst (log_reconnect ev True (x # xs) left m) \<noteq> None \<or>
   (\<exists>b l n. log_reconnect ev True (x # xs) left m = log_reconnect ev b xs l n \<and> l \<le> left \<and> (b \<longrightarrow> l \<le> left - 5) \<and> (l < 0 \<longrightarrow> al_exit n))"
proof -
  define a where "a = disturb x m"
  obtain r b where r: "(if al_connected a then on_cba node_status_OK a else (Inl no_connection, a)) = (r, b)" by force
  have b: "al_now a \<le> al_now b" using status_time [of a] r by simp
  show ?thesis
  proof (cases "al_exit a")
    case True
    then show ?thesis by (simp add: a_def Let_def)
  next
    case go: False
    show ?thesis
    proof (cases "r = Inr True")
      case True
      obtain q c where q: "on_cba (force_primary_controller ev) b = (q, c)" by force
      let ?l = "left - (al_now c - al_now a)"
      have "al_now b \<le> al_now c" using on_cba_time [of "force_primary_controller ev" b] q by (simp add: primary_frame)
      then have l: "?l \<le> left" using b by simp
      show ?thesis
      proof (cases q)
        case (Inl e)
        then have "log_reconnect ev True (x # xs) left m = log_reconnect ev False xs ?l (if ?l < 0 then log_shutdown True c else c)"
          using go r q True by (simp add: a_def [symmetric] Let_def)
        then show ?thesis using l late_exits [of ?l True c] by blast
      qed (use go r q True in \<open>simp add: a_def [symmetric] Let_def\<close>)
    next
      case False
      let ?c = "al_sleep 5 b"
      let ?l = "left - (al_now ?c - al_now a)"
      have l: "?l \<le> left - 5" using b sleep_time [of 5 b] by simp
      moreover have "log_reconnect ev True (x # xs) left m = log_reconnect ev True xs ?l (if ?l < 0 then log_shutdown True ?c else ?c)"
        using go r False by (simp add: a_def [symmetric] Let_def)
      moreover have "?l \<le> left" using l by simp
      ultimately show ?thesis using late_exits [of ?l True ?c] by blast
    qed
  qed
qed

lemma log_reconnect_ends:
  "al_exit m \<and> xs \<noteq> [] \<or> left < 5 * of_nat k \<and> (b \<or> 0 < k) \<and> 2 * k + (if b then 2 else 1) \<le> length xs \<Longrightarrow>
     fst (log_reconnect ev b xs left m) \<noteq> None"
proof (induction xs arbitrary: b left m k)
  case (Cons x xs)
  show ?case
  proof (cases "al_exit m")
    case False
    with Cons.prems have left: "left < 5 * of_nat k" and k: "b \<or> 0 < k" and xs: "2 * k + (if b then 1 else 0) \<le> length xs" by auto
    have on: "fst (log_reconnect ev c xs l n) \<noteq> None"
      if "l < 5 * of_nat j" "l < 0 \<longrightarrow> al_exit n \<or> c" "2 * j + (if c then 2 else 1) \<le> length xs" for c l n j
    proof (cases "c \<or> 0 < j")
      case True
      with that show ?thesis by (intro Cons.IH [where k = j]) simp
    next
      case False
      with that have "al_exit n" "xs \<noteq> []" by auto
      then show ?thesis by (rule exit_ends)
    qed
    show ?thesis
    proof (cases b)
      case True
      from waiting_turn [of ev x xs left m] show ?thesis
      proof (elim disjE exE conjE)
        fix c l n
        assume step: "log_reconnect ev True (x # xs) left m = log_reconnect ev c xs l n"
          and l: "l \<le> left" "c \<longrightarrow> l \<le> left - 5" "l < 0 \<longrightarrow> al_exit n"
        have "fst (log_reconnect ev c xs l n) \<noteq> None"
        proof (cases "l < 0")
          case True
          then show ?thesis using l xs \<open>b\<close> by (intro exit_ends) auto
        next
          case False
          have "0 < k" using False l(1) left by (cases k) auto
          then have "of_nat (k - 1) = (of_nat k - 1 :: rat)" by simp
          with l(2) left have "l < 5 * of_nat (k - 1)" if c using that by simp
          then show ?thesis
            using on [of l "if c then k - 1 else k" n c] l left xs \<open>0 < k\<close> \<open>b\<close> by (cases c) auto
        qed
        then show ?thesis using step \<open>b\<close> by simp
      qed (use \<open>b\<close> in simp)
    next
      case b: False
      with k have "0 < k" by simp
      then have k1: "of_nat (k - 1) = (of_nat k - 1 :: rat)" by simp
      from first_turn [of ev x xs left m] show ?thesis
      proof (elim disjE exE conjE)
        fix c l n
        assume step: "log_reconnect ev False (x # xs) left m = log_reconnect ev c xs l n"
          and l: "l \<le> left - 15" "\<not> c \<longrightarrow> l < 0 \<longrightarrow> al_exit n"
        have "l < 5 * of_nat (k - 1)" using l(1) left k1 by simp
        moreover have "2 * (k - 1) + (if c then 2 else 1) \<le> length xs" using xs b \<open>0 < k\<close> by simp linarith
        ultimately have "fst (log_reconnect ev c xs l n) \<noteq> None"
          using l(2) by (intro on) blast+
        then show ?thesis using step b by simp
      qed (use b in simp)
    qed
  qed (use exit_ends in blast)
qed (simp split: if_splits)

text \<open>C18: the thread comes back from a lost connection: however the node answers, who else interferes and how long the commands take, it is
  out of both loops after at most two turns for five seconds of the time it is allowed, and one more.
\<close>

theorem log_thread_comes_back:
  assumes "al_max_time m < 5 * of_nat k" "0 < k" "2 * k < length (al_outside m)"
  shows "fst (reconnect_log ev m) \<noteq> Inl Hung"
  using log_reconnect_ends [of m "al_outside m" "al_max_time m" k False ev] assms
  by (auto simp: reconnect_log_def split: prod.split option.split)

lemma log_thread_comes_back_witness:
  "\<forall>c. fst (reconnect_log (\<lambda>_. None) (alarm_log_new ''host'' c (replicate 130 Calm))) \<noteq> Inl Hung"
  by (intro allI log_thread_comes_back [where k = 61]) (simp_all add: alarm_log_new_def)

end
