(* ===== verification/Spec2Isabelle.thy ===== *)
theory Spec2Isabelle
  imports Controller_Props Gateway_Props Rtc_Handler_Props Capacity_Runs Test_Verdict Monitor_Props Bat_Props
    Execution_Release Proxy_Props Node_Channels Consoles Cliss_Calls Alarm_Props Alarm_Log_Props
begin

text \<open>
  A model of the regression-test automation of ST_Tools: the chain that receives a new software
  build, queues it, chooses the build to test next, runs the test tool for it and stores the result,
  and the test tool itself with its test cases, steps, checks and its search for the capacity of
  the system under test.

  \<^bold>\<open>The program.\<close> Three D-Bus services keep the chain going, each with one state that its signals and
  requests change one after the other. The gateway (\<open>dbus/rtc_gateway/gateway/service.py\<close>) reads
  messages from TCP connections, translates the trigger of a message into actions and runs them. The
  build handler (\<open>dbus/rtc_build_handler/build_handler/service.py\<close>) owns the data base: a record per
  build, a queue per project, the baselines. The controller
  (\<open>dbus/rtc_controller/controller/service.py\<close>, \<open>rtc_handler.py\<close>) has one test at a time: it asks the
  build handler for the next build, prepares a test host, starts the test tool in a thread and
  waits for its signals. They talk through \<open>hss_utils/src/dbus\<close>: requests with answers to the build
  handler, signals to everyone. The test tool (\<open>HSS_rtc/HSS_rtc\<close> and \<open>HSS_rtc_lib/components\<close>) runs a
  suite of test cases, each a sequence of phases of steps; its schedulers drive the load
  generators, one of them to find the highest load the system stands. The launcher of the traffic
  generator (\<open>run_titansim_HSS_BAT\<close>) turns the options of a command line into its configuration. The library
  \<open>hss_utils/src\<close> is below all of them: channels by ssh and telnet (\<open>connection\<close>), the connections of a node
  (\<open>node/__init__.py\<close>), and the CBA nodes with their command line and their alarms (\<open>node/cba.py\<close>).

  \<^bold>\<open>Theories.\<close>
  \<^item> \<open>Rtc_Prelude\<close>: exceptions as the datatype \<open>exn\<close>, results as \<open>exn + 'a\<close> with \<open>andthen\<close> and \<open>done_with\<close>
    for the sequence of statements of a method on its state, JSON values, dictionaries as
    association lists in insertion order (\<open>dict_set\<close>, \<open>dict_del\<close>, the collection \<open>dict_simps\<close>), Python's
    string methods and index rules; \<open>Loose_Version\<close>: \<open>distutils.version.LooseVersion\<close> and its order.
  \<^item> \<open>Build_Handler\<close>: the state \<open>bh\<close> (data base in memory, data base on file), one definition per method
    of \<open>Handler\<close>, and \<open>bh_op\<close>, \<open>bh_run\<close> for a request of any kind. \<open>Build_Queue\<close>: the locale of a work queue,
    the queue of builds as its interpretation. \<open>Build_Inv\<close>, \<open>Build_Known\<close>: the invariants. \<open>Build_Props\<close>:
    the properties.
  \<^item> \<open>Dbus_Services\<close>: \<open>services.py\<close>, \<open>clients.py\<close> and \<open>signals.py\<close>; a \<open>link\<close> is a client with the service behind
    it, and the attempts to connect and to send are lists of outcomes.
  \<^item> \<open>Gateway\<close>, \<open>Gateway_Props\<close>; \<open>Controller\<close>, \<open>Controller_Props\<close>; \<open>Rtc_Handler\<close>, \<open>Rtc_Handler_Props\<close>: one
    definition per method, on the records \<open>gw\<close>, \<open>ctl\<close> and \<open>rtc\<close>. Gateway and controller contain a link to a
    build handler, so their properties are about the composition of the two services.
  \<^item> \<open>Scheduler\<close>, \<open>Capacity\<close>: \<open>scheduler.py\<close>. A scheduler is the record \<open>sched\<close>, the capacity handler \<open>ec\<close>
    extends it; what it tells the generators and the main program is the list \<open>effects\<close>.
    \<open>Capacity_Props\<close> holds the lemmas of one refresh, \<open>Capacity_Runs\<close> those of sequences of calls.
  \<^item> \<open>Monitors\<close>, \<open>Error_Monitor\<close> (\<open>monitor.py\<close>) and \<open>Bat_Instance\<close> (\<open>bat_instance.py\<close>): the thread that judges the
    load, the registers of error rates, and the thread of one instance of the traffic generator;
    \<open>Monitor_Props\<close>, \<open>Error_Monitor_Props\<close>, \<open>Bat_Props\<close> hold their properties.
  \<^item> \<open>Action_Handler\<close> (\<open>action_handler.py\<close>): the thread that runs configured commands in the load phase, on the
    record \<open>action_handler\<close> that contains both monitors; \<open>Action_Props\<close>. \<open>Execution\<close> (\<open>execution.py\<close>): the phase in
    which the generators run, on the record \<open>execution\<close> that contains a scheduler (either one, through the
    record \<open>sched_class\<close> of its operations) and the error monitor; \<open>Execution_Props\<close> (answers, ends of phases) and
    \<open>Execution_Release\<close> (failures, interrupts, execution without traffic).
  \<^item> \<open>Test_Suite\<close> (\<open>test_suite.py\<close>), \<open>Test_Steps\<close> (\<open>steps.py\<close>, \<open>phases.py\<close>, the state \<open>tool\<close> of \<open>RTC_Data\<close>),
    \<open>Test_Checks\<close> and \<open>Test_Traffic\<close> (\<open>checks.py\<close>), \<open>Test_Run\<close> (the main loop of \<open>HSS_rtc\<close>);
    \<open>Test_Props\<close>, \<open>Test_Loop\<close> and \<open>Test_Verdict\<close> hold the properties.
  \<^item> \<open>Launcher_Parser\<close> (the functions of \<open>scenario/config_handler.py\<close> on texts), \<open>Cabinet\<close> (\<open>scenario/cabinet.py\<close>: a node
    is the record \<open>cabinet\<close>, its class the field \<open>cab_kind\<close>), \<open>Launcher_Config\<close> (\<open>TestScenario\<close>, \<open>ExecutionProperties\<close>,
    ports and proxies) and \<open>Launcher_Build\<close> (\<open>build_config_file\<close>, on the records \<open>options\<close> and \<open>site\<close>);
    \<open>Launcher_Props\<close>, \<open>Cabinet_Props\<close> and \<open>Proxy_Props\<close>. Their errors are \<open>launch_error\<close>: an exception or the code
    the process quits with.
  \<^item> \<open>Terminal_Text\<close> (what a terminal prints), \<open>Channels\<close> (\<open>connection/ssh.py\<close>, \<open>telnet.py\<close>: a channel is the record \<open>channel\<close>, its
    process the list of what \<open>pexpect\<close> reports), \<open>Sessions\<close> (\<open>connection/session.py\<close>: one record, the class is its field),
    \<open>Nodes\<close> (\<open>node/__init__.py\<close>, the record \<open>node_state\<close>) and \<open>Consoles\<close> (\<open>console.py\<close>, \<open>gentraf.py\<close>); \<open>Session_Props\<close>, \<open>Session_Turns\<close>,
    \<open>Node_Props\<close>, \<open>Node_Runs\<close> and \<open>Node_Channels\<close> hold the properties.
  \<^item> \<open>Cliss_Text\<close> (the text of the command line of a CBA node), \<open>Cliss\<close>, \<open>Cliss_Config\<close>, \<open>Cliss_Certs\<close>, \<open>Cmw_Status\<close> and \<open>Cliss_Nodes\<close>: the
    methods of \<open>Cba\<close> as sequences of the calls of \<open>self\<close> they make, which are the record \<open>cba_ops\<close>. \<open>Cba_Node\<close>: the
    record \<open>cba\<close> around a \<open>node_state\<close>, with which these calls are run. \<open>Cliss_Props\<close>, \<open>Cba_Runs\<close> and \<open>Cliss_Calls\<close> hold the
    properties.
  \<^item> \<open>Alarm_Monitor\<close> and \<open>Alarm_Log\<close>: the threads over the alarms of a CBA node (\<open>node/cba.py\<close>, \<open>monitor.py\<close>), on the records
    \<open>alarm_monitor\<close> and \<open>alarm_log\<close>; \<open>Alarm_Props\<close>, \<open>Alarm_Log_Props\<close>.

  \<^bold>\<open>Interfaces.\<close> \<open>work_queue\<close> is the contract of a queue that can be listed, interpreted by the queue of
  builds; \<open>remote_object\<close> is what a client class and its service promise each other, interpreted by
  the stubs and the dispatcher of the build handler; \<open>state_frame\<close> is a preorder that operations keep to,
  with \<open>ec_frame\<close> for the loops of the capacity handler and \<open>scheduler_class\<close> for what \<open>Scheduler_Base\<close>
  needs of its subclass, interpreted by the frames of the capacity handler, of the test tool, of the
  action handler, of the phase EXECUTION and of a CBA node. \<open>channel_contract\<close> is what a session needs of its channel,
  interpreted by the three kinds of channels; \<open>finite_output\<close> is what makes the loops over a channel end;
  \<open>tree_walk\<close> is the walk over the connections that were extended from one, interpreted by closing and releasing;
  \<open>run_laws\<close> and \<open>cba_laws\<close> are what every call of a CBA node promises, interpreted by the calls of \<open>Cba_Node\<close>.

  \<^bold>\<open>What the lemmas show.\<close>
  \<^item> Build handler: the invariants \<open>wf_db\<close> and, for sound requests, that every queued build has a record;
    the order of extraction is that of the abstract queue; what clean, purge and promote do to every
    record; which requests write the file and which two kinds never do.
  \<^item> D-Bus: a remote call refines the local call; reconnection; dispatch of signals.
  \<^item> Gateway: order and failure of actions, one answer per request, the effect of the trigger of a new
    build on the data base of the build handler, restart with a saved configuration.
  \<^item> Controller: the life of a test from the queue to its stored result; when tests start and stop; what
    a lost connection does; the invariant of reachable states.
  \<^item> RTC handler: the commands of the preparation, the outcome of the traffic thread.
  \<^item> Schedulers: when a phase ends; the edges of the state machine of the capacity handler; references
    are published on good measurements only; bounds of the search; failures of its report.
  \<^item> Monitors and traffic instances: the status of the load monitor is the judgement of a window of samples;
    the error rate of a phase counts what the instances count in it; what a raise under the mutex, an early
    stop and a first sample do.
  \<^item> Action handler: when an action starts, that the monitors are restored, which time counts for its limit.
    Phase EXECUTION: what the end of a traffic phase means, what an interrupt in a look at the generators and late
    answers do, what is released after a failure and what is not while the capacity handler searches.
  \<^item> Test tool: the life cycle of a test case, printing and dictionary form of suites, exact conditions
    of checks, a phase without failures ran all its steps, termination of the main loop.
  \<^item> Launcher: patching keeps the configuration, addresses and host lists are read back as written, the nodes have
    valid addresses, proxies get different ports, what a proxy without a port number gets.
  \<^item> Connections: what opening sends, what closing leaves, that commands and questions end. Nodes: closing and
    releasing walk the recorded children to their end, names that a released extension has left there
    included; a closed connection has no process, with two classes of sessions as exceptions.
  \<^item> CBA nodes: what is read from an answer of the form that the parser looks for; methods that return have committed what
    they changed, and the node has accepted it; loops with a deadline end; connections stay a tree. Alarms: the data base
    follows the list as long as no look is broken off; a log that grows is read once;
    which thread comes back from a lost connection.

  \<^bold>\<open>Parameters, bounds and fuel.\<close> What is not in the repository is an argument: the answers of shells and
  hosts as functions of the command and the commands before it (\<open>shell\<close>, \<open>host\<close>), files as functions from paths
  (\<open>file_system\<close>, \<open>files\<close>), what \<open>pexpect\<close> sees as a list (\<open>expect\<close>), clocks and measurements as
  observations (\<open>obs\<close>, \<open>cabinet_obs\<close>), \<open>eval\<close> and \<open>float\<close> of a text and the library that reads addresses as functions
  (\<open>lit\<close>, \<open>flt\<close>, \<open>address\<close>), ports and local addresses of the launcher as the record \<open>site\<close>, identifiers and output of the processes of new channels as a list, \<open>isfile\<close> and \<open>ev\<close> (\<open>eval\<close>) as functions, the time each command takes as a list, the XML reader as a function, outcomes of connections and sends as lists of truth values. Hypotheses on
  them are named where they are used: \<open>no_errors\<close>, \<open>answers\<close> and \<open>idle_running\<close> for the controller, \<open>steady_env\<close>
  (the phase EXECUTION and the checks leave the configuration of the suite alone) for the main loop;
  the witness of each such property instantiates them. Numbers of Python are \<open>int\<close> or, for its floats, \<open>rat\<close>: rounding
  is not modelled. \<open>run_loop\<close> has fuel, one per iteration: the property on its termination shows that
  the number of test cases and retries left is enough, and why negative retries are excluded. The
  reconnection makes three attempts as the code does; the thread loops of monitors and instances run
  over the list of what they read, so they end with it. The threads over alarms run over a list of what others do before each turn. The walks over the connections of
  a node have fuel, one more than the number of connections: this is enough because an extension is younger than its
  parent, the invariant \<open>tree\<close>. Loops with a deadline (\<open>poll\<close>, \<open>scaling_loop\<close>) have a number of turns; 61 turns of five seconds are
  enough for 300 seconds, since the clock never runs back. \<open>session_open\<close>, \<open>sendoptionallines\<close> and the command line of the
  generator have fuel that the length of the output bounds. \<open>parse_block\<close> takes one turn for each line and one more, shown with
  it. No other definition has fuel. A mutex that is
  never released makes the operation \<open>None\<close>; threads interleave between operations, not inside them.

  \<^bold>\<open>Not modelled.\<close>
  \<^item> Inside the modelled files: log messages; the text of JSON (a message is a value or \<open>Garbage\<close>); the prefix
    of unicode strings in printed values; the order of Python 2 dictionaries, which is that of
    insertion here, so no property rests on another one; alignment of columns in reports and the wording of some
    messages; \<open>check_epm\<close>, \<open>check_reference\<close>; command lines, packing, plots; the construction of the parts of
    \<open>EXECUTION\<close> from the configuration, and its load, alarm and Diaproxy components, which enter as calls. The main
    loop of the test tool takes the phase EXECUTION as a parameter. An interrupt of the user reaches a traffic phase in the
    sleep or while the generators are being looked at, not in the refresh of the scheduler. The wait of the controller for
    the start of a test returns: a tool that never starts (\<open>run_traffic_outcome\<close>) blocks it for ever. The exit of the action
    handler by force counts in \<open>triggered\<close> as not being on line. Lines of configuration texts end with a line feed; a
    carriage return alone is not taken for an end of line, as \<open>str.splitlines\<close> does.
  \<^item> Of the library of connections and nodes: the exceptions \<open>OSError\<close> and \<open>ExceptionPexpect\<close> that \<open>pexpect\<close> may raise in a write or
    when a process is closed, which \<open>close_connection\<close> catches: processes take what is written and end when they are
    closed; \<open>TelnetChannelExtension\<close>, whose \<open>open\<close> uses attributes that do not exist; the
    threads \<open>Monitor\<close> of a node; of \<open>Cba\<close> the traffic information, the addresses of diameter peers, uploads and downloads, which rest on the
    library \<open>ipaddress\<close> or on copies of files; the other classes of nodes, which send commands and read answers.
  \<^item> Of the Python code: \<open>test_cases.py\<close> and \<open>ttcn_monitor.py\<close>, the monitor of memory, the JUnit report, the commands over the node library
    (\<open>hss_utils/src/st_command\<close>, \<open>hss_utils_bin\<close>), the processes of the launcher (\<open>run_titansim_HSS_BAT/components\<close>), its calls that read a
    node, the run of the scenario generator and the pattern that finds proxies in a configuration, the Rosetta client.
  \<^item> The C++ tools (proxies, load loggers and plotters, \<open>CpsMonitor\<close>, \<open>st-tools-lib\<close>), the shell automation, data
    generators and package builders: other languages, input and output.

  \<^bold>\<open>Left for later.\<close> The expected alarms and the connection guards of \<open>test_cases.py\<close>, and the classes of the other nodes, whose
  methods have the form of those of \<open>Cba\<close>: sequences of commands with a check of each answer.
\<close>

end
